(* ===== verification/Prelude.thy ===== *)
theory Prelude
  imports Main "HOL-Library.Char_ord" "HOL-Library.List_Lexorder" "HOL-Library.Multiset"
begin

text \<open>
  Shared vocabulary of the development.

  \<^item> A throwing TypeScript function returns a sum: \<open>Inl\<close> carries the error, \<open>Inr\<close> the result;
    \<open>bind_result\<close> is the sequencing of two such calls.
  \<^item> A SQL table is the list of its rows in rowid order. \<open>update_where\<close> is
    \<^verbatim>\<open>UPDATE ... WHERE\<close>, \<open>List.find\<close> is \<^verbatim>\<open>SELECT ... \<close> followed by \<^verbatim>\<open>.get()\<close>, and \<open>coalesce\<close> is the
    SQL function of that name.
  \<^item> A JavaScript string is a \<open>string\<close> whose characters are its code units (Latin-1 range);
    \<open>truthy\<close> is the Boolean reading of a nullable string.
  \<^item> The interface \<open>keyed_table\<close> states what every table with a primary key promises: what a
    lookup returns after an update of one row, and after an insertion.
\<close>

named_theorems result_simps \<open>sequencing of throwing computations\<close>
named_theorems table_simps \<open>lookups in tables after updates and insertions\<close>
named_theorems tree_simps \<open>paths and entries of tactic trees\<close>

section \<open>Throwing computations\<close>

definition bind_result :: "'e + 'a \<Rightarrow> ('a \<Rightarrow> 'e + 'b) \<Rightarrow> 'e + 'b" where
  "bind_result r f = (case r of Inl e \<Rightarrow> Inl e | Inr x \<Rightarrow> f x)"

lemma bind_result_Inl [simp, result_simps]: "bind_result (Inl e) f = Inl e"
  and bind_result_Inr [simp, result_simps]: "bind_result (Inr x) f = f x"
  by (simp_all add: bind_result_def)

lemma bind_result_eq_Inr [result_simps]:
  "bind_result r f = Inr y \<longleftrightarrow> (\<exists>x. r = Inr x \<and> f x = Inr y)"
  by (cases r) auto

lemma bind_result_eq_Inl [result_simps]:
  "bind_result r f = Inl e \<longleftrightarrow> r = Inl e \<or> (\<exists>x. r = Inr x \<and> f x = Inl e)"
  by (cases r) auto

lemma bind_result_InrE:
  assumes "bind_result r f = Inr y"
  obtains x where "r = Inr x" and "f x = Inr y"
  using assms by (cases r) auto

text \<open>A check that throws \<open>e\<close> unless the condition holds.\<close>

definition ensure :: "'e \<Rightarrow> bool \<Rightarrow> 'e + unit" where
  "ensure e b = (if b then Inr () else Inl e)"

lemma ensure_simps [simp, result_simps]:
  "ensure e True = Inr ()" "ensure e False = Inl e"
  by (simp_all add: ensure_def)

lemma ensure_eq_Inr [result_simps]: "ensure e b = Inr u \<longleftrightarrow> b"
  by (simp add: ensure_def)

lemma ensure_eq_Inl [result_simps]: "ensure e b = Inl e' \<longleftrightarrow> \<not> b \<and> e' = e"
  by (auto simp: ensure_def)

lemma sum_cases_Inr: "(case r of Inl e \<Rightarrow> Inl (f e) | Inr x \<Rightarrow> g x) = Inr y \<longleftrightarrow> (\<exists>x. r = Inr x \<and> g x = Inr y)"
  by (cases r) auto

section \<open>Nullable values\<close>

definition coalesce :: "'a option \<Rightarrow> 'a option \<Rightarrow> 'a option" where
  "coalesce a b = (case a of None \<Rightarrow> b | Some x \<Rightarrow> Some x)"

lemma coalesce_simps [simp]: "coalesce None b = b" "coalesce (Some x) b = Some x"
  by (simp_all add: coalesce_def)

lemma coalesce_eq_None [simp]: "coalesce a b = None \<longleftrightarrow> a = None \<and> b = None"
  by (cases a) auto

text \<open>A column that is set once.\<close>

definition write_once :: "'a option \<Rightarrow> 'a option \<Rightarrow> bool" where
  "write_once a b \<longleftrightarrow> a = None \<or> b = a"

lemma write_once_simps [simp]: "write_once a a" "write_once a (coalesce a b)"
  by (cases a; simp add: write_once_def)+

lemma write_once_trans: "write_once a b \<Longrightarrow> write_once b c \<Longrightarrow> write_once a c"
  by (auto simp: write_once_def)

text \<open>JavaScript reads \<^verbatim>\<open>null\<close>, \<^verbatim>\<open>undefined\<close> and the empty string as false.\<close>

definition truthy :: "string option \<Rightarrow> bool" where
  "truthy x = (case x of None \<Rightarrow> False | Some s \<Rightarrow> s \<noteq> [])"

lemma truthy_simps [simp]: "\<not> truthy None" "truthy (Some s) \<longleftrightarrow> s \<noteq> []"
  by (simp_all add: truthy_def)

lemma not_truthy_iff: "\<not> truthy x \<longleftrightarrow> x = None \<or> x = Some []"
  by (cases x) auto

section \<open>Tables\<close>

definition update_where :: "('r \<Rightarrow> bool) \<Rightarrow> ('r \<Rightarrow> 'r) \<Rightarrow> 'r list \<Rightarrow> 'r list" where
  "update_where P f rows = map (\<lambda>r. if P r then f r else r) rows"

lemma length_update_where [simp]: "length (update_where P f rows) = length rows"
  by (simp add: update_where_def)

lemma update_where_Nil [simp]: "update_where P f [] = []"
  and update_where_Cons [simp]:
    "update_where P f (r # rows) = (if P r then f r else r) # update_where P f rows"
  by (simp_all add: update_where_def)

lemma map_update_where:
  "(\<And>r. g (f r) = g r) \<Longrightarrow> map g (update_where P f rows) = map g rows"
  by (induction rows) auto

lemma update_where_append [simp]:
  "update_where P f (xs @ ys) = update_where P f xs @ update_where P f ys"
  by (simp add: update_where_def)

lemma set_update_where: "set (update_where P f rows) = (\<lambda>r. if P r then f r else r) ` set rows"
  by (simp add: update_where_def)

lemma update_where_id: "(\<And>r. r \<in> set rows \<Longrightarrow> P r \<Longrightarrow> f r = r) \<Longrightarrow> update_where P f rows = rows"
  by (induction rows) auto

text \<open>The row of a table with a given key.\<close>

definition lookup_row :: "('r \<Rightarrow> 'k) \<Rightarrow> 'k \<Rightarrow> 'r list \<Rightarrow> 'r option" where
  "lookup_row key k rows = List.find (\<lambda>r. key r = k) rows"

lemma lookup_row_Nil [simp, table_simps]: "lookup_row key k [] = None"
  and lookup_row_Cons [simp, table_simps]:
    "lookup_row key k (r # rows) = (if key r = k then Some r else lookup_row key k rows)"
  by (simp_all add: lookup_row_def)

lemma lookup_row_SomeD: "lookup_row key k rows = Some r \<Longrightarrow> r \<in> set rows \<and> key r = k"
  by (induction rows) (auto split: if_splits)

lemma lookup_row_None_iff [table_simps]: "lookup_row key k rows = None \<longleftrightarrow> k \<notin> key ` set rows"
  by (induction rows) auto

lemma lookup_row_append [table_simps]:
  "lookup_row key k (xs @ ys) =
     (case lookup_row key k xs of None \<Rightarrow> lookup_row key k ys | Some r \<Rightarrow> Some r)"
  by (induction xs) auto

lemma lookup_row_update_where [table_simps]:
  assumes "\<And>r. key (f r) = key r"
  shows "lookup_row key k (update_where P f rows) =
    map_option (\<lambda>r. if P r then f r else r) (lookup_row key k rows)"
  using assms by (induction rows) auto

lemma lookup_row_update_key:
  assumes "\<And>r. key (f r) = key r"
  shows "lookup_row key k' (update_where (\<lambda>r. key r = k) f rows) =
    (if k' = k then map_option f (lookup_row key k rows) else lookup_row key k' rows)"
  using assms by (induction rows) auto

lemma lookup_row_mem:
  "distinct (map key rows) \<Longrightarrow> r \<in> set rows \<Longrightarrow> lookup_row key (key r) rows = Some r"
  by (induction rows) (auto simp: image_iff)

lemma distinct_keys_unique:
  "distinct (map key rows) \<Longrightarrow> r \<in> set rows \<Longrightarrow> s \<in> set rows \<Longrightarrow> key r = key s \<Longrightarrow> r = s"
  by (induction rows) (auto simp: image_iff)

text \<open>
  Every row of the first state is still in the second one, related to its former self by \<open>R\<close>.
\<close>

definition rows_evolve ::
  "('k \<Rightarrow> 'st \<Rightarrow> 'row option) \<Rightarrow> ('row \<Rightarrow> 'row \<Rightarrow> bool) \<Rightarrow> 'st \<Rightarrow> 'st \<Rightarrow> bool" where
  "rows_evolve lookup R s s' \<longleftrightarrow>
     (\<forall>k r. lookup k s = Some r \<longrightarrow> (\<exists>r'. lookup k s' = Some r' \<and> R r r'))"

lemma rows_evolve_refl: "(\<And>r. R r r) \<Longrightarrow> rows_evolve lookup R s s"
  by (auto simp: rows_evolve_def)

lemma rows_evolve_trans:
  assumes "rows_evolve lookup R s t" and "rows_evolve lookup R t u" and "transp R"
  shows "rows_evolve lookup R s u"
  using assms by (fastforce simp: rows_evolve_def dest: transpD)

lemma rows_evolveD:
  "rows_evolve lookup R s s' \<Longrightarrow> lookup k s = Some r \<Longrightarrow> \<exists>r'. lookup k s' = Some r' \<and> R r r'"
  by (simp add: rows_evolve_def)

lemma rows_evolve_steps:
  assumes "step\<^sup>*\<^sup>* s s'" and "\<And>s s'. step s s' \<Longrightarrow> rows_evolve lookup R s s'"
    and "reflp R" and "transp R"
  shows "rows_evolve lookup R s s'"
  using assms(1)
proof (induction rule: rtranclp_induct)
  case base
  show ?case using assms(3) by (auto intro: rows_evolve_refl dest: reflpD)
next
  case (step t u)
  then show ?case using assms(2,4) by (blast intro: rows_evolve_trans)
qed

text \<open>
  The interface of a table with a primary key. A client names the row it changes by its key;
  the provider promises the result of every later lookup.
\<close>

locale keyed_table =
  fixes key :: "'row \<Rightarrow> 'k"
    and lookup :: "'k \<Rightarrow> 'st \<Rightarrow> 'row option"
    and update :: "'k \<Rightarrow> ('row \<Rightarrow> 'row) \<Rightarrow> 'st \<Rightarrow> 'st"
  assumes lookup_key: "lookup k st = Some r \<Longrightarrow> key r = k"
    and lookup_update:
      "(\<And>r. key (f r) = key r) \<Longrightarrow>
        lookup k' (update k f st) = (if k' = k then map_option f (lookup k st) else lookup k' st)"
begin

lemma lookup_update_same:
  "(\<And>r. key (f r) = key r) \<Longrightarrow> lookup k st = Some r \<Longrightarrow> lookup k (update k f st) = Some (f r)"
  by (simp add: lookup_update)

lemma lookup_update_other:
  "(\<And>r. key (f r) = key r) \<Longrightarrow> k' \<noteq> k \<Longrightarrow> lookup k' (update k f st) = lookup k' st"
  by (simp add: lookup_update)

lemma update_creates_no_row:
  "(\<And>r. key (f r) = key r) \<Longrightarrow> lookup k' (update k f st) = None \<longleftrightarrow> lookup k' st = None"
  by (simp add: lookup_update)

text \<open>
  A relation between the columns before and after an update of one row that every row satisfies
  reflexively holds for all rows of the table: the way a write-once column or a one-way status
  is carried from one statement to the whole table.
\<close>

lemma evolve_update:
  assumes "\<And>r. key (f r) = key r" and "\<And>r. R r r"
    and "\<And>r. lookup k st = Some r \<Longrightarrow> R r (f r)"
  shows "rows_evolve lookup R st (update k f st)"
  using assms by (auto simp: rows_evolve_def lookup_update)

end

section \<open>JavaScript strings and arrays\<close>

definition join :: "string \<Rightarrow> string list \<Rightarrow> string" where
  "join sep xs = (case xs of [] \<Rightarrow> [] | y # ys \<Rightarrow> y @ concat (map (\<lambda>s. sep @ s) ys))"

lemma join_simps [simp]:
  "join sep [] = []" "join sep [x] = x" "join sep (x # y # ys) = x @ sep @ join sep (y # ys)"
  by (simp_all add: join_def)

text \<open>\<^verbatim>\<open>Buffer.byteLength(s, "utf8")\<close>: one byte below 128, two for the rest of Latin-1.\<close>

definition utf8_length :: "string \<Rightarrow> nat" where
  "utf8_length s = sum_list (map (\<lambda>c. if of_char c < (128::nat) then 1 else 2) s)"

lemma utf8_length_append [simp]: "utf8_length (s @ t) = utf8_length s + utf8_length t"
  by (simp add: utf8_length_def)

lemma length_le_utf8_length: "length s \<le> utf8_length s"
  by (induction s) (auto simp: utf8_length_def)

definition ascii_lower :: "char \<Rightarrow> char" where
  "ascii_lower c =
     (let n = (of_char c :: nat) in if 65 \<le> n \<and> n \<le> 90 then char_of (n + 32) else c)"

text \<open>The characters of \<^verbatim>\<open>\s\<close> and of \<^verbatim>\<open>trim\<close> in Latin-1.\<close>

definition space_char :: "char \<Rightarrow> bool" where
  "space_char c = (let n = (of_char c :: nat) in (9 \<le> n \<and> n \<le> 13) \<or> n = 32 \<or> n = 160)"

definition trim :: "string \<Rightarrow> string" where
  "trim s = rev (dropWhile space_char (rev (dropWhile space_char s)))"

text \<open>The stable sort that \<^verbatim>\<open>Array.prototype.sort\<close> performs for a comparison read as "not greater".\<close>

fun insort_by :: "('a \<Rightarrow> 'a \<Rightarrow> bool) \<Rightarrow> 'a \<Rightarrow> 'a list \<Rightarrow> 'a list" where
  "insort_by le x [] = [x]"
| "insort_by le x (y # ys) = (if le x y then x # y # ys else y # insort_by le x ys)"

definition sort_by :: "('a \<Rightarrow> 'a \<Rightarrow> bool) \<Rightarrow> 'a list \<Rightarrow> 'a list" where
  "sort_by le xs = foldr (insort_by le) xs []"

lemma mset_insort_by [simp]: "mset (insort_by le x ys) = {#x#} + mset ys"
  by (induction ys) auto

lemma sort_by_simps [simp]:
  "sort_by le [] = []" "sort_by le (x # xs) = insort_by le x (sort_by le xs)"
  by (simp_all add: sort_by_def)

lemma mset_sort_by [simp]: "mset (sort_by le xs) = mset xs"
  by (induction xs) auto

lemma set_sort_by [simp]: "set (sort_by le xs) = set xs"
  using mset_sort_by [of le xs] by (metis set_mset_mset)

lemma length_sort_by [simp]: "length (sort_by le xs) = length xs"
  using mset_sort_by [of le xs] by (metis size_mset)

lemma sorted_insort_by:
  assumes "\<And>a b. le a b \<or> le b a" and "\<And>a b c. le a b \<Longrightarrow> le b c \<Longrightarrow> le a c"
  shows "sorted_wrt le ys \<Longrightarrow> sorted_wrt le (insort_by le x ys)"
proof (induction ys)
  case (Cons y ys)
  have "set (insort_by le x ys) = insert x (set ys)" by (induction ys) auto
  then show ?case using Cons assms by auto
qed simp

lemma sorted_sort_by:
  assumes "\<And>a b. le a b \<or> le b a" and "\<And>a b c. le a b \<Longrightarrow> le b c \<Longrightarrow> le a c"
  shows "sorted_wrt le (sort_by le xs)"
  by (induction xs) (simp_all add: sorted_insort_by [OF assms])

end
