(* ===== verification/Canonical_Json.thy ===== *)
theory Canonical_Json
  imports Json
begin

text \<open>
  The text of a JSON value determines the value: \<open>stringify\<close> is injective, shown by reading a
  text back piece by piece, and \<open>canonicalJson\<close> is \<open>stringify\<close> after the entries of every object
  have been sorted. Hence two values with printable keys have the same canonical text exactly when
  they agree up to the order of object entries (\<open>json_equiv\<close>).
\<close>

section \<open>Reading back\<close>

definition is_digit :: "char \<Rightarrow> bool" where
  "is_digit c = (let n = (of_char c :: nat) in 48 \<le> n \<and> n \<le> 57)"

definition delimited :: "string \<Rightarrow> bool" where
  "delimited r = (case r of [] \<Rightarrow> True | c # _ \<Rightarrow> \<not> is_digit c)"

lemma delimited_simps [simp]: "delimited []" "delimited (c # r) \<longleftrightarrow> \<not> is_digit c"
  by (simp_all add: delimited_def)

lemma punctuation_not_digit [simp]:
  "\<not> is_digit (CHR '','')" "\<not> is_digit (CHR '']'')" "\<not> is_digit (CHR ''}'')"
  "\<not> is_digit (CHR ''-'')" "\<not> is_digit (CHR ''['')" "\<not> is_digit (CHR ''{'')"
  "\<not> is_digit (CHR ''n'')" "\<not> is_digit (CHR ''t'')" "\<not> is_digit (CHR ''f'')"
  "\<not> is_digit ch_quote"
  by (simp_all add: is_digit_def ch_quote_def)

lemma digit_char_is_digit [simp]: "d < 10 \<Longrightarrow> is_digit (digit_char d)"
  by (simp add: is_digit_def digit_char_def)

definition digits_value :: "string \<Rightarrow> nat" where
  "digits_value s = foldl (\<lambda>acc c. 10 * acc + (of_char c - 48)) 0 s"

lemma show_nat_digits: "set (show_nat n) \<subseteq> Collect is_digit"
proof (induction n rule: show_nat.induct)
  case (1 n)
  then show ?case by (subst show_nat.simps) auto
qed

lemma show_nat_not_Nil: "show_nat n \<noteq> []"
  by (subst show_nat.simps) simp

lemma digits_value_show_nat: "digits_value (show_nat n) = n"
proof (induction n rule: show_nat.induct)
  case (1 n)
  then show ?case by (subst show_nat.simps) (simp add: digits_value_def digit_char_def)
qed

lemma takeWhile_show_nat: "delimited r \<Longrightarrow> takeWhile is_digit (show_nat n @ r) = show_nat n"
  using show_nat_digits [of n] by (cases r) (auto simp: takeWhile_append)

lemma show_nat_unique:
  assumes "show_nat n @ r = show_nat m @ q" and "delimited r" and "delimited q"
  shows "n = m \<and> r = q"
proof -
  have "show_nat n = show_nat m"
    using assms takeWhile_show_nat by metis
  then show ?thesis
    using assms(1) digits_value_show_nat by (metis same_append_eq)
qed

lemma hd_show_nat: "is_digit (hd (show_nat n))"
  using show_nat_digits [of n] show_nat_not_Nil [of n] by (cases "show_nat n") auto

lemma show_int_unique:
  assumes "show_int i @ r = show_int j @ q" and "delimited r" and "delimited q"
  shows "i = j \<and> r = q"
proof -
  have minus: "show_nat a @ x \<noteq> CHR ''-'' # y" for a x y
    using hd_show_nat [of a] show_nat_not_Nil [of a] by (cases "show_nat a") auto
  have sign: "(i < 0) = (j < 0)"
    using assms(1) minus [of "nat i" r "show_nat (nat (- j)) @ q"]
      minus [of "nat j" q "show_nat (nat (- i)) @ r"]
    by (cases "i < 0"; cases "j < 0") (auto simp: show_int_def)
  show ?thesis
  proof (cases "i < 0")
    case True
    with sign assms(1) have "show_nat (nat (- i)) @ r = show_nat (nat (- j)) @ q"
      by (simp add: show_int_def)
    from show_nat_unique [OF this assms(2,3)] True sign show ?thesis by linarith
  next
    case False
    with sign assms(1) have "show_nat (nat i) @ r = show_nat (nat j) @ q"
      by (simp add: show_int_def)
    from show_nat_unique [OF this assms(2,3)] False sign show ?thesis by linarith
  qed
qed

definition hex_value :: "char \<Rightarrow> nat" where
  "hex_value c = (let n = (of_char c :: nat) in if n < 58 then n - 48 else n - 87)"

lemma hex_value_hex_digit: "n < 16 \<Longrightarrow> hex_value (hex_digit n) = n"
  by (simp add: hex_value_def hex_digit_def)

text \<open>The first character of an escaped text, and what follows it.\<close>

fun unescape :: "string \<Rightarrow> (char \<times> string) option" where
  "unescape [] = None"
| "unescape (a # s) =
     (if a \<noteq> ch_backslash then Some (a, s)
      else case s of
        [] \<Rightarrow> None
      | b # r \<Rightarrow>
          if b = CHR ''b'' then Some (char_of (8::nat), r)
          else if b = CHR ''t'' then Some (char_of (9::nat), r)
          else if b = CHR ''n'' then Some (char_of (10::nat), r)
          else if b = CHR ''f'' then Some (char_of (12::nat), r)
          else if b = CHR ''r'' then Some (char_of (13::nat), r)
          else if b = CHR ''u'' then
            (case r of _ # _ # h # l # q \<Rightarrow> Some (char_of (16 * hex_value h + hex_value l), q) | _ \<Rightarrow> None)
          else Some (b, r))"

lemma char_of_eqI: "of_char c = (n::nat) \<Longrightarrow> char_of n = c"
  by auto

lemma unescape_escape: "unescape (escape_char c @ s) = Some (c, s)"
proof -
  have "char_of (16 * hex_value (hex_digit (of_char c div 16)) + hex_value (hex_digit (of_char c mod 16))) = c"
    if "(of_char c :: nat) < 32"
    using that by (subst (1 2) hex_value_hex_digit) auto
  then show ?thesis
    unfolding escape_char_def Let_def
    by (auto simp: ch_quote_def ch_backslash_def intro: char_of_eqI)
qed

lemma escape_char_starts: "\<exists>a s. escape_char c = a # s \<and> a \<noteq> ch_quote"
  by (auto simp: escape_char_def Let_def ch_quote_def ch_backslash_def)

lemma escaped_unique:
  "concat (map escape_char s) @ ch_quote # r = concat (map escape_char t) @ ch_quote # q \<Longrightarrow>
    s = t \<and> r = q"
proof (induction s arbitrary: t)
  case Nil
  then show ?case
    using escape_char_starts by (cases t) (auto, metis append_Cons list.inject)
next
  case (Cons c s)
  show ?case
  proof (cases t)
    case Nil
    with Cons.prems escape_char_starts [of c] show ?thesis by auto
  next
    case (Cons d t')
    with Cons.prems have
      eq: "escape_char c @ (concat (map escape_char s) @ ch_quote # r) =
        escape_char d @ (concat (map escape_char t') @ ch_quote # q)" by simp
    then have "c = d \<and> concat (map escape_char s) @ ch_quote # r = concat (map escape_char t') @ ch_quote # q"
      using unescape_escape by (metis option.inject prod.inject)
    with Cons.IH [of t'] Cons show ?thesis by simp
  qed
qed

lemma stringify_string_unique:
  assumes "stringify_string s @ r = stringify_string t @ q"
  shows "s = t \<and> r = q"
proof (rule escaped_unique)
  show "concat (map escape_char s) @ ch_quote # r = concat (map escape_char t) @ ch_quote # q"
    using assms by (simp only: stringify_string_def append_Cons append_Nil append_assoc list.inject)
qed

lemma hd_stringify_string: "\<exists>x. stringify_string s = ch_quote # x"
  by (simp add: stringify_string_def)

section \<open>The text determines the value\<close>

text \<open>The first characters of the six kinds of text.\<close>

definition text_kind :: "char \<Rightarrow> nat" where
  "text_kind c =
     (if c = CHR ''n'' then 0 else if c = CHR ''t'' \<or> c = CHR ''f'' then 1
      else if c = ch_quote then 3 else if c = CHR ''['' then 4 else if c = CHR ''{'' then 5 else 2)"

fun json_kind :: "json \<Rightarrow> nat" where
  "json_kind JNull = 0"
| "json_kind (JBool b) = 1"
| "json_kind (JNum i) = 2"
| "json_kind (JStr s) = 3"
| "json_kind (JArr vs) = 4"
| "json_kind (JObj es) = 5"

lemma digit_text_kind: "is_digit c \<Longrightarrow> text_kind c = 2"
  by (auto simp: text_kind_def)

lemma hd_show_int: "show_int i \<noteq> [] \<and> text_kind (hd (show_int i)) = 2"
proof (cases "i < 0")
  case True
  then show ?thesis by (simp add: show_int_def text_kind_def ch_quote_def)
next
  case False
  then show ?thesis
    using hd_show_nat [of "nat i"] show_nat_not_Nil [of "nat i"]
    by (simp add: show_int_def digit_text_kind)
qed

lemma stringify_kind: "stringify v \<noteq> [] \<and> text_kind (hd (stringify v)) = json_kind v"
  using hd_show_int hd_stringify_string
  by (cases v) (auto simp: text_kind_def ch_quote_def stringify_string_def)

lemma stringify_same_kind:
  assumes "stringify v @ r = stringify w @ q"
  shows "json_kind v = json_kind w"
  using stringify_kind [of v] stringify_kind [of w] arg_cong [OF assms, of hd] by auto

lemma stringify_start: "\<exists>c s. stringify v = c # s \<and> c \<noteq> CHR '']'' \<and> c \<noteq> CHR ''}'' \<and> c \<noteq> CHR '',''"
proof -
  obtain c s where cs: "stringify v = c # s" using stringify_kind [of v] by (cases "stringify v") auto
  have "c \<noteq> CHR '']'' \<and> c \<noteq> CHR ''}'' \<and> c \<noteq> CHR '',''"
  proof (cases v)
    case (JNum i)
    have "is_digit c \<or> c = CHR ''-''"
      using cs JNum hd_show_nat [of "nat i"] show_nat_not_Nil [of "nat i"]
      by (auto simp: show_int_def split: if_splits)
    then show ?thesis by auto
  qed (use cs in \<open>auto simp: stringify_string_def ch_quote_def split: if_splits\<close>)
  with cs show ?thesis by blast
qed

text \<open>
  Texts joined by commas and closed by a bracket: if each text of the list can be read back in
  any delimited context, so can the whole list.
\<close>

definition readable :: "('a \<Rightarrow> string) \<Rightarrow> 'a \<Rightarrow> bool" where
  "readable f x \<longleftrightarrow> (\<forall>y r q. f x @ r = f y @ q \<longrightarrow> delimited r \<longrightarrow> delimited q \<longrightarrow> x = y \<and> r = q)"

lemma readableD: "readable f x \<Longrightarrow> f x @ r = f y @ q \<Longrightarrow> delimited r \<Longrightarrow> delimited q \<Longrightarrow> x = y \<and> r = q"
  by (simp add: readable_def)

lemma join_Cons: "join sep (x # xs) = x @ concat (map (\<lambda>s. sep @ s) xs)"
  by (simp add: join_def)

lemma rest_unique:
  assumes "\<And>x. x \<in> set xs \<Longrightarrow> readable f x" and "\<not> is_digit b" and "b \<noteq> CHR '',''"
    and "concat (map (\<lambda>s. '','' @ s) (map f xs)) @ b # r = concat (map (\<lambda>s. '','' @ s) (map f ys)) @ b # q"
  shows "xs = ys \<and> r = q"
  using assms(1,4)
proof (induction xs arbitrary: ys)
  case Nil
  then show ?case using assms(3) by (cases ys) auto
next
  case (Cons x xs)
  show ?case
  proof (cases ys)
    case Nil
    with Cons.prems(2) assms(3) show ?thesis by auto
  next
    case (Cons y ys')
    let ?t = "\<lambda>zs p. concat (map (\<lambda>s. '','' @ s) (map f zs)) @ b # p"
    have del: "delimited (?t zs p)" for zs p using assms(2) by (cases zs) auto
    have "f x @ ?t xs r = f y @ ?t ys' q"
      using Cons.prems(2) Cons by simp
    then have "x = y \<and> ?t xs r = ?t ys' q"
      using readableD [OF _ _ del del] Cons.prems(1) by (meson list.set_intros(1))
    with Cons.IH [of ys'] Cons.prems(1) Cons show ?thesis by simp
  qed
qed

lemma join_unique:
  assumes "\<And>x. x \<in> set xs \<Longrightarrow> readable f x" and "\<not> is_digit b" and "b \<noteq> CHR '',''"
    and start: "\<And>x. \<exists>c s. f x = c # s \<and> c \<noteq> b"
    and eq: "join '','' (map f xs) @ b # r = join '','' (map f ys) @ b # q"
  shows "xs = ys \<and> r = q"
proof (cases xs)
  case Nil
  then show ?thesis using eq start by (cases ys) (auto simp: join_Cons, metis append_Cons list.inject)
next
  case xs: (Cons x xs')
  show ?thesis
  proof (cases ys)
    case Nil
    obtain c s where "f x = c # s" "c \<noteq> b" using start by blast
    with Nil xs eq show ?thesis by (simp add: join_Cons)
  next
    case (Cons y ys')
    let ?t = "\<lambda>zs p. concat (map (\<lambda>s. '','' @ s) (map f zs)) @ b # p"
    have del: "delimited (?t zs p)" for zs p using assms(2) by (cases zs) auto
    have "f x @ ?t xs' r = f y @ ?t ys' q" using eq xs Cons by (simp add: join_Cons)
    then have "x = y \<and> ?t xs' r = ?t ys' q"
      using readableD [OF _ _ del del] assms(1) xs by (meson list.set_intros(1))
    moreover from this have "xs' = ys' \<and> r = q"
      using rest_unique [of xs' f b r ys' q] assms(1-3) xs by auto
    ultimately show ?thesis using xs Cons by simp
  qed
qed

definition entry_text :: "string \<times> json \<Rightarrow> string" where
  "entry_text p = stringify_string (fst p) @ '':'' @ stringify (snd p)"

lemma stringify_obj: "stringify (JObj es) = ''{'' @ join '','' (map entry_text es) @ ''}''"
proof -
  have "(\<lambda>(k, v). stringify_string k @ '':'' @ stringify v) = entry_text"
    by (auto simp: entry_text_def)
  then show ?thesis by simp
qed

lemma entry_text_readable:
  assumes "readable stringify (snd p)"
  shows "readable entry_text p"
  unfolding readable_def
proof (intro allI impI)
  fix p' r q
  assume eq: "entry_text p @ r = entry_text p' @ q" and d: "delimited r" "delimited q"
  then have "fst p = fst p' \<and> '':'' @ stringify (snd p) @ r = '':'' @ stringify (snd p') @ q"
    by (intro stringify_string_unique) (simp add: entry_text_def)
  moreover from this have "snd p = snd p' \<and> r = q"
    using readableD [OF assms _ d] by simp
  ultimately show "p = p' \<and> r = q" by (simp add: prod_eq_iff)
qed

lemma entry_text_start: "\<exists>c s. entry_text p = c # s \<and> c \<noteq> CHR ''}''"
  by (simp add: entry_text_def stringify_string_def ch_quote_def)

lemma stringify_readable: "readable stringify v"
proof (induction v)
  case JNull
  show ?case unfolding readable_def
  proof (intro allI impI)
    fix y r q assume "stringify JNull @ r = stringify y @ q"
    moreover from this have "y = JNull" using stringify_same_kind [of JNull r y q] by (cases y) auto
    ultimately show "JNull = y \<and> r = q" by simp
  qed
next
  case (JBool b)
  show ?case unfolding readable_def
  proof (intro allI impI)
    fix y r q assume "stringify (JBool b) @ r = stringify y @ q"
    moreover from this obtain c where "y = JBool c"
      using stringify_same_kind [of "JBool b" r y q] by (cases y) auto
    ultimately show "JBool b = y \<and> r = q" by (auto split: if_splits)
  qed
next
  case (JNum i)
  show ?case unfolding readable_def
  proof (intro allI impI)
    fix y r q assume eq: "stringify (JNum i) @ r = stringify y @ q" and d: "delimited r" "delimited q"
    from eq obtain j where y: "y = JNum j"
      using stringify_same_kind [of "JNum i" r y q] by (cases y) auto
    with eq d show "JNum i = y \<and> r = q" using show_int_unique [of i r j q] by simp
  qed
next
  case (JStr s)
  show ?case unfolding readable_def
  proof (intro allI impI)
    fix y r q assume eq: "stringify (JStr s) @ r = stringify y @ q"
    then obtain t where y: "y = JStr t"
      using stringify_same_kind [of "JStr s" r y q] by (cases y) auto
    with eq show "JStr s = y \<and> r = q" using stringify_string_unique [of s r t q] by simp
  qed
next
  case (JArr vs)
  show ?case unfolding readable_def
  proof (intro allI impI)
    fix y r q assume eq: "stringify (JArr vs) @ r = stringify y @ q"
    then obtain ws where y: "y = JArr ws"
      using stringify_same_kind [of "JArr vs" r y q] by (cases y) auto
    have "vs = ws \<and> r = q"
      by (rule join_unique [of _ stringify "CHR '']''"])
        (use JArr eq y stringify_start in \<open>auto, blast\<close>)
    with y show "JArr vs = y \<and> r = q" by simp
  qed
next
  case (JObj es)
  show ?case unfolding readable_def
  proof (intro allI impI)
    fix y r q assume eq: "stringify (JObj es) @ r = stringify y @ q"
    then obtain fs where y: "y = JObj fs"
      using stringify_same_kind [of "JObj es" r y q] by (cases y) auto
    have "readable entry_text p" if "p \<in> set es" for p
      using that JObj [of p "snd p"] by (intro entry_text_readable) (auto simp: snds.simps)
    then have "es = fs \<and> r = q"
      by (rule join_unique [of _ entry_text "CHR ''}''"])
        (use eq y entry_text_start in \<open>auto simp: stringify_obj simp del: stringify.simps\<close>)
    with y show "JObj es = y \<and> r = q" by simp
  qed
qed

lemma stringify_inject: "stringify v = stringify w \<longleftrightarrow> v = w"
  using readableD [OF stringify_readable, of v "[]" w "[]"] by auto

section \<open>canonicalJson\<close>

text \<open>The value whose \<open>stringify\<close> text is the canonical text: entries sorted at every level.\<close>

fun canon :: "json \<Rightarrow> json" where
  "canon (JArr vs) = JArr (map canon vs)"
| "canon (JObj es) = JObj (sort_by entry_le (map (\<lambda>(k, v). (k, canon v)) es))"
| "canon v = v"

lemma insort_by_map_values:
  "insort_by entry_le (k, f v) (map (\<lambda>(k, v). (k, f v)) es) =
    map (\<lambda>(k, v). (k, f v)) (insort_by entry_le (k, v) es)"
  by (induction es) (auto simp: entry_le_def)

lemma sort_by_map_values:
  "sort_by entry_le (map (\<lambda>(k, v). (k, f v)) es) = map (\<lambda>(k, v). (k, f v)) (sort_by entry_le es)"
  by (induction es) (auto simp: insort_by_map_values)

lemmas sort_by_map_snd = sort_by_map_values [unfolded case_prod_unfold]

lemma canonicalJson_canon: "canonicalJson v = stringify (canon v)"
proof (induction v)
  case (JArr vs)
  then show ?case by (simp add: comp_def cong: map_cong)
next
  case (JObj es)
  have "map (\<lambda>p. stringify_string (fst p) @ '':'' @ canonicalJson (snd p)) (sort_by entry_le es) =
      map (\<lambda>p. stringify_string (fst p) @ '':'' @ stringify (canon (snd p))) (sort_by entry_le es)"
    by (rule map_cong [OF refl]) (use JObj in \<open>auto simp: snds.simps\<close>)
  then show ?case
    by (simp only: canonicalJson.simps canon.simps stringify.simps case_prod_unfold sort_by_map_snd list.map_comp
        comp_def fst_conv snd_conv)
qed auto

text \<open>Equality of JSON values up to the order of object entries.\<close>

inductive json_equiv :: "json \<Rightarrow> json \<Rightarrow> bool" where
  equiv_null: "json_equiv JNull JNull"
| equiv_bool: "json_equiv (JBool b) (JBool b)"
| equiv_num: "json_equiv (JNum i) (JNum i)"
| equiv_str: "json_equiv (JStr s) (JStr s)"
| equiv_arr: "list_all2 json_equiv vs ws \<Longrightarrow> json_equiv (JArr vs) (JArr ws)"
| equiv_obj: "mset es' = mset es \<Longrightarrow>
    list_all2 (\<lambda>p q. fst p = fst q \<and> json_equiv (snd p) (snd q)) es' fs \<Longrightarrow>
    json_equiv (JObj es) (JObj fs)"

inductive_simps json_equiv_simps [simp]:
  "json_equiv JNull w" "json_equiv (JBool b) w" "json_equiv (JNum i) w" "json_equiv (JStr s) w"
  "json_equiv (JArr vs) w" "json_equiv (JObj es) w"

text \<open>An object never holds one key twice.\<close>

fun wf_json :: "json \<Rightarrow> bool" where
  "wf_json (JArr vs) = list_all wf_json vs"
| "wf_json (JObj es) = (distinct (map fst es) \<and> list_all (\<lambda>(k, v). wf_json v) es)"
| "wf_json v = True"

lemma entry_le_by_key: "entry_le = (\<lambda>p q. locale_le (fst p) (fst q))"
  by (simp add: entry_le_def fun_eq_iff)

lemma canon_sound: "json_equiv v w \<Longrightarrow> wf_json v \<Longrightarrow> printable_keys v \<Longrightarrow> canon v = canon w"
proof (induction rule: json_equiv.induct)
  case (equiv_arr vs ws)
  from equiv_arr.IH equiv_arr.prems have "map canon vs = map canon ws"
    by (induction rule: list_all2_induct) auto
  then show ?case by simp
next
  case (equiv_obj es' es fs)
  let ?m = "map (\<lambda>(k, v). (k, canon v))"
  from equiv_obj.hyps(1) equiv_obj.prems
  have wf: "list_all (\<lambda>(k, v). wf_json v \<and> printable_keys v) es'"
    by (auto simp: list_all_iff mset_eq_setD [OF equiv_obj.hyps(1)])
  from equiv_obj.IH wf have "?m es' = ?m fs"
    by (induction rule: list_all2_induct) (auto simp: list_all_iff)
  moreover have "sort_by entry_le (?m es) = sort_by entry_le (?m es')"
    unfolding entry_le_by_key
  proof (rule locale_order.sort_unique)
    show "mset (?m es) = mset (?m es')" using equiv_obj.hyps(1) by (metis mset_map)
    show "distinct (map fst (?m es))" using equiv_obj.prems by (simp add: comp_def case_prod_beta)
    show "printable k" if "k \<in> fst ` set (?m es)" for k
      using that equiv_obj.prems(2) by (auto simp: list_all_iff)
  qed
  ultimately show ?case by simp
qed auto

lemma mset_map_match:
  "mset (map f xs) = mset (map f ys) \<Longrightarrow> \<exists>xs'. mset xs' = mset xs \<and> map f xs' = map f ys"
proof (induction ys arbitrary: xs)
  case (Cons y ys)
  then have "f y \<in> set (map f xs)" by (metis list.set_intros(1) list.simps(9) mset_eq_setD)
  then obtain x where x: "x \<in> set xs" "f x = f y" by auto
  then obtain as bs where xs: "xs = as @ x # bs" by (meson split_list)
  with Cons.prems x(2) have "mset (map f (as @ bs)) = mset (map f ys)" by simp
  then obtain xs' where "mset xs' = mset (as @ bs)" "map f xs' = map f ys"
    using Cons.IH by blast
  with x(2) xs show ?case by (intro exI [of _ "x # xs'"]) simp
qed simp

lemma canon_atom [simp]:
  "JNull = canon w \<longleftrightarrow> w = JNull" "JBool b = canon w \<longleftrightarrow> w = JBool b"
  "JNum i = canon w \<longleftrightarrow> w = JNum i" "JStr s = canon w \<longleftrightarrow> w = JStr s"
  by (cases w, auto)+

lemma canon_complete: "canon v = canon w \<Longrightarrow> json_equiv v w"
proof (induction v arbitrary: w)
  case (JArr vs)
  from JArr.prems obtain ws where w: "w = JArr ws" "map canon vs = map canon ws"
    by (cases w) auto
  then have "list_all2 json_equiv vs ws"
    using JArr.IH by (auto simp: list_all2_conv_all_nth dest: map_eq_imp_length_eq)
      (metis length_map nth_map nth_mem)
  with w show ?case by simp
next
  case (JObj es)
  let ?m = "\<lambda>p. (fst p, canon (snd p))"
  from JObj.prems obtain fs where w: "w = JObj fs"
    and eq: "sort_by entry_le (map ?m es) = sort_by entry_le (map ?m fs)"
    by (cases w) (auto simp: case_prod_unfold)
  from eq have "mset (map ?m es) = mset (map ?m fs)" by (metis mset_sort_by)
  then obtain es' where es': "mset es' = mset es" "map ?m es' = map ?m fs"
    using mset_map_match by blast
  have "list_all2 (\<lambda>p q. fst p = fst q \<and> json_equiv (snd p) (snd q)) es' fs"
    unfolding list_all2_conv_all_nth
  proof (intro conjI allI impI)
    show len: "length es' = length fs" using es'(2) by (rule map_eq_imp_length_eq)
    fix i assume i: "i < length es'"
    then have "?m (es' ! i) = ?m (fs ! i)"
      using arg_cong [OF es'(2), of "\<lambda>xs. xs ! i"] len by simp
    moreover have "es' ! i \<in> set es" using i mset_eq_setD [OF es'(1)] nth_mem by blast
    moreover have "snd (es' ! i) \<in> Basic_BNFs.snds (es' ! i)"
      by (cases "es' ! i") (auto intro: snds.intros)
    ultimately show "fst (es' ! i) = fst (fs ! i)" "json_equiv (snd (es' ! i)) (snd (fs ! i))"
      using JObj.IH [of "es' ! i" "snd (es' ! i)" "snd (fs ! i)"] by simp_all
  qed
  with es'(1) w show ?case by auto
qed auto

lemma same_canonical_text:
  "wf_json v \<Longrightarrow> printable_keys v \<Longrightarrow> canonicalJson v = canonicalJson w \<longleftrightarrow> json_equiv v w"
  using canon_sound canon_complete by (metis canonicalJson_canon stringify_inject)

text \<open>
  C1: on a JSON value whose objects hold no key twice and have keys of printable ASCII only, the
  canonical text determines the value up to the order of the entries of its objects, and only up
  to that.
\<close>

theorem canonicalJson_identity:
  assumes "wf_json v" and "printable_keys v"
  shows "canonicalJson v = canonicalJson w \<longleftrightarrow> json_equiv v w"
  by (rule same_canonical_text [OF assms])

theorem canonicalJson_identity_witness:
  "canonicalJson (JObj [(''b'', JNum 1), (''a'', JStr ''x'')]) =
      canonicalJson (JObj [(''a'', JStr ''x''), (''b'', JNum 1)])
   \<and> \<not> json_equiv (JObj [(''b'', JNum 1)]) (JObj [(''b'', JStr ''1'')])"
proof -
  have "json_equiv (JObj [(''b'', JNum 1), (''a'', JStr ''x'')])
      (JObj [(''a'', JStr ''x''), (''b'', JNum 1)])"
    by (simp, rule exI [of _ "[(''a'', JStr ''x''), (''b'', JNum 1)]"]) auto
  then have "canonicalJson (JObj [(''b'', JNum 1), (''a'', JStr ''x'')]) =
      canonicalJson (JObj [(''a'', JStr ''x''), (''b'', JNum 1)])"
    by (subst canonicalJson_identity) (auto simp: printable_def)
  moreover have "canonicalJson (JObj [(''b'', JNum 1)]) \<noteq> canonicalJson (JObj [(''b'', JStr ''1'')])"
    by code_simp
  then have "\<not> json_equiv (JObj [(''b'', JNum 1)]) (JObj [(''b'', JStr ''1'')])"
    by (subst (asm) canonicalJson_identity) (auto simp: printable_def)
  ultimately show ?thesis by blast
qed

end
