(* ===== verification/Protocol_Types.thy ===== *)
theory Protocol_Types
  imports Canonical_Json
begin

text \<open>
  The messages of \<^verbatim>\<open>workers/bun/src/protocol/types.ts\<close> that the worker keeps durably: the
  \<open>execute_action\<close> command with everything it carries, its JSON value, and the two texts derived
  from it that decide identity and compatibility (\<open>action_text\<close>, \<open>physicalConfiguration\<close>).
  An optional property is an \<open>option\<close>, a property that may be \<^verbatim>\<open>null\<close> is an \<open>option\<close> too, and one
  that may be both is an \<open>option option\<close> whose outer \<open>None\<close> is absence.
\<close>

section \<open>Messages\<close>

record artifact_instance =
  art_id :: string
  art_kind :: string
  art_output_name :: "string option"
  art_producer_occurrence_id :: string
  art_value :: json
  art_version :: "int option option"
  art_supersedes_artifact_id :: "string option option"
  art_content_hash :: "string option option"
  art_media_type :: "string option option"
  art_filename :: "string option option"
  art_title :: "string option option"

record artifact_output_declaration =
  decl_name :: string
  decl_kind :: string

record acceptance_contract =
  acc_output :: string
  acc_gate_key :: string
  acc_subject_kind :: string
  acc_subject_artifact_id :: string

datatype reasoning_capability = Enumerated "string list" | Unsupported

datatype tool_policy = Exact_Tools "string list" | Native_Permissions

datatype tool_enforcement = Enforce_Exact | Enforce_Native_Permissions

record resolved_tool_profile =
  profile_tools :: "string list"

datatype workspace_access = Access_None | Access_Read_Only | Access_Read_Write

datatype context_mode = Fresh | Continue_From

record execution_identity =
  id_launch_id :: string
  id_action_id :: string
  id_run_id :: string
  id_occurrence_id :: string
  id_attempt_id :: string
  id_semantic_step_key :: string

record execution_performer =
  perf_member_key :: string
  perf_member_name :: string
  perf_class_key :: string
  perf_class_name :: string

record execution_work =
  work_quest_objective :: string
  work_class_instructions :: string
  work_step_instruction :: string
  work_inputs :: "(string \<times> artifact_instance) list"
  work_declared_outputs :: "artifact_output_declaration list"
  work_acceptance_contract :: "acceptance_contract option option"

record model_choice =
  model_provider :: string
  model_model :: string

record execution_configuration =
  conf_harness_kind :: string
  conf_model :: model_choice
  conf_reasoning :: "string option"
  conf_reasoning_capability :: reasoning_capability
  conf_tool_policy :: tool_policy
  conf_tool_enforcement :: tool_enforcement
  conf_resolved_tool_profile :: resolved_tool_profile

record logical_workspace =
  lw_workspace_id :: string
  lw_workspace_key :: string

record execution_workspace =
  ew_worktree_id :: string
  ew_workspace_binding_id :: string
  ew_canonical_root :: string
  ew_access :: workspace_access

record execution_context =
  ctx_mode :: context_mode
  ctx_source_occurrence_id :: "string option"
  ctx_logical_lineage_id :: string

record resolved_execution =
  exec_identity :: execution_identity
  exec_performer :: execution_performer
  exec_work :: execution_work
  exec_configuration :: execution_configuration
  exec_logical_workspace :: logical_workspace
  exec_execution_workspace :: execution_workspace
  exec_context :: execution_context

datatype authorization_kind = Auth_Initial | Auth_Human

datatype continuation_mode = Cont_Fresh | Cont_Retained

record operational_recovery_execution =
  rec_epoch_number :: int
  rec_attempt_in_epoch :: int
  rec_attempt_allowance :: "int option"
  rec_authorization_kind :: authorization_kind
  rec_continuation_mode :: continuation_mode
  rec_retained_lineage_id :: "string option"
  rec_source_attempt_id :: "string option"
  rec_request_id :: "string option"

record environment_profile =
  prof_id :: string
  prof_digest :: string

record setup_environment =
  senv_environment_id :: string
  senv_incarnation :: string
  senv_profile :: environment_profile

record harness_setup_binding =
  setup_setup_id :: string
  setup_setup_generation :: int
  setup_physical_lineage_id :: string
  setup_environment :: setup_environment
  setup_config_identity :: string

record execute_action =
  act_worker_id :: string
  act_execution :: resolved_execution
  act_action_id :: string
  act_run_id :: string
  act_occurrence_id :: string
  act_attempt_id :: string
  act_semantic_step_key :: string
  act_instruction :: string
  act_inputs :: "(string \<times> artifact_instance) list"
  act_declared_outputs :: "string list"
  act_context_selector :: context_mode
  act_context_lineage_occurrence_id :: "string option"
  act_operational_recovery :: "operational_recovery_execution option"
  act_harness_setup :: "harness_setup_binding option"

definition WORKER_PROTOCOL_VERSION :: int where
  "WORKER_PROTOCOL_VERSION = 19"

datatype dispatch_state = Accepted | Running | Completed | Failed | Uncertain

section \<open>JSON values of the messages\<close>

definition j_nullable :: "('a \<Rightarrow> json) \<Rightarrow> 'a option \<Rightarrow> json" where
  "j_nullable f x = (case x of None \<Rightarrow> JNull | Some y \<Rightarrow> f y)"

definition j_optional :: "string \<Rightarrow> ('a \<Rightarrow> json) \<Rightarrow> 'a option \<Rightarrow> (string \<times> json) list" where
  "j_optional k f x = (case x of None \<Rightarrow> [] | Some y \<Rightarrow> [(k, f y)])"

definition j_strings :: "string list \<Rightarrow> json" where
  "j_strings xs = JArr (map JStr xs)"

definition artifact_value :: "artifact_instance \<Rightarrow> json" where
  "artifact_value a = JObj (
     [(''id'', JStr (art_id a)), (''kind'', JStr (art_kind a))]
     @ j_optional ''output_name'' JStr (art_output_name a)
     @ [(''producer_occurrence_id'', JStr (art_producer_occurrence_id a)), (''value'', art_value a)]
     @ j_optional ''version'' (j_nullable JNum) (art_version a)
     @ j_optional ''supersedes_artifact_id'' (j_nullable JStr) (art_supersedes_artifact_id a)
     @ j_optional ''content_hash'' (j_nullable JStr) (art_content_hash a)
     @ j_optional ''media_type'' (j_nullable JStr) (art_media_type a)
     @ j_optional ''filename'' (j_nullable JStr) (art_filename a)
     @ j_optional ''title'' (j_nullable JStr) (art_title a))"

definition inputs_value :: "(string \<times> artifact_instance) list \<Rightarrow> json" where
  "inputs_value xs = JObj (map (\<lambda>(k, a). (k, artifact_value a)) xs)"

definition declaration_value :: "artifact_output_declaration \<Rightarrow> json" where
  "declaration_value d = JObj [(''name'', JStr (decl_name d)), (''kind'', JStr (decl_kind d))]"

definition contract_value :: "acceptance_contract \<Rightarrow> json" where
  "contract_value c = JObj
     [(''output'', JStr (acc_output c)), (''gate_key'', JStr (acc_gate_key c)),
      (''subject_kind'', JStr (acc_subject_kind c)),
      (''subject_artifact_id'', JStr (acc_subject_artifact_id c))]"

fun reasoning_capability_value :: "reasoning_capability \<Rightarrow> json" where
  "reasoning_capability_value (Enumerated vs) =
     JObj [(''kind'', JStr ''enumerated''), (''values'', j_strings vs)]"
| "reasoning_capability_value Unsupported = JObj [(''kind'', JStr ''unsupported'')]"

fun tool_policy_value :: "tool_policy \<Rightarrow> json" where
  "tool_policy_value (Exact_Tools ts) = JObj [(''kind'', JStr ''exact''), (''tools'', j_strings ts)]"
| "tool_policy_value Native_Permissions = JObj [(''kind'', JStr ''native_permissions'')]"

fun tool_enforcement_value :: "tool_enforcement \<Rightarrow> json" where
  "tool_enforcement_value Enforce_Exact = JStr ''exact''"
| "tool_enforcement_value Enforce_Native_Permissions = JStr ''native_permissions''"

fun workspace_access_value :: "workspace_access \<Rightarrow> json" where
  "workspace_access_value Access_None = JStr ''none''"
| "workspace_access_value Access_Read_Only = JStr ''read_only''"
| "workspace_access_value Access_Read_Write = JStr ''read_write''"

fun context_mode_value :: "context_mode \<Rightarrow> json" where
  "context_mode_value Fresh = JStr ''fresh''"
| "context_mode_value Continue_From = JStr ''continue_from''"

definition model_value :: "model_choice \<Rightarrow> json" where
  "model_value m = JObj [(''provider'', JStr (model_provider m)), (''model'', JStr (model_model m))]"

definition tool_profile_value :: "resolved_tool_profile \<Rightarrow> json" where
  "tool_profile_value p = JObj [(''tools'', j_strings (profile_tools p))]"

definition configuration_value :: "execution_configuration \<Rightarrow> json" where
  "configuration_value c = JObj
     [(''harness_kind'', JStr (conf_harness_kind c)), (''model'', model_value (conf_model c)),
      (''reasoning'', j_nullable JStr (conf_reasoning c)),
      (''reasoning_capability'', reasoning_capability_value (conf_reasoning_capability c)),
      (''tool_policy'', tool_policy_value (conf_tool_policy c)),
      (''tool_enforcement'', tool_enforcement_value (conf_tool_enforcement c)),
      (''resolved_tool_profile'', tool_profile_value (conf_resolved_tool_profile c))]"

definition work_value :: "execution_work \<Rightarrow> json" where
  "work_value w = JObj (
     [(''quest_objective'', JStr (work_quest_objective w)),
      (''class_instructions'', JStr (work_class_instructions w)),
      (''step_instruction'', JStr (work_step_instruction w)),
      (''inputs'', inputs_value (work_inputs w)),
      (''declared_outputs'', JArr (map declaration_value (work_declared_outputs w)))]
     @ j_optional ''acceptance_contract'' (j_nullable contract_value) (work_acceptance_contract w))"

definition execution_value :: "resolved_execution \<Rightarrow> json" where
  "execution_value e = JObj
     [(''identity'', JObj
        [(''launch_id'', JStr (id_launch_id (exec_identity e))),
         (''action_id'', JStr (id_action_id (exec_identity e))),
         (''run_id'', JStr (id_run_id (exec_identity e))),
         (''occurrence_id'', JStr (id_occurrence_id (exec_identity e))),
         (''attempt_id'', JStr (id_attempt_id (exec_identity e))),
         (''semantic_step_key'', JStr (id_semantic_step_key (exec_identity e)))]),
      (''performer'', JObj
        [(''member_key'', JStr (perf_member_key (exec_performer e))),
         (''member_name'', JStr (perf_member_name (exec_performer e))),
         (''class_key'', JStr (perf_class_key (exec_performer e))),
         (''class_name'', JStr (perf_class_name (exec_performer e)))]),
      (''work'', work_value (exec_work e)),
      (''configuration'', configuration_value (exec_configuration e)),
      (''logical_workspace'', JObj
        [(''workspace_id'', JStr (lw_workspace_id (exec_logical_workspace e))),
         (''workspace_key'', JStr (lw_workspace_key (exec_logical_workspace e)))]),
      (''execution_workspace'', JObj
        [(''worktree_id'', JStr (ew_worktree_id (exec_execution_workspace e))),
         (''workspace_binding_id'', JStr (ew_workspace_binding_id (exec_execution_workspace e))),
         (''canonical_root'', JStr (ew_canonical_root (exec_execution_workspace e))),
         (''access'', workspace_access_value (ew_access (exec_execution_workspace e)))]),
      (''context'', JObj
        [(''mode'', context_mode_value (ctx_mode (exec_context e))),
         (''source_occurrence_id'', j_nullable JStr (ctx_source_occurrence_id (exec_context e))),
         (''logical_lineage_id'', JStr (ctx_logical_lineage_id (exec_context e)))])]"

fun authorization_kind_value :: "authorization_kind \<Rightarrow> json" where
  "authorization_kind_value Auth_Initial = JStr ''initial''"
| "authorization_kind_value Auth_Human = JStr ''human''"

fun continuation_mode_value :: "continuation_mode \<Rightarrow> json" where
  "continuation_mode_value Cont_Fresh = JStr ''fresh''"
| "continuation_mode_value Cont_Retained = JStr ''retained''"

definition recovery_value :: "operational_recovery_execution \<Rightarrow> json" where
  "recovery_value r = JObj
     [(''epoch_number'', JNum (rec_epoch_number r)),
      (''attempt_in_epoch'', JNum (rec_attempt_in_epoch r)),
      (''attempt_allowance'', j_nullable JNum (rec_attempt_allowance r)),
      (''authorization_kind'', authorization_kind_value (rec_authorization_kind r)),
      (''continuation_mode'', continuation_mode_value (rec_continuation_mode r)),
      (''retained_lineage_id'', j_nullable JStr (rec_retained_lineage_id r)),
      (''source_attempt_id'', j_nullable JStr (rec_source_attempt_id r)),
      (''request_id'', j_nullable JStr (rec_request_id r))]"

definition setup_binding_value :: "harness_setup_binding \<Rightarrow> json" where
  "setup_binding_value s = JObj
     [(''setup_id'', JStr (setup_setup_id s)),
      (''setup_generation'', JNum (setup_setup_generation s)),
      (''physical_lineage_id'', JStr (setup_physical_lineage_id s)),
      (''environment'', JObj
        [(''environment_id'', JStr (senv_environment_id (setup_environment s))),
         (''incarnation'', JStr (senv_incarnation (setup_environment s))),
         (''profile'', JObj
           [(''id'', JStr (prof_id (senv_profile (setup_environment s)))),
            (''digest'', JStr (prof_digest (senv_profile (setup_environment s))))])]),
      (''config_identity'', JStr (setup_config_identity s))]"

definition action_value :: "execute_action \<Rightarrow> json" where
  "action_value a = JObj (
     [(''type'', JStr ''execute_action''),
      (''protocol_version'', JNum WORKER_PROTOCOL_VERSION),
      (''worker_id'', JStr (act_worker_id a)),
      (''execution'', execution_value (act_execution a)),
      (''action_id'', JStr (act_action_id a)),
      (''run_id'', JStr (act_run_id a)),
      (''occurrence_id'', JStr (act_occurrence_id a)),
      (''attempt_id'', JStr (act_attempt_id a)),
      (''semantic_step_key'', JStr (act_semantic_step_key a)),
      (''instruction'', JStr (act_instruction a)),
      (''inputs'', inputs_value (act_inputs a)),
      (''declared_outputs'', j_strings (act_declared_outputs a)),
      (''context_requirement'', JObj
        [(''selector'', context_mode_value (act_context_selector a)), (''value'', JNull)]),
      (''context_lineage_occurrence_id'', j_nullable JStr (act_context_lineage_occurrence_id a))]
     @ j_optional ''operational_recovery'' recovery_value (act_operational_recovery a)
     @ j_optional ''harness_setup'' setup_binding_value (act_harness_setup a))"

text \<open>The durable text of an Action (column \<^verbatim>\<open>action_json\<close>).\<close>

definition action_text :: "execute_action \<Rightarrow> string" where
  "action_text a = canonicalJson (action_value a)"

section \<open>Configurations\<close>

record setup_configuration =
  sconf_model :: model_choice
  sconf_reasoning :: "string option"
  sconf_reasoningCapability :: reasoning_capability
  sconf_toolPolicy :: tool_policy
  sconf_toolEnforcement :: tool_enforcement
  sconf_resolvedToolProfile :: resolved_tool_profile

record harness_setup_context =
  sctx_setupId :: string
  sctx_setupGeneration :: int
  sctx_actionId :: string
  sctx_runId :: string
  sctx_occurrenceId :: string
  sctx_memberKey :: string
  sctx_harnessKind :: string
  sctx_physicalLineageId :: string
  sctx_logicalLineageId :: string
  sctx_workspaceId :: string
  sctx_worktreeId :: string
  sctx_workspaceBindingId :: string
  sctx_canonicalRoot :: string
  sctx_workspaceAccess :: workspace_access
  sctx_profile :: environment_profile
  sctx_configuration :: setup_configuration

text \<open>
  The JSON value whose canonical text is the physical configuration. Both callers pass the same
  eleven members; the tool list is sorted by \<^verbatim>\<open>Array.prototype.sort\<close> (code unit order).
\<close>

definition configuration_members ::
  "string \<Rightarrow> model_choice \<Rightarrow> string option \<Rightarrow> reasoning_capability \<Rightarrow> tool_policy \<Rightarrow>
   tool_enforcement \<Rightarrow> string list \<Rightarrow> string \<Rightarrow> string \<Rightarrow> string \<Rightarrow> string \<Rightarrow> workspace_access \<Rightarrow> json" where
  "configuration_members kind model reasoning capability policy enforcement tools
     workspace_id binding_id worktree_id root access = JObj
     [(''harness_kind'', JStr kind),
      (''model'', model_value model),
      (''reasoning'', j_nullable JStr reasoning),
      (''reasoning_capability'', reasoning_capability_value capability),
      (''tool_policy'', tool_policy_value policy),
      (''tool_enforcement'', tool_enforcement_value enforcement),
      (''resolved_tool_profile'', JObj [(''tools'', j_strings (sort tools))]),
      (''logical_workspace_id'', JStr workspace_id),
      (''workspace_binding_id'', JStr binding_id),
      (''worktree_id'', JStr worktree_id),
      (''workspace_root'', JStr root),
      (''workspace_access'', workspace_access_value access)]"

definition physicalConfigurationForSetup :: "harness_setup_context \<Rightarrow> string" where
  "physicalConfigurationForSetup context =
     (let configuration = sctx_configuration context in
      canonicalJson (configuration_members
        (sctx_harnessKind context)
        (sconf_model configuration)
        (sconf_reasoning configuration)
        (sconf_reasoningCapability configuration)
        (sconf_toolPolicy configuration)
        (sconf_toolEnforcement configuration)
        (profile_tools (sconf_resolvedToolProfile configuration))
        (sctx_workspaceId context)
        (sctx_workspaceBindingId context)
        (sctx_worktreeId context)
        (sctx_canonicalRoot context)
        (sctx_workspaceAccess context)))"

definition physicalConfiguration :: "execute_action \<Rightarrow> string" where
  "physicalConfiguration action =
     (let configuration = exec_configuration (act_execution action);
          workspace = exec_execution_workspace (act_execution action) in
      canonicalJson (configuration_members
        (conf_harness_kind configuration)
        (conf_model configuration)
        (conf_reasoning configuration)
        (conf_reasoning_capability configuration)
        (conf_tool_policy configuration)
        (conf_tool_enforcement configuration)
        (profile_tools (conf_resolved_tool_profile configuration))
        (lw_workspace_id (exec_logical_workspace (act_execution action)))
        (ew_workspace_binding_id workspace)
        (ew_worktree_id workspace)
        (ew_canonical_root workspace)
        (ew_access workspace)))"

record completion_output =
  comp_name :: string
  comp_kind :: string

record structured_completion_requirement =
  req_structuredResultRequired :: bool
  req_outputs :: "completion_output list"
  req_physicalExportRequired :: bool

text \<open>The only failure is the inconsistency of the two output declarations of an Action.\<close>

datatype requirement_error = Inconsistent_Output_Declarations string

definition structuredCompletionRequirement ::
  "execute_action \<Rightarrow> requirement_error + structured_completion_requirement" where
  "structuredCompletionRequirement action =
     (let outputs = map (\<lambda>d. \<lparr>comp_name = decl_name d, comp_kind = decl_kind d\<rparr>)
            (work_declared_outputs (exec_work (act_execution action))) in
      if stringify (j_strings (map comp_name outputs)) \<noteq>
         stringify (j_strings (act_declared_outputs action))
      then Inl (Inconsistent_Output_Declarations (act_action_id action))
      else Inr \<lparr>req_structuredResultRequired = True, req_outputs = outputs,
        req_physicalExportRequired = (\<exists>output \<in> set outputs. comp_kind output = ''change_set'')\<rparr>)"

end
