(* ===== verification/Action_Identity.thy ===== *)
theory Action_Identity
  imports Protocol_Types
begin

text \<open>
  What the durable texts of an Action decide. The physical configuration of two Actions agrees
  exactly when the twelve settings they are built from agree, tool lists up to order; the text of
  an Action whose keys are printable agrees with that of another exactly when their JSON values do
  up to the order of entries, and then every member the worker reads agrees.
\<close>

section \<open>Objects with fixed members\<close>

lemma json_equiv_obj_keys:
  assumes "json_equiv (JObj es) (JObj fs)"
  shows "mset (map fst es) = mset (map fst fs)"
proof -
  from assms obtain es' where "mset es' = mset es"
    and l: "list_all2 (\<lambda>p q. fst p = fst q \<and> json_equiv (snd p) (snd q)) es' fs" by auto
  moreover from l have "map fst es' = map fst fs" by (induction rule: list_all2_induct) auto
  ultimately show ?thesis by (metis mset_map)
qed

lemma json_equiv_obj_refl_order:
  "list_all2 (\<lambda>p q. fst p = fst q \<and> json_equiv (snd p) (snd q)) es fs \<Longrightarrow> json_equiv (JObj es) (JObj fs)"
  by auto

lemma same_key_same_value:
  assumes "distinct (map fst es)" and "mset es' = mset es" and "map fst es' = map fst es"
  shows "es' = es"
proof (rule nth_equalityI)
  show "length es' = length es" using assms(3) by (rule map_eq_imp_length_eq)
  fix i assume i: "i < length es'"
  have len: "length es' = length es" using assms(3) by (rule map_eq_imp_length_eq)
  with i have "fst (es' ! i) = fst (es ! i)"
    using arg_cong [OF assms(3), of "\<lambda>xs. xs ! i"] by simp
  moreover have "es' ! i \<in> set es" using i nth_mem [of i es'] mset_eq_setD [OF assms(2)] by simp
  moreover have "es ! i \<in> set es" using i len nth_mem [of i es] by simp
  ultimately show "es' ! i = es ! i" using distinct_keys_unique [OF assms(1)] by blast
qed

lemma pairs_all2:
  "map fst es = map fst fs \<Longrightarrow> list_all2 R (map snd es) (map snd fs) \<Longrightarrow>
    list_all2 (\<lambda>p q. fst p = fst q \<and> R (snd p) (snd q)) es fs"
proof (induction es arbitrary: fs)
  case (Cons e es)
  then show ?case by (cases fs) auto
qed simp

lemma list_all2_partner: "list_all2 R xs ys \<Longrightarrow> x \<in> set xs \<Longrightarrow> \<exists>y \<in> set ys. R x y"
  by (induction rule: list_all2_induct) auto

lemma json_equiv_obj_fixed:
  assumes "map fst es = map fst fs" and "distinct (map fst es)"
  shows "json_equiv (JObj es) (JObj fs) \<longleftrightarrow> list_all2 json_equiv (map snd es) (map snd fs)"
proof
  assume "json_equiv (JObj es) (JObj fs)"
  then obtain es' where p: "mset es' = mset es"
    and l: "list_all2 (\<lambda>p q. fst p = fst q \<and> json_equiv (snd p) (snd q)) es' fs" by auto
  from l have "map fst es' = map fst fs" by (induction rule: list_all2_induct) auto
  with assms p have "es' = es" by (simp add: same_key_same_value)
  with l show "list_all2 json_equiv (map snd es) (map snd fs)"
    by (auto simp: list_all2_map1 list_all2_map2 elim: list_all2_mono)
next
  assume "list_all2 json_equiv (map snd es) (map snd fs)"
  with assms(1) have "list_all2 (\<lambda>p q. fst p = fst q \<and> json_equiv (snd p) (snd q)) es fs"
    by (rule pairs_all2)
  then show "json_equiv (JObj es) (JObj fs)" by (rule json_equiv_obj_refl_order)
qed

lemma json_equiv_obj_Cons:
  assumes "distinct (k # map fst es)" and "map fst es = map fst fs"
  shows "json_equiv (JObj ((k, v) # es)) (JObj ((k, w) # fs)) \<longleftrightarrow>
    json_equiv v w \<and> json_equiv (JObj es) (JObj fs)"
proof -
  have "json_equiv (JObj ((k, v) # es)) (JObj ((k, w) # fs)) \<longleftrightarrow>
      list_all2 json_equiv (map snd ((k, v) # es)) (map snd ((k, w) # fs))"
    using assms by (intro json_equiv_obj_fixed) auto
  moreover have "json_equiv (JObj es) (JObj fs) \<longleftrightarrow> list_all2 json_equiv (map snd es) (map snd fs)"
    using assms by (intro json_equiv_obj_fixed) auto
  ultimately show ?thesis by simp
qed

section \<open>Members of a configuration\<close>

lemma json_equiv_strings [simp]: "json_equiv (j_strings xs) (j_strings ys) \<longleftrightarrow> xs = ys"
proof -
  have "list_all2 json_equiv (map JStr xs) (map JStr ys) \<longleftrightarrow> xs = ys"
  proof (induction xs arbitrary: ys)
    case (Cons x xs)
    then show ?case by (cases ys) auto
  qed auto
  then show ?thesis by (auto simp: j_strings_def)
qed

lemma json_equiv_nullable_str [simp]:
  "json_equiv (j_nullable JStr x) (j_nullable JStr y) \<longleftrightarrow> x = y"
  by (auto simp: j_nullable_def split: option.splits)

lemma json_equiv_enforcement [simp]:
  "json_equiv (tool_enforcement_value x) (tool_enforcement_value y) \<longleftrightarrow> x = y"
  by (cases x; cases y) auto

lemma json_equiv_access [simp]:
  "json_equiv (workspace_access_value x) (workspace_access_value y) \<longleftrightarrow> x = y"
  by (cases x; cases y) auto

lemma json_equiv_model [simp]: "json_equiv (model_value x) (model_value y) \<longleftrightarrow> x = y"
  unfolding model_value_def by (subst json_equiv_obj_fixed) (cases x; cases y; auto)+

lemma json_equiv_capability [simp]:
  "json_equiv (reasoning_capability_value x) (reasoning_capability_value y) \<longleftrightarrow> x = y"
proof (cases x; cases y)
  fix vs ws assume "x = Enumerated vs" "y = Enumerated ws"
  then show ?thesis by (simp del: json_equiv_simps add: json_equiv_obj_fixed) auto
next
  fix vs assume "x = Enumerated vs" "y = Unsupported"
  then show ?thesis by (auto simp del: json_equiv_simps dest!: json_equiv_obj_keys)
next
  fix vs assume "x = Unsupported" "y = Enumerated vs"
  then show ?thesis by (auto simp del: json_equiv_simps dest!: json_equiv_obj_keys)
next
  assume "x = Unsupported" "y = Unsupported"
  then show ?thesis by (simp del: json_equiv_simps add: json_equiv_obj_fixed) auto
qed

lemma json_equiv_policy [simp]:
  "json_equiv (tool_policy_value x) (tool_policy_value y) \<longleftrightarrow> x = y"
proof (cases x; cases y)
  fix vs ws assume "x = Exact_Tools vs" "y = Exact_Tools ws"
  then show ?thesis by (simp del: json_equiv_simps add: json_equiv_obj_fixed) auto
next
  fix vs assume "x = Exact_Tools vs" "y = Native_Permissions"
  then show ?thesis by (auto simp del: json_equiv_simps dest!: json_equiv_obj_keys)
next
  fix vs assume "x = Native_Permissions" "y = Exact_Tools vs"
  then show ?thesis by (auto simp del: json_equiv_simps dest!: json_equiv_obj_keys)
next
  assume "x = Native_Permissions" "y = Native_Permissions"
  then show ?thesis by (simp del: json_equiv_simps add: json_equiv_obj_fixed) auto
qed

lemma json_equiv_str [simp]: "json_equiv (JStr s) (JStr t) \<longleftrightarrow> s = t"
  by auto

lemma sort_eq_iff_mset: "sort xs = sort ys \<longleftrightarrow> mset xs = mset ys" for xs ys :: "string list"
  by (metis mset_sort properties_for_sort sorted_sort)

lemma wf_reasoning_capability [simp]: "wf_json (reasoning_capability_value x)"
  and wf_tool_policy [simp]: "wf_json (tool_policy_value p)"
  and wf_tool_enforcement [simp]: "wf_json (tool_enforcement_value e)"
  and wf_workspace_access [simp]: "wf_json (workspace_access_value w)"
  and wf_model [simp]: "wf_json (model_value m)"
  and wf_strings [simp]: "wf_json (j_strings ss)"
  by (cases x, auto simp: j_strings_def list_all_iff, cases p, auto simp: j_strings_def list_all_iff,
      cases e, auto, cases w, auto simp: model_value_def)

lemma wf_nullable: "(\<And>y. x = Some y \<Longrightarrow> wf_json (f y)) \<Longrightarrow> wf_json (j_nullable f x)"
  by (auto simp: j_nullable_def split: option.splits)

lemma wf_nullable_atom [simp]: "wf_json (j_nullable JStr x)" "wf_json (j_nullable JNum n)"
  by (auto intro: wf_nullable)

lemma wf_configuration_members:
  "wf_json (configuration_members kind model reasoning capability policy enforcement tools
     ws binding worktree root access)"
  by (simp add: configuration_members_def)

lemma printable_strings [simp]: "printable_keys (j_strings ss)"
  by (simp add: j_strings_def list_all_iff)

lemma printable_nullable [simp]:
  "printable_keys (j_nullable JStr x)" "printable_keys (j_nullable JNum n)"
  by (auto simp: j_nullable_def split: option.splits)

lemma printable_settings [simp]:
  "printable_keys (reasoning_capability_value c)" "printable_keys (tool_policy_value p)"
  "printable_keys (tool_enforcement_value e)" "printable_keys (workspace_access_value w)"
  "printable_keys (model_value m)"
  by (cases c, auto simp: printable_def j_strings_def list_all_iff, cases p,
      auto simp: printable_def j_strings_def list_all_iff, cases e, auto, cases w,
      auto simp: model_value_def printable_def)

lemma printable_configuration_members:
  "printable_keys (configuration_members kind model reasoning capability policy enforcement tools
     ws binding worktree root access)"
  by (simp add: configuration_members_def) (simp add: printable_def)

lemma configuration_members_text:
  "canonicalJson (configuration_members k m r c p e ts ws b wt ro ac) =
   canonicalJson (configuration_members k' m' r' c' p' e' ts' ws' b' wt' ro' ac') \<longleftrightarrow>
   (k, m, r, c, p, e, mset ts, ws, b, wt, ro, ac) =
   (k', m', r', c', p', e', mset ts', ws', b', wt', ro', ac')"
proof -
  have profile: "json_equiv (JObj [(''tools'', j_strings (sort ts))]) (JObj [(''tools'', j_strings (sort ts'))])
      \<longleftrightarrow> mset ts = mset ts'"
    by (subst json_equiv_obj_fixed) (auto simp: sort_eq_iff_mset)
  show ?thesis
    unfolding same_canonical_text [OF wf_configuration_members printable_configuration_members]
    unfolding configuration_members_def
    by (subst json_equiv_obj_fixed) (simp_all del: json_equiv_simps add: profile)
qed

text \<open>The settings a physical configuration is built from.\<close>

definition physical_settings :: "execute_action \<Rightarrow>
   string \<times> model_choice \<times> string option \<times> reasoning_capability \<times> tool_policy \<times> tool_enforcement \<times>
   string multiset \<times> string \<times> string \<times> string \<times> string \<times> workspace_access" where
  "physical_settings a =
     (let c = exec_configuration (act_execution a); w = exec_execution_workspace (act_execution a) in
      (conf_harness_kind c, conf_model c, conf_reasoning c, conf_reasoning_capability c,
       conf_tool_policy c, conf_tool_enforcement c,
       mset (profile_tools (conf_resolved_tool_profile c)),
       lw_workspace_id (exec_logical_workspace (act_execution a)),
       ew_workspace_binding_id w, ew_worktree_id w, ew_canonical_root w, ew_access w))"

definition setup_settings :: "harness_setup_context \<Rightarrow>
   string \<times> model_choice \<times> string option \<times> reasoning_capability \<times> tool_policy \<times> tool_enforcement \<times>
   string multiset \<times> string \<times> string \<times> string \<times> string \<times> workspace_access" where
  "setup_settings x =
     (let c = sctx_configuration x in
      (sctx_harnessKind x, sconf_model c, sconf_reasoning c, sconf_reasoningCapability c,
       sconf_toolPolicy c, sconf_toolEnforcement c,
       mset (profile_tools (sconf_resolvedToolProfile c)),
       sctx_workspaceId x, sctx_workspaceBindingId x, sctx_worktreeId x, sctx_canonicalRoot x,
       sctx_workspaceAccess x))"

text \<open>
  the configuration text under which a lineage is retained for continuation agrees for two
  Actions, or for a setup and an Action, exactly when all twelve settings agree; the order of the
  tool list does not matter.
\<close>

theorem physicalConfiguration_identity:
  "(physicalConfiguration a = physicalConfiguration b \<longleftrightarrow> physical_settings a = physical_settings b) \<and>
   (physicalConfigurationForSetup x = physicalConfiguration a \<longleftrightarrow> setup_settings x = physical_settings a)"
  by (simp only: physicalConfiguration_def physicalConfigurationForSetup_def Let_def
      configuration_members_text physical_settings_def setup_settings_def)

section \<open>The text of an Action\<close>

definition wf_inputs :: "(string \<times> artifact_instance) list \<Rightarrow> bool" where
  "wf_inputs xs \<longleftrightarrow> distinct (map fst xs) \<and> list_all (\<lambda>(k, a). wf_json (art_value a)) xs"

definition wf_action :: "execute_action \<Rightarrow> bool" where
  "wf_action a \<longleftrightarrow> wf_inputs (act_inputs a) \<and> wf_inputs (work_inputs (exec_work (act_execution a)))"

lemma wf_json_obj_append:
  "wf_json (JObj (es @ fs)) \<longleftrightarrow>
    wf_json (JObj es) \<and> wf_json (JObj fs) \<and> fst ` set es \<inter> fst ` set fs = {}"
  by auto

lemma wf_optional: "(\<And>y. x = Some y \<Longrightarrow> wf_json (f y)) \<Longrightarrow> wf_json (JObj (j_optional k f x))"
  by (auto simp: j_optional_def split: option.splits)

lemma keys_optional: "fst ` set (j_optional k f x) \<subseteq> {k}"
  by (auto simp: j_optional_def split: option.splits)

lemma wf_artifact_value: "wf_json (art_value a) \<Longrightarrow> wf_json (artifact_value a)"
  by (cases a) (auto simp: artifact_value_def j_optional_def split: option.splits)

lemma wf_inputs_value: "wf_inputs xs \<Longrightarrow> wf_json (inputs_value xs)"
  by (auto simp: inputs_value_def wf_inputs_def list_all_iff comp_def case_prod_unfold
      intro!: wf_artifact_value)

lemma wf_action_value:
  assumes "wf_action a"
  shows "wf_json (action_value a)"
proof -
  have ctx: "wf_json (context_mode_value m)" for m by (cases m) auto
  have decl: "list_all wf_json (map declaration_value ds)" for ds
    by (simp add: list_all_iff declaration_value_def)
  have con: "wf_json (j_nullable contract_value c)" for c
    by (rule wf_nullable) (simp add: contract_value_def)
  have work: "wf_json (work_value (exec_work (act_execution a)))"
    using assms unfolding work_value_def
    by (auto simp: wf_action_def wf_inputs_value decl con j_optional_def split: option.splits)
  have conf: "wf_json (configuration_value c)" for c
    by (simp add: configuration_value_def tool_profile_value_def)
  have exec: "wf_json (execution_value (act_execution a))"
    by (simp add: execution_value_def work conf ctx)
  have rec': "wf_json (recovery_value r)" for r
    by (cases "rec_authorization_kind r"; cases "rec_continuation_mode r") (simp_all add: recovery_value_def)
  have bind: "wf_json (setup_binding_value s)" for s by (simp add: setup_binding_value_def)
  show ?thesis
    using assms exec rec' bind ctx unfolding action_value_def
    by (auto simp: wf_action_def wf_inputs_value j_optional_def split: option.splits)
qed

lemma action_text_identity:
  "wf_action a \<Longrightarrow> printable_keys (action_value a) \<Longrightarrow>
    action_text a = action_text b \<longleftrightarrow> json_equiv (action_value a) (action_value b)"
  by (simp add: action_text_def same_canonical_text wf_action_value)

text \<open>The text of an Action identifies its identity members.\<close>

lemma json_equiv_member:
  assumes "json_equiv (JObj es) (JObj fs)" and "distinct (map fst fs)"
    and "(k, v) \<in> set es" and "(k, w) \<in> set fs"
  shows "json_equiv v w"
proof -
  from assms(1) obtain es' where p: "mset es' = mset es"
    and l: "list_all2 (\<lambda>p q. fst p = fst q \<and> json_equiv (snd p) (snd q)) es' fs" by auto
  from p assms(3) have "(k, v) \<in> set es'" by (metis mset_eq_setD)
  with l obtain q where "q \<in> set fs" "fst q = k" "json_equiv v (snd q)"
    using list_all2_partner [OF l \<open>(k, v) \<in> set es'\<close>] by auto
  moreover from this assms(2,4) have "q = (k, w)"
    using distinct_keys_unique [of fst fs q "(k, w)"] by simp
  ultimately show ?thesis by simp
qed

end
