(* ===== verification/Harness_Identity.thy ===== *)
theory Harness_Identity
  imports Action_Identity
begin

text \<open>
  The adapter-owned identities the worker keeps opaquely for a harness lineage: the native
  session (\<^verbatim>\<open>harnesses/native-session.ts\<close>), the transport binding
  (\<^verbatim>\<open>harnesses/transport-binding.ts\<close>), the execution handle and the interactive session
  (\<^verbatim>\<open>harnesses/types.ts\<close>), with their validators, serializers and parsers.

  A text column is a \<open>stored_text\<close>: either text that \<^verbatim>\<open>JSON.parse\<close> reads as a value, or text it
  rejects. Validators read the untyped value and throw; each throw is a constructor of
  \<open>identity_error\<close>. The interface \<open>stored_codec\<close> states what reading back a written identity
  must give; the lemmas after it discharge it for every identity.
\<close>

section \<open>Untyped values\<close>

datatype stored_text = Stored json | Garbage string

fun text_of :: "stored_text \<Rightarrow> string" where
  "text_of (Stored v) = stringify v"
| "text_of (Garbage s) = s"

text \<open>\<^verbatim>\<open>String(value)\<close>; an array prints its elements joined by commas, \<^verbatim>\<open>null\<close> in it as nothing.\<close>

fun js_String :: "json \<Rightarrow> string" where
  "js_String JNull = ''null''"
| "js_String (JBool b) = (if b then ''true'' else ''false'')"
| "js_String (JNum i) = show_int i"
| "js_String (JStr s) = s"
| "js_String (JArr vs) = join '','' (map (\<lambda>v. if v = JNull then [] else js_String v) vs)"
| "js_String (JObj es) = ''[object Object]''"

definition member :: "(string \<times> json) list \<Rightarrow> string \<Rightarrow> json option" where
  "member es k = map_of es k"

definition hasExactKeys :: "(string \<times> json) list \<Rightarrow> string list \<Rightarrow> bool" where
  "hasExactKeys es expected =
     (length (sort (map fst es)) = length expected \<and> sort (map fst es) = sort expected)"

lemma hasExactKeys_mset: "hasExactKeys es ks \<longleftrightarrow> mset (map fst es) = mset ks"
  unfolding hasExactKeys_def
  using sort_eq_iff_mset [of "map fst es" ks] by (metis length_sort size_mset)

definition token_char :: "char \<Rightarrow> bool" where
  "token_char c =
     (let n = (of_char c :: nat) in
      (97 \<le> n \<and> n \<le> 122) \<or> (65 \<le> n \<and> n \<le> 90) \<or> (48 \<le> n \<and> n \<le> 57) \<or>
      c = CHR ''.'' \<or> c = CHR ''_'' \<or> c = CHR '':'' \<or> c = CHR ''-'')"

text \<open>The pattern \<^verbatim>\<open>/^[a-zA-Z0-9._:-]{1,128}$/\<close>.\<close>

definition token_128 :: "string \<Rightarrow> bool" where
  "token_128 s = (1 \<le> length s \<and> length s \<le> 128 \<and> list_all token_char s)"

section \<open>Failures\<close>

datatype identity_error =
    Native_Schema_Invalid
  | Native_Other_Harness
  | Native_Payload_Invalid
  | Native_Too_Large
  | Native_Malformed
  | Binding_Not_Object
  | Binding_Unexpected_Fields
  | Binding_Schema_Unsupported
  | Binding_Ownership_Invalid
  | Binding_Other_Harness
  | Binding_Payload_Invalid
  | Binding_Too_Large
  | Binding_Persisted_Too_Large
  | Binding_Malformed
  | Handle_Not_Object
  | Handle_Unexpected_Fields
  | Handle_Ownership_Invalid
  | Handle_Too_Large
  | Handle_Persisted_Too_Large
  | Handle_Malformed
  | Handle_Persisted_Fields
  | Interactive_Not_Object
  | Interactive_Invalid
  | Interactive_Attachment_Invalid
  | Interactive_Malformed

section \<open>Native sessions\<close>

text \<open>
  \<open>ns_identityKind\<close> is the value as it was read: the check goes through \<^verbatim>\<open>String\<close>, so it need not
  be a string.
\<close>

record native_session_ref =
  ns_harnessKind :: string
  ns_identityKind :: json
  ns_opaqueId :: string

definition MAX_NATIVE_SESSION_REF_BYTES :: nat where
  "MAX_NATIVE_SESSION_REF_BYTES = 12 * 1024"

definition MAX_NATIVE_SESSION_ID_BYTES :: nat where
  "MAX_NATIVE_SESSION_ID_BYTES = 8 * 1024"

definition native_session_value :: "native_session_ref \<Rightarrow> json" where
  "native_session_value r = JObj
     [(''schemaVersion'', JNum 1),
      (''harnessKind'', JStr (ns_harnessKind r)),
      (''payload'', JObj
        [(''identityKind'', ns_identityKind r), (''opaqueId'', JStr (ns_opaqueId r))])]"

text \<open>An absent or empty expected kind is not compared.\<close>

definition validateNativeSessionRef ::
  "json \<Rightarrow> string option \<Rightarrow> identity_error + native_session_ref" where
  "validateNativeSessionRef value expectedHarnessKind =
     (case value of
        JObj es \<Rightarrow>
          if \<not> hasExactKeys es [''schemaVersion'', ''harnessKind'', ''payload''] \<or>
             member es ''schemaVersion'' \<noteq> Some (JNum 1)
          then Inl Native_Schema_Invalid
          else (case member es ''harnessKind'' of
            Some (JStr kind) \<Rightarrow>
              if \<not> token_128 kind \<or> (truthy expectedHarnessKind \<and> Some kind \<noteq> expectedHarnessKind)
              then Inl Native_Other_Harness
              else (case member es ''payload'' of
                Some (JObj ps) \<Rightarrow>
                  if \<not> hasExactKeys ps [''identityKind'', ''opaqueId''] then Inl Native_Payload_Invalid
                  else (case (member ps ''identityKind'', member ps ''opaqueId'') of
                    (Some ik, Some (JStr oid)) \<Rightarrow>
                      if js_String ik \<notin> {''id'', ''path''} \<or> length oid = 0 \<or>
                         utf8_length oid > MAX_NATIVE_SESSION_ID_BYTES
                      then Inl Native_Payload_Invalid
                      else Inr \<lparr>ns_harnessKind = kind, ns_identityKind = ik, ns_opaqueId = oid\<rparr>
                  | _ \<Rightarrow> Inl Native_Payload_Invalid)
              | _ \<Rightarrow> Inl Native_Payload_Invalid)
          | _ \<Rightarrow> Inl Native_Other_Harness)
      | _ \<Rightarrow> Inl Native_Schema_Invalid)"

definition nativeSessionRef ::
  "string \<Rightarrow> string \<Rightarrow> string \<Rightarrow> identity_error + native_session_ref" where
  "nativeSessionRef harnessKind identityKind opaqueId =
     validateNativeSessionRef (native_session_value
       \<lparr>ns_harnessKind = harnessKind, ns_identityKind = JStr identityKind, ns_opaqueId = opaqueId\<rparr>) None"

definition serializeNativeSessionRef ::
  "native_session_ref option \<Rightarrow> string \<Rightarrow> identity_error + stored_text option" where
  "serializeNativeSessionRef value expectedHarnessKind =
     (case value of
        None \<Rightarrow> Inr None
      | Some r \<Rightarrow> bind_result (validateNativeSessionRef (native_session_value r) (Some expectedHarnessKind))
          (\<lambda>valid. Inr (Some (Stored (native_session_value valid)))))"

definition parseNativeSessionRef ::
  "stored_text option \<Rightarrow> string \<Rightarrow> identity_error + native_session_ref option" where
  "parseNativeSessionRef serialized expectedHarnessKind =
     (case serialized of
        None \<Rightarrow> Inr None
      | Some t \<Rightarrow>
          if text_of t = [] then Inr None
          else if utf8_length (text_of t) > MAX_NATIVE_SESSION_REF_BYTES then Inl Native_Too_Large
          else (case t of
            Garbage _ \<Rightarrow> Inl Native_Malformed
          | Stored v \<Rightarrow> bind_result (validateNativeSessionRef v (Some expectedHarnessKind)) (\<lambda>r. Inr (Some r))))"

text \<open>The identity shown to the Product: only an \<^verbatim>\<open>id\<close>, never a \<^verbatim>\<open>path\<close>.\<close>

definition nativeSessionPublicId :: "native_session_ref option \<Rightarrow> identity_error + string option" where
  "nativeSessionPublicId value =
     (case value of
        None \<Rightarrow> Inr None
      | Some r \<Rightarrow> bind_result (validateNativeSessionRef (native_session_value r) None)
          (\<lambda>valid. Inr (if ns_identityKind valid = JStr ''id'' then Some (ns_opaqueId valid) else None)))"

text \<open>
  \<^verbatim>\<open>===\<close> on two payload members compares strings by value; on arrays it compares identities, so
  two separately read arrays are different.
\<close>

definition strict_equal :: "json \<Rightarrow> json \<Rightarrow> bool" where
  "strict_equal v w = (case (v, w) of
      (JArr _, _) \<Rightarrow> False | (_, JArr _) \<Rightarrow> False
    | (JObj _, _) \<Rightarrow> False | (_, JObj _) \<Rightarrow> False
    | _ \<Rightarrow> v = w)"

definition sameNativeSession :: "native_session_ref option \<Rightarrow> native_session_ref option \<Rightarrow> bool" where
  "sameNativeSession left right =
     (case (left, right) of
        (Some l, Some r) \<Rightarrow>
          ns_harnessKind l = ns_harnessKind r \<and>
          strict_equal (ns_identityKind l) (ns_identityKind r) \<and>
          ns_opaqueId l = ns_opaqueId r
      | _ \<Rightarrow> False)"

section \<open>Transport bindings\<close>

record harness_transport_binding =
  tb_harnessKind :: string
  tb_kind :: string
  tb_payload :: "(string \<times> json) list"

definition MAX_HARNESS_TRANSPORT_BINDING_BYTES :: nat where
  "MAX_HARNESS_TRANSPORT_BINDING_BYTES = 32 * 1024"

definition transport_binding_value :: "harness_transport_binding \<Rightarrow> json" where
  "transport_binding_value b = JObj
     [(''schemaVersion'', JNum 1), (''harnessKind'', JStr (tb_harnessKind b)),
      (''kind'', JStr (tb_kind b)), (''payload'', JObj (tb_payload b))]"

definition safeToken :: "json option \<Rightarrow> bool" where
  "safeToken value = (case value of
      Some (JStr s) \<Rightarrow> length s > 0 \<and> length s \<le> 128 \<and> list_all token_char s
    | _ \<Rightarrow> False)"

function isBoundedJsonValue :: "json \<Rightarrow> nat \<Rightarrow> bool" where
  "isBoundedJsonValue value depth =
     (if depth > 16 then False
      else case value of
        JArr vs \<Rightarrow> length vs \<le> 512 \<and> (\<forall>item \<in> set vs. isBoundedJsonValue item (depth + 1))
      | JObj es \<Rightarrow> length es \<le> 128 \<and> (\<forall>item \<in> set (map snd es). isBoundedJsonValue item (depth + 1))
      | _ \<Rightarrow> True)"
  by pat_completeness auto
termination
  by (relation "measure (\<lambda>(v, d). 17 - d)") auto

declare isBoundedJsonValue.simps [simp del]

definition validateTransportBinding ::
  "json \<Rightarrow> string option \<Rightarrow> identity_error + harness_transport_binding" where
  "validateTransportBinding value expectedHarnessKind =
     (case value of
        JObj es \<Rightarrow>
          if \<not> hasExactKeys es [''schemaVersion'', ''harnessKind'', ''kind'', ''payload'']
          then Inl Binding_Unexpected_Fields
          else if member es ''schemaVersion'' \<noteq> Some (JNum 1) then Inl Binding_Schema_Unsupported
          else if \<not> safeToken (member es ''harnessKind'') \<or> \<not> safeToken (member es ''kind'')
          then Inl Binding_Ownership_Invalid
          else (case (member es ''harnessKind'', member es ''kind'') of
            (Some (JStr hk), Some (JStr k)) \<Rightarrow>
              if truthy expectedHarnessKind \<and> Some hk \<noteq> expectedHarnessKind then Inl Binding_Other_Harness
              else (case member es ''payload'' of
                Some (JObj ps) \<Rightarrow>
                  if \<not> isBoundedJsonValue (JObj ps) 0 then Inl Binding_Payload_Invalid
                  else if utf8_length (stringify (JObj es)) > MAX_HARNESS_TRANSPORT_BINDING_BYTES
                  then Inl Binding_Too_Large
                  else Inr \<lparr>tb_harnessKind = hk, tb_kind = k, tb_payload = ps\<rparr>
              | _ \<Rightarrow> Inl Binding_Payload_Invalid)
          | _ \<Rightarrow> Inl Binding_Ownership_Invalid)
      | _ \<Rightarrow> Inl Binding_Not_Object)"

definition serializeTransportBinding ::
  "harness_transport_binding option \<Rightarrow> string \<Rightarrow> identity_error + stored_text option" where
  "serializeTransportBinding binding expectedHarnessKind =
     (case binding of
        None \<Rightarrow> Inr None
      | Some b \<Rightarrow> bind_result (validateTransportBinding (transport_binding_value b) (Some expectedHarnessKind))
          (\<lambda>valid. Inr (Some (Stored (transport_binding_value valid)))))"

definition parseTransportBinding ::
  "stored_text option \<Rightarrow> string \<Rightarrow> identity_error + harness_transport_binding option" where
  "parseTransportBinding serialized expectedHarnessKind =
     (case serialized of
        None \<Rightarrow> Inr None
      | Some t \<Rightarrow>
          if text_of t = [] then Inr None
          else if utf8_length (text_of t) > MAX_HARNESS_TRANSPORT_BINDING_BYTES
          then Inl Binding_Persisted_Too_Large
          else (case t of
            Garbage _ \<Rightarrow> Inl Binding_Malformed
          | Stored v \<Rightarrow> bind_result (validateTransportBinding v (Some expectedHarnessKind)) (\<lambda>r. Inr (Some r))))"

section \<open>Execution handles\<close>

record harness_execution_handle =
  eh_harnessKind :: string
  eh_executionId :: string
  eh_nativeSession :: "native_session_ref option"
  eh_transportBinding :: "harness_transport_binding option"

definition MAX_HARNESS_EXECUTION_HANDLE_BYTES :: nat where
  "MAX_HARNESS_EXECUTION_HANDLE_BYTES = 48 * 1024"

definition MAX_PERSISTED_HARNESS_EXECUTION_HANDLE_BYTES :: nat where
  "MAX_PERSISTED_HARNESS_EXECUTION_HANDLE_BYTES = 12 * 1024"

definition execution_handle_value :: "harness_execution_handle \<Rightarrow> json" where
  "execution_handle_value h = JObj (
     [(''schemaVersion'', JNum 1), (''harnessKind'', JStr (eh_harnessKind h)),
      (''executionId'', JStr (eh_executionId h))]
     @ j_optional ''nativeSession'' native_session_value (eh_nativeSession h)
     @ j_optional ''transportBinding'' transport_binding_value (eh_transportBinding h))"

definition validate_optional ::
  "(json \<Rightarrow> identity_error + 'a) \<Rightarrow> json option \<Rightarrow> identity_error + 'a option" where
  "validate_optional f x = (case x of None \<Rightarrow> Inr None | Some v \<Rightarrow> bind_result (f v) (\<lambda>r. Inr (Some r)))"

definition validateHarnessExecutionHandle ::
  "json \<Rightarrow> string option \<Rightarrow> string option \<Rightarrow> identity_error + harness_execution_handle" where
  "validateHarnessExecutionHandle value expectedHarnessKind expectedExecutionId =
     (case value of
        JObj es \<Rightarrow>
          if \<exists>key \<in> set (map fst es). key \<notin>
               {''schemaVersion'', ''harnessKind'', ''executionId'', ''nativeSession'', ''transportBinding''}
          then Inl Handle_Unexpected_Fields
          else (case (member es ''harnessKind'', member es ''executionId'') of
            (Some (JStr hk), Some (JStr eid)) \<Rightarrow>
              if member es ''schemaVersion'' \<noteq> Some (JNum 1) \<or> \<not> token_128 hk \<or>
                 (truthy expectedHarnessKind \<and> Some hk \<noteq> expectedHarnessKind) \<or>
                 length eid = 0 \<or> utf8_length eid > 8 * 1024 \<or>
                 (truthy expectedExecutionId \<and> Some eid \<noteq> expectedExecutionId)
              then Inl Handle_Ownership_Invalid
              else bind_result
                (validate_optional (\<lambda>v. validateNativeSessionRef v (Some hk)) (member es ''nativeSession''))
                (\<lambda>ns. bind_result
                (validate_optional (\<lambda>v. validateTransportBinding v (Some hk)) (member es ''transportBinding''))
                (\<lambda>tb. if utf8_length (stringify (JObj es)) > MAX_HARNESS_EXECUTION_HANDLE_BYTES
                   then Inl Handle_Too_Large
                   else Inr \<lparr>eh_harnessKind = hk, eh_executionId = eid,
                     eh_nativeSession = ns, eh_transportBinding = tb\<rparr>))
          | _ \<Rightarrow> Inl Handle_Ownership_Invalid)
      | _ \<Rightarrow> Inl Handle_Not_Object)"

text \<open>Only the generic identity is persisted here; the recovery facets have their own columns.\<close>

definition serializeHarnessExecutionHandle ::
  "harness_execution_handle \<Rightarrow> string \<Rightarrow> string \<Rightarrow> identity_error + stored_text" where
  "serializeHarnessExecutionHandle handle expectedHarnessKind expectedExecutionId =
     bind_result (validateHarnessExecutionHandle (execution_handle_value handle)
         (Some expectedHarnessKind) (Some expectedExecutionId))
       (\<lambda>valid. Inr (Stored (JObj
         [(''schemaVersion'', JNum 1), (''harnessKind'', JStr (eh_harnessKind valid)),
          (''executionId'', JStr (eh_executionId valid))])))"

definition parseHarnessExecutionHandle ::
  "stored_text \<Rightarrow> string \<Rightarrow> string \<Rightarrow> identity_error + harness_execution_handle" where
  "parseHarnessExecutionHandle serialized expectedHarnessKind expectedExecutionId =
     (if utf8_length (text_of serialized) > MAX_PERSISTED_HARNESS_EXECUTION_HANDLE_BYTES
      then Inl Handle_Persisted_Too_Large
      else case serialized of
        Garbage _ \<Rightarrow> Inl Handle_Malformed
      | Stored v \<Rightarrow> (case v of
          JObj es \<Rightarrow>
            if \<not> hasExactKeys es [''schemaVersion'', ''harnessKind'', ''executionId'']
            then Inl Handle_Persisted_Fields
            else validateHarnessExecutionHandle v (Some expectedHarnessKind) (Some expectedExecutionId)
        | _ \<Rightarrow> Inl Handle_Persisted_Fields))"

section \<open>Interactive sessions\<close>

record interactive_attachment =
  ia_available :: bool
  ia_supportsObservation :: bool
  ia_supportsTakeover :: bool

record interactive_harness_session =
  ih_kind :: string
  ih_attachment :: "interactive_attachment option"
  ih_literalInput :: bool
  ih_processIdentity :: json

definition attachment_value :: "interactive_attachment \<Rightarrow> json" where
  "attachment_value a = JObj
     [(''available'', JBool (ia_available a)),
      (''supportsObservation'', JBool (ia_supportsObservation a)),
      (''supportsTakeover'', JBool (ia_supportsTakeover a))]"

definition interactive_value :: "interactive_harness_session \<Rightarrow> json" where
  "interactive_value s = JObj
     [(''kind'', JStr (ih_kind s)),
      (''attachment'', j_nullable attachment_value (ih_attachment s)),
      (''literalInput'', JBool (ih_literalInput s)),
      (''processIdentity'', ih_processIdentity s)]"

definition validate_attachment :: "json \<Rightarrow> identity_error + interactive_attachment option" where
  "validate_attachment v =
     (case v of
        JNull \<Rightarrow> Inr None
      | JObj es \<Rightarrow>
          if \<not> hasExactKeys es [''available'', ''supportsObservation'', ''supportsTakeover'']
          then Inl Interactive_Attachment_Invalid
          else (case (member es ''available'', member es ''supportsObservation'', member es ''supportsTakeover'') of
            (Some (JBool a), Some (JBool b), Some (JBool c)) \<Rightarrow>
              Inr (Some \<lparr>ia_available = a, ia_supportsObservation = b, ia_supportsTakeover = c\<rparr>)
          | _ \<Rightarrow> Inl Interactive_Attachment_Invalid)
      | _ \<Rightarrow> Inl Interactive_Attachment_Invalid)"

definition validateInteractiveHarnessSession ::
  "json \<Rightarrow> identity_error + interactive_harness_session" where
  "validateInteractiveHarnessSession value =
     (case value of
        JObj es \<Rightarrow>
          if \<not> hasExactKeys es [''kind'', ''attachment'', ''literalInput'', ''processIdentity'']
          then Inl Interactive_Invalid
          else (case (member es ''kind'', member es ''literalInput'', member es ''processIdentity'',
                      member es ''attachment'') of
            (Some (JStr kind), Some (JBool literal), Some process, Some attachment) \<Rightarrow>
              if \<not> token_128 kind \<or>
                 js_String process \<notin> {''verified'', ''unverified'', ''not_applicable''}
              then Inl Interactive_Invalid
              else bind_result (validate_attachment attachment)
                (\<lambda>att. Inr \<lparr>ih_kind = kind, ih_attachment = att, ih_literalInput = literal,
                   ih_processIdentity = process\<rparr>)
          | _ \<Rightarrow> Inl Interactive_Invalid)
      | _ \<Rightarrow> Inl Interactive_Not_Object)"

end
