(* ===== verification/Identity_Codecs.thy ===== *)
theory Identity_Codecs
  imports Harness_Identity
begin

text \<open>
  What is written for a harness identity can be read back. The interface \<open>stored_codec\<close> asks of a
  validator that it drops nothing (the accepted value is the encoding of its result up to entry
  order) and that it accepts the encoding again; native sessions, transport bindings and
  interactive sessions meet it. The two size limits of a native session are not in step, which is
  the one case in which a written identity is refused at the next start.
\<close>

section \<open>Sizes of texts\<close>

lemma utf8_length_join:
  "utf8_length (join sep xs) = sum_list (map utf8_length xs) + (length xs - 1) * utf8_length sep"
proof (induction xs)
  case (Cons x xs)
  then show ?case by (cases xs) (auto simp: utf8_length_def)
qed (simp add: utf8_length_def)

lemma utf8_length_Cons: "utf8_length (c # s) = (if of_char c < (128::nat) then 1 else 2) + utf8_length s"
  by (simp add: utf8_length_def)

lemma json_equiv_size:
  "json_equiv v w \<Longrightarrow> utf8_length (stringify v) = utf8_length (stringify w)"
proof (induction rule: json_equiv.induct)
  case (equiv_arr vs ws)
  then have "map (\<lambda>v. utf8_length (stringify v)) vs = map (\<lambda>v. utf8_length (stringify v)) ws"
    by (induction rule: list_all2_induct) auto
  moreover have "length vs = length ws" using equiv_arr by (auto dest: list_all2_lengthD)
  ultimately show ?case by (simp add: utf8_length_join utf8_length_Cons comp_def)
next
  case (equiv_obj es' es fs)
  let ?n = "\<lambda>p. utf8_length (entry_text p)"
  from equiv_obj.IH have "map ?n es' = map ?n fs"
    by (induction rule: list_all2_induct) (auto simp: entry_text_def utf8_length_Cons)
  moreover have "sum_list (map ?n es) = sum_list (map ?n es')"
  proof -
    have "sum_mset (mset (map ?n es)) = sum_mset (mset (map ?n es'))"
      using equiv_obj.hyps by simp
    then show ?thesis by (simp only: sum_mset_sum_list)
  qed
  moreover have "length es = length fs"
    using list_all2_lengthD [OF equiv_obj.IH] mset_eq_length [OF equiv_obj.hyps(1)] by simp
  ultimately show ?case
    unfolding stringify_obj by (simp add: utf8_length_join utf8_length_Cons comp_def)
qed auto

section \<open>Objects with exact keys\<close>

lemma exact_keys_entries:
  assumes "hasExactKeys es ks" and "distinct ks"
  shows "mset es = mset (map (\<lambda>k. (k, the (member es k))) ks)"
proof -
  have m: "mset (map fst es) = mset ks" using assms(1) by (simp add: hasExactKeys_mset)
  then have d: "distinct (map fst es)" using assms(2) by (metis mset_eq_imp_distinct_iff)
  have "set es = set (map (\<lambda>k. (k, the (member es k))) ks)"
  proof -
    have "set ks = fst ` set es" using m by (metis mset_eq_setD set_map)
    moreover have "(k, the (map_of es k)) \<in> set es" if "k \<in> fst ` set es" for k
      using that d by (auto simp: map_of_eq_Some_iff)
    moreover have "p = (fst p, the (map_of es (fst p)))" if "p \<in> set es" for p
    proof -
      have "map_of es (fst p) = Some (snd p)" using that d by (simp add: map_of_eq_Some_iff)
      then show ?thesis by simp
    qed
    ultimately show ?thesis by (auto simp: member_def image_iff) (metis fst_conv)+
  qed
  moreover have "distinct es" using d by (auto simp: distinct_map)
  moreover have "distinct (map (\<lambda>k. (k, the (member es k))) ks)"
    using assms(2) by (simp add: distinct_map inj_on_def)
  ultimately show ?thesis using set_eq_iff_mset_eq_distinct by blast
qed

lemma json_equiv_refl: "wf_json v \<Longrightarrow> json_equiv v v"
  by (rule canon_complete) simp

lemma exact_keys_equiv:
  assumes "hasExactKeys es ks" and "distinct ks" and "map fst fs = ks"
    and "\<And>k v w. member es k = Some v \<Longrightarrow> (k, w) \<in> set fs \<Longrightarrow> json_equiv v w"
    and "\<And>k. k \<in> set ks \<Longrightarrow> member es k \<noteq> None"
  shows "json_equiv (JObj es) (JObj fs)"
proof -
  let ?es' = "map (\<lambda>k. (k, the (member es k))) ks"
  have "list_all2 (\<lambda>p q. fst p = fst q \<and> json_equiv (snd p) (snd q)) ?es' fs"
    using assms(3) unfolding list_all2_conv_all_nth
  proof (intro conjI allI impI, goal_cases)
    case 1
    then show ?case by auto
  next
    case (2 i)
    then show ?case by auto
  next
    case (3 i)
    then have i: "i < length fs" "ks ! i = fst (fs ! i)" by auto
    then obtain v where "member es (ks ! i) = Some v"
      using assms(3,5) by (metis length_map nth_mem not_Some_eq)
    moreover have "(ks ! i, snd (fs ! i)) \<in> set fs" using i by simp
    ultimately show ?case using assms(4) i 3 by fastforce
  qed
  then show ?thesis
    by (rule equiv_obj [rotated]) (rule exact_keys_entries [OF assms(1,2), symmetric])
qed

section \<open>The interface of a stored identity\<close>

locale stored_codec =
  fixes encode :: "'a \<Rightarrow> json" and decode :: "json \<Rightarrow> identity_error + 'a"
  assumes decode_encode: "wf_json v \<Longrightarrow> decode v = Inr x \<Longrightarrow> decode (encode x) = Inr x"
    and decode_keeps: "wf_json v \<Longrightarrow> decode v = Inr x \<Longrightarrow> json_equiv v (encode x)"
begin

lemma same_text_same_identity:
  assumes "wf_json v" "decode v = Inr x" "wf_json w" "decode w = Inr y"
    and "stringify (encode x) = stringify (encode y)"
  shows "x = y"
proof -
  have "encode x = encode y" using assms(5) by (simp add: stringify_inject)
  have "Inr x = decode (encode x)" using decode_encode [OF assms(1,2)] by (rule sym)
  also have "\<dots> = decode (encode y)" by (simp only: \<open>encode x = encode y\<close>)
  also have "\<dots> = Inr y" by (rule decode_encode [OF assms(3,4)])
  finally show ?thesis by (rule sum.inject(2) [THEN iffD1])
qed

lemma encode_size: "wf_json v \<Longrightarrow> decode v = Inr x \<Longrightarrow> utf8_length (stringify v) = utf8_length (stringify (encode x))"
  using json_equiv_size [OF decode_keeps [of v x]] by assumption

lemma same_encoded_text:
  "wf_json v \<Longrightarrow> printable_keys v \<Longrightarrow> decode v = Inr x \<Longrightarrow> canonicalJson v = canonicalJson (encode x)"
  using same_canonical_text [of v "encode x"] decode_keeps [of v x] by simp

end

section \<open>Native sessions\<close>

definition valid_native :: "string option \<Rightarrow> native_session_ref \<Rightarrow> bool" where
  "valid_native expected r \<longleftrightarrow>
     token_128 (ns_harnessKind r) \<and> (truthy expected \<longrightarrow> expected = Some (ns_harnessKind r)) \<and>
     js_String (ns_identityKind r) \<in> {''id'', ''path''} \<and> ns_opaqueId r \<noteq> [] \<and>
     utf8_length (ns_opaqueId r) \<le> MAX_NATIVE_SESSION_ID_BYTES"

lemma exact_keys_refl [simp]: "hasExactKeys [(a, v), (b, w)] [a, b]"
  "hasExactKeys [(a, v), (b, w), (c, x)] [a, b, c]"
  "hasExactKeys [(a, v), (b, w), (c, x), (d, y)] [a, b, c, d]"
  by (simp_all add: hasExactKeys_mset)

lemma validate_native_valid:
  "validateNativeSessionRef (native_session_value r) expected = Inr r \<longleftrightarrow> valid_native expected r"
  by (cases r) (auto simp: validateNativeSessionRef_def native_session_value_def valid_native_def
      member_def split: if_splits)

lemma validate_native_InrD:
  assumes "validateNativeSessionRef v expected = Inr r"
  shows "valid_native expected r \<and> (\<exists>es ps. v = JObj es \<and>
    hasExactKeys es [''schemaVersion'', ''harnessKind'', ''payload''] \<and>
    member es ''schemaVersion'' = Some (JNum 1) \<and>
    member es ''harnessKind'' = Some (JStr (ns_harnessKind r)) \<and>
    member es ''payload'' = Some (JObj ps) \<and> hasExactKeys ps [''identityKind'', ''opaqueId''] \<and>
    member ps ''identityKind'' = Some (ns_identityKind r) \<and>
    member ps ''opaqueId'' = Some (JStr (ns_opaqueId r)))"
  using assms
  by (auto simp: validateNativeSessionRef_def valid_native_def
      split: json.splits if_splits option.splits)

lemma wf_member: "wf_json (JObj es) \<Longrightarrow> member es k = Some v \<Longrightarrow> wf_json v"
  by (auto simp: member_def list_all_iff dest!: map_of_SomeD)

interpretation native_codec: stored_codec native_session_value
  "\<lambda>v. validateNativeSessionRef v expected" for expected
proof
  fix v r assume "wf_json v" and dec: "validateNativeSessionRef v expected = Inr r"
  then show "validateNativeSessionRef (native_session_value r) expected = Inr r"
    using validate_native_InrD validate_native_valid by blast
  from validate_native_InrD [OF dec] obtain es ps where f: "v = JObj es"
    "hasExactKeys es [''schemaVersion'', ''harnessKind'', ''payload'']"
    "member es ''schemaVersion'' = Some (JNum 1)"
    "member es ''harnessKind'' = Some (JStr (ns_harnessKind r))"
    "member es ''payload'' = Some (JObj ps)" "hasExactKeys ps [''identityKind'', ''opaqueId'']"
    "member ps ''identityKind'' = Some (ns_identityKind r)"
    "member ps ''opaqueId'' = Some (JStr (ns_opaqueId r))" by blast
  have wf: "wf_json (ns_identityKind r)"
    using wf_member f \<open>wf_json v\<close> by blast
  have payload: "json_equiv (JObj ps)
      (JObj [(''identityKind'', ns_identityKind r), (''opaqueId'', JStr (ns_opaqueId r))])"
    by (rule exact_keys_equiv [OF f(6)]) (use f(7,8) json_equiv_refl [OF wf] in auto)
  show "json_equiv v (native_session_value r)"
    unfolding f(1) native_session_value_def
    by (rule exact_keys_equiv [OF f(2)]) (use f(3,4,5) payload in \<open>auto simp del: json_equiv_simps(6)\<close>)
qed

section \<open>Transport bindings\<close>

lemma validate_binding_InrD:
  assumes "validateTransportBinding v expected = Inr b"
  shows "(truthy expected \<longrightarrow> expected = Some (tb_harnessKind b)) \<and>
    safeToken (Some (JStr (tb_harnessKind b))) \<and> safeToken (Some (JStr (tb_kind b))) \<and>
    isBoundedJsonValue (JObj (tb_payload b)) 0 \<and>
    utf8_length (stringify v) \<le> MAX_HARNESS_TRANSPORT_BINDING_BYTES \<and>
    (\<exists>es. v = JObj es \<and> hasExactKeys es [''schemaVersion'', ''harnessKind'', ''kind'', ''payload''] \<and>
      member es ''schemaVersion'' = Some (JNum 1) \<and>
      member es ''harnessKind'' = Some (JStr (tb_harnessKind b)) \<and>
      member es ''kind'' = Some (JStr (tb_kind b)) \<and> member es ''payload'' = Some (JObj (tb_payload b)))"
  using assms
  by (auto simp: validateTransportBinding_def simp del: stringify.simps
      split: json.splits if_splits option.splits)

lemma binding_keeps:
  assumes "wf_json v" and "validateTransportBinding v expected = Inr b"
  shows "json_equiv v (transport_binding_value b)"
proof -
  from validate_binding_InrD [OF assms(2)] obtain es where f: "v = JObj es"
    "hasExactKeys es [''schemaVersion'', ''harnessKind'', ''kind'', ''payload'']"
    "member es ''schemaVersion'' = Some (JNum 1)"
    "member es ''harnessKind'' = Some (JStr (tb_harnessKind b))"
    "member es ''kind'' = Some (JStr (tb_kind b))" "member es ''payload'' = Some (JObj (tb_payload b))"
    by blast
  have "json_equiv (JObj (tb_payload b)) (JObj (tb_payload b))"
    using wf_member f assms(1) by (intro json_equiv_refl) blast
  then show ?thesis
    unfolding f(1) transport_binding_value_def
    by (intro exact_keys_equiv [OF f(2)]) (use f(3-6) in \<open>auto simp del: json_equiv_simps(6)\<close>)
qed

interpretation binding_codec: stored_codec transport_binding_value
  "\<lambda>v. validateTransportBinding v expected" for expected
proof
  fix v b assume wf: "wf_json v" and dec: "validateTransportBinding v expected = Inr b"
  show "json_equiv v (transport_binding_value b)" by (rule binding_keeps [OF wf dec])
  then have "utf8_length (stringify (transport_binding_value b)) \<le> MAX_HARNESS_TRANSPORT_BINDING_BYTES"
    using validate_binding_InrD [OF dec] json_equiv_size by metis
  then show "validateTransportBinding (transport_binding_value b) expected = Inr b"
    using validate_binding_InrD [OF dec]
    by (auto simp: validateTransportBinding_def transport_binding_value_def member_def
        simp del: stringify.simps)
qed

section \<open>Interactive sessions\<close>

lemma validate_attachment_value [simp]: "validate_attachment (j_nullable attachment_value a) = Inr a"
  by (cases a) (auto simp: validate_attachment_def j_nullable_def attachment_value_def member_def)

lemma validate_attachment_keeps:
  assumes "validate_attachment v = Inr a"
  shows "json_equiv v (j_nullable attachment_value a)"
proof (cases v)
  case (JObj es)
  with assms obtain x y z where f:
    "hasExactKeys es [''available'', ''supportsObservation'', ''supportsTakeover'']"
    "member es ''available'' = Some (JBool x)" "member es ''supportsObservation'' = Some (JBool y)"
    "member es ''supportsTakeover'' = Some (JBool z)"
    "a = Some \<lparr>ia_available = x, ia_supportsObservation = y, ia_supportsTakeover = z\<rparr>"
    by (auto simp: validate_attachment_def split: if_splits option.splits json.splits)
  have "json_equiv (JObj es) (attachment_value (the a))"
    unfolding attachment_value_def
    by (rule exact_keys_equiv [OF f(1)]) (use f(2-5) in \<open>auto simp del: json_equiv_simps(6)\<close>)
  with f(5) JObj show ?thesis by (simp add: j_nullable_def)
qed (use assms in \<open>auto simp: validate_attachment_def j_nullable_def\<close>)

interpretation interactive_codec: stored_codec interactive_value validateInteractiveHarnessSession
proof
  fix v s assume wf: "wf_json v" and dec: "validateInteractiveHarnessSession v = Inr s"
  from dec obtain es att where f: "v = JObj es"
    "hasExactKeys es [''kind'', ''attachment'', ''literalInput'', ''processIdentity'']"
    "member es ''kind'' = Some (JStr (ih_kind s))" "member es ''attachment'' = Some att"
    "member es ''literalInput'' = Some (JBool (ih_literalInput s))"
    "member es ''processIdentity'' = Some (ih_processIdentity s)"
    "validate_attachment att = Inr (ih_attachment s)"
    "token_128 (ih_kind s)"
    "js_String (ih_processIdentity s) \<in> {''verified'', ''unverified'', ''not_applicable''}"
    by (auto simp: validateInteractiveHarnessSession_def bind_result_eq_Inr
        split: json.splits if_splits option.splits)
  show "validateInteractiveHarnessSession (interactive_value s) = Inr s"
    using f(8,9) by (auto simp: validateInteractiveHarnessSession_def interactive_value_def member_def)
  have pid: "json_equiv (ih_processIdentity s) (ih_processIdentity s)"
    using wf_member f(1,6) wf by (intro json_equiv_refl) blast
  show "json_equiv v (interactive_value s)"
    unfolding f(1) interactive_value_def
    by (rule exact_keys_equiv [OF f(2)])
      (use f(3-6) validate_attachment_keeps [OF f(7)] pid in \<open>auto simp del: json_equiv_simps(5,6)\<close>)
qed

section \<open>Execution handles\<close>

lemma validate_optional_Inr:
  "validate_optional f x = Inr y \<longleftrightarrow>
    (case x of None \<Rightarrow> y = None | Some v \<Rightarrow> \<exists>r. f v = Inr r \<and> y = Some r)"
  by (auto simp: validate_optional_def bind_result_eq_Inr split: option.splits)

lemma validate_handle_InrD:
  assumes "validateHarnessExecutionHandle v kind eid = Inr h"
  shows "token_128 (eh_harnessKind h) \<and> (truthy kind \<longrightarrow> kind = Some (eh_harnessKind h)) \<and>
    eh_executionId h \<noteq> [] \<and> utf8_length (eh_executionId h) \<le> 8 * 1024 \<and>
    (truthy eid \<longrightarrow> eid = Some (eh_executionId h)) \<and>
    utf8_length (stringify v) \<le> MAX_HARNESS_EXECUTION_HANDLE_BYTES \<and>
    (\<exists>es. v = JObj es \<and> fst ` set es \<subseteq>
        {''schemaVersion'', ''harnessKind'', ''executionId'', ''nativeSession'', ''transportBinding''} \<and>
      member es ''schemaVersion'' = Some (JNum 1) \<and>
      member es ''harnessKind'' = Some (JStr (eh_harnessKind h)) \<and>
      member es ''executionId'' = Some (JStr (eh_executionId h)) \<and>
      validate_optional (\<lambda>v. validateNativeSessionRef v (Some (eh_harnessKind h)))
        (member es ''nativeSession'') = Inr (eh_nativeSession h) \<and>
      validate_optional (\<lambda>v. validateTransportBinding v (Some (eh_harnessKind h)))
        (member es ''transportBinding'') = Inr (eh_transportBinding h))"
  using assms
  by (auto simp: validateHarnessExecutionHandle_def bind_result_eq_Inr simp del: stringify.simps
      split: json.splits if_splits option.splits)

lemma optional_reencode:
  assumes "validate_optional f x = Inr y"
    and "\<And>v r. x = Some v \<Longrightarrow> f v = Inr r \<Longrightarrow> f (enc r) = Inr r"
  shows "validate_optional f (map_option enc y) = Inr y"
  using assms by (cases x) (auto simp: validate_optional_Inr)

definition handle_keys :: "harness_execution_handle \<Rightarrow> string list" where
  "handle_keys h = [''schemaVersion'', ''harnessKind'', ''executionId'']
     @ (if eh_nativeSession h = None then [] else [''nativeSession''])
     @ (if eh_transportBinding h = None then [] else [''transportBinding''])"

lemma handle_value_keys:
  "\<exists>fs. execution_handle_value h = JObj fs \<and> map fst fs = handle_keys h \<and>
    member fs ''schemaVersion'' = Some (JNum 1) \<and>
    member fs ''harnessKind'' = Some (JStr (eh_harnessKind h)) \<and>
    member fs ''executionId'' = Some (JStr (eh_executionId h)) \<and>
    member fs ''nativeSession'' = map_option native_session_value (eh_nativeSession h) \<and>
    member fs ''transportBinding'' = map_option transport_binding_value (eh_transportBinding h)"
  by (auto simp: execution_handle_value_def handle_keys_def j_optional_def member_def split: option.splits)

lemma five_keys:
  assumes "X \<subseteq> {a, b, c, d, e}" "a \<in> X" "b \<in> X" "c \<in> X" "d \<in> X \<longleftrightarrow> \<not> p" "e \<in> X \<longleftrightarrow> \<not> q"
  shows "X = set ([a, b, c] @ (if p then [] else [d]) @ (if q then [] else [e]))"
  using assms by auto

lemma distinct_handle_keys [simp]: "distinct (handle_keys h)"
  by (auto simp: handle_keys_def)

lemma handle_keeps:
  assumes wf: "wf_json v" and dec: "validateHarnessExecutionHandle v kind eid = Inr h"
  shows "json_equiv v (execution_handle_value h)"
proof -
  from validate_handle_InrD [OF dec] obtain es where f: "v = JObj es"
    "fst ` set es \<subseteq> {''schemaVersion'', ''harnessKind'', ''executionId'', ''nativeSession'', ''transportBinding''}"
    "member es ''schemaVersion'' = Some (JNum 1)"
    "member es ''harnessKind'' = Some (JStr (eh_harnessKind h))"
    "member es ''executionId'' = Some (JStr (eh_executionId h))"
    and ns: "validate_optional (\<lambda>v. validateNativeSessionRef v (Some (eh_harnessKind h)))
        (member es ''nativeSession'') = Inr (eh_nativeSession h)"
    and tb: "validate_optional (\<lambda>v. validateTransportBinding v (Some (eh_harnessKind h)))
        (member es ''transportBinding'') = Inr (eh_transportBinding h)" by blast
  obtain fs where v: "execution_handle_value h = JObj fs" "map fst fs = handle_keys h"
    and m: "member fs ''schemaVersion'' = Some (JNum 1)"
    "member fs ''harnessKind'' = Some (JStr (eh_harnessKind h))"
    "member fs ''executionId'' = Some (JStr (eh_executionId h))"
    "member fs ''nativeSession'' = map_option native_session_value (eh_nativeSession h)"
    "member fs ''transportBinding'' = map_option transport_binding_value (eh_transportBinding h)"
    using handle_value_keys [of h] by blast
  have de: "distinct (map fst es)" and df: "distinct (map fst fs)" using wf f(1) v(2) by auto
  have present: "member es k \<noteq> None \<longleftrightarrow> k \<in> fst ` set es" for k
    by (simp add: member_def map_of_eq_None_iff)
  have opt: "member es ''nativeSession'' = None \<longleftrightarrow> eh_nativeSession h = None"
    "member es ''transportBinding'' = None \<longleftrightarrow> eh_transportBinding h = None"
    using ns tb by (auto simp: validate_optional_Inr split: option.splits)
  have req: "''schemaVersion'' \<in> fst ` set es" "''harnessKind'' \<in> fst ` set es" "''executionId'' \<in> fst ` set es"
    using f(3-5) unfolding present [symmetric] by simp_all
  have fac: "''nativeSession'' \<in> fst ` set es \<longleftrightarrow> eh_nativeSession h \<noteq> None"
    "''transportBinding'' \<in> fst ` set es \<longleftrightarrow> eh_transportBinding h \<noteq> None"
    unfolding present [symmetric] using opt by simp_all
  have "fst ` set es = set (handle_keys h)"
    unfolding handle_keys_def by (rule five_keys [OF f(2) req fac])
  then have "set (map fst es) = set (handle_keys h)" by simp
  then have keys: "hasExactKeys es (handle_keys h)"
    using de by (simp add: hasExactKeys_mset set_eq_iff_mset_eq_distinct flip: set_map)
  have nat: "json_equiv x (native_session_value r)"
    if "member es ''nativeSession'' = Some x" "eh_nativeSession h = Some r" for x r
  proof -
    have "validateNativeSessionRef x (Some (eh_harnessKind h)) = Inr r"
      using ns that by (simp add: validate_optional_Inr)
    then show ?thesis using native_codec.decode_keeps wf_member that(1) wf f(1) by blast
  qed
  have bin: "json_equiv x (transport_binding_value r)"
    if "member es ''transportBinding'' = Some x" "eh_transportBinding h = Some r" for x r
  proof -
    have "validateTransportBinding x (Some (eh_harnessKind h)) = Inr r"
      using tb that by (simp add: validate_optional_Inr)
    then show ?thesis using binding_codec.decode_keeps wf_member that(1) wf f(1) by blast
  qed
  show ?thesis unfolding f(1) v(1)
  proof (rule exact_keys_equiv [OF keys distinct_handle_keys v(2)])
    fix k x w assume kx: "member es k = Some x" and "(k, w) \<in> set fs"
    then have kw: "member fs k = Some w" using df by (simp add: member_def)
    have "k \<in> fst ` set es" using kx present by blast
    then have "k \<in> {''schemaVersion'', ''harnessKind'', ''executionId'', ''nativeSession'', ''transportBinding''}"
      using f(2) by blast
    then show "json_equiv x w"
      using kx kw f(3-5) m nat bin by (auto simp del: json_equiv_simps(5,6))
  next
    fix k assume "k \<in> set (handle_keys h)"
    then have "k \<in> fst ` set es" using \<open>set (map fst es) = set (handle_keys h)\<close> by simp
    then show "member es k \<noteq> None" by (simp only: present)
  qed
qed

lemma handle_decode_encode:
  assumes wf: "wf_json v" and dec: "validateHarnessExecutionHandle v kind eid = Inr h"
  shows "validateHarnessExecutionHandle (execution_handle_value h) kind eid = Inr h"
proof -
  note d = validate_handle_InrD [OF dec]
  obtain fs where v: "execution_handle_value h = JObj fs" "map fst fs = handle_keys h"
    and m: "member fs ''schemaVersion'' = Some (JNum 1)"
    "member fs ''harnessKind'' = Some (JStr (eh_harnessKind h))"
    "member fs ''executionId'' = Some (JStr (eh_executionId h))"
    "member fs ''nativeSession'' = map_option native_session_value (eh_nativeSession h)"
    "member fs ''transportBinding'' = map_option transport_binding_value (eh_transportBinding h)"
    using handle_value_keys [of h] by blast
  have size: "utf8_length (stringify (JObj fs)) \<le> MAX_HARNESS_EXECUTION_HANDLE_BYTES"
    using d json_equiv_size [OF handle_keeps [OF wf dec]] v(1) by simp
  from d obtain es where es: "v = JObj es"
    "validate_optional (\<lambda>v. validateNativeSessionRef v (Some (eh_harnessKind h)))
      (member es ''nativeSession'') = Inr (eh_nativeSession h)"
    "validate_optional (\<lambda>v. validateTransportBinding v (Some (eh_harnessKind h)))
      (member es ''transportBinding'') = Inr (eh_transportBinding h)" by blast
  have wfm: "wf_json x" if "member es k = Some x" for k x
    using wf_member that wf es(1) by blast
  have ns: "validate_optional (\<lambda>v. validateNativeSessionRef v (Some (eh_harnessKind h)))
      (member fs ''nativeSession'') = Inr (eh_nativeSession h)"
    unfolding m(4) by (rule optional_reencode [OF es(2)]) (rule native_codec.decode_encode [OF wfm])
  have tb: "validate_optional (\<lambda>v. validateTransportBinding v (Some (eh_harnessKind h)))
      (member fs ''transportBinding'') = Inr (eh_transportBinding h)"
    unfolding m(5) by (rule optional_reencode [OF es(3)]) (rule binding_codec.decode_encode [OF wfm])
  have keys: "\<not> (\<exists>key \<in> set (map fst fs). key \<notin>
      {''schemaVersion'', ''harnessKind'', ''executionId'', ''nativeSession'', ''transportBinding''})"
    unfolding v(2) by (auto simp: handle_keys_def)
  show ?thesis
    unfolding v(1) validateHarnessExecutionHandle_def
    using d keys m size ns tb by (simp del: stringify.simps)
qed

interpretation handle_codec: stored_codec execution_handle_value
  "\<lambda>v. validateHarnessExecutionHandle v kind eid" for kind eid
  by unfold_locales (blast intro: handle_decode_encode, blast intro: handle_keeps)

section \<open>Round trips\<close>

lemma text_of_Stored_not_Nil [simp]: "text_of (Stored v) \<noteq> []"
  using stringify_kind [of v] by simp

text \<open>
  a transport binding that was ever accepted for a harness can be serialized for it, and the
  text parses back to the same binding.
\<close>

theorem transport_binding_roundtrip:
  assumes "wf_json v" and "validateTransportBinding v (Some kind) = Inr b"
  shows "serializeTransportBinding (Some b) kind = Inr (Some (Stored (transport_binding_value b))) \<and>
    parseTransportBinding (Some (Stored (transport_binding_value b))) kind = Inr (Some b)"
proof -
  have dec: "validateTransportBinding (transport_binding_value b) (Some kind) = Inr b"
    by (rule binding_codec.decode_encode [OF assms])
  moreover have "utf8_length (stringify (transport_binding_value b)) \<le> MAX_HARNESS_TRANSPORT_BINDING_BYTES"
    using validate_binding_InrD [OF dec] by blast
  ultimately show ?thesis
    using text_of_Stored_not_Nil [of "transport_binding_value b"]
    by (simp add: serializeTransportBinding_def parseTransportBinding_def)
qed

theorem transport_binding_roundtrip_witness:
  "parseTransportBinding (Some (Stored (JObj
      [(''schemaVersion'', JNum 1), (''harnessKind'', JStr ''pi''), (''kind'', JStr ''herdr''),
       (''payload'', JObj [(''pane'', JStr ''p-1'')])]))) ''pi'' =
     Inr (Some \<lparr>tb_harnessKind = ''pi'', tb_kind = ''herdr'', tb_payload = [(''pane'', JStr ''p-1'')]\<rparr>)"
proof -
  let ?b = "\<lparr>tb_harnessKind = ''pi'', tb_kind = ''herdr'', tb_payload = [(''pane'', JStr ''p-1'')]\<rparr>"
  have "safeToken (Some (JStr ''pi''))" "safeToken (Some (JStr ''herdr''))" by code_simp+
  moreover have "isBoundedJsonValue (JObj [(''pane'', JStr ''p-1'')]) 0"
    by (simp add: isBoundedJsonValue.simps)
  ultimately have "validateTransportBinding (transport_binding_value ?b) (Some ''pi'') = Inr ?b"
    by (simp add: validateTransportBinding_def transport_binding_value_def member_def
        utf8_length_def MAX_HARNESS_TRANSPORT_BINDING_BYTES_def stringify_string_def
        escape_char_def ch_quote_def ch_backslash_def Let_def show_int_def show_nat.simps digit_char_def)
  from transport_binding_roundtrip [OF _ this] show ?thesis
    by (simp add: transport_binding_value_def)
qed

text \<open>
  an accepted native session serializes, and its text parses back to it exactly when the text
  stays within the limit of the column. The identity limit alone does not ensure that: escapes
  count once as an identity and twice or more as text.
\<close>

lemma native_session_roundtrip:
  assumes "wf_json v" and "validateNativeSessionRef v (Some kind) = Inr r"
  shows "serializeNativeSessionRef (Some r) kind = Inr (Some (Stored (native_session_value r))) \<and>
    parseNativeSessionRef (Some (Stored (native_session_value r))) kind =
      (if utf8_length (stringify (native_session_value r)) \<le> MAX_NATIVE_SESSION_REF_BYTES
       then Inr (Some r) else Inl Native_Too_Large)"
proof -
  have "validateNativeSessionRef (native_session_value r) (Some kind) = Inr r"
    by (rule native_codec.decode_encode [OF assms])
  then show ?thesis
    using text_of_Stored_not_Nil [of "native_session_value r"]
    by (simp add: serializeNativeSessionRef_def parseNativeSessionRef_def)
qed

definition quoted_session :: native_session_ref where
  "quoted_session = \<lparr>ns_harnessKind = ''pi'', ns_identityKind = JStr ''id'',
     ns_opaqueId = replicate 7000 ch_quote\<rparr>"

lemma quoted_session_valid: "valid_native (Some ''pi'') quoted_session"
proof -
  have "token_128 ''pi''" by code_simp
  then show ?thesis
    by (simp add: valid_native_def quoted_session_def utf8_length_def MAX_NATIVE_SESSION_ID_BYTES_def
        ch_quote_def sum_list_replicate)
qed

lemma quoted_session_size: "utf8_length (stringify (native_session_value quoted_session)) > MAX_NATIVE_SESSION_REF_BYTES"
proof -
  have "length (concat (map escape_char (replicate n ch_quote))) = 2 * n" for n
    by (induction n) (simp_all add: escape_char_def)
  then have "14000 \<le> length (stringify (native_session_value quoted_session))"
    by (simp add: native_session_value_def quoted_session_def stringify_string_def)
  also have "\<dots> \<le> utf8_length (stringify (native_session_value quoted_session))"
    by (rule length_le_utf8_length)
  finally show ?thesis by (simp add: MAX_NATIVE_SESSION_REF_BYTES_def)
qed

lemma wf_native_session_value: "wf_json (ns_identityKind r) \<Longrightarrow> wf_json (native_session_value r)"
  by (simp add: native_session_value_def)

lemma native_session_roundtrip_witness:
  "serializeNativeSessionRef (Some quoted_session) ''pi'' =
     Inr (Some (Stored (native_session_value quoted_session))) \<and>
   parseNativeSessionRef (Some (Stored (native_session_value quoted_session))) ''pi'' = Inl Native_Too_Large"
proof -
  have "wf_json (native_session_value quoted_session)"
    by (rule wf_native_session_value) (simp add: quoted_session_def)
  moreover have "validateNativeSessionRef (native_session_value quoted_session) (Some ''pi'') = Inr quoted_session"
    using quoted_session_valid validate_native_valid by blast
  ultimately show ?thesis
    using native_session_roundtrip quoted_session_size by (simp add: not_le [symmetric])
qed

text \<open>
  the persisted handle is the generic identity alone: a handle accepted for a harness and an
  execution serializes, and its text parses back to the handle without its recovery facets,
  within the limit of the column.
\<close>

theorem execution_handle_roundtrip:
  assumes "wf_json v" and "validateHarnessExecutionHandle v (Some kind) (Some eid) = Inr h"
  shows "\<exists>t. serializeHarnessExecutionHandle h kind eid = Inr t \<and>
    parseHarnessExecutionHandle t kind eid =
      (if utf8_length (text_of t) \<le> MAX_PERSISTED_HARNESS_EXECUTION_HANDLE_BYTES
       then Inr (h\<lparr>eh_nativeSession := None, eh_transportBinding := None\<rparr>)
       else Inl Handle_Persisted_Too_Large)"
proof -
  let ?es = "[(''schemaVersion'', JNum 1), (''harnessKind'', JStr (eh_harnessKind h)),
    (''executionId'', JStr (eh_executionId h))]"
  note d = validate_handle_InrD [OF assms(2)]
  have ser: "serializeHarnessExecutionHandle h kind eid = Inr (Stored (JObj ?es))"
    using handle_codec.decode_encode [OF assms] by (simp add: serializeHarnessExecutionHandle_def)
  have "parseHarnessExecutionHandle (Stored (JObj ?es)) kind eid =
      (if utf8_length (stringify (JObj ?es)) \<le> MAX_PERSISTED_HARNESS_EXECUTION_HANDLE_BYTES
       then Inr (h\<lparr>eh_nativeSession := None, eh_transportBinding := None\<rparr>)
       else Inl Handle_Persisted_Too_Large)"
  proof (cases "utf8_length (stringify (JObj ?es)) \<le> MAX_PERSISTED_HARNESS_EXECUTION_HANDLE_BYTES")
    case True
    then have "utf8_length (stringify (JObj ?es)) \<le> MAX_HARNESS_EXECUTION_HANDLE_BYTES"
      by (simp add: MAX_PERSISTED_HARNESS_EXECUTION_HANDLE_BYTES_def MAX_HARNESS_EXECUTION_HANDLE_BYTES_def
          del: stringify.simps)
    with True show ?thesis
      using d by (auto simp: parseHarnessExecutionHandle_def validateHarnessExecutionHandle_def
          member_def validate_optional_def simp del: stringify.simps)
  qed (simp add: parseHarnessExecutionHandle_def del: stringify.simps)
  then show ?thesis using ser by (intro exI [of _ "Stored (JObj ?es)"]) (simp del: stringify.simps)
qed

theorem execution_handle_roundtrip_witness:
  "\<exists>t. serializeHarnessExecutionHandle \<lparr>eh_harnessKind = ''pi'', eh_executionId = ''l-1'',
        eh_nativeSession = None, eh_transportBinding = None\<rparr> ''pi'' ''l-1'' = Inr t"
proof -
  let ?h = "\<lparr>eh_harnessKind = ''pi'', eh_executionId = ''l-1'', eh_nativeSession = None, eh_transportBinding = None\<rparr>"
  have "wf_json (execution_handle_value ?h)"
    by (simp add: execution_handle_value_def j_optional_def)
  moreover have "token_128 ''pi''" by code_simp
  then have "validateHarnessExecutionHandle (execution_handle_value ?h) (Some ''pi'') (Some ''l-1'') = Inr ?h"
    by (simp add: validateHarnessExecutionHandle_def execution_handle_value_def j_optional_def member_def
        validate_optional_def utf8_length_def MAX_HARNESS_EXECUTION_HANDLE_BYTES_def
        stringify_string_def escape_char_def ch_quote_def ch_backslash_def Let_def show_int_def
        show_nat.simps digit_char_def)
  ultimately show ?thesis
    using execution_handle_roundtrip [of "execution_handle_value ?h" "''pi''" "''l-1''" ?h] by fast
qed

end
