(* ===== verification/Registry_State.thy ===== *)
theory Registry_State
  imports Identity_Codecs
begin

text \<open>
  The durable state of \<^verbatim>\<open>workers/bun/src/dispatch/registry.ts\<close>: its five SQLite tables as lists of
  rows in rowid order, the records read from them, and the queries and guarded updates that all
  operations use. A row lists the columns the code reads or compares; \<^verbatim>\<open>created_at\<close> and
  \<^verbatim>\<open>updated_at\<close>, which no query mentions, are left out, and so is \<^verbatim>\<open>configuration_hash\<close>'s
  algorithm: the SHA-256 digest is the parameter \<open>cfg_digest\<close> of the configuration. A column that
  holds \<^verbatim>\<open>JSON.stringify(x)\<close> of a typed value that is read back without validation holds \<open>x\<close>; the
  validated columns of a lineage hold \<open>stored_text\<close>.

  The schema's constraints (primary keys, \<^verbatim>\<open>UNIQUE\<close>, \<^verbatim>\<open>REFERENCES\<close>, the partial unique index on
  active attention requests) make the insertions fail as SQLite does. An operation runs in one
  transaction: it returns an error, and the state is unchanged, or a result with the next state.
\<close>

section \<open>Rows\<close>

datatype session_state =
    Starting | Waiting_For_Activity | Session_Running | Waiting_For_Human | Session_Stalled
  | Recovering | Retained | Closed | Unavailable

datatype response_state = Pending | Responded | Cancelled | Obsolete

datatype delivery_state =
    Response_Not_Delivered | Delivery_Requested | Delivery_Acknowledged | Delivery_Uncertain

record human_attention =
  att_attentionId :: string
  att_requestGeneration :: int
  att_category :: string
  att_message :: string
  att_requestedAt :: string
  att_responseState :: response_state
  att_deliveryState :: delivery_state
  att_deliveryAttemptId :: "string option"
  att_origin :: "json option"
  att_interaction :: "json option"
  att_responseSchema :: "json option"

datatype intervention_state = Intervention_Pending | Resuming_Automation | Resumed

record human_intervention_lifecycle =
  inter_attentionId :: string
  inter_state :: intervention_state
  inter_requestedAt :: string
  inter_handedBackAt :: "string option"
  inter_automationResumedAt :: "string option"

record harness_capabilities =
  cap_structuredResult :: bool
  cap_continuation :: bool
  cap_retainedSessionRecovery :: bool
  cap_structuredAttention :: bool
  cap_nativeBlocking :: bool
  cap_canAttachTerminal :: bool
  cap_canSendInput :: bool
  cap_canInterrupt :: bool
  cap_canDetectAttention :: bool
  cap_canResume :: bool
  cap_canObserveStructuredEvents :: bool
  cap_structuredConfirmation :: bool
  cap_structuredTextResponse :: bool
  cap_structuredChoiceResponse :: bool
  cap_structuredMultilineResponse :: bool
  cap_nativePromptControl :: bool
  cap_conversationalTakeover :: bool
  cap_automationResume :: bool

type_synonym json_record = "(string \<times> json) list"

record DispatchRow =
  d_action_id :: string
  d_occurrence_id :: string
  d_action_json :: execute_action
  d_action_hash :: string
  d_state :: dispatch_state
  d_lineage_id :: "string option"
  d_result_nonce :: string
  d_result_directory :: string
  d_completion_requirement :: structured_completion_requirement
  d_outputs :: "json_record option"
  d_failure :: "json_record option"
  d_prompt_intent_at :: "string option"
  d_prompt_accepted_at :: "string option"
  d_native_activity_at :: "string option"
  d_provider_turn_settled_at :: "string option"
  d_native_idle_at :: "string option"
  d_structured_result_received_at :: "string option"
  d_stalled_at :: "string option"
  d_settled_at :: "string option"
  d_prompt_evidence :: "json_record option"
  d_prompt_authorized_at :: "string option"
  d_server_acknowledged_at :: "string option"

record LineageRow =
  l_lineage_id :: string
  l_logical_lineage_id :: string
  l_configuration_json :: string
  l_configuration_hash :: string
  l_provider :: string
  l_harness_kind :: string
  l_session_state :: session_state
  l_capabilities :: stored_text
  l_attention :: "human_attention option"
  l_intervention :: "human_intervention_lifecycle option"
  l_started_at :: string
  l_last_activity_at :: string
  l_result_control_path :: string
  l_ownership_token :: string
  l_active_action_id :: "string option"
  l_execution_handle :: "stored_text option"
  l_transport_binding :: "stored_text option"
  l_native_session :: "stored_text option"
  l_interactive :: "stored_text option"

record human_attention_response =
  resp_attentionId :: string
  resp_requestGeneration :: int
  resp_approved :: bool
  resp_value :: json
  resp_respondedAt :: string

definition human_attention_response_value :: "human_attention_response \<Rightarrow> json" where
  "human_attention_response_value r = JObj
     [(''attentionId'', JStr (resp_attentionId r)),
      (''requestGeneration'', JNum (resp_requestGeneration r)),
      (''approved'', JBool (resp_approved r)), (''value'', resp_value r),
      (''respondedAt'', JStr (resp_respondedAt r))]"

datatype recoverability = Rebind_Exact | Wait_Not_Recoverable

record HumanAttentionRequestRow =
  h_attention_id :: string
  h_request_generation :: int
  h_registration_request_id :: string
  h_action_id :: string
  h_run_id :: string
  h_occurrence_id :: string
  h_attempt_id :: string
  h_lineage_id :: string
  h_harness_execution_id :: string
  h_native_session_id :: "string option"
  h_recoverability :: recoverability
  h_controller_generation :: string
  h_request :: json
  h_response_state :: response_state
  h_response :: "human_attention_response option"
  h_delivery_state :: delivery_state
  h_delivery_attempt_id :: "string option"
  h_created_at :: string
  h_response_committed_at :: "string option"
  h_delivery_requested_at :: "string option"
  h_delivery_acknowledged_at :: "string option"
  h_delivery_uncertain_at :: "string option"
  h_cancelled_at :: "string option"
  h_cancellation_reason :: "string option"

datatype attention_event_type =
    Request_Created | Response_Committed | Event_Delivery_Requested | Event_Delivery_Acknowledged
  | Event_Delivery_Uncertain | Request_Cancelled | Request_Obsolete

record attention_event =
  e_attention_id :: string
  e_event_type :: attention_event_type
  e_occurred_at :: string
  e_metadata :: json_record

datatype transition_mode = Prepared_Process_Adopted | Fresh_Process_Fallback

record process_transition =
  t_sourceActionId :: string
  t_sourceAttemptId :: string
  t_targetActionId :: string
  t_targetAttemptId :: string
  t_sourceLineageId :: string
  t_targetLineageId :: string
  t_mode :: transition_mode
  t_recordedAt :: string

record registry =
  reg_lineages :: "LineageRow list"
  reg_dispatches :: "DispatchRow list"
  reg_attention :: "HumanAttentionRequestRow list"
  reg_events :: "attention_event list"
  reg_transitions :: "process_transition list"

text \<open>What the constructor receives, and the digest the code takes from \<^verbatim>\<open>node:crypto\<close>.\<close>

record registry_config =
  cfg_dataRoot :: string
  cfg_harnessKind :: string
  cfg_capabilities :: "string \<Rightarrow> harness_capabilities"
  cfg_digest :: "string \<Rightarrow> string"

section \<open>Records read from rows\<close>

record dispatch_record =
  rec_action :: execute_action
  rec_state :: dispatch_state
  rec_lineageId :: "string option"
  rec_resultNonce :: string
  rec_resultDirectory :: string
  rec_completionRequirement :: structured_completion_requirement
  rec_outputs :: "json_record option"
  rec_failure :: "json_record option"
  rec_promptIntentAt :: "string option"
  rec_promptAcceptedAt :: "string option"
  rec_nativeActivityAt :: "string option"
  rec_providerTurnSettledAt :: "string option"
  rec_nativeIdleAt :: "string option"
  rec_structuredResultReceivedAt :: "string option"
  rec_stalledAt :: "string option"
  rec_settledAt :: "string option"
  rec_promptEvidence :: "json_record option"
  rec_promptAuthorizedAt :: "string option"
  rec_serverAcknowledgedAt :: "string option"

record harness_lineage =
  lin_lineageId :: string
  lin_logicalLineageId :: string
  lin_configurationJson :: string
  lin_provider :: string
  lin_harnessKind :: string
  lin_sessionState :: session_state
  lin_capabilities :: harness_capabilities
  lin_attention :: "human_attention option"
  lin_intervention :: "human_intervention_lifecycle option"
  lin_startedAt :: string
  lin_lastActivityAt :: string
  lin_resultControlPath :: string
  lin_ownershipToken :: string
  lin_activeActionId :: "string option"
  lin_executionHandle :: "harness_execution_handle option"
  lin_nativeSession :: "native_session_ref option"
  lin_transportBinding :: "harness_transport_binding option"
  lin_interactive :: "interactive_harness_session option"

section \<open>Failures\<close>

datatype registry_error =
    Unknown_Dispatch string
  | Unknown_Lineage string
  | Unknown_Attention string
  | Action_Conflict string
  | Setup_Lineage_Conflict
  | Setup_Lineage_Unavailable string
  | Recovery_Lineage_Unavailable string
  | Logical_Lineage_Busy string
  | Unknown_Logical_Lineage string
  | Incompatible_Continuation string
  | Adopted_Dispatch_Conflict string
  | Adopted_Ownership_Conflict string
  | Already_Assigned string
  | Lineage_Occupied string string
  | No_Execution_Handle string
  | Attention_Too_Large
  | Attention_Registration_Conflict
  | Attention_Context_Stale
  | Attention_Already_Active
  | Attention_Response_Too_Large
  | Attention_Response_Stale
  | Attention_Response_Different
  | Attention_Response_Unavailable
  | Attention_Delivery_Replayed
  | Attention_Ack_Stale
  | Attention_Ack_Uncertain
  | Transition_Conflict string
  | Transfer_Not_Atomic string
  | Fallback_Conflict string
  | Fallback_Not_Atomic string
  | Transfer_Contract_Violated
  | Transfer_Already_Owned string
  | No_Lineage_To_Complete string
  | Cannot_Complete_Failed string
  | Cannot_Cancel_Acknowledged string
  | Capabilities_Malformed
  | Capabilities_Invalid
  | Handle_Missing
  | Constraint_Violation
  | Bad_Identity identity_error
  | Bad_Requirement requirement_error

definition lift_identity :: "identity_error + 'a \<Rightarrow> registry_error + 'a" where
  "lift_identity r = (case r of Inl e \<Rightarrow> Inl (Bad_Identity e) | Inr x \<Rightarrow> Inr x)"

definition lift_requirement :: "requirement_error + 'a \<Rightarrow> registry_error + 'a" where
  "lift_requirement r = (case r of Inl e \<Rightarrow> Inl (Bad_Requirement e) | Inr x \<Rightarrow> Inr x)"

lemma lift_identity_Inr [simp]: "lift_identity r = Inr x \<longleftrightarrow> r = Inr x"
  by (auto simp: lift_identity_def split: sum.splits)

lemma lift_requirement_Inr [simp]: "lift_requirement r = Inr x \<longleftrightarrow> r = Inr x"
  by (auto simp: lift_requirement_def split: sum.splits)

section \<open>Capabilities\<close>

definition capability_names :: "string list" where
  "capability_names =
     [''structuredResult'', ''continuation'', ''retainedSessionRecovery'', ''structuredAttention'',
      ''nativeBlocking'', ''canAttachTerminal'', ''canSendInput'', ''canInterrupt'',
      ''canDetectAttention'', ''canResume'', ''canObserveStructuredEvents'',
      ''structuredConfirmation'', ''structuredTextResponse'', ''structuredChoiceResponse'',
      ''structuredMultilineResponse'', ''nativePromptControl'', ''conversationalTakeover'',
      ''automationResume'']"

definition capability_flags :: "harness_capabilities \<Rightarrow> bool list" where
  "capability_flags c =
     [cap_structuredResult c, cap_continuation c, cap_retainedSessionRecovery c,
      cap_structuredAttention c, cap_nativeBlocking c, cap_canAttachTerminal c,
      cap_canSendInput c, cap_canInterrupt c, cap_canDetectAttention c, cap_canResume c,
      cap_canObserveStructuredEvents c, cap_structuredConfirmation c,
      cap_structuredTextResponse c, cap_structuredChoiceResponse c,
      cap_structuredMultilineResponse c, cap_nativePromptControl c,
      cap_conversationalTakeover c, cap_automationResume c]"

definition capabilities_value :: "harness_capabilities \<Rightarrow> json" where
  "capabilities_value c = JObj (zip capability_names (map JBool (capability_flags c)))"

definition flag_of :: "json_record \<Rightarrow> string \<Rightarrow> bool" where
  "flag_of es k = (member es k = Some (JBool True))"

definition capabilities_of :: "json_record \<Rightarrow> harness_capabilities" where
  "capabilities_of es = \<lparr>
     cap_structuredResult = flag_of es ''structuredResult'',
     cap_continuation = flag_of es ''continuation'',
     cap_retainedSessionRecovery = flag_of es ''retainedSessionRecovery'',
     cap_structuredAttention = flag_of es ''structuredAttention'',
     cap_nativeBlocking = flag_of es ''nativeBlocking'',
     cap_canAttachTerminal = flag_of es ''canAttachTerminal'',
     cap_canSendInput = flag_of es ''canSendInput'',
     cap_canInterrupt = flag_of es ''canInterrupt'',
     cap_canDetectAttention = flag_of es ''canDetectAttention'',
     cap_canResume = flag_of es ''canResume'',
     cap_canObserveStructuredEvents = flag_of es ''canObserveStructuredEvents'',
     cap_structuredConfirmation = flag_of es ''structuredConfirmation'',
     cap_structuredTextResponse = flag_of es ''structuredTextResponse'',
     cap_structuredChoiceResponse = flag_of es ''structuredChoiceResponse'',
     cap_structuredMultilineResponse = flag_of es ''structuredMultilineResponse'',
     cap_nativePromptControl = flag_of es ''nativePromptControl'',
     cap_conversationalTakeover = flag_of es ''conversationalTakeover'',
     cap_automationResume = flag_of es ''automationResume''\<rparr>"

definition defaultHarnessCapabilities :: harness_capabilities where
  "defaultHarnessCapabilities = \<lparr>
     cap_structuredResult = False, cap_continuation = True, cap_retainedSessionRecovery = True,
     cap_structuredAttention = False, cap_nativeBlocking = True, cap_canAttachTerminal = True,
     cap_canSendInput = True, cap_canInterrupt = True, cap_canDetectAttention = True,
     cap_canResume = True, cap_canObserveStructuredEvents = True,
     cap_structuredConfirmation = False, cap_structuredTextResponse = False,
     cap_structuredChoiceResponse = False, cap_structuredMultilineResponse = False,
     cap_nativePromptControl = False, cap_conversationalTakeover = False,
     cap_automationResume = False\<rparr>"

fun is_JBool :: "json \<Rightarrow> bool" where
  "is_JBool (JBool b) = True"
| "is_JBool v = False"

definition persistedCapabilities :: "stored_text \<Rightarrow> registry_error + harness_capabilities" where
  "persistedCapabilities serialized =
     (case serialized of
        Garbage _ \<Rightarrow> Inl Capabilities_Malformed
      | Stored (JObj es) \<Rightarrow>
          if sort (map fst es) \<noteq> sort capability_names \<or> (\<exists>item \<in> set (map snd es). \<not> is_JBool item)
          then Inl Capabilities_Invalid
          else Inr (capabilities_of es)
      | Stored _ \<Rightarrow> Inl Capabilities_Invalid)"

section \<open>Reading rows\<close>

text \<open>
  The completion requirement is a \<^verbatim>\<open>NOT NULL\<close> column that every insertion fills, so the fallback
  of \<^verbatim>\<open>mapDispatch\<close> for an absent one is not reached.
\<close>

definition mapDispatch :: "DispatchRow \<Rightarrow> dispatch_record" where
  "mapDispatch row = \<lparr>
     rec_action = d_action_json row,
     rec_state = d_state row,
     rec_lineageId = d_lineage_id row,
     rec_resultNonce = d_result_nonce row,
     rec_resultDirectory = d_result_directory row,
     rec_completionRequirement = d_completion_requirement row,
     rec_outputs = d_outputs row,
     rec_failure = d_failure row,
     rec_promptIntentAt = d_prompt_intent_at row,
     rec_promptAcceptedAt = d_prompt_accepted_at row,
     rec_nativeActivityAt = d_native_activity_at row,
     rec_providerTurnSettledAt = d_provider_turn_settled_at row,
     rec_nativeIdleAt = d_native_idle_at row,
     rec_structuredResultReceivedAt = d_structured_result_received_at row,
     rec_stalledAt = d_stalled_at row,
     rec_settledAt = d_settled_at row,
     rec_promptEvidence = d_prompt_evidence row,
     rec_promptAuthorizedAt = d_prompt_authorized_at row,
     rec_serverAcknowledgedAt = d_server_acknowledged_at row\<rparr>"

definition persistedExecutionHandle ::
  "LineageRow \<Rightarrow> registry_error + harness_execution_handle option" where
  "persistedExecutionHandle row =
     (case l_execution_handle row of
        None \<Rightarrow>
          if l_native_session row \<noteq> None \<or> l_transport_binding row \<noteq> None \<or> l_interactive row \<noteq> None
          then Inl Handle_Missing else Inr None
      | Some t \<Rightarrow> bind_result (lift_identity (parseHarnessExecutionHandle t (l_harness_kind row) (l_lineage_id row)))
          (\<lambda>h. Inr (Some h)))"

definition persistedInteractive ::
  "stored_text option \<Rightarrow> identity_error + interactive_harness_session option" where
  "persistedInteractive x =
     (case x of
        None \<Rightarrow> Inr None
      | Some (Garbage _) \<Rightarrow> Inl Interactive_Malformed
      | Some (Stored v) \<Rightarrow> bind_result (validateInteractiveHarnessSession v) (\<lambda>s. Inr (Some s)))"

definition mapLineage :: "LineageRow \<Rightarrow> registry_error + harness_lineage" where
  "mapLineage row =
     bind_result (persistedCapabilities (l_capabilities row)) (\<lambda>capabilities.
     bind_result (lift_identity (parseTransportBinding (l_transport_binding row) (l_harness_kind row)))
       (\<lambda>transportBinding.
     bind_result (lift_identity (parseNativeSessionRef (l_native_session row) (l_harness_kind row)))
       (\<lambda>nativeSession.
     bind_result (persistedExecutionHandle row) (\<lambda>executionHandle.
     bind_result (lift_identity (persistedInteractive (l_interactive row))) (\<lambda>interactive.
     Inr \<lparr>
       lin_lineageId = l_lineage_id row,
       lin_logicalLineageId = l_logical_lineage_id row,
       lin_configurationJson = l_configuration_json row,
       lin_provider = l_provider row,
       lin_harnessKind = l_harness_kind row,
       lin_sessionState = l_session_state row,
       lin_capabilities = capabilities,
       lin_attention = l_attention row,
       lin_intervention = l_intervention row,
       lin_startedAt = l_started_at row,
       lin_lastActivityAt = l_last_activity_at row,
       lin_resultControlPath = l_result_control_path row,
       lin_ownershipToken = l_ownership_token row,
       lin_activeActionId = l_active_action_id row,
       lin_executionHandle = executionHandle,
       lin_nativeSession = nativeSession,
       lin_transportBinding = transportBinding,
       lin_interactive = interactive\<rparr>)))))"

section \<open>Queries and guarded updates\<close>

definition dispatch_row :: "string \<Rightarrow> registry \<Rightarrow> DispatchRow option" where
  "dispatch_row actionId s = lookup_row d_action_id actionId (reg_dispatches s)"

definition lineage_row :: "string \<Rightarrow> registry \<Rightarrow> LineageRow option" where
  "lineage_row lineageId s = lookup_row l_lineage_id lineageId (reg_lineages s)"

definition attention_row :: "string \<Rightarrow> registry \<Rightarrow> HumanAttentionRequestRow option" where
  "attention_row attentionId s = lookup_row h_attention_id attentionId (reg_attention s)"

definition update_dispatch ::
  "string \<Rightarrow> (DispatchRow \<Rightarrow> DispatchRow) \<Rightarrow> registry \<Rightarrow> registry" where
  "update_dispatch actionId f s =
     s\<lparr>reg_dispatches := update_where (\<lambda>r. d_action_id r = actionId) f (reg_dispatches s)\<rparr>"

definition update_lineage ::
  "string \<Rightarrow> (LineageRow \<Rightarrow> LineageRow) \<Rightarrow> registry \<Rightarrow> registry" where
  "update_lineage lineageId f s =
     s\<lparr>reg_lineages := update_where (\<lambda>r. l_lineage_id r = lineageId) f (reg_lineages s)\<rparr>"

definition update_attention ::
  "string \<Rightarrow> (HumanAttentionRequestRow \<Rightarrow> HumanAttentionRequestRow) \<Rightarrow> registry \<Rightarrow> registry" where
  "update_attention attentionId f s =
     s\<lparr>reg_attention := update_where (\<lambda>r. h_attention_id r = attentionId) f (reg_attention s)\<rparr>"

interpretation dispatches: keyed_table d_action_id dispatch_row update_dispatch
  by unfold_locales
    (auto simp: dispatch_row_def update_dispatch_def lookup_row_update_key dest: lookup_row_SomeD)

interpretation lineages: keyed_table l_lineage_id lineage_row update_lineage
  by unfold_locales
    (auto simp: lineage_row_def update_lineage_def lookup_row_update_key dest: lookup_row_SomeD)

interpretation attentions: keyed_table h_attention_id attention_row update_attention
  by unfold_locales
    (auto simp: attention_row_def update_attention_def lookup_row_update_key dest: lookup_row_SomeD)

text \<open>\<^verbatim>\<open>get\<close>, \<^verbatim>\<open>getLineage\<close> and the lists.\<close>

definition get_row :: "string \<Rightarrow> registry \<Rightarrow> registry_error + DispatchRow" where
  "get_row actionId s =
     (case dispatch_row actionId s of None \<Rightarrow> Inl (Unknown_Dispatch actionId) | Some r \<Rightarrow> Inr r)"

definition get :: "string \<Rightarrow> registry \<Rightarrow> registry_error + dispatch_record" where
  "get actionId s = bind_result (get_row actionId s) (\<lambda>r. Inr (mapDispatch r))"

definition getLineage :: "string \<Rightarrow> registry \<Rightarrow> registry_error + harness_lineage" where
  "getLineage lineageId s =
     (case lineage_row lineageId s of None \<Rightarrow> Inl (Unknown_Lineage lineageId) | Some r \<Rightarrow> mapLineage r)"

definition list_dispatches :: "registry \<Rightarrow> dispatch_record list" where
  "list_dispatches s = map mapDispatch (reg_dispatches s)"

definition listByOccurrence :: "string \<Rightarrow> registry \<Rightarrow> dispatch_record list" where
  "listByOccurrence occurrenceId s =
     map mapDispatch (filter (\<lambda>r. d_occurrence_id r = occurrenceId) (reg_dispatches s))"

fun sequence_results :: "('e + 'a) list \<Rightarrow> 'e + 'a list" where
  "sequence_results [] = Inr []"
| "sequence_results (r # rs) = bind_result r (\<lambda>x. bind_result (sequence_results rs) (\<lambda>xs. Inr (x # xs)))"

definition listLineages :: "registry \<Rightarrow> registry_error + harness_lineage list" where
  "listLineages s = sequence_results (map mapLineage (reg_lineages s))"

definition by_logical :: "string \<Rightarrow> registry \<Rightarrow> LineageRow option" where
  "by_logical logicalId s = List.find (\<lambda>r. l_logical_lineage_id r = logicalId) (reg_lineages s)"

section \<open>Insertions under the schema's constraints\<close>

definition insert_lineage :: "LineageRow \<Rightarrow> registry \<Rightarrow> registry_error + registry" where
  "insert_lineage row s =
     (if \<exists>r \<in> set (reg_lineages s).
          l_lineage_id r = l_lineage_id row \<or>
          l_logical_lineage_id r = l_logical_lineage_id row \<or>
          l_result_control_path r = l_result_control_path row \<or>
          l_ownership_token r = l_ownership_token row
      then Inl Constraint_Violation
      else Inr (s\<lparr>reg_lineages := reg_lineages s @ [row]\<rparr>))"

definition known_lineage :: "string option \<Rightarrow> registry \<Rightarrow> bool" where
  "known_lineage x s = (case x of None \<Rightarrow> True | Some l \<Rightarrow> lineage_row l s \<noteq> None)"

definition insert_dispatch :: "DispatchRow \<Rightarrow> registry \<Rightarrow> registry_error + registry" where
  "insert_dispatch row s =
     (if dispatch_row (d_action_id row) s \<noteq> None \<or> \<not> known_lineage (d_lineage_id row) s
      then Inl Constraint_Violation
      else Inr (s\<lparr>reg_dispatches := reg_dispatches s @ [row]\<rparr>))"

text \<open>\<^verbatim>\<open>UPDATE harness_lineages SET logical_lineage_id=... WHERE lineage_id=...\<close>\<close>

definition rename_logical :: "string \<Rightarrow> string \<Rightarrow> registry \<Rightarrow> registry_error + registry" where
  "rename_logical lineageId logicalId s =
     (if lineage_row lineageId s \<noteq> None \<and>
         (\<exists>r \<in> set (reg_lineages s). l_lineage_id r \<noteq> lineageId \<and> l_logical_lineage_id r = logicalId)
      then Inl Constraint_Violation
      else Inr (update_lineage lineageId (\<lambda>r. r\<lparr>l_logical_lineage_id := logicalId\<rparr>) s))"

definition lineageControlPath :: "registry_config \<Rightarrow> string \<Rightarrow> string" where
  "lineageControlPath cfg lineageId =
     cfg_dataRoot cfg @ ''/lineages/'' @ lineageId @ ''/result-control.json''"

end
