(* ===== verification/Registry_Lineages.thy ===== *)
theory Registry_Lineages
  imports Registry_State
begin

text \<open>
  The operations of the dispatch registry on harness lineages: reserving and retiring a setup
  lineage, resolving a continuation, occupying a lineage, recording its execution and its native
  session, updating its session. A clock reading and a generated UUID are arguments (\<open>now\<close>,
  \<open>uuid\<close>); an operation that reads the clock several times gets one reading.
\<close>

section \<open>Creating lineages\<close>

text \<open>
  The row that the three \<^verbatim>\<open>INSERT INTO harness_lineages\<close> statements of the registry write: session
  starting, no attention, no intervention, no execution facts.
\<close>

definition ownership_token :: "registry_config \<Rightarrow> string \<Rightarrow> string \<Rightarrow> string" where
  "ownership_token cfg scope lineageId =
     ''qe-'' @ take 24 (cfg_digest cfg (scope @ '':'' @ lineageId))"

definition new_lineage_row ::
  "registry_config \<Rightarrow> string \<Rightarrow> string \<Rightarrow> string \<Rightarrow> string \<Rightarrow> string \<Rightarrow> string \<Rightarrow> string \<Rightarrow>
   string option \<Rightarrow> LineageRow" where
  "new_lineage_row cfg now lineageId logicalId configuration provider kind scope active = \<lparr>
     l_lineage_id = lineageId,
     l_logical_lineage_id = logicalId,
     l_configuration_json = configuration,
     l_configuration_hash = cfg_digest cfg configuration,
     l_provider = provider,
     l_harness_kind = kind,
     l_session_state = Starting,
     l_capabilities = Stored (capabilities_value (cfg_capabilities cfg kind)),
     l_attention = None,
     l_intervention = None,
     l_started_at = now,
     l_last_activity_at = now,
     l_result_control_path = lineageControlPath cfg lineageId,
     l_ownership_token = ownership_token cfg scope lineageId,
     l_active_action_id = active,
     l_execution_handle = None,
     l_transport_binding = None,
     l_native_session = None,
     l_interactive = None\<rparr>"

definition reserveSetupLineage ::
  "registry_config \<Rightarrow> string \<Rightarrow> harness_setup_context \<Rightarrow> registry \<Rightarrow>
   registry_error + harness_lineage \<times> registry" where
  "reserveSetupLineage cfg now context s =
     (let configurationJson = physicalConfigurationForSetup context in
      case lineage_row (sctx_physicalLineageId context) s of
        Some existing \<Rightarrow>
          if l_logical_lineage_id existing \<noteq> sctx_logicalLineageId context \<or>
             l_harness_kind existing \<noteq> sctx_harnessKind context \<or>
             l_configuration_json existing \<noteq> configurationJson \<or>
             l_active_action_id existing \<noteq> None \<or>
             l_session_state existing \<in> {Closed, Unavailable}
          then Inl Setup_Lineage_Conflict
          else bind_result (getLineage (sctx_physicalLineageId context) s) (\<lambda>l. Inr (l, s))
      | None \<Rightarrow>
          bind_result (insert_lineage (new_lineage_row cfg now (sctx_physicalLineageId context)
              (sctx_logicalLineageId context) configurationJson
              (model_provider (sconf_model (sctx_configuration context)))
              (sctx_harnessKind context) (cfg_harnessKind cfg) None) s) (\<lambda>s'.
          bind_result (getLineage (sctx_physicalLineageId context) s') (\<lambda>l. Inr (l, s'))))"

definition retireUnclaimedSetupLineage :: "string \<Rightarrow> registry \<Rightarrow> registry" where
  "retireUnclaimedSetupLineage lineageId s =
     (case lineage_row lineageId s of
        None \<Rightarrow> s
      | Some existing \<Rightarrow>
          if l_active_action_id existing \<noteq> None then s
          else update_lineage lineageId (\<lambda>r. if l_active_action_id r = None
            then r\<lparr>l_session_state := Closed, l_attention := None, l_intervention := None\<rparr> else r) s)"

section \<open>Finding and claiming lineages\<close>

definition resolveContinuation ::
  "registry_config \<Rightarrow> execute_action \<Rightarrow> registry \<Rightarrow> registry_error + harness_lineage" where
  "resolveContinuation cfg action s =
     (let logicalLineageId = ctx_logical_lineage_id (exec_context (act_execution action)) in
      case by_logical logicalLineageId s of
        None \<Rightarrow> Inl (Unknown_Logical_Lineage logicalLineageId)
      | Some row \<Rightarrow>
          let expected = physicalConfiguration action in
          if l_harness_kind row \<noteq> conf_harness_kind (exec_configuration (act_execution action)) \<or>
             l_configuration_json row \<noteq> expected \<or>
             l_configuration_hash row \<noteq> cfg_digest cfg expected
          then Inl (Incompatible_Continuation logicalLineageId)
          else mapLineage row)"

definition assignLineage ::
  "string \<Rightarrow> string \<Rightarrow> registry \<Rightarrow> registry_error + dispatch_record \<times> registry" where
  "assignLineage actionId lineageId s =
     (let claims = (\<lambda>r. d_action_id r = actionId \<and> d_lineage_id r = None) in
      if (\<exists>r \<in> set (reg_dispatches s). claims r) \<and> \<not> known_lineage (Some lineageId) s
      then Inl Constraint_Violation
      else
        let s' = update_dispatch actionId (\<lambda>r. if d_lineage_id r = None
              then r\<lparr>d_lineage_id := Some lineageId\<rparr> else r) s in
        bind_result (get actionId s') (\<lambda>dispatch.
          if rec_lineageId dispatch \<noteq> Some lineageId then Inl (Already_Assigned actionId)
          else Inr (dispatch, s')))"

definition occupy :: "string \<Rightarrow> string \<Rightarrow> registry \<Rightarrow> registry_error + registry" where
  "occupy lineageId actionId s =
     bind_result (getLineage lineageId s) (\<lambda>lineage.
       if truthy (lin_activeActionId lineage) \<and> lin_activeActionId lineage \<noteq> Some actionId
       then Inl (Lineage_Occupied lineageId (the (lin_activeActionId lineage)))
       else Inr (update_lineage lineageId (\<lambda>r. r\<lparr>
         l_active_action_id := Some actionId,
         l_intervention := (if l_active_action_id r = Some actionId then l_intervention r else None)\<rparr>) s))"

section \<open>Recording execution facts\<close>

text \<open>
  The interactive argument is optional and nullable: \<open>None\<close> keeps the stored session,
  \<open>Some None\<close> clears it.
\<close>

definition recordExecution ::
  "string \<Rightarrow> harness_execution_handle \<Rightarrow> interactive_harness_session option option \<Rightarrow> registry \<Rightarrow>
   registry_error + registry" where
  "recordExecution lineageId handle interactive s =
     bind_result (getLineage lineageId s) (\<lambda>lineage.
     bind_result (lift_identity (validateHarnessExecutionHandle (execution_handle_value handle)
         (Some (lin_harnessKind lineage)) (Some lineageId))) (\<lambda>valid.
     bind_result (case interactive of
         None \<Rightarrow> Inr (lin_interactive lineage)
       | Some None \<Rightarrow> Inr None
       | Some (Some i) \<Rightarrow> bind_result (lift_identity (validateInteractiveHarnessSession (interactive_value i)))
           (\<lambda>v. Inr (Some v))) (\<lambda>persisted.
     bind_result (lift_identity (serializeHarnessExecutionHandle valid (lin_harnessKind lineage) lineageId)) (\<lambda>h.
     bind_result (lift_identity (serializeTransportBinding (eh_transportBinding valid) (lin_harnessKind lineage))) (\<lambda>tb.
     bind_result (lift_identity (serializeNativeSessionRef (eh_nativeSession valid) (lin_harnessKind lineage))) (\<lambda>ns.
     Inr (update_lineage lineageId (\<lambda>r. r\<lparr>
       l_execution_handle := Some h,
       l_transport_binding := tb,
       l_native_session := ns,
       l_interactive := map_option (\<lambda>i. Stored (interactive_value i)) persisted\<rparr>) s)))))))"

definition recordNativeSession ::
  "string \<Rightarrow> string \<Rightarrow> native_session_ref \<Rightarrow> registry \<Rightarrow> registry_error + registry" where
  "recordNativeSession now lineageId nativeSession s =
     bind_result (getLineage lineageId s) (\<lambda>lineage.
     bind_result (lift_identity (validateNativeSessionRef (native_session_value nativeSession)
         (Some (lin_harnessKind lineage)))) (\<lambda>valid.
     case lin_executionHandle lineage of
       None \<Rightarrow> Inl (No_Execution_Handle lineageId)
     | Some handle \<Rightarrow>
         bind_result (recordExecution lineageId (handle\<lparr>
             eh_nativeSession := Some valid,
             eh_transportBinding := (case lin_transportBinding lineage of
                 None \<Rightarrow> eh_transportBinding handle | Some b \<Rightarrow> Some b)\<rparr>) None s) (\<lambda>s'.
         Inr (update_lineage lineageId (\<lambda>r. r\<lparr>l_last_activity_at := now\<rparr>) s'))))"

definition updateSession ::
  "string \<Rightarrow> session_state \<Rightarrow> human_attention option \<Rightarrow> string \<Rightarrow>
   human_intervention_lifecycle option \<Rightarrow> registry \<Rightarrow> registry_error + harness_lineage \<times> registry" where
  "updateSession lineageId state attention lastActivityAt intervention s =
     (let s' = update_lineage lineageId (\<lambda>r. r\<lparr>
         l_session_state := state,
         l_attention := attention,
         l_intervention := coalesce intervention (l_intervention r),
         l_last_activity_at := lastActivityAt\<rparr>) s in
      bind_result (getLineage lineageId s') (\<lambda>l. Inr (l, s')))"

end
