(* ===== verification/Registry_Dispatches.thy ===== *)
theory Registry_Dispatches
  imports Registry_Lineages
begin

text \<open>
  The operations of the dispatch registry on dispatches: accepting an Action exactly once,
  adopting one from a recovered lineage, the lifecycle marks, and the terminal transitions
  (complete, fail, cancel, acknowledge).
\<close>

section \<open>Accepting\<close>

definition failure_code :: "json_record option \<Rightarrow> json option" where
  "failure_code f = (case f of None \<Rightarrow> None | Some es \<Rightarrow> member es ''code'')"

definition last_of_occurrence :: "string \<Rightarrow> registry \<Rightarrow> DispatchRow option" where
  "last_of_occurrence occurrenceId s =
     (case rev (filter (\<lambda>r. d_occurrence_id r = occurrenceId) (reg_dispatches s)) of
        [] \<Rightarrow> None | r # _ \<Rightarrow> Some r)"

definition retained_work_recovery ::
  "execute_action \<Rightarrow> DispatchRow option \<Rightarrow> LineageRow \<Rightarrow> bool" where
  "retained_work_recovery action previous existing =
     (case (previous, act_operational_recovery action) of
        (Some p, Some recovery) \<Rightarrow>
          rec_authorization_kind recovery = Auth_Human \<and>
          rec_continuation_mode recovery = Cont_Fresh \<and>
          rec_source_attempt_id recovery = Some (act_attempt_id (d_action_json p)) \<and>
          d_state p = Uncertain \<and>
          d_lineage_id p = Some (l_lineage_id existing) \<and>
          failure_code (d_failure p) = Some (JStr ''harness_contract_violation'')
      | _ \<Rightarrow> False)"

definition release_lineage :: "string \<Rightarrow> string \<Rightarrow> string \<Rightarrow> registry \<Rightarrow> registry" where
  "release_lineage now lineageId actionId s =
     update_lineage lineageId (\<lambda>r. if l_active_action_id r = Some actionId
       then r\<lparr>l_active_action_id := None, l_session_state := Retained, l_attention := None,
         l_last_activity_at := now\<rparr> else r) s"

definition retireResolvedFreshLineage ::
  "string \<Rightarrow> execute_action \<Rightarrow> registry \<Rightarrow> registry_error + registry" where
  "retireResolvedFreshLineage now action s =
     (let logicalLineageId = ctx_logical_lineage_id (exec_context (act_execution action)) in
      case by_logical logicalLineageId s of
        None \<Rightarrow> Inr s
      | Some existing \<Rightarrow>
          let previous = last_of_occurrence (act_occurrence_id action) s;
              retainedWorkRecovery = retained_work_recovery action previous existing in
          (case previous of
             None \<Rightarrow> Inl (Logical_Lineage_Busy logicalLineageId)
           | Some p \<Rightarrow>
               if (\<not> retainedWorkRecovery \<and> d_state p \<noteq> Failed) \<or>
                  d_lineage_id p \<noteq> Some (l_lineage_id existing) \<or>
                  (l_active_action_id existing \<noteq> None \<and>
                    (\<not> retainedWorkRecovery \<or> l_active_action_id existing \<noteq> Some (d_action_id p)))
               then Inl (Logical_Lineage_Busy logicalLineageId)
               else
                 let s' = (if retainedWorkRecovery
                   then release_lineage now (l_lineage_id existing) (d_action_id p) s else s) in
                 rename_logical (l_lineage_id existing) (''retired:'' @ l_lineage_id existing) s'))"

definition lineage_incompatible :: "execute_action \<Rightarrow> LineageRow option \<Rightarrow> bool" where
  "lineage_incompatible action retained =
     (case retained of
        None \<Rightarrow> True
      | Some r \<Rightarrow>
          l_harness_kind r \<noteq> conf_harness_kind (exec_configuration (act_execution action)) \<or>
          l_logical_lineage_id r \<noteq> ctx_logical_lineage_id (exec_context (act_execution action)) \<or>
          l_configuration_json r \<noteq> physicalConfiguration action \<or>
          l_active_action_id r \<noteq> None \<or>
          l_session_state r \<in> {Closed, Unavailable})"

definition requested_harness :: "registry_config \<Rightarrow> execute_action \<Rightarrow> string" where
  "requested_harness cfg action =
     (let kind = conf_harness_kind (exec_configuration (act_execution action)) in
      if kind \<noteq> [] then kind else cfg_harnessKind cfg)"

text \<open>The lineage of a new dispatch: a reserved one, a retained one, a fresh one, or none yet.\<close>

definition choose_lineage ::
  "registry_config \<Rightarrow> string \<Rightarrow> string \<Rightarrow> execute_action \<Rightarrow> registry \<Rightarrow>
   registry_error + string option \<times> registry" where
  "choose_lineage cfg now uuid action s =
     (let context = exec_context (act_execution action);
          recovery = act_operational_recovery action in
      case act_harness_setup action of
        Some bound \<Rightarrow>
          if ctx_mode context \<notin> {Fresh, Continue_From} \<or>
             lineage_incompatible action (lineage_row (setup_physical_lineage_id bound) s)
          then Inl (Setup_Lineage_Unavailable (setup_physical_lineage_id bound))
          else Inr (Some (setup_physical_lineage_id bound), s)
      | None \<Rightarrow>
          if (case recovery of None \<Rightarrow> False | Some r \<Rightarrow>
               rec_continuation_mode r = Cont_Retained \<and> truthy (rec_retained_lineage_id r))
          then (let retainedId = the (rec_retained_lineage_id (the recovery)) in
            if lineage_incompatible action (lineage_row retainedId s)
            then Inl (Recovery_Lineage_Unavailable retainedId)
            else Inr (Some retainedId, s))
          else if ctx_mode context = Fresh
          then bind_result (retireResolvedFreshLineage now action s) (\<lambda>s1.
            bind_result (insert_lineage (new_lineage_row cfg now uuid
                (ctx_logical_lineage_id context) (physicalConfiguration action)
                (model_provider (conf_model (exec_configuration (act_execution action))))
                (requested_harness cfg action) (act_worker_id action) None) s1) (\<lambda>s2.
            Inr (Some uuid, s2)))
          else Inr (None, s))"

definition resultDirectory :: "registry_config \<Rightarrow> string \<Rightarrow> string \<Rightarrow> string" where
  "resultDirectory cfg actionId nonce =
     cfg_dataRoot cfg @ ''/results/'' @ cfg_digest cfg actionId @ ''/'' @ nonce"

definition new_dispatch_row ::
  "registry_config \<Rightarrow> execute_action \<Rightarrow> dispatch_state \<Rightarrow> string option \<Rightarrow> string \<Rightarrow> string \<Rightarrow>
   structured_completion_requirement \<Rightarrow> string option \<Rightarrow> DispatchRow" where
  "new_dispatch_row cfg action state lineageId nonce directory requirement promptIntentAt = \<lparr>
     d_action_id = act_action_id action,
     d_occurrence_id = act_occurrence_id action,
     d_action_json = action,
     d_action_hash = cfg_digest cfg (action_text action),
     d_state = state,
     d_lineage_id = lineageId,
     d_result_nonce = nonce,
     d_result_directory = directory,
     d_completion_requirement = requirement,
     d_outputs = None,
     d_failure = None,
     d_prompt_intent_at = promptIntentAt,
     d_prompt_accepted_at = None,
     d_native_activity_at = None,
     d_provider_turn_settled_at = None,
     d_native_idle_at = None,
     d_structured_result_received_at = None,
     d_stalled_at = None,
     d_settled_at = None,
     d_prompt_evidence = None,
     d_prompt_authorized_at = None,
     d_server_acknowledged_at = None\<rparr>"

record acceptance =
  acc_created :: bool
  acc_dispatch :: dispatch_record

definition accept ::
  "registry_config \<Rightarrow> string \<Rightarrow> string \<Rightarrow> string \<Rightarrow> execute_action \<Rightarrow> registry \<Rightarrow>
   registry_error + acceptance \<times> registry" where
  "accept cfg now lineageUuid resultNonce action s =
     (let actionJson = action_text action;
          actionHash = cfg_digest cfg actionJson in
      case dispatch_row (act_action_id action) s of
        Some existing \<Rightarrow>
          if d_action_hash existing \<noteq> actionHash \<or> action_text (d_action_json existing) \<noteq> actionJson
          then Inl (Action_Conflict (act_action_id action))
          else Inr (\<lparr>acc_created = False, acc_dispatch = mapDispatch existing\<rparr>, s)
      | None \<Rightarrow>
          bind_result (choose_lineage cfg now lineageUuid action s) (\<lambda>(lineageId, s1).
          bind_result (lift_requirement (structuredCompletionRequirement action)) (\<lambda>requirement.
          bind_result (insert_dispatch (new_dispatch_row cfg action Accepted lineageId resultNonce
              (resultDirectory cfg (act_action_id action) resultNonce) requirement None) s1) (\<lambda>s2.
          bind_result (get (act_action_id action) s2) (\<lambda>dispatch.
          Inr (\<lparr>acc_created = True, acc_dispatch = dispatch\<rparr>, s2))))))"

section \<open>Adopting\<close>

record adoption =
  ado_action :: execute_action
  ado_lineage :: harness_lineage
  ado_state :: dispatch_state
  ado_resultNonce :: string
  ado_resultDirectory :: string

definition adopted_handle :: "harness_lineage \<Rightarrow> harness_execution_handle" where
  "adopted_handle lineage =
     (case lin_executionHandle lineage of
        Some h \<Rightarrow> h
      | None \<Rightarrow> \<lparr>eh_harnessKind = lin_harnessKind lineage, eh_executionId = lin_lineageId lineage,
          eh_nativeSession = lin_nativeSession lineage,
          eh_transportBinding = lin_transportBinding lineage\<rparr>)"

text \<open>\<^verbatim>\<open>INSERT ... ON CONFLICT(lineage_id) DO NOTHING\<close>\<close>

definition insert_lineage_or_ignore :: "LineageRow \<Rightarrow> registry \<Rightarrow> registry_error + registry" where
  "insert_lineage_or_ignore row s =
     (if lineage_row (l_lineage_id row) s \<noteq> None then Inr s else insert_lineage row s)"

definition adopt ::
  "registry_config \<Rightarrow> string \<Rightarrow> adoption \<Rightarrow> registry \<Rightarrow> registry_error + dispatch_record \<times> registry" where
  "adopt cfg now input s =
     (let action = ado_action input; lineage = ado_lineage input;
          actionId = act_action_id action; lineageId = lin_lineageId lineage;
          kind = lin_harnessKind lineage in
      bind_result (lift_identity (validateHarnessExecutionHandle
          (execution_handle_value (adopted_handle lineage)) (Some kind) (Some lineageId))) (\<lambda>handle.
      case dispatch_row actionId s of
        Some existing \<Rightarrow>
          if d_action_hash existing \<noteq> cfg_digest cfg (action_text action) \<or>
             d_lineage_id existing \<noteq> Some lineageId \<or>
             d_result_nonce existing \<noteq> ado_resultNonce input \<or>
             d_result_directory existing \<noteq> ado_resultDirectory input
          then Inl (Adopted_Dispatch_Conflict actionId)
          else bind_result (getLineage lineageId s) (\<lambda>persisted.
            if lin_ownershipToken persisted \<noteq> lin_ownershipToken lineage
            then Inl (Adopted_Ownership_Conflict lineageId)
            else bind_result (recordExecution lineageId handle (Some (lin_interactive lineage)) s) (\<lambda>s1.
              bind_result (get actionId s1) (\<lambda>dispatch. Inr (dispatch, s1))))
      | None \<Rightarrow>
          bind_result (lift_identity (serializeHarnessExecutionHandle handle kind lineageId)) (\<lambda>h.
          bind_result (lift_identity (serializeTransportBinding (eh_transportBinding handle) kind)) (\<lambda>tb.
          bind_result (lift_identity (serializeNativeSessionRef (eh_nativeSession handle) kind)) (\<lambda>ns.
          bind_result (case lin_interactive lineage of
              None \<Rightarrow> Inr None
            | Some i \<Rightarrow> bind_result (lift_identity (validateInteractiveHarnessSession (interactive_value i)))
                (\<lambda>v. Inr (Some (Stored (interactive_value v))))) (\<lambda>interactive.
          bind_result (insert_lineage_or_ignore \<lparr>
              l_lineage_id = lineageId,
              l_logical_lineage_id = lin_logicalLineageId lineage,
              l_configuration_json = lin_configurationJson lineage,
              l_configuration_hash = cfg_digest cfg (lin_configurationJson lineage),
              l_provider = lin_provider lineage,
              l_harness_kind = kind,
              l_session_state = lin_sessionState lineage,
              l_capabilities = Stored (capabilities_value (lin_capabilities lineage)),
              l_attention = lin_attention lineage,
              l_intervention = lin_intervention lineage,
              l_started_at = lin_startedAt lineage,
              l_last_activity_at = lin_lastActivityAt lineage,
              l_result_control_path = lin_resultControlPath lineage,
              l_ownership_token = lin_ownershipToken lineage,
              l_active_action_id = Some actionId,
              l_execution_handle = Some h,
              l_transport_binding = tb,
              l_native_session = ns,
              l_interactive = interactive\<rparr> s) (\<lambda>s1.
          bind_result (getLineage lineageId s1) (\<lambda>persisted.
            if lin_ownershipToken persisted \<noteq> lin_ownershipToken lineage
            then Inl (Adopted_Ownership_Conflict lineageId)
            else
              let s2 = update_lineage lineageId (\<lambda>r. r\<lparr>l_active_action_id := Some actionId,
                    l_execution_handle := Some h, l_transport_binding := tb,
                    l_native_session := ns, l_interactive := interactive\<rparr>) s1 in
              bind_result (lift_requirement (structuredCompletionRequirement action)) (\<lambda>requirement.
              bind_result (insert_dispatch (new_dispatch_row cfg action (ado_state input)
                  (Some lineageId) (ado_resultNonce input) (ado_resultDirectory input) requirement
                  (Some now)) s2) (\<lambda>s3.
              bind_result (get actionId s3) (\<lambda>dispatch. Inr (dispatch, s3))))))))))))"

section \<open>Lifecycle marks\<close>

definition open_state :: "dispatch_state \<Rightarrow> bool" where
  "open_state st \<longleftrightarrow> st \<in> {Accepted, Running}"

definition started :: "dispatch_state \<Rightarrow> dispatch_state" where
  "started st = (if st = Accepted then Running else st)"

definition authorizePrompt :: "string \<Rightarrow> string \<Rightarrow> registry \<Rightarrow> registry_error + dispatch_record \<times> registry" where
  "authorizePrompt now actionId s =
     (let s' = update_dispatch actionId (\<lambda>r. if open_state (d_state r)
         then r\<lparr>d_prompt_authorized_at := coalesce (d_prompt_authorized_at r) (Some now)\<rparr> else r) s in
      bind_result (get actionId s') (\<lambda>dispatch. Inr (dispatch, s')))"

definition markPromptIntent :: "string \<Rightarrow> string \<Rightarrow> registry \<Rightarrow> registry" where
  "markPromptIntent now actionId s =
     update_dispatch actionId (\<lambda>r. r\<lparr>d_prompt_intent_at := coalesce (d_prompt_intent_at r) (Some now)\<rparr>) s"

definition recordPromptEvidence :: "string \<Rightarrow> json_record \<Rightarrow> registry \<Rightarrow> registry" where
  "recordPromptEvidence actionId evidence s =
     update_dispatch actionId (\<lambda>r. r\<lparr>d_prompt_evidence := coalesce (d_prompt_evidence r) (Some evidence)\<rparr>) s"

definition markPromptAccepted :: "string \<Rightarrow> string \<Rightarrow> registry \<Rightarrow> registry" where
  "markPromptAccepted acceptedAt actionId s =
     update_dispatch actionId (\<lambda>r. r\<lparr>
       d_prompt_accepted_at := coalesce (d_prompt_accepted_at r) (Some acceptedAt),
       d_state := started (d_state r)\<rparr>) s"

definition markNativeActivity :: "string \<Rightarrow> string \<Rightarrow> registry \<Rightarrow> registry" where
  "markNativeActivity observedAt actionId s =
     update_dispatch actionId (\<lambda>r. if open_state (d_state r) then r\<lparr>
       d_native_activity_at := coalesce (d_native_activity_at r) (Some observedAt),
       d_native_idle_at := None,
       d_state := started (d_state r)\<rparr> else r) s"

definition markProviderTurnSettled :: "string \<Rightarrow> string \<Rightarrow> registry \<Rightarrow> registry" where
  "markProviderTurnSettled observedAt actionId s =
     update_dispatch actionId (\<lambda>r. if open_state (d_state r) then r\<lparr>
       d_provider_turn_settled_at := coalesce (d_provider_turn_settled_at r) (Some observedAt)\<rparr> else r) s"

definition markNativeIdle :: "string \<Rightarrow> string \<Rightarrow> registry \<Rightarrow> registry" where
  "markNativeIdle observedAt actionId s =
     update_dispatch actionId (\<lambda>r. if open_state (d_state r)
       then r\<lparr>d_native_idle_at := Some observedAt\<rparr> else r) s"

definition markStructuredResultReceived :: "string \<Rightarrow> string \<Rightarrow> registry \<Rightarrow> registry" where
  "markStructuredResultReceived observedAt actionId s =
     update_dispatch actionId (\<lambda>r. if open_state (d_state r) then r\<lparr>
       d_structured_result_received_at :=
         coalesce (d_structured_result_received_at r) (Some observedAt)\<rparr> else r) s"

definition markStalled :: "string \<Rightarrow> string \<Rightarrow> registry \<Rightarrow> registry" where
  "markStalled observedAt actionId s =
     update_dispatch actionId (\<lambda>r. r\<lparr>
       d_stalled_at := coalesce (d_stalled_at r) (Some observedAt),
       d_state := started (d_state r)\<rparr>) s"

definition markRunning :: "string \<Rightarrow> registry \<Rightarrow> registry" where
  "markRunning actionId s =
     update_dispatch actionId (\<lambda>r. if open_state (d_state r) then r\<lparr>d_state := Running\<rparr> else r) s"

definition recordObservationFailure :: "string \<Rightarrow> json_record \<Rightarrow> registry \<Rightarrow> registry" where
  "recordObservationFailure actionId failure s =
     update_dispatch actionId (\<lambda>r. if d_state r \<notin> {Completed, Failed}
       then r\<lparr>d_failure := Some failure\<rparr> else r) s"

definition isRecoverableObservationUncertainty :: "dispatch_record \<Rightarrow> bool" where
  "isRecoverableObservationUncertainty dispatch =
     (if rec_state dispatch \<noteq> Uncertain then False
      else case rec_failure dispatch of
        None \<Rightarrow> False
      | Some failure \<Rightarrow>
          if member failure ''code'' \<noteq> Some (JStr ''timeout'') then False
          else member failure ''capability'' = Some (JStr ''session.inventory'') \<or>
               member failure ''message'' = Some (JStr ''Herdr request timed out: session.snapshot''))"

definition resumeObservationUncertainty ::
  "string \<Rightarrow> registry \<Rightarrow> registry_error + dispatch_record \<times> registry" where
  "resumeObservationUncertainty actionId s =
     bind_result (get actionId s) (\<lambda>dispatch.
       if rec_state dispatch \<noteq> Uncertain \<or> \<not> isRecoverableObservationUncertainty dispatch
       then Inr (dispatch, s)
       else
         let s' = update_dispatch actionId (\<lambda>r. if d_state r = Uncertain
               then r\<lparr>d_state := Running\<rparr> else r) s in
         bind_result (get actionId s') (\<lambda>d. Inr (d, s')))"

section \<open>Terminal transitions\<close>

definition complete ::
  "string \<Rightarrow> string \<Rightarrow> json_record \<Rightarrow> registry \<Rightarrow> registry_error + dispatch_record \<times> registry" where
  "complete now actionId outputs s =
     bind_result (get actionId s) (\<lambda>dispatch.
       if \<not> truthy (rec_lineageId dispatch) then Inl (No_Lineage_To_Complete actionId)
       else if rec_state dispatch = Failed then Inl (Cannot_Complete_Failed actionId)
       else
         let s1 = update_dispatch actionId (\<lambda>r. r\<lparr>
               d_state := Completed, d_outputs := Some outputs, d_failure := None,
               d_settled_at := coalesce (d_settled_at r) (Some now)\<rparr>) s;
             s2 = release_lineage now (the (rec_lineageId dispatch)) actionId s1 in
         bind_result (get actionId s2) (\<lambda>d. Inr (d, s2)))"

definition fail ::
  "string \<Rightarrow> string \<Rightarrow> json_record \<Rightarrow> bool \<Rightarrow> registry \<Rightarrow> registry_error + dispatch_record \<times> registry" where
  "fail now actionId failure uncertain s =
     bind_result (get actionId s) (\<lambda>dispatch.
       let s1 = update_dispatch actionId (\<lambda>r. if d_state r \<noteq> Completed
             then r\<lparr>d_state := (if uncertain then Uncertain else Failed), d_failure := Some failure\<rparr> else r) s;
           s2 = (if truthy (rec_lineageId dispatch) \<and> \<not> uncertain
             then release_lineage now (the (rec_lineageId dispatch)) actionId s1 else s1) in
       bind_result (get actionId s2) (\<lambda>d. Inr (d, s2)))"

fun strict_equal_opt :: "json option \<Rightarrow> json option \<Rightarrow> bool" where
  "strict_equal_opt None None = True"
| "strict_equal_opt (Some v) (Some w) = strict_equal v w"
| "strict_equal_opt _ _ = False"

definition cancel ::
  "string \<Rightarrow> string \<Rightarrow> json_record \<Rightarrow> registry \<Rightarrow>
   registry_error + (dispatch_record \<times> bool) \<times> registry" where
  "cancel now actionId failure s =
     bind_result (get actionId s) (\<lambda>dispatch.
       if rec_state dispatch \<in> {Completed, Failed} \<and> truthy (rec_serverAcknowledgedAt dispatch)
       then Inl (Cannot_Cancel_Acknowledged actionId)
       else if rec_state dispatch = Failed \<and>
            (case rec_failure dispatch of None \<Rightarrow> False | Some f \<Rightarrow>
              member f ''code'' = Some (JStr ''execution_cancelled'') \<and>
              strict_equal_opt (member f ''cancellation_request_id'') (member failure ''cancellation_request_id''))
       then Inr ((dispatch, False), s)
       else
         let s1 = update_dispatch actionId (\<lambda>r. r\<lparr>
               d_state := Failed, d_outputs := None, d_failure := Some failure,
               d_server_acknowledged_at := None\<rparr>) s;
             s2 = (if truthy (rec_lineageId dispatch)
               then release_lineage now (the (rec_lineageId dispatch)) actionId s1 else s1) in
         bind_result (get actionId s2) (\<lambda>d. Inr ((d, True), s2)))"

definition acknowledgeServerTerminal :: "string \<Rightarrow> string \<Rightarrow> registry \<Rightarrow> registry" where
  "acknowledgeServerTerminal now actionId s =
     update_dispatch actionId (\<lambda>r. if d_state r \<in> {Completed, Failed}
       then r\<lparr>d_server_acknowledged_at := coalesce (d_server_acknowledged_at r) (Some now)\<rparr> else r) s"

definition acknowledgeServerCompletion :: "string \<Rightarrow> string \<Rightarrow> registry \<Rightarrow> registry" where
  "acknowledgeServerCompletion now actionId s = acknowledgeServerTerminal now actionId s"

section \<open>Reconciliation\<close>

record reconcile_dispatch =
  rd_action_id :: string
  rd_occurrence_id :: string
  rd_attempt_id :: string
  rd_state :: dispatch_state
  rd_outputs :: "json_record option"
  rd_failure :: "json_record option"

definition reconcile_payload :: "dispatch_record \<Rightarrow> reconcile_dispatch" where
  "reconcile_payload dispatch =
     (let state = rec_state dispatch in \<lparr>
       rd_action_id = act_action_id (rec_action dispatch),
       rd_occurrence_id = act_occurrence_id (rec_action dispatch),
       rd_attempt_id = act_attempt_id (rec_action dispatch),
       rd_state = state,
       rd_outputs = (if state = Completed then rec_outputs dispatch else None),
       rd_failure = (if state = Failed \<or> state = Uncertain
         then Some (case rec_failure dispatch of
             None \<Rightarrow> [(''reason'', JStr ''execution_uncertain'')] | Some f \<Rightarrow> f)
         else None)\<rparr>)"

definition reconcilePayloads :: "registry \<Rightarrow> reconcile_dispatch list" where
  "reconcilePayloads s = map reconcile_payload (list_dispatches s)"

end
