(* ===== verification/Registry_Attention.thy ===== *)
theory Registry_Attention
  imports Registry_Dispatches
begin

text \<open>
  The operations of the dispatch registry on blocking human-attention requests: registration, the
  one authoritative response, its delivery (begun once, acknowledged or uncertain), cancellation,
  and the projection of the request on its lineage. A stored request or response keeps its JSON
  value; the code stores the canonical text of it.
\<close>

section \<open>Queries\<close>

definition attention_active :: "HumanAttentionRequestRow \<Rightarrow> bool" where
  "attention_active r \<longleftrightarrow> h_response_state r = Pending \<or>
     (h_response_state r = Responded \<and> h_delivery_state r \<noteq> Delivery_Acknowledged)"

definition getHumanAttentionRequest :: "string \<Rightarrow> registry \<Rightarrow> registry_error + HumanAttentionRequestRow" where
  "getHumanAttentionRequest attentionId s =
     (case attention_row attentionId s of
        None \<Rightarrow> Inl (Unknown_Attention attentionId) | Some r \<Rightarrow> Inr r)"

definition activeHumanAttentionRequest :: "string \<Rightarrow> registry \<Rightarrow> HumanAttentionRequestRow option" where
  "activeHumanAttentionRequest actionId s =
     List.find (\<lambda>r. h_action_id r = actionId \<and> attention_active r) (rev (reg_attention s))"

definition humanAttentionReconciliation :: "registry \<Rightarrow> HumanAttentionRequestRow list" where
  "humanAttentionReconciliation s = filter (\<lambda>r. h_response_state r \<noteq> Pending) (reg_attention s)"

definition recordHumanAttentionEvent ::
  "string \<Rightarrow> attention_event_type \<Rightarrow> string \<Rightarrow> json_record \<Rightarrow> registry \<Rightarrow> registry_error + registry" where
  "recordHumanAttentionEvent attentionId eventType occurredAt metadata s =
     (if attention_row attentionId s = None then Inl Constraint_Violation
      else Inr (s\<lparr>reg_events := reg_events s @
        [\<lparr>e_attention_id = attentionId, e_event_type = eventType, e_occurred_at = occurredAt,
          e_metadata = metadata\<rparr>]\<rparr>))"

text \<open>The constraints of \<^verbatim>\<open>human_attention_requests\<close>, its partial unique index included.\<close>

definition insert_attention :: "HumanAttentionRequestRow \<Rightarrow> registry \<Rightarrow> registry_error + registry" where
  "insert_attention row s =
     (if h_request_generation row \<le> 0 \<or>
         (\<exists>r \<in> set (reg_attention s).
            h_attention_id r = h_attention_id row \<or>
            h_registration_request_id r = h_registration_request_id row \<or>
            (attention_active row \<and> attention_active r \<and> h_action_id r = h_action_id row)) \<or>
         dispatch_row (h_action_id row) s = None \<or> lineage_row (h_lineage_id row) s = None
      then Inl Constraint_Violation
      else Inr (s\<lparr>reg_attention := reg_attention s @ [row]\<rparr>))"

section \<open>The projection on the lineage\<close>

definition updateAttentionProjection ::
  "string \<Rightarrow> string \<Rightarrow> string \<Rightarrow> response_state \<Rightarrow> delivery_state \<Rightarrow> string option \<Rightarrow> registry \<Rightarrow>
   registry_error + registry" where
  "updateAttentionProjection now lineageId attentionId response delivery attempt s =
     bind_result (getLineage lineageId s) (\<lambda>lineage.
       case lin_attention lineage of
         None \<Rightarrow> Inr s
       | Some a \<Rightarrow>
           if att_attentionId a \<noteq> attentionId then Inr s
           else Inr (update_lineage lineageId (\<lambda>r. r\<lparr>
             l_attention := Some (a\<lparr>att_responseState := response, att_deliveryState := delivery,
               att_deliveryAttemptId := coalesce attempt (att_deliveryAttemptId a)\<rparr>),
             l_last_activity_at := now\<rparr>) s))"

definition clearAttentionProjection ::
  "string \<Rightarrow> string \<Rightarrow> string \<Rightarrow> registry \<Rightarrow> registry_error + registry" where
  "clearAttentionProjection now lineageId attentionId s =
     bind_result (getLineage lineageId s) (\<lambda>lineage.
       case lin_attention lineage of
         None \<Rightarrow> Inr s
       | Some a \<Rightarrow>
           if att_attentionId a \<noteq> attentionId then Inr s
           else Inr (update_lineage lineageId (\<lambda>r. r\<lparr>l_session_state := Session_Running,
             l_attention := None, l_last_activity_at := now\<rparr>) s))"

section \<open>Registration\<close>

record attention_registration =
  regi_dispatch :: dispatch_record
  regi_lineage :: harness_lineage
  regi_registrationRequestId :: string
  regi_attention :: human_attention
  regi_intervention :: "human_intervention_lifecycle option"
  regi_request :: json
  regi_recoverability :: recoverability
  regi_controllerGeneration :: string

definition new_attention_row ::
  "attention_registration \<Rightarrow> execute_action \<Rightarrow> string \<Rightarrow> string option \<Rightarrow> HumanAttentionRequestRow" where
  "new_attention_row input action lineageId nativeSessionId = \<lparr>
     h_attention_id = att_attentionId (regi_attention input),
     h_request_generation = att_requestGeneration (regi_attention input),
     h_registration_request_id = regi_registrationRequestId input,
     h_action_id = act_action_id action,
     h_run_id = act_run_id action,
     h_occurrence_id = act_occurrence_id action,
     h_attempt_id = act_attempt_id action,
     h_lineage_id = lineageId,
     h_harness_execution_id = lineageId,
     h_native_session_id = nativeSessionId,
     h_recoverability = regi_recoverability input,
     h_controller_generation = regi_controllerGeneration input,
     h_request = regi_request input,
     h_response_state = Pending,
     h_response = None,
     h_delivery_state = Response_Not_Delivered,
     h_delivery_attempt_id = None,
     h_created_at = att_requestedAt (regi_attention input),
     h_response_committed_at = None,
     h_delivery_requested_at = None,
     h_delivery_acknowledged_at = None,
     h_delivery_uncertain_at = None,
     h_cancelled_at = None,
     h_cancellation_reason = None\<rparr>"

definition by_registration :: "string \<Rightarrow> registry \<Rightarrow> HumanAttentionRequestRow option" where
  "by_registration requestId s =
     List.find (\<lambda>r. h_registration_request_id r = requestId) (reg_attention s)"

definition registerHumanAttention ::
  "attention_registration \<Rightarrow> registry \<Rightarrow> registry_error + HumanAttentionRequestRow \<times> registry" where
  "registerHumanAttention input s =
     (let requestJson = canonicalJson (regi_request input);
          actionId = act_action_id (rec_action (regi_dispatch input));
          attention = regi_attention input in
      if utf8_length requestJson > 64 * 1024 then Inl Attention_Too_Large
      else case by_registration (regi_registrationRequestId input) s of
        Some request \<Rightarrow>
          if h_action_id request \<noteq> actionId \<or>
             h_lineage_id request \<noteq> lin_lineageId (regi_lineage input) \<or>
             canonicalJson (h_request request) \<noteq> requestJson
          then Inl Attention_Registration_Conflict
          else Inr (request, s)
      | None \<Rightarrow>
          bind_result (get actionId s) (\<lambda>dispatch.
          bind_result (getLineage (lin_lineageId (regi_lineage input)) s) (\<lambda>lineage.
          let action = rec_action dispatch; lineageId = lin_lineageId lineage in
          if rec_lineageId dispatch \<noteq> Some lineageId \<or>
             \<not> open_state (rec_state dispatch) \<or>
             lin_activeActionId lineage \<noteq> Some (act_action_id action) \<or>
             att_requestGeneration attention \<noteq> 1
          then Inl Attention_Context_Stale
          else if \<exists>r \<in> set (reg_attention s). h_action_id r = act_action_id action \<and> attention_active r
          then Inl Attention_Already_Active
          else
            bind_result (lift_identity (nativeSessionPublicId (lin_nativeSession lineage))) (\<lambda>nativeSessionId.
            bind_result (insert_attention
                (new_attention_row input action lineageId nativeSessionId) s) (\<lambda>s1.
            let s2 = update_lineage lineageId (\<lambda>r.
                  if l_active_action_id r = Some (act_action_id action)
                  then r\<lparr>l_session_state := Waiting_For_Human, l_attention := Some attention,
                    l_intervention := regi_intervention input,
                    l_last_activity_at := att_requestedAt attention\<rparr> else r) s1 in
            bind_result (recordHumanAttentionEvent (att_attentionId attention) Request_Created
                (att_requestedAt attention) [] s2) (\<lambda>s3.
            bind_result (getHumanAttentionRequest (att_attentionId attention) s3) (\<lambda>row.
            Inr (row, s3))))))))"

section \<open>Response and delivery\<close>

record attention_response_input =
  ri_attentionId :: string
  ri_requestGeneration :: int
  ri_actionId :: string
  ri_runId :: string
  ri_occurrenceId :: string
  ri_attemptId :: string
  ri_lineageId :: string
  ri_nativeSessionId :: "string option"
  ri_deliveryAttemptId :: string
  ri_response :: human_attention_response

definition response_text :: "human_attention_response \<Rightarrow> string" where
  "response_text response = canonicalJson (human_attention_response_value response)"

definition recordHumanAttentionResponse ::
  "string \<Rightarrow> attention_response_input \<Rightarrow> registry \<Rightarrow> registry_error + HumanAttentionRequestRow \<times> registry" where
  "recordHumanAttentionResponse now input s =
     (if utf8_length (response_text (ri_response input)) > 128 * 1024
      then Inl Attention_Response_Too_Large
      else
        bind_result (getHumanAttentionRequest (ri_attentionId input) s) (\<lambda>current.
        if h_request_generation current \<noteq> ri_requestGeneration input \<or>
           h_action_id current \<noteq> ri_actionId input \<or>
           h_run_id current \<noteq> ri_runId input \<or>
           h_occurrence_id current \<noteq> ri_occurrenceId input \<or>
           h_attempt_id current \<noteq> ri_attemptId input \<or>
           h_lineage_id current \<noteq> ri_lineageId input \<or>
           h_native_session_id current \<noteq> ri_nativeSessionId input \<or>
           h_response_state current = Cancelled \<or>
           h_response_state current = Obsolete
        then Inl Attention_Response_Stale
        else case h_response current of
          Some response \<Rightarrow>
            if response_text response \<noteq> response_text (ri_response input) \<or>
               h_delivery_attempt_id current \<noteq> Some (ri_deliveryAttemptId input)
            then Inl Attention_Response_Different
            else Inr (current, s)
        | None \<Rightarrow>
            let s1 = update_attention (ri_attentionId input) (\<lambda>r.
                  if h_response_state r = Pending
                  then r\<lparr>h_response_state := Responded, h_response := Some (ri_response input),
                    h_response_committed_at := Some (resp_respondedAt (ri_response input)),
                    h_delivery_state := Response_Not_Delivered,
                    h_delivery_attempt_id := Some (ri_deliveryAttemptId input)\<rparr> else r) s in
            bind_result (updateAttentionProjection now (ri_lineageId input) (ri_attentionId input)
                Responded Response_Not_Delivered (Some (ri_deliveryAttemptId input)) s1) (\<lambda>s2.
            bind_result (recordHumanAttentionEvent (ri_attentionId input) Response_Committed
                (resp_respondedAt (ri_response input))
                [(''deliveryAttemptId'', JStr (ri_deliveryAttemptId input))] s2) (\<lambda>s3.
            bind_result (getHumanAttentionRequest (ri_attentionId input) s3) (\<lambda>row.
            Inr (row, s3))))))"

definition beginHumanAttentionDelivery ::
  "string \<Rightarrow> string \<Rightarrow> int \<Rightarrow> registry \<Rightarrow> registry_error + HumanAttentionRequestRow \<times> registry" where
  "beginHumanAttentionDelivery now attentionId requestGeneration s =
     bind_result (getHumanAttentionRequest attentionId s) (\<lambda>current.
       if h_request_generation current \<noteq> requestGeneration \<or>
          h_response_state current \<noteq> Responded \<or>
          h_response current = None \<or>
          \<not> truthy (h_delivery_attempt_id current)
       then Inl Attention_Response_Unavailable
       else if h_delivery_state current \<noteq> Response_Not_Delivered
       then Inl Attention_Delivery_Replayed
       else
         let attempt = the (h_delivery_attempt_id current);
             s1 = update_attention attentionId (\<lambda>r.
               if h_delivery_state r = Response_Not_Delivered
               then r\<lparr>h_delivery_state := Delivery_Requested, h_delivery_requested_at := Some now\<rparr>
               else r) s in
         bind_result (updateAttentionProjection now (h_lineage_id current) attentionId
             Responded Delivery_Requested (Some attempt) s1) (\<lambda>s2.
         bind_result (recordHumanAttentionEvent attentionId Event_Delivery_Requested now
             [(''deliveryAttemptId'', JStr attempt)] s2) (\<lambda>s3.
         bind_result (getHumanAttentionRequest attentionId s3) (\<lambda>row. Inr (row, s3)))))"

definition acknowledgeHumanAttentionDelivery ::
  "string \<Rightarrow> string \<Rightarrow> int \<Rightarrow> string \<Rightarrow> registry \<Rightarrow> registry_error + HumanAttentionRequestRow \<times> registry" where
  "acknowledgeHumanAttentionDelivery now attentionId requestGeneration deliveryAttemptId s =
     bind_result (getHumanAttentionRequest attentionId s) (\<lambda>current.
       if h_request_generation current \<noteq> requestGeneration \<or>
          h_delivery_attempt_id current \<noteq> Some deliveryAttemptId \<or>
          h_response_state current \<noteq> Responded
       then Inl Attention_Ack_Stale
       else if h_delivery_state current = Delivery_Acknowledged then Inr (current, s)
       else if h_delivery_state current \<noteq> Delivery_Requested then Inl Attention_Ack_Uncertain
       else
         let s1 = update_attention attentionId (\<lambda>r.
               if h_delivery_state r = Delivery_Requested
               then r\<lparr>h_delivery_state := Delivery_Acknowledged, h_delivery_acknowledged_at := Some now\<rparr>
               else r) s in
         bind_result (clearAttentionProjection now (h_lineage_id current) attentionId s1) (\<lambda>s2.
         bind_result (recordHumanAttentionEvent attentionId Event_Delivery_Acknowledged now
             [(''deliveryAttemptId'', JStr deliveryAttemptId)] s2) (\<lambda>s3.
         bind_result (getHumanAttentionRequest attentionId s3) (\<lambda>row. Inr (row, s3)))))"

definition markHumanAttentionDeliveryUncertain ::
  "string \<Rightarrow> string \<Rightarrow> string \<Rightarrow> registry \<Rightarrow> registry_error + HumanAttentionRequestRow \<times> registry" where
  "markHumanAttentionDeliveryUncertain now attentionId reason s =
     bind_result (getHumanAttentionRequest attentionId s) (\<lambda>current.
       if h_delivery_state current \<noteq> Delivery_Requested then Inr (current, s)
       else
         let s1 = update_attention attentionId (\<lambda>r.
               if h_delivery_state r = Delivery_Requested
               then r\<lparr>h_delivery_state := Delivery_Uncertain, h_delivery_uncertain_at := Some now,
                 h_cancellation_reason := Some (take 500 reason)\<rparr> else r) s in
         bind_result (updateAttentionProjection now (h_lineage_id current) attentionId
             Responded Delivery_Uncertain
             (if truthy (h_delivery_attempt_id current) then h_delivery_attempt_id current else None)
             s1) (\<lambda>s2.
         bind_result (recordHumanAttentionEvent attentionId Event_Delivery_Uncertain now
             [(''reason'', JStr (take 500 reason))] s2) (\<lambda>s3.
         bind_result (getHumanAttentionRequest attentionId s3) (\<lambda>row. Inr (row, s3)))))"

datatype withdrawal = Withdraw_Cancelled | Withdraw_Obsolete

fun withdrawn_state :: "withdrawal \<Rightarrow> response_state" where
  "withdrawn_state Withdraw_Cancelled = Cancelled"
| "withdrawn_state Withdraw_Obsolete = Obsolete"

definition cancelHumanAttention ::
  "string \<Rightarrow> string \<Rightarrow> string \<Rightarrow> withdrawal \<Rightarrow> registry \<Rightarrow> registry_error + HumanAttentionRequestRow \<times> registry" where
  "cancelHumanAttention now attentionId reason state s =
     bind_result (getHumanAttentionRequest attentionId s) (\<lambda>current.
       if h_response_state current \<in> {Cancelled, Obsolete} then Inr (current, s)
       else if h_delivery_state current = Delivery_Acknowledged then Inr (current, s)
       else
         let s1 = update_attention attentionId (\<lambda>r.
               if h_delivery_state r \<noteq> Delivery_Acknowledged
               then r\<lparr>h_response_state := withdrawn_state state, h_cancelled_at := Some now,
                 h_cancellation_reason := Some (take 500 reason)\<rparr> else r) s in
         bind_result (clearAttentionProjection now (h_lineage_id current) attentionId s1) (\<lambda>s2.
         bind_result (recordHumanAttentionEvent attentionId
             (if state = Withdraw_Cancelled then Request_Cancelled else Request_Obsolete) now
             [(''reason'', JStr (take 500 reason))] s2) (\<lambda>s3.
         bind_result (getHumanAttentionRequest attentionId s3) (\<lambda>row. Inr (row, s3)))))"

end
