(* ===== verification/Registry_Transitions.thy ===== *)
theory Registry_Transitions
  imports Registry_Attention
begin

text \<open>
  The operations of the dispatch registry that hand the physical process of a failed Action over
  to the Action that recovers it: adoption of the prepared process, or replacement of it with a
  fresh lineage. Both record one transition per target Action and are idempotent on it.
\<close>

definition physicalProcessTransition :: "string \<Rightarrow> registry \<Rightarrow> process_transition option" where
  "physicalProcessTransition targetActionId s =
     lookup_row t_targetActionId targetActionId (reg_transitions s)"

text \<open>\<^verbatim>\<open>retainsRecoveryOwnership\<close> and the contract of a transfer.\<close>

definition retainsRecoveryOwnership :: "dispatch_record \<Rightarrow> registry \<Rightarrow> bool" where
  "retainsRecoveryOwnership dispatch s =
     (if open_state (rec_state dispatch) then True
      else if rec_state dispatch \<noteq> Uncertain \<or> \<not> truthy (rec_lineageId dispatch) then False
      else let lineageId = the (rec_lineageId dispatch) in
        case lineage_row lineageId s of
          None \<Rightarrow> True
        | Some lineage \<Rightarrow>
            \<not> (l_logical_lineage_id lineage = ''retired:'' @ lineageId \<and>
               l_active_action_id lineage = None \<and>
               l_session_state lineage = Unavailable))"

definition prompt_lifecycle_absent :: "dispatch_record \<Rightarrow> bool" where
  "prompt_lifecycle_absent d \<longleftrightarrow>
     \<not> truthy (rec_promptIntentAt d) \<and> \<not> truthy (rec_promptAcceptedAt d) \<and>
     \<not> truthy (rec_nativeActivityAt d) \<and> \<not> truthy (rec_stalledAt d) \<and> \<not> truthy (rec_settledAt d)"

definition worktree_of :: "dispatch_record \<Rightarrow> string" where
  "worktree_of d = ew_worktree_id (exec_execution_workspace (act_execution (rec_action d)))"

definition recovery_names :: "dispatch_record \<Rightarrow> dispatch_record \<Rightarrow> string \<Rightarrow> bool" where
  "recovery_names target source lineageId =
     (case act_operational_recovery (rec_action target) of
        None \<Rightarrow> False
      | Some recovery \<Rightarrow>
          rec_authorization_kind recovery = Auth_Human \<and>
          rec_continuation_mode recovery = Cont_Retained \<and>
          rec_retained_lineage_id recovery = Some lineageId \<and>
          rec_source_attempt_id recovery = Some (act_attempt_id (rec_action source)))"

definition transfer_contract ::
  "dispatch_record \<Rightarrow> dispatch_record \<Rightarrow> harness_lineage \<Rightarrow> string \<Rightarrow> bool" where
  "transfer_contract source target lineage lineageId \<longleftrightarrow>
     rec_state source = Failed \<and>
     rec_state target = Accepted \<and>
     rec_lineageId source = Some lineageId \<and>
     rec_lineageId target = Some lineageId \<and>
     recovery_names target source lineageId \<and>
     act_run_id (rec_action source) = act_run_id (rec_action target) \<and>
     act_occurrence_id (rec_action source) = act_occurrence_id (rec_action target) \<and>
     worktree_of source = worktree_of target \<and>
     physicalConfiguration (rec_action source) = physicalConfiguration (rec_action target) \<and>
     prompt_lifecycle_absent source \<and>
     prompt_lifecycle_absent target \<and>
     lin_nativeSession lineage = None \<and>
     lin_sessionState lineage = Retained \<and>
     lin_activeActionId lineage = None"

definition conflicts_with_transfer ::
  "string \<Rightarrow> string \<Rightarrow> string \<Rightarrow> dispatch_record \<Rightarrow> registry \<Rightarrow> dispatch_record \<Rightarrow> bool" where
  "conflicts_with_transfer sourceActionId targetActionId lineageId target s dispatch \<longleftrightarrow>
     act_action_id (rec_action dispatch) \<noteq> targetActionId \<and>
     act_action_id (rec_action dispatch) \<noteq> sourceActionId \<and>
     retainsRecoveryOwnership dispatch s \<and>
     (rec_lineageId dispatch = Some lineageId \<or> worktree_of dispatch = worktree_of target)"

definition assertPreparedTransfer ::
  "string \<Rightarrow> string \<Rightarrow> string \<Rightarrow> registry \<Rightarrow>
   registry_error + dispatch_record \<times> dispatch_record \<times> harness_lineage" where
  "assertPreparedTransfer sourceActionId targetActionId lineageId s =
     bind_result (get sourceActionId s) (\<lambda>source.
     bind_result (get targetActionId s) (\<lambda>target.
     bind_result (getLineage lineageId s) (\<lambda>lineage.
       if \<not> transfer_contract source target lineage lineageId
       then Inl Transfer_Contract_Violated
       else case List.find (conflicts_with_transfer sourceActionId targetActionId lineageId target s)
              (list_dispatches s) of
         Some conflicting \<Rightarrow> Inl (Transfer_Already_Owned (act_attempt_id (rec_action conflicting)))
       | None \<Rightarrow> Inr (source, target, lineage))))"

text \<open>The primary key, the unique target attempt and the references of the transition table.\<close>

definition insertPhysicalProcessTransition ::
  "process_transition \<Rightarrow> registry \<Rightarrow> registry_error + registry" where
  "insertPhysicalProcessTransition t s =
     (if (\<exists>x \<in> set (reg_transitions s).
            t_targetActionId x = t_targetActionId t \<or> t_targetAttemptId x = t_targetAttemptId t) \<or>
         dispatch_row (t_targetActionId t) s = None \<or> dispatch_row (t_sourceActionId t) s = None \<or>
         lineage_row (t_sourceLineageId t) s = None \<or> lineage_row (t_targetLineageId t) s = None
      then Inl Constraint_Violation
      else Inr (s\<lparr>reg_transitions := reg_transitions s @ [t]\<rparr>))"

definition transition_of ::
  "dispatch_record \<Rightarrow> dispatch_record \<Rightarrow> harness_lineage \<Rightarrow> string \<Rightarrow> transition_mode \<Rightarrow> string \<Rightarrow>
   process_transition" where
  "transition_of source target sourceLineage targetLineageId mode recordedAt = \<lparr>
     t_sourceActionId = act_action_id (rec_action source),
     t_sourceAttemptId = act_attempt_id (rec_action source),
     t_targetActionId = act_action_id (rec_action target),
     t_targetAttemptId = act_attempt_id (rec_action target),
     t_sourceLineageId = lin_lineageId sourceLineage,
     t_targetLineageId = targetLineageId,
     t_mode = mode,
     t_recordedAt = recordedAt\<rparr>"

definition adoptPreparedProcess ::
  "string \<Rightarrow> string \<Rightarrow> string \<Rightarrow> string \<Rightarrow> registry \<Rightarrow> registry_error + process_transition option \<times> registry" where
  "adoptPreparedProcess now sourceActionId targetActionId lineageId s =
     (case physicalProcessTransition targetActionId s of
        Some existing \<Rightarrow>
          if t_sourceActionId existing \<noteq> sourceActionId \<or> t_sourceLineageId existing \<noteq> lineageId \<or>
             t_targetLineageId existing \<noteq> lineageId \<or> t_mode existing \<noteq> Prepared_Process_Adopted
          then Inl (Transition_Conflict targetActionId) else Inr (Some existing, s)
      | None \<Rightarrow>
          bind_result (assertPreparedTransfer sourceActionId targetActionId lineageId s)
            (\<lambda>(source, target, lineage).
          let s1 = update_lineage lineageId (\<lambda>r. if l_active_action_id r = None
                then r\<lparr>l_active_action_id := Some targetActionId, l_session_state := Starting,
                  l_attention := None, l_intervention := None, l_last_activity_at := now\<rparr> else r) s in
          bind_result (getLineage lineageId s1) (\<lambda>taken.
          if lin_activeActionId taken \<noteq> Some targetActionId
          then Inl (Transfer_Not_Atomic lineageId)
          else
            let t = transition_of source target lineage lineageId Prepared_Process_Adopted now in
            bind_result (insertPhysicalProcessTransition t s1) (\<lambda>s2.
            Inr (physicalProcessTransition targetActionId s2, s2)))))"

text \<open>\<^verbatim>\<open>UPDATE harness_lineages SET logical_lineage_id=... WHERE lineage_id=? AND active_action_id IS NULL\<close>\<close>

definition retire_idle_lineage :: "string \<Rightarrow> registry \<Rightarrow> registry_error + registry" where
  "retire_idle_lineage lineageId s =
     (case lineage_row lineageId s of
        None \<Rightarrow> Inr s
      | Some r \<Rightarrow>
          if l_active_action_id r = None then rename_logical lineageId (''retired:'' @ lineageId) s
          else Inr s)"

definition replacePreparedProcessWithFresh ::
  "registry_config \<Rightarrow> string \<Rightarrow> string \<Rightarrow> string \<Rightarrow> string \<Rightarrow> string \<Rightarrow> registry \<Rightarrow>
   registry_error + harness_lineage \<times> registry" where
  "replacePreparedProcessWithFresh cfg now uuid sourceActionId targetActionId sourceLineageId s =
     (case physicalProcessTransition targetActionId s of
        Some existing \<Rightarrow>
          if t_sourceActionId existing \<noteq> sourceActionId \<or>
             t_sourceLineageId existing \<noteq> sourceLineageId \<or>
             t_mode existing \<noteq> Fresh_Process_Fallback
          then Inl (Fallback_Conflict targetActionId)
          else bind_result (getLineage (t_targetLineageId existing) s) (\<lambda>l. Inr (l, s))
      | None \<Rightarrow>
          bind_result (assertPreparedTransfer sourceActionId targetActionId sourceLineageId s)
            (\<lambda>(source, target, lineage).
          bind_result (retire_idle_lineage sourceLineageId s) (\<lambda>s1.
          let action = rec_action target in
          bind_result (insert_lineage (new_lineage_row cfg now uuid
              (ctx_logical_lineage_id (exec_context (act_execution action)))
              (physicalConfiguration action)
              (model_provider (conf_model (exec_configuration (act_execution action))))
              (requested_harness cfg action) (act_worker_id action) (Some targetActionId)) s1) (\<lambda>s2.
          let s3 = update_dispatch targetActionId (\<lambda>r.
                if d_lineage_id r = Some sourceLineageId \<and> d_state r = Accepted
                then r\<lparr>d_lineage_id := Some uuid\<rparr> else r) s2 in
          bind_result (get targetActionId s3) (\<lambda>rotated.
          if rec_lineageId rotated \<noteq> Some uuid then Inl (Fallback_Not_Atomic targetActionId)
          else bind_result (insertPhysicalProcessTransition
              (transition_of source target lineage uuid Fresh_Process_Fallback now) s3) (\<lambda>s4.
            bind_result (getLineage uuid s4) (\<lambda>l. Inr (l, s4))))))))"

end
