(* ===== verification/Registry_Schema.thy ===== *)
theory Registry_Schema
  imports Registry_Transitions
begin

text \<open>
  The constraints of the registry's schema, and why every transaction keeps them. A transaction is
  a sequence of statements: insertions that SQLite checks and updates that leave the constrained
  columns alone. The relation \<open>statement\<close> lists them with their side conditions; the schema's
  constraints are an invariant of it by rule induction, and every operation of the registry is
  shown to be a sequence of such statements.
\<close>

section \<open>Frames of the statements\<close>

lemma table_frames [simp, table_simps]:
  "reg_lineages (update_dispatch a f s) = reg_lineages s"
  "reg_attention (update_dispatch a f s) = reg_attention s"
  "reg_events (update_dispatch a f s) = reg_events s"
  "reg_transitions (update_dispatch a f s) = reg_transitions s"
  "reg_dispatches (update_lineage l g s) = reg_dispatches s"
  "reg_attention (update_lineage l g s) = reg_attention s"
  "reg_events (update_lineage l g s) = reg_events s"
  "reg_transitions (update_lineage l g s) = reg_transitions s"
  "reg_dispatches (update_attention h k s) = reg_dispatches s"
  "reg_lineages (update_attention h k s) = reg_lineages s"
  "reg_events (update_attention h k s) = reg_events s"
  "reg_transitions (update_attention h k s) = reg_transitions s"
  by (simp_all add: update_dispatch_def update_lineage_def update_attention_def)

lemma row_frames:
  "reg_dispatches s' = reg_dispatches s \<Longrightarrow> dispatch_row a s' = dispatch_row a s"
  "reg_lineages s' = reg_lineages s \<Longrightarrow> lineage_row l s' = lineage_row l s"
  "reg_attention s' = reg_attention s \<Longrightarrow> attention_row h s' = attention_row h s"
  by (simp_all add: dispatch_row_def lineage_row_def attention_row_def)

lemma row_other_table [simp, table_simps]:
  "lineage_row l (update_dispatch a f s) = lineage_row l s"
  "attention_row h (update_dispatch a f s) = attention_row h s"
  "dispatch_row a (update_lineage l g s) = dispatch_row a s"
  "attention_row h (update_lineage l g s) = attention_row h s"
  "dispatch_row a (update_attention h k s) = dispatch_row a s"
  "lineage_row l (update_attention h k s) = lineage_row l s"
  by (simp_all add: dispatch_row_def lineage_row_def attention_row_def)

lemma row_insert [simp, table_simps]:
  "lineage_row l (s\<lparr>reg_dispatches := ds\<rparr>) = lineage_row l s"
  "lineage_row l (s\<lparr>reg_attention := as\<rparr>) = lineage_row l s"
  "lineage_row l (s\<lparr>reg_events := es\<rparr>) = lineage_row l s"
  "lineage_row l (s\<lparr>reg_transitions := ts\<rparr>) = lineage_row l s"
  "dispatch_row a (s\<lparr>reg_lineages := ls\<rparr>) = dispatch_row a s"
  "dispatch_row a (s\<lparr>reg_attention := as\<rparr>) = dispatch_row a s"
  "dispatch_row a (s\<lparr>reg_events := es\<rparr>) = dispatch_row a s"
  "dispatch_row a (s\<lparr>reg_transitions := ts\<rparr>) = dispatch_row a s"
  "attention_row h (s\<lparr>reg_lineages := ls\<rparr>) = attention_row h s"
  "attention_row h (s\<lparr>reg_dispatches := ds\<rparr>) = attention_row h s"
  "attention_row h (s\<lparr>reg_events := es\<rparr>) = attention_row h s"
  "attention_row h (s\<lparr>reg_transitions := ts\<rparr>) = attention_row h s"
  by (simp_all add: dispatch_row_def lineage_row_def attention_row_def)

lemma dispatch_row_update:
  "(\<And>r. d_action_id (f r) = d_action_id r) \<Longrightarrow>
    dispatch_row a' (update_dispatch a f s) =
      (if a' = a then map_option f (dispatch_row a s) else dispatch_row a' s)"
  by (rule dispatches.lookup_update)

lemma lineage_row_update:
  "(\<And>r. l_lineage_id (f r) = l_lineage_id r) \<Longrightarrow>
    lineage_row l' (update_lineage l f s) =
      (if l' = l then map_option f (lineage_row l s) else lineage_row l' s)"
  by (rule lineages.lookup_update)

lemma attention_row_update:
  "(\<And>r. h_attention_id (f r) = h_attention_id r) \<Longrightarrow>
    attention_row h' (update_attention h f s) =
      (if h' = h then map_option f (attention_row h s) else attention_row h' s)"
  by (rule attentions.lookup_update)

lemma known_lineage_rows:
  "(\<And>l. lineage_row l s \<noteq> None \<Longrightarrow> lineage_row l s' \<noteq> None) \<Longrightarrow> known_lineage x s \<Longrightarrow> known_lineage x s'"
  by (cases x) (auto simp: known_lineage_def)

lemma known_lineage_frames [simp, table_simps]:
  "known_lineage x (update_dispatch a f s) = known_lineage x s"
  "known_lineage x (update_attention h k s) = known_lineage x s"
  "known_lineage x (s\<lparr>reg_dispatches := ds\<rparr>) = known_lineage x s"
  "known_lineage x (s\<lparr>reg_attention := as\<rparr>) = known_lineage x s"
  "known_lineage x (s\<lparr>reg_events := es\<rparr>) = known_lineage x s"
  "known_lineage x (s\<lparr>reg_transitions := ts\<rparr>) = known_lineage x s"
  by (simp_all add: known_lineage_def split: option.splits)

section \<open>Constraints\<close>

definition lineage_keys_ok :: "registry \<Rightarrow> bool" where
  "lineage_keys_ok s \<longleftrightarrow>
     distinct (map l_lineage_id (reg_lineages s)) \<and>
     distinct (map l_logical_lineage_id (reg_lineages s)) \<and>
     distinct (map l_result_control_path (reg_lineages s)) \<and>
     distinct (map l_ownership_token (reg_lineages s))"

definition dispatch_keys_ok :: "registry \<Rightarrow> bool" where
  "dispatch_keys_ok s \<longleftrightarrow>
     distinct (map d_action_id (reg_dispatches s)) \<and>
     list_all (\<lambda>d. act_action_id (d_action_json d) = d_action_id d) (reg_dispatches s) \<and>
     (\<forall>d \<in> set (reg_dispatches s). known_lineage (d_lineage_id d) s)"

definition attention_keys_ok :: "registry \<Rightarrow> bool" where
  "attention_keys_ok s \<longleftrightarrow>
     distinct (map h_attention_id (reg_attention s)) \<and>
     distinct (map h_registration_request_id (reg_attention s)) \<and>
     distinct (map h_action_id (filter attention_active (reg_attention s))) \<and>
     (\<forall>h \<in> set (reg_attention s). 0 < h_request_generation h \<and>
        dispatch_row (h_action_id h) s \<noteq> None \<and> lineage_row (h_lineage_id h) s \<noteq> None) \<and>
     (\<forall>e \<in> set (reg_events s). attention_row (e_attention_id e) s \<noteq> None)"

definition transition_keys_ok :: "registry \<Rightarrow> bool" where
  "transition_keys_ok s \<longleftrightarrow>
     distinct (map t_targetActionId (reg_transitions s)) \<and>
     distinct (map t_targetAttemptId (reg_transitions s)) \<and>
     (\<forall>t \<in> set (reg_transitions s).
        dispatch_row (t_targetActionId t) s \<noteq> None \<and> dispatch_row (t_sourceActionId t) s \<noteq> None \<and>
        lineage_row (t_sourceLineageId t) s \<noteq> None \<and> lineage_row (t_targetLineageId t) s \<noteq> None)"

definition schema_ok :: "registry \<Rightarrow> bool" where
  "schema_ok s \<longleftrightarrow>
     lineage_keys_ok s \<and> dispatch_keys_ok s \<and> attention_keys_ok s \<and> transition_keys_ok s"

definition empty_registry :: registry where
  "empty_registry = \<lparr>reg_lineages = [], reg_dispatches = [], reg_attention = [], reg_events = [],
     reg_transitions = []\<rparr>"

lemma schema_ok_empty: "schema_ok empty_registry"
  by (simp add: schema_ok_def lineage_keys_ok_def dispatch_keys_ok_def attention_keys_ok_def
      transition_keys_ok_def empty_registry_def)

section \<open>Statements\<close>

definition dispatch_identity where
  "dispatch_identity r = (d_action_id r, d_occurrence_id r, d_action_json r, d_action_hash r,
     d_result_nonce r, d_result_directory r, d_completion_requirement r)"

definition lineage_identity where
  "lineage_identity r = (l_lineage_id r, l_configuration_json r, l_configuration_hash r, l_provider r,
     l_harness_kind r, l_capabilities r, l_started_at r, l_result_control_path r, l_ownership_token r)"

definition attention_identity where
  "attention_identity r = (h_attention_id r, h_request_generation r, h_registration_request_id r,
     h_action_id r, h_run_id r, h_occurrence_id r, h_attempt_id r, h_lineage_id r,
     h_harness_execution_id r, h_native_session_id r, h_recoverability r, h_controller_generation r,
     h_request r, h_created_at r)"

datatype statement_kind =
    Update_Dispatch | Update_Lineage | Change_Owner | Rename_Lineage | Update_Attention
  | Insert_Lineage | Insert_Dispatch | Insert_Attention | Insert_Event | Insert_Transition

inductive statement :: "statement_kind \<Rightarrow> registry \<Rightarrow> registry \<Rightarrow> bool" where
  update_dispatch:
    "(\<And>r. dispatch_identity (f r) = dispatch_identity r) \<Longrightarrow>
     (\<And>r. d_lineage_id (f r) = d_lineage_id r \<or> known_lineage (d_lineage_id (f r)) s) \<Longrightarrow>
     statement Update_Dispatch s (update_dispatch a f s)"
| update_lineage:
    "(\<And>r. lineage_identity (f r) = lineage_identity r) \<Longrightarrow>
     (\<And>r. l_logical_lineage_id (f r) = l_logical_lineage_id r) \<Longrightarrow>
     (\<And>r. l_active_action_id (f r) = l_active_action_id r) \<Longrightarrow>
     statement Update_Lineage s (update_lineage l f s)"
| change_owner:
    "(\<And>r. lineage_identity (f r) = lineage_identity r) \<Longrightarrow>
     (\<And>r. l_logical_lineage_id (f r) = l_logical_lineage_id r) \<Longrightarrow>
     statement Change_Owner s (update_lineage l f s)"
| rename_logical:
    "rename_logical l (''retired:'' @ l) s = Inr s' \<Longrightarrow> statement Rename_Lineage s s'"
| update_attention:
    "(\<And>r. attention_identity (f r) = attention_identity r) \<Longrightarrow>
     (\<And>r. attention_active (f r) \<Longrightarrow> attention_active r) \<Longrightarrow>
     statement Update_Attention s (update_attention h f s)"
| insert_lineage: "insert_lineage r s = Inr s' \<Longrightarrow> statement Insert_Lineage s s'"
| insert_dispatch:
    "insert_dispatch d s = Inr s' \<Longrightarrow> act_action_id (d_action_json d) = d_action_id d \<Longrightarrow>
     statement Insert_Dispatch s s'"
| insert_attention: "insert_attention h' s = Inr s' \<Longrightarrow> statement Insert_Attention s s'"
| record_event: "recordHumanAttentionEvent i t at m s = Inr s' \<Longrightarrow> statement Insert_Event s s'"
| insert_transition: "insertPhysicalProcessTransition t' s = Inr s' \<Longrightarrow> statement Insert_Transition s s'"

text \<open>
  A transaction whose statements are of the given kinds: its write set. What the set leaves out is
  the frame of the operation.
\<close>

definition transaction :: "statement_kind set \<Rightarrow> registry \<Rightarrow> registry \<Rightarrow> bool" where
  "transaction K = (\<lambda>s t. \<exists>k \<in> K. statement k s t)\<^sup>*\<^sup>*"

lemma insert_lineage_Inr:
  "insert_lineage row s = Inr s' \<longleftrightarrow>
     l_lineage_id row \<notin> l_lineage_id ` set (reg_lineages s) \<and>
     l_logical_lineage_id row \<notin> l_logical_lineage_id ` set (reg_lineages s) \<and>
     l_result_control_path row \<notin> l_result_control_path ` set (reg_lineages s) \<and>
     l_ownership_token row \<notin> l_ownership_token ` set (reg_lineages s) \<and>
     s' = s\<lparr>reg_lineages := reg_lineages s @ [row]\<rparr>"
  by (auto simp: insert_lineage_def image_iff eq_commute)

lemma insert_dispatch_Inr:
  "insert_dispatch row s = Inr s' \<longleftrightarrow>
     dispatch_row (d_action_id row) s = None \<and> known_lineage (d_lineage_id row) s \<and>
     s' = s\<lparr>reg_dispatches := reg_dispatches s @ [row]\<rparr>"
  by (auto simp: insert_dispatch_def)

lemma insert_attention_Inr:
  "insert_attention row s = Inr s' \<longleftrightarrow>
     0 < h_request_generation row \<and>
     h_attention_id row \<notin> h_attention_id ` set (reg_attention s) \<and>
     h_registration_request_id row \<notin> h_registration_request_id ` set (reg_attention s) \<and>
     (attention_active row \<longrightarrow>
       h_action_id row \<notin> h_action_id ` set (filter attention_active (reg_attention s))) \<and>
     dispatch_row (h_action_id row) s \<noteq> None \<and> lineage_row (h_lineage_id row) s \<noteq> None \<and>
     s' = s\<lparr>reg_attention := reg_attention s @ [row]\<rparr>"
  by (auto simp: insert_attention_def image_iff eq_commute)

lemma record_event_Inr:
  "recordHumanAttentionEvent i t at m s = Inr s' \<longleftrightarrow>
     attention_row i s \<noteq> None \<and>
     s' = s\<lparr>reg_events := reg_events s @
       [\<lparr>e_attention_id = i, e_event_type = t, e_occurred_at = at, e_metadata = m\<rparr>]\<rparr>"
  by (auto simp: recordHumanAttentionEvent_def)

lemma insert_transition_Inr:
  "insertPhysicalProcessTransition t s = Inr s' \<longleftrightarrow>
     t_targetActionId t \<notin> t_targetActionId ` set (reg_transitions s) \<and>
     t_targetAttemptId t \<notin> t_targetAttemptId ` set (reg_transitions s) \<and>
     dispatch_row (t_targetActionId t) s \<noteq> None \<and> dispatch_row (t_sourceActionId t) s \<noteq> None \<and>
     lineage_row (t_sourceLineageId t) s \<noteq> None \<and> lineage_row (t_targetLineageId t) s \<noteq> None \<and>
     s' = s\<lparr>reg_transitions := reg_transitions s @ [t]\<rparr>"
  by (auto simp: insertPhysicalProcessTransition_def image_iff eq_commute)

lemma rename_logical_Inr:
  "rename_logical l x s = Inr s' \<longleftrightarrow>
     (lineage_row l s = None \<or>
       x \<notin> l_logical_lineage_id ` {r \<in> set (reg_lineages s). l_lineage_id r \<noteq> l}) \<and>
     s' = update_lineage l (\<lambda>r. r\<lparr>l_logical_lineage_id := x\<rparr>) s"
  unfolding rename_logical_def image_def by (cases "lineage_row l s = None") (simp_all, blast+)

lemmas insertions = insert_lineage_Inr insert_dispatch_Inr insert_attention_Inr record_event_Inr
  insert_transition_Inr rename_logical_Inr

lemma row_append [simp, table_simps]:
  "lineage_row l (s\<lparr>reg_lineages := reg_lineages s @ [r]\<rparr>) =
     (case lineage_row l s of None \<Rightarrow> if l_lineage_id r = l then Some r else None | Some x \<Rightarrow> Some x)"
  "dispatch_row a (s\<lparr>reg_dispatches := reg_dispatches s @ [d]\<rparr>) =
     (case dispatch_row a s of None \<Rightarrow> if d_action_id d = a then Some d else None | Some x \<Rightarrow> Some x)"
  "attention_row h (s\<lparr>reg_attention := reg_attention s @ [x]\<rparr>) =
     (case attention_row h s of None \<Rightarrow> if h_attention_id x = h then Some x else None | Some y \<Rightarrow> Some y)"
  by (simp_all add: lineage_row_def dispatch_row_def attention_row_def lookup_row_append
      split: option.splits)

lemma dispatch_update_keys:
  assumes "\<And>r. dispatch_identity (f r) = dispatch_identity r"
  shows "d_action_id (f r) = d_action_id r"
  using assms [of r] by (simp add: dispatch_identity_def)

lemma lineage_update_keys:
  assumes "\<And>r. lineage_identity (f r) = lineage_identity r"
  shows "l_lineage_id (f r) = l_lineage_id r"
    and "l_result_control_path (f r) = l_result_control_path r"
    and "l_ownership_token (f r) = l_ownership_token r"
  using assms [of r] by (simp_all add: lineage_identity_def)

lemma attention_update_keys:
  assumes "\<And>r. attention_identity (f r) = attention_identity r"
  shows "h_attention_id (f r) = h_attention_id r"
    and "h_registration_request_id (f r) = h_registration_request_id r"
    and "h_action_id (f r) = h_action_id r"
    and "h_lineage_id (f r) = h_lineage_id r"
    and "h_request_generation (f r) = h_request_generation r"
  using assms [of r] by (simp_all add: attention_identity_def)

text \<open>No statement deletes a row.\<close>

lemma statement_rows_persist:
  assumes "statement k s s'"
  shows "(dispatch_row a s \<noteq> None \<longrightarrow> dispatch_row a s' \<noteq> None) \<and>
    (lineage_row l s \<noteq> None \<longrightarrow> lineage_row l s' \<noteq> None) \<and>
    (attention_row h s \<noteq> None \<longrightarrow> attention_row h s' \<noteq> None)"
  using assms
proof (cases rule: statement.cases)
  case (update_dispatch f a')
  note [simp] = dispatch_row_update [OF dispatch_update_keys [OF update_dispatch(3)]]
  show ?thesis using update_dispatch(2) by auto
next
  case (update_lineage f l')
  note [simp] = lineage_row_update [OF lineage_update_keys(1) [OF update_lineage(3)]]
  show ?thesis using update_lineage(2) by auto
next
  case (change_owner f l')
  note [simp] = lineage_row_update [OF lineage_update_keys(1) [OF change_owner(3)]]
  show ?thesis using change_owner(2) by auto
next
  case (update_attention f h')
  note [simp] = attention_row_update [OF attention_update_keys(1) [OF update_attention(3)]]
  show ?thesis using update_attention(2) by auto
next
  case (rename_logical l')
  then show ?thesis by (auto simp: rename_logical_Inr lineage_row_update)
qed (auto simp: insertions split: option.splits)

section \<open>The constraints are an invariant\<close>

lemma distinct_map_rename:
  assumes "distinct (map f xs)" and "x \<notin> f ` {r \<in> set xs. k r \<noteq> c}" and "distinct (map k xs)"
    and "\<And>r. f (g r) = x"
  shows "distinct (map f (update_where (\<lambda>r. k r = c) g xs))"
  using assms
proof (induction xs)
  case Nil
  then show ?case by simp
next
  case (Cons r xs)
  have tail: "distinct (map f (update_where (\<lambda>r. k r = c) g xs))"
    using Cons by auto
  show ?case
  proof (cases "k r = c")
    case True
    with Cons.prems(3) have "\<forall>q \<in> set xs. k q \<noteq> c" by (auto simp: image_iff)
    then have "update_where (\<lambda>r. k r = c) g xs = xs" by (auto intro!: update_where_id)
    with True Cons.prems \<open>\<forall>q \<in> set xs. k q \<noteq> c\<close> show ?thesis by (auto simp: image_iff)
  next
    case False
    with tail Cons.prems show ?thesis
      by (auto simp: set_update_where image_iff)
  qed
qed

lemma statement_lineage_keys:
  assumes "statement k s s'" and "lineage_keys_ok s"
  shows "lineage_keys_ok s'"
  using assms(1)
proof (cases rule: statement.cases)
  case (update_lineage f l)
  note [simp] = lineage_update_keys [OF update_lineage(3)] update_lineage(4)
  show ?thesis
    using assms(2) update_lineage(2) by (simp add: lineage_keys_ok_def update_lineage_def map_update_where)
next
  case (change_owner f l)
  note [simp] = lineage_update_keys [OF change_owner(3)] change_owner(4)
  show ?thesis
    using assms(2) change_owner(2) by (simp add: lineage_keys_ok_def update_lineage_def map_update_where)
next
  case (rename_logical l)
  have "distinct (map l_logical_lineage_id (reg_lineages s'))"
  proof (cases "lineage_row l s")
    case None
    then have "reg_lineages s' = reg_lineages s"
      using rename_logical
      by (auto simp: rename_logical_Inr update_lineage_def lineage_row_def lookup_row_None_iff
          intro!: update_where_id)
    then show ?thesis using assms(2) by (simp add: lineage_keys_ok_def)
  next
    case (Some r)
    then show ?thesis
      using rename_logical assms(2)
      by (auto simp: rename_logical_Inr update_lineage_def lineage_keys_ok_def
          intro!: distinct_map_rename)
  qed
  then show ?thesis
    using rename_logical assms(2)
    by (simp add: lineage_keys_ok_def rename_logical_Inr update_lineage_def map_update_where)
qed (use assms(2) in \<open>auto simp: lineage_keys_ok_def insertions\<close>)

lemma statement_known_lineage:
  "statement k s s' \<Longrightarrow> known_lineage x s \<Longrightarrow> known_lineage x s'"
  by (rule known_lineage_rows [OF statement_rows_persist [THEN conjunct2, THEN conjunct1, THEN mp]])

lemma statement_dispatch_keys:
  assumes "statement k s s'" and "dispatch_keys_ok s"
  shows "dispatch_keys_ok s'"
proof -
  have known: "known_lineage x s \<Longrightarrow> known_lineage x s'" for x
    by (rule statement_known_lineage [OF assms(1)])
  have kept: "reg_dispatches s' = reg_dispatches s \<Longrightarrow> ?thesis"
    using assms(2) known by (simp add: dispatch_keys_ok_def)
  show ?thesis
    using assms(1)
  proof (cases rule: statement.cases)
    case (update_dispatch f a)
    note [simp] = dispatch_update_keys [OF update_dispatch(3)]
    have [simp]: "d_action_json (f r) = d_action_json r" for r
      using update_dispatch(3) [of r] by (simp add: dispatch_identity_def)
    have "known_lineage (d_lineage_id (f d)) s'" if "d \<in> set (reg_dispatches s)" for d
      using update_dispatch(4) [of d] assms(2) that known by (auto simp: dispatch_keys_ok_def)
    then show ?thesis
      using assms(2) update_dispatch(2) known
      by (auto simp: dispatch_keys_ok_def update_dispatch_def map_update_where set_update_where
          list_all_iff)
  next
    case (insert_dispatch d)
    then show ?thesis
      using assms(2) known
      by (auto simp: dispatch_keys_ok_def insert_dispatch_Inr dispatch_row_def lookup_row_None_iff)
  qed (rule kept; auto simp: insertions)+
qed

lemma statement_attention_keys:
  assumes "statement k s s'" and "attention_keys_ok s"
  shows "attention_keys_ok s'"
proof -
  have rows: "dispatch_row a s \<noteq> None \<Longrightarrow> dispatch_row a s' \<noteq> None"
    "lineage_row l s \<noteq> None \<Longrightarrow> lineage_row l s' \<noteq> None"
    "attention_row h s \<noteq> None \<Longrightarrow> attention_row h s' \<noteq> None" for a l h
    using statement_rows_persist [OF assms(1)] by blast+
  have kept: ?thesis
    if "reg_attention s' = reg_attention s" "reg_events s' = reg_events s"
    using assms(2) that rows unfolding attention_keys_ok_def by simp
  show ?thesis
    using assms(1)
  proof (cases rule: statement.cases)
    case (update_attention f h)
    note keys [simp] = attention_update_keys [OF update_attention(3)]
    have active: "distinct (map h_action_id (filter attention_active
        (update_where (\<lambda>r. h_attention_id r = h) f rows)))"
      if "distinct (map h_action_id (filter attention_active rows))" for rows
      using that update_attention(4)
      by (induction rows) (auto simp: set_update_where image_iff split: if_splits; blast)+
    show ?thesis
      using assms(2) update_attention(2) rows
      by (auto simp: attention_keys_ok_def update_attention_def map_update_where set_update_where
          active)
  next
    case (insert_attention h)
    then show ?thesis
      using assms(2) rows
      unfolding attention_keys_ok_def insert_attention_Inr by auto
  next
    case (record_event i t at m)
    then show ?thesis
      using assms(2) rows
      unfolding attention_keys_ok_def record_event_Inr by auto
  qed (rule kept; auto simp: insertions)+
qed

lemma statement_transition_keys:
  assumes "statement k s s'" and "transition_keys_ok s"
  shows "transition_keys_ok s'"
proof -
  have rows: "dispatch_row a s \<noteq> None \<Longrightarrow> dispatch_row a s' \<noteq> None"
    "lineage_row l s \<noteq> None \<Longrightarrow> lineage_row l s' \<noteq> None" for a l
    using statement_rows_persist [OF assms(1)] by blast+
  have kept: ?thesis if "reg_transitions s' = reg_transitions s"
    using assms(2) that rows unfolding transition_keys_ok_def by simp
  show ?thesis
    using assms(1)
  proof (cases rule: statement.cases)
    case (insert_transition t)
    then show ?thesis
      using assms(2) rows
      unfolding transition_keys_ok_def insert_transition_Inr by auto
  qed (rule kept; auto simp: insertions)+
qed

lemma statement_schema_ok: "statement k s s' \<Longrightarrow> schema_ok s \<Longrightarrow> schema_ok s'"
  by (simp add: schema_ok_def statement_lineage_keys statement_dispatch_keys
      statement_attention_keys statement_transition_keys)

lemma transaction_schema_ok:
  assumes "transaction K s s'" and "schema_ok s"
  shows "schema_ok s'"
  using assms unfolding transaction_def
  by (induction rule: rtranclp_induct) (auto intro: statement_schema_ok)

end
