(* ===== verification/Registry_Steps.thy ===== *)
theory Registry_Steps
  imports Registry_Schema
begin

text \<open>
  The registry as a state machine: one step per committed transaction of \<^verbatim>\<open>DispatchRegistry\<close>, the
  states reachable from the freshly bootstrapped database, and the schema's constraints as an
  invariant of them. An operation that throws rolls its transaction back and makes no step.
\<close>

inductive registry_step :: "registry_config \<Rightarrow> registry \<Rightarrow> registry \<Rightarrow> bool" for cfg where
  reserve_setup: "reserveSetupLineage cfg now ctx s = Inr (l, s') \<Longrightarrow> registry_step cfg s s'"
| retire_setup: "registry_step cfg s (retireUnclaimedSetupLineage lid s)"
| accept: "accept cfg now uuid nonce action s = Inr (a, s') \<Longrightarrow> registry_step cfg s s'"
| adopt: "adopt cfg now ado s = Inr (d, s') \<Longrightarrow> registry_step cfg s s'"
| assign_lineage: "assignLineage aid lid s = Inr (d, s') \<Longrightarrow> registry_step cfg s s'"
| occupy: "occupy lid aid s = Inr s' \<Longrightarrow> registry_step cfg s s'"
| record_execution: "recordExecution lid handle interactive s = Inr s' \<Longrightarrow> registry_step cfg s s'"
| record_native: "recordNativeSession now lid ns s = Inr s' \<Longrightarrow> registry_step cfg s s'"
| update_session: "updateSession lid st att tm iv s = Inr (l, s') \<Longrightarrow> registry_step cfg s s'"
| register_attention: "registerHumanAttention regi s = Inr (h, s') \<Longrightarrow> registry_step cfg s s'"
| record_response: "recordHumanAttentionResponse now ri s = Inr (h, s') \<Longrightarrow> registry_step cfg s s'"
| begin_delivery: "beginHumanAttentionDelivery now hid gen s = Inr (h, s') \<Longrightarrow> registry_step cfg s s'"
| acknowledge_delivery:
    "acknowledgeHumanAttentionDelivery now hid gen did s = Inr (h, s') \<Longrightarrow> registry_step cfg s s'"
| uncertain_delivery:
    "markHumanAttentionDeliveryUncertain now hid reason s = Inr (h, s') \<Longrightarrow> registry_step cfg s s'"
| cancel_attention: "cancelHumanAttention now hid reason w s = Inr (h, s') \<Longrightarrow> registry_step cfg s s'"
| adopt_prepared: "adoptPreparedProcess now src tgt lid s = Inr (t, s') \<Longrightarrow> registry_step cfg s s'"
| replace_prepared:
    "replacePreparedProcessWithFresh cfg now uuid src tgt lid s = Inr (l, s') \<Longrightarrow> registry_step cfg s s'"
| authorize: "authorizePrompt now aid s = Inr (d, s') \<Longrightarrow> registry_step cfg s s'"
| prompt_intent: "registry_step cfg s (markPromptIntent now aid s)"
| prompt_evidence: "registry_step cfg s (recordPromptEvidence aid evidence s)"
| prompt_accepted: "registry_step cfg s (markPromptAccepted tm aid s)"
| native_activity: "registry_step cfg s (markNativeActivity tm aid s)"
| turn_settled: "registry_step cfg s (markProviderTurnSettled tm aid s)"
| native_idle: "registry_step cfg s (markNativeIdle tm aid s)"
| structured_result: "registry_step cfg s (markStructuredResultReceived tm aid s)"
| stalled: "registry_step cfg s (markStalled tm aid s)"
| running: "registry_step cfg s (markRunning aid s)"
| observation_failure: "registry_step cfg s (recordObservationFailure aid failure s)"
| resume: "resumeObservationUncertainty aid s = Inr (d, s') \<Longrightarrow> registry_step cfg s s'"
| complete: "complete now aid outputs s = Inr (d, s') \<Longrightarrow> registry_step cfg s s'"
| fail: "fail now aid failure uncertain s = Inr (d, s') \<Longrightarrow> registry_step cfg s s'"
| cancel: "cancel now aid failure s = Inr (d, s') \<Longrightarrow> registry_step cfg s s'"
| acknowledge: "registry_step cfg s (acknowledgeServerTerminal now aid s)"

section \<open>Operations are sequences of statements\<close>

named_theorems tx_intros \<open>extending a transaction by one statement\<close>

lemma transaction_refl [simp, intro, tx_intros]: "transaction K s s"
  by (simp add: transaction_def)

lemma transaction_trans: "transaction K s t \<Longrightarrow> transaction K t u \<Longrightarrow> transaction K s u"
  by (simp add: transaction_def)

lemma transaction_snoc: "transaction K s t \<Longrightarrow> k \<in> K \<Longrightarrow> statement k t u \<Longrightarrow> transaction K s u"
  unfolding transaction_def by (rule rtranclp.rtrancl_into_rtrancl) auto

lemma transaction_mono: "transaction K s t \<Longrightarrow> K \<subseteq> K' \<Longrightarrow> transaction K' s t"
  unfolding transaction_def by (erule rtranclp_mono [THEN predicate2D, rotated]) auto

lemma tx_update_dispatch [tx_intros]:
  "transaction K s t \<Longrightarrow> Update_Dispatch \<in> K \<Longrightarrow> (\<And>r. dispatch_identity (f r) = dispatch_identity r) \<Longrightarrow>
   (\<And>r. d_lineage_id (f r) = d_lineage_id r \<or> known_lineage (d_lineage_id (f r)) t) \<Longrightarrow>
   transaction K s (update_dispatch a f t)"
  by (rule transaction_snoc [OF _ _ statement.update_dispatch])

lemma tx_update_lineage [tx_intros]:
  "transaction K s t \<Longrightarrow> Update_Lineage \<in> K \<Longrightarrow> (\<And>r. lineage_identity (f r) = lineage_identity r) \<Longrightarrow>
   (\<And>r. l_logical_lineage_id (f r) = l_logical_lineage_id r) \<Longrightarrow>
   (\<And>r. l_active_action_id (f r) = l_active_action_id r) \<Longrightarrow>
   transaction K s (update_lineage l f t)"
  by (rule transaction_snoc [OF _ _ statement.update_lineage])

lemma tx_change_owner:
  "transaction K s t \<Longrightarrow> Change_Owner \<in> K \<Longrightarrow> (\<And>r. lineage_identity (f r) = lineage_identity r) \<Longrightarrow>
   (\<And>r. l_logical_lineage_id (f r) = l_logical_lineage_id r) \<Longrightarrow>
   transaction K s (update_lineage l f t)"
  by (rule transaction_snoc [OF _ _ statement.change_owner])

lemma tx_update_attention [tx_intros]:
  "transaction K s t \<Longrightarrow> Update_Attention \<in> K \<Longrightarrow> (\<And>r. attention_identity (f r) = attention_identity r) \<Longrightarrow>
   (\<And>r. attention_active (f r) \<Longrightarrow> attention_active r) \<Longrightarrow>
   transaction K s (update_attention h f t)"
  by (rule transaction_snoc [OF _ _ statement.update_attention])

lemma tx_insertions:
  "insert_lineage r t = Inr u \<Longrightarrow> transaction K s t \<Longrightarrow> Insert_Lineage \<in> K \<Longrightarrow> transaction K s u"
  "insert_dispatch d t = Inr u \<Longrightarrow> transaction K s t \<Longrightarrow> Insert_Dispatch \<in> K \<Longrightarrow>
     act_action_id (d_action_json d) = d_action_id d \<Longrightarrow> transaction K s u"
  "insert_attention h t = Inr u \<Longrightarrow> transaction K s t \<Longrightarrow> Insert_Attention \<in> K \<Longrightarrow> transaction K s u"
  "recordHumanAttentionEvent i ty tm m t = Inr u \<Longrightarrow> transaction K s t \<Longrightarrow> Insert_Event \<in> K \<Longrightarrow>
     transaction K s u"
  "insertPhysicalProcessTransition tr t = Inr u \<Longrightarrow> transaction K s t \<Longrightarrow> Insert_Transition \<in> K \<Longrightarrow>
     transaction K s u"
  "rename_logical l (''retired:'' @ l) t = Inr u \<Longrightarrow> transaction K s t \<Longrightarrow> Rename_Lineage \<in> K \<Longrightarrow>
     transaction K s u"
  by (blast intro: transaction_snoc statement.intros)+

lemmas identities = dispatch_identity_def lineage_identity_def attention_identity_def

lemma tx_release: "transaction K s t \<Longrightarrow> Change_Owner \<in> K \<Longrightarrow> transaction K s (release_lineage now l a t)"
  unfolding release_lineage_def by (rule tx_change_owner) (simp_all add: identities)

lemmas tx_owner_intros = transaction_refl tx_update_dispatch tx_change_owner tx_release

lemma tx_lineage_ops:
  "reserveSetupLineage cfg now ctx s = Inr (l, s') \<Longrightarrow> transaction {Insert_Lineage} s s'"
  "transaction {Update_Lineage} s (retireUnclaimedSetupLineage lid s)"
  "occupy lid aid s = Inr s' \<Longrightarrow> transaction {Change_Owner} s s'"
  "recordExecution lid handle interactive s = Inr s' \<Longrightarrow> transaction {Update_Lineage} s s'"
  "updateSession lid st att tm iv s = Inr (l, s') \<Longrightarrow> transaction {Update_Lineage} s s'"
proof -
  show "transaction {Change_Owner} s s'" if "occupy lid aid s = Inr s'"
    using that unfolding occupy_def
    by (auto simp: identities elim!: bind_result_InrE split: if_split_asm intro!: tx_owner_intros)
qed (auto simp: reserveSetupLineage_def retireUnclaimedSetupLineage_def recordExecution_def
    updateSession_def Let_def identities elim!: bind_result_InrE
    split: option.split_asm if_split_asm option.split intro!: tx_intros intro: tx_insertions)

lemma tx_record_native:
  assumes "recordNativeSession now lid ns s = Inr s'"
  shows "transaction {Update_Lineage} s s'"
proof -
  obtain handle t where "recordExecution lid handle None s = Inr t"
    and "s' = update_lineage lid (\<lambda>r. r\<lparr>l_last_activity_at := now\<rparr>) t"
    using assms unfolding recordNativeSession_def
    by (auto elim!: bind_result_InrE split: option.split_asm)
  then show ?thesis
    by (auto simp: identities intro!: tx_update_lineage intro: tx_lineage_ops)
qed

lemma tx_assign:
  assumes "assignLineage aid lid s = Inr (d, s')"
  shows "transaction {Update_Dispatch} s s'"
proof (cases "known_lineage (Some lid) s")
  case True
  then show ?thesis
    using assms by (auto simp: assignLineage_def Let_def bind_result_eq_Inr identities
        split: if_splits intro!: tx_intros)
next
  case False
  then have none: "\<not> (\<exists>r \<in> set (reg_dispatches s). d_action_id r = aid \<and> d_lineage_id r = None)"
    using assms by (auto simp: assignLineage_def Let_def split: if_splits)
  then have "update_where (\<lambda>r. d_action_id r = aid) (\<lambda>r. if d_lineage_id r = None
      then r\<lparr>d_lineage_id := Some lid\<rparr> else r) (reg_dispatches s) = reg_dispatches s"
    by (auto intro!: update_where_id)
  then have "update_dispatch aid (\<lambda>r. if d_lineage_id r = None
      then r\<lparr>d_lineage_id := Some lid\<rparr> else r) s = s"
    by (simp add: update_dispatch_def)
  then show ?thesis
    using assms none by (auto simp: assignLineage_def Let_def bind_result_eq_Inr split: if_splits)
qed

lemma tx_retire_resolved:
  assumes "retireResolvedFreshLineage now action s = Inr s'"
  shows "transaction {Change_Owner, Rename_Lineage} s s'"
proof (cases "by_logical (ctx_logical_lineage_id (exec_context (act_execution action))) s")
  case None
  with assms show ?thesis by (simp add: retireResolvedFreshLineage_def)
next
  case (Some existing)
  obtain t where "transaction {Change_Owner, Rename_Lineage} s t"
    and "rename_logical (l_lineage_id existing) (''retired:'' @ l_lineage_id existing) t = Inr s'"
  proof (cases "last_of_occurrence (act_occurrence_id action) s")
    case (Some p)
    with assms \<open>by_logical _ s = Some existing\<close> that show ?thesis
      by (auto simp: retireResolvedFreshLineage_def Let_def split: if_split_asm intro: tx_owner_intros)
  qed (use assms Some in \<open>simp add: retireResolvedFreshLineage_def Let_def\<close>)
  then show ?thesis by (blast intro: tx_insertions)
qed

lemma tx_retire_resolved_chain:
  "retireResolvedFreshLineage now action t = Inr u \<Longrightarrow> transaction K s t \<Longrightarrow>
     {Change_Owner, Rename_Lineage} \<subseteq> K \<Longrightarrow> transaction K s u"
  by (rule transaction_trans, assumption, rule transaction_mono, erule tx_retire_resolved, assumption)

lemma tx_execution_chain:
  "recordExecution lid handle interactive t = Inr u \<Longrightarrow> transaction K s t \<Longrightarrow>
     {Update_Lineage} \<subseteq> K \<Longrightarrow> transaction K s u"
  by (rule transaction_trans, assumption, rule transaction_mono, erule tx_lineage_ops(4), assumption)

lemma tx_projection:
  "updateAttentionProjection now lid hid r d a t = Inr u \<Longrightarrow> transaction K s t \<Longrightarrow>
     Update_Lineage \<in> K \<Longrightarrow> transaction K s u"
  "clearAttentionProjection now lid hid t = Inr u \<Longrightarrow> transaction K s t \<Longrightarrow>
     Update_Lineage \<in> K \<Longrightarrow> transaction K s u"
  by (auto simp: updateAttentionProjection_def clearAttentionProjection_def identities
      elim!: bind_result_InrE split: option.split_asm if_split_asm intro!: tx_intros)

lemma tx_rename:
  "rename_logical l (CHR ''r'' # CHR ''e'' # CHR ''t'' # CHR ''i'' # CHR ''r'' # CHR ''e'' # CHR ''d'' #
     CHR '':'' # l) t = Inr u \<Longrightarrow> transaction K s t \<Longrightarrow> Rename_Lineage \<in> K \<Longrightarrow> transaction K s u"
  using tx_insertions(6) [of l t u K s] by simp

lemmas tx_chain = tx_insertions tx_rename tx_retire_resolved_chain tx_execution_chain tx_projection

lemma tx_choose:
  assumes "choose_lineage cfg now uuid action s = Inr (x, s')"
  shows "transaction {Change_Owner, Rename_Lineage, Insert_Lineage} s s'"
  using assms unfolding choose_lineage_def Let_def
  apply (auto split: option.split_asm if_split_asm elim!: bind_result_InrE)
  apply (erule tx_chain | rule tx_owner_intros | (simp; fail))+
  done

lemma new_dispatch_row_named [simp]:
  "act_action_id (d_action_json (new_dispatch_row cfg action st lid nonce dir req at)) =
     d_action_id (new_dispatch_row cfg action st lid nonce dir req at)"
  by (simp add: new_dispatch_row_def)

lemma tx_accept:
  assumes "accept cfg now uuid nonce action s = Inr (a, s')"
  shows "transaction {Change_Owner, Rename_Lineage, Insert_Lineage, Insert_Dispatch} s s'"
  using assms unfolding accept_def Let_def
  apply (auto split: option.split_asm if_split_asm elim!: bind_result_InrE dest!: tx_choose)
  apply (erule tx_chain | (erule transaction_mono, blast) | (simp; fail))+
  done

lemma tx_adopt:
  assumes "adopt cfg now ado s = Inr (d, s')"
  shows "transaction {Update_Lineage, Change_Owner, Insert_Lineage, Insert_Dispatch} s s'"
  using assms unfolding adopt_def Let_def insert_lineage_or_ignore_def
  apply (auto split: option.split_asm if_split_asm elim!: bind_result_InrE)
  apply (erule tx_chain | rule tx_owner_intros | (simp add: identities; fail))+
  done

lemma tx_register:
  assumes "registerHumanAttention input s = Inr (h, s')"
  shows "transaction {Update_Lineage, Insert_Attention, Insert_Event} s s'"
  using assms unfolding registerHumanAttention_def Let_def
  apply (auto split: option.split_asm if_split_asm elim!: bind_result_InrE)
  apply (erule tx_chain | rule tx_intros | (simp add: identities; fail))+
  done

lemma tx_response_attention:
  assumes "recordHumanAttentionResponse now ri s = Inr (h, s')"
  shows "transaction {Update_Attention, Update_Lineage, Insert_Event} s s'"
  using assms unfolding recordHumanAttentionResponse_def Let_def
  apply (auto split: option.split_asm if_split_asm elim!: bind_result_InrE)
  apply (erule tx_chain | rule tx_intros |
      (cases True; simp add: identities attention_active_def split: if_splits; fail))+
  done

lemma tx_begin_attention:
  assumes "beginHumanAttentionDelivery now hid gen s = Inr (h, s')"
  shows "transaction {Update_Attention, Update_Lineage, Insert_Event} s s'"
  using assms unfolding beginHumanAttentionDelivery_def Let_def
  apply (auto split: option.split_asm if_split_asm elim!: bind_result_InrE)
  apply (erule tx_chain | rule tx_intros |
      (cases True; simp add: identities attention_active_def split: if_splits; fail))+
  done

lemma tx_acknowledge_attention:
  assumes "acknowledgeHumanAttentionDelivery now hid gen did s = Inr (h, s')"
  shows "transaction {Update_Attention, Update_Lineage, Insert_Event} s s'"
  using assms unfolding acknowledgeHumanAttentionDelivery_def Let_def
  apply (auto split: option.split_asm if_split_asm elim!: bind_result_InrE)
  apply (erule tx_chain | rule tx_intros |
      (cases True; simp add: identities attention_active_def split: if_splits; fail))+
  done

lemma tx_uncertain_attention:
  assumes "markHumanAttentionDeliveryUncertain now hid reason s = Inr (h, s')"
  shows "transaction {Update_Attention, Update_Lineage, Insert_Event} s s'"
  using assms unfolding markHumanAttentionDeliveryUncertain_def Let_def
  apply (auto split: option.split_asm if_split_asm elim!: bind_result_InrE)
  apply (erule tx_chain | rule tx_intros |
      (cases True; simp add: identities attention_active_def split: if_splits; fail))+
  done

lemma tx_cancel_attention:
  assumes "cancelHumanAttention now hid reason w s = Inr (h, s')"
  shows "transaction {Update_Attention, Update_Lineage, Insert_Event} s s'"
  using assms unfolding cancelHumanAttention_def Let_def
  apply (auto split: option.split_asm if_split_asm elim!: bind_result_InrE)
  apply (erule tx_chain | rule tx_intros |
      (cases w; simp add: identities attention_active_def split: if_splits; fail))+
  done

lemma tx_adopt_prepared:
  assumes "adoptPreparedProcess now src tgt lid s = Inr (t, s')"
  shows "transaction {Change_Owner, Insert_Transition} s s'"
  using assms unfolding adoptPreparedProcess_def Let_def
  apply (auto split: option.split_asm if_split_asm elim!: bind_result_InrE)
  apply (erule tx_chain | rule tx_owner_intros | (simp add: identities; fail))+
  done

lemma insert_lineage_row:
  assumes "insert_lineage r s = Inr s'"
  shows "lineage_row (l_lineage_id r) s' = Some r"
proof -
  from assms have s': "s' = s\<lparr>reg_lineages := reg_lineages s @ [r]\<rparr>"
    and "lookup_row l_lineage_id (l_lineage_id r) (reg_lineages s) = None"
    by (simp_all add: insert_lineage_Inr lookup_row_None_iff)
  then show ?thesis by (simp add: lineage_row_def lookup_row_append)
qed

lemma new_lineage_row_id [simp]:
  "l_lineage_id (new_lineage_row cfg now uuid logical configuration provider kind scope active) = uuid"
  by (simp add: new_lineage_row_def)

lemma tx_retire_idle:
  "retire_idle_lineage l t = Inr u \<Longrightarrow> transaction K s t \<Longrightarrow> Rename_Lineage \<in> K \<Longrightarrow> transaction K s u"
  by (auto simp: retire_idle_lineage_def split: option.split_asm if_split_asm intro: tx_rename)

lemma replace_preparedD:
  assumes "replacePreparedProcessWithFresh cfg now uuid src tgt lid s = Inr (l, s')"
    and "physicalProcessTransition tgt s = None"
  obtains source target lineage s1 s2 where
    "assertPreparedTransfer src tgt lid s = Inr (source, target, lineage)"
    and "retire_idle_lineage lid s = Inr s1"
    and "insert_lineage (new_lineage_row cfg now uuid
        (ctx_logical_lineage_id (exec_context (act_execution (rec_action target))))
        (physicalConfiguration (rec_action target))
        (model_provider (conf_model (exec_configuration (act_execution (rec_action target)))))
        (requested_harness cfg (rec_action target)) (act_worker_id (rec_action target)) (Some tgt)) s1 = Inr s2"
    and "insertPhysicalProcessTransition
        (transition_of source target lineage uuid Fresh_Process_Fallback now)
        (update_dispatch tgt (\<lambda>r. if d_lineage_id r = Some lid \<and> d_state r = Accepted
           then r\<lparr>d_lineage_id := Some uuid\<rparr> else r) s2) = Inr s'"
    and "getLineage uuid s' = Inr l"
  using assms unfolding replacePreparedProcessWithFresh_def Let_def
  by (auto elim!: bind_result_InrE split: if_split_asm intro: that)

lemma tx_replace_prepared:
  assumes "replacePreparedProcessWithFresh cfg now uuid src tgt lid s = Inr (l, s')"
  shows "transaction {Update_Dispatch, Rename_Lineage, Insert_Lineage, Insert_Transition} s s'"
proof (cases "physicalProcessTransition tgt s")
  case (Some t)
  then show ?thesis
    using assms unfolding replacePreparedProcessWithFresh_def
    by (auto elim!: bind_result_InrE split: if_split_asm)
next
  case None
  show ?thesis
  proof (rule replace_preparedD [OF assms None])
    fix source target lineage s1 s2
    assume retired: "retire_idle_lineage lid s = Inr s1"
      and fresh: "insert_lineage (new_lineage_row cfg now uuid
        (ctx_logical_lineage_id (exec_context (act_execution (rec_action target))))
        (physicalConfiguration (rec_action target))
        (model_provider (conf_model (exec_configuration (act_execution (rec_action target)))))
        (requested_harness cfg (rec_action target)) (act_worker_id (rec_action target)) (Some tgt)) s1 = Inr s2"
      and moved: "insertPhysicalProcessTransition
        (transition_of source target lineage uuid Fresh_Process_Fallback now)
        (update_dispatch tgt (\<lambda>r. if d_lineage_id r = Some lid \<and> d_state r = Accepted
           then r\<lparr>d_lineage_id := Some uuid\<rparr> else r) s2) = Inr s'"
    show ?thesis
      by (rule tx_insertions(5) [OF moved tx_update_dispatch [OF tx_insertions(1) [OF fresh
              tx_retire_idle [OF retired transaction_refl]]]])
        (use insert_lineage_row [OF fresh] in \<open>simp_all add: identities known_lineage_def\<close>)
  qed
qed

lemma tx_dispatch_marks:
  "transaction {Update_Dispatch} s (markPromptIntent now aid s)"
  "transaction {Update_Dispatch} s (recordPromptEvidence aid evidence s)"
  "transaction {Update_Dispatch} s (markPromptAccepted tm aid s)"
  "transaction {Update_Dispatch} s (markNativeActivity tm aid s)"
  "transaction {Update_Dispatch} s (markProviderTurnSettled tm aid s)"
  "transaction {Update_Dispatch} s (markNativeIdle tm aid s)"
  "transaction {Update_Dispatch} s (markStructuredResultReceived tm aid s)"
  "transaction {Update_Dispatch} s (markStalled tm aid s)"
  "transaction {Update_Dispatch} s (markRunning aid s)"
  "transaction {Update_Dispatch} s (recordObservationFailure aid failure s)"
  "transaction {Update_Dispatch} s (acknowledgeServerTerminal now aid s)"
  unfolding markPromptIntent_def recordPromptEvidence_def markPromptAccepted_def
    markNativeActivity_def markProviderTurnSettled_def markNativeIdle_def
    markStructuredResultReceived_def markStalled_def markRunning_def recordObservationFailure_def
    acknowledgeServerTerminal_def
  by (auto simp: identities intro!: tx_update_dispatch)

lemma tx_dispatch_ops:
  "authorizePrompt now aid s = Inr (d, s') \<Longrightarrow> transaction {Update_Dispatch} s s'"
  "resumeObservationUncertainty aid s = Inr (d, s') \<Longrightarrow> transaction {Update_Dispatch} s s'"
  "complete now aid outputs s = Inr (d, s') \<Longrightarrow> transaction {Update_Dispatch, Change_Owner} s s'"
  "fail now aid failure' uncertain s = Inr (d, s') \<Longrightarrow> transaction {Update_Dispatch, Change_Owner} s s'"
  "cancel now aid failure' s = Inr (db, s') \<Longrightarrow> transaction {Update_Dispatch, Change_Owner} s s'"
  unfolding authorizePrompt_def resumeObservationUncertainty_def complete_def fail_def cancel_def Let_def
  by (auto simp: identities elim!: bind_result_InrE split: if_split_asm intro!: tx_owner_intros)

lemma registry_step_transaction:
  assumes "registry_step cfg s s'"
  shows "transaction UNIV s s'"
  using assms
  by (cases rule: registry_step.cases)
    (auto intro: transaction_mono [OF _ subset_UNIV] tx_lineage_ops tx_accept tx_adopt tx_assign
      tx_record_native tx_register tx_response_attention tx_begin_attention tx_acknowledge_attention
      tx_uncertain_attention tx_cancel_attention tx_adopt_prepared tx_replace_prepared
      tx_dispatch_marks tx_dispatch_ops)

section \<open>Reachable states\<close>

inductive registry_reachable :: "registry_config \<Rightarrow> registry \<Rightarrow> bool" for cfg where
  bootstrap: "registry_reachable cfg empty_registry"
| step: "registry_reachable cfg s \<Longrightarrow> registry_step cfg s s' \<Longrightarrow> registry_reachable cfg s'"

lemma reachable_schema_ok: "registry_reachable cfg s \<Longrightarrow> schema_ok s"
  by (induction rule: registry_reachable.induct)
    (auto simp: schema_ok_empty intro: transaction_schema_ok registry_step_transaction)

end
