(* ===== verification/Registry_Evolution.thy ===== *)
theory Registry_Evolution
  imports Registry_Steps
begin

text \<open>
  What one transaction can do to a row that is already durable. Dispatches: the accepted Action is
  frozen, the status moves along one graph, the lifecycle columns change as \<open>lifecycle_kept\<close>
  says, an acknowledged completion stays. Lineages: the physical identity is frozen and the logical name is
  kept or retired. The write set of each operation says which rows it cannot touch at all.
\<close>

section \<open>Frames from write sets\<close>

lemma transaction_frame:
  assumes "transaction K s s'" and "\<And>k t u. statement k t u \<Longrightarrow> k \<in> K \<Longrightarrow> rows_evolve lookup R t u"
    and "\<And>r. R r r" and "transp R"
  shows "rows_evolve lookup R s s'"
  using assms(1) unfolding transaction_def
proof (induction rule: rtranclp_induct)
  case base
  show ?case by (rule rows_evolve_refl) (rule assms(3))
next
  case (step t u)
  then show ?case using assms(2,4) by (blast intro: rows_evolve_trans)
qed

lemma transp_eq: "transp (=)"
  by (rule transpI) simp

lemma frame_dispatch:
  assumes "transaction K s s'" and "Update_Dispatch \<notin> K"
  shows "rows_evolve dispatch_row (=) s s'"
proof (rule transaction_frame [OF assms(1) _ refl transp_eq])
  show "rows_evolve dispatch_row (=) t u" if "statement k t u" "k \<in> K" for k t u
    using that assms(2)
    by (cases rule: statement.cases) (auto simp: rows_evolve_def insertions)
qed

lemma frame_attention:
  assumes "transaction K s s'" and "Update_Attention \<notin> K"
  shows "rows_evolve attention_row (=) s s'"
proof (rule transaction_frame [OF assms(1) _ refl transp_eq])
  show "rows_evolve attention_row (=) t u" if "statement k t u" "k \<in> K" for k t u
    using that assms(2)
    by (cases rule: statement.cases) (auto simp: rows_evolve_def insertions)
qed

lemma frame_lineage:
  assumes "transaction K s s'" and "Update_Lineage \<notin> K" and "Change_Owner \<notin> K" and "Rename_Lineage \<notin> K"
  shows "rows_evolve lineage_row (=) s s'"
proof (rule transaction_frame [OF assms(1) _ refl transp_eq])
  show "rows_evolve lineage_row (=) t u" if "statement k t u" "k \<in> K" for k t u
    using that assms(2-4)
    by (cases rule: statement.cases) (auto simp: rows_evolve_def insertions)
qed

section \<open>Lineages\<close>

definition lineage_evolves :: "LineageRow \<Rightarrow> LineageRow \<Rightarrow> bool" where
  "lineage_evolves r r' \<longleftrightarrow>
     lineage_identity r' = lineage_identity r \<and>
     (l_logical_lineage_id r' = l_logical_lineage_id r \<or>
      l_logical_lineage_id r' = ''retired:'' @ l_lineage_id r)"

lemma transp_lineage_evolves: "transp lineage_evolves"
  by (rule transpI) (auto simp: lineage_evolves_def lineage_identity_def)

lemma statement_lineage_evolves:
  assumes "statement k s s'"
  shows "rows_evolve lineage_row lineage_evolves s s'"
  using assms
proof (cases rule: statement.cases)
  case (update_lineage f l)
  show ?thesis
    unfolding update_lineage(2)
    by (rule lineages.evolve_update)
      (use update_lineage(3,4) lineage_update_keys(1) [of f] in \<open>auto simp: lineage_evolves_def\<close>)
next
  case (change_owner f l)
  show ?thesis
    unfolding change_owner(2)
    by (rule lineages.evolve_update)
      (use change_owner(3,4) lineage_update_keys(1) [of f] in \<open>auto simp: lineage_evolves_def\<close>)
next
  case (rename_logical l)
  then have s': "s' = update_lineage l (\<lambda>r. r\<lparr>l_logical_lineage_id := ''retired:'' @ l\<rparr>) s"
    by (simp add: rename_logical_Inr)
  show ?thesis
    unfolding s'
    by (rule lineages.evolve_update)
      (auto simp: lineage_evolves_def lineage_identity_def dest: lineages.lookup_key)
qed (auto simp: rows_evolve_def insertions lineage_evolves_def)

lemma step_lineage_evolves:
  "registry_step cfg s s' \<Longrightarrow> rows_evolve lineage_row lineage_evolves s s'"
  by (rule transaction_frame [OF registry_step_transaction _ _ transp_lineage_evolves])
    (auto intro: statement_lineage_evolves simp: lineage_evolves_def)

section \<open>Dispatches\<close>

definition state_moves :: "dispatch_state \<Rightarrow> dispatch_state \<Rightarrow> bool" where
  "state_moves a b \<longleftrightarrow> a = b \<or>
     (case a of
        Accepted \<Rightarrow> True
      | Running \<Rightarrow> b \<noteq> Accepted
      | Completed \<Rightarrow> b = Failed
      | Failed \<Rightarrow> b = Uncertain
      | Uncertain \<Rightarrow> b \<noteq> Accepted)"

text \<open>
  The columns of a lifecycle over one transaction. Nine of them are written once. The idle mark
  comes and goes, only while the dispatch is accepted or running, and activity is on record when it
  is taken back. The acknowledgement is first written on a settled dispatch, never overwritten, and
  cleared by a cancellation only, which refuses a dispatch that is settled and acknowledged.
\<close>

definition lifecycle_kept :: "DispatchRow \<Rightarrow> DispatchRow \<Rightarrow> bool" where
  "lifecycle_kept r r' \<longleftrightarrow>
     write_once (d_prompt_intent_at r) (d_prompt_intent_at r') \<and>
     write_once (d_prompt_accepted_at r) (d_prompt_accepted_at r') \<and>
     write_once (d_native_activity_at r) (d_native_activity_at r') \<and>
     write_once (d_provider_turn_settled_at r) (d_provider_turn_settled_at r') \<and>
     write_once (d_structured_result_received_at r) (d_structured_result_received_at r') \<and>
     write_once (d_stalled_at r) (d_stalled_at r') \<and>
     write_once (d_settled_at r) (d_settled_at r') \<and>
     write_once (d_prompt_evidence r) (d_prompt_evidence r') \<and>
     write_once (d_prompt_authorized_at r) (d_prompt_authorized_at r') \<and>
     (d_native_idle_at r' = d_native_idle_at r \<or> open_state (d_state r)) \<and>
     (d_native_idle_at r = None \<or> d_native_idle_at r' \<noteq> None \<or> d_native_activity_at r' \<noteq> None) \<and>
     (d_state r \<in> {Completed, Failed} \<and> truthy (d_server_acknowledged_at r) \<longrightarrow>
       d_server_acknowledged_at r' = d_server_acknowledged_at r) \<and>
     (d_server_acknowledged_at r' = d_server_acknowledged_at r \<or>
      (if d_server_acknowledged_at r = None then d_state r \<in> {Completed, Failed}
       else d_server_acknowledged_at r' = None \<and> d_state r' = Failed))"

definition acknowledged_completion :: "DispatchRow \<Rightarrow> bool" where
  "acknowledged_completion r \<longleftrightarrow> d_state r = Completed \<and> truthy (d_server_acknowledged_at r)"

definition dispatch_evolves :: "DispatchRow \<Rightarrow> DispatchRow \<Rightarrow> bool" where
  "dispatch_evolves r r' \<longleftrightarrow>
     dispatch_identity r' = dispatch_identity r \<and>
     state_moves (d_state r) (d_state r') \<and>
     lifecycle_kept r r' \<and>
     (d_lineage_id r = None \<or> d_state r = Accepted \<or> d_lineage_id r' = d_lineage_id r) \<and>
     (acknowledged_completion r \<longrightarrow> acknowledged_completion r')"

lemma dispatch_evolves_refl [simp]: "dispatch_evolves r r"
  by (cases "d_native_idle_at r") (simp_all add: dispatch_evolves_def state_moves_def lifecycle_kept_def)

lemma dispatch_evolve_update:
  assumes "\<And>r. d_action_id (f r) = d_action_id r"
    and "\<And>r. dispatch_row a s = Some r \<Longrightarrow> dispatch_evolves r (f r)"
  shows "rows_evolve dispatch_row dispatch_evolves s (update_dispatch a f s)"
    and "rows_evolve dispatch_row dispatch_evolves s (release_lineage now l b (update_dispatch a f s))"
proof -
  show "rows_evolve dispatch_row dispatch_evolves s (update_dispatch a f s)"
    by (rule dispatches.evolve_update) (use assms in auto)
  then show "rows_evolve dispatch_row dispatch_evolves s (release_lineage now l b (update_dispatch a f s))"
    by (simp add: rows_evolve_def release_lineage_def)
qed

lemma truthy_coalesce: "truthy x \<Longrightarrow> coalesce x y = x"
  by (cases x) auto

lemma coalesce_not_None: "coalesce x (Some y) = None \<longleftrightarrow> False" "\<exists>z. coalesce x (Some y) = Some z"
  by (cases x; simp)+

lemmas evolves_defs = dispatch_evolves_def dispatch_identity_def state_moves_def lifecycle_kept_def
  acknowledged_completion_def open_state_def started_def truthy_coalesce coalesce_not_None

lemma marks_evolve:
  "rows_evolve dispatch_row dispatch_evolves s (markPromptIntent now aid s)"
  "rows_evolve dispatch_row dispatch_evolves s (recordPromptEvidence aid evidence s)"
  "rows_evolve dispatch_row dispatch_evolves s (markPromptAccepted tm aid s)"
  "rows_evolve dispatch_row dispatch_evolves s (markNativeActivity tm aid s)"
  "rows_evolve dispatch_row dispatch_evolves s (markProviderTurnSettled tm aid s)"
  "rows_evolve dispatch_row dispatch_evolves s (markNativeIdle tm aid s)"
  "rows_evolve dispatch_row dispatch_evolves s (markStructuredResultReceived tm aid s)"
  "rows_evolve dispatch_row dispatch_evolves s (markStalled tm aid s)"
  "rows_evolve dispatch_row dispatch_evolves s (markRunning aid s)"
  "rows_evolve dispatch_row dispatch_evolves s (recordObservationFailure aid failure s)"
  "rows_evolve dispatch_row dispatch_evolves s (acknowledgeServerTerminal now aid s)"
  unfolding markPromptIntent_def recordPromptEvidence_def markPromptAccepted_def
    markNativeActivity_def markProviderTurnSettled_def markNativeIdle_def
    markStructuredResultReceived_def markStalled_def markRunning_def recordObservationFailure_def
    acknowledgeServerTerminal_def
  by (rule dispatch_evolve_update(1); auto simp: evolves_defs split: dispatch_state.split)+

lemma get_Inr: "get a s = Inr d \<longleftrightarrow> (\<exists>r. dispatch_row a s = Some r \<and> d = mapDispatch r)"
  by (auto simp: get_def get_row_def split: option.split)

lemma mapDispatch_sel [simp]:
  "rec_action (mapDispatch r) = d_action_json r"
  "rec_state (mapDispatch r) = d_state r"
  "rec_lineageId (mapDispatch r) = d_lineage_id r"
  "rec_failure (mapDispatch r) = d_failure r"
  "rec_outputs (mapDispatch r) = d_outputs r"
  "rec_serverAcknowledgedAt (mapDispatch r) = d_server_acknowledged_at r"
  by (simp_all add: mapDispatch_def)

lemma release_frames [simp]:
  "reg_dispatches (release_lineage now l a s) = reg_dispatches s"
  "reg_attention (release_lineage now l a s) = reg_attention s"
  by (simp_all add: release_lineage_def)

lemma dispatch_ops_evolve:
  "authorizePrompt now aid s = Inr (d, s') \<Longrightarrow> rows_evolve dispatch_row dispatch_evolves s s'"
  "resumeObservationUncertainty aid s = Inr (d, s') \<Longrightarrow> rows_evolve dispatch_row dispatch_evolves s s'"
  "complete now aid outputs s = Inr (d, s') \<Longrightarrow> rows_evolve dispatch_row dispatch_evolves s s'"
  "fail now aid failure' uncertain s = Inr (d, s') \<Longrightarrow> rows_evolve dispatch_row dispatch_evolves s s'"
  "cancel now aid failure' s = Inr (db, s') \<Longrightarrow> rows_evolve dispatch_row dispatch_evolves s s'"
  "assignLineage aid lid s = Inr (d, s') \<Longrightarrow> rows_evolve dispatch_row dispatch_evolves s s'"
  unfolding authorizePrompt_def resumeObservationUncertainty_def complete_def fail_def cancel_def
    assignLineage_def Let_def
  by (auto simp: get_Inr evolves_defs elim!: bind_result_InrE
      split: if_split_asm dispatch_state.splits
      intro!: rows_evolve_refl dispatch_evolve_update)

lemma rows_evolve_eq_left:
  "rows_evolve lookup (=) s t \<Longrightarrow> rows_evolve lookup R t u \<Longrightarrow> rows_evolve lookup R s u"
  and rows_evolve_eq_right:
  "rows_evolve lookup R s t \<Longrightarrow> rows_evolve lookup (=) t u \<Longrightarrow> rows_evolve lookup R s u"
  by (fastforce simp: rows_evolve_def)+

text \<open>Nothing but the fallback to a fresh process moves an accepted dispatch to another lineage.\<close>

lemma replace_prepared_evolves:
  assumes "replacePreparedProcessWithFresh cfg now uuid src tgt lid s = Inr (l, s')"
  shows "rows_evolve dispatch_row dispatch_evolves s s'"
proof (cases "physicalProcessTransition tgt s")
  case (Some t)
  then show ?thesis
    using assms unfolding replacePreparedProcessWithFresh_def
    by (auto elim!: bind_result_InrE split: if_split_asm intro: rows_evolve_refl)
next
  case None
  obtain source target lineage s1 s2 where
    retired: "retire_idle_lineage lid s = Inr s1"
    and fresh: "insert_lineage (new_lineage_row cfg now uuid
        (ctx_logical_lineage_id (exec_context (act_execution (rec_action target))))
        (physicalConfiguration (rec_action target))
        (model_provider (conf_model (exec_configuration (act_execution (rec_action target)))))
        (requested_harness cfg (rec_action target)) (act_worker_id (rec_action target)) (Some tgt)) s1 = Inr s2"
    and ins: "insertPhysicalProcessTransition
        (transition_of source target lineage uuid Fresh_Process_Fallback now)
        (update_dispatch tgt (\<lambda>r. if d_lineage_id r = Some lid \<and> d_state r = Accepted
           then r\<lparr>d_lineage_id := Some uuid\<rparr> else r) s2) = Inr s'"
    by (rule replace_preparedD [OF assms None])
  have prep: "transaction {Rename_Lineage, Insert_Lineage} s s2"
    by (rule tx_insertions(1) [OF fresh tx_retire_idle [OF retired]]) simp_all
  have "rows_evolve dispatch_row (=) s s2"
    by (rule frame_dispatch [OF prep]) simp
  moreover have "rows_evolve dispatch_row dispatch_evolves s2
      (update_dispatch tgt (\<lambda>r. if d_lineage_id r = Some lid \<and> d_state r = Accepted
         then r\<lparr>d_lineage_id := Some uuid\<rparr> else r) s2)"
    by (rule dispatch_evolve_update(1)) (auto simp: evolves_defs)
  moreover have "rows_evolve dispatch_row (=) (update_dispatch tgt (\<lambda>r. if d_lineage_id r = Some lid \<and> d_state r = Accepted
         then r\<lparr>d_lineage_id := Some uuid\<rparr> else r) s2) s'"
    using ins by (auto simp: insertions rows_evolve_def)
  ultimately show ?thesis
    by (blast intro: rows_evolve_eq_left rows_evolve_eq_right)
qed

lemma evolve_of_frame: "rows_evolve dispatch_row (=) s s' \<Longrightarrow> rows_evolve dispatch_row dispatch_evolves s s'"
  by (auto simp: rows_evolve_def)

lemmas dispatch_frames = evolve_of_frame [OF frame_dispatch]

lemma step_dispatch_evolves:
  assumes "registry_step cfg s s'"
  shows "rows_evolve dispatch_row dispatch_evolves s s'"
  using assms
proof (cases rule: registry_step.cases)
  case (reserve_setup) then show ?thesis by (auto intro: dispatch_frames [OF tx_lineage_ops(1)])
next
  case (accept) then show ?thesis by (auto intro: dispatch_frames [OF tx_accept])
next
  case (adopt) then show ?thesis by (auto intro: dispatch_frames [OF tx_adopt])
qed (auto intro: marks_evolve dispatch_ops_evolve replace_prepared_evolves
    dispatch_frames [OF tx_lineage_ops(2)] dispatch_frames [OF tx_lineage_ops(3)]
    dispatch_frames [OF tx_lineage_ops(4)] dispatch_frames [OF tx_lineage_ops(5)]
    dispatch_frames [OF tx_record_native] dispatch_frames [OF tx_register]
    dispatch_frames [OF tx_response_attention] dispatch_frames [OF tx_begin_attention]
    dispatch_frames [OF tx_acknowledge_attention] dispatch_frames [OF tx_uncertain_attention]
    dispatch_frames [OF tx_cancel_attention] dispatch_frames [OF tx_adopt_prepared])

end
