(* ===== verification/Attention_Evolution.thy ===== *)
theory Attention_Evolution
  imports Registry_Evolution
begin

text \<open>
  The protocol of a blocking human-attention request, over every interleaving of the registry's
  transactions: one active request per Action, one authoritative response, one delivery of it that
  is either acknowledged or uncertain, and a withdrawal that is final.
\<close>

section \<open>Effects of the operations on the requests\<close>

lemma frame_attention_table:
  assumes "transaction K s s'" and "Update_Attention \<notin> K" and "Insert_Attention \<notin> K"
  shows "reg_attention s' = reg_attention s"
  using assms(1) unfolding transaction_def
proof (induction rule: rtranclp_induct)
  case (step t u)
  then obtain k where "statement k t u" "k \<in> K" by blast
  then have "reg_attention u = reg_attention t"
    using assms(2,3) by (cases rule: statement.cases) (auto simp: insertions)
  with step show ?case by simp
qed simp

lemma projection_frame:
  "updateAttentionProjection now lid hid r d a t = Inr u \<Longrightarrow> reg_attention u = reg_attention t"
  "clearAttentionProjection now lid hid t = Inr u \<Longrightarrow> reg_attention u = reg_attention t"
  "recordHumanAttentionEvent i ty tm m t = Inr u \<Longrightarrow> reg_attention u = reg_attention t"
  by (auto simp: updateAttentionProjection_def clearAttentionProjection_def insertions
      elim!: bind_result_InrE split: option.split_asm if_split_asm)

lemma getHumanAttentionRequest_Inr:
  "getHumanAttentionRequest hid s = Inr r \<longleftrightarrow> attention_row hid s = Some r"
  by (auto simp: getHumanAttentionRequest_def split: option.split)

text \<open>The table after an update of the request \<open>hid\<close>.\<close>

definition request_updated ::
  "string \<Rightarrow> (HumanAttentionRequestRow \<Rightarrow> HumanAttentionRequestRow) \<Rightarrow> registry \<Rightarrow> registry \<Rightarrow> bool" where
  "request_updated hid f s s' \<longleftrightarrow> reg_attention s' = reg_attention (update_attention hid f s)"

lemma request_updated_row:
  assumes "request_updated hid f s s'" and "\<And>r. h_attention_id (f r) = h_attention_id r"
  shows "attention_row h s' = (if h = hid then map_option f (attention_row hid s) else attention_row h s)"
  using assms attentions.lookup_update [of f h hid s]
  by (simp add: request_updated_def row_frames(3) attention_row_def)

definition commit_response :: "attention_response_input \<Rightarrow> HumanAttentionRequestRow \<Rightarrow> HumanAttentionRequestRow" where
  "commit_response input r = (if h_response_state r = Pending
     then r\<lparr>h_response_state := Responded, h_response := Some (ri_response input),
       h_response_committed_at := Some (resp_respondedAt (ri_response input)),
       h_delivery_state := Response_Not_Delivered,
       h_delivery_attempt_id := Some (ri_deliveryAttemptId input)\<rparr> else r)"

definition request_delivery :: "string \<Rightarrow> HumanAttentionRequestRow \<Rightarrow> HumanAttentionRequestRow" where
  "request_delivery now r = (if h_delivery_state r = Response_Not_Delivered
     then r\<lparr>h_delivery_state := Delivery_Requested, h_delivery_requested_at := Some now\<rparr> else r)"

definition acknowledge_request :: "string \<Rightarrow> HumanAttentionRequestRow \<Rightarrow> HumanAttentionRequestRow" where
  "acknowledge_request now r = (if h_delivery_state r = Delivery_Requested
     then r\<lparr>h_delivery_state := Delivery_Acknowledged, h_delivery_acknowledged_at := Some now\<rparr> else r)"

definition doubt_delivery :: "string \<Rightarrow> string \<Rightarrow> HumanAttentionRequestRow \<Rightarrow> HumanAttentionRequestRow" where
  "doubt_delivery now reason r = (if h_delivery_state r = Delivery_Requested
     then r\<lparr>h_delivery_state := Delivery_Uncertain, h_delivery_uncertain_at := Some now,
       h_cancellation_reason := Some (take 500 reason)\<rparr> else r)"

definition withdraw_request :: "string \<Rightarrow> string \<Rightarrow> withdrawal \<Rightarrow> HumanAttentionRequestRow \<Rightarrow> HumanAttentionRequestRow" where
  "withdraw_request now reason w r = (if h_delivery_state r \<noteq> Delivery_Acknowledged
     then r\<lparr>h_response_state := withdrawn_state w, h_cancelled_at := Some now,
       h_cancellation_reason := Some (take 500 reason)\<rparr> else r)"

lemmas request_steps = commit_response_def request_delivery_def acknowledge_request_def
  doubt_delivery_def withdraw_request_def

lemma request_steps_id [simp]:
  "attention_identity (commit_response input r) = attention_identity r"
  "attention_identity (request_delivery now r) = attention_identity r"
  "attention_identity (acknowledge_request now r) = attention_identity r"
  "attention_identity (doubt_delivery now reason r) = attention_identity r"
  "attention_identity (withdraw_request now reason w r) = attention_identity r"
  "h_attention_id (commit_response input r) = h_attention_id r"
  "h_attention_id (request_delivery now r) = h_attention_id r"
  "h_attention_id (acknowledge_request now r) = h_attention_id r"
  "h_attention_id (doubt_delivery now reason r) = h_attention_id r"
  "h_attention_id (withdraw_request now reason w r) = h_attention_id r"
  by (simp_all add: request_steps attention_identity_def)

definition response_matches :: "attention_response_input \<Rightarrow> HumanAttentionRequestRow \<Rightarrow> bool" where
  "response_matches input r \<longleftrightarrow>
     h_request_generation r = ri_requestGeneration input \<and> h_action_id r = ri_actionId input \<and>
     h_run_id r = ri_runId input \<and> h_occurrence_id r = ri_occurrenceId input \<and>
     h_attempt_id r = ri_attemptId input \<and> h_lineage_id r = ri_lineageId input \<and>
     h_native_session_id r = ri_nativeSessionId input"

lemma record_response_effect:
  assumes "recordHumanAttentionResponse now input s = Inr (h, s')"
  obtains (repeated) response where "attention_row (ri_attentionId input) s = Some h" "s' = s"
      "h_response h = Some response" "response_text response = response_text (ri_response input)"
      "h_delivery_attempt_id h = Some (ri_deliveryAttemptId input)" "h_response_state h \<notin> {Cancelled, Obsolete}"
      "response_matches input h"
  | (committed) r where "attention_row (ri_attentionId input) s = Some r" "h_response r = None"
      "h_response_state r \<notin> {Cancelled, Obsolete}" "response_matches input r"
      "request_updated (ri_attentionId input) (commit_response input) s s'"
      "h = commit_response input r"
proof -
  from assms obtain r where row: "attention_row (ri_attentionId input) s = Some r"
    and live: "h_response_state r \<notin> {Cancelled, Obsolete}" and id: "response_matches input r"
    unfolding recordHumanAttentionResponse_def
    by (auto simp: getHumanAttentionRequest_Inr response_matches_def elim!: bind_result_InrE split: if_split_asm)
  show thesis
  proof (cases "h_response r")
    case (Some response)
    with assms row show thesis
      using live id unfolding recordHumanAttentionResponse_def
      by (intro repeated [of response]) (auto simp: getHumanAttentionRequest_Inr elim!: bind_result_InrE split: if_split_asm)
  next
    case None
    with assms row live obtain t u v where
      "updateAttentionProjection now (ri_lineageId input) (ri_attentionId input) Responded
        Response_Not_Delivered (Some (ri_deliveryAttemptId input))
        (update_attention (ri_attentionId input) (commit_response input) s) = Inr t"
      and "recordHumanAttentionEvent (ri_attentionId input) Response_Committed
        (resp_respondedAt (ri_response input))
        [(''deliveryAttemptId'', JStr (ri_deliveryAttemptId input))] t = Inr s'"
      and got: "attention_row (ri_attentionId input) s' = Some h"
      unfolding recordHumanAttentionResponse_def commit_response_def [abs_def] Let_def
      by (auto simp: getHumanAttentionRequest_Inr elim!: bind_result_InrE split: if_split_asm)
    then have upd: "request_updated (ri_attentionId input) (commit_response input) s s'"
      by (simp add: request_updated_def projection_frame)
    with got row have "h = commit_response input r" by (simp add: request_updated_row)
    with None row live id upd show thesis by (intro committed)
  qed
qed

lemma begin_delivery_effect:
  assumes "beginHumanAttentionDelivery now hid gen s = Inr (h, s')"
  obtains r where "attention_row hid s = Some r" "h_request_generation r = gen"
    "h_response_state r = Responded" "h_response r \<noteq> None" "truthy (h_delivery_attempt_id r)"
    "h_delivery_state r = Response_Not_Delivered"
    "request_updated hid (request_delivery now) s s'" "h = request_delivery now r"
proof -
  from assms obtain r t where row: "attention_row hid s = Some r"
    and facts: "h_request_generation r = gen" "h_response_state r = Responded" "h_response r \<noteq> None"
      "truthy (h_delivery_attempt_id r)" "h_delivery_state r = Response_Not_Delivered"
    and "updateAttentionProjection now (h_lineage_id r) hid Responded Delivery_Requested
      (Some (the (h_delivery_attempt_id r))) (update_attention hid (request_delivery now) s) = Inr t"
    and "recordHumanAttentionEvent hid Event_Delivery_Requested now
      [(''deliveryAttemptId'', JStr (the (h_delivery_attempt_id r)))] t = Inr s'"
    and got: "attention_row hid s' = Some h"
    unfolding beginHumanAttentionDelivery_def request_delivery_def [abs_def] Let_def
    by (auto simp: getHumanAttentionRequest_Inr elim!: bind_result_InrE split: if_split_asm)
  then have upd: "request_updated hid (request_delivery now) s s'"
    by (simp add: request_updated_def projection_frame)
  with got row have "h = request_delivery now r" by (simp add: request_updated_row)
  with row facts upd show thesis by (intro that)
qed

lemma acknowledge_delivery_effect:
  assumes "acknowledgeHumanAttentionDelivery now hid gen did s = Inr (h, s')"
  obtains (repeated) "attention_row hid s = Some h" "s' = s" "h_delivery_state h = Delivery_Acknowledged"
      "h_response_state h = Responded"
  | (acknowledged) r where "attention_row hid s = Some r" "h_response_state r = Responded"
      "h_delivery_state r = Delivery_Requested" "h_delivery_attempt_id r = Some did"
      "request_updated hid (acknowledge_request now) s s'" "h = acknowledge_request now r"
proof -
  from assms obtain r where row: "attention_row hid s = Some r"
    and facts: "h_response_state r = Responded" "h_delivery_attempt_id r = Some did"
    unfolding acknowledgeHumanAttentionDelivery_def
    by (auto simp: getHumanAttentionRequest_Inr elim!: bind_result_InrE split: if_split_asm)
  show thesis
  proof (cases "h_delivery_state r = Delivery_Acknowledged")
    case True
    with assms row facts show thesis
      unfolding acknowledgeHumanAttentionDelivery_def
      by (intro repeated) (auto simp: getHumanAttentionRequest_Inr elim!: bind_result_InrE split: if_split_asm)
  next
    case False
    with assms row obtain t where req: "h_delivery_state r = Delivery_Requested"
      and "clearAttentionProjection now (h_lineage_id r) hid
        (update_attention hid (acknowledge_request now) s) = Inr t"
      and "recordHumanAttentionEvent hid Event_Delivery_Acknowledged now
        [(''deliveryAttemptId'', JStr did)] t = Inr s'"
      and got: "attention_row hid s' = Some h"
      unfolding acknowledgeHumanAttentionDelivery_def acknowledge_request_def [abs_def] Let_def
      by (auto simp: getHumanAttentionRequest_Inr elim!: bind_result_InrE split: if_split_asm)
    then have upd: "request_updated hid (acknowledge_request now) s s'"
      by (simp add: request_updated_def projection_frame)
    with got row have "h = acknowledge_request now r" by (simp add: request_updated_row)
    with row facts req upd show thesis by (intro acknowledged)
  qed
qed

lemma uncertain_delivery_effect:
  assumes "markHumanAttentionDeliveryUncertain now hid reason s = Inr (h, s')"
  obtains (unchanged) "attention_row hid s = Some h" "s' = s" "h_delivery_state h \<noteq> Delivery_Requested"
  | (doubted) r where "attention_row hid s = Some r" "h_delivery_state r = Delivery_Requested"
      "request_updated hid (doubt_delivery now reason) s s'" "h = doubt_delivery now reason r"
proof -
  from assms obtain r where row: "attention_row hid s = Some r"
    unfolding markHumanAttentionDeliveryUncertain_def
    by (auto simp: getHumanAttentionRequest_Inr elim!: bind_result_InrE split: if_split_asm)
  show thesis
  proof (cases "h_delivery_state r = Delivery_Requested")
    case False
    with assms row show thesis
      unfolding markHumanAttentionDeliveryUncertain_def
      by (intro unchanged) (auto simp: getHumanAttentionRequest_Inr elim!: bind_result_InrE split: if_split_asm)
  next
    case True
    define attempt where "attempt =
      (if truthy (h_delivery_attempt_id r) then h_delivery_attempt_id r else None)"
    from True assms row obtain t where
      "updateAttentionProjection now (h_lineage_id r) hid Responded Delivery_Uncertain attempt
        (update_attention hid (doubt_delivery now reason) s) = Inr t"
      and "recordHumanAttentionEvent hid Event_Delivery_Uncertain now
        [(''reason'', JStr (take 500 reason))] t = Inr s'"
      and got: "attention_row hid s' = Some h"
      unfolding markHumanAttentionDeliveryUncertain_def doubt_delivery_def [abs_def] Let_def
      unfolding attempt_def [symmetric]
      by (auto simp: getHumanAttentionRequest_Inr attempt_def elim!: bind_result_InrE split: if_split_asm)
    then have upd: "request_updated hid (doubt_delivery now reason) s s'"
      by (simp add: request_updated_def projection_frame)
    with got row have "h = doubt_delivery now reason r" by (simp add: request_updated_row)
    with row True upd show thesis by (intro doubted)
  qed
qed

lemma cancel_attention_effect:
  assumes "cancelHumanAttention now hid reason w s = Inr (h, s')"
  obtains (unchanged) "attention_row hid s = Some h" "s' = s"
      "h_response_state h \<in> {Cancelled, Obsolete} \<or> h_delivery_state h = Delivery_Acknowledged"
  | (withdrawn) r where "attention_row hid s = Some r" "h_response_state r \<notin> {Cancelled, Obsolete}"
      "h_delivery_state r \<noteq> Delivery_Acknowledged"
      "request_updated hid (withdraw_request now reason w) s s'" "h = withdraw_request now reason w r"
proof -
  from assms obtain r where row: "attention_row hid s = Some r"
    unfolding cancelHumanAttention_def
    by (auto simp: getHumanAttentionRequest_Inr elim!: bind_result_InrE split: if_split_asm)
  show thesis
  proof (cases "h_response_state r \<in> {Cancelled, Obsolete} \<or> h_delivery_state r = Delivery_Acknowledged")
    case True
    with assms row show thesis
      unfolding cancelHumanAttention_def
      by (intro unchanged) (auto simp: getHumanAttentionRequest_Inr elim!: bind_result_InrE split: if_split_asm)
  next
    case False
    with assms row obtain t ty where
      "clearAttentionProjection now (h_lineage_id r) hid
        (update_attention hid (withdraw_request now reason w) s) = Inr t"
      and "recordHumanAttentionEvent hid ty now [(''reason'', JStr (take 500 reason))] t = Inr s'"
      and got: "attention_row hid s' = Some h"
      unfolding cancelHumanAttention_def withdraw_request_def [abs_def] Let_def
      by (auto simp: getHumanAttentionRequest_Inr elim!: bind_result_InrE split: if_split_asm)
    then have upd: "request_updated hid (withdraw_request now reason w) s s'"
      by (simp add: request_updated_def projection_frame)
    with got row have "h = withdraw_request now reason w r" by (simp add: request_updated_row)
    with row False upd show thesis by (intro withdrawn) auto
  qed
qed

lemma register_effect:
  assumes "registerHumanAttention input s = Inr (h, s')"
  obtains (repeated) "by_registration (regi_registrationRequestId input) s = Some h" "s' = s"
  | (registered) d and l :: harness_lineage and n where "dispatch_row (act_action_id (rec_action (regi_dispatch input))) s = Some d"
      "open_state (d_state d)" "d_lineage_id d = Some (lin_lineageId l)"
      "lin_activeActionId l = Some (act_action_id (d_action_json d))"
      "\<forall>r \<in> set (reg_attention s). h_action_id r = act_action_id (d_action_json d) \<longrightarrow> \<not> attention_active r"
      "reg_attention s' = reg_attention s @ [new_attention_row input (d_action_json d) (lin_lineageId l) n]"
      "attention_row (att_attentionId (regi_attention input)) s' = Some h"
proof (cases "by_registration (regi_registrationRequestId input) s")
  case (Some r)
  with assms show thesis
    unfolding registerHumanAttention_def
    by (intro repeated) (auto simp: Let_def split: if_split_asm)
next
  case None
  with assms obtain d and l :: harness_lineage and n s1 where d: "dispatch_row (act_action_id (rec_action (regi_dispatch input))) s = Some d"
    and "getLineage (lin_lineageId (regi_lineage input)) s = Inr l"
    and facts: "open_state (d_state d)" "d_lineage_id d = Some (lin_lineageId l)"
      "lin_activeActionId l = Some (act_action_id (d_action_json d))"
      "\<forall>r \<in> set (reg_attention s). h_action_id r = act_action_id (d_action_json d) \<longrightarrow> \<not> attention_active r"
    and "insert_attention (new_attention_row input (d_action_json d) (lin_lineageId l) n) s = Inr s1"
    and "recordHumanAttentionEvent (att_attentionId (regi_attention input)) Request_Created
      (att_requestedAt (regi_attention input)) [] (update_lineage (lin_lineageId l) (\<lambda>r.
        if l_active_action_id r = Some (act_action_id (d_action_json d))
        then r\<lparr>l_session_state := Waiting_For_Human, l_attention := Some (regi_attention input),
          l_intervention := regi_intervention input,
          l_last_activity_at := att_requestedAt (regi_attention input)\<rparr> else r) s1) = Inr s'"
    and got: "attention_row (att_attentionId (regi_attention input)) s' = Some h"
    unfolding registerHumanAttention_def Let_def
    by (auto simp: getHumanAttentionRequest_Inr get_Inr elim!: bind_result_InrE split: if_split_asm)
  then have "reg_attention s' = reg_attention s @
      [new_attention_row input (d_action_json d) (lin_lineageId l) n]"
    by (simp add: projection_frame insert_attention_Inr)
  with d facts got show thesis by (intro registered [of d l n])
qed

section \<open>The request as a state machine\<close>

definition attention_row_ok :: "HumanAttentionRequestRow \<Rightarrow> bool" where
  "attention_row_ok r \<longleftrightarrow>
     (h_response_state r = Pending \<longrightarrow> h_response r = None) \<and>
     (h_response_state r = Responded \<longrightarrow> h_response r \<noteq> None) \<and>
     (h_response r = None \<longrightarrow> h_delivery_state r = Response_Not_Delivered \<and>
        h_response_committed_at r = None \<and> h_delivery_attempt_id r = None) \<and>
     (h_delivery_state r = Response_Not_Delivered \<longleftrightarrow> h_delivery_requested_at r = None) \<and>
     (h_delivery_state r = Delivery_Acknowledged \<longleftrightarrow> h_delivery_acknowledged_at r \<noteq> None) \<and>
     (h_delivery_state r = Delivery_Uncertain \<longleftrightarrow> h_delivery_uncertain_at r \<noteq> None)"

definition attention_ok :: "registry \<Rightarrow> bool" where
  "attention_ok s \<longleftrightarrow> (\<forall>r \<in> set (reg_attention s). attention_row_ok r)"

lemma request_steps_ok:
  assumes "attention_row_ok r"
  shows "h_response r = None \<Longrightarrow> attention_row_ok (commit_response input r)"
    and "h_response r \<noteq> None \<Longrightarrow> attention_row_ok (request_delivery now r)"
    and "attention_row_ok (acknowledge_request now r)"
    and "attention_row_ok (doubt_delivery now reason r)"
    and "attention_row_ok (withdraw_request now reason w r)"
  using assms by (cases w; auto simp: attention_row_ok_def request_steps)+

lemma new_request_ok: "attention_row_ok (new_attention_row input action lid n)"
  by (simp add: attention_row_ok_def new_attention_row_def)

lemma attention_ok_row: "attention_ok s \<Longrightarrow> attention_row h s = Some r \<Longrightarrow> attention_row_ok r"
  by (auto simp: attention_ok_def attention_row_def dest: lookup_row_SomeD)

lemma attention_ok_updated:
  assumes "attention_ok s" and "request_updated hid f s s'" and "distinct (map h_attention_id (reg_attention s))"
    and "attention_row hid s = Some r" and "attention_row_ok (f r)"
  shows "attention_ok s'"
proof -
  have "x = r" if "x \<in> set (reg_attention s)" "h_attention_id x = hid" for x
    using that assms(3,4) by (auto simp: attention_row_def dest: lookup_row_SomeD distinct_keys_unique)
  with assms show ?thesis
    by (auto simp: attention_ok_def request_updated_def update_attention_def set_update_where)
qed

lemma attention_ok_frame: "reg_attention s' = reg_attention s \<Longrightarrow> attention_ok s \<Longrightarrow> attention_ok s'"
  by (simp add: attention_ok_def)

lemma reachable_distinct_requests:
  "registry_reachable cfg s \<Longrightarrow> distinct (map h_attention_id (reg_attention s))"
  by (drule reachable_schema_ok) (simp add: schema_ok_def attention_keys_ok_def)

lemma attention_op_ok:
  assumes "attention_ok s" and "distinct (map h_attention_id (reg_attention s))"
  shows "registerHumanAttention regi s = Inr (h, s') \<Longrightarrow> attention_ok s'"
    and "recordHumanAttentionResponse now ri s = Inr (h, s') \<Longrightarrow> attention_ok s'"
    and "beginHumanAttentionDelivery now hid gen s = Inr (h, s') \<Longrightarrow> attention_ok s'"
    and "acknowledgeHumanAttentionDelivery now hid gen did s = Inr (h, s') \<Longrightarrow> attention_ok s'"
    and "markHumanAttentionDeliveryUncertain now hid reason s = Inr (h, s') \<Longrightarrow> attention_ok s'"
    and "cancelHumanAttention now hid reason w s = Inr (h, s') \<Longrightarrow> attention_ok s'"
proof -
  note ok = attention_ok_row [OF assms(1)]
  note upd = attention_ok_updated [OF assms(1) _ assms(2)]
  show "attention_ok s'" if "registerHumanAttention regi s = Inr (h, s')"
    using that assms(1) by (cases rule: register_effect) (auto simp: attention_ok_def new_request_ok)
  show "attention_ok s'" if "recordHumanAttentionResponse now ri s = Inr (h, s')"
    using that assms(1)
    by (cases rule: record_response_effect) (auto intro: upd request_steps_ok ok)
  show "attention_ok s'" if "beginHumanAttentionDelivery now hid gen s = Inr (h, s')"
    using that assms(1)
    by (cases rule: begin_delivery_effect) (auto intro: upd request_steps_ok ok)
  show "attention_ok s'" if "acknowledgeHumanAttentionDelivery now hid gen did s = Inr (h, s')"
    using that assms(1)
    by (cases rule: acknowledge_delivery_effect) (auto intro: upd request_steps_ok ok)
  show "attention_ok s'" if "markHumanAttentionDeliveryUncertain now hid reason s = Inr (h, s')"
    using that assms(1)
    by (cases rule: uncertain_delivery_effect) (auto intro: upd request_steps_ok ok)
  show "attention_ok s'" if "cancelHumanAttention now hid reason w s = Inr (h, s')"
    using that assms(1)
    by (cases rule: cancel_attention_effect) (auto intro: upd request_steps_ok ok)
qed

lemma marks_keep_requests [simp]:
  "reg_attention (markPromptIntent now aid s) = reg_attention s"
  "reg_attention (recordPromptEvidence aid evidence s) = reg_attention s"
  "reg_attention (markPromptAccepted tm aid s) = reg_attention s"
  "reg_attention (markNativeActivity tm aid s) = reg_attention s"
  "reg_attention (markProviderTurnSettled tm aid s) = reg_attention s"
  "reg_attention (markNativeIdle tm aid s) = reg_attention s"
  "reg_attention (markStructuredResultReceived tm aid s) = reg_attention s"
  "reg_attention (markStalled tm aid s) = reg_attention s"
  "reg_attention (markRunning aid s) = reg_attention s"
  "reg_attention (recordObservationFailure aid failure s) = reg_attention s"
  "reg_attention (acknowledgeServerTerminal now aid s) = reg_attention s"
  by (simp_all add: markPromptIntent_def recordPromptEvidence_def markPromptAccepted_def
      markNativeActivity_def markProviderTurnSettled_def markNativeIdle_def
      markStructuredResultReceived_def markStalled_def markRunning_def
      recordObservationFailure_def acknowledgeServerTerminal_def)

lemmas attention_frames = frame_attention_table [OF tx_accept] frame_attention_table [OF tx_adopt]
  frame_attention_table [OF tx_assign] frame_attention_table [OF tx_record_native]
  frame_attention_table [OF tx_adopt_prepared] frame_attention_table [OF tx_replace_prepared]
  frame_attention_table [OF tx_lineage_ops(1)] frame_attention_table [OF tx_lineage_ops(2)]
  frame_attention_table [OF tx_lineage_ops(3)] frame_attention_table [OF tx_lineage_ops(4)]
  frame_attention_table [OF tx_lineage_ops(5)]
  frame_attention_table [OF tx_dispatch_ops(1)] frame_attention_table [OF tx_dispatch_ops(2)]
  frame_attention_table [OF tx_dispatch_ops(3)] frame_attention_table [OF tx_dispatch_ops(4)]
  frame_attention_table [OF tx_dispatch_ops(5)]

text \<open>A step either is one of the six attention operations or leaves the requests alone.\<close>

lemma step_attention_cases:
  assumes "registry_step cfg s s'"
  obtains (register) regi h where "registerHumanAttention regi s = Inr (h, s')"
  | (response) now ri h where "recordHumanAttentionResponse now ri s = Inr (h, s')"
  | (begin_delivery) now hid gen h where "beginHumanAttentionDelivery now hid gen s = Inr (h, s')"
  | (acknowledge) now hid gen did h where "acknowledgeHumanAttentionDelivery now hid gen did s = Inr (h, s')"
  | (uncertain) now hid reason h where "markHumanAttentionDeliveryUncertain now hid reason s = Inr (h, s')"
  | (cancel) now hid reason w h where "cancelHumanAttention now hid reason w s = Inr (h, s')"
  | (other) "reg_attention s' = reg_attention s"
  using assms
  by (cases rule: registry_step.cases) (auto intro: attention_frames)

lemma reachable_attention_ok: "registry_reachable cfg s \<Longrightarrow> attention_ok s"
proof (induction rule: registry_reachable.induct)
  case bootstrap
  show ?case by (simp add: attention_ok_def empty_registry_def)
next
  case (step s s')
  note ops = attention_op_ok [OF step.IH reachable_distinct_requests [OF step.hyps(1)]]
  from step.hyps(2) show ?case
  proof (cases rule: step_attention_cases)
    case (register regi h) then show ?thesis by (rule ops(1))
  next
    case (response now ri h) then show ?thesis by (rule ops(2))
  next
    case (begin_delivery now hid gen h) then show ?thesis by (rule ops(3))
  next
    case (acknowledge now hid gen did h) then show ?thesis by (rule ops(4))
  next
    case (uncertain now hid reason h) then show ?thesis by (rule ops(5))
  next
    case (cancel now hid reason w h) then show ?thesis by (rule ops(6))
  next
    case other then show ?thesis by (rule attention_ok_frame [OF _ step.IH])
  qed
qed

definition delivery_moves :: "delivery_state \<Rightarrow> delivery_state \<Rightarrow> bool" where
  "delivery_moves a b \<longleftrightarrow> a = b \<or> a = Response_Not_Delivered \<or>
     (a = Delivery_Requested \<and> b \<noteq> Response_Not_Delivered)"

definition response_moves :: "response_state \<Rightarrow> response_state \<Rightarrow> bool" where
  "response_moves a b \<longleftrightarrow> a = b \<or> a = Pending \<or> (a = Responded \<and> b \<noteq> Pending)"

definition attention_evolves :: "HumanAttentionRequestRow \<Rightarrow> HumanAttentionRequestRow \<Rightarrow> bool" where
  "attention_evolves r r' \<longleftrightarrow>
     attention_identity r' = attention_identity r \<and>
     response_moves (h_response_state r) (h_response_state r') \<and>
     delivery_moves (h_delivery_state r) (h_delivery_state r') \<and>
     write_once (h_response r) (h_response r') \<and>
     write_once (h_response_committed_at r) (h_response_committed_at r') \<and>
     write_once (h_delivery_attempt_id r) (h_delivery_attempt_id r') \<and>
     write_once (h_delivery_requested_at r) (h_delivery_requested_at r') \<and>
     write_once (h_delivery_acknowledged_at r) (h_delivery_acknowledged_at r') \<and>
     write_once (h_delivery_uncertain_at r) (h_delivery_uncertain_at r')"

lemma attention_evolves_refl [simp]: "attention_evolves r r"
  by (simp add: attention_evolves_def delivery_moves_def response_moves_def)

lemma moves_trans:
  "delivery_moves a b \<Longrightarrow> delivery_moves b c \<Longrightarrow> delivery_moves a c"
  "response_moves a' b' \<Longrightarrow> response_moves b' c' \<Longrightarrow> response_moves a' c'"
  by (cases a; cases b; cases c; simp add: delivery_moves_def)
    (cases a'; cases b'; cases c'; simp add: response_moves_def)

lemma transp_attention_evolves: "transp attention_evolves"
  unfolding attention_evolves_def by (rule transpI, elim conjE, intro conjI) (erule (1) trans moves_trans write_once_trans)+

lemmas attention_evolves_defs = attention_evolves_def delivery_moves_def response_moves_def
  write_once_def attention_row_ok_def request_steps attention_identity_def

lemma request_steps_evolve:
  assumes "attention_row_ok r"
  shows "h_response r = None \<Longrightarrow> h_response_state r \<notin> {Cancelled, Obsolete} \<Longrightarrow>
      attention_evolves r (commit_response input r)"
    and "attention_evolves r (request_delivery now r)"
    and "attention_evolves r (acknowledge_request now r)"
    and "attention_evolves r (doubt_delivery now reason r)"
    and "h_response_state r \<notin> {Cancelled, Obsolete} \<Longrightarrow> attention_evolves r (withdraw_request now reason w r)"
  using assms
  by (cases "h_delivery_state r"; cases "h_response_state r"; cases w; simp add: attention_evolves_defs)+

lemma rows_evolve_updated:
  assumes "request_updated hid f s s'" and "\<And>r. h_attention_id (f r) = h_attention_id r"
    and "attention_row hid s = Some r" and "attention_evolves r (f r)"
  shows "rows_evolve attention_row attention_evolves s s'"
  using assms by (auto simp: rows_evolve_def request_updated_row)

lemma step_attention_evolves:
  assumes "registry_reachable cfg s" and "registry_step cfg s s'"
  shows "rows_evolve attention_row attention_evolves s s'"
proof -
  note ok = attention_ok_row [OF reachable_attention_ok [OF assms(1)]]
  note refl = rows_evolve_refl [of attention_evolves attention_row s, simplified]
  from assms(2) show ?thesis
  proof (cases rule: step_attention_cases)
    case (register regi h)
    then show ?thesis
      by (cases rule: register_effect)
        (auto simp: refl rows_evolve_def attention_row_def lookup_row_append)
  next
    case (response now ri h)
    then show ?thesis
      by (cases rule: record_response_effect)
        (auto simp: refl intro!: rows_evolve_updated request_steps_evolve ok)
  next
    case (begin_delivery now hid gen h)
    then show ?thesis
      by (cases rule: begin_delivery_effect) (auto intro!: rows_evolve_updated request_steps_evolve ok)
  next
    case (acknowledge now hid gen did h)
    then show ?thesis
      by (cases rule: acknowledge_delivery_effect)
        (auto simp: refl intro!: rows_evolve_updated request_steps_evolve ok)
  next
    case (uncertain now hid reason h)
    then show ?thesis
      by (cases rule: uncertain_delivery_effect)
        (auto simp: refl intro!: rows_evolve_updated request_steps_evolve ok)
  next
    case (cancel now hid reason w h)
    then show ?thesis
      by (cases rule: cancel_attention_effect)
        (auto simp: refl intro!: rows_evolve_updated request_steps_evolve ok)
  next
    case other
    then show ?thesis by (simp add: rows_evolve_def attention_row_def)
  qed
qed

lemma reachable_steps: "(registry_step cfg)\<^sup>*\<^sup>* s s' \<Longrightarrow> registry_reachable cfg s \<Longrightarrow> registry_reachable cfg s'"
  by (induction rule: rtranclp_induct) (auto intro: registry_reachable.step)

lemma steps_attention_evolves:
  assumes "(registry_step cfg)\<^sup>*\<^sup>* s s'" and "registry_reachable cfg s"
  shows "rows_evolve attention_row attention_evolves s s'"
  using assms(1)
proof (induction rule: rtranclp_induct)
  case base
  show ?case by (rule rows_evolve_refl) simp
next
  case (step t u)
  then show ?case
    using assms(2) by (blast intro: rows_evolve_trans transp_attention_evolves step_attention_evolves reachable_steps)
qed

end
