(* ===== verification/Registry_Examples.thy ===== *)
theory Registry_Examples
  imports Attention_Evolution
begin

text \<open>
  A concrete worker, Action and history on which the properties of the registry are evaluated: the
  Action is accepted into an empty registry on a fresh lineage, and then occupied by it.
\<close>

definition example_cfg :: registry_config where
  "example_cfg = \<lparr>cfg_dataRoot = ''/data'', cfg_harnessKind = ''pi'',
     cfg_capabilities = (\<lambda>_. defaultHarnessCapabilities), cfg_digest = (\<lambda>s. s)\<rparr>"

definition example_execution :: resolved_execution where
  "example_execution = \<lparr>
     exec_identity = \<lparr>id_launch_id = ''launch'', id_action_id = ''a1'', id_run_id = ''run'',
       id_occurrence_id = ''occ'', id_attempt_id = ''try1'', id_semantic_step_key = ''step''\<rparr>,
     exec_performer = \<lparr>perf_member_key = ''m'', perf_member_name = ''Mira'', perf_class_key = ''c'',
       perf_class_name = ''Coder''\<rparr>,
     exec_work = \<lparr>work_quest_objective = ''ship'', work_class_instructions = ''be exact'',
       work_step_instruction = ''build'', work_inputs = [], work_declared_outputs = [],
       work_acceptance_contract = None\<rparr>,
     exec_configuration = \<lparr>conf_harness_kind = ''pi'',
       conf_model = \<lparr>model_provider = ''p'', model_model = ''m''\<rparr>, conf_reasoning = None,
       conf_reasoning_capability = Unsupported, conf_tool_policy = Native_Permissions,
       conf_tool_enforcement = Enforce_Native_Permissions,
       conf_resolved_tool_profile = \<lparr>profile_tools = []\<rparr>\<rparr>,
     exec_logical_workspace = \<lparr>lw_workspace_id = ''w'', lw_workspace_key = ''main''\<rparr>,
     exec_execution_workspace = \<lparr>ew_worktree_id = ''wt'', ew_workspace_binding_id = ''b'',
       ew_canonical_root = ''/src'', ew_access = Access_Read_Write\<rparr>,
     exec_context = \<lparr>ctx_mode = Fresh, ctx_source_occurrence_id = None, ctx_logical_lineage_id = ''L''\<rparr>\<rparr>"

definition example_action :: execute_action where
  "example_action = \<lparr>act_worker_id = ''worker'', act_execution = example_execution,
     act_action_id = ''a1'', act_run_id = ''run'', act_occurrence_id = ''occ'',
     act_attempt_id = ''try1'', act_semantic_step_key = ''step'', act_instruction = ''build'',
     act_inputs = [], act_declared_outputs = [], act_context_selector = Fresh,
     act_context_lineage_occurrence_id = None, act_operational_recovery = None,
     act_harness_setup = None\<rparr>"

lemma example_action_sel [simp]:
  "act_worker_id example_action = ''worker''" "act_action_id example_action = ''a1''"
  "act_run_id example_action = ''run''" "act_occurrence_id example_action = ''occ''"
  "act_attempt_id example_action = ''try1''" "act_execution example_action = example_execution"
  "act_operational_recovery example_action = None" "act_harness_setup example_action = None"
  "act_inputs example_action = []" "act_declared_outputs example_action = []"
  "work_inputs (exec_work example_execution) = []"
  "work_declared_outputs (exec_work example_execution) = []"
  "ctx_mode (exec_context example_execution) = Fresh"
  "ctx_logical_lineage_id (exec_context example_execution) = ''L''"
  "conf_harness_kind (exec_configuration example_execution) = ''pi''"
  "conf_model (exec_configuration example_execution) = \<lparr>model_provider = ''p'', model_model = ''m''\<rparr>"
  by (simp_all add: example_action_def example_execution_def)

lemma wf_example_action: "wf_action example_action"
  by (simp add: wf_action_def wf_inputs_def)

lemma printable_example_action: "printable_keys (action_value example_action)"
  by (simp add: action_value_def execution_value_def work_value_def configuration_value_def
      tool_profile_value_def inputs_value_def j_optional_def example_action_def example_execution_def)
    (simp add: printable_def)

definition example_lineage :: LineageRow where
  "example_lineage = new_lineage_row example_cfg ''t0'' ''l1'' ''L'' (physicalConfiguration example_action)
     ''p'' ''pi'' ''worker'' None"

definition example_dispatch :: DispatchRow where
  "example_dispatch = new_dispatch_row example_cfg example_action Accepted (Some ''l1'') ''n1''
     (resultDirectory example_cfg ''a1'' ''n1'')
     \<lparr>req_structuredResultRequired = True, req_outputs = [], req_physicalExportRequired = False\<rparr> None"

definition accepted_state :: registry where
  "accepted_state = \<lparr>reg_lineages = [example_lineage], reg_dispatches = [example_dispatch],
     reg_attention = [], reg_events = [], reg_transitions = []\<rparr>"

lemma example_row_sel [simp]:
  "l_lineage_id example_lineage = ''l1''" "l_active_action_id example_lineage = None"
  "l_logical_lineage_id example_lineage = ''L''" "l_harness_kind example_lineage = ''pi''"
  "l_attention example_lineage = None" "l_session_state example_lineage = Starting"
  "d_action_id example_dispatch = ''a1''" "d_state example_dispatch = Accepted"
  "d_lineage_id example_dispatch = Some ''l1''" "d_action_json example_dispatch = example_action"
  "d_server_acknowledged_at example_dispatch = None" "d_settled_at example_dispatch = None"
  by (simp_all add: example_lineage_def example_dispatch_def new_lineage_row_def new_dispatch_row_def)

lemma accepted_state_rows [simp]:
  "dispatch_row a accepted_state = (if a = ''a1'' then Some example_dispatch else None)"
  "lineage_row l accepted_state = (if l = ''l1'' then Some example_lineage else None)"
  "attention_row h accepted_state = None"
  by (simp_all add: accepted_state_def dispatch_row_def lineage_row_def attention_row_def)

lemma example_accept:
  "accept example_cfg ''t0'' ''l1'' ''n1'' example_action empty_registry =
     Inr (\<lparr>acc_created = True, acc_dispatch = mapDispatch example_dispatch\<rparr>, accepted_state)"
  by (simp add: accept_def choose_lineage_def retireResolvedFreshLineage_def by_logical_def
      empty_registry_def dispatch_row_def insert_lineage_def insert_dispatch_def known_lineage_def
      lineage_row_def structuredCompletionRequirement_def lift_requirement_def get_def get_row_def
      requested_harness_def accepted_state_def example_lineage_def example_dispatch_def
      new_dispatch_row_def Let_def j_strings_def)

lemma accepted_state_reachable: "registry_reachable example_cfg accepted_state"
  by (rule registry_reachable.step [OF registry_reachable.bootstrap registry_step.accept [OF example_accept]])

text \<open>The lineage can be read, so it can be occupied.\<close>

lemma capabilities_readable: "persistedCapabilities (Stored (capabilities_value c)) = Inr c"
  by (cases c) (simp add: persistedCapabilities_def capabilities_value_def capability_names_def
      capability_flags_def capabilities_of_def flag_of_def member_def)

lemma mapLineage_new:
  "mapLineage (new_lineage_row cfg now lid logical configuration provider kind scope active) = Inr \<lparr>
     lin_lineageId = lid, lin_logicalLineageId = logical, lin_configurationJson = configuration,
     lin_provider = provider, lin_harnessKind = kind, lin_sessionState = Starting,
     lin_capabilities = cfg_capabilities cfg kind, lin_attention = None, lin_intervention = None,
     lin_startedAt = now, lin_lastActivityAt = now,
     lin_resultControlPath = lineageControlPath cfg lid, lin_ownershipToken = ownership_token cfg scope lid,
     lin_activeActionId = active, lin_executionHandle = None, lin_nativeSession = None,
     lin_transportBinding = None, lin_interactive = None\<rparr>"
  by (simp add: mapLineage_def new_lineage_row_def capabilities_readable parseTransportBinding_def
      parseNativeSessionRef_def persistedExecutionHandle_def persistedInteractive_def lift_identity_def)

definition occupied_lineage :: LineageRow where
  "occupied_lineage = new_lineage_row example_cfg ''t0'' ''l1'' ''L'' (physicalConfiguration example_action)
     ''p'' ''pi'' ''worker'' (Some ''a1'')"

definition occupied_state :: registry where
  "occupied_state = accepted_state\<lparr>reg_lineages := [occupied_lineage]\<rparr>"

lemma occupied_rows [simp]:
  "dispatch_row a occupied_state = (if a = ''a1'' then Some example_dispatch else None)"
  "lineage_row l occupied_state = (if l = ''l1'' then Some occupied_lineage else None)"
  "attention_row h occupied_state = None"
  "reg_attention occupied_state = []"
  by (simp_all add: occupied_state_def lineage_row_def occupied_lineage_def accepted_state_def
      dispatch_row_def attention_row_def)

lemma example_readable:
  "\<exists>l. getLineage ''l1'' accepted_state = Inr l \<and> lin_activeActionId l = None"
  by (simp add: getLineage_def example_lineage_def mapLineage_new)

lemma example_occupy: "occupy ''l1'' ''a1'' accepted_state = Inr occupied_state"
  using example_readable
  by (auto simp: occupy_def occupied_state_def accepted_state_def update_lineage_def
      occupied_lineage_def example_lineage_def new_lineage_row_def)

lemma occupied_state_reachable: "registry_reachable example_cfg occupied_state"
  by (rule registry_reachable.step [OF accepted_state_reachable registry_step.occupy [OF example_occupy]])

end
