(* ===== verification/Registry_Properties.thy ===== *)
theory Registry_Properties
  imports Registry_Examples
begin

text \<open>
  What the dispatch registry guarantees, over every sequence of its transactions: an Action is
  accepted exactly once and never changes, its status moves along one graph, an acknowledged
  completion is final, and a lineage is given up by its owner only.
\<close>

section \<open>Exactly-once acceptance\<close>

lemma accept_row:
  assumes "accept cfg now uuid nonce action s = Inr (a, s')"
  obtains r where "dispatch_row (act_action_id action) s' = Some r"
    and "d_action_hash r = cfg_digest cfg (action_text action)"
    and "action_text (d_action_json r) = action_text action"
    and "acc_dispatch a = mapDispatch r"
proof (cases "dispatch_row (act_action_id action) s")
  case (Some r)
  with assms show thesis
    by (intro that [of r]) (auto simp: accept_def Let_def split: if_split_asm)
next
  case None
  with assms obtain lineageId s1 requirement where
    chosen: "choose_lineage cfg now uuid action s = Inr (lineageId, s1)"
    and ins: "insert_dispatch (new_dispatch_row cfg action Accepted lineageId nonce
        (resultDirectory cfg (act_action_id action) nonce) requirement None) s1 = Inr s'"
    and got: "get (act_action_id action) s' = Inr (acc_dispatch a)"
    unfolding accept_def Let_def by (auto elim!: bind_result_InrE)
  from ins have "dispatch_row (act_action_id action) s' =
      Some (new_dispatch_row cfg action Accepted lineageId nonce
        (resultDirectory cfg (act_action_id action) nonce) requirement None)"
    by (auto simp: insertions new_dispatch_row_def)
  with got show thesis
    by (intro that) (auto simp: get_Inr new_dispatch_row_def)
qed

lemma steps_dispatch_identity:
  assumes "(registry_step cfg)\<^sup>*\<^sup>* s s'" and "dispatch_row a s = Some r"
  shows "\<exists>r'. dispatch_row a s' = Some r' \<and> dispatch_identity r' = dispatch_identity r"
proof -
  have "rows_evolve dispatch_row (\<lambda>r r'. dispatch_identity r' = dispatch_identity r) s s'"
  proof (rule rows_evolve_steps [OF assms(1)])
    show "rows_evolve dispatch_row (\<lambda>r r'. dispatch_identity r' = dispatch_identity r) t u"
      if "registry_step cfg t u" for t u
      using step_dispatch_evolves [OF that] by (fastforce simp: rows_evolve_def dispatch_evolves_def)
  qed (auto intro: reflpI transpI)
  then show ?thesis using assms(2) by (rule rows_evolveD)
qed

text \<open>
  C2: once an Action whose object keys (input names and keys of artifact values included) are
  printable ASCII and not repeated is accepted, a later delivery of the same command (equal as
  JSON up to the order of object entries), after any sequence of transactions, is answered from
  the registry with the same nonce, result directory and completion requirement and changes
  nothing; a different command under the same action id is refused.
\<close>

theorem accept_exactly_once:
  assumes "wf_action action" and "printable_keys (action_value action)"
    and "act_action_id action' = act_action_id action"
    and "accept cfg now uuid nonce action s = Inr (a, s')"
    and "(registry_step cfg)\<^sup>*\<^sup>* s' s''"
  shows "if json_equiv (action_value action) (action_value action')
    then \<exists>d. accept cfg now' uuid' nonce' action' s'' = Inr (\<lparr>acc_created = False, acc_dispatch = d\<rparr>, s'') \<and>
      rec_resultNonce d = rec_resultNonce (acc_dispatch a) \<and>
      rec_resultDirectory d = rec_resultDirectory (acc_dispatch a) \<and>
      rec_completionRequirement d = rec_completionRequirement (acc_dispatch a)
    else accept cfg now' uuid' nonce' action' s'' = Inl (Action_Conflict (act_action_id action))"
proof -
  obtain r where r: "dispatch_row (act_action_id action) s' = Some r"
    "d_action_hash r = cfg_digest cfg (action_text action)"
    "action_text (d_action_json r) = action_text action" "acc_dispatch a = mapDispatch r"
    by (rule accept_row [OF assms(4)])
  obtain r' where r': "dispatch_row (act_action_id action) s'' = Some r'"
    "dispatch_identity r' = dispatch_identity r"
    using steps_dispatch_identity [OF assms(5) r(1)] by blast
  have same: "action_text action = action_text action' \<longleftrightarrow>
      json_equiv (action_value action) (action_value action')"
    by (rule action_text_identity [OF assms(1,2)])
  show ?thesis
  proof (cases "action_text action = action_text action'")
    case True
    with r r' assms(3) same show ?thesis
      by (simp add: accept_def dispatch_identity_def mapDispatch_def)
  next
    case False
    with r r' assms(3) same show ?thesis
      by (simp add: accept_def dispatch_identity_def)
  qed
qed

theorem accept_exactly_once_witness:
  "accept example_cfg ''t9'' ''l9'' ''n9'' example_action (markRunning ''a1'' accepted_state) =
     Inr (\<lparr>acc_created = False, acc_dispatch =
       mapDispatch (example_dispatch\<lparr>d_state := Running\<rparr>)\<rparr>, markRunning ''a1'' accepted_state) \<and>
   rec_resultNonce (mapDispatch (example_dispatch\<lparr>d_state := Running\<rparr>)) = ''n1''"
proof -
  have "(registry_step example_cfg)\<^sup>*\<^sup>* accepted_state (markRunning ''a1'' accepted_state)"
    by (blast intro: registry_step.running)
  from accept_exactly_once [OF wf_example_action printable_example_action refl example_accept this, of "''t9''" "''l9''" "''n9''"]
  obtain d where "accept example_cfg ''t9'' ''l9'' ''n9'' example_action (markRunning ''a1'' accepted_state) =
      Inr (\<lparr>acc_created = False, acc_dispatch = d\<rparr>, markRunning ''a1'' accepted_state)"
    and "rec_resultNonce d = ''n1''"
    by (auto simp: json_equiv_refl [OF wf_action_value [OF wf_example_action]] mapDispatch_def example_dispatch_def new_dispatch_row_def)
  moreover have "dispatch_row ''a1'' (markRunning ''a1'' accepted_state) =
      Some (example_dispatch\<lparr>d_state := Running\<rparr>)"
    by (simp add: markRunning_def dispatch_row_update open_state_def)
  ultimately show ?thesis
    by (auto simp: accept_def Let_def mapDispatch_def split: if_split_asm)
qed

section \<open>History and finality\<close>



definition settled_state :: registry where
  "settled_state = occupied_state\<lparr>reg_dispatches := [example_dispatch\<lparr>d_state := Completed,
     d_server_acknowledged_at := Some ''t5''\<rparr>]\<rparr>"

lemma settled_rows [simp]:
  "dispatch_row a settled_state = (if a = ''a1'' then Some (example_dispatch\<lparr>d_state := Completed,
     d_server_acknowledged_at := Some ''t5''\<rparr>) else None)"
  by (simp add: settled_state_def dispatch_row_def)

text \<open>
  once the server has acknowledged a completion, no sequence of transactions un-completes the
  dispatch, fails it, cancels it or forgets the acknowledgement.
\<close>

lemma acknowledged_completion_final:
  assumes "(registry_step cfg)\<^sup>*\<^sup>* s s'" and "dispatch_row a s = Some r" and "acknowledged_completion r"
  shows "\<exists>r'. dispatch_row a s' = Some r' \<and> acknowledged_completion r' \<and>
    d_action_json r' = d_action_json r"
proof -
  let ?R = "\<lambda>r r'. dispatch_identity r' = dispatch_identity r \<and>
    (acknowledged_completion r \<longrightarrow> acknowledged_completion r')"
  have "rows_evolve dispatch_row ?R s s'"
  proof (rule rows_evolve_steps [OF assms(1)])
    show "rows_evolve dispatch_row ?R t u" if "registry_step cfg t u" for t u
      using step_dispatch_evolves [OF that] by (fastforce simp: rows_evolve_def dispatch_evolves_def)
  qed (auto intro: reflpI transpI)
  from rows_evolveD [OF this assms(2)] assms(3) show ?thesis
    by (auto simp: dispatch_identity_def)
qed

lemma acknowledged_completion_final_witness:
  "\<exists>d s' r'. fail ''t9'' ''a1'' [] True settled_state = Inr (d, s') \<and>
     dispatch_row ''a1'' s' = Some r' \<and> acknowledged_completion r'"
proof -
  obtain d s' where *: "fail ''t9'' ''a1'' [] True settled_state = Inr (d, s')"
    by (simp add: fail_def Let_def get_def get_row_def dispatch_row_update)
  then have "(registry_step example_cfg)\<^sup>*\<^sup>* settled_state s'"
    by (blast intro: registry_step.fail)
  from acknowledged_completion_final [OF this, of "''a1''"] * show ?thesis
    by (fastforce simp: acknowledged_completion_def)
qed

section \<open>Settling a dispatch\<close>

text \<open>
  a successful completion settles exactly one dispatch, with the given outputs, no failure and
  the first settlement time, gives up the lineage only if this Action occupies it, and leaves every
  other dispatch, lineage and attention request as it was.
\<close>

theorem complete_settles:
  assumes "complete now a outputs s = Inr (d, s')"
  shows "\<exists>r l. dispatch_row a s = Some r \<and> d_lineage_id r = Some l \<and> d_state r \<noteq> Failed \<and>
    dispatch_row a s' = Some (r\<lparr>d_state := Completed, d_outputs := Some outputs, d_failure := None,
      d_settled_at := coalesce (d_settled_at r) (Some now)\<rparr>) \<and>
    d = mapDispatch (the (dispatch_row a s')) \<and>
    (\<forall>b. b \<noteq> a \<longrightarrow> dispatch_row b s' = dispatch_row b s) \<and>
    (\<forall>k. lineage_row k s' =
      (if k = l then map_option (\<lambda>x. if l_active_action_id x = Some a
          then x\<lparr>l_active_action_id := None, l_session_state := Retained, l_attention := None,
            l_last_activity_at := now\<rparr> else x) (lineage_row k s)
       else lineage_row k s)) \<and>
    reg_attention s' = reg_attention s \<and> reg_transitions s' = reg_transitions s"
proof -
  obtain r where row: "dispatch_row a s = Some r" and lin: "truthy (d_lineage_id r)"
    and st: "d_state r \<noteq> Failed"
    and s': "s' = release_lineage now (the (d_lineage_id r)) a (update_dispatch a (\<lambda>r. r\<lparr>
      d_state := Completed, d_outputs := Some outputs, d_failure := None,
      d_settled_at := coalesce (d_settled_at r) (Some now)\<rparr>) s)"
    and got: "get a s' = Inr d"
    using assms unfolding complete_def Let_def
    by (auto simp: get_Inr elim!: bind_result_InrE split: if_split_asm)
  from lin obtain l where l: "d_lineage_id r = Some l" by (cases "d_lineage_id r") auto
  show ?thesis
    using row l st got unfolding s'
    by (intro exI [of _ r] exI [of _ l])
      (auto simp: release_lineage_def dispatch_row_update lineage_row_update get_Inr)
qed

theorem complete_settles_witness:
  "\<exists>d s'. complete ''t4'' ''a1'' [] occupied_state = Inr (d, s') \<and> rec_state d = Completed \<and>
     map_option l_active_action_id (lineage_row ''l1'' s') = Some None"
proof -
  obtain d s' where *: "complete ''t4'' ''a1'' [] occupied_state = Inr (d, s')"
    by (simp add: complete_def Let_def get_def get_row_def release_lineage_def dispatch_row_update)
  from complete_settles [OF this] have "rec_state d = Completed"
    and "lineage_row ''l1'' s' = Some (occupied_lineage\<lparr>l_active_action_id := None,
      l_session_state := Retained, l_attention := None, l_last_activity_at := ''t4''\<rparr>)"
    by (auto simp: occupied_lineage_def new_lineage_row_def)
  with * show ?thesis by auto
qed

text \<open>
  a cancellation is idempotent on its request: it fails the dispatch, and repeating it (later,
  with the same cancellation request id) reports that nothing was left to cancel and changes
  nothing, whatever the second failure record says beside the id.
\<close>

theorem cancel_idempotent:
  assumes "cancel now a failure s = Inr ((d, True), s')"
    and "member failure ''code'' = Some (JStr ''execution_cancelled'')"
    and "member failure ''cancellation_request_id'' = Some (JStr request)"
    and "member failure' ''cancellation_request_id'' = Some (JStr request)"
  shows "rec_state d = Failed \<and> rec_outputs d = None \<and> rec_serverAcknowledgedAt d = None \<and>
    cancel now' a failure' s' = Inr ((d, False), s')"
proof -
  obtain r where r: "dispatch_row a s' = Some r" "d = mapDispatch r" "d_state r = Failed"
    "d_failure r = Some failure" "d_server_acknowledged_at r = None" "d_outputs r = None"
    using assms(1) unfolding cancel_def Let_def
    by (auto simp: get_Inr release_lineage_def dispatch_row_update elim!: bind_result_InrE
        split: if_split_asm)
  then show ?thesis
    using assms(2-4) by (simp add: cancel_def get_def get_row_def strict_equal_def)
qed

theorem cancel_idempotent_witness:
  "\<exists>d s'. cancel ''t4'' ''a1'' [(''code'', JStr ''execution_cancelled''),
       (''cancellation_request_id'', JStr ''c1'')] occupied_state = Inr ((d, True), s') \<and>
     cancel ''t7'' ''a1'' [(''cancellation_request_id'', JStr ''c1'')] s' = Inr ((d, False), s')"
proof -
  let ?f = "[(''code'', JStr ''execution_cancelled''), (''cancellation_request_id'', JStr ''c1'')]"
  obtain d s' where *: "cancel ''t4'' ''a1'' ?f occupied_state = Inr ((d, True), s')"
    by (simp add: cancel_def Let_def get_def get_row_def release_lineage_def dispatch_row_update)
  from cancel_idempotent [OF this, of "''c1''" "[(''cancellation_request_id'', JStr ''c1'')]" "''t7''"]
  have "cancel ''t7'' ''a1'' [(''cancellation_request_id'', JStr ''c1'')] s' = Inr ((d, False), s')"
    by (simp add: member_def)
  with * show ?thesis by blast
qed

end
