(* ===== verification/Registry_Ownership.thy ===== *)
theory Registry_Ownership
  imports Registry_Properties
begin

text \<open>
  Ownership of a lineage: the Action that occupies it keeps it until that Action itself settles,
  a human-authorized recovery takes it over, or the worker adopts the lineage with its ownership
  token after a restart.
\<close>

abbreviation same_owner :: "LineageRow \<Rightarrow> LineageRow \<Rightarrow> bool" where
  "same_owner r r' \<equiv> l_active_action_id r' = l_active_action_id r"

lemma transp_same_owner: "transp same_owner"
  by (rule transpI) simp

lemma frame_owner:
  assumes "transaction K s s'" and "Change_Owner \<notin> K"
  shows "rows_evolve lineage_row same_owner s s'"
proof (rule transaction_frame [OF assms(1) _ refl transp_same_owner])
  fix k t u
  assume st: "statement k t u" and "k \<in> K"
  with assms(2) have "k \<noteq> Change_Owner" by blast
  with st show "rows_evolve lineage_row same_owner t u"
  proof (cases rule: statement.cases)
    case (update_lineage f l)
    show ?thesis
      unfolding update_lineage(2)
      by (rule lineages.evolve_update)
        (use update_lineage(3,5) lineage_update_keys(1) [of f] in auto)
  next
    case (rename_logical l)
    then have u: "u = update_lineage l (\<lambda>r. r\<lparr>l_logical_lineage_id := ''retired:'' @ l\<rparr>) t"
      by (simp add: rename_logical_Inr)
    show ?thesis unfolding u by (rule lineages.evolve_update) auto
  qed (auto simp: rows_evolve_def insertions)
qed

text \<open>The ways in which the Action \<open>a\<close> loses the lineage \<open>l\<close>.\<close>

definition gives_up ::
  "registry_config \<Rightarrow> string \<Rightarrow> string \<Rightarrow> string \<Rightarrow> registry \<Rightarrow> registry \<Rightarrow> bool" where
  "gives_up cfg a l token s s' \<longleftrightarrow>
     (\<exists>now outputs d. complete now a outputs s = Inr (d, s')) \<or>
     (\<exists>now failure d. fail now a failure False s = Inr (d, s')) \<or>
     (\<exists>now failure d. cancel now a failure s = Inr (d, s')) \<or>
     (\<exists>now uuid nonce action acc recovery. accept cfg now uuid nonce action s = Inr (acc, s') \<and>
        act_operational_recovery action = Some recovery \<and>
        rec_authorization_kind recovery = Auth_Human \<and> rec_continuation_mode recovery = Cont_Fresh) \<or>
     (\<exists>now input d. adopt cfg now input s = Inr (d, s') \<and>
        lin_lineageId (ado_lineage input) = l \<and> lin_ownershipToken (ado_lineage input) = token)"

definition keeps_or_gives_up ::
  "registry_config \<Rightarrow> string \<Rightarrow> string \<Rightarrow> registry \<Rightarrow> registry \<Rightarrow> bool" where
  "keeps_or_gives_up cfg a l s s' \<longleftrightarrow>
     (\<forall>r. lineage_row l s = Some r \<longrightarrow> l_active_action_id r = Some a \<longrightarrow>
        (\<exists>r'. lineage_row l s' = Some r' \<and>
          (l_active_action_id r' = Some a \<or> gives_up cfg a l (l_ownership_token r) s s')))"

lemma keeps_frame: "rows_evolve lineage_row same_owner s s' \<Longrightarrow> keeps_or_gives_up cfg a l s s'"
  by (fastforce simp: keeps_or_gives_up_def rows_evolve_def)

lemma mapLineage_sel:
  assumes "mapLineage row = Inr lin"
  shows "lin_lineageId lin = l_lineage_id row" and "lin_activeActionId lin = l_active_action_id row"
    and "lin_ownershipToken lin = l_ownership_token row" and "lin_sessionState lin = l_session_state row"
    and "lin_logicalLineageId lin = l_logical_lineage_id row"
    and "lin_attention lin = l_attention row" and "lin_harnessKind lin = l_harness_kind row"
  using assms by (auto simp: mapLineage_def elim!: bind_result_InrE)

lemma getLineage_Inr:
  "getLineage l s = Inr lin \<longleftrightarrow> (\<exists>row. lineage_row l s = Some row \<and> mapLineage row = Inr lin)"
  by (simp add: getLineage_def split: option.split)

lemma release_keeps:
  assumes "b \<noteq> a"
  shows "keeps_or_gives_up cfg a l s (release_lineage now l' b (update_dispatch c f s))"
  using assms
  by (auto simp: keeps_or_gives_up_def release_lineage_def lineage_row_update)

lemma keeps_update_dispatch:
  "keeps_or_gives_up cfg a l s s" "keeps_or_gives_up cfg a l s (update_dispatch c f s)"
  by (auto simp: keeps_or_gives_up_def)

lemma occupy_keeps:
  assumes "occupy lid b s = Inr s'" and "a \<noteq> []"
  shows "keeps_or_gives_up cfg a l s s'"
  using assms
  by (auto simp: occupy_def keeps_or_gives_up_def getLineage_Inr lineage_row_update mapLineage_sel
      elim!: bind_result_InrE split: if_split_asm)

lemma settle_keeps:
  "complete now b outputs s = Inr (d, s') \<Longrightarrow> keeps_or_gives_up cfg a l s s'"
  "fail now b failure uncertain s = Inr (d, s') \<Longrightarrow> keeps_or_gives_up cfg a l s s'"
  "cancel now b failure s = Inr (db, s') \<Longrightarrow> keeps_or_gives_up cfg a l s s'"
proof -
  have rows: "\<exists>r'. lineage_row l s' = Some r'" if "transaction K s s'" "lineage_row l s = Some r" for K r
  proof -
    have "rows_evolve lineage_row lineage_evolves s s'"
      by (rule transaction_frame [OF that(1) _ _ transp_lineage_evolves])
        (auto intro: statement_lineage_evolves simp: lineage_evolves_def)
    then show ?thesis using that(2) by (auto dest: rows_evolveD)
  qed
  show "keeps_or_gives_up cfg a l s s'" if *: "complete now b outputs s = Inr (d, s')"
  proof (cases "b = a")
    case True
    with * rows [OF tx_dispatch_ops(3) [OF *]] show ?thesis
      by (fastforce simp: keeps_or_gives_up_def gives_up_def)
  next
    case False
    with * show ?thesis
      by (auto simp: complete_def Let_def intro!: release_keeps elim!: bind_result_InrE split: if_split_asm)
  qed
  show "keeps_or_gives_up cfg a l s s'" if *: "fail now b failure uncertain s = Inr (d, s')"
  proof (cases "b = a \<and> \<not> uncertain")
    case True
    with * rows [OF tx_dispatch_ops(4) [OF *]] show ?thesis
      by (fastforce simp: keeps_or_gives_up_def gives_up_def)
  next
    case False
    with * show ?thesis
      by (auto simp: fail_def Let_def intro!: release_keeps keeps_update_dispatch
          elim!: bind_result_InrE split: if_split_asm)
  qed
  show "keeps_or_gives_up cfg a l s s'" if *: "cancel now b failure s = Inr (db, s')"
  proof (cases "b = a")
    case True
    with * rows [OF tx_dispatch_ops(5) [OF *]] show ?thesis
      by (cases db) (fastforce simp: keeps_or_gives_up_def gives_up_def)
  next
    case False
    with * show ?thesis
      by (auto simp: cancel_def Let_def intro!: release_keeps keeps_update_dispatch
          elim!: bind_result_InrE split: if_split_asm)
  qed
qed

lemma adopt_prepared_keeps:
  assumes "adoptPreparedProcess now src tgt lid s = Inr (t, s')"
  shows "keeps_or_gives_up cfg a l s s'"
proof (cases "physicalProcessTransition tgt s")
  case (Some x)
  with assms show ?thesis
    by (auto simp: adoptPreparedProcess_def keeps_or_gives_up_def split: if_split_asm)
next
  case None
  with assms obtain tr where "insertPhysicalProcessTransition tr
      (update_lineage lid (\<lambda>r. if l_active_action_id r = None
        then r\<lparr>l_active_action_id := Some tgt, l_session_state := Starting,
          l_attention := None, l_intervention := None, l_last_activity_at := now\<rparr> else r) s) = Inr s'"
    unfolding adoptPreparedProcess_def Let_def
    by (auto elim!: bind_result_InrE split: if_split_asm)
  then show ?thesis
    by (auto simp: insertions keeps_or_gives_up_def lineage_row_update)
qed

text \<open>Only a human-authorized fresh recovery takes a lineage away from a dispatch.\<close>

lemma accept_keeps:
  assumes "accept cfg now uuid nonce action s = Inr (acc, s')"
  shows "keeps_or_gives_up cfg a l s s'"
proof (cases "\<exists>recovery. act_operational_recovery action = Some recovery \<and>
    rec_authorization_kind recovery = Auth_Human \<and> rec_continuation_mode recovery = Cont_Fresh")
  case True
  have "rows_evolve lineage_row lineage_evolves s s'"
    by (rule transaction_frame [OF tx_accept [OF assms] _ _ transp_lineage_evolves])
      (auto intro: statement_lineage_evolves simp: lineage_evolves_def)
  with True assms show ?thesis
    by (fastforce simp: keeps_or_gives_up_def gives_up_def rows_evolve_def)
next
  case False
  then have no: "\<not> retained_work_recovery action p e" for p e
    by (auto simp: retained_work_recovery_def split: option.splits)
  have retire: "transaction {Rename_Lineage} s t" if "retireResolvedFreshLineage now action s = Inr t" for t
    using that no
    by (auto simp: retireResolvedFreshLineage_def Let_def split: option.split_asm if_split_asm
        intro: tx_rename)
  have choose: "transaction {Rename_Lineage, Insert_Lineage} s t"
    if "choose_lineage cfg now uuid action s = Inr (x, t)" for x t
    using that unfolding choose_lineage_def Let_def
    by (auto split: option.split_asm if_split_asm elim!: bind_result_InrE dest!: retire
        intro: tx_insertions(1) transaction_mono)
  have "transaction {Rename_Lineage, Insert_Lineage, Insert_Dispatch} s s'"
    using assms unfolding accept_def Let_def
    by (auto split: option.split_asm if_split_asm elim!: bind_result_InrE dest!: choose
        intro: tx_insertions(2) transaction_mono)
  then show ?thesis by (intro keeps_frame frame_owner) auto
qed

lemma adopt_keeps:
  assumes "adopt cfg now input s = Inr (d, s')"
  shows "keeps_or_gives_up cfg a l s s'"
proof (cases "lin_lineageId (ado_lineage input) = l")
  case True
  have "rows_evolve lineage_row lineage_evolves s s'"
    by (rule transaction_frame [OF tx_adopt [OF assms] _ _ transp_lineage_evolves])
      (auto intro: statement_lineage_evolves simp: lineage_evolves_def)
  moreover have "lin_ownershipToken (ado_lineage input) = l_ownership_token r"
    if "lineage_row l s = Some r" for r
    using assms True that unfolding adopt_def Let_def insert_lineage_or_ignore_def
    by (auto simp: getLineage_Inr mapLineage_sel split: option.split_asm if_split_asm elim!: bind_result_InrE)
  ultimately show ?thesis
    using assms True by (fastforce simp: keeps_or_gives_up_def gives_up_def rows_evolve_def)
next
  case False
  show ?thesis
  proof (cases "dispatch_row (act_action_id (ado_action input)) s")
    case None
    with assms False show ?thesis
      unfolding adopt_def Let_def insert_lineage_or_ignore_def
      by (auto simp: insertions lineage_row_update keeps_or_gives_up_def
          split: option.split_asm if_split_asm elim!: bind_result_InrE)
  next
    case (Some x)
    with assms obtain h i where "recordExecution (lin_lineageId (ado_lineage input)) h i s = Inr s'"
      unfolding adopt_def Let_def by (auto split: if_split_asm elim!: bind_result_InrE)
    then show ?thesis
      by (intro keeps_frame frame_owner [OF tx_lineage_ops(4)]) auto
  qed
qed

text \<open>
  C5: the Action that occupies a lineage keeps it through every transaction, unless that Action
  itself completes, fails or is cancelled, a human-authorized fresh recovery is accepted, or the
  worker re-adopts this very lineage with its ownership token.
\<close>

theorem owner_keeps_lineage:
  assumes "registry_step cfg s s'" and "lineage_row l s = Some r"
    and "l_active_action_id r = Some a" and "a \<noteq> []"
  shows "\<exists>r'. lineage_row l s' = Some r' \<and>
    (l_active_action_id r' = Some a \<or> gives_up cfg a l (l_ownership_token r) s s')"
proof -
  note frames = keeps_frame [OF frame_owner]
  have "keeps_or_gives_up cfg a l s s'"
    using assms(1)
  proof (cases rule: registry_step.cases)
    case (occupy lid b) then show ?thesis using assms(4) by (rule occupy_keeps)
  next
    case accept then show ?thesis by (rule accept_keeps)
  next
    case adopt then show ?thesis by (rule adopt_keeps)
  next
    case adopt_prepared then show ?thesis by (rule adopt_prepared_keeps)
  next
    case complete then show ?thesis by (rule settle_keeps)
  next
    case fail then show ?thesis by (rule settle_keeps)
  next
    case cancel then show ?thesis by (rule settle_keeps)
  qed (auto intro: frames tx_lineage_ops tx_assign tx_record_native tx_register
      tx_response_attention tx_begin_attention tx_acknowledge_attention tx_uncertain_attention
      tx_cancel_attention tx_replace_prepared tx_dispatch_marks tx_dispatch_ops(1,2))
  with assms(2,3) show ?thesis by (simp add: keeps_or_gives_up_def)
qed

theorem owner_keeps_lineage_witness:
  "\<exists>r'. lineage_row ''l1'' (markStalled ''t3'' ''a1'' occupied_state) = Some r' \<and>
     (l_active_action_id r' = Some ''a1'' \<or>
      gives_up example_cfg ''a1'' ''l1'' (l_ownership_token occupied_lineage) occupied_state
        (markStalled ''t3'' ''a1'' occupied_state))"
proof -
  have "registry_step example_cfg occupied_state (markStalled ''t3'' ''a1'' occupied_state)"
    by (rule registry_step.stalled)
  moreover have "lineage_row ''l1'' occupied_state = Some occupied_lineage" by simp
  moreover have "l_active_action_id occupied_lineage = Some ''a1''"
    by (simp add: occupied_lineage_def new_lineage_row_def)
  ultimately show ?thesis by (rule owner_keeps_lineage) simp
qed

end
