(* ===== verification/Registry_Recovery.thy ===== *)
theory Registry_Recovery
  imports Registry_Ownership
begin

text \<open>
  Handing a prepared process over to the Action that recovers a failed one: what a transfer
  requires, what it changes, and that repeating it (the worker may crash between the commit and
  its answer) changes nothing.
\<close>

lemma get_rowD: "get a s = Inr d \<Longrightarrow> \<exists>r. dispatch_row a s = Some r \<and> d = mapDispatch r"
  by (simp add: get_Inr)

lemma transition_inserted:
  assumes "insertPhysicalProcessTransition t s = Inr s'" and "t_targetActionId t = a"
    and "physicalProcessTransition a s = None"
  shows "physicalProcessTransition a s' = Some t"
  using assms by (auto simp: insert_transition_Inr physicalProcessTransition_def lookup_row_append)

lemma assertPreparedTransferD:
  assumes "assertPreparedTransfer src tgt lid s = Inr (source, target, lineage)"
  shows "get src s = Inr source" and "get tgt s = Inr target" and "getLineage lid s = Inr lineage"
    and "transfer_contract source target lineage lid"
    and "\<not> list_ex (conflicts_with_transfer src tgt lid target s) (list_dispatches s)"
  using assms unfolding assertPreparedTransfer_def
  by (auto simp: list_ex_iff find_None_iff elim!: bind_result_InrE split: if_split_asm option.split_asm)

text \<open>A dispatch is stored under the id of its Action, in every reachable state.\<close>

lemma reachable_named:
  assumes "registry_reachable cfg s" and "get a s = Inr d"
  shows "act_action_id (rec_action d) = a"
  using reachable_schema_ok [OF assms(1)] assms(2)
  by (auto simp: schema_ok_def dispatch_keys_ok_def get_Inr list_all_iff dispatch_row_def
      dest!: lookup_row_SomeD)

text \<open>
  C12: a prepared process is adopted only under the whole contract of a transfer (the source failed
  before its prompt, the target is accepted by a human for exactly this lineage and attempt, same
  run, occurrence, worktree and physical configuration, the lineage retained, idle and without a
  native session) and only while no third dispatch retains the lineage or the worktree. The
  adoption gives the lineage to the target, records the one transition of the target, leaves every
  dispatch and every other lineage alone, and repeating it answers the same and changes nothing.
\<close>

theorem prepared_process_adopted:
  assumes "registry_reachable cfg s" and "physicalProcessTransition tgt s = None"
    and "adoptPreparedProcess now src tgt lid s = Inr (t, s')"
  shows "(\<exists>source target lineage.
      get src s = Inr source \<and> get tgt s = Inr target \<and> getLineage lid s = Inr lineage \<and>
      transfer_contract source target lineage lid \<and>
      \<not> list_ex (conflicts_with_transfer src tgt lid target s) (list_dispatches s) \<and>
      t = Some (transition_of source target lineage lid Prepared_Process_Adopted now)) \<and>
    physicalProcessTransition tgt s' = t \<and> reg_dispatches s' = reg_dispatches s \<and>
    map_option l_active_action_id (lineage_row lid s') = Some (Some tgt) \<and>
    list_all (\<lambda>l. l = lid \<or> lineage_row l s' = lineage_row l s) (map l_lineage_id (reg_lineages s)) \<and>
    adoptPreparedProcess now' src tgt lid s' = Inr (t, s')"
proof -
  let ?s1 = "update_lineage lid (\<lambda>r. if l_active_action_id r = None
      then r\<lparr>l_active_action_id := Some tgt, l_session_state := Starting, l_attention := None,
        l_intervention := None, l_last_activity_at := now\<rparr> else r) s"
  obtain source target lineage where
    contract: "assertPreparedTransfer src tgt lid s = Inr (source, target, lineage)"
    and ins: "insertPhysicalProcessTransition
        (transition_of source target lineage lid Prepared_Process_Adopted now) ?s1 = Inr s'"
    and t: "t = physicalProcessTransition tgt s'"
    using assms(2,3) unfolding adoptPreparedProcess_def Let_def
    by (auto elim!: bind_result_InrE split: if_split_asm)
  note d = assertPreparedTransferD [OF contract]
  obtain row where row: "lineage_row lid s = Some row" "mapLineage row = Inr lineage"
    using d(3) by (auto simp: getLineage_Inr)
  have idle: "l_active_action_id row = None" and lin: "lin_lineageId lineage = lid"
    using d(4) row mapLineage_sel [OF row(2)]
    by (auto simp: transfer_contract_def lineage_row_def dest: lookup_row_SomeD)
  have names: "act_action_id (rec_action target) = tgt" "act_action_id (rec_action source) = src"
    using reachable_named [OF assms(1)] d(1,2) by blast+
  have recorded: "physicalProcessTransition tgt s' =
      Some (transition_of source target lineage lid Prepared_Process_Adopted now)"
    by (rule transition_inserted [OF ins])
      (use assms(2) names in \<open>simp_all add: transition_of_def physicalProcessTransition_def\<close>)
  have s': "s' = ?s1\<lparr>reg_transitions := reg_transitions ?s1 @
      [transition_of source target lineage lid Prepared_Process_Adopted now]\<rparr>"
    using ins by (simp add: insert_transition_Inr)
  have owner: "map_option l_active_action_id (lineage_row lid s') = Some (Some tgt)"
    unfolding s' using row idle by (simp add: lineage_row_update)
  have others: "list_all (\<lambda>l. l = lid \<or> lineage_row l s' = lineage_row l s) (map l_lineage_id (reg_lineages s))"
    unfolding s' by (simp add: list_all_iff lineage_row_update)
  have again: "adoptPreparedProcess now' src tgt lid s' = Inr (t, s')"
    using recorded t names lin by (simp add: adoptPreparedProcess_def transition_of_def)
  show ?thesis
    using d t recorded owner others again by (auto simp: s')
qed

text \<open>
  the fallback retires the idle source lineage under its own name, moves the accepted target
  to a fresh lineage that takes over the logical name and the target's configuration and is
  occupied by the target, records the transition, and a repetition, with whatever new lineage id,
  returns that same lineage and changes nothing.
\<close>

theorem prepared_process_replaced:
  assumes "registry_reachable cfg s" and "physicalProcessTransition tgt s = None"
    and "replacePreparedProcessWithFresh cfg now uuid src tgt lid s = Inr (l, s')"
  shows "(\<exists>target. get tgt s = Inr target \<and>
      map_option l_logical_lineage_id (lineage_row lid s') = Some (''retired:'' @ lid) \<and>
      lineage_row uuid s' = Some (new_lineage_row cfg now uuid
        (ctx_logical_lineage_id (exec_context (act_execution (rec_action target))))
        (physicalConfiguration (rec_action target))
        (model_provider (conf_model (exec_configuration (act_execution (rec_action target)))))
        (requested_harness cfg (rec_action target)) (act_worker_id (rec_action target)) (Some tgt))) \<and>
    map_option d_lineage_id (dispatch_row tgt s') = Some (Some uuid) \<and> lin_lineageId l = uuid \<and>
    replacePreparedProcessWithFresh cfg now' uuid' src tgt lid s' = Inr (l, s')"
proof -
  let ?fresh = "\<lambda>target. new_lineage_row cfg now uuid
    (ctx_logical_lineage_id (exec_context (act_execution (rec_action target))))
    (physicalConfiguration (rec_action target))
    (model_provider (conf_model (exec_configuration (act_execution (rec_action target)))))
    (requested_harness cfg (rec_action target)) (act_worker_id (rec_action target)) (Some tgt)"
  let ?move = "\<lambda>r. if d_lineage_id r = Some lid \<and> d_state r = Accepted
    then r\<lparr>d_lineage_id := Some uuid\<rparr> else r"
  obtain source target lineage s1 s2 where
    contract: "assertPreparedTransfer src tgt lid s = Inr (source, target, lineage)"
    and retired: "retire_idle_lineage lid s = Inr s1"
    and fresh: "insert_lineage (?fresh target) s1 = Inr s2"
    and ins: "insertPhysicalProcessTransition
        (transition_of source target lineage uuid Fresh_Process_Fallback now)
        (update_dispatch tgt ?move s2) = Inr s'"
    and got: "getLineage uuid s' = Inr l"
    by (rule replace_preparedD [OF assms(3,2)])
  note d = assertPreparedTransferD [OF contract]
  obtain row where row: "lineage_row lid s = Some row" "mapLineage row = Inr lineage"
    using d(3) by (auto simp: getLineage_Inr)
  have idle: "l_active_action_id row = None" and lin: "lin_lineageId lineage = lid"
    using d(4) row mapLineage_sel [OF row(2)]
    by (auto simp: transfer_contract_def lineage_row_def dest: lookup_row_SomeD)
  have names: "act_action_id (rec_action target) = tgt" "act_action_id (rec_action source) = src"
    using reachable_named [OF assms(1)] d(1,2) by blast+
  have s1: "s1 = update_lineage lid (\<lambda>r. r\<lparr>l_logical_lineage_id := ''retired:'' @ lid\<rparr>) s"
    using retired row(1) idle by (auto simp: retire_idle_lineage_def rename_logical_Inr simp del: append_Cons)
  have s2: "s2 = s1\<lparr>reg_lineages := reg_lineages s1 @ [?fresh target]\<rparr>"
    using fresh by (simp add: insert_lineage_Inr)
  have s': "s' = (update_dispatch tgt ?move s2)\<lparr>reg_transitions := reg_transitions s2 @
      [transition_of source target lineage uuid Fresh_Process_Fallback now]\<rparr>"
    using ins by (simp add: insert_transition_Inr)
  have old: "map_option l_logical_lineage_id (lineage_row lid s') = Some (''retired:'' @ lid)"
    unfolding s' s2 s1 using row(1) by (simp add: lineage_row_update)
  have new: "lineage_row uuid s' = Some (?fresh target)"
    unfolding s' using insert_lineage_row [OF fresh] by simp
  obtain t where t: "dispatch_row tgt s = Some t" "target = mapDispatch t"
    using d(2) by (auto simp: get_Inr)
  have moved: "map_option d_lineage_id (dispatch_row tgt s') = Some (Some uuid)"
    using d(4) t unfolding s' s2 s1
    by (auto simp: dispatch_row_update transfer_contract_def)
  have recorded: "physicalProcessTransition tgt s' =
      Some (transition_of source target lineage uuid Fresh_Process_Fallback now)"
    by (rule transition_inserted [OF ins])
      (use assms(2) names in \<open>simp_all add: transition_of_def physicalProcessTransition_def s2 s1\<close>)
  have "replacePreparedProcessWithFresh cfg now' uuid' src tgt lid s' = Inr (l, s')"
    using recorded names lin got by (simp add: replacePreparedProcessWithFresh_def transition_of_def)
  moreover have "lin_lineageId l = uuid"
    using got new by (auto simp: getLineage_Inr mapLineage_sel)
  ultimately show ?thesis
    using d(2) old new moved by blast
qed

section \<open>A reachable handover\<close>

definition recovery_action :: execute_action where
  "recovery_action = example_action\<lparr>act_action_id := ''a2'', act_attempt_id := ''try2'',
     act_operational_recovery := Some \<lparr>rec_epoch_number = 1, rec_attempt_in_epoch = 1,
       rec_attempt_allowance = None, rec_authorization_kind = Auth_Human,
       rec_continuation_mode = Cont_Retained, rec_retained_lineage_id = Some ''l1'',
       rec_source_attempt_id = Some ''try1'', rec_request_id = None\<rparr>\<rparr>"

definition retained_lineage :: LineageRow where
  "retained_lineage = occupied_lineage\<lparr>l_active_action_id := None, l_session_state := Retained,
     l_attention := None, l_last_activity_at := ''t4''\<rparr>"

definition failed_dispatch :: DispatchRow where
  "failed_dispatch = example_dispatch\<lparr>d_state := Failed, d_failure := Some []\<rparr>"

definition recovery_dispatch :: DispatchRow where
  "recovery_dispatch = new_dispatch_row example_cfg recovery_action Accepted (Some ''l1'') ''n2''
     (resultDirectory example_cfg ''a2'' ''n2'')
     \<lparr>req_structuredResultRequired = True, req_outputs = [], req_physicalExportRequired = False\<rparr> None"

definition failed_state :: registry where
  "failed_state = accepted_state\<lparr>reg_lineages := [retained_lineage], reg_dispatches := [failed_dispatch]\<rparr>"

definition handover_state :: registry where
  "handover_state = failed_state\<lparr>reg_dispatches := [failed_dispatch, recovery_dispatch]\<rparr>"

lemma failed_state_reachable: "registry_reachable example_cfg failed_state"
proof -
  have "\<exists>d. fail ''t4'' ''a1'' [] False occupied_state = Inr (d, failed_state)"
    by (simp add: fail_def Let_def get_def get_row_def release_lineage_def dispatch_row_update)
      (simp add: failed_state_def occupied_state_def accepted_state_def update_lineage_def
        update_dispatch_def retained_lineage_def failed_dispatch_def occupied_lineage_def new_lineage_row_def)
  then show ?thesis
    using registry_reachable.step [OF occupied_state_reachable registry_step.fail] by blast
qed

lemma recovery_action_sel [simp]:
  "act_action_id recovery_action = ''a2''" "act_attempt_id recovery_action = ''try2''"
  "act_run_id recovery_action = ''run''" "act_occurrence_id recovery_action = ''occ''"
  "act_worker_id recovery_action = ''worker''" "act_execution recovery_action = example_execution"
  "act_harness_setup recovery_action = None" "act_inputs recovery_action = []"
  "act_declared_outputs recovery_action = []"
  "act_operational_recovery recovery_action = Some \<lparr>rec_epoch_number = 1, rec_attempt_in_epoch = 1,
     rec_attempt_allowance = None, rec_authorization_kind = Auth_Human,
     rec_continuation_mode = Cont_Retained, rec_retained_lineage_id = Some ''l1'',
     rec_source_attempt_id = Some ''try1'', rec_request_id = None\<rparr>"
  by (simp_all add: recovery_action_def)

lemma recovery_physical: "physicalConfiguration recovery_action = physicalConfiguration example_action"
  by (simp add: recovery_action_def physicalConfiguration_def)

lemma failed_rows [simp]:
  "lineage_row l failed_state = (if l = ''l1'' then Some retained_lineage else None)"
  "dispatch_row a failed_state = (if a = ''a1'' then Some failed_dispatch else None)"
  "reg_dispatches failed_state = [failed_dispatch]"
  by (simp_all add: failed_state_def lineage_row_def dispatch_row_def retained_lineage_def
      failed_dispatch_def occupied_lineage_def)

lemma retained_sel [simp]:
  "l_lineage_id retained_lineage = ''l1''" "l_active_action_id retained_lineage = None"
  "l_harness_kind retained_lineage = ''pi''" "l_logical_lineage_id retained_lineage = ''L''"
  "l_configuration_json retained_lineage = physicalConfiguration example_action"
  "l_session_state retained_lineage = Retained"
  by (simp_all add: retained_lineage_def occupied_lineage_def new_lineage_row_def)

lemma failed_action: "d_action_json failed_dispatch = example_action"
  by (simp add: failed_dispatch_def)

lemma recovery_dispatch_sel [simp]:
  "d_action_id recovery_dispatch = ''a2''" "d_lineage_id recovery_dispatch = Some ''l1''"
  "d_action_json recovery_dispatch = recovery_action" "d_state recovery_dispatch = Accepted"
  by (simp_all add: recovery_dispatch_def new_dispatch_row_def)

lemma handover_rows [simp]:
  "lineage_row l handover_state = (if l = ''l1'' then Some retained_lineage else None)"
  "dispatch_row a handover_state =
     (if a = ''a1'' then Some failed_dispatch else if a = ''a2'' then Some recovery_dispatch else None)"
  "physicalProcessTransition a handover_state = None"
  by (simp_all add: handover_state_def failed_state_def accepted_state_def lineage_row_def
      dispatch_row_def failed_dispatch_def recovery_dispatch_def new_dispatch_row_def
      recovery_action_def physicalProcessTransition_def)

lemma handover_state_reachable: "registry_reachable example_cfg handover_state"
proof -
  have "\<exists>a. accept example_cfg ''t5'' ''l2'' ''n2'' recovery_action failed_state = Inr (a, handover_state)"
    by (simp add: accept_def choose_lineage_def lineage_incompatible_def insert_dispatch_def known_lineage_def
        structuredCompletionRequirement_def lift_requirement_def get_def get_row_def Let_def
        j_strings_def recovery_physical recovery_dispatch_sel
        recovery_dispatch_def [symmetric] handover_state_def [symmetric])
  then show ?thesis
    using registry_reachable.step [OF failed_state_reachable registry_step.accept] by blast
qed

lemma retained_readable:
  "mapLineage retained_lineage = Inr \<lparr>
     lin_lineageId = ''l1'', lin_logicalLineageId = ''L'',
     lin_configurationJson = physicalConfiguration example_action,
     lin_provider = ''p'', lin_harnessKind = ''pi'', lin_sessionState = Retained,
     lin_capabilities = defaultHarnessCapabilities, lin_attention = None, lin_intervention = None,
     lin_startedAt = ''t0'', lin_lastActivityAt = ''t4'',
     lin_resultControlPath = lineageControlPath example_cfg ''l1'',
     lin_ownershipToken = ownership_token example_cfg ''worker'' ''l1'',
     lin_activeActionId = None, lin_executionHandle = None, lin_nativeSession = None,
     lin_transportBinding = None, lin_interactive = None\<rparr>"
  by (simp add: mapLineage_def retained_lineage_def occupied_lineage_def new_lineage_row_def
      capabilities_readable parseTransportBinding_def parseNativeSessionRef_def
      persistedExecutionHandle_def persistedInteractive_def lift_identity_def example_cfg_def)

lemma handover_contract:
  "assertPreparedTransfer ''a1'' ''a2'' ''l1'' handover_state =
     Inr (mapDispatch failed_dispatch, mapDispatch recovery_dispatch,
       projr (mapLineage retained_lineage))"
proof -
  have dispatches: "list_dispatches handover_state = [mapDispatch failed_dispatch, mapDispatch recovery_dispatch]"
    by (simp add: list_dispatches_def handover_state_def)
  show ?thesis
    by (simp add: assertPreparedTransfer_def get_def get_row_def getLineage_def dispatches
        retained_readable transfer_contract_def recovery_names_def worktree_of_def recovery_physical
        prompt_lifecycle_absent_def conflicts_with_transfer_def mapDispatch_def failed_dispatch_def
        recovery_dispatch_def example_dispatch_def new_dispatch_row_def)
qed

definition adopted_lineage :: LineageRow where
  "adopted_lineage = retained_lineage\<lparr>l_active_action_id := Some ''a2'',
     l_session_state := Starting, l_attention := None, l_intervention := None,
     l_last_activity_at := ''t6''\<rparr>"

definition adopting_state :: registry where
  "adopting_state = handover_state\<lparr>reg_lineages := [adopted_lineage]\<rparr>"

lemma adopting_rows [simp]:
  "lineage_row l adopting_state = (if l = ''l1'' then Some adopted_lineage else None)"
  "dispatch_row a adopting_state =
     (if a = ''a1'' then Some failed_dispatch else if a = ''a2'' then Some recovery_dispatch else None)"
  "reg_transitions adopting_state = []"
  by (simp_all add: adopting_state_def lineage_row_def adopted_lineage_def)
    (simp add: handover_state_def failed_state_def accepted_state_def)

lemma adopting_readable:
  "\<exists>l. mapLineage adopted_lineage = Inr l \<and> lin_activeActionId l = Some ''a2''"
  by (simp add: mapLineage_def adopted_lineage_def retained_lineage_def occupied_lineage_def
      new_lineage_row_def capabilities_readable parseTransportBinding_def parseNativeSessionRef_def
      persistedExecutionHandle_def persistedInteractive_def lift_identity_def)

theorem prepared_process_adopted_witness:
  "\<exists>t s'. adoptPreparedProcess ''t6'' ''a1'' ''a2'' ''l1'' handover_state = Inr (t, s') \<and>
     adoptPreparedProcess ''t9'' ''a1'' ''a2'' ''l1'' s' = Inr (t, s') \<and>
     map_option l_active_action_id (lineage_row ''l1'' s') = Some (Some ''a2'')"
proof -
  obtain t s' where *: "adoptPreparedProcess ''t6'' ''a1'' ''a2'' ''l1'' handover_state = Inr (t, s')"
  proof -
    have "update_lineage ''l1'' (\<lambda>r. if l_active_action_id r = None
        then r\<lparr>l_active_action_id := Some ''a2'', l_session_state := Starting, l_attention := None,
          l_intervention := None, l_last_activity_at := ''t6''\<rparr> else r) handover_state = adopting_state"
      by (simp add: update_lineage_def handover_state_def failed_state_def adopting_state_def adopted_lineage_def)
    then show ?thesis
      using that adopting_readable
      by (auto simp: adoptPreparedProcess_def handover_contract Let_def getLineage_def
        insert_transition_Inr insertPhysicalProcessTransition_def transition_of_def failed_action retained_readable)
  qed
  from prepared_process_adopted [OF handover_state_reachable _ this] show ?thesis
    using * by auto
qed

definition fresh_lineage :: LineageRow where
  "fresh_lineage = new_lineage_row example_cfg ''t6'' ''l2'' ''L'' (physicalConfiguration example_action)
     ''p'' ''pi'' ''worker'' (Some ''a2'')"

definition retired_state :: registry where
  "retired_state = handover_state\<lparr>reg_lineages :=
     [retained_lineage\<lparr>l_logical_lineage_id := ''retired:l1''\<rparr>]\<rparr>"

definition rotated_state :: registry where
  "rotated_state = retired_state\<lparr>reg_lineages := reg_lineages retired_state @ [fresh_lineage],
     reg_dispatches := [failed_dispatch, recovery_dispatch\<lparr>d_lineage_id := Some ''l2''\<rparr>]\<rparr>"

lemma retire_handover: "retire_idle_lineage ''l1'' handover_state = Inr retired_state"
  by (simp add: retire_idle_lineage_def rename_logical_def update_lineage_def retired_state_def)
    (simp add: handover_state_def failed_state_def)

lemma fresh_lineage_row: "new_lineage_row example_cfg ''t6'' ''l2'' ''L'' (physicalConfiguration example_action)
    ''p'' ''pi'' ''worker'' (Some ''a2'') = fresh_lineage"
  by (simp add: fresh_lineage_def)

lemma fresh_inserted:
  "insert_lineage fresh_lineage retired_state =
     Inr (retired_state\<lparr>reg_lineages := reg_lineages retired_state @ [fresh_lineage]\<rparr>)"
  by (simp add: insert_lineage_def retired_state_def fresh_lineage_def new_lineage_row_def
      retained_lineage_def occupied_lineage_def lineageControlPath_def ownership_token_def
      example_cfg_def)

lemma rotated_rows [simp]:
  "lineage_row l rotated_state = (if l = ''l1'' then Some (retained_lineage\<lparr>l_logical_lineage_id := ''retired:l1''\<rparr>)
     else if l = ''l2'' then Some fresh_lineage else None)"
  "dispatch_row a rotated_state = (if a = ''a1'' then Some failed_dispatch
     else if a = ''a2'' then Some (recovery_dispatch\<lparr>d_lineage_id := Some ''l2''\<rparr>) else None)"
  "reg_transitions rotated_state = []"
  by (simp_all add: rotated_state_def retired_state_def lineage_row_def dispatch_row_def fresh_lineage_def
      failed_dispatch_def)
    (simp add: handover_state_def failed_state_def accepted_state_def)

lemma rotated_update:
  "update_dispatch ''a2'' (\<lambda>r. if d_lineage_id r = Some ''l1'' \<and> d_state r = Accepted
      then r\<lparr>d_lineage_id := Some ''l2''\<rparr> else r)
    (retired_state\<lparr>reg_lineages := reg_lineages retired_state @ [fresh_lineage]\<rparr>) = rotated_state"
  by (simp add: rotated_state_def update_dispatch_def retired_state_def failed_dispatch_def)
    (simp add: handover_state_def failed_state_def failed_dispatch_def)

theorem prepared_process_replaced_witness:
  "\<exists>l s'. replacePreparedProcessWithFresh example_cfg ''t6'' ''l2'' ''a1'' ''a2'' ''l1'' handover_state =
       Inr (l, s') \<and>
     replacePreparedProcessWithFresh example_cfg ''t9'' ''l3'' ''a1'' ''a2'' ''l1'' s' = Inr (l, s') \<and>
     map_option d_lineage_id (dispatch_row ''a2'' s') = Some (Some ''l2'')"
proof -
  have fresh: "\<exists>l. mapLineage fresh_lineage = Inr l" by (simp add: fresh_lineage_def mapLineage_new)
  obtain l s' where *: "replacePreparedProcessWithFresh example_cfg ''t6'' ''l2'' ''a1'' ''a2'' ''l1''
      handover_state = Inr (l, s')"
    using fresh
    by (auto simp: replacePreparedProcessWithFresh_def handover_contract retire_handover Let_def
        mapDispatch_def recovery_physical requested_harness_def fresh_lineage_row fresh_inserted
        rotated_update get_def get_row_def insertPhysicalProcessTransition_def transition_of_def
        failed_action retained_readable getLineage_def)
  from prepared_process_replaced [OF handover_state_reachable _ this] show ?thesis
    using * by auto
qed

end
