(* ===== verification/Attention_Properties.thy ===== *)
theory Attention_Properties
  imports Registry_Examples
begin

text \<open>
  What the attention protocol guarantees: one active request per Action, one response, at most one
  delivery of it, and an acknowledgement or withdrawal that frees the Action for the next request.
\<close>

section \<open>Sizes of canonical texts\<close>

text \<open>The canonical text has exactly the size of the text \<^verbatim>\<open>JSON.stringify\<close> gives.\<close>

lemma utf8_length_canonicalJson: "utf8_length (canonicalJson v) = utf8_length (stringify v)"
proof (induction v rule: canonicalJson.induct)
  case (5 vs)
  then have "map (utf8_length \<circ> canonicalJson) vs = map (utf8_length \<circ> stringify) vs" by simp
  then show ?case
    by (simp add: utf8_length_join utf8_length_Cons comp_def del: map_eq_conv)
next
  case (6 es)
  let ?c = "\<lambda>(k, v). utf8_length (stringify_string k @ '':'' @ canonicalJson v)"
  let ?s = "\<lambda>(k, v). utf8_length (stringify_string k @ '':'' @ stringify v)"
  have "sum_list (map ?c (sort_by entry_le es)) = sum_mset (image_mset ?c (mset (sort_by entry_le es)))"
    by (simp add: sum_mset_sum_list [symmetric] del: mset_sort_by)
  also have "\<dots> = sum_list (map ?c es)" by (simp add: sum_mset_sum_list [symmetric])
  also have "map ?c es = map ?s es"
    using 6 by (auto simp: case_prod_unfold utf8_length_Cons)
  finally show ?case
    by (simp add: utf8_length_join utf8_length_Cons comp_def case_prod_unfold)
qed simp_all

section \<open>One active request\<close>

lemma find_unique:
  "(\<And>x y. x \<in> set xs \<Longrightarrow> y \<in> set xs \<Longrightarrow> P x \<Longrightarrow> P y \<Longrightarrow> x = y) \<Longrightarrow>
    List.find P xs = Some r \<longleftrightarrow> r \<in> set xs \<and> P r"
  by (induction xs) auto

lemma active_unique:
  assumes "distinct (map h_action_id (filter attention_active rows))"
    and "x \<in> set rows" "y \<in> set rows" "attention_active x" "attention_active y"
    and "h_action_id x = h_action_id y"
  shows "x = y"
  using distinct_keys_unique [OF assms(1)] assms by simp

text \<open>
  in every reachable state the query for the active request of an Action returns the one
  request of that Action that is pending, or responded and not yet acknowledged: there is never a
  second one, so its answer does not depend on the order of the rows.
\<close>

theorem active_request_unique:
  assumes "registry_reachable cfg s"
  shows "activeHumanAttentionRequest a s = Some r \<longleftrightarrow>
    r \<in> set (reg_attention s) \<and> h_action_id r = a \<and> attention_active r"
proof -
  have "distinct (map h_action_id (filter attention_active (reg_attention s)))"
    using reachable_schema_ok [OF assms] by (simp add: schema_ok_def attention_keys_ok_def)
  then show ?thesis
    unfolding activeHumanAttentionRequest_def
    by (subst find_unique) (auto dest: active_unique)
qed

section \<open>Evolution\<close>

text \<open>
  C6: a transaction keeps every request: its identity never changes, the response, the delivery
  attempt and the four times are written once, the response state moves from pending over
  responded to a withdrawal that is final, and the delivery moves from not delivered over
  requested to acknowledged or uncertain.
\<close>

theorem request_history:
  assumes "registry_reachable cfg s" and "registry_step cfg s s'" and "attention_row h s = Some r"
  shows "\<exists>r'. attention_row h s' = Some r' \<and> attention_evolves r r'"
  using rows_evolveD [OF step_attention_evolves [OF assms(1,2)] assms(3)] .

text \<open>
  C7: the response is delivered at most once: after a delivery has begun, every later attempt to
  begin it, whatever happened in between (acknowledgement, uncertainty, withdrawal, restart), is
  refused.
\<close>

theorem delivery_begins_once:
  assumes "registry_reachable cfg s" and "beginHumanAttentionDelivery now hid gen s = Inr (h, s1)"
    and "(registry_step cfg)\<^sup>*\<^sup>* s1 s2"
  shows "beginHumanAttentionDelivery now' hid gen' s2 \<in>
    {Inl Attention_Delivery_Replayed, Inl Attention_Response_Unavailable}"
proof -
  have reach: "registry_reachable cfg s1"
    by (rule registry_reachable.step [OF assms(1) registry_step.begin_delivery [OF assms(2)]])
  obtain r where "attention_row hid s1 = Some r" "h_delivery_state r = Delivery_Requested"
    using assms(2)
    by (cases rule: begin_delivery_effect) (auto simp: request_updated_row request_delivery_def)
  then obtain r' where "attention_row hid s2 = Some r'" "h_delivery_state r' \<noteq> Response_Not_Delivered"
    using rows_evolveD [OF steps_attention_evolves [OF assms(3) reach]]
    by (fastforce simp: attention_evolves_def delivery_moves_def)
  then show ?thesis
    by (auto simp: beginHumanAttentionDelivery_def getHumanAttentionRequest_def)
qed

text \<open>
  the first committed response is authoritative: after it, at any later time, a response with
  a different text or another delivery attempt is refused, and every stored response of the request
  is the first one.
\<close>

lemma response_authoritative:
  assumes "registry_reachable cfg s" and "recordHumanAttentionResponse now input s = Inr (h, s1)"
    and "(registry_step cfg)\<^sup>*\<^sup>* s1 s2" and "ri_attentionId input' = ri_attentionId input"
    and "response_text (ri_response input') \<noteq> response_text (ri_response input) \<or>
      ri_deliveryAttemptId input' \<noteq> ri_deliveryAttemptId input"
  shows "(\<exists>e. recordHumanAttentionResponse now' input' s2 = Inl e) \<and>
    (\<exists>r response. attention_row (ri_attentionId input) s2 = Some r \<and> h_response r = Some response \<and>
      response_text response = response_text (ri_response input))"
proof -
  have reach: "registry_reachable cfg s1"
    by (rule registry_reachable.step [OF assms(1) registry_step.record_response [OF assms(2)]])
  obtain r response where r: "attention_row (ri_attentionId input) s1 = Some r"
    "h_response r = Some response" "response_text response = response_text (ri_response input)"
    "h_delivery_attempt_id r = Some (ri_deliveryAttemptId input)"
  proof (cases rule: record_response_effect [OF assms(2)])
    case (1 response)
    then show thesis by (intro that [of h response]) auto
  next
    case (2 r)
    then have "attention_row_ok r"
      using attention_ok_row [OF reachable_attention_ok [OF assms(1)]] by blast
    with 2 have "h_response_state r = Pending"
      by (cases "h_response_state r") (auto simp: attention_row_ok_def)
    with 2 show thesis
      by (intro that [of "commit_response input r" "ri_response input"])
        (auto simp: request_updated_row commit_response_def)
  qed
  then obtain r' where r': "attention_row (ri_attentionId input) s2 = Some r'"
    "h_response r' = Some response" "h_delivery_attempt_id r' = Some (ri_deliveryAttemptId input)"
    using rows_evolveD [OF steps_attention_evolves [OF assms(3) reach]]
    by (fastforce simp: attention_evolves_def write_once_def)
  have "\<exists>e. recordHumanAttentionResponse now' input' s2 = Inl e"
  proof (rule ccontr)
    assume "\<not> ?thesis"
    then obtain h' s3 where "recordHumanAttentionResponse now' input' s2 = Inr (h', s3)"
      by (cases "recordHumanAttentionResponse now' input' s2") auto
    then show False
      by (cases rule: record_response_effect) (use r r' assms(4,5) in auto)
  qed
  with r r' show ?thesis by blast
qed

text \<open>
  a delivered or withdrawn request no longer blocks its Action: right after the delivery is
  acknowledged, or the request is cancelled, the Action has no active request.
\<close>

theorem settled_request_unblocks:
  assumes "registry_reachable cfg s" and "attention_row hid s = Some r" and "attention_active r"
    and "acknowledgeHumanAttentionDelivery now hid gen did s = Inr (h, s') \<or>
      cancelHumanAttention now hid reason w s = Inr (h, s')"
  shows "activeHumanAttentionRequest (h_action_id r) s' = None"
proof -
  have step: "registry_step cfg s s'"
    using assms(4) by (auto intro: registry_step.acknowledge_delivery registry_step.cancel_attention)
  obtain f where upd: "request_updated hid f s s'" and f: "\<not> attention_active (f r)"
    "\<And>x. h_action_id (f x) = h_action_id x" "\<And>x. h_attention_id (f x) = h_attention_id x"
  proof (cases "acknowledgeHumanAttentionDelivery now hid gen did s = Inr (h, s')")
    case True
    then show thesis
      using assms(2,3)
      by (cases rule: acknowledge_delivery_effect)
        (auto simp: attention_active_def acknowledge_request_def intro: that [of "acknowledge_request now"])
  next
    case False
    with assms(4) have "cancelHumanAttention now hid reason w s = Inr (h, s')" by blast
    moreover have "attention_row_ok r"
      using attention_ok_row [OF reachable_attention_ok [OF assms(1)] assms(2)] .
    ultimately show thesis
      using assms(2,3)
      by (cases rule: cancel_attention_effect; cases w)
        (auto simp: attention_active_def attention_row_ok_def withdraw_request_def intro: that [of "withdraw_request now reason w"])
  qed
  note dist = reachable_schema_ok [OF assms(1), unfolded schema_ok_def attention_keys_ok_def]
  have none: "\<not> attention_active x" if "x \<in> set (reg_attention s')" "h_action_id x = h_action_id r" for x
  proof -
    from that(1) upd obtain y where y: "y \<in> set (reg_attention s)"
      "x = (if h_attention_id y = hid then f y else y)"
      by (auto simp: request_updated_def update_attention_def set_update_where)
    have r: "r \<in> set (reg_attention s)" "h_attention_id r = hid"
      using assms(2) by (auto simp: attention_row_def dest: lookup_row_SomeD)
    show ?thesis
    proof (cases "h_attention_id y = hid")
      case True
      with y r dist have "y = r" by (auto dest: distinct_keys_unique)
      with True y f(1) show ?thesis by simp
    next
      case False
      with y that(2) r assms(3) dist show ?thesis
        by (auto dest: active_unique)
    qed
  qed
  show ?thesis
    using none by (auto simp: activeHumanAttentionRequest_def find_None_iff)
qed

section \<open>The protocol can be completed\<close>

definition lineage_readable :: "string \<Rightarrow> registry \<Rightarrow> bool" where
  "lineage_readable l s \<longleftrightarrow> (case getLineage l s of Inl _ \<Rightarrow> False | Inr _ \<Rightarrow> True)"

lemma lineage_readable_iff: "lineage_readable l s \<longleftrightarrow> (\<exists>row lin. lineage_row l s = Some row \<and> mapLineage row = Inr lin)"
  by (auto simp: lineage_readable_def getLineage_def split: option.splits sum.splits)

lemma persisted_handle_update:
  "persistedExecutionHandle (r\<lparr>l_attention := a\<rparr>) = persistedExecutionHandle r"
  "persistedExecutionHandle (r\<lparr>l_last_activity_at := t\<rparr>) = persistedExecutionHandle r"
  "persistedExecutionHandle (r\<lparr>l_session_state := st\<rparr>) = persistedExecutionHandle r"
  by (cases "l_execution_handle r"; simp add: persistedExecutionHandle_def)+

lemma mapLineage_attention:
  assumes "mapLineage r = Inr lin"
  shows "\<exists>lin'. mapLineage (r\<lparr>l_attention := a, l_last_activity_at := t\<rparr>) = Inr lin'"
    and "\<exists>lin'. mapLineage (r\<lparr>l_session_state := st, l_attention := a, l_last_activity_at := t\<rparr>) = Inr lin'"
  using assms by (auto simp: mapLineage_def bind_result_eq_Inr persisted_handle_update)

lemma projection_progress:
  assumes "lineage_readable l s"
  shows "\<exists>t. updateAttentionProjection now l hid r d a s = Inr t \<and> lineage_readable l t"
    and "\<exists>t. clearAttentionProjection now l hid s = Inr t \<and> lineage_readable l t"
proof -
  obtain row lin where row: "lineage_row l s = Some row" "mapLineage row = Inr lin"
    using assms by (auto simp: lineage_readable_iff)
  then have got: "getLineage l s = Inr lin" by (simp add: getLineage_def)
  show "\<exists>t. updateAttentionProjection now l hid r d a s = Inr t \<and> lineage_readable l t"
  proof (cases "lin_attention lin")
    case None
    with got assms show ?thesis by (simp add: updateAttentionProjection_def)
  next
    case (Some x)
    with got assms row show ?thesis
      by (auto simp: updateAttentionProjection_def lineage_readable_iff lineage_row_update
          intro: mapLineage_attention)
  qed
  show "\<exists>t. clearAttentionProjection now l hid s = Inr t \<and> lineage_readable l t"
  proof (cases "lin_attention lin")
    case None
    with got assms show ?thesis by (simp add: clearAttentionProjection_def)
  next
    case (Some x)
    with got assms row show ?thesis
      by (auto simp: clearAttentionProjection_def lineage_readable_iff lineage_row_update
          intro: mapLineage_attention)
  qed
qed

lemma readable_attention [simp]: "lineage_readable l (update_attention hid f s) = lineage_readable l s"
  and readable_events [simp]: "lineage_readable l (s\<lparr>reg_events := es\<rparr>) = lineage_readable l s"
  by (simp_all add: lineage_readable_iff)

lemma event_progress:
  "attention_row hid s \<noteq> None \<Longrightarrow>
    \<exists>t. recordHumanAttentionEvent hid ty tm m s = Inr t \<and> (\<forall>l. lineage_readable l t = lineage_readable l s)"
  by (simp add: recordHumanAttentionEvent_def)

lemma projected_row:
  "updateAttentionProjection now l hid' r d a s = Inr t \<Longrightarrow> attention_row hid t = attention_row hid s"
  "clearAttentionProjection now l hid' s = Inr t \<Longrightarrow> attention_row hid t = attention_row hid s"
  "recordHumanAttentionEvent hid' ty tm m s = Inr t \<Longrightarrow> attention_row hid t = attention_row hid s"
  by (drule projection_frame, simp add: attention_row_def)+

text \<open>A statement of the protocol: update the request, then its projection, then the event log.\<close>

lemma protocol_step:
  assumes "attention_row hid s = Some r" and "lineage_readable l s"
    and "\<And>x. h_attention_id (f x) = h_attention_id x"
  shows "\<exists>t u. updateAttentionProjection now l hid rs ds a (update_attention hid f s) = Inr t \<and>
      recordHumanAttentionEvent hid ty tm m t = Inr u \<and>
      attention_row hid u = Some (f r) \<and> lineage_readable l u"
    and "\<exists>t u. clearAttentionProjection now l hid (update_attention hid f s) = Inr t \<and>
      recordHumanAttentionEvent hid ty tm m t = Inr u \<and>
      attention_row hid u = Some (f r) \<and> lineage_readable l u"
proof -
  have row: "attention_row hid (update_attention hid f s) = Some (f r)"
    using assms by (simp add: attention_row_update)
  have ready: "lineage_readable l (update_attention hid f s)" using assms(2) by simp
  have event: "\<exists>u. recordHumanAttentionEvent hid ty tm m t = Inr u \<and> attention_row hid u = Some (f r) \<and>
      lineage_readable l u" if t: "attention_row hid t = Some (f r)" "lineage_readable l t" for t
  proof -
    obtain u where "recordHumanAttentionEvent hid ty tm m t = Inr u" "lineage_readable l u"
      using event_progress [of hid t ty tm m] t by auto
    then show ?thesis using projected_row(3) t(1) by metis
  qed
  obtain t where "updateAttentionProjection now l hid rs ds a (update_attention hid f s) = Inr t"
    "lineage_readable l t"
    using projection_progress(1) [OF ready] by blast
  with event row projected_row(1) show
    "\<exists>t u. updateAttentionProjection now l hid rs ds a (update_attention hid f s) = Inr t \<and>
      recordHumanAttentionEvent hid ty tm m t = Inr u \<and>
      attention_row hid u = Some (f r) \<and> lineage_readable l u" by metis
  obtain t where "clearAttentionProjection now l hid (update_attention hid f s) = Inr t"
    "lineage_readable l t"
    using projection_progress(2) [OF ready] by blast
  with event row projected_row(2) show
    "\<exists>t u. clearAttentionProjection now l hid (update_attention hid f s) = Inr t \<and>
      recordHumanAttentionEvent hid ty tm m t = Inr u \<and>
      attention_row hid u = Some (f r) \<and> lineage_readable l u" by metis
qed

lemma protocol_run:
  assumes "attention_row (ri_attentionId input) s = Some r" and "attention_row_ok r"
    and "h_response_state r = Pending" and "response_matches input r"
    and "lineage_readable (h_lineage_id r) s" and "ri_deliveryAttemptId input \<noteq> []"
    and "utf8_length (response_text (ri_response input)) \<le> 128 * 1024"
  shows "\<exists>h1 s1 h2 s2 h3 s3.
    recordHumanAttentionResponse now1 input s = Inr (h1, s1) \<and>
    beginHumanAttentionDelivery now2 (ri_attentionId input) (ri_requestGeneration input) s1 = Inr (h2, s2) \<and>
    acknowledgeHumanAttentionDelivery now3 (ri_attentionId input) (ri_requestGeneration input)
      (ri_deliveryAttemptId input) s2 = Inr (h3, s3) \<and>
    attention_row (ri_attentionId input) s3 = Some h3 \<and> h_response h3 = Some (ri_response input) \<and>
    h_delivery_state h3 = Delivery_Acknowledged"
proof -
  let ?id = "ri_attentionId input"
  let ?r1 = "commit_response input r"
  have none: "h_response r = None" using assms(2,3) by (simp add: attention_row_ok_def)
  have lid: "h_lineage_id r = ri_lineageId input" using assms(4) by (simp add: response_matches_def)
  obtain t1 s1 where 1: "updateAttentionProjection now1 (ri_lineageId input) ?id Responded
      Response_Not_Delivered (Some (ri_deliveryAttemptId input)) (update_attention ?id (commit_response input) s) = Inr t1"
    "recordHumanAttentionEvent ?id Response_Committed (resp_respondedAt (ri_response input))
      [(''deliveryAttemptId'', JStr (ri_deliveryAttemptId input))] t1 = Inr s1"
    "attention_row ?id s1 = Some ?r1" "lineage_readable (h_lineage_id r) s1"
    using protocol_step(1) [OF assms(1,5), of "commit_response input"] lid by fastforce
  have c1: "recordHumanAttentionResponse now1 input s = Inr (?r1, s1)"
    using 1 assms(1,3,4,7) none
    by (simp add: recordHumanAttentionResponse_def getHumanAttentionRequest_def response_matches_def
        commit_response_def [abs_def] Let_def)
  let ?r2 = "request_delivery now2 ?r1"
  obtain t2 s2 where 2: "updateAttentionProjection now2 (h_lineage_id r) ?id Responded
      Delivery_Requested (Some (ri_deliveryAttemptId input)) (update_attention ?id (request_delivery now2) s1) = Inr t2"
    "recordHumanAttentionEvent ?id Event_Delivery_Requested now2
      [(''deliveryAttemptId'', JStr (ri_deliveryAttemptId input))] t2 = Inr s2"
    "attention_row ?id s2 = Some ?r2" "lineage_readable (h_lineage_id r) s2"
    using protocol_step(1) [OF 1(3,4), of "request_delivery now2"] by fastforce
  have c2: "beginHumanAttentionDelivery now2 ?id (ri_requestGeneration input) s1 = Inr (?r2, s2)"
    using 1(3) 2 assms(3,4,6)
    by (simp add: beginHumanAttentionDelivery_def getHumanAttentionRequest_def response_matches_def
        commit_response_def request_delivery_def [abs_def] Let_def)
  let ?r3 = "acknowledge_request now3 ?r2"
  obtain t3 s3 where 3: "clearAttentionProjection now3 (h_lineage_id r) ?id
      (update_attention ?id (acknowledge_request now3) s2) = Inr t3"
    "recordHumanAttentionEvent ?id Event_Delivery_Acknowledged now3
      [(''deliveryAttemptId'', JStr (ri_deliveryAttemptId input))] t3 = Inr s3"
    "attention_row ?id s3 = Some ?r3"
    using protocol_step(2) [OF 2(3,4), of "acknowledge_request now3"] by fastforce
  have c3: "acknowledgeHumanAttentionDelivery now3 ?id (ri_requestGeneration input)
      (ri_deliveryAttemptId input) s2 = Inr (?r3, s3)"
    using 2(3) 3 assms(3,4)
    by (simp add: acknowledgeHumanAttentionDelivery_def getHumanAttentionRequest_def response_matches_def
        commit_response_def request_delivery_def acknowledge_request_def [abs_def] Let_def)
  have "h_response ?r3 = Some (ri_response input) \<and> h_delivery_state ?r3 = Delivery_Acknowledged"
    using assms(3) by (simp add: commit_response_def request_delivery_def acknowledge_request_def)
  with c1 c2 c3 3(3) show ?thesis by blast
qed

text \<open>
  C8: a pending request can be carried to the end, under four conditions: the lineage of the request
  is readable (its stored columns parse), the response names the identity of the request (id,
  generation, Action, run, occurrence, attempt, lineage and native session), its canonical text has
  at most 128 KiB, and its delivery attempt is named. Then the response is committed, its delivery
  begins and is acknowledged, and the request holds that response with the delivery acknowledged.
\<close>

theorem pending_request_completes:
  assumes "attention_row (ri_attentionId input) s = Some r" and "attention_row_ok r"
    and "h_response_state r = Pending" and "response_matches input r"
    and "lineage_readable (h_lineage_id r) s" and "ri_deliveryAttemptId input \<noteq> []"
    and "utf8_length (response_text (ri_response input)) \<le> 128 * 1024"
  shows "\<exists>h1 s1 h2 s2 h3 s3.
    recordHumanAttentionResponse now1 input s = Inr (h1, s1) \<and>
    beginHumanAttentionDelivery now2 (ri_attentionId input) (ri_requestGeneration input) s1 = Inr (h2, s2) \<and>
    acknowledgeHumanAttentionDelivery now3 (ri_attentionId input) (ri_requestGeneration input)
      (ri_deliveryAttemptId input) s2 = Inr (h3, s3) \<and>
    attention_row (ri_attentionId input) s3 = Some h3 \<and> h_response h3 = Some (ri_response input) \<and>
    h_delivery_state h3 = Delivery_Acknowledged"
  by (rule protocol_run [OF assms])

section \<open>A request from registration to acknowledgement\<close>

definition example_attention :: human_attention where
  "example_attention = \<lparr>att_attentionId = ''h1'', att_requestGeneration = 1,
     att_category = ''needs_input'', att_message = ''which branch?'', att_requestedAt = ''t1'',
     att_responseState = Pending, att_deliveryState = Response_Not_Delivered,
     att_deliveryAttemptId = None, att_origin = None, att_interaction = None, att_responseSchema = None\<rparr>"

definition occupied_harness :: harness_lineage where
  "occupied_harness = projr (mapLineage occupied_lineage)"

definition example_registration :: attention_registration where
  "example_registration = \<lparr>regi_dispatch = mapDispatch example_dispatch,
     regi_lineage = occupied_harness, regi_registrationRequestId = ''q1'',
     regi_attention = example_attention, regi_intervention = None, regi_request = JNull,
     regi_recoverability = Rebind_Exact, regi_controllerGeneration = ''g1''\<rparr>"

definition example_request :: HumanAttentionRequestRow where
  "example_request = new_attention_row example_registration example_action ''l1'' None"

definition waiting_state :: registry where
  "waiting_state = occupied_state\<lparr>
     reg_lineages := [occupied_lineage\<lparr>l_session_state := Waiting_For_Human,
       l_attention := Some example_attention, l_intervention := None, l_last_activity_at := ''t1''\<rparr>],
     reg_attention := [example_request],
     reg_events := [\<lparr>e_attention_id = ''h1'', e_event_type = Request_Created,
       e_occurred_at = ''t1'', e_metadata = []\<rparr>]\<rparr>"

lemma occupied_readable:
  "mapLineage occupied_lineage = Inr occupied_harness" "lin_lineageId occupied_harness = ''l1''"
  "lin_activeActionId occupied_harness = Some ''a1''" "lin_nativeSession occupied_harness = None"
  by (simp_all add: occupied_harness_def occupied_lineage_def mapLineage_new)

lemma example_registration_sel [simp]:
  "regi_dispatch example_registration = mapDispatch example_dispatch"
  "regi_lineage example_registration = occupied_harness"
  "regi_registrationRequestId example_registration = ''q1''"
  "regi_attention example_registration = example_attention"
  "regi_intervention example_registration = None" "regi_request example_registration = JNull"
  "att_attentionId example_attention = ''h1''" "att_requestGeneration example_attention = 1"
  "att_requestedAt example_attention = ''t1''"
  by (simp_all add: example_registration_def example_attention_def)

lemma example_request_sel [simp]:
  "h_attention_id example_request = ''h1''" "h_request_generation example_request = 1"
  "h_registration_request_id example_request = ''q1''" "h_action_id example_request = ''a1''"
  "h_run_id example_request = ''run''" "h_occurrence_id example_request = ''occ''"
  "h_attempt_id example_request = ''try1''" "h_lineage_id example_request = ''l1''"
  "h_native_session_id example_request = None" "h_response_state example_request = Pending"
  "h_response example_request = None" "h_delivery_state example_request = Response_Not_Delivered"
  by (simp_all add: example_request_def new_attention_row_def)

lemma occupied_tables:
  "reg_lineages occupied_state = [occupied_lineage]" "reg_events occupied_state = []"
  by (simp_all add: occupied_state_def accepted_state_def)

lemma occupied_owner:
  "l_lineage_id occupied_lineage = ''l1''" "l_active_action_id occupied_lineage = Some ''a1''"
  by (simp_all add: occupied_lineage_def new_lineage_row_def)

lemma example_insert:
  "insert_attention example_request occupied_state =
     Inr (occupied_state\<lparr>reg_attention := [example_request]\<rparr>)"
  by (simp add: insert_attention_def)

lemma waiting_rows [simp]:
  "attention_row h waiting_state = (if h = ''h1'' then Some example_request else None)"
  "reg_attention waiting_state = [example_request]"
  by (simp_all add: waiting_state_def attention_row_def)

lemma example_register:
  "registerHumanAttention example_registration occupied_state = Inr (example_request, waiting_state)"
  by (simp add: registerHumanAttention_def by_registration_def utf8_length_def Let_def
      get_def get_row_def getLineage_def occupied_readable open_state_def nativeSessionPublicId_def
      lift_identity_def example_request_def [symmetric] example_insert recordHumanAttentionEvent_def
      attention_row_def getHumanAttentionRequest_def update_lineage_def waiting_state_def
      occupied_tables occupied_owner)

lemma waiting_state_reachable: "registry_reachable example_cfg waiting_state"
  by (rule registry_reachable.step [OF occupied_state_reachable
        registry_step.register_attention [OF example_register]])

definition example_input :: attention_response_input where
  "example_input = \<lparr>ri_attentionId = ''h1'', ri_requestGeneration = 1, ri_actionId = ''a1'',
     ri_runId = ''run'', ri_occurrenceId = ''occ'', ri_attemptId = ''try1'', ri_lineageId = ''l1'',
     ri_nativeSessionId = None, ri_deliveryAttemptId = ''d1'',
     ri_response = \<lparr>resp_attentionId = ''h1'', resp_requestGeneration = 1, resp_approved = True,
       resp_value = JStr ''main'', resp_respondedAt = ''t2''\<rparr>\<rparr>"

lemma example_input_sel [simp]:
  "ri_attentionId example_input = ''h1''" "ri_requestGeneration example_input = 1"
  "ri_deliveryAttemptId example_input = ''d1''"
  by (simp_all add: example_input_def)

lemma utf8_length_le: "utf8_length s \<le> 2 * length s"
  by (induction s) (auto simp: utf8_length_def)

lemma example_response_small: "utf8_length (response_text (ri_response example_input)) \<le> 128 * 1024"
proof -
  have "show_int 1 = ''1''" by code_simp
  then have "length (stringify (human_attention_response_value (ri_response example_input))) \<le> 200"
    by (simp add: human_attention_response_value_def example_input_def stringify_string_def
        escape_char_def ch_quote_def ch_backslash_def)
  with utf8_length_le [of "stringify (human_attention_response_value (ri_response example_input))"]
  show ?thesis by (simp add: response_text_def utf8_length_canonicalJson)
qed

lemma example_request_ready:
  "attention_row_ok example_request" "response_matches example_input example_request"
  "lineage_readable ''l1'' waiting_state"
proof -
  show "attention_row_ok example_request" by (simp add: example_request_def new_request_ok)
  show "response_matches example_input example_request"
    by (simp add: response_matches_def example_input_def)
  have "lineage_row ''l1'' waiting_state = Some (occupied_lineage\<lparr>l_session_state := Waiting_For_Human,
      l_attention := Some example_attention, l_intervention := None, l_last_activity_at := ''t1''\<rparr>)"
    by (simp add: waiting_state_def lineage_row_def occupied_owner)
  moreover have "occupied_lineage\<lparr>l_session_state := Waiting_For_Human,
      l_attention := Some example_attention, l_intervention := None, l_last_activity_at := ''t1''\<rparr> =
    occupied_lineage\<lparr>l_session_state := Waiting_For_Human,
      l_attention := Some example_attention, l_last_activity_at := ''t1''\<rparr>"
    by (simp add: occupied_lineage_def new_lineage_row_def)
  ultimately show "lineage_readable ''l1'' waiting_state"
    using mapLineage_attention(2) [OF occupied_readable(1)] by (auto simp: lineage_readable_iff)
qed

theorem pending_request_completes_witness:
  "\<exists>h1 s1 h2 s2 h3 s3.
    recordHumanAttentionResponse ''t2'' example_input waiting_state = Inr (h1, s1) \<and>
    beginHumanAttentionDelivery ''t3'' ''h1'' 1 s1 = Inr (h2, s2) \<and>
    acknowledgeHumanAttentionDelivery ''t4'' ''h1'' 1 ''d1'' s2 = Inr (h3, s3) \<and>
    h_delivery_state h3 = Delivery_Acknowledged"
  using pending_request_completes [of example_input waiting_state example_request "''t2''" "''t3''" "''t4''"]
    example_request_ready example_response_small by auto

lemma example_run:
  obtains h1 s1 h2 s2 h3 s3 where
    "recordHumanAttentionResponse ''t2'' example_input waiting_state = Inr (h1, s1)"
    and "beginHumanAttentionDelivery ''t3'' ''h1'' 1 s1 = Inr (h2, s2)"
    and "acknowledgeHumanAttentionDelivery ''t4'' ''h1'' 1 ''d1'' s2 = Inr (h3, s3)"
    and "registry_reachable example_cfg s1" and "registry_reachable example_cfg s2"
    and "registry_step example_cfg s2 s3"
proof -
  have row: "attention_row (ri_attentionId example_input) waiting_state = Some example_request"
    and "h_response_state example_request = Pending" and "lineage_readable (h_lineage_id example_request) waiting_state"
    and "ri_deliveryAttemptId example_input \<noteq> []"
    using example_request_ready(3) by simp_all
  from protocol_run [OF row example_request_ready(1) this(2) example_request_ready(2) this(3,4) example_response_small,
      of "''t2''" "''t3''" "''t4''"]
  obtain h1 s1 h2 s2 h3 s3 where
    c: "recordHumanAttentionResponse ''t2'' example_input waiting_state = Inr (h1, s1)"
      "beginHumanAttentionDelivery ''t3'' ''h1'' 1 s1 = Inr (h2, s2)"
      "acknowledgeHumanAttentionDelivery ''t4'' ''h1'' 1 ''d1'' s2 = Inr (h3, s3)"
    by auto
  have reach1: "registry_reachable example_cfg s1"
    by (rule registry_reachable.step [OF waiting_state_reachable registry_step.record_response [OF c(1)]])
  have reach2: "registry_reachable example_cfg s2"
    by (rule registry_reachable.step [OF reach1 registry_step.begin_delivery [OF c(2)]])
  show thesis
    by (rule that [OF c reach1 reach2 registry_step.acknowledge_delivery [OF c(3)]])
qed

theorem active_request_unique_witness:
  "activeHumanAttentionRequest ''a1'' waiting_state = Some example_request"
  using active_request_unique [OF waiting_state_reachable, of "''a1''" example_request]
  by (simp add: attention_active_def)

theorem request_history_witness:
  "\<exists>h s r. recordHumanAttentionResponse ''t2'' example_input waiting_state = Inr (h, s) \<and>
     attention_row ''h1'' s = Some r \<and> attention_evolves example_request r"
proof (rule example_run)
  fix h1 s1 h2 s2 h3 s3
  assume c1: "recordHumanAttentionResponse ''t2'' example_input waiting_state = Inr (h1, s1)"
  have "attention_row ''h1'' waiting_state = Some example_request" by simp
  from request_history [OF waiting_state_reachable registry_step.record_response [OF c1] this] c1
  show ?thesis by blast
qed

theorem delivery_begins_once_witness:
  "\<exists>s2 s3 h3. acknowledgeHumanAttentionDelivery ''t4'' ''h1'' 1 ''d1'' s2 = Inr (h3, s3) \<and>
     beginHumanAttentionDelivery ''t9'' ''h1'' 1 s3 \<in>
       {Inl Attention_Delivery_Replayed, Inl Attention_Response_Unavailable}"
proof (rule example_run)
  fix h1 s1 h2 s2 h3 s3
  assume c2: "beginHumanAttentionDelivery ''t3'' ''h1'' 1 s1 = Inr (h2, s2)"
    and c3: "acknowledgeHumanAttentionDelivery ''t4'' ''h1'' 1 ''d1'' s2 = Inr (h3, s3)"
    and reach: "registry_reachable example_cfg s1" and step: "registry_step example_cfg s2 s3"
  from delivery_begins_once [OF reach c2 r_into_rtranclp [of "registry_step example_cfg", OF step]] c3
  show ?thesis by blast
qed

lemma response_authoritative_witness:
  "\<exists>h1 s1 e. recordHumanAttentionResponse ''t2'' example_input waiting_state = Inr (h1, s1) \<and>
     recordHumanAttentionResponse ''t9'' (example_input\<lparr>ri_deliveryAttemptId := ''d2''\<rparr>) s1 = Inl e"
proof (rule example_run)
  fix h1 s1 h2 s2 h3 s3
  assume c1: "recordHumanAttentionResponse ''t2'' example_input waiting_state = Inr (h1, s1)"
  from response_authoritative [OF waiting_state_reachable c1 rtranclp.rtrancl_refl,
      of "example_input\<lparr>ri_deliveryAttemptId := ''d2''\<rparr>"] c1
  show ?thesis by auto
qed

theorem settled_request_unblocks_witness:
  "\<exists>s2 h3 s3. acknowledgeHumanAttentionDelivery ''t4'' ''h1'' 1 ''d1'' s2 = Inr (h3, s3) \<and>
     activeHumanAttentionRequest ''a1'' s3 = None"
proof (rule example_run)
  fix h1 s1 h2 s2 h3 s3
  assume c1: "recordHumanAttentionResponse ''t2'' example_input waiting_state = Inr (h1, s1)"
    and c2: "beginHumanAttentionDelivery ''t3'' ''h1'' 1 s1 = Inr (h2, s2)"
    and c3: "acknowledgeHumanAttentionDelivery ''t4'' ''h1'' 1 ''d1'' s2 = Inr (h3, s3)"
    and reach: "registry_reachable example_cfg s2"
  obtain r1 where r1: "attention_row ''h1'' s1 = Some r1" "h_action_id r1 = ''a1''"
    using c1 by (cases rule: record_response_effect)
      (auto simp: request_updated_row commit_response_def)
  obtain r2 where "attention_row ''h1'' s2 = Some r2" "attention_active r2" "h_action_id r2 = ''a1''"
    using c2 r1 by (cases rule: begin_delivery_effect)
      (auto simp: request_updated_row request_delivery_def attention_active_def)
  from settled_request_unblocks [OF reach this(1,2) disjI1 [OF c3]] this(3) c3 show ?thesis by auto
qed

end
