(* ===== verification/Registry_Constraints.thy ===== *)
theory Registry_Constraints
  imports Attention_Properties
begin

text \<open>
  The guards of the registry and the constraints of its schema: an insertion that SQLite would
  refuse is never attempted by an acceptance or by an operation on attention requests, as long as
  the ids that are generated for it are unused. A constraint failure is an untyped error of the
  database, which no caller handles.
\<close>

section \<open>Accepting on a fresh lineage\<close>

text \<open>
  The ids a fresh lineage needs: its id, control path and ownership token are not in use, and the
  logical name it takes does not collide with the names of retired lineages.
\<close>

definition fresh_lineage :: "registry_config \<Rightarrow> string \<Rightarrow> execute_action \<Rightarrow> registry \<Rightarrow> bool" where
  "fresh_lineage cfg uuid action s \<longleftrightarrow>
     list_all (\<lambda>r. l_lineage_id r \<noteq> uuid \<and>
       l_result_control_path r \<noteq> lineageControlPath cfg uuid \<and>
       l_ownership_token r \<noteq> ownership_token cfg (act_worker_id action) uuid) (reg_lineages s) \<and>
     take 8 (ctx_logical_lineage_id (exec_context (act_execution action))) \<noteq> ''retired:'' \<and>
     list_all (\<lambda>r. list_all (\<lambda>q. l_logical_lineage_id q = ''retired:'' @ l_lineage_id r \<longrightarrow>
       l_lineage_id q = l_lineage_id r) (reg_lineages s)) (reg_lineages s)"

lemma by_logical_Some:
  "by_logical x s = Some r \<Longrightarrow> r \<in> set (reg_lineages s) \<and> l_logical_lineage_id r = x"
  by (auto simp: by_logical_def find_Some_iff)

lemma by_logical_None: "by_logical x s = None \<longleftrightarrow> (\<forall>r \<in> set (reg_lineages s). l_logical_lineage_id r \<noteq> x)"
  by (auto simp: by_logical_def find_None_iff)

text \<open>What an update of a lineage leaves alone: its id, control path and ownership token.\<close>

definition same_lineage :: "LineageRow \<Rightarrow> LineageRow \<Rightarrow> bool" where
  "same_lineage q r \<longleftrightarrow> l_lineage_id q = l_lineage_id r \<and>
     l_result_control_path q = l_result_control_path r \<and> l_ownership_token q = l_ownership_token r"

lemma set_lineages_update:
  "q \<in> set (reg_lineages (update_lineage l f s)) \<Longrightarrow>
     \<exists>r \<in> set (reg_lineages s). q = (if l_lineage_id r = l then f r else r)"
  by (auto simp: update_lineage_def set_update_where split: if_splits)

lemma set_lineages_release:
  "q \<in> set (reg_lineages (release_lineage now l a s)) \<Longrightarrow>
     \<exists>r \<in> set (reg_lineages s). same_lineage q r \<and> l_logical_lineage_id q = l_logical_lineage_id r"
  by (auto simp: release_lineage_def same_lineage_def dest!: set_lineages_update)

text \<open>The retirement of the previous lineage of a logical name: what it renames, after which release.\<close>

lemma retire_resolved_cases:
  obtains (none) "by_logical (ctx_logical_lineage_id (exec_context (act_execution action))) s = None" "retireResolvedFreshLineage now action s = Inr s"
    | (busy) "retireResolvedFreshLineage now action s = Inl (Logical_Lineage_Busy (ctx_logical_lineage_id (exec_context (act_execution action))))"
    | (rename) e t where "by_logical (ctx_logical_lineage_id (exec_context (act_execution action))) s = Some e"
      "retireResolvedFreshLineage now action s = rename_logical (l_lineage_id e) (''retired:'' @ l_lineage_id e) t"
      "\<And>q. q \<in> set (reg_lineages t) \<Longrightarrow>
        \<exists>r \<in> set (reg_lineages s). same_lineage q r \<and> l_logical_lineage_id q = l_logical_lineage_id r"
proof -
  let ?L = "ctx_logical_lineage_id (exec_context (act_execution action))"
  show thesis
  proof (cases "by_logical ?L s")
    case None
    then show thesis by (intro none) (simp_all add: retireResolvedFreshLineage_def)
  next
    case (Some e)
    have self: "\<And>q. q \<in> set (reg_lineages s) \<Longrightarrow>
        \<exists>r \<in> set (reg_lineages s). same_lineage q r \<and> l_logical_lineage_id q = l_logical_lineage_id r"
      by (auto simp: same_lineage_def)
    show thesis
    proof (cases "last_of_occurrence (act_occurrence_id action) s")
      case None
      with Some show thesis by (intro busy) (simp add: retireResolvedFreshLineage_def Let_def)
    next
      case (Some p)
      let ?w = "retained_work_recovery action (Some p) e"
      let ?t = "if ?w then release_lineage now (l_lineage_id e) (d_action_id p) s else s"
      have eq: "retireResolvedFreshLineage now action s = Inl (Logical_Lineage_Busy ?L) \<or>
          retireResolvedFreshLineage now action s = rename_logical (l_lineage_id e) (''retired:'' @ l_lineage_id e) ?t"
        using \<open>by_logical ?L s = Some e\<close> Some by (simp only: retireResolvedFreshLineage_def Let_def option.case) auto
      moreover have "\<exists>r \<in> set (reg_lineages s). same_lineage q r \<and> l_logical_lineage_id q = l_logical_lineage_id r"
        if "q \<in> set (reg_lineages ?t)" for q
        using that self set_lineages_release by (cases ?w) auto
      ultimately show thesis using busy rename [OF \<open>by_logical ?L s = Some e\<close>] by blast
    qed
  qed
qed

lemma retire_resolved_fresh:
  assumes "schema_ok s" and fresh: "fresh_lineage cfg uuid action s"
  shows "retireResolvedFreshLineage now action s \<noteq> Inl Constraint_Violation"
    and "retireResolvedFreshLineage now action s = Inr s' \<Longrightarrow> q \<in> set (reg_lineages s') \<Longrightarrow>
      l_logical_lineage_id q \<noteq> ctx_logical_lineage_id (exec_context (act_execution action)) \<and>
      (\<exists>r \<in> set (reg_lineages s). same_lineage q r)"
proof -
  let ?L = "ctx_logical_lineage_id (exec_context (act_execution action))"
  let ?retired = "\<lambda>e :: LineageRow. ''retired:'' @ l_lineage_id e"
  have distinct: "distinct (map l_logical_lineage_id (reg_lineages s))"
    using assms(1) by (simp add: schema_ok_def lineage_keys_ok_def)
  have own: "l_lineage_id q = l_lineage_id r"
    if "q \<in> set (reg_lineages s)" "r \<in> set (reg_lineages s)" "l_logical_lineage_id q = ?retired r" for q r
    using that fresh unfolding fresh_lineage_def list_all_iff by blast
  have "take 8 ?L \<noteq> ''retired:''" using fresh unfolding fresh_lineage_def by blast
  moreover have "take 8 (?retired e) = ''retired:''" for e by simp
  ultimately have new: "?retired e \<noteq> ?L" for e by metis
  show "retireResolvedFreshLineage now action s \<noteq> Inl Constraint_Violation"
  proof (cases rule: retire_resolved_cases [of action s now])
    case (rename e t)
    have "l_lineage_id q = l_lineage_id e" if q: "q \<in> set (reg_lineages t)" "l_logical_lineage_id q = ?retired e" for q
    proof -
      obtain r where "r \<in> set (reg_lineages s)" "same_lineage q r" "l_logical_lineage_id q = l_logical_lineage_id r"
        using rename(3) [OF q(1)] by blast
      then show ?thesis
        using own [of r e] q(2) by_logical_Some [OF rename(1)] by (simp add: same_lineage_def)
    qed
    then show ?thesis by (auto simp: rename(2) rename_logical_def)
  qed simp_all
  assume r: "retireResolvedFreshLineage now action s = Inr s'" and q: "q \<in> set (reg_lineages s')"
  show "l_logical_lineage_id q \<noteq> ?L \<and> (\<exists>r \<in> set (reg_lineages s). same_lineage q r)"
  proof (cases rule: retire_resolved_cases [of action s now])
    case none
    then show ?thesis using r q by (auto simp: by_logical_None same_lineage_def)
  next
    case busy
    then show ?thesis using r by simp
  next
    case (rename e t)
    from r [unfolded rename(2) rename_logical_Inr]
    have "s' = update_lineage (l_lineage_id e) (\<lambda>r. r\<lparr>l_logical_lineage_id := ?retired e\<rparr>) t" ..
    with q obtain x where x: "x \<in> set (reg_lineages t)"
      "q = (if l_lineage_id x = l_lineage_id e then x\<lparr>l_logical_lineage_id := ?retired e\<rparr> else x)"
      by (blast dest: set_lineages_update)
    obtain y where y: "y \<in> set (reg_lineages s)" "same_lineage x y" "l_logical_lineage_id x = l_logical_lineage_id y"
      using rename(3) [OF x(1)] by blast
    have "l_logical_lineage_id y \<noteq> ?L" if "l_lineage_id y \<noteq> l_lineage_id e"
      using that distinct y(1) by_logical_Some [OF rename(1)]
        distinct_keys_unique [of l_logical_lineage_id "reg_lineages s" y e] by auto
    moreover have "same_lineage q y" using x(2) y(2) by (simp add: same_lineage_def)
    ultimately show ?thesis using x(2) y new
      by (cases "l_lineage_id x = l_lineage_id e") (auto simp: same_lineage_def intro: bexI [of _ y])
  qed
qed

text \<open>The statements on lineages leave the dispatches alone.\<close>

lemma transaction_keeps_dispatches:
  assumes "transaction K s t" and "Update_Dispatch \<notin> K" and "Insert_Dispatch \<notin> K"
  shows "reg_dispatches t = reg_dispatches s"
  using assms(1) unfolding transaction_def
proof (induction rule: rtranclp_induct)
  case (step u v)
  then obtain k where k: "k \<in> K" and statement: "statement k u v" by blast
  from statement have "reg_dispatches v = reg_dispatches u"
    using k assms(2,3)
    by (cases rule: statement.cases) (auto simp: insertions)
  with step.IH show ?case by simp
qed simp

lemma insert_lineage_free:
  assumes "\<And>q. q \<in> set (reg_lineages s) \<Longrightarrow>
      l_lineage_id q \<noteq> l_lineage_id row \<and> l_logical_lineage_id q \<noteq> l_logical_lineage_id row \<and>
      l_result_control_path q \<noteq> l_result_control_path row \<and> l_ownership_token q \<noteq> l_ownership_token row"
  shows "insert_lineage row s \<noteq> Inl Constraint_Violation"
  using assms by (auto simp: insert_lineage_def)

lemma choose_lineage_fresh:
  assumes "schema_ok s" and "fresh_lineage cfg uuid action s"
  shows "choose_lineage cfg now uuid action s \<noteq> Inl Constraint_Violation"
    and "choose_lineage cfg now uuid action s = Inr (l, s') \<Longrightarrow> known_lineage l s'"
proof -
  let ?row = "new_lineage_row cfg now uuid (ctx_logical_lineage_id (exec_context (act_execution action)))
    (physicalConfiguration action) (model_provider (conf_model (exec_configuration (act_execution action))))
    (requested_harness cfg action) (act_worker_id action) None"
  have insert: "insert_lineage ?row t \<noteq> Inl Constraint_Violation"
    if t: "retireResolvedFreshLineage now action s = Inr t" for t
  proof -
    note kept = retire_resolved_fresh(2) [OF assms t]
    have "l_lineage_id q \<noteq> l_lineage_id ?row \<and> l_logical_lineage_id q \<noteq> l_logical_lineage_id ?row \<and>
        l_result_control_path q \<noteq> l_result_control_path ?row \<and> l_ownership_token q \<noteq> l_ownership_token ?row"
      if "q \<in> set (reg_lineages t)" for q
    proof -
      obtain r where "r \<in> set (reg_lineages s)" "same_lineage q r"
        using kept [OF \<open>q \<in> set (reg_lineages t)\<close>] by blast
      then have "l_lineage_id q \<noteq> uuid \<and> l_result_control_path q \<noteq> lineageControlPath cfg uuid \<and>
          l_ownership_token q \<noteq> ownership_token cfg (act_worker_id action) uuid"
        using assms(2) by (simp add: fresh_lineage_def list_all_iff same_lineage_def)
      then show ?thesis
        using kept [OF \<open>q \<in> set (reg_lineages t)\<close>] by (simp add: new_lineage_row_def)
    qed
    then show ?thesis by (intro insert_lineage_free) blast
  qed
  show "choose_lineage cfg now uuid action s \<noteq> Inl Constraint_Violation"
    using retire_resolved_fresh(1) [OF assms, of now] insert
    by (auto simp: choose_lineage_def Let_def bind_result_eq_Inl split: option.splits if_splits)
  show "known_lineage l s'" if "choose_lineage cfg now uuid action s = Inr (l, s')"
    using that
    by (auto simp: choose_lineage_def Let_def known_lineage_def lineage_incompatible_def insertions
        new_lineage_row_def elim!: bind_result_InrE split: option.splits if_splits)
qed

lemma no_constraint_parts [simp]:
  "get x s \<noteq> Inl Constraint_Violation" "getLineage x s \<noteq> Inl Constraint_Violation"
  "getHumanAttentionRequest x s \<noteq> Inl Constraint_Violation"
  "lift_requirement q \<noteq> Inl Constraint_Violation" "lift_identity i \<noteq> Inl Constraint_Violation"
  by (auto simp: get_def get_row_def getHumanAttentionRequest_def lift_requirement_def lift_identity_def
      getLineage_def mapLineage_def persistedCapabilities_def persistedExecutionHandle_def bind_result_eq_Inl
      split: option.splits sum.splits stored_text.splits json.splits if_splits)

lemma accept_no_constraint:
  assumes "schema_ok s" and "fresh_lineage cfg uuid action s"
  shows "accept cfg now uuid nonce action s \<noteq> Inl Constraint_Violation"
proof -
  have "dispatch_row x t = dispatch_row x s" if "choose_lineage cfg now uuid action s = Inr (l, t)" for l t x
    using transaction_keeps_dispatches [OF tx_choose [OF that]] by (simp add: dispatch_row_def)
  then show ?thesis
    using choose_lineage_fresh [OF assms, of now]
    by (auto simp: accept_def Let_def bind_result_eq_Inl insert_dispatch_def new_dispatch_row_def
        split: option.splits if_splits)
qed

section \<open>Attention requests\<close>

lemma register_no_constraint:
  assumes "schema_ok s" and "attention_row (att_attentionId (regi_attention input)) s = None"
  shows "registerHumanAttention input s \<noteq> Inl Constraint_Violation"
proof -
  have key: "act_action_id (rec_action d) = a" "dispatch_row a s \<noteq> None" if "get a s = Inr d" for a d
    using that assms(1)
    by (auto simp: get_Inr schema_ok_def dispatch_keys_ok_def list_all_iff dispatch_row_def
        dest: lookup_row_SomeD)
  have lineage: "lineage_row l s \<noteq> None" "lin_lineageId x = l" if "getLineage l s = Inr x" for l x
    using that by (auto simp: getLineage_def mapLineage_def bind_result_eq_Inr
        split: option.splits dest: lineages.lookup_key)
  have fresh: "h_attention_id r \<noteq> att_attentionId (regi_attention input)" if "r \<in> set (reg_attention s)" for r
    using assms(2) that by (auto simp: attention_row_def lookup_row_None_iff image_iff)
  have insert: "insert_attention (new_attention_row input action l n) s \<noteq> Inl Constraint_Violation"
    if "by_registration (regi_registrationRequestId input) s = None" "att_requestGeneration (regi_attention input) = 1"
      "\<not> (\<exists>r \<in> set (reg_attention s). h_action_id r = act_action_id action \<and> attention_active r)"
      "dispatch_row (act_action_id action) s \<noteq> None" "lineage_row l s \<noteq> None" for action l n
    using that fresh by (auto simp: insert_attention_def new_attention_row_def by_registration_def find_None_iff)
  have event: "recordHumanAttentionEvent (att_attentionId (regi_attention input)) e at m
      (update_lineage l f t) \<noteq> Inl Constraint_Violation"
    if "insert_attention (new_attention_row input action l n) s = Inr t" for action l n t e at m f
    using that by (auto simp: insert_attention_Inr recordHumanAttentionEvent_def new_attention_row_def split: option.splits)
  show ?thesis
    using insert event key lineage
    by (auto simp: registerHumanAttention_def Let_def bind_result_eq_Inl split: option.splits if_splits)
qed

text \<open>The later events of a request are recorded after its row was read, and rows are never deleted.\<close>

lemma projection_attention:
  "updateAttentionProjection now l h r d a s = Inr s' \<Longrightarrow> attention_row x s' = attention_row x s"
  "clearAttentionProjection now l h s = Inr s' \<Longrightarrow> attention_row x s' = attention_row x s"
  by (auto simp: updateAttentionProjection_def clearAttentionProjection_def bind_result_eq_Inr
      split: option.splits if_splits)

lemma projection_no_constraint:
  "updateAttentionProjection now l h r d a s \<noteq> Inl Constraint_Violation"
  "clearAttentionProjection now l h s \<noteq> Inl Constraint_Violation"
  by (auto simp: updateAttentionProjection_def clearAttentionProjection_def bind_result_eq_Inl
      split: option.splits if_splits)

lemma event_no_constraint:
  "attention_row h s \<noteq> None \<Longrightarrow> recordHumanAttentionEvent h e at m s \<noteq> Inl Constraint_Violation"
  by (simp add: recordHumanAttentionEvent_def)

lemmas delivery_no_constraint = bind_result_eq_Inl projection_no_constraint event_no_constraint projection_attention
  getHumanAttentionRequest_def attention_row_update

lemma response_no_constraint: "recordHumanAttentionResponse now ri s \<noteq> Inl Constraint_Violation"
  by (auto simp: recordHumanAttentionResponse_def Let_def delivery_no_constraint split: option.splits if_splits)

lemma begin_no_constraint: "beginHumanAttentionDelivery now hid gen s \<noteq> Inl Constraint_Violation"
  by (auto simp: beginHumanAttentionDelivery_def Let_def delivery_no_constraint split: option.splits if_splits)

lemma acknowledge_no_constraint: "acknowledgeHumanAttentionDelivery now hid gen did s \<noteq> Inl Constraint_Violation"
  by (auto simp: acknowledgeHumanAttentionDelivery_def Let_def delivery_no_constraint split: option.splits if_splits)

lemma uncertain_no_constraint: "markHumanAttentionDeliveryUncertain now hid reason s \<noteq> Inl Constraint_Violation"
  by (auto simp: markHumanAttentionDeliveryUncertain_def Let_def delivery_no_constraint split: option.splits if_splits)

lemma cancel_no_constraint: "cancelHumanAttention now hid reason w s \<noteq> Inl Constraint_Violation"
  by (auto simp: cancelHumanAttention_def Let_def delivery_no_constraint split: option.splits if_splits)

text \<open>
  C3: the guards of the registry come before the constraints of its schema: in every reachable
  state the database refuses none of its statements, neither of the acceptance of an Action whose
  lineage gets unused ids, nor of the registration of an attention request under an unused
  attention id, nor of a response, the begin, acknowledgement or loss of a delivery, or a
  withdrawal. Whatever is refused is refused by a named check of the code.
\<close>

theorem guards_precede_constraints:
  assumes "registry_reachable cfg s" and "fresh_lineage cfg uuid action s"
    and "attention_row (att_attentionId (regi_attention input)) s = None"
  shows "accept cfg now uuid nonce action s \<noteq> Inl Constraint_Violation \<and>
    registerHumanAttention input s \<noteq> Inl Constraint_Violation \<and>
    recordHumanAttentionResponse now response s \<noteq> Inl Constraint_Violation \<and>
    beginHumanAttentionDelivery now h generation s \<noteq> Inl Constraint_Violation \<and>
    acknowledgeHumanAttentionDelivery now h generation attempt s \<noteq> Inl Constraint_Violation \<and>
    markHumanAttentionDeliveryUncertain now h reason s \<noteq> Inl Constraint_Violation \<and>
    cancelHumanAttention now h reason w s \<noteq> Inl Constraint_Violation"
  using accept_no_constraint [OF reachable_schema_ok [OF assms(1)] assms(2)]
    register_no_constraint [OF reachable_schema_ok [OF assms(1)] assms(3)]
  by (simp add: response_no_constraint begin_no_constraint acknowledge_no_constraint
      uncertain_no_constraint cancel_no_constraint)

theorem guards_precede_constraints_witness:
  "accept example_cfg ''t9'' ''l2'' ''n9'' (example_action\<lparr>act_action_id := ''a2''\<rparr>) waiting_state \<noteq>
     Inl Constraint_Violation \<and>
   registerHumanAttention (example_registration\<lparr>regi_registrationRequestId := ''q2'',
     regi_attention := example_attention\<lparr>att_attentionId := ''h2''\<rparr>\<rparr>) waiting_state \<noteq> Inl Constraint_Violation"
proof -
  have lineages: "reg_lineages waiting_state = [occupied_lineage\<lparr>l_session_state := Waiting_For_Human,
      l_attention := Some example_attention, l_intervention := None, l_last_activity_at := ''t1''\<rparr>]"
    by (simp add: waiting_state_def)
  have "fresh_lineage example_cfg ''l2'' (example_action\<lparr>act_action_id := ''a2''\<rparr>) waiting_state"
    by (simp add: fresh_lineage_def lineages occupied_lineage_def new_lineage_row_def lineageControlPath_def
        ownership_token_def example_cfg_def)
  moreover have "attention_row (att_attentionId (regi_attention (example_registration\<lparr>regi_registrationRequestId := ''q2'',
      regi_attention := example_attention\<lparr>att_attentionId := ''h2''\<rparr>\<rparr>))) waiting_state = None"
    by simp
  ultimately show ?thesis
    using guards_precede_constraints [OF waiting_state_reachable] by blast
qed

end
