(* ===== verification/Turn_Lifecycle.thy ===== *)
theory Turn_Lifecycle
  imports Registry_State
begin

text \<open>
  The lifecycle of one turn of an agent: the phase reported for a dispatch (\<^verbatim>\<open>turnLifecycle\<close> of
  \<^verbatim>\<open>dispatch/registry.ts\<close>), the phase clock of structured completion and the native evidence readers
  of \<^verbatim>\<open>harnesses/turn-lifecycle.ts\<close>, and the conversion of provider exceptions into operational
  failures (\<^verbatim>\<open>operationalHarnessError\<close> of \<^verbatim>\<open>harnesses/types.ts\<close>). A clock reading is an argument; a
  transcript is the list of its lines, each the JSON value it parses to or garbage.
\<close>

section \<open>The phase of a dispatch\<close>

datatype turn_phase =
    Preparing | Prompt_Intent | Waiting_Activity | Working | Awaiting_Result | Blocked
  | Turn_Stalled | Settled | Turn_Uncertain

record turn_lifecycle =
  turn_phase_of :: turn_phase
  turn_promptIntentAt :: "string option"
  turn_promptAcceptedAt :: "string option"
  turn_nativeActivityAt :: "string option"
  turn_providerTurnSettledAt :: "string option"
  turn_nativeIdleAt :: "string option"
  turn_structuredResultReceivedAt :: "string option"
  turn_stalledAt :: "string option"
  turn_settledAt :: "string option"

definition turnLifecycle ::
  "dispatch_record \<Rightarrow> session_state option \<Rightarrow> human_attention option \<Rightarrow> turn_lifecycle" where
  "turnLifecycle dispatch sessionState attention = \<lparr>
     turn_phase_of =
       (if rec_state dispatch = Completed \<or> rec_state dispatch = Failed \<or> truthy (rec_settledAt dispatch)
        then Settled
        else if rec_state dispatch = Uncertain then Turn_Uncertain
        else if attention \<noteq> None \<or> sessionState = Some Waiting_For_Human then Blocked
        else if truthy (rec_nativeIdleAt dispatch) then Awaiting_Result
        else if truthy (rec_nativeActivityAt dispatch) then Working
        else if sessionState = Some Session_Stalled \<or> truthy (rec_stalledAt dispatch) then Turn_Stalled
        else if truthy (rec_promptAcceptedAt dispatch) then Waiting_Activity
        else if truthy (rec_promptIntentAt dispatch) then Prompt_Intent
        else Preparing),
     turn_promptIntentAt = rec_promptIntentAt dispatch,
     turn_promptAcceptedAt = rec_promptAcceptedAt dispatch,
     turn_nativeActivityAt = rec_nativeActivityAt dispatch,
     turn_providerTurnSettledAt = rec_providerTurnSettledAt dispatch,
     turn_nativeIdleAt = rec_nativeIdleAt dispatch,
     turn_structuredResultReceivedAt = rec_structuredResultReceivedAt dispatch,
     turn_stalledAt = rec_stalledAt dispatch,
     turn_settledAt = rec_settledAt dispatch\<rparr>"

section \<open>StructuredCompletionWaitPolicy\<close>

datatype wait_phase =
    Provider_Active | Awaiting_Structured_Completion | Continuation_Active | Exporting
  | Wait_Completed | Wait_Terminal

record wait_policy =
  wait_graceMs :: int
  wait_phase_value :: wait_phase
  wait_deadline :: "int option"

definition wait_policy_new :: "int \<Rightarrow> wait_policy" where
  "wait_policy_new graceMs =
     \<lparr>wait_graceMs = graceMs, wait_phase_value = Provider_Active, wait_deadline = None\<rparr>"

definition wait_closed :: "wait_policy \<Rightarrow> bool" where
  "wait_closed w \<longleftrightarrow> wait_phase_value w \<in> {Exporting, Wait_Completed, Wait_Terminal}"

definition providerActive :: "wait_policy \<Rightarrow> wait_policy" where
  "providerActive w = (if wait_closed w then w
     else w\<lparr>wait_phase_value := Provider_Active, wait_deadline := None\<rparr>)"

definition providerSettled :: "int \<Rightarrow> wait_policy \<Rightarrow> wait_policy" where
  "providerSettled now w = (if wait_closed w then w
     else if wait_phase_value w \<noteq> Awaiting_Structured_Completion \<or> wait_deadline w = None
     then w\<lparr>wait_phase_value := Awaiting_Structured_Completion,
       wait_deadline := Some (now + max 1 (wait_graceMs w))\<rparr>
     else w)"

definition continuationStarted :: "wait_policy \<Rightarrow> wait_policy" where
  "continuationStarted w = (if wait_closed w then w
     else w\<lparr>wait_phase_value := Continuation_Active, wait_deadline := None\<rparr>)"

definition resultAccepted :: "wait_policy \<Rightarrow> wait_policy" where
  "resultAccepted w = (if wait_phase_value w = Wait_Terminal then w
     else w\<lparr>wait_phase_value := Exporting, wait_deadline := None\<rparr>)"

definition exportCompleted :: "wait_policy \<Rightarrow> wait_policy" where
  "exportCompleted w = (if wait_phase_value w = Wait_Terminal then w
     else w\<lparr>wait_phase_value := Wait_Completed, wait_deadline := None\<rparr>)"

definition terminal :: "wait_policy \<Rightarrow> wait_policy" where
  "terminal w = w\<lparr>wait_phase_value := Wait_Terminal, wait_deadline := None\<rparr>"

definition expired :: "int \<Rightarrow> wait_policy \<Rightarrow> bool" where
  "expired now w \<longleftrightarrow> wait_phase_value w = Awaiting_Structured_Completion \<and>
     (case wait_deadline w of None \<Rightarrow> False | Some d \<Rightarrow> d \<le> now)"

section \<open>Evidence of the prompt\<close>

datatype evidence_kind = Pi_Transcript | Pi_Runtime_State | Antigravity_Log | Claude_Stream

fun evidence_kind_text :: "evidence_kind \<Rightarrow> string" where
  "evidence_kind_text Pi_Transcript = ''pi_transcript''"
| "evidence_kind_text Pi_Runtime_State = ''pi_runtime_state''"
| "evidence_kind_text Antigravity_Log = ''antigravity_log''"
| "evidence_kind_text Claude_Stream = ''claude_stream''"

record prompt_evidence_cursor =
  pec_kind :: evidence_kind
  pec_cursor :: int
  pec_providerTurnCursor :: "int option"
  pec_promptHash :: string

definition safe_integer :: "int \<Rightarrow> bool" where
  "safe_integer i \<longleftrightarrow> - (2 ^ 53) < i \<and> i < 2 ^ 53"

fun json_safe_nat :: "json option \<Rightarrow> int option" where
  "json_safe_nat (Some (JNum i)) = (if safe_integer i \<and> 0 \<le> i then Some i else None)"
| "json_safe_nat _ = None"

text \<open>\<^verbatim>\<open>stat\<close> gives the size of the file, or reports that it does not exist.\<close>

definition promptEvidenceCursor ::
  "(string \<Rightarrow> string) \<Rightarrow> evidence_kind \<Rightarrow> int option \<Rightarrow> string \<Rightarrow> prompt_evidence_cursor" where
  "promptEvidenceCursor digest kind fileSize prompt =
     \<lparr>pec_kind = kind, pec_cursor = (case fileSize of None \<Rightarrow> 0 | Some n \<Rightarrow> n),
      pec_providerTurnCursor = None, pec_promptHash = digest prompt\<rparr>"

definition persistedPromptEvidence ::
  "(string \<Rightarrow> string) \<Rightarrow> dispatch_record \<Rightarrow> evidence_kind \<Rightarrow> string \<Rightarrow> prompt_evidence_cursor option" where
  "persistedPromptEvidence digest dispatch kind prompt =
     (case rec_promptEvidence dispatch of
        None \<Rightarrow> None
      | Some value \<Rightarrow>
          if member value ''kind'' \<noteq> Some (JStr (evidence_kind_text kind)) \<or>
             json_safe_nat (member value ''cursor'') = None \<or>
             member value ''promptHash'' \<noteq> Some (JStr (digest prompt))
          then None
          else Some \<lparr>pec_kind = kind,
            pec_cursor = the (json_safe_nat (member value ''cursor'')),
            pec_providerTurnCursor = json_safe_nat (member value ''providerTurnCursor''),
            pec_promptHash = digest prompt\<rparr>)"

text \<open>The record that \<^verbatim>\<open>recordPromptEvidence\<close> stores for a cursor.\<close>

definition evidence_record :: "prompt_evidence_cursor \<Rightarrow> json_record" where
  "evidence_record e =
     [(''kind'', JStr (evidence_kind_text (pec_kind e))), (''cursor'', JNum (pec_cursor e))]
     @ (case pec_providerTurnCursor e of None \<Rightarrow> [] | Some n \<Rightarrow> [(''providerTurnCursor'', JNum n)])
     @ [(''promptHash'', JStr (pec_promptHash e))]"

section \<open>Native transcripts\<close>

record native_turn_activity =
  nta_working :: bool
  nta_observedAt :: "string option"
  nta_nativeSession :: "native_session_ref option"

definition no_activity :: native_turn_activity where
  "no_activity = \<lparr>nta_working = False, nta_observedAt = None, nta_nativeSession = None\<rparr>"

fun obj_member :: "json \<Rightarrow> string \<Rightarrow> json option" where
  "obj_member (JObj es) k = member es k"
| "obj_member _ _ = None"

fun is_JObj :: "json \<Rightarrow> bool" where
  "is_JObj (JObj _) = True"
| "is_JObj _ = False"

definition text_item :: "json \<Rightarrow> string" where
  "text_item item =
     (if obj_member item ''type'' = Some (JStr ''text'')
      then case obj_member item ''text'' of Some (JStr t) \<Rightarrow> t | _ \<Rightarrow> []
      else [])"

definition messageText :: "json \<Rightarrow> string" where
  "messageText message =
     (case obj_member message ''content'' of
        Some (JArr items) \<Rightarrow> concat (map text_item items)
      | _ \<Rightarrow> [])"

text \<open>A line that parses to a message with a role; every other line is skipped.\<close>

fun line_message :: "stored_text \<Rightarrow> (json \<times> json) option" where
  "line_message (Stored value) =
     (case (obj_member value ''type'', obj_member value ''message'') of
        (Some (JStr t), Some message) \<Rightarrow>
          if t = ''message'' \<and> is_JObj message then Some (value, message) else None
      | _ \<Rightarrow> None)"
| "line_message (Garbage _) = None"

definition is_prompt_line :: "string \<Rightarrow> stored_text \<Rightarrow> bool" where
  "is_prompt_line prompt line =
     (case line_message line of
        None \<Rightarrow> False
      | Some (_, message) \<Rightarrow>
          obj_member message ''role'' = Some (JStr ''user'') \<and> messageText message = prompt)"

definition is_reply_line :: "stored_text \<Rightarrow> bool" where
  "is_reply_line line =
     (case line_message line of
        None \<Rightarrow> False
      | Some (_, message) \<Rightarrow> obj_member message ''role'' = Some (JStr ''assistant''))"

text \<open>\<^verbatim>\<open>Date.parse\<close> is the argument \<open>date\<close>; \<^verbatim>\<open>NaN\<close> is \<open>None\<close>.\<close>

definition line_timestamp :: "(string \<Rightarrow> int option) \<Rightarrow> stored_text \<Rightarrow> string option" where
  "line_timestamp date line =
     (case line of
        Stored value \<Rightarrow>
          (case obj_member value ''timestamp'' of
             Some (JStr s) \<Rightarrow> if date s = None then None else Some s
           | _ \<Rightarrow> None)
      | Garbage _ \<Rightarrow> None)"

text \<open>
  \<^verbatim>\<open>value.type\<close> of a line that parses to \<^verbatim>\<open>null\<close> throws a \<^verbatim>\<open>TypeError\<close> that nothing catches: the
  observation is then \<open>None\<close>.
\<close>

fun scan_transcript ::
  "(string \<Rightarrow> int option) \<Rightarrow> string \<Rightarrow> string \<Rightarrow> bool \<Rightarrow> stored_text list \<Rightarrow> native_turn_activity option" where
  "scan_transcript date now prompt matchingUserSeen [] = Some no_activity"
| "scan_transcript date now prompt matchingUserSeen (line # lines) =
     (if line = Stored JNull then None
      else if is_prompt_line prompt line then scan_transcript date now prompt True lines
      else if matchingUserSeen \<and> is_reply_line line
      then Some \<lparr>nta_working = True,
        nta_observedAt = Some (case line_timestamp date line of None \<Rightarrow> now | Some s \<Rightarrow> s),
        nta_nativeSession = None\<rparr>
      else scan_transcript date now prompt matchingUserSeen lines)"

text \<open>
  \<^verbatim>\<open>text.split("\n").filter(Boolean)\<close>: the maximal runs without a newline. A file is its bytes;
  \<open>decode\<close> is the UTF-8 decoder and \<open>None\<close> a file that is missing or cannot be read.
\<close>

fun split_newlines :: "string \<Rightarrow> string \<Rightarrow> string list" where
  "split_newlines acc [] = [rev acc]"
| "split_newlines acc (c # cs) =
     (if c = CHR 0x0A then rev acc # split_newlines [] cs else split_newlines (c # acc) cs)"

definition appendedLines :: "(string \<Rightarrow> string) \<Rightarrow> string option \<Rightarrow> int \<Rightarrow> string list" where
  "appendedLines decode contents cursor =
     (case contents of
        None \<Rightarrow> []
      | Some bytes \<Rightarrow>
          if int (length bytes) \<le> cursor then []
          else filter (\<lambda>line. line \<noteq> []) (split_newlines [] (decode (drop (nat cursor) bytes))))"

text \<open>\<open>parse\<close> is \<^verbatim>\<open>JSON.parse\<close> with its exception.\<close>

definition observePiNativeActivity ::
  "(string \<Rightarrow> stored_text) \<Rightarrow> (string \<Rightarrow> string) \<Rightarrow> (string \<Rightarrow> int option) \<Rightarrow> (string \<Rightarrow> string) \<Rightarrow>
   string \<Rightarrow> string option \<Rightarrow> prompt_evidence_cursor \<Rightarrow> string \<Rightarrow> native_turn_activity option" where
  "observePiNativeActivity parse decode date digest now transcript evidence prompt =
     (if pec_promptHash evidence \<noteq> digest prompt then Some no_activity
      else scan_transcript date now prompt False
        (map parse (appendedLines decode transcript (pec_cursor evidence))))"

section \<open>The Antigravity log\<close>

definition decimal_char :: "char \<Rightarrow> bool" where
  "decimal_char c = (let n = (of_char c :: nat) in 48 \<le> n \<and> n \<le> 57)"

definition hex_char :: "char \<Rightarrow> bool" where
  "hex_char c = (let n = (of_char (ascii_lower c) :: nat) in decimal_char c \<or> (97 \<le> n \<and> n \<le> 102))"

text \<open>A literal of a pattern with the flag \<^verbatim>\<open>i\<close>: the rest of the text after it.\<close>

fun after_literal :: "string \<Rightarrow> string \<Rightarrow> string option" where
  "after_literal [] s = Some s"
| "after_literal (p # ps) [] = None"
| "after_literal (p # ps) (c # cs) =
     (if ascii_lower p = ascii_lower c then after_literal ps cs else None)"

text \<open>\<^verbatim>\<open>\d+\<close>: no pattern has a digit after it, so the longest run is the only match.\<close>

definition after_digits :: "string \<Rightarrow> string option" where
  "after_digits s = (if takeWhile decimal_char s = [] then None else Some (dropWhile decimal_char s))"

text \<open>
  \<^verbatim>\<open>[0-9a-f]{8}-[0-9a-f-]{27,}\<close> with what follows it. The next literal is a blank, which is not
  in the class, so the longest run is the only match.
\<close>

definition match_conversation_id :: "string \<Rightarrow> (string \<times> string) option" where
  "match_conversation_id s =
     (let tail = drop 9 s; run = takeWhile (\<lambda>c. hex_char c \<or> c = CHR ''-'') tail in
      if 9 \<le> length s \<and> list_all hex_char (take 8 s) \<and> s ! 8 = CHR ''-'' \<and> 27 \<le> length run
      then Some (take 9 s @ run, drop (length run) tail) else None)"

definition accepted_prompt_at :: "string \<Rightarrow> string option" where
  "accepted_prompt_at s =
     (case after_literal ''Sending user message to conversation '' s of
        None \<Rightarrow> None
      | Some r0 \<Rightarrow> (case match_conversation_id r0 of
        None \<Rightarrow> None
      | Some (conversation, r1) \<Rightarrow> (case after_literal '' (items='' r1 of
        None \<Rightarrow> None
      | Some r2 \<Rightarrow> (case after_digits r2 of
        None \<Rightarrow> None
      | Some r3 \<Rightarrow> (case after_literal '', media='' r3 of
        None \<Rightarrow> None
      | Some r4 \<Rightarrow> (case after_digits r4 of
        None \<Rightarrow> None
      | Some r5 \<Rightarrow>
          if after_literal '')'' r5 = None then None else Some conversation))))))"

text \<open>
  \<^verbatim>\<open>\s*(.+)$\<close> without the flag \<^verbatim>\<open>m\<close>: the blanks are skipped greedily; when nothing is left, the last
  blank is given back. The dot matches no line terminator, and the end is the end of the line read.
\<close>

definition rejected_tail :: "string \<Rightarrow> string option" where
  "rejected_tail r =
     (let rest = dropWhile space_char r;
          kept = (if rest = [] \<and> r \<noteq> [] then [last r] else rest) in
      if kept = [] \<or> CHR 0x0A \<in> set kept \<or> CHR 0x0D \<in> set kept then None else Some kept)"

definition rejected_prompt_at :: "string \<Rightarrow> string option" where
  "rejected_prompt_at s =
     (case after_literal ''SendUserMessage failed:'' s of
        None \<Rightarrow> None
      | Some r \<Rightarrow> rejected_tail r)"

text \<open>The leftmost match of a pattern.\<close>

fun search :: "(string \<Rightarrow> 'a option) \<Rightarrow> string \<Rightarrow> 'a option" where
  "search at [] = at []"
| "search at (c # cs) = (case at (c # cs) of None \<Rightarrow> search at cs | Some x \<Rightarrow> Some x)"

definition ANTIGRAVITY_ACCEPTED_PROMPT :: "string \<Rightarrow> string option" where
  "ANTIGRAVITY_ACCEPTED_PROMPT = search accepted_prompt_at"

definition ANTIGRAVITY_REJECTED_PROMPT :: "string \<Rightarrow> string option" where
  "ANTIGRAVITY_REJECTED_PROMPT = search rejected_prompt_at"

datatype antigravity_observation =
    Dispatch_Pending
  | Dispatch_Accepted string native_session_ref
  | Dispatch_Rejected string string

fun scan_log :: "string \<Rightarrow> string list \<Rightarrow> identity_error + antigravity_observation" where
  "scan_log now [] = Inr Dispatch_Pending"
| "scan_log now (line # lines) =
     (case ANTIGRAVITY_ACCEPTED_PROMPT line of
        Some conversationId \<Rightarrow>
          bind_result (nativeSessionRef ''antigravity'' ''id'' conversationId)
            (\<lambda>nativeSession. Inr (Dispatch_Accepted now nativeSession))
      | None \<Rightarrow>
          (case ANTIGRAVITY_REJECTED_PROMPT line of
             Some message \<Rightarrow> Inr (Dispatch_Rejected now (trim message))
           | None \<Rightarrow> scan_log now lines))"

definition observeAntigravityPromptDispatch ::
  "(string \<Rightarrow> string) \<Rightarrow> string \<Rightarrow> string option \<Rightarrow> prompt_evidence_cursor \<Rightarrow>
   identity_error + antigravity_observation" where
  "observeAntigravityPromptDispatch decode now log evidence =
     scan_log now (appendedLines decode log (pec_cursor evidence))"

fun scan_conversations ::
  "native_session_ref option \<Rightarrow> string list \<Rightarrow> identity_error + native_session_ref option" where
  "scan_conversations latest [] = Inr latest"
| "scan_conversations latest (line # lines) =
     (case ANTIGRAVITY_ACCEPTED_PROMPT line of
        None \<Rightarrow> scan_conversations latest lines
      | Some conversationId \<Rightarrow>
          bind_result (nativeSessionRef ''antigravity'' ''id'' conversationId)
            (\<lambda>nativeSession. scan_conversations (Some nativeSession) lines))"

definition observeLatestAntigravityConversation ::
  "(string \<Rightarrow> string) \<Rightarrow> string option \<Rightarrow> int option \<Rightarrow> identity_error + native_session_ref option" where
  "observeLatestAntigravityConversation decode log cursor =
     scan_conversations None
       (appendedLines decode log (case cursor of None \<Rightarrow> 0 | Some n \<Rightarrow> n))"

definition observeAntigravityNativeActivity ::
  "(string \<Rightarrow> string) \<Rightarrow> string \<Rightarrow> string option \<Rightarrow> prompt_evidence_cursor \<Rightarrow>
   identity_error + native_turn_activity" where
  "observeAntigravityNativeActivity decode now log evidence =
     bind_result (observeAntigravityPromptDispatch decode now log evidence)
       (\<lambda>observation. Inr (case observation of
          Dispatch_Accepted observedAt nativeSession \<Rightarrow>
            \<lparr>nta_working = True, nta_observedAt = Some observedAt,
              nta_nativeSession = Some nativeSession\<rparr>
        | _ \<Rightarrow> no_activity))"

section \<open>Reconciling an ambiguous prompt\<close>

text \<open>\<^verbatim>\<open>/^result-[a-zA-Z0-9_-]+\.json$/\<close>\<close>

definition result_name_char :: "char \<Rightarrow> bool" where
  "result_name_char c \<longleftrightarrow> token_char c \<and> c \<noteq> CHR ''.'' \<and> c \<noteq> CHR '':''"

definition result_file_name :: "string \<Rightarrow> bool" where
  "result_file_name name \<longleftrightarrow>
     take 7 name = ''result-'' \<and>
     (let body = takeWhile result_name_char (drop 7 name) in
      body \<noteq> [] \<and> drop (7 + length body) name = ''.json'')"

text \<open>A listing is \<open>None\<close> when the directory does not exist.\<close>

definition structuredResultExists :: "string list option \<Rightarrow> bool" where
  "structuredResultExists listing =
     (case listing of None \<Rightarrow> False | Some names \<Rightarrow> list_ex result_file_name names)"

datatype prompt_reconciliation =
    Reconciled_Activity native_turn_activity
  | Reconciled_Settled
  | Reconciled_Nothing

text \<open>
  One pass of the loop reads the clock, the result directory and the native evidence. The passes
  are a stream: the \<open>n\<close>-th one reads \<open>clock n\<close>, \<open>results n\<close> and \<open>observe n\<close>. The loop is
  bounded by its deadline only, so it is a partial function.
\<close>

partial_function (option) reconcile_from ::
  "(nat \<Rightarrow> int) \<Rightarrow> (nat \<Rightarrow> bool) \<Rightarrow> (nat \<Rightarrow> native_turn_activity) \<Rightarrow> int \<Rightarrow> nat \<Rightarrow>
   prompt_reconciliation option" where
  "reconcile_from clock results observe deadline n =
     (if clock n < deadline
      then if results n then Some Reconciled_Settled
        else if nta_working (observe n) then Some (Reconciled_Activity (observe n))
        else reconcile_from clock results observe deadline (Suc n)
      else Some Reconciled_Nothing)"

definition reconcileAmbiguousPrompt ::
  "(nat \<Rightarrow> int) \<Rightarrow> (nat \<Rightarrow> bool) \<Rightarrow> (nat \<Rightarrow> native_turn_activity) \<Rightarrow> int \<Rightarrow> int \<Rightarrow>
   prompt_reconciliation option" where
  "reconcileAmbiguousPrompt clock results observe start timeoutMs =
     reconcile_from clock results observe (start + max 1 timeoutMs) 0"

section \<open>Provider exceptions\<close>

datatype failure_classification =
  Auto_Retryable | Operator_Recovery_Required | Terminal_Not_Recoverable | Failure_Uncertain

datatype side_effect_certainty = Not_Submitted | Submitted | Side_Effect_Ambiguous | Native_Accepted

datatype operation_phase =
  Discovery | Prepare | Readiness | Execute | Observe | Recover | Interrupt | Retire

fun operation_phase_text :: "operation_phase \<Rightarrow> string" where
  "operation_phase_text Discovery = ''discovery''"
| "operation_phase_text Prepare = ''prepare''"
| "operation_phase_text Readiness = ''readiness''"
| "operation_phase_text Execute = ''execute''"
| "operation_phase_text Observe = ''observe''"
| "operation_phase_text Recover = ''recover''"
| "operation_phase_text Interrupt = ''interrupt''"
| "operation_phase_text Retire = ''retire''"

record failure_outcome =
  outcome_sideEffectCertainty :: "side_effect_certainty option"
  outcome_phase :: "operation_phase option"
  outcome_capability :: "string option"

record operational_error =
  oe_message :: string
  oe_classification :: failure_classification
  oe_code :: "string option"
  oe_evidence :: "json_record option"
  oe_outcome :: "failure_outcome option"

definition oe_sideEffectCertainty :: "operational_error \<Rightarrow> side_effect_certainty option" where
  "oe_sideEffectCertainty e = Option.bind (oe_outcome e) outcome_sideEffectCertainty"

definition oe_phase :: "operational_error \<Rightarrow> operation_phase option" where
  "oe_phase e = Option.bind (oe_outcome e) outcome_phase"

text \<open>
  A thrown value: an operational error, a \<^verbatim>\<open>HerdrApiError\<close> with its code, message and capability,
  or any other value, with its members \<^verbatim>\<open>code\<close> and \<^verbatim>\<open>capability\<close> when they are strings, its message
  when it is an \<^verbatim>\<open>Error\<close>, and its text under \<^verbatim>\<open>String\<close>.
\<close>

datatype thrown =
    Thrown_Operational operational_error
  | Thrown_Herdr string string "string option"
  | Thrown_Other "string option" "string option" "string option" string

fun thrown_code :: "thrown \<Rightarrow> string option" where
  "thrown_code (Thrown_Operational e) = oe_code e"
| "thrown_code (Thrown_Herdr code message capability) = Some code"
| "thrown_code (Thrown_Other code capability message shown) = code"

fun thrown_capability :: "thrown \<Rightarrow> string option" where
  "thrown_capability (Thrown_Operational e) = Option.bind (oe_outcome e) outcome_capability"
| "thrown_capability (Thrown_Herdr code message capability) = capability"
| "thrown_capability (Thrown_Other code capability message shown) = capability"

fun thrown_message :: "thrown \<Rightarrow> string option" where
  "thrown_message (Thrown_Operational e) = Some (oe_message e)"
| "thrown_message (Thrown_Herdr code message capability) = Some message"
| "thrown_message (Thrown_Other code capability message shown) = message"

fun thrown_text :: "thrown \<Rightarrow> string" where
  "thrown_text (Thrown_Other code capability None shown) = shown"
| "thrown_text e = (case thrown_message e of None \<Rightarrow> [] | Some m \<Rightarrow> m)"

definition sideEffectCertainty :: "string option \<Rightarrow> operation_phase \<Rightarrow> side_effect_certainty" where
  "sideEffectCertainty code phase =
     (if (case code of None \<Rightarrow> [] | Some c \<Rightarrow> c) \<in> {''agent_launch_uncertain'', ''agent_prompt_uncertain''}
      then Side_Effect_Ambiguous
      else if phase \<in> {Execute, Observe, Interrupt, Retire} then Side_Effect_Ambiguous
      else Not_Submitted)"

definition failure_class :: "string \<Rightarrow> failure_classification" where
  "failure_class code =
     (if code \<in> {''agent_launch_uncertain'', ''agent_prompt_uncertain''} then Failure_Uncertain
      else if code \<in> {''timeout'', ''wait_timeout'', ''shell_not_ready'', ''agent_not_ready'',
        ''agent_pane_busy'', ''backend_unavailable'', ''controller_disconnected'', ''stream_closed''}
      then Auto_Retryable
      else if code \<in> {''backend_incompatible'', ''provenance_mismatch'', ''ownership_mismatch'',
        ''environment_launch_mismatch'', ''environment_attestation_failed'',
        ''agent_explicit_launch_failed'', ''incompatible_continuation_configuration'',
        ''harness_contract_violation''}
      then Terminal_Not_Recoverable
      else Operator_Recovery_Required)"

definition operationalHarnessError :: "thrown \<Rightarrow> operation_phase \<Rightarrow> operational_error" where
  "operationalHarnessError thrown phase =
     (case thrown of
        Thrown_Operational e \<Rightarrow>
          if oe_phase e \<noteq> None \<and> oe_sideEffectCertainty e \<noteq> None then e
          else e\<lparr>oe_outcome := Some \<lparr>
            outcome_sideEffectCertainty =
              (case oe_sideEffectCertainty e of
                 Some c \<Rightarrow> Some c
               | None \<Rightarrow> Some (if oe_classification e = Failure_Uncertain then Side_Effect_Ambiguous
                   else sideEffectCertainty (oe_code e) phase)),
            outcome_phase = (case oe_phase e of Some p \<Rightarrow> Some p | None \<Rightarrow> Some phase),
            outcome_capability = Option.bind (oe_outcome e) outcome_capability\<rparr>\<rparr>
      | _ \<Rightarrow>
          (let code = (if truthy (thrown_code thrown) then the (thrown_code thrown)
                 else ''harness_'' @ operation_phase_text phase @ ''_failed'') in
           \<lparr>oe_message = (case thrown_message thrown of
                Some m \<Rightarrow> m
              | None \<Rightarrow> ''Harness '' @ operation_phase_text phase @ '' failed.''),
            oe_classification = failure_class code,
            oe_code = Some code,
            oe_evidence = None,
            oe_outcome = Some \<lparr>
              outcome_sideEffectCertainty = Some (sideEffectCertainty (Some code) phase),
              outcome_phase = Some phase,
              outcome_capability =
                (if truthy (thrown_capability thrown) then thrown_capability thrown else None)\<rparr>\<rparr>))"

text \<open>Herdr reports a stalled prompt only after its text was sent.\<close>

definition errorProvesPromptSubmission :: "thrown \<Rightarrow> bool" where
  "errorProvesPromptSubmission thrown =
     (case thrown of Thrown_Herdr code _ _ \<Rightarrow> code = ''agent_prompt_stalled'' | _ \<Rightarrow> False)"

definition ambiguousPromptError :: "thrown \<Rightarrow> bool" where
  "ambiguousPromptError thrown =
     (case thrown of
        Thrown_Herdr code _ _ \<Rightarrow>
          code \<in> {''backend_unavailable'', ''controller_disconnected'', ''stream_closed'', ''timeout''}
      | _ \<Rightarrow> False)"

definition uncertainPrompt :: "thrown \<Rightarrow> thrown" where
  "uncertainPrompt thrown = Thrown_Herdr ''agent_prompt_uncertain''
     (''Prompt submission outcome is uncertain; exact native evidence did not resolve the transport failure: ''
      @ thrown_text thrown)
     (Some ''terminal.authorized_prompt_input'')"

definition waitingForActivitySince ::
  "(string \<Rightarrow> int option) \<Rightarrow> string option \<Rightarrow> int \<Rightarrow> int \<Rightarrow> session_state" where
  "waitingForActivitySince date acceptedAt stallMs now =
     (case (if truthy acceptedAt then date (the acceptedAt) else None) of
        Some accepted \<Rightarrow> if stallMs \<le> now - accepted then Session_Stalled else Waiting_For_Activity
      | None \<Rightarrow> Waiting_For_Activity)"

definition promptActivityStallMs :: "int option \<Rightarrow> int" where
  "promptActivityStallMs configured = (case configured of None \<Rightarrow> 30000 | Some ms \<Rightarrow> ms)"

end
