(* ===== verification/Turn_Properties.thy ===== *)
theory Turn_Properties
  imports Turn_Lifecycle Registry_Properties
begin

text \<open>
  What the lifecycle of a turn guarantees: when the grace of structured completion runs out, when a
  transcript proves native activity, that the reconciliation of an ambiguous prompt returns, what a
  converted provider exception says of side effects, and that a completed turn stays settled in
  every later history of the registry.
\<close>

section \<open>The phase clock\<close>

datatype wait_op =
    Op_Provider_Active | Op_Provider_Settled int | Op_Continuation | Op_Result | Op_Export | Op_Terminal

fun wait_step :: "wait_op \<Rightarrow> wait_policy \<Rightarrow> wait_policy" where
  "wait_step Op_Provider_Active w = providerActive w"
| "wait_step (Op_Provider_Settled now) w = providerSettled now w"
| "wait_step Op_Continuation w = continuationStarted w"
| "wait_step Op_Result w = resultAccepted w"
| "wait_step Op_Export w = exportCompleted w"
| "wait_step Op_Terminal w = terminal w"

definition wait_run :: "wait_op list \<Rightarrow> wait_policy \<Rightarrow> wait_policy" where
  "wait_run ops w = fold wait_step ops w"

fun settlement_time :: "wait_op \<Rightarrow> int option" where
  "settlement_time (Op_Provider_Settled t) = Some t"
| "settlement_time _ = None"

definition closing :: "wait_op \<Rightarrow> bool" where
  "closing op \<longleftrightarrow> op \<in> {Op_Result, Op_Export, Op_Terminal}"

text \<open>
  The abstract contract: the settlement that counts is the first of the unbroken settlements the
  history ends with, and none counts once a result was accepted or the turn ended.
\<close>

fun first_settlement :: "wait_op list \<Rightarrow> int option" where
  "first_settlement [] = None"
| "first_settlement (op # earlier) =
     (case settlement_time op of
        None \<Rightarrow> None
      | Some t \<Rightarrow> (case first_settlement earlier of None \<Rightarrow> Some t | Some t' \<Rightarrow> Some t'))"

definition current_settlement :: "wait_op list \<Rightarrow> int option" where
  "current_settlement ops = (if list_ex closing ops then None else first_settlement (rev ops))"

lemma wait_run_snoc [simp]: "wait_run (ops @ [op]) w = wait_step op (wait_run ops w)"
  and wait_run_Nil [simp]: "wait_run [] w = w"
  by (simp_all add: wait_run_def)

lemmas wait_ops = providerActive_def providerSettled_def continuationStarted_def resultAccepted_def
  exportCompleted_def terminal_def

lemma wait_run_closed:
  "wait_graceMs (wait_run ops (wait_policy_new g)) = g \<and>
   (wait_closed (wait_run ops (wait_policy_new g)) \<longleftrightarrow> list_ex closing ops)"
proof (induction ops rule: rev_induct)
  case Nil
  show ?case by (simp add: wait_policy_new_def wait_closed_def)
next
  case (snoc op ops)
  then show ?case
    by (cases op) (auto simp: wait_ops wait_closed_def closing_def)
qed

lemma wait_run_deadline:
  "\<not> list_ex closing ops \<Longrightarrow>
   wait_deadline (wait_run ops (wait_policy_new g)) =
     map_option (\<lambda>t. t + max 1 g) (first_settlement (rev ops)) \<and>
   (wait_phase_value (wait_run ops (wait_policy_new g)) = Awaiting_Structured_Completion \<longleftrightarrow>
     first_settlement (rev ops) \<noteq> None)"
proof (induction ops rule: rev_induct)
  case Nil
  show ?case by (simp add: wait_policy_new_def)
next
  case (snoc op ops)
  then have open': "\<not> list_ex closing ops" and op: "\<not> closing op" by auto
  have "\<not> wait_closed (wait_run ops (wait_policy_new g))"
    using wait_run_closed open' by blast
  with snoc.IH [OF open'] op wait_run_closed [of ops g] show ?case
    by (cases op) (auto simp: wait_ops closing_def split: option.split)
qed

text \<open>
  C9: the completion grace expires exactly when the provider has settled and stayed settled for
  the grace: over every history of the policy's operations, at clock \<open>now\<close>, the policy is expired
  if and only if the history ends in settlements whose first one was at least \<open>max 1 graceMs\<close> ago,
  and no result was ever accepted, exported or the turn ended. Repeating a settlement does not
  extend the grace, activity and a continuation suspend it, and an accepted result closes it.
\<close>

theorem grace_expiry:
  "expired now (wait_run ops (wait_policy_new graceMs)) \<longleftrightarrow>
     (\<exists>t. current_settlement ops = Some t \<and> t + max 1 graceMs \<le> now)"
proof (cases "list_ex closing ops")
  case True
  then have "wait_closed (wait_run ops (wait_policy_new graceMs))"
    using wait_run_closed by blast
  with True show ?thesis
    by (auto simp: expired_def current_settlement_def wait_closed_def)
next
  case False
  from wait_run_deadline [OF this, of graceMs] False show ?thesis
    by (auto simp: expired_def current_settlement_def split: option.split)
qed

section \<open>Native activity\<close>

lemma prompt_line_not_reply: "is_prompt_line prompt line \<Longrightarrow> \<not> is_reply_line line"
  by (auto simp: is_prompt_line_def is_reply_line_def split: option.splits)

fun replied :: "string \<Rightarrow> bool \<Rightarrow> stored_text list \<Rightarrow> bool" where
  "replied prompt seen [] = False"
| "replied prompt seen (line # lines) =
     (seen \<and> is_reply_line line \<or> replied prompt (seen \<or> is_prompt_line prompt line) lines)"

lemma replied_iff:
  "replied prompt seen lines \<longleftrightarrow>
     (\<exists>before reply after. lines = before @ reply # after \<and> is_reply_line reply \<and>
        (seen \<or> list_ex (is_prompt_line prompt) before))"
proof (induction lines arbitrary: seen)
  case Nil
  show ?case by simp
next
  case (Cons line lines)
  show ?case
  proof
    assume "replied prompt seen (line # lines)"
    then consider "seen" "is_reply_line line" | "replied prompt (seen \<or> is_prompt_line prompt line) lines"
      by auto
    then show "\<exists>before reply after. line # lines = before @ reply # after \<and> is_reply_line reply \<and>
        (seen \<or> list_ex (is_prompt_line prompt) before)"
    proof cases
      case 1
      then show ?thesis by (metis append_Nil)
    next
      case 2
      then obtain before reply after' where "lines = before @ reply # after'" "is_reply_line reply"
        "(seen \<or> is_prompt_line prompt line) \<or> list_ex (is_prompt_line prompt) before"
        unfolding Cons.IH by blast
      then show ?thesis by (intro exI [of _ "line # before"]) auto
    qed
  next
    assume "\<exists>before reply after. line # lines = before @ reply # after \<and> is_reply_line reply \<and>
        (seen \<or> list_ex (is_prompt_line prompt) before)"
    then obtain before reply after' where *: "line # lines = before @ reply # after'"
      "is_reply_line reply" "seen \<or> list_ex (is_prompt_line prompt) before" by blast
    show "replied prompt seen (line # lines)"
    proof (cases before)
      case Nil
      with * show ?thesis by simp
    next
      case before: (Cons l before')
      from * before have "replied prompt (seen \<or> is_prompt_line prompt line) lines"
        unfolding Cons.IH by (intro exI [of _ before'] exI [of _ reply] exI [of _ after']) auto
      then show ?thesis by simp
    qed
  qed
qed

lemma scan_transcript_replied:
  assumes "Stored JNull \<notin> set lines"
  obtains a where "scan_transcript date now prompt seen lines = Some a"
    and "nta_working a \<longleftrightarrow> replied prompt seen lines"
  using assms
proof (induction lines arbitrary: seen thesis)
  case Nil
  show ?case by (rule Nil.prems(1) [of no_activity]) (simp_all add: no_activity_def)
next
  case (Cons line lines)
  have rest: "Stored JNull \<notin> set lines" and here: "line \<noteq> Stored JNull"
    using Cons.prems(2) by auto
  show ?case
  proof (cases "\<not> is_prompt_line prompt line \<and> seen \<and> is_reply_line line")
    case True
    with here show ?thesis by (intro Cons.prems(1)) auto
  next
    case False
    obtain a where "scan_transcript date now prompt (seen \<or> is_prompt_line prompt line) lines = Some a"
      and "nta_working a \<longleftrightarrow> replied prompt (seen \<or> is_prompt_line prompt line) lines"
      using Cons.IH [OF _ rest] by blast
    with False here show ?thesis
      by (intro Cons.prems(1) [of a])
        (auto dest: prompt_line_not_reply split: if_splits)
  qed
qed

text \<open>
  Pi's transcript proves activity exactly when, after the cursor, an assistant entry follows a
  user entry that is exactly the prompt, and the evidence is for this prompt; nothing else in the
  transcript (other roles, other messages, lines that do not parse) counts. No line parses to
  \<^verbatim>\<open>null\<close>, which would make the observation throw.
\<close>

theorem pi_activity_iff:
  assumes "list_all (\<lambda>line. parse line \<noteq> Stored JNull) (appendedLines decode transcript (pec_cursor evidence))"
  shows "\<exists>a. observePiNativeActivity parse decode date digest now transcript evidence prompt = Some a \<and>
    (nta_working a \<longleftrightarrow>
      pec_promptHash evidence = digest prompt \<and>
      (\<exists>before reply after. appendedLines decode transcript (pec_cursor evidence) = before @ reply # after \<and>
        is_reply_line (parse reply) \<and> list_ex (is_prompt_line prompt) (map parse before)))"
proof (cases "pec_promptHash evidence = digest prompt")
  case False
  then show ?thesis by (simp add: observePiNativeActivity_def no_activity_def)
next
  case True
  define lines where "lines = appendedLines decode transcript (pec_cursor evidence)"
  have "Stored JNull \<notin> set (map parse lines)"
    using assms by (auto simp: lines_def list_all_iff)
  then obtain a where a: "scan_transcript date now prompt False (map parse lines) = Some a"
    "nta_working a \<longleftrightarrow> replied prompt False (map parse lines)"
    by (rule scan_transcript_replied)
  have "replied prompt False (map parse lines) \<longleftrightarrow>
      (\<exists>before reply after. lines = before @ reply # after \<and> is_reply_line (parse reply) \<and>
         list_ex (is_prompt_line prompt) (map parse before))"
    unfolding replied_iff by (auto simp: map_eq_append_conv map_eq_Cons_conv Cons_eq_map_conv) blast+
  with a True show ?thesis
    by (auto simp: observePiNativeActivity_def lines_def [symmetric])
qed

definition message_line :: "string \<Rightarrow> string \<Rightarrow> json" where
  "message_line role body = JObj [(''type'', JStr ''message''),
     (''message'', JObj [(''role'', JStr role),
       (''content'', JArr [JObj [(''type'', JStr ''text''), (''text'', JStr body)]])])]"

definition example_parse :: "string \<Rightarrow> stored_text" where
  "example_parse line =
     (if line = ''u'' then Stored (message_line ''user'' ''go'')
      else if line = ''a'' then Stored (message_line ''assistant'' ''ok'') else Garbage line)"

definition example_evidence :: prompt_evidence_cursor where
  "example_evidence = \<lparr>pec_kind = Pi_Transcript, pec_cursor = 2, pec_providerTurnCursor = None,
     pec_promptHash = ''go''\<rparr>"

theorem pi_activity_iff_witness:
  "\<exists>a. observePiNativeActivity example_parse (\<lambda>s. s) (\<lambda>_. None) (\<lambda>s. s) ''t''
      (Some [CHR ''x'', CHR 0x0A, CHR ''u'', CHR 0x0A, CHR ''z'', CHR 0x0A, CHR ''a''])
      example_evidence ''go'' = Some a \<and> nta_working a"
proof -
  let ?file = "Some [CHR ''x'', CHR 0x0A, CHR ''u'', CHR 0x0A, CHR ''z'', CHR 0x0A, CHR ''a'']"
  have lines: "appendedLines (\<lambda>s. s) ?file (pec_cursor example_evidence) = [''u'', ''z''] @ ''a'' # []"
    by (simp add: appendedLines_def example_evidence_def)
  have "list_all (\<lambda>line. example_parse line \<noteq> Stored JNull)
      (appendedLines (\<lambda>s. s) ?file (pec_cursor example_evidence))"
    unfolding lines by (simp add: example_parse_def message_line_def)
  from pi_activity_iff [OF this, of "\<lambda>_. None" "\<lambda>s. s" "''t''" "''go''"]
  obtain a where found: "observePiNativeActivity example_parse (\<lambda>s. s) (\<lambda>_. None) (\<lambda>s. s) ''t'' ?file
      example_evidence ''go'' = Some a"
    and working: "nta_working a \<longleftrightarrow> pec_promptHash example_evidence = ''go'' \<and>
      (\<exists>before reply after. [''u'', ''z''] @ ''a'' # [] = before @ reply # after \<and>
        is_reply_line (example_parse reply) \<and>
        list_ex (is_prompt_line ''go'') (map example_parse before))"
    unfolding lines by blast
  have "is_reply_line (example_parse ''a'')"
    and "list_ex (is_prompt_line ''go'') (map example_parse [''u'', ''z''])"
    by (simp_all add: is_reply_line_def is_prompt_line_def example_parse_def message_line_def
        messageText_def text_item_def member_def)
  then have "nta_working a"
    unfolding working
    by (intro conjI exI [of _ "[''u'', ''z'']"] exI [of _ "''a''"] exI [of _ "[]"])
      (simp_all add: example_evidence_def)
  with found show ?thesis by blast
qed

section \<open>Evidence of the prompt\<close>

text \<open>
  the evidence stored with a dispatch is read back exactly, for the prompt and the kind it was
  recorded for, when its cursors are file offsets that a JavaScript number holds exactly; for a
  prompt with another digest, or another kind, there is no evidence.
\<close>

theorem prompt_evidence_roundtrip:
  assumes "rec_promptEvidence dispatch = Some (evidence_record e)"
    and "safe_integer (pec_cursor e)" and "0 \<le> pec_cursor e"
    and "list_all (\<lambda>n. safe_integer n \<and> 0 \<le> n) (case pec_providerTurnCursor e of None \<Rightarrow> [] | Some n \<Rightarrow> [n])"
  shows "persistedPromptEvidence digest dispatch kind prompt =
    (if kind = pec_kind e \<and> pec_promptHash e = digest prompt then Some e else None)"
proof -
  have kinds: "evidence_kind_text a = evidence_kind_text b \<longleftrightarrow> a = b" for a b
    by (cases a; cases b) simp_all
  show ?thesis
    using assms(2-4)
    by (cases "pec_providerTurnCursor e")
      (auto simp: persistedPromptEvidence_def assms(1) evidence_record_def member_def kinds)
qed

theorem prompt_evidence_roundtrip_witness:
  "persistedPromptEvidence (\<lambda>s. s)
     (mapDispatch (example_dispatch\<lparr>d_prompt_evidence := Some (evidence_record example_evidence)\<rparr>))
     Pi_Transcript ''go'' = Some example_evidence"
  by (subst prompt_evidence_roundtrip [of _ example_evidence])
    (simp_all add: mapDispatch_def example_evidence_def safe_integer_def)

section \<open>Reconciliation\<close>

definition pass_decides :: "(nat \<Rightarrow> int) \<Rightarrow> (nat \<Rightarrow> bool) \<Rightarrow> (nat \<Rightarrow> native_turn_activity) \<Rightarrow> int \<Rightarrow> nat \<Rightarrow> bool" where
  "pass_decides clock results observe deadline n \<longleftrightarrow>
     deadline \<le> clock n \<or> results n \<or> nta_working (observe n)"

definition pass_verdict ::
  "(nat \<Rightarrow> int) \<Rightarrow> (nat \<Rightarrow> bool) \<Rightarrow> (nat \<Rightarrow> native_turn_activity) \<Rightarrow> int \<Rightarrow> nat \<Rightarrow> prompt_reconciliation" where
  "pass_verdict clock results observe deadline n =
     (if deadline \<le> clock n then Reconciled_Nothing
      else if results n then Reconciled_Settled
      else Reconciled_Activity (observe n))"

lemma reconcile_from_decided:
  "(\<And>m. n \<le> m \<Longrightarrow> m < k \<Longrightarrow> \<not> pass_decides clock results observe deadline m) \<Longrightarrow>
   n \<le> k \<Longrightarrow> pass_decides clock results observe deadline k \<Longrightarrow>
   reconcile_from clock results observe deadline n = Some (pass_verdict clock results observe deadline k)"
proof (induction "k - n" arbitrary: n)
  case 0
  then show ?case
    by (subst reconcile_from.simps) (auto simp: pass_decides_def pass_verdict_def)
next
  case (Suc d)
  then have "\<not> pass_decides clock results observe deadline n" by simp
  moreover have "reconcile_from clock results observe deadline (Suc n) =
      Some (pass_verdict clock results observe deadline k)"
    using Suc by (intro Suc.hyps(1)) auto
  ultimately show ?case
    by (subst reconcile_from.simps) (auto simp: pass_decides_def)
qed

text \<open>
  C10: reconciliation of an ambiguous prompt always returns when time passes between two passes of
  its loop (each sleeps), after at most \<open>max 1 timeoutMs\<close> passes beyond the first; and what it
  returns is decided by the first pass that reads a clock past the deadline, finds a structured
  result, or observes native work, in this order.
\<close>

theorem reconcile_returns:
  assumes "start \<le> clock 0" and "\<And>n. clock n < clock (Suc n)"
  shows "\<exists>k \<le> nat (max 1 timeoutMs).
    reconcileAmbiguousPrompt clock results observe start timeoutMs =
      Some (pass_verdict clock results observe (start + max 1 timeoutMs) k) \<and>
    pass_decides clock results observe (start + max 1 timeoutMs) k \<and>
    (\<forall>m<k. \<not> pass_decides clock results observe (start + max 1 timeoutMs) m)"
proof -
  let ?d = "start + max 1 timeoutMs"
  let ?P = "pass_decides clock results observe ?d"
  have "start + int n \<le> clock n" for n
    using assms by (induction n) (auto simp: algebra_simps dest: less_le_trans intro: order_trans
        [OF _ zless_imp_add1_zle [OF assms(2)]])
  from this [of "nat (max 1 timeoutMs)"] have "?P (nat (max 1 timeoutMs))"
    by (simp add: pass_decides_def split: if_split_asm)
  then have least: "?P (LEAST k. ?P k)" and bound: "(LEAST k. ?P k) \<le> nat (max 1 timeoutMs)"
    by (rule LeastI, rule Least_le)
  have earlier: "\<not> ?P m" if "m < (LEAST k. ?P k)" for m
    using that by (rule not_less_Least)
  have "reconcileAmbiguousPrompt clock results observe start timeoutMs =
      Some (pass_verdict clock results observe ?d (LEAST k. ?P k))"
    unfolding reconcileAmbiguousPrompt_def
    by (rule reconcile_from_decided [OF earlier _ least]) simp_all
  with least bound earlier show ?thesis by blast
qed

theorem reconcile_returns_witness:
  "reconcileAmbiguousPrompt (\<lambda>n. 50 * int n) (\<lambda>n. n = 2) (\<lambda>_. no_activity) 0 200 = Some Reconciled_Settled"
proof -
  have eq: "(0::int) + max 1 200 = 200" by simp
  have "(0::int) \<le> 50 * int 0" and "\<And>n. 50 * int n < 50 * int (Suc n)" by simp_all
  from reconcile_returns [where clock = "\<lambda>n. 50 * int n", OF this,
      where results = "\<lambda>n. n = 2" and observe = "\<lambda>_. no_activity" and timeoutMs = 200]
  obtain k where k: "reconcileAmbiguousPrompt (\<lambda>n. 50 * int n) (\<lambda>n. n = 2) (\<lambda>_. no_activity) 0 200 =
      Some (pass_verdict (\<lambda>n. 50 * int n) (\<lambda>n. n = 2) (\<lambda>_. no_activity) 200 k)"
    and decides: "pass_decides (\<lambda>n. 50 * int n) (\<lambda>n. n = 2) (\<lambda>_. no_activity) 200 k"
    and first: "\<forall>m<k. \<not> pass_decides (\<lambda>n. 50 * int n) (\<lambda>n. n = 2) (\<lambda>_. no_activity) 200 m"
    unfolding eq by (elim exE conjE) (rule that)
  have two: "pass_decides (\<lambda>n. 50 * int n) (\<lambda>n. n = 2) (\<lambda>_. no_activity) 200 2"
    by (simp add: pass_decides_def)
  with first have "k \<le> 2" by (meson not_le)
  moreover have "k = 2 \<or> 200 \<le> 50 * int k"
    using decides by (auto simp: pass_decides_def no_activity_def)
  ultimately have "k = 2" by auto
  with k show ?thesis by (simp add: pass_verdict_def)
qed

section \<open>Provider exceptions\<close>

text \<open>
  a converted exception always states a phase and how certain its side effects are; converting
  it again, in whatever phase, changes nothing; and it claims that nothing was submitted only for
  work before execution: unless an operational error said so itself, the phase is then discovery,
  prepare, readiness or recover, and the code is not one of the uncertain ones.
\<close>

lemma operational_error_certain:
  "oe_phase (operationalHarnessError e phase) \<noteq> None \<and>
   oe_sideEffectCertainty (operationalHarnessError e phase) \<noteq> None \<and>
   operationalHarnessError (Thrown_Operational (operationalHarnessError e phase)) phase' =
     operationalHarnessError e phase \<and>
   (oe_sideEffectCertainty (operationalHarnessError e phase) \<in>
      {Some Submitted, Some Side_Effect_Ambiguous, Some Native_Accepted} \<or>
    phase \<in> {Discovery, Prepare, Readiness, Recover} \<and>
      oe_classification (operationalHarnessError e phase) \<noteq> Failure_Uncertain \<or>
    (\<exists>x. e = Thrown_Operational x \<and> oe_sideEffectCertainty x = Some Not_Submitted))"
proof -
  have classes: "failure_class code = Failure_Uncertain \<longleftrightarrow>
      code \<in> {''agent_launch_uncertain'', ''agent_prompt_uncertain''}" for code
    by (auto simp: failure_class_def)
  have certain: "sideEffectCertainty (Some code) p = Not_Submitted \<longleftrightarrow>
      p \<in> {Discovery, Prepare, Readiness, Recover} \<and> failure_class code \<noteq> Failure_Uncertain" for code p
    unfolding classes by (cases p) (auto simp: sideEffectCertainty_def)
  have certainties: "c \<in> {Some Submitted, Some Side_Effect_Ambiguous, Some Native_Accepted} \<longleftrightarrow>
      c \<noteq> None \<and> c \<noteq> Some Not_Submitted" for c :: "side_effect_certainty option"
  proof (cases c)
    case (Some x)
    then show ?thesis by (cases x) simp_all
  qed simp
  have phases: "sideEffectCertainty c p = Not_Submitted \<Longrightarrow> p \<in> {Discovery, Prepare, Readiness, Recover}" for c p
    by (cases p) (auto simp: sideEffectCertainty_def split: if_split_asm)
  let ?r = "operationalHarnessError e phase"
  have "oe_phase ?r \<noteq> None \<and> oe_sideEffectCertainty ?r \<noteq> None \<and>
    operationalHarnessError (Thrown_Operational ?r) phase' = ?r \<and>
    (oe_sideEffectCertainty ?r \<noteq> Some Not_Submitted \<or>
     phase \<in> {Discovery, Prepare, Readiness, Recover} \<and> oe_classification ?r \<noteq> Failure_Uncertain \<or>
     (\<exists>x. e = Thrown_Operational x \<and> oe_sideEffectCertainty x = Some Not_Submitted))"
  proof (cases e)
    case (Thrown_Operational x)
    then show ?thesis
      using phases [of "oe_code x" phase]
      by (auto simp: operationalHarnessError_def oe_phase_def oe_sideEffectCertainty_def
          split: option.splits)
  qed (auto simp: operationalHarnessError_def oe_phase_def oe_sideEffectCertainty_def Let_def certain)
  then show ?thesis
    using certainties [of "oe_sideEffectCertainty ?r"] by (metis (no_types))
qed

section \<open>A settled turn\<close>

lemma settled_at_kept:
  assumes "(registry_step cfg)\<^sup>*\<^sup>* s s'" and "dispatch_row a s = Some r" and "truthy (d_settled_at r)"
  shows "\<exists>r'. dispatch_row a s' = Some r' \<and> d_settled_at r' = d_settled_at r"
proof -
  let ?R = "\<lambda>r r'. write_once (d_settled_at r) (d_settled_at r')"
  have "rows_evolve dispatch_row ?R s s'"
  proof (rule rows_evolve_steps [OF assms(1)])
    show "rows_evolve dispatch_row ?R t u" if "registry_step cfg t u" for t u
      using step_dispatch_evolves [OF that]
      by (fastforce simp: rows_evolve_def dispatch_evolves_def lifecycle_kept_def)
  qed (auto intro!: reflpI transpI simp: write_once_def)
  from rows_evolveD [OF this assms(2)] assms(3) show ?thesis
    by (auto simp: write_once_def)
qed

text \<open>
  once a completion has stamped its settlement time, the turn is reported as settled in every
  later history of the registry, whatever the lineage's session state and attention are, also when
  the dispatch is failed or made uncertain afterwards.
\<close>

theorem completed_turn_settled:
  assumes "complete now a outputs s = Inr (d, s')" and "truthy (rec_settledAt d)"
    and "(registry_step cfg)\<^sup>*\<^sup>* s' s''"
  shows "\<exists>d'. get a s'' = Inr d' \<and> turn_phase_of (turnLifecycle d' sessionState attention) = Settled \<and>
    turn_settledAt (turnLifecycle d' sessionState attention) = rec_settledAt d"
proof -
  from assms(1) have "get a s' = Inr d"
    by (auto simp: complete_def Let_def elim!: bind_result_InrE split: if_split_asm)
  then obtain r where r: "dispatch_row a s' = Some r" "d = mapDispatch r" by (auto simp: get_Inr)
  with assms(2) have "truthy (d_settled_at r)" by (simp add: mapDispatch_def)
  from settled_at_kept [OF assms(3) r(1) this] obtain r' where
    "dispatch_row a s'' = Some r'" "d_settled_at r' = d_settled_at r" by blast
  with \<open>truthy (d_settled_at r)\<close> r(2) show ?thesis
    by (auto simp: get_Inr turnLifecycle_def mapDispatch_def)
qed

theorem completed_turn_settled_witness:
  "\<exists>d s' d' s''. complete ''t4'' ''a1'' [] occupied_state = Inr (d, s') \<and>
     cancel ''t9'' ''a1'' [] s' = Inr ((d', True), s'') \<and> rec_state d' = Failed \<and>
     (\<exists>d''. get ''a1'' s'' = Inr d'' \<and> turn_phase_of (turnLifecycle d'' None None) = Settled)"
proof -
  obtain d s' where *: "complete ''t4'' ''a1'' [] occupied_state = Inr (d, s')"
    by (simp add: complete_def Let_def get_def get_row_def release_lineage_def dispatch_row_update)
  from complete_settles [OF this] have row: "dispatch_row ''a1'' s' = Some (example_dispatch\<lparr>
      d_state := Completed, d_outputs := Some [], d_failure := None, d_settled_at := Some ''t4''\<rparr>)"
    and d: "rec_settledAt d = Some ''t4''"
    by (auto simp: mapDispatch_def)
  then obtain d' s'' where f: "cancel ''t9'' ''a1'' [] s' = Inr ((d', True), s'')" "rec_state d' = Failed"
    by (simp add: cancel_def Let_def get_def get_row_def release_lineage_def dispatch_row_update)
  have "(registry_step example_cfg)\<^sup>*\<^sup>* s' s''"
    using f(1) by (blast intro: registry_step.cancel)
  from completed_turn_settled [OF * _ this] d have
    "\<exists>d''. get ''a1'' s'' = Inr d'' \<and> turn_phase_of (turnLifecycle d'' None None) = Settled"
    by fastforce
  with * f show ?thesis by blast
qed

end
