(* ===== verification/Registry_Bootstrap.thy ===== *)
theory Registry_Bootstrap
  imports Turn_Properties
begin

text \<open>
  Opening the database of the registry (\<^verbatim>\<open>bootstrapCurrentSchema\<close> of \<^verbatim>\<open>dispatch/registry.ts\<close>): an empty
  file is given the current schema, any other file must already be at the current version with
  exactly the expected tables and columns, consistent references and readable lineages. A database
  is its \<^verbatim>\<open>user_version\<close>, its tables with their columns in creation order, and its rows.
\<close>

section \<open>The database file\<close>

record database =
  db_version :: int
  db_tables :: "(string \<times> string list) list"
  db_rows :: registry

datatype bootstrap_error =
    Wrong_Version int
  | Wrong_Tables "string list"
  | Wrong_Columns string
  | Foreign_Keys_Violated
  | Unreadable_Lineage registry_error

definition DISPATCH_REGISTRY_SCHEMA_VERSION :: int where
  "DISPATCH_REGISTRY_SCHEMA_VERSION = 2"

definition schemaVersion :: "database \<Rightarrow> int" where
  "schemaVersion db = db_version db"

text \<open>\<^verbatim>\<open>name LIKE 'sqlite_%'\<close>: case-insensitive, and the underscore is any one character.\<close>

definition sqlite_internal :: "string \<Rightarrow> bool" where
  "sqlite_internal name \<longleftrightarrow> 7 \<le> length name \<and> map ascii_lower (take 6 name) = ''sqlite''"

definition userTables :: "database \<Rightarrow> string list" where
  "userTables db = sort (filter (\<lambda>name. \<not> sqlite_internal name) (map fst (db_tables db)))"

text \<open>An \<^verbatim>\<open>AUTOINCREMENT\<close> column makes SQLite add \<^verbatim>\<open>sqlite_sequence\<close>.\<close>

definition created_tables :: "(string \<times> string list) list" where
  "created_tables = [
    (''harness_lineages'',
      [''lineage_id'', ''logical_lineage_id'', ''configuration_json'', ''configuration_hash'',
       ''provider'', ''harness_kind'', ''session_state'', ''capabilities_json'',
       ''attention_json'', ''intervention_json'', ''started_at'', ''last_activity_at'',
       ''result_control_path'', ''ownership_token'', ''active_action_id'',
       ''execution_handle_json'', ''transport_binding_json'', ''native_session_json'',
       ''interactive_json'', ''created_at'', ''updated_at'']),
    (''dispatches'',
      [''action_id'', ''run_id'', ''occurrence_id'', ''attempt_id'', ''semantic_step_key'',
       ''action_json'', ''action_hash'', ''state'', ''lineage_id'', ''result_nonce'',
       ''result_directory'', ''completion_requirement_json'', ''outputs_json'', ''failure_json'',
       ''prompt_intent_at'', ''prompt_accepted_at'', ''native_activity_at'',
       ''provider_turn_settled_at'', ''native_idle_at'', ''structured_result_received_at'',
       ''stalled_at'', ''settled_at'', ''prompt_evidence_json'', ''prompt_authorized_at'',
       ''server_acknowledged_at'', ''created_at'', ''updated_at'']),
    (''human_attention_requests'',
      [''attention_id'', ''request_generation'', ''registration_request_id'', ''action_id'',
       ''run_id'', ''occurrence_id'', ''attempt_id'', ''lineage_id'', ''harness_execution_id'',
       ''native_session_id'', ''recoverability'', ''controller_generation'', ''request_json'',
       ''response_state'', ''response_json'', ''delivery_state'', ''delivery_attempt_id'',
       ''created_at'', ''response_committed_at'', ''delivery_requested_at'',
       ''delivery_acknowledged_at'', ''delivery_uncertain_at'', ''cancelled_at'',
       ''cancellation_reason'', ''updated_at'']),
    (''human_attention_events'',
      [''event_id'', ''attention_id'', ''event_type'', ''occurred_at'', ''metadata_json'']),
    (''physical_process_transitions'',
      [''target_action_id'', ''source_action_id'', ''source_attempt_id'', ''target_attempt_id'',
       ''source_lineage_id'', ''target_lineage_id'', ''mode'', ''recorded_at''])]"

definition createCurrentSchema :: "database \<Rightarrow> database" where
  "createCurrentSchema db = \<lparr>
     db_version = DISPATCH_REGISTRY_SCHEMA_VERSION,
     db_tables = db_tables db @ created_tables @
       (if ''sqlite_sequence'' \<in> fst ` set (db_tables db) then []
        else [(''sqlite_sequence'', [''name'', ''seq''])]),
     db_rows = empty_registry\<rparr>"

definition expected_columns :: "(string \<times> string list) list" where
  "expected_columns = [
    (''harness_lineages'',
      [''lineage_id'', ''logical_lineage_id'', ''configuration_json'', ''configuration_hash'',
       ''provider'', ''harness_kind'', ''session_state'', ''capabilities_json'',
       ''attention_json'', ''intervention_json'', ''started_at'', ''last_activity_at'',
       ''result_control_path'', ''ownership_token'', ''active_action_id'',
       ''execution_handle_json'', ''transport_binding_json'', ''native_session_json'',
       ''interactive_json'', ''created_at'', ''updated_at'']),
    (''dispatches'',
      [''action_id'', ''run_id'', ''occurrence_id'', ''attempt_id'', ''semantic_step_key'',
       ''action_json'', ''action_hash'', ''state'', ''lineage_id'', ''result_nonce'',
       ''result_directory'', ''completion_requirement_json'', ''outputs_json'', ''failure_json'',
       ''prompt_intent_at'', ''prompt_accepted_at'', ''native_activity_at'',
       ''provider_turn_settled_at'', ''native_idle_at'', ''structured_result_received_at'',
       ''stalled_at'', ''settled_at'', ''prompt_evidence_json'', ''prompt_authorized_at'',
       ''server_acknowledged_at'', ''created_at'', ''updated_at'']),
    (''human_attention_requests'',
      [''attention_id'', ''request_generation'', ''registration_request_id'', ''action_id'',
       ''run_id'', ''occurrence_id'', ''attempt_id'', ''lineage_id'', ''harness_execution_id'',
       ''native_session_id'', ''recoverability'', ''controller_generation'', ''request_json'',
       ''response_state'', ''response_json'', ''delivery_state'', ''delivery_attempt_id'',
       ''created_at'', ''response_committed_at'', ''delivery_requested_at'',
       ''delivery_acknowledged_at'', ''delivery_uncertain_at'', ''cancelled_at'',
       ''cancellation_reason'', ''updated_at'']),
    (''human_attention_events'',
      [''event_id'', ''attention_id'', ''event_type'', ''occurred_at'', ''metadata_json'']),
    (''physical_process_transitions'',
      [''target_action_id'', ''source_action_id'', ''source_attempt_id'', ''target_attempt_id'',
       ''source_lineage_id'', ''target_lineage_id'', ''mode'', ''recorded_at''])]"

text \<open>\<^verbatim>\<open>PRAGMA foreign_key_check\<close>: the rows whose reference does not resolve.\<close>

definition foreign_key_failures :: "registry \<Rightarrow> nat" where
  "foreign_key_failures s =
     length (filter (\<lambda>d. \<not> known_lineage (d_lineage_id d) s) (reg_dispatches s)) +
     length (filter (\<lambda>h. dispatch_row (h_action_id h) s = None \<or> lineage_row (h_lineage_id h) s = None)
       (reg_attention s)) +
     length (filter (\<lambda>e. attention_row (e_attention_id e) s = None) (reg_events s)) +
     length (filter (\<lambda>t. dispatch_row (t_targetActionId t) s = None \<or>
         dispatch_row (t_sourceActionId t) s = None \<or> lineage_row (t_sourceLineageId t) s = None \<or>
         lineage_row (t_targetLineageId t) s = None) (reg_transitions s))"

fun check_columns ::
  "(string \<times> string list) list \<Rightarrow> (string \<times> string list) list \<Rightarrow> bootstrap_error + unit" where
  "check_columns [] tables = Inr ()"
| "check_columns ((table, columns) # expected) tables =
     (if map_of tables table = Some columns then check_columns expected tables
      else Inl (Wrong_Columns table))"

definition validateCurrentSchema :: "database \<Rightarrow> bootstrap_error + unit" where
  "validateCurrentSchema db =
     (if userTables db \<noteq> sort (map fst expected_columns) then Inl (Wrong_Tables (userTables db))
      else bind_result (check_columns expected_columns (db_tables db)) (\<lambda>_.
        if foreign_key_failures (db_rows db) > 0 then Inl Foreign_Keys_Violated else Inr ()))"

fun read_lineages :: "LineageRow list \<Rightarrow> bootstrap_error + unit" where
  "read_lineages [] = Inr ()"
| "read_lineages (row # rows) =
     (case mapLineage row of Inl e \<Rightarrow> Inl (Unreadable_Lineage e) | Inr _ \<Rightarrow> read_lineages rows)"

definition bootstrapCurrentSchema :: "database \<Rightarrow> bootstrap_error + database" where
  "bootstrapCurrentSchema db =
     bind_result
       (if userTables db = [] \<and> schemaVersion db = 0 then Inr (createCurrentSchema db)
        else if schemaVersion db \<noteq> DISPATCH_REGISTRY_SCHEMA_VERSION
        then Inl (Wrong_Version (schemaVersion db))
        else Inr db)
       (\<lambda>db'. bind_result (validateCurrentSchema db') (\<lambda>_.
          bind_result (read_lineages (reg_lineages (db_rows db'))) (\<lambda>_. Inr db')))"

section \<open>The schema that is created is the one that is expected\<close>

lemma created_is_expected: "created_tables = expected_columns"
  by (simp add: created_tables_def expected_columns_def)

lemma check_columns_iff:
  "check_columns expected tables = Inr () \<longleftrightarrow>
     list_all (\<lambda>(table, columns). map_of tables table = Some columns) expected"
  by (induction expected) (auto split: if_splits)

lemma created_user_tables:
  "filter (\<lambda>name. \<not> sqlite_internal name) (map fst expected_columns) = map fst expected_columns"
  "\<not> list_ex (\<lambda>(table, columns). sqlite_internal table) expected_columns"
  "distinct (map fst expected_columns)"
  "sqlite_internal ''sqlite_sequence''"
  by (simp_all add: expected_columns_def sqlite_internal_def ascii_lower_def Let_def)

lemma read_lineages_iff:
  "read_lineages rows = Inr () \<longleftrightarrow> (\<forall>row \<in> set rows. \<exists>l. mapLineage row = Inr l)"
  by (induction rows) (auto split: sum.splits)

lemma foreign_key_failures_schema: "schema_ok s \<Longrightarrow> foreign_key_failures s = 0"
  by (auto simp: schema_ok_def foreign_key_failures_def dispatch_keys_ok_def attention_keys_ok_def
      transition_keys_ok_def filter_empty_conv)

lemma sort_eq_Nil: "sort xs = [] \<longleftrightarrow> xs = []"
  by (metis length_sort length_0_conv)

lemma filter_user_tables_Nil:
  "userTables db = [] \<Longrightarrow> name \<in> fst ` set (db_tables db) \<Longrightarrow> sqlite_internal name"
  by (auto simp: userTables_def sort_eq_Nil filter_empty_conv)

lemma createCurrentSchema_tables:
  assumes "userTables db = []"
  shows "userTables (createCurrentSchema db) = sort (map fst expected_columns)"
    and "check_columns expected_columns (db_tables (createCurrentSchema db)) = Inr ()"
proof -
  have none: "filter (\<lambda>name. \<not> sqlite_internal name) (map fst (db_tables db)) = []"
    using assms by (simp add: userTables_def sort_eq_Nil)
  show "userTables (createCurrentSchema db) = sort (map fst expected_columns)"
    using created_user_tables(1,4) none
    by (simp add: userTables_def createCurrentSchema_def created_is_expected)
  have "map_of (db_tables (createCurrentSchema db)) table = Some columns"
    if "(table, columns) \<in> set expected_columns" for table columns
  proof -
    have "\<not> sqlite_internal table"
      using created_user_tables(2) that by (auto simp: list_ex_iff)
    then have "map_of (db_tables db) table = None"
      using filter_user_tables_Nil [OF assms] by (auto simp: map_of_eq_None_iff)
    moreover have "map_of expected_columns table = Some columns"
      using created_user_tables(3) that by (rule map_of_is_SomeI)
    ultimately show ?thesis
      by (auto simp: createCurrentSchema_def created_is_expected map_add_def)
  qed
  then show "check_columns expected_columns (db_tables (createCurrentSchema db)) = Inr ()"
    by (auto simp: check_columns_iff list_all_iff)
qed

text \<open>
  opening a database either creates the current schema in a file with no user table and
  version 0, or leaves the file exactly as it is; and it succeeds for an existing file exactly when
  the version is the current one, the user tables and their columns (in order) are the expected
  ones, every reference resolves and every lineage row decodes. No other file is ever changed.
\<close>

theorem bootstrap_accepts:
  "bootstrapCurrentSchema db = Inr db' \<longleftrightarrow>
     userTables db = [] \<and> schemaVersion db = 0 \<and> db' = createCurrentSchema db \<or>
     db' = db \<and> schemaVersion db = DISPATCH_REGISTRY_SCHEMA_VERSION \<and>
       userTables db = sort (map fst expected_columns) \<and>
       list_all (\<lambda>(table, columns). map_of (db_tables db) table = Some columns) expected_columns \<and>
       foreign_key_failures (db_rows db) = 0 \<and>
       list_all (\<lambda>row. \<exists>l. mapLineage row = Inr l) (reg_lineages (db_rows db))"
proof (cases "userTables db = [] \<and> schemaVersion db = 0")
  case True
  then have "validateCurrentSchema (createCurrentSchema db) = Inr ()"
    using createCurrentSchema_tables [of db]
    by (simp add: validateCurrentSchema_def foreign_key_failures_schema schema_ok_empty
        createCurrentSchema_def)
  moreover have "reg_lineages (db_rows (createCurrentSchema db)) = []"
    by (simp add: createCurrentSchema_def empty_registry_def)
  moreover have "schemaVersion db \<noteq> DISPATCH_REGISTRY_SCHEMA_VERSION"
    using True by (simp add: DISPATCH_REGISTRY_SCHEMA_VERSION_def)
  ultimately show ?thesis
    using True by (auto simp: bootstrapCurrentSchema_def)
next
  case False
  have validate: "validateCurrentSchema db = Inr () \<longleftrightarrow>
      userTables db = sort (map fst expected_columns) \<and>
      list_all (\<lambda>(table, columns). map_of (db_tables db) table = Some columns) expected_columns \<and>
      foreign_key_failures (db_rows db) = 0"
    by (auto simp: validateCurrentSchema_def bind_result_eq_Inr check_columns_iff split: if_splits)
  have "bootstrapCurrentSchema db = Inr db' \<longleftrightarrow>
      schemaVersion db = DISPATCH_REGISTRY_SCHEMA_VERSION \<and> validateCurrentSchema db = Inr () \<and>
      read_lineages (reg_lineages (db_rows db)) = Inr () \<and> db' = db"
    using False by (auto simp: bootstrapCurrentSchema_def bind_result_eq_Inr split: if_splits)
  then show ?thesis
    unfolding validate read_lineages_iff using False by (auto simp: list_all_iff)
qed

section \<open>Reopening\<close>

definition current_database :: "registry \<Rightarrow> database" where
  "current_database s = (createCurrentSchema
     \<lparr>db_version = 0, db_tables = [], db_rows = empty_registry\<rparr>)\<lparr>db_rows := s\<rparr>"

lemma current_database_sel [simp]:
  "db_rows (current_database s) = s"
  "schemaVersion (current_database s) = DISPATCH_REGISTRY_SCHEMA_VERSION"
  by (simp_all add: current_database_def schemaVersion_def createCurrentSchema_def)

lemma current_database_valid:
  "userTables (current_database s) = sort (map fst expected_columns)"
  "check_columns expected_columns (db_tables (current_database s)) = Inr ()"
  using createCurrentSchema_tables
    [of "\<lparr>db_version = 0, db_tables = [], db_rows = empty_registry\<rparr>"]
  by (simp_all add: current_database_def userTables_def)

lemma sorted_tables_not_Nil: "sort (map fst expected_columns) \<noteq> []"
  by (simp add: sort_eq_Nil expected_columns_def del: sort_key_simps)

lemma bootstrap_current:
  assumes "schema_ok s"
  shows "bootstrapCurrentSchema (current_database s) =
    bind_result (read_lineages (reg_lineages s)) (\<lambda>_. Inr (current_database s))"
  using assms sorted_tables_not_Nil
  by (simp add: bootstrapCurrentSchema_def validateCurrentSchema_def current_database_valid
      foreign_key_failures_schema)

text \<open>
  C11: a worker that stops in any reachable state finds its own database acceptable again: version,
  tables, columns and references pass, and the only thing that can refuse it is a lineage row whose
  stored identity does not decode.
\<close>

theorem reachable_reopens:
  assumes "registry_reachable cfg s"
  shows "bootstrapCurrentSchema (current_database s) =
    (case List.find (\<lambda>row. isl (mapLineage row)) (reg_lineages s) of
       None \<Rightarrow> Inr (current_database s)
     | Some row \<Rightarrow> Inl (Unreadable_Lineage (projl (mapLineage row))))"
proof -
  have "read_lineages rows =
      (case List.find (\<lambda>row. isl (mapLineage row)) rows of
         None \<Rightarrow> Inr () | Some row \<Rightarrow> Inl (Unreadable_Lineage (projl (mapLineage row))))" for rows
    by (induction rows) (auto split: sum.splits)
  then show ?thesis
    by (simp add: bootstrap_current [OF reachable_schema_ok [OF assms]] split: option.split)
qed

theorem reachable_reopens_witness:
  "bootstrapCurrentSchema (current_database occupied_state) = Inr (current_database occupied_state)"
  by (subst reachable_reopens [OF occupied_state_reachable])
    (simp add: occupied_state_def occupied_lineage_def mapLineage_new)

section \<open>A session that locks the database\<close>

definition quoted_handle :: harness_execution_handle where
  "quoted_handle = \<lparr>eh_harnessKind = ''pi'', eh_executionId = ''l1'',
     eh_nativeSession = Some quoted_session, eh_transportBinding = None\<rparr>"

lemma utf8_length_repeat: "utf8_length (concat (replicate n t)) = n * utf8_length t"
  by (induction n) (simp_all add: utf8_length_def)

lemma quoted_handle_small:
  "utf8_length (stringify (execution_handle_value quoted_handle)) \<le> MAX_HARNESS_EXECUTION_HANDLE_BYTES"
  by (simp add: execution_handle_value_def quoted_handle_def j_optional_def native_session_value_def
      quoted_session_def stringify_string_def utf8_length_repeat MAX_HARNESS_EXECUTION_HANDLE_BYTES_def
      utf8_length_Cons utf8_length_def [of "[]"] ch_quote_def escape_char_def ch_backslash_def show_int_def
      show_nat.simps Json.digit_char_def Let_def)

lemma quoted_handle_valid:
  "validateHarnessExecutionHandle (execution_handle_value quoted_handle) (Some ''pi'') (Some ''l1'') =
     Inr quoted_handle"
proof -
  have "token_128 ''pi''" by code_simp
  moreover have "validateNativeSessionRef (native_session_value quoted_session) (Some ''pi'') = Inr quoted_session"
    using quoted_session_valid validate_native_valid by blast
  ultimately show ?thesis
    using quoted_handle_small
    by (simp add: validateHarnessExecutionHandle_def execution_handle_value_def quoted_handle_def
        j_optional_def member_def validate_optional_def utf8_length_def del: stringify.simps)
qed

lemma example_lineage_readable:
  "\<exists>l. mapLineage example_lineage = Inr l \<and> lin_harnessKind l = ''pi'' \<and> lin_interactive l = None"
  by (simp add: example_lineage_def mapLineage_new)

text \<open>
  the size limits of a native session disagree between writing and reading: a session id of
  7000 quotation marks is accepted and recorded, in a reachable state, and the next start of the
  worker then refuses its whole database.
\<close>

lemma oversized_session_locks_database:
  "\<exists>s. recordExecution ''l1'' quoted_handle None accepted_state = Inr s \<and>
     registry_reachable example_cfg s \<and>
     bootstrapCurrentSchema (current_database s) =
       Inl (Unreadable_Lineage (Bad_Identity Native_Too_Large))"
proof -
  let ?row = "example_lineage\<lparr>
    l_execution_handle := Some (Stored (JObj [(''schemaVersion'', JNum 1),
      (''harnessKind'', JStr ''pi''), (''executionId'', JStr ''l1'')])),
    l_transport_binding := None, l_interactive := None,
    l_native_session := Some (Stored (native_session_value quoted_session))\<rparr>"
  have session: "validateNativeSessionRef (native_session_value quoted_session) (Some ''pi'') = Inr quoted_session"
    using quoted_session_valid validate_native_valid by blast
  have [simp]: "eh_nativeSession quoted_handle = Some quoted_session"
    "eh_transportBinding quoted_handle = None" "eh_harnessKind quoted_handle = ''pi''"
    "eh_executionId quoted_handle = ''l1''"
    by (simp_all add: quoted_handle_def)
  obtain l where readable: "mapLineage example_lineage = Inr l" "lin_harnessKind l = ''pi''"
    "lin_interactive l = None"
    using example_lineage_readable by blast
  then have got: "getLineage ''l1'' accepted_state = Inr l" by (simp add: getLineage_def)
  have recorded: "recordExecution ''l1'' quoted_handle None accepted_state =
      Inr (accepted_state\<lparr>reg_lineages := [?row]\<rparr>)"
    using got readable
    by (simp add: recordExecution_def
        quoted_handle_valid lift_identity_def serializeHarnessExecutionHandle_def
        serializeTransportBinding_def serializeNativeSessionRef_def session update_lineage_def
        accepted_state_def)
  then have reachable: "registry_reachable example_cfg (accepted_state\<lparr>reg_lineages := [?row]\<rparr>)"
    by (rule registry_reachable.step [OF accepted_state_reachable registry_step.record_execution])
  have "mapLineage ?row = Inl (Bad_Identity Native_Too_Large)"
    using quoted_session_size text_of_Stored_not_Nil [of "native_session_value quoted_session"]
    by (simp add: mapLineage_def parseTransportBinding_def parseNativeSessionRef_def lift_identity_def
        example_lineage_def new_lineage_row_def capabilities_readable del: stringify.simps)
  then have "bootstrapCurrentSchema (current_database (accepted_state\<lparr>reg_lineages := [?row]\<rparr>)) =
      Inl (Unreadable_Lineage (Bad_Identity Native_Too_Large))"
    by (simp add: bootstrap_current [OF reachable_schema_ok [OF reachable]])
  with recorded reachable show ?thesis by blast
qed

end
