(* ===== verification/Tactic_Tree.thy ===== *)
theory Tactic_Tree
  imports Json "HOL-Library.Sublist"
begin

text \<open>
  The tree of a Tactic as the war room edits it (\<^verbatim>\<open>components/war-room/tactic-model.ts\<close>): its nodes,
  their preorder listing with paths, the focus on a path, and the structural edits. A tree has no
  shared nodes, so object identity of two nodes is equality of their paths. The interface
  \<open>path_focus\<close> states what reading and replacing at a path promise to every edit.
\<close>

section \<open>Nodes\<close>

record artifact_ref =
  ref_producer :: string
  ref_output :: string

record artifact_input =
  in_name :: string
  in_kind :: string
  in_source :: "artifact_ref option"
  in_required :: bool

record artifact_review =
  review_gate_key :: string
  review_subject_input :: string

record artifact_output =
  out_name :: string
  out_kind :: string
  out_review :: "artifact_review option"

datatype performer_selector = By_Class | Same_As

datatype step_context = Fresh_Context | Continue_Context string

record step_node =
  step_key :: string
  step_name :: string
  step_instruction :: string
  step_performer_selector :: performer_selector
  step_performer_value :: string
  step_context_of :: step_context
  step_consumes :: "artifact_input list"
  step_produces :: "artifact_output list"

text \<open>The operator of a condition is always \<^verbatim>\<open>equals\<close>; its value is a JSON scalar.\<close>

record until_condition =
  cond_source :: artifact_ref
  cond_field :: string
  cond_value :: json

record input_binding =
  bind_input :: string
  bind_source :: artifact_ref

record tactic_use =
  use_instance_key :: string
  use_tactic_definition_id :: string
  use_input_bindings :: "input_binding list"

text \<open>\<^verbatim>\<open>max_remediations\<close> is a JavaScript number: \<open>None\<close> when it is not an integer.\<close>

datatype tactic_node =
    Step step_node
  | Sequence "tactic_node list"
  | Parallel "tactic_node list"
  | Until tactic_node until_condition tactic_node "int option"
  | Use tactic_use

datatype path_part = Index nat | At_Check | At_Otherwise

type_synonym node_path = "path_part list"

datatype branch = Branch_Root | Branch_Child | Branch_Check | Branch_Otherwise

record node_entry =
  entry_node :: tactic_node
  entry_path :: node_path
  entry_depth :: nat
  entry_branch :: branch

section \<open>Preorder listing\<close>

fun entries :: "tactic_node \<Rightarrow> node_path \<Rightarrow> nat \<Rightarrow> branch \<Rightarrow> node_entry list"
  and child_entries :: "tactic_node list \<Rightarrow> node_path \<Rightarrow> nat \<Rightarrow> nat \<Rightarrow> node_entry list" where
  "entries node path depth branch =
     \<lparr>entry_node = node, entry_path = path, entry_depth = depth, entry_branch = branch\<rparr> #
     (case node of
        Sequence children \<Rightarrow> child_entries children path 0 (depth + 1)
      | Parallel children \<Rightarrow> child_entries children path 0 (depth + 1)
      | Until check condition otherwise limit \<Rightarrow>
          entries check (path @ [At_Check]) (depth + 1) Branch_Check @
          entries otherwise (path @ [At_Otherwise]) (depth + 1) Branch_Otherwise
      | _ \<Rightarrow> [])"
| "child_entries [] path index depth = []"
| "child_entries (child # children) path index depth =
     entries child (path @ [Index index]) depth Branch_Child @
     child_entries children path (Suc index) depth"

declare entries.simps [simp del]

lemmas entries_simps [simp, tree_simps] =
  entries.simps [of "Step s" for s] entries.simps [of "Use u" for u]
  entries.simps [of "Sequence cs" for cs] entries.simps [of "Parallel cs" for cs]
  entries.simps [of "Until c k e m" for c k e m]

abbreviation all_entries :: "tactic_node \<Rightarrow> node_entry list" where
  "all_entries body \<equiv> entries body [] 0 Branch_Root"

definition steps :: "tactic_node \<Rightarrow> step_node list" where
  "steps body = concat (map (\<lambda>e. case entry_node e of Step s \<Rightarrow> [s] | _ \<Rightarrow> []) (all_entries body))"

definition uses :: "tactic_node \<Rightarrow> tactic_use list" where
  "uses body = concat (map (\<lambda>e. case entry_node e of Use u \<Rightarrow> [u] | _ \<Rightarrow> []) (all_entries body))"

definition localIdentities :: "tactic_node \<Rightarrow> string list" where
  "localIdentities body = concat (map (\<lambda>e. case entry_node e of
       Step s \<Rightarrow> [step_key s] | Use u \<Rightarrow> [use_instance_key u] | _ \<Rightarrow> []) (all_entries body))"

definition subtreeSize :: "tactic_node \<Rightarrow> nat" where
  "subtreeSize node = length (all_entries node)"

section \<open>The focus on a path\<close>

fun child_at :: "tactic_node \<Rightarrow> path_part \<Rightarrow> tactic_node option" where
  "child_at (Sequence children) (Index i) = (if i < length children then Some (children ! i) else None)"
| "child_at (Parallel children) (Index i) = (if i < length children then Some (children ! i) else None)"
| "child_at (Until check condition otherwise limit) At_Check = Some check"
| "child_at (Until check condition otherwise limit) At_Otherwise = Some otherwise"
| "child_at _ _ = None"

fun nodeAt :: "tactic_node \<Rightarrow> node_path \<Rightarrow> tactic_node option" where
  "nodeAt node [] = Some node"
| "nodeAt node (part # rest) =
     (case child_at node part of None \<Rightarrow> None | Some child \<Rightarrow> nodeAt child rest)"

text \<open>A child list is rebuilt with the child at the index replaced, if there is one.\<close>

fun replaceNode :: "tactic_node \<Rightarrow> node_path \<Rightarrow> tactic_node \<Rightarrow> tactic_node" where
  "replaceNode root [] replacement = replacement"
| "replaceNode root (part # rest) replacement =
     (case (part, root) of
        (Index i, Sequence children) \<Rightarrow>
          Sequence (children[i := replaceNode (children ! i) rest replacement])
      | (Index i, Parallel children) \<Rightarrow>
          Parallel (children[i := replaceNode (children ! i) rest replacement])
      | (At_Check, Until check condition otherwise limit) \<Rightarrow>
          Until (replaceNode check rest replacement) condition otherwise limit
      | (At_Otherwise, Until check condition otherwise limit) \<Rightarrow>
          Until check condition (replaceNode otherwise rest replacement) limit
      | _ \<Rightarrow> root)"

declare replaceNode.simps(2) [simp del]

fun container_children :: "tactic_node \<Rightarrow> tactic_node list option" where
  "container_children (Sequence children) = Some children"
| "container_children (Parallel children) = Some children"
| "container_children _ = None"

text \<open>\<^verbatim>\<open>{ ...container, children }\<close>\<close>

fun with_children :: "tactic_node \<Rightarrow> tactic_node list \<Rightarrow> tactic_node" where
  "with_children (Sequence _) children = Sequence children"
| "with_children (Parallel _) children = Parallel children"
| "with_children node children = node"

section \<open>Edits\<close>

definition appendChild :: "tactic_node \<Rightarrow> node_path \<Rightarrow> tactic_node \<Rightarrow> tactic_node" where
  "appendChild root path child =
     (case nodeAt root path of
        None \<Rightarrow> root
      | Some container \<Rightarrow>
          (case container_children container of
             None \<Rightarrow> root
           | Some children \<Rightarrow> replaceNode root path (with_children container (children @ [child]))))"

fun last_index :: "node_path \<Rightarrow> nat option" where
  "last_index path = (if path = [] then None else case last path of Index i \<Rightarrow> Some i | _ \<Rightarrow> None)"

text \<open>The parent container of a path that ends in an index: the index, the parent, its children.\<close>

definition parent_container ::
  "tactic_node \<Rightarrow> node_path \<Rightarrow> (nat \<times> tactic_node \<times> tactic_node list) option" where
  "parent_container root path =
     (case (last_index path, nodeAt root (butlast path)) of
        (Some index, Some parent) \<Rightarrow>
          (case container_children parent of
             None \<Rightarrow> None
           | Some children \<Rightarrow> Some (index, parent, children))
      | _ \<Rightarrow> None)"

definition insertAfter :: "tactic_node \<Rightarrow> node_path \<Rightarrow> tactic_node \<Rightarrow> tactic_node" where
  "insertAfter root path child =
     (if path = [] then Sequence [root, child]
      else case parent_container root path of
        None \<Rightarrow> root
      | Some (index, parent, children) \<Rightarrow>
          replaceNode root (butlast path) (with_children parent
            (take (index + 1) children @ [child] @ drop (index + 1) children)))"

record removal =
  removal_body :: tactic_node
  removal_path :: node_path
  removal_removed :: bool

definition removeNodeWithSelection :: "tactic_node \<Rightarrow> node_path \<Rightarrow> removal" where
  "removeNodeWithSelection root path =
     (if path = [] then
        \<lparr>removal_body = Sequence [], removal_path = [], removal_removed = True\<rparr>
      else case nodeAt root (butlast path) of
        None \<Rightarrow> \<lparr>removal_body = root, removal_path = path, removal_removed = False\<rparr>
      | Some parent \<Rightarrow>
          (case (last path, parent) of
             (At_Check, Until check condition otherwise limit) \<Rightarrow>
               \<lparr>removal_body = replaceNode root (butlast path) (Until (Sequence []) condition otherwise limit),
                 removal_path = butlast path, removal_removed = True\<rparr>
           | (At_Otherwise, Until check condition otherwise limit) \<Rightarrow>
               \<lparr>removal_body = replaceNode root (butlast path) (Until check condition (Sequence []) limit),
                 removal_path = butlast path, removal_removed = True\<rparr>
           | (Index part, _) \<Rightarrow>
               (case container_children parent of
                  None \<Rightarrow> \<lparr>removal_body = root, removal_path = path, removal_removed = False\<rparr>
                | Some all_children \<Rightarrow>
                    let children = take part all_children @ drop (Suc part) all_children;
                        body = replaceNode root (butlast path) (with_children parent children) in
                    if children = [] then
                      \<lparr>removal_body = body, removal_path = butlast path, removal_removed = True\<rparr>
                    else
                      \<lparr>removal_body = body,
                        removal_path = butlast path @ [Index (min part (length children - 1))],
                        removal_removed = True\<rparr>)
           | _ \<Rightarrow> \<lparr>removal_body = root, removal_path = path, removal_removed = False\<rparr>))"

definition removeNode :: "tactic_node \<Rightarrow> node_path \<Rightarrow> tactic_node" where
  "removeNode root path = removal_body (removeNodeWithSelection root path)"

datatype direction = Move_Up | Move_Down

text \<open>The index after a move by one, when it is in range.\<close>

definition move_target :: "nat \<Rightarrow> direction \<Rightarrow> nat \<Rightarrow> nat option" where
  "move_target index direction child_total =
     (case direction of
        Move_Up \<Rightarrow> if index = 0 \<or> child_total < index then None else Some (index - 1)
      | Move_Down \<Rightarrow> if child_total \<le> index + 1 then None else Some (index + 1))"

definition moveNode :: "tactic_node \<Rightarrow> node_path \<Rightarrow> direction \<Rightarrow> tactic_node \<times> node_path" where
  "moveNode root path direction =
     (if path = [] then (root, path)
      else case parent_container root path of
        None \<Rightarrow> (root, path)
      | Some (index, parent, children) \<Rightarrow>
          (case move_target index direction (length children) of
             None \<Rightarrow> (root, path)
           | Some target \<Rightarrow>
               if length children \<le> index then (root, path)
               else (replaceNode root (butlast path) (with_children parent
                   (children[index := children ! target, target := children ! index])),
                 butlast path @ [Index target])))"

definition moveIntoPrevious :: "tactic_node \<Rightarrow> node_path \<Rightarrow> tactic_node \<times> node_path" where
  "moveIntoPrevious root path =
     (case parent_container root path of
        None \<Rightarrow> (root, path)
      | Some (index, parent, children) \<Rightarrow>
          if index < 1 \<or> length children \<le> index then (root, path)
          else (case container_children (children ! (index - 1)) of
             None \<Rightarrow> (root, path)
           | Some previous_children \<Rightarrow>
               let destination = butlast path @ [Index (index - 1)] in
               (appendChild (removeNode root path) destination (children ! index),
                destination @ [Index (length previous_children)])))"

definition moveOut :: "tactic_node \<Rightarrow> node_path \<Rightarrow> tactic_node \<times> node_path" where
  "moveOut root path =
     (if length path < 2 then (root, path)
      else case (parent_container root path, parent_container root (butlast path), nodeAt root path) of
        (Some _, Some (parentIndex, _, _), Some selected) \<Rightarrow>
          (insertAfter (removeNode root path) (butlast path) selected,
           butlast (butlast path) @ [Index (parentIndex + 1)])
      | _ \<Rightarrow> (root, path))"

text \<open>The innermost loop is not looked for: the outermost loop the path enters is returned.\<close>

fun enclosing_until_from ::
  "tactic_node \<Rightarrow> node_path \<Rightarrow> node_path \<Rightarrow> (tactic_node \<times> node_path \<times> path_part) option" where
  "enclosing_until_from node traversed [] = None"
| "enclosing_until_from node traversed (part # rest) =
     (case (node, part) of
        (Until check condition otherwise limit, At_Check) \<Rightarrow> Some (node, traversed, part)
      | (Until check condition otherwise limit, At_Otherwise) \<Rightarrow> Some (node, traversed, part)
      | (_, Index i) \<Rightarrow>
          (case container_children node of
             None \<Rightarrow> None
           | Some children \<Rightarrow>
               if i < length children
               then enclosing_until_from (children ! i) (traversed @ [part]) rest
               else None)
      | _ \<Rightarrow> None)"

definition enclosingUntil ::
  "tactic_node \<Rightarrow> node_path \<Rightarrow> (tactic_node \<times> node_path \<times> path_part) option" where
  "enclosingUntil root path = enclosing_until_from root [] path"

fun path_part_text :: "path_part \<Rightarrow> string" where
  "path_part_text (Index i) = show_nat i"
| "path_part_text At_Check = ''check''"
| "path_part_text At_Otherwise = ''otherwise''"

definition pathKey :: "node_path \<Rightarrow> string" where
  "pathKey path = (if path = [] then ''root'' else join ''.'' (map path_part_text path))"

end
