(* ===== verification/Tactic_Laws.thy ===== *)
theory Tactic_Laws
  imports Tactic_Tree "HOL-Library.Multiset"
begin

text \<open>
  The laws of a focus on a path, shown for \<^verbatim>\<open>nodeAt\<close> and \<^verbatim>\<open>replaceNode\<close>, what the preorder listing
  lists, and the leaves (Steps and reused Tactics) that an edit keeps.
\<close>

section \<open>Reading and replacing at a path\<close>

locale path_focus =
  fixes get :: "'t \<Rightarrow> 'p list \<Rightarrow> 't option"
    and put :: "'t \<Rightarrow> 'p list \<Rightarrow> 't \<Rightarrow> 't"
  assumes get_Nil: "get t [] = Some t"
    and get_append: "get t (p @ q) = Option.bind (get t p) (\<lambda>s. get s q)"
    and put_append: "get t p = Some s \<Longrightarrow> put t (p @ q) v = put t p (put s q v)"
    and get_put: "get t p \<noteq> None \<Longrightarrow> get (put t p v) p = Some v"
    and put_get: "get t p = Some v \<Longrightarrow> put t p v = t"
    and put_missing: "get t p = None \<Longrightarrow> put t p v = t"
    and put_put: "put (put t p v) p w = put t p w"
    and get_put_parallel: "p \<parallel> q \<Longrightarrow> get (put t p v) q = get t q"
begin

lemma get_put_below: "get t p \<noteq> None \<Longrightarrow> get (put t p v) (p @ q) = get v q"
  by (simp add: get_append get_put)

lemma get_prefix: "get t (p @ q) \<noteq> None \<Longrightarrow> get t p \<noteq> None"
  by (cases "get t p") (simp_all add: get_append)

lemma put_restore: "get t p = Some v \<Longrightarrow> put (put t p w) p v = t"
  by (simp add: put_put put_get)

end

lemma nodeAt_append: "nodeAt t (p @ q) = Option.bind (nodeAt t p) (\<lambda>s. nodeAt s q)"
  by (induction t p rule: nodeAt.induct) (auto split: option.split)

text \<open>Two children of a node: replacing one is reading the other unchanged.\<close>

lemma child_replace_same:
  assumes "child_at t part = Some c"
  shows "child_at (replaceNode t (part # rest) v) part = Some (replaceNode c rest v)"
  using assms by (cases t; cases part) (auto simp: replaceNode.simps(2) split: if_splits)

lemma child_replace_other:
  "part \<noteq> part' \<Longrightarrow> child_at (replaceNode t (part # rest) v) part' = child_at t part'"
  by (cases t; cases part; cases part') (auto simp: replaceNode.simps(2))

lemma replace_missing_child: "child_at t part = None \<Longrightarrow> replaceNode t (part # rest) v = t"
  by (cases t; cases part) (auto simp: replaceNode.simps(2) list_update_beyond not_less split: if_splits)

lemma replace_same_child:
  assumes "child_at t part = Some c" and "replaceNode c rest v = c"
  shows "replaceNode t (part # rest) v = t"
  using assms by (cases t; cases part) (auto simp: replaceNode.simps(2) split: if_splits)

lemma replace_cong_child:
  assumes "child_at t part = Some c" and "replaceNode c rest v = replaceNode c rest' v'"
  shows "replaceNode t (part # rest) v = replaceNode t (part # rest') v'"
  using assms by (cases t; cases part) (auto simp: replaceNode.simps(2) split: if_splits)

lemma replace_twice_child:
  assumes "child_at t part = Some c"
  shows "replaceNode (replaceNode t (part # rest) v) (part # rest') w =
    replaceNode t [part] (replaceNode (replaceNode c rest v) rest' w)"
  using assms by (cases t; cases part) (auto simp: replaceNode.simps(2) split: if_splits)

interpretation tree: path_focus nodeAt replaceNode
proof
  show nil: "nodeAt t [] = Some t" for t by simp
  show append: "nodeAt t (p @ q) = Option.bind (nodeAt t p) (\<lambda>s. nodeAt s q)" for t p q
    by (rule nodeAt_append)
  show missing: "nodeAt t p = None \<Longrightarrow> replaceNode t p v = t" for t p v
  proof (induction t p rule: nodeAt.induct)
    case (2 t part rest)
    then show ?case
      by (cases "child_at t part") (auto intro: replace_missing_child replace_same_child)
  qed simp
  show "nodeAt t p = Some s \<Longrightarrow> replaceNode t (p @ q) v = replaceNode t p (replaceNode s q v)" for t p s q v
  proof (induction t p rule: nodeAt.induct)
    case (2 t part rest)
    then obtain c where c: "child_at t part = Some c" "nodeAt c rest = Some s"
      by (auto split: option.splits)
    with 2 show ?case by (auto intro: replace_cong_child)
  qed simp
  show "nodeAt t p \<noteq> None \<Longrightarrow> nodeAt (replaceNode t p v) p = Some v" for t p v
  proof (induction t p rule: nodeAt.induct)
    case (2 t part rest)
    then obtain c where c: "child_at t part = Some c" "nodeAt c rest \<noteq> None"
      by (auto split: option.splits)
    with 2 show ?case by (simp add: child_replace_same)
  qed simp
  show "nodeAt t p = Some v \<Longrightarrow> replaceNode t p v = t" for t p v
  proof (induction t p rule: nodeAt.induct)
    case (2 t part rest)
    then show ?case
      by (auto split: option.splits intro: replace_same_child)
  qed simp
  show "replaceNode (replaceNode t p v) p w = replaceNode t p w" for t p v w
  proof (induction t p rule: nodeAt.induct)
    case (2 t part rest)
    show ?case
    proof (cases "child_at t part")
      case None
      then show ?thesis by (simp add: replace_missing_child)
    next
      case (Some c)
      with 2 show ?thesis
        by (subst replace_twice_child [OF Some]) (auto intro: replace_cong_child)
    qed
  qed simp
  show "p \<parallel> q \<Longrightarrow> nodeAt (replaceNode t p v) q = nodeAt t q" for t p q v
  proof (induction t p arbitrary: q rule: nodeAt.induct)
    case (2 t part rest)
    then obtain part' rest' where q: "q = part' # rest'" by (cases q) auto
    show ?case
    proof (cases "part' = part")
      case False
      then show ?thesis by (simp add: q child_replace_other)
    next
      case True
      with 2(2) q have "rest \<parallel> rest'" by (simp add: parallel_def)
      with 2(1) True q show ?thesis
        by (cases "child_at t part")
          (simp_all add: child_replace_same replace_missing_child)
    qed
  qed simp
qed

section \<open>Leaves\<close>

fun leaves :: "tactic_node \<Rightarrow> tactic_node list" where
  "leaves (Step s) = [Step s]"
| "leaves (Use u) = [Use u]"
| "leaves (Sequence children) = concat (map leaves children)"
| "leaves (Parallel children) = concat (map leaves children)"
| "leaves (Until check condition otherwise limit) = leaves check @ leaves otherwise"

fun own_leaf :: "tactic_node \<Rightarrow> tactic_node list" where
  "own_leaf (Step s) = [Step s]"
| "own_leaf (Use u) = [Use u]"
| "own_leaf _ = []"

lemma entries_leaves: "concat (map (\<lambda>e. own_leaf (entry_node e)) (entries t p d b)) = leaves t"
proof (induction t arbitrary: p d b)
  case (Sequence cs)
  have "concat (map (\<lambda>e. own_leaf (entry_node e)) (child_entries cs p i d')) = concat (map leaves cs)" for i d'
    using Sequence by (induction cs arbitrary: i) auto
  then show ?case by simp
next
  case (Parallel cs)
  have "concat (map (\<lambda>e. own_leaf (entry_node e)) (child_entries cs p i d')) = concat (map leaves cs)" for i d'
    using Parallel by (induction cs arbitrary: i) auto
  then show ?case by simp
qed simp_all

lemma concat_own_leaf:
  assumes "\<And>n. f n = concat (map g (own_leaf n))"
  shows "concat (map (\<lambda>e. f (entry_node e)) es) = concat (map g (concat (map (\<lambda>e. own_leaf (entry_node e)) es)))"
  by (induction es) (simp_all add: assms)

lemma listing_leaves:
  "steps t = concat (map (\<lambda>n. case n of Step s \<Rightarrow> [s] | _ \<Rightarrow> []) (leaves t))"
  "uses t = concat (map (\<lambda>n. case n of Use u \<Rightarrow> [u] | _ \<Rightarrow> []) (leaves t))"
  "localIdentities t = concat (map (\<lambda>n. case n of Step s \<Rightarrow> [step_key s] | Use u \<Rightarrow> [use_instance_key u] | _ \<Rightarrow> []) (leaves t))"
  unfolding steps_def uses_def localIdentities_def entries_leaves [of t "[]" 0 Branch_Root, symmetric]
  by (rule concat_own_leaf; simp split: tactic_node.split)+

lemma mset_leaves_update:
  "i < length cs \<Longrightarrow> mset (leaves s) + mset (leaves c') = mset (leaves v) + mset (leaves (cs ! i)) \<Longrightarrow>
    mset (leaves s) + mset (concat (map leaves (cs[i := c']))) = mset (leaves v) + mset (concat (map leaves cs))"
proof (induction cs arbitrary: i)
  case (Cons c cs)
  then show ?case by (cases i) (auto simp: union_ac)
qed simp

lemma mset_leaves_replace:
  "nodeAt t p = Some s \<Longrightarrow>
    mset (leaves (replaceNode t p v)) + mset (leaves s) = mset (leaves t) + mset (leaves v)"
proof (induction t p rule: nodeAt.induct)
  case (2 t part rest)
  then obtain c where c: "child_at t part = Some c" "nodeAt c rest = Some s"
    by (auto split: option.splits)
  with 2 have IH: "mset (leaves (replaceNode c rest v)) + mset (leaves s) = mset (leaves c) + mset (leaves v)"
    by simp
  from c(1) IH show ?case
    by (cases t; cases part) (auto simp: replaceNode.simps(2) union_ac split: if_splits intro: mset_leaves_update)
qed (simp add: union_commute)

section \<open>The listing\<close>

definition branch_at :: "branch \<Rightarrow> node_path \<Rightarrow> branch" where
  "branch_at b path =
     (if path = [] then b
      else case last path of
        Index _ \<Rightarrow> Branch_Child | At_Check \<Rightarrow> Branch_Check | At_Otherwise \<Rightarrow> Branch_Otherwise)"

definition entry_at :: "node_path \<Rightarrow> nat \<Rightarrow> branch \<Rightarrow> node_path \<Rightarrow> tactic_node \<Rightarrow> node_entry" where
  "entry_at start depth b path node =
     \<lparr>entry_node = node, entry_path = start @ path, entry_depth = depth + length path,
       entry_branch = branch_at b path\<rparr>"

lemma entry_at_Cons:
  "entry_at p d b (part # q) n = entry_at (p @ [part]) (Suc d) (branch_at b [part]) q n"
  by (simp add: entry_at_def branch_at_def)

lemma entry_at_Nil: "entry_at p d b [] n = \<lparr>entry_node = n, entry_path = p, entry_depth = d, entry_branch = b\<rparr>"
  by (simp add: entry_at_def branch_at_def)

lemma child_entries_nth:
  "child_entries cs p i d =
    concat (map (\<lambda>j. entries (cs ! j) (p @ [Index (i + j)]) d Branch_Child) [0..<length cs])"
proof (induction cs arbitrary: i)
  case (Cons c cs)
  have "map (\<lambda>j. entries ((c # cs) ! j) (p @ [Index (i + j)]) d Branch_Child) [0..<length (c # cs)] =
      entries c (p @ [Index i]) d Branch_Child #
      map (\<lambda>j. entries (cs ! j) (p @ [Index (Suc i + j)]) d Branch_Child) [0..<length cs]"
    unfolding length_Cons upt_conv_Cons [OF zero_less_Suc] map_Suc_upt [symmetric] by simp
  then show ?case by (simp add: Cons.IH)
qed simp

lemma set_child_entries:
  assumes "\<And>c p d b e. c \<in> set cs \<Longrightarrow> e \<in> set (entries c p d b) \<longleftrightarrow>
    (\<exists>q n. nodeAt c q = Some n \<and> e = entry_at p d b q n)"
  shows "e \<in> set (child_entries cs p 0 (Suc d)) \<longleftrightarrow>
    (\<exists>i < length cs. \<exists>q n. nodeAt (cs ! i) q = Some n \<and> e = entry_at p d b (Index i # q) n)"
  unfolding child_entries_nth
  using assms by (simp add: entry_at_Cons branch_at_def Bex_def cong: conj_cong)

lemma nodeAt_cases:
  "(\<exists>q n. nodeAt t q = Some n \<and> P q n) \<longleftrightarrow>
    P [] t \<or> (\<exists>part c. child_at t part = Some c \<and> (\<exists>q n. nodeAt c q = Some n \<and> P (part # q) n))"
proof
  assume "\<exists>q n. nodeAt t q = Some n \<and> P q n"
  then obtain q n where "nodeAt t q = Some n" "P q n" by blast
  then show "P [] t \<or> (\<exists>part c. child_at t part = Some c \<and> (\<exists>q n. nodeAt c q = Some n \<and> P (part # q) n))"
    by (cases q) (auto split: option.splits)
next
  assume "P [] t \<or> (\<exists>part c. child_at t part = Some c \<and> (\<exists>q n. nodeAt c q = Some n \<and> P (part # q) n))"
  then show "\<exists>q n. nodeAt t q = Some n \<and> P q n"
  proof (elim disjE exE conjE)
    assume "P [] t"
    then show ?thesis by (intro exI [of _ "[]"]) simp
  next
    fix part c q n
    assume "child_at t part = Some c" "nodeAt c q = Some n" "P (part # q) n"
    then show ?thesis by (intro exI [of _ "part # q"] exI [of _ n]) simp
  qed
qed

lemma child_exists:
  "(\<exists>part c. child_at (Sequence cs) part = Some c \<and> R part c) \<longleftrightarrow> (\<exists>i < length cs. R (Index i) (cs ! i))"
  "(\<exists>part c. child_at (Parallel cs) part = Some c \<and> R part c) \<longleftrightarrow> (\<exists>i < length cs. R (Index i) (cs ! i))"
  "(\<exists>part c. child_at (Until k cond e m) part = Some c \<and> R part c) \<longleftrightarrow> R At_Check k \<or> R At_Otherwise e"
  "(\<exists>part c. child_at (Step s) part = Some c \<and> R part c) \<longleftrightarrow> False"
  "(\<exists>part c. child_at (Use u) part = Some c \<and> R part c) \<longleftrightarrow> False"
proof -
  show "(\<exists>part c. child_at (Sequence cs) part = Some c \<and> R part c) \<longleftrightarrow> (\<exists>i < length cs. R (Index i) (cs ! i))"
  proof
    assume "\<exists>part c. child_at (Sequence cs) part = Some c \<and> R part c"
    then obtain part c where "child_at (Sequence cs) part = Some c" "R part c" by blast
    then show "\<exists>i < length cs. R (Index i) (cs ! i)" by (cases part) (auto split: if_splits)
  next
    assume "\<exists>i < length cs. R (Index i) (cs ! i)"
    then obtain i where "i < length cs" "R (Index i) (cs ! i)" by blast
    then show "\<exists>part c. child_at (Sequence cs) part = Some c \<and> R part c"
      by (intro exI [of _ "Index i"]) simp
  qed
  then show "(\<exists>part c. child_at (Parallel cs) part = Some c \<and> R part c) \<longleftrightarrow> (\<exists>i < length cs. R (Index i) (cs ! i))"
  proof -
    have "child_at (Parallel cs) part = child_at (Sequence cs) part" for part by (cases part) simp_all
    then show ?thesis
      using \<open>(\<exists>part c. child_at (Sequence cs) part = Some c \<and> R part c) \<longleftrightarrow> _\<close> by simp
  qed
  have "child_at (Until k cond e m) part = Some c \<longleftrightarrow>
      part = At_Check \<and> c = k \<or> part = At_Otherwise \<and> c = e" for part c
    by (cases part) auto
  then show "(\<exists>part c. child_at (Until k cond e m) part = Some c \<and> R part c) \<longleftrightarrow> R At_Check k \<or> R At_Otherwise e"
    by auto
  show "(\<exists>part c. child_at (Step s) part = Some c \<and> R part c) \<longleftrightarrow> False"
    "(\<exists>part c. child_at (Use u) part = Some c \<and> R part c) \<longleftrightarrow> False"
    by simp_all
qed

lemma entries_iff:
  "e \<in> set (entries t p d b) \<longleftrightarrow> (\<exists>q n. nodeAt t q = Some n \<and> e = entry_at p d b q n)"
proof (induction t arbitrary: p d b e)
  case (Sequence cs)
  show ?case
    unfolding nodeAt_cases [of "Sequence cs"] child_exists
    by (simp add: set_child_entries [where b = b, OF Sequence] entry_at_Nil)
next
  case (Parallel cs)
  show ?case
    unfolding nodeAt_cases [of "Parallel cs"] child_exists
    by (simp add: set_child_entries [where b = b, OF Parallel] entry_at_Nil)
next
  case (Until k cond k' m)
  show ?case
    unfolding nodeAt_cases [of "Until k cond k' m"] child_exists
    by (simp add: Until entry_at_Nil entry_at_Cons branch_at_def)
qed (simp_all add: nodeAt_cases [of "Step s" for s] nodeAt_cases [of "Use u" for u] child_exists entry_at_Nil)

lemma entry_path_prefix: "e \<in> set (entries t p d b) \<Longrightarrow> prefix p (entry_path e)"
  by (auto simp: entries_iff entry_at_def)

lemma prefix_parts: "prefix (p @ [x]) q \<Longrightarrow> prefix (p @ [y]) q \<Longrightarrow> x = y"
  by (auto simp: prefix_def)

lemma distinct_child_entries:
  assumes "\<And>c p d b. c \<in> set cs \<Longrightarrow> distinct (map entry_path (entries c p d b))"
  shows "distinct (map entry_path (child_entries cs p i d))"
proof -
  have "\<exists>j \<ge> i. prefix (p @ [Index j]) (entry_path e)" if "e \<in> set (child_entries cs p i d)" for cs i e
    using that
  proof (induction cs arbitrary: i)
    case (Cons c cs)
    from Cons.prems consider "e \<in> set (entries c (p @ [Index i]) d Branch_Child)"
      | "e \<in> set (child_entries cs p (Suc i) d)" by auto
    then show ?case
    proof cases
      case 1
      then show ?thesis by (auto dest: entry_path_prefix)
    next
      case 2
      then show ?thesis using Cons.IH by (meson Suc_leD)
    qed
  qed simp
  then have later: "Index i \<noteq> x"
    if "e \<in> set (child_entries cs p (Suc i) d)" "prefix (p @ [x]) (entry_path e)" for cs i e x
    using that prefix_parts by (metis Suc_n_not_le_n path_part.inject)
  show ?thesis
    using assms
  proof (induction cs arbitrary: i)
    case (Cons c cs)
    have "entry_path e \<noteq> entry_path e'"
      if "e \<in> set (entries c (p @ [Index i]) d Branch_Child)" "e' \<in> set (child_entries cs p (Suc i) d)" for e e'
      using entry_path_prefix [OF that(1)] later [OF that(2), of "Index i"] by auto
    then show ?case using Cons by (fastforce simp: image_iff)
  qed simp
qed

lemma entries_distinct: "distinct (map entry_path (entries t p d b))"
proof (induction t arbitrary: p d b)
  case (Sequence cs)
  have "p \<notin> entry_path ` set (child_entries cs p 0 (Suc d))"
    by (fastforce simp: child_entries_nth dest: entry_path_prefix)
  then show ?case using Sequence by (simp add: distinct_child_entries)
next
  case (Parallel cs)
  have "p \<notin> entry_path ` set (child_entries cs p 0 (Suc d))"
    by (fastforce simp: child_entries_nth dest: entry_path_prefix)
  then show ?case using Parallel by (simp add: distinct_child_entries)
next
  case (Until k cond k' m)
  then show ?case by (fastforce dest: entry_path_prefix prefix_parts)
qed simp_all

end
