(* ===== verification/Tactic_Edits.thy ===== *)
theory Tactic_Edits
  imports Tactic_Laws
begin

text \<open>
  What the structural edits of a Tactic tree guarantee: the listing is complete and in preorder, a moved subtree is
  found at the path the edit returns and nothing is lost or duplicated, a move by one is undone by
  the opposite move, and a removal removes exactly the selected subtree.
\<close>

section \<open>Containers\<close>

lemma container_simps:
  assumes "container_children c = Some cs"
  shows "leaves c = concat (map leaves cs)"
    and "container_children (with_children c ds) = Some ds"
    and "leaves (with_children c ds) = concat (map leaves ds)"
    and "with_children c cs = c"
    and "with_children (with_children c ds) es = with_children c es"
    and "nodeAt c [Index i] = (if i < length cs then Some (cs ! i) else None)"
    and "nodeAt (with_children c ds) [Index i] = (if i < length ds then Some (ds ! i) else None)"
  using assms by (cases c; simp)+

lemma parent_containerD:
  assumes "parent_container root path = Some (i, parent, children)"
  shows "path = butlast path @ [Index i]" and "nodeAt root (butlast path) = Some parent"
    and "container_children parent = Some children"
proof -
  have "path \<noteq> []" "last path = Index i"
    using assms by (auto simp: parent_container_def split: option.splits if_splits path_part.splits)
  then show "path = butlast path @ [Index i]" by (metis append_butlast_last_id)
  show "nodeAt root (butlast path) = Some parent" and "container_children parent = Some children"
    using assms by (auto simp: parent_container_def split: option.splits)
qed

lemma parent_container_snoc:
  "parent_container root (p @ [Index i]) =
    Option.bind (nodeAt root p) (\<lambda>c. map_option (\<lambda>cs. (i, c, cs)) (container_children c))"
  by (simp add: parent_container_def split: option.split)

lemma nodeAt_snoc: "nodeAt root (p @ [part]) = Option.bind (nodeAt root p) (\<lambda>c. child_at c part)"
  by (simp add: nodeAt_append) (metis (no_types, lifting) nodeAt.simps option.case_eq_if option.collapse)

lemma nodeAt_container:
  assumes "nodeAt root p = Some c" and "container_children c = Some cs"
  shows "nodeAt root (p @ [Index i]) = (if i < length cs then Some (cs ! i) else None)"
  using assms by (simp add: nodeAt_append container_simps del: nodeAt.simps)

text \<open>Rebuilding a container with other children: what is read at it and below, and the leaves.\<close>

lemma rebuild:
  assumes "nodeAt root p = Some c" and "container_children c = Some cs"
  shows "nodeAt (replaceNode root p (with_children c ds)) p = Some (with_children c ds)"
    and "nodeAt (replaceNode root p (with_children c ds)) (p @ [Index i]) =
      (if i < length ds then Some (ds ! i) else None)"
    and "mset (leaves (replaceNode root p (with_children c ds))) + mset (concat (map leaves cs)) =
      mset (leaves root) + mset (concat (map leaves ds))"
proof -
  show at: "nodeAt (replaceNode root p (with_children c ds)) p = Some (with_children c ds)"
    using assms by (intro tree.get_put) simp
  then show "nodeAt (replaceNode root p (with_children c ds)) (p @ [Index i]) =
      (if i < length ds then Some (ds ! i) else None)"
    by (rule nodeAt_container) (use container_simps(2) [OF assms(2)] in simp)
  show "mset (leaves (replaceNode root p (with_children c ds))) + mset (concat (map leaves cs)) =
      mset (leaves root) + mset (concat (map leaves ds))"
    using mset_leaves_replace [OF assms(1), of "with_children c ds"]
    by (simp add: container_simps [OF assms(2)])
qed

lemma mset_gain: "B + C = R + D \<Longrightarrow> D = C + X \<Longrightarrow> B = R + X" for B :: "'a multiset"
  by (simp add: add.assoc [symmetric] add.commute [of C X])

lemma mset_loss: "B + C = R + D \<Longrightarrow> D + X = C \<Longrightarrow> B + X = R" for B :: "'a multiset"
  by (metis add.assoc add.commute add_right_cancel)

lemma mset_concat_cong: "mset cs = mset ds \<Longrightarrow> mset (concat (map f cs)) = mset (concat (map f ds))"
  by (simp add: mset_concat) (metis mset_map sum_mset_sum_list)

lemma mset_concat_swap:
  assumes "i < length cs" and "j < length cs"
  shows "mset (concat (map f (cs[i := cs ! j, j := cs ! i]))) = mset (concat (map f cs))"
  by (rule mset_concat_cong) (rule mset_swap [OF assms(2,1)])

lemma mset_concat_remove:
  assumes "i < length cs"
  shows "mset (concat (map f (take i cs @ drop (Suc i) cs))) + mset (f (cs ! i)) = mset (concat (map f cs))"
proof -
  have "cs = take i cs @ cs ! i # drop (Suc i) cs" using assms by (rule id_take_nth_drop)
  then have "mset (concat (map f cs)) = mset (concat (map f (take i cs @ cs ! i # drop (Suc i) cs)))" by simp
  then show ?thesis by simp
qed

section \<open>The listing\<close>

text \<open>
  The order in which a reader meets the nodes: a node before everything below it, and the parts of
  a node in their order, children by index and the check of a loop before its remediation.
\<close>

fun part_before :: "path_part \<Rightarrow> path_part \<Rightarrow> bool" where
  "part_before (Index i) (Index j) = (i < j)"
| "part_before At_Check At_Otherwise = True"
| "part_before _ _ = False"

fun path_before :: "node_path \<Rightarrow> node_path \<Rightarrow> bool" where
  "path_before p [] = False"
| "path_before [] (y # q) = True"
| "path_before (x # p) (y # q) = (part_before x y \<or> x = y \<and> path_before p q)"

lemma path_before_append [simp]: "path_before (p @ q) (p @ r) = path_before q r"
  by (induction p) (auto elim: part_before.elims)

lemma path_before_below: "prefix (p @ [x]) q \<Longrightarrow> path_before p q"
  using path_before_append [of p "[]"] by (auto simp: prefix_def)

lemma path_before_parts: "part_before x y \<Longrightarrow> prefix (p @ [x]) q \<Longrightarrow> prefix (p @ [y]) r \<Longrightarrow> path_before q r"
  by (auto simp: prefix_def)

lemma sorted_child_entries:
  assumes "\<And>c p d b. c \<in> set cs \<Longrightarrow> sorted_wrt path_before (map entry_path (entries c p d b))"
  shows "sorted_wrt path_before (map entry_path (child_entries cs p i d)) \<and>
    (\<forall>e \<in> set (child_entries cs p i d). \<exists>j \<ge> i. prefix (p @ [Index j]) (entry_path e))"
  using assms
proof (induction cs arbitrary: i)
  case (Cons c cs)
  have "path_before (entry_path e) (entry_path e')"
    if "e \<in> set (entries c (p @ [Index i]) d Branch_Child)" "e' \<in> set (child_entries cs p (Suc i) d)" for e e'
  proof -
    have "\<exists>j \<ge> Suc i. prefix (p @ [Index j]) (entry_path e')" using Cons that(2) by force
    then obtain j where "j \<ge> Suc i" "prefix (p @ [Index j]) (entry_path e')" by blast
    with entry_path_prefix [OF that(1)] show ?thesis by (intro path_before_parts [of "Index i" "Index j"]) simp_all
  qed
  moreover have "\<exists>j \<ge> i. prefix (p @ [Index j]) (entry_path e)"
    if "e \<in> set (child_entries (c # cs) p i d)" for e
    using that Cons entry_path_prefix [of e c] by (fastforce dest: Suc_leD)
  ultimately show ?case using Cons by (simp add: sorted_wrt_append)
qed simp

lemma entries_sorted: "sorted_wrt path_before (map entry_path (entries t p d b))"
proof (induction t arbitrary: p d b)
  case (Sequence cs)
  note children = sorted_child_entries [of cs p 0 "Suc d", OF Sequence]
  then have "path_before p (entry_path e)" if "e \<in> set (child_entries cs p 0 (Suc d))" for e
    using that path_before_below by blast
  with children show ?case by simp
next
  case (Parallel cs)
  note children = sorted_child_entries [of cs p 0 "Suc d", OF Parallel]
  then have "path_before p (entry_path e)" if "e \<in> set (child_entries cs p 0 (Suc d))" for e
    using that path_before_below by blast
  with children show ?case by simp
next
  case (Until k cond k' m)
  then show ?case
    by (auto simp: sorted_wrt_append dest!: entry_path_prefix
        intro: path_before_below path_before_parts [of At_Check At_Otherwise])
qed simp_all

text \<open>
  C13: the listing of a Tactic tree contains every node exactly once, under the path at which it is
  found, with its depth and branch, and nothing else; and it is in preorder: a node comes before the
  nodes below it, children come in the order of their indices, and the check of a loop comes before
  its remediation.
\<close>

theorem entries_complete:
  "(e \<in> set (all_entries t) \<longleftrightarrow>
     nodeAt t (entry_path e) = Some (entry_node e) \<and> entry_depth e = length (entry_path e) \<and>
     entry_branch e = branch_at Branch_Root (entry_path e)) \<and>
   distinct (map entry_path (all_entries t)) \<and> sorted_wrt path_before (map entry_path (all_entries t)) \<and>
   subtreeSize t = card {p. nodeAt t p \<noteq> None}"
proof -
  have iff: "e \<in> set (all_entries t) \<longleftrightarrow>
      nodeAt t (entry_path e) = Some (entry_node e) \<and> entry_depth e = length (entry_path e) \<and>
      entry_branch e = branch_at Branch_Root (entry_path e)" for e
    by (cases e) (auto simp: entries_iff entry_at_def)
  have paths: "entry_path ` set (all_entries t) = {p. nodeAt t p \<noteq> None}"
  proof
    show "entry_path ` set (all_entries t) \<subseteq> {p. nodeAt t p \<noteq> None}" by (auto simp: iff)
    show "{p. nodeAt t p \<noteq> None} \<subseteq> entry_path ` set (all_entries t)"
    proof
      fix p assume "p \<in> {p. nodeAt t p \<noteq> None}"
      then obtain n where "nodeAt t p = Some n" by auto
      then have "\<lparr>entry_node = n, entry_path = p, entry_depth = length p,
          entry_branch = branch_at Branch_Root p\<rparr> \<in> set (all_entries t)"
        by (simp add: iff)
      then show "p \<in> entry_path ` set (all_entries t)" by force
    qed
  qed
  have "subtreeSize t = length (map entry_path (all_entries t))" by (simp add: subtreeSize_def)
  also have "\<dots> = card (set (map entry_path (all_entries t)))"
    by (rule distinct_card [symmetric]) (rule entries_distinct)
  finally show ?thesis
    by (simp add: iff entries_distinct entries_sorted paths)
qed

section \<open>Moving by one\<close>

fun opposite :: "direction \<Rightarrow> direction" where
  "opposite Move_Up = Move_Down"
| "opposite Move_Down = Move_Up"

lemma move_target_Some:
  assumes "move_target i d n = Some j" and "i < n"
  shows "j < n" and "j \<noteq> i" and "move_target j (opposite d) n = Some i"
  using assms by (cases d; auto simp: move_target_def split: if_splits)+

lemma moveNode_cases:
  obtains (still) "moveNode root path d = (root, path)"
    | (moved) i parent children j where
      "parent_container root path = Some (i, parent, children)" "i < length children"
      "move_target i d (length children) = Some j"
      "moveNode root path d = (replaceNode root (butlast path) (with_children parent
         (children[i := children ! j, j := children ! i])), butlast path @ [Index j])"
proof (cases "path \<noteq> [] \<and> (\<exists>i parent children j. parent_container root path = Some (i, parent, children) \<and>
    i < length children \<and> move_target i d (length children) = Some j)")
  case True
  then obtain i parent children j where
    "path \<noteq> []" "parent_container root path = Some (i, parent, children)" "i < length children"
    "move_target i d (length children) = Some j" by blast
  then show thesis by (intro moved) (simp_all add: moveNode_def)
next
  case False
  then show thesis
    by (intro still) (auto simp: moveNode_def split: option.split prod.split)
qed

text \<open>
  C14: moving a node up or down swaps it with its neighbour and nothing else: the selected subtree is
  found at the path that is returned, the Steps and reused Tactics are the same, and moving it back
  restores the tree and the path; at the end of the list nothing happens.
\<close>

theorem move_undone:
  assumes "nodeAt root path = Some n" and "moveNode root path d = (body, path')"
  shows "nodeAt body path' = Some n \<and> mset (leaves body) = mset (leaves root) \<and>
    (if path' = path then body = root else moveNode body path' (opposite d) = (root, path))"
proof (cases rule: moveNode_cases [of root path d])
  case still
  with assms show ?thesis by simp
next
  case (moved i parent children j)
  note parent = parent_containerD [OF moved(1)]
  note target = move_target_Some [OF moved(3,2)]
  let ?swapped = "children[i := children ! j, j := children ! i]"
  have body: "body = replaceNode root (butlast path) (with_children parent ?swapped)"
    and path': "path' = butlast path @ [Index j]"
    using moved(4) assms(2) by simp_all
  have n: "n = children ! i"
    using assms(1) parent(1) nodeAt_container [OF parent(2,3), of i] moved(2) by simp
  note built = rebuild [OF parent(2,3), of ?swapped]
  have at: "nodeAt body path' = Some n"
    unfolding body path' built(2) using target(1) n moved(2) by simp
  have "mset (leaves body) = mset (leaves root)"
    using built(3) mset_concat_swap [OF moved(2) target(1), of leaves] by (simp add: body)
  moreover have "path' \<noteq> path" using parent(1) target(2) unfolding path' by (metis last_snoc path_part.inject(1))
  moreover have "moveNode body path' (opposite d) = (root, path)"
  proof -
    have here: "parent_container body path' = Some (j, with_children parent ?swapped, ?swapped)"
      unfolding path' parent_container_snoc body built(1) using container_simps(2) [OF parent(3)] by simp
    have "?swapped[j := ?swapped ! i, i := ?swapped ! j] = children"
      using moved(2) target(1,2) by (simp add: list_update_swap list_update_id nth_list_update)
    then have "with_children (with_children parent ?swapped) (?swapped[j := ?swapped ! i, i := ?swapped ! j]) = parent"
      using container_simps(4,5) [OF parent(3)] by simp
    then have "moveNode body path' (opposite d) =
        (replaceNode body (butlast path') parent, butlast path' @ [Index i])"
      using here target by (simp add: moveNode_def path')
    also have "replaceNode body (butlast path') parent = root"
      unfolding body path' using tree.put_restore [OF parent(2)] by simp
    finally show ?thesis using parent(1) by (simp add: path')
  qed
  ultimately show ?thesis using at by simp
qed

section \<open>Insertion and removal\<close>

lemma replace_index:
  assumes "container_children c = Some cs"
  shows "replaceNode c [Index i] v = with_children c (cs[i := v])"
  using assms by (cases c) (simp_all add: replaceNode.simps(2))

lemma appendChild_found:
  assumes "nodeAt root p = Some c" and "container_children c = Some cs"
  shows "nodeAt (appendChild root p x) (p @ [Index (length cs)]) = Some x"
    and "mset (leaves (appendChild root p x)) = mset (leaves root) + mset (leaves x)"
  using rebuild [OF assms, of "cs @ [x]"] assms by (simp_all add: appendChild_def)

lemma insertAfter_found:
  assumes "parent_container root path = Some (i, parent, children)" and "i < length children"
  shows "nodeAt (insertAfter root path x) (butlast path @ [Index (i + 1)]) = Some x"
    and "mset (leaves (insertAfter root path x)) = mset (leaves root) + mset (leaves x)"
proof -
  note parent = parent_containerD [OF assms(1)]
  let ?new = "take (i + 1) children @ [x] @ drop (i + 1) children"
  have body: "insertAfter root path x = replaceNode root (butlast path) (with_children parent ?new)"
    using assms(1) parent(1) by (auto simp: insertAfter_def)
  note built = rebuild [OF parent(2,3), of ?new]
  show "nodeAt (insertAfter root path x) (butlast path @ [Index (i + 1)]) = Some x"
    unfolding body built(2) using assms(2) by (simp add: nth_append)
  have "mset (concat (map leaves ?new)) = mset (concat (map leaves children)) + mset (leaves x)"
  proof -
    have "concat (map leaves children) =
        concat (map leaves (take (i + 1) children)) @ concat (map leaves (drop (i + 1) children))"
      by (metis append_take_drop_id concat_append map_append)
    then show ?thesis by (simp add: union_ac)
  qed
  then show "mset (leaves (insertAfter root path x)) = mset (leaves root) + mset (leaves x)"
    unfolding body by (rule mset_gain [OF built(3)])
qed

lemma remove_child:
  assumes "parent_container root path = Some (i, parent, children)" and "i < length children"
  defines "rest \<equiv> take i children @ drop (Suc i) children"
  shows "removeNode root path = replaceNode root (butlast path) (with_children parent rest)"
    and "removal_removed (removeNodeWithSelection root path)"
    and "nodeAt (removeNode root path) (removal_path (removeNodeWithSelection root path)) \<noteq> None"
    and "nodeAt (removeNode root path) (butlast path) = Some (with_children parent rest)"
    and "mset (leaves (removeNode root path)) + mset (leaves (children ! i)) = mset (leaves root)"
proof -
  note parent = parent_containerD [OF assms(1)]
  have part: "path \<noteq> []" "last path = Index i" using parent(1) by (metis snoc_eq_iff_butlast)+
  have r: "removeNodeWithSelection root path = \<lparr>
      removal_body = replaceNode root (butlast path) (with_children parent rest),
      removal_path = (if rest = [] then butlast path
        else butlast path @ [Index (min i (length rest - 1))]),
      removal_removed = True\<rparr>"
    using parent(2,3) part by (simp add: removeNodeWithSelection_def rest_def Let_def)
  then show body: "removeNode root path = replaceNode root (butlast path) (with_children parent rest)"
    and "removal_removed (removeNodeWithSelection root path)"
    by (simp_all add: removeNode_def)
  note built = rebuild [OF parent(2,3), of rest]
  show at: "nodeAt (removeNode root path) (butlast path) = Some (with_children parent rest)"
    unfolding body by (rule built(1))
  show "nodeAt (removeNode root path) (removal_path (removeNodeWithSelection root path)) \<noteq> None"
  proof (cases "rest = []")
    case True
    then show ?thesis using at by (simp add: r)
  next
    case False
    then have "min i (length rest - 1) < length rest" by (cases rest) simp_all
    then show ?thesis
      using False built(2) [of "min i (length rest - 1)"] by (simp add: r body)
  qed
  have "mset (concat (map leaves rest)) + mset (leaves (children ! i)) = mset (concat (map leaves children))"
    unfolding rest_def by (rule mset_concat_remove [OF assms(2)])
  then show "mset (leaves (removeNode root path)) + mset (leaves (children ! i)) = mset (leaves root)"
    unfolding body by (rule mset_loss [OF built(3)])
qed

lemma selected_cases:
  assumes "nodeAt root path = Some n"
  obtains (root) "path = []" "n = root"
    | (index) i parent children where "parent_container root path = Some (i, parent, children)"
        "i < length children" "n = children ! i"
    | (check) condition otherwise limit where "path = butlast path @ [At_Check]"
        "nodeAt root (butlast path) = Some (Until n condition otherwise limit)"
    | (otherwise) check condition limit where "path = butlast path @ [At_Otherwise]"
        "nodeAt root (butlast path) = Some (Until check condition n limit)"
proof (cases "path = []")
  case True
  with assms show thesis by (intro root) simp_all
next
  case False
  then have path: "path = butlast path @ [last path]" by simp
  then obtain c where c: "nodeAt root (butlast path) = Some c" "child_at c (last path) = Some n"
    using assms nodeAt_snoc [of root "butlast path" "last path"]
    by (cases "nodeAt root (butlast path)") simp_all
  show thesis
  proof (cases "last path")
    case (Index i)
    then obtain cs where "container_children c = Some cs" "i < length cs" "n = cs ! i"
      using c(2) by (cases c) (auto split: if_splits)
    then show thesis
      using c(1) path Index parent_container_snoc [of root "butlast path" i] by (intro index) simp_all
  next
    case At_Check
    then obtain condition otherwise limit where "c = Until n condition otherwise limit"
      using c(2) by (cases c) auto
    then show thesis using c(1) path At_Check by (intro check) simp_all
  next
    case At_Otherwise
    then obtain check condition limit where "c = Until check condition n limit"
      using c(2) by (cases c) auto
    then show thesis using c(1) path At_Otherwise by (intro otherwise) simp_all
  qed
qed

text \<open>
  removing an existing node reports the removal, takes exactly the leaves of its subtree away,
  leaves every node outside the parent's subtree as it was, and selects a node that exists in the
  new tree.
\<close>

lemma removal_exact:
  assumes "nodeAt root path = Some n" and "removeNodeWithSelection root path = r"
    and "butlast path \<parallel> q"
  shows "removal_removed r \<and>
    mset (leaves (removal_body r)) + mset (leaves n) = mset (leaves root) \<and>
    nodeAt (removal_body r) (removal_path r) \<noteq> None \<and>
    nodeAt (removal_body r) q = nodeAt root q"
  using assms(1)
proof (cases rule: selected_cases)
  case root
  with assms(3) show ?thesis by simp
next
  case (index i parent children)
  note removed = remove_child [OF index(1,2)]
  have "nodeAt (removeNode root path) q = nodeAt root q"
    unfolding removed(1) by (rule tree.get_put_parallel [OF assms(3)])
  with removed index(3) assms(2) show ?thesis by (auto simp: removeNode_def)
next
  case (check condition otherwise limit)
  let ?new = "Until (Sequence []) condition otherwise limit"
  have "path \<noteq> []" "last path = At_Check" using check(1) by (metis snoc_eq_iff_butlast)+
  then have r: "r = \<lparr>removal_body = replaceNode root (butlast path) ?new,
      removal_path = butlast path, removal_removed = True\<rparr>"
    using check(2) assms(2) by (simp add: removeNodeWithSelection_def)
  have "nodeAt (replaceNode root (butlast path) ?new) (butlast path) = Some ?new"
    using check(2) by (intro tree.get_put) simp
  moreover have "mset (leaves (replaceNode root (butlast path) ?new)) + mset (leaves n) = mset (leaves root)"
    by (rule mset_loss [OF mset_leaves_replace [OF check(2)]]) (simp add: union_ac)
  ultimately show ?thesis
    using tree.get_put_parallel [OF assms(3)] by (simp add: r)
next
  case (otherwise check condition limit)
  let ?new = "Until check condition (Sequence []) limit"
  have "path \<noteq> []" "last path = At_Otherwise" using otherwise(1) by (metis snoc_eq_iff_butlast)+
  then have r: "r = \<lparr>removal_body = replaceNode root (butlast path) ?new,
      removal_path = butlast path, removal_removed = True\<rparr>"
    using otherwise(2) assms(2) by (simp add: removeNodeWithSelection_def)
  have "nodeAt (replaceNode root (butlast path) ?new) (butlast path) = Some ?new"
    using otherwise(2) by (intro tree.get_put) simp
  moreover have "mset (leaves (replaceNode root (butlast path) ?new)) + mset (leaves n) = mset (leaves root)"
    by (rule mset_loss [OF mset_leaves_replace [OF otherwise(2)]]) simp
  ultimately show ?thesis
    using tree.get_put_parallel [OF assms(3)] by (simp add: r)
qed

section \<open>Moving into and out of a container\<close>

lemma moveIntoPrevious_found:
  assumes "parent_container root path = Some (i, parent, children)" and "1 \<le> i" and "i < length children"
    and "container_children (children ! (i - 1)) = Some previous"
  shows "nodeAt (fst (moveIntoPrevious root path)) (snd (moveIntoPrevious root path)) = Some (children ! i)"
    and "mset (leaves (fst (moveIntoPrevious root path))) = mset (leaves root)"
proof -
  let ?d = "butlast path @ [Index (i - 1)]"
  let ?without = "removeNode root path"
  note removed = remove_child [OF assms(1,3)]
  have r: "moveIntoPrevious root path =
      (appendChild ?without ?d (children ! i), ?d @ [Index (length previous)])"
    using assms by (simp add: moveIntoPrevious_def Let_def)
  have "nodeAt ?without ?d = Some (children ! (i - 1))"
    using nodeAt_container [OF removed(4) container_simps(2)] parent_containerD(3) [OF assms(1)] assms(2,3)
    by (simp add: nth_append)
  note found = appendChild_found [OF this assms(4), of "children ! i"]
  show "nodeAt (fst (moveIntoPrevious root path)) (snd (moveIntoPrevious root path)) = Some (children ! i)"
    unfolding r using found(1) by simp
  show "mset (leaves (fst (moveIntoPrevious root path))) = mset (leaves root)"
    unfolding r using found(2) removed(5) by simp
qed

lemma moveOut_found:
  assumes "parent_container root path = Some (i, parent, children)" and "i < length children"
    and "parent_container root (butlast path) = Some (j, grandparent, siblings)"
  shows "nodeAt (fst (moveOut root path)) (snd (moveOut root path)) = Some (children ! i)"
    and "mset (leaves (fst (moveOut root path))) = mset (leaves root)"
proof -
  let ?without = "removeNode root path"
  let ?rest = "take i children @ drop (Suc i) children"
  note removed = remove_child [OF assms(1,2)]
  note parent = parent_containerD [OF assms(1)] and grand = parent_containerD [OF assms(3)]
  have j: "j < length siblings"
    using parent(2) nodeAt_container [OF grand(2,3), of j] grand(1) by (auto split: if_splits)
  have selected: "nodeAt root path = Some (children ! i)"
    using nodeAt_container [OF parent(2,3), of i] parent(1) assms(2) by simp
  have "length path \<ge> 2"
  proof -
    have "path \<noteq> []" "butlast path \<noteq> []" using parent(1) grand(1) by auto
    then have "0 < length (butlast path)" by blast
    then show ?thesis by simp
  qed
  then have r: "moveOut root path =
      (insertAfter ?without (butlast path) (children ! i), butlast (butlast path) @ [Index (j + 1)])"
    using assms(1,3) selected by (simp add: moveOut_def)
  have "?without = replaceNode root (butlast (butlast path))
      (with_children grandparent (siblings[j := with_children parent ?rest]))"
    unfolding removed(1)
    by (subst (1) grand(1)) (simp add: tree.put_append [OF grand(2)] replace_index [OF grand(3)])
  then have "nodeAt ?without (butlast (butlast path)) =
      Some (with_children grandparent (siblings[j := with_children parent ?rest]))"
    using rebuild(1) [OF grand(2,3)] by simp
  then have "parent_container ?without (butlast path) =
      Some (j, with_children grandparent (siblings[j := with_children parent ?rest]),
        siblings[j := with_children parent ?rest])"
    by (subst grand(1)) (simp add: parent_container_snoc container_simps(2) [OF grand(3)])
  note found = insertAfter_found [OF this, of "children ! i"]
  show "nodeAt (fst (moveOut root path)) (snd (moveOut root path)) = Some (children ! i)"
    unfolding r using found(1) j by simp
  show "mset (leaves (fst (moveOut root path))) = mset (leaves root)"
    unfolding r using found(2) j removed(5) by simp
qed

text \<open>
  moving a node into the container before it, or out of its container, keeps every Step and
  reused Tactic, and the selected subtree is found unchanged at the path that is returned; where
  the move is not possible, tree and path stay as they are.
\<close>

theorem nesting_moves_keep_selection:
  assumes "nodeAt root path = Some n"
    and "(body, path') \<in> {moveIntoPrevious root path, moveOut root path}"
  shows "nodeAt body path' = Some n \<and> mset (leaves body) = mset (leaves root)"
proof (cases "(body, path') = (root, path)")
  case True
  with assms(1) show ?thesis by simp
next
  case False
  from assms(2) consider "(body, path') = moveIntoPrevious root path" | "(body, path') = moveOut root path" by blast
  then show ?thesis
  proof cases
    case 1
    with False obtain i parent children previous where c:
      "parent_container root path = Some (i, parent, children)" "1 \<le> i" "i < length children"
      "container_children (children ! (i - 1)) = Some previous"
      by (auto simp: moveIntoPrevious_def not_less not_le split: option.splits if_splits prod.splits)
    have "n = children ! i"
      using nodeAt_container [OF parent_containerD(2,3) [OF c(1)], of i] parent_containerD(1) [OF c(1)] c(3) assms(1)
      by simp
    with moveIntoPrevious_found [OF c] show ?thesis unfolding 1 [symmetric] by simp
  next
    case 2
    with False obtain i parent children j grandparent siblings where c:
      "parent_container root path = Some (i, parent, children)"
      "parent_container root (butlast path) = Some (j, grandparent, siblings)"
      by (auto simp: moveOut_def split: option.splits if_splits prod.splits)
    have at: "nodeAt root path = (if i < length children then Some (children ! i) else None)"
      using nodeAt_container [OF parent_containerD(2,3) [OF c(1)], of i] parent_containerD(1) [OF c(1)] by simp
    with assms(1) have "i < length children" "n = children ! i" by (auto split: if_splits)
    with moveOut_found [OF c(1) _ c(2)] show ?thesis unfolding 2 [symmetric] by simp
  qed
qed

section \<open>Examples\<close>

definition plain_step :: "string \<Rightarrow> tactic_node" where
  "plain_step key = Step \<lparr>step_key = key, step_name = key, step_instruction = ''do it'',
     step_performer_selector = By_Class, step_performer_value = ''coder'',
     step_context_of = Fresh_Context, step_consumes = [], step_produces = []\<rparr>"

definition example_tree :: tactic_node where
  "example_tree = Sequence [plain_step ''a'', Parallel [plain_step ''b'', plain_step ''c''], plain_step ''d'']"

theorem move_undone_witness:
  "\<exists>body path'. moveNode example_tree [Index 0] Move_Down = (body, path') \<and> path' = [Index 1] \<and>
     moveNode body path' Move_Up = (example_tree, [Index 0])"
proof -
  have at: "nodeAt example_tree [Index 0] = Some (plain_step ''a'')" by (simp add: example_tree_def)
  obtain body path' where m: "moveNode example_tree [Index 0] Move_Down = (body, path')"
    by (cases "moveNode example_tree [Index 0] Move_Down")
  then have "path' = [Index 1]"
    by (simp add: example_tree_def moveNode_def parent_container_def move_target_def)
  with move_undone [OF at m] m show ?thesis by simp
qed

lemma removal_exact_witness:
  "removal_removed (removeNodeWithSelection example_tree [Index 1, Index 0]) \<and>
   nodeAt (removal_body (removeNodeWithSelection example_tree [Index 1, Index 0])) [Index 2] =
     Some (plain_step ''d'')"
proof -
  have at: "nodeAt example_tree [Index 1, Index 0] = Some (plain_step ''b'')" by (simp add: example_tree_def)
  have "butlast [Index 1, Index 0] \<parallel> [Index 2]" by (simp add: parallel_def)
  from removal_exact [OF at refl this] show ?thesis by (simp add: example_tree_def)
qed

theorem nesting_moves_keep_selection_witness:
  "nodeAt (fst (moveOut example_tree [Index 1, Index 0])) (snd (moveOut example_tree [Index 1, Index 0])) =
     Some (plain_step ''b'')"
proof -
  have at: "nodeAt example_tree [Index 1, Index 0] = Some (plain_step ''b'')" by (simp add: example_tree_def)
  have "(fst (moveOut example_tree [Index 1, Index 0]), snd (moveOut example_tree [Index 1, Index 0]))
      \<in> {moveIntoPrevious example_tree [Index 1, Index 0], moveOut example_tree [Index 1, Index 0]}"
    by (simp only: prod.collapse insert_iff simp_thms)
  from nesting_moves_keep_selection [OF at this] show ?thesis by (rule conjunct1)
qed

end
