(* ===== verification/Tactic_Keys.thy ===== *)
theory Tactic_Keys
  imports Canonical_Json
begin

text \<open>
  The generated keys of the war room (\<^verbatim>\<open>components/management/management-key.ts\<close> and the port keys of
  \<^verbatim>\<open>components/war-room/tactic-model.ts\<close>): a readable stem of the name, and the first free number after it.
  The interface \<open>key_separator\<close> states what both kinds of keys share.

  Names are Latin-1. \<open>plain\<close> is Unicode's compatibility decomposition of one such character with the
  combining marks removed, as both modules compute it before they keep letters and digits only; a
  character outside Latin-1 in it (a fraction slash, the Greek mu) is written as a question mark.
\<close>

section \<open>Characters\<close>

definition plain :: "char \<Rightarrow> string" where
  "plain c = (let n = (of_char c :: nat) in
     if n < 0xA0 then [c]
     else if n \<in> {0xC0..0xC5} then ''A'' else if n = 0xC7 then ''C''
     else if n \<in> {0xC8..0xCB} then ''E'' else if n \<in> {0xCC..0xCF} then ''I''
     else if n = 0xD1 then ''N'' else if n \<in> {0xD2..0xD6} then ''O''
     else if n \<in> {0xD9..0xDC} then ''U'' else if n = 0xDD then ''Y''
     else if n \<in> {0xE0..0xE5} then ''a'' else if n = 0xE7 then ''c''
     else if n \<in> {0xE8..0xEB} then ''e'' else if n \<in> {0xEC..0xEF} then ''i''
     else if n = 0xF1 then ''n'' else if n \<in> {0xF2..0xF6} then ''o''
     else if n \<in> {0xF9..0xFC} then ''u'' else if n \<in> {0xFD, 0xFF} then ''y''
     else if n = 0xAA then ''a'' else if n = 0xBA then ''o''
     else if n = 0xB2 then ''2'' else if n = 0xB3 then ''3'' else if n = 0xB9 then ''1''
     else if n = 0xBC then ''1?4'' else if n = 0xBD then ''1?2'' else if n = 0xBE then ''3?4''
     else if n \<in> {0xA0, 0xA8, 0xAF, 0xB4, 0xB8} then '' ''
     else if n = 0xB5 then ''?'' else [c])"

definition lower :: "char \<Rightarrow> char" where
  "lower c = (let n = (of_char c :: nat) in
     if (65 \<le> n \<and> n \<le> 90) \<or> (0xC0 \<le> n \<and> n \<le> 0xDE \<and> n \<noteq> 0xD7) then char_of (n + 32) else c)"

definition lower_letter :: "char \<Rightarrow> bool" where
  "lower_letter c = (let n = (of_char c :: nat) in 97 \<le> n \<and> n \<le> 122)"

definition alnum :: "char \<Rightarrow> bool" where
  "alnum c = (lower_letter c \<or> is_digit c)"

text \<open>\<^verbatim>\<open>.replace(/[^a-z0-9]+/g, sep)\<close>: one separator for a run of other characters.\<close>

fun collapse :: "char \<Rightarrow> bool \<Rightarrow> string \<Rightarrow> string" where
  "collapse sep in_run [] = []"
| "collapse sep in_run (c # cs) =
     (if alnum c then c # collapse sep False cs
      else if in_run then collapse sep True cs
      else sep # collapse sep True cs)"

definition trim_end :: "char \<Rightarrow> string \<Rightarrow> string" where
  "trim_end sep s = rev (dropWhile (\<lambda>c. c = sep) (rev s))"

definition trim_both :: "char \<Rightarrow> string \<Rightarrow> string" where
  "trim_both sep s = trim_end sep (dropWhile (\<lambda>c. c = sep) s)"

definition normalized :: "char \<Rightarrow> string \<Rightarrow> string" where
  "normalized sep name = trim_both sep (collapse sep False (map lower (concat (map plain name))))"

definition starts_with_letter :: "string \<Rightarrow> bool" where
  "starts_with_letter s = (case s of [] \<Rightarrow> False | c # _ \<Rightarrow> lower_letter c)"

section \<open>Product keys\<close>

definition productKeyBase :: "string \<Rightarrow> string \<Rightarrow> string" where
  "productKeyBase name fallback =
     (let key = normalized CHR ''-'' name;
          key' = (if key = [] \<or> \<not> starts_with_letter key
            then fallback @ (if key = [] then [] else CHR ''-'' # key) else key);
          short = trim_end CHR ''-'' (take 64 key') in
      if short = [] then fallback else short)"

definition numbered :: "char \<Rightarrow> string \<Rightarrow> nat \<Rightarrow> string" where
  "numbered sep base suffix =
     (let ending = sep # show_nat suffix in trim_end sep (take (64 - length ending) base) @ ending)"

text \<open>The first free number below 10000; \<open>None\<close> is the exception.\<close>

function next_key :: "char \<Rightarrow> string \<Rightarrow> string list \<Rightarrow> nat \<Rightarrow> string option" where
  "next_key sep base existing suffix =
     (if suffix < 10000
      then if numbered sep base suffix \<notin> set existing then Some (numbered sep base suffix)
        else next_key sep base existing (suffix + 1)
      else None)"
  by pat_completeness auto
termination by (relation "measure (\<lambda>(sep, base, existing, suffix). 10000 - suffix)") auto

declare next_key.simps [simp del]

definition availableProductKey :: "string \<Rightarrow> string list \<Rightarrow> string \<Rightarrow> int \<Rightarrow> string option" where
  "availableProductKey name existingKeys fallback preferredSuffix =
     (let base = productKeyBase name fallback in
      if preferredSuffix \<le> 1 \<and> base \<notin> set existingKeys then Some base
      else next_key CHR ''-'' base existingKeys (nat (max 2 preferredSuffix)))"

text \<open>The pattern \<^verbatim>\<open>/^[a-z][a-z0-9-]{0,63}$/\<close> that the draft is checked against.\<close>

definition key_over :: "char \<Rightarrow> string \<Rightarrow> bool" where
  "key_over sep s \<longleftrightarrow> starts_with_letter s \<and> length s \<le> 64 \<and> list_all (\<lambda>c. alnum c \<or> c = sep) s"

section \<open>Port keys\<close>

datatype port_direction = Port_Input | Port_Output

fun port_direction_text :: "port_direction \<Rightarrow> string" where
  "port_direction_text Port_Input = ''input''"
| "port_direction_text Port_Output = ''output''"

definition portKeyBase :: "string \<Rightarrow> string \<Rightarrow> port_direction \<Rightarrow> bool \<Rightarrow> string" where
  "portKeyBase label kind direction acceptedSubject =
     (if kind = ''quest_plan''
      then if direction = Port_Output \<and> acceptedSubject then ''accepted_plan'' else ''plan''
      else if kind = ''change_set''
      then if direction = Port_Output \<and> acceptedSubject then ''accepted_change_set'' else ''change_set''
      else if kind = ''review_verdict'' then ''verdict''
      else
        let base = normalized CHR ''_'' label;
            prefixed = (if starts_with_letter base then base
              else port_direction_text direction @ ''_'' @ base) in
        trim_end CHR ''_'' (take 64 (if prefixed = [] then port_direction_text direction else prefixed)))"

definition generatedPortKey ::
  "string \<Rightarrow> string \<Rightarrow> port_direction \<Rightarrow> string list \<Rightarrow> bool \<Rightarrow> string option" where
  "generatedPortKey label kind direction existingKeys acceptedSubject =
     (let base = portKeyBase label kind direction acceptedSubject in
      if base \<notin> set existingKeys then Some base
      else next_key CHR ''_'' base existingKeys 2)"

section \<open>Artifact names\<close>

definition contains :: "string \<Rightarrow> string \<Rightarrow> bool" where
  "contains s part \<longleftrightarrow> list_ex (\<lambda>i. take (length part) (drop i s) = part) [0..<length s + 1]"

text \<open>The loop has no bound of its own.\<close>

partial_function (option) next_name :: "string \<Rightarrow> string list \<Rightarrow> nat \<Rightarrow> string option" where
  "next_name base existing suffix =
     (if base @ ''_'' @ show_nat suffix \<in> set existing then next_name base existing (suffix + 1)
      else Some (base @ ''_'' @ show_nat suffix))"

definition artifact_name_base :: "string \<Rightarrow> string \<Rightarrow> port_direction \<Rightarrow> string" where
  "artifact_name_base label kind direction =
     (let semantic = map lower label in
      if direction = Port_Output then
        if kind = ''quest_plan'' then ''plan''
        else if kind = ''change_set'' then ''change_set''
        else if kind = ''review_verdict'' then ''verdict''
        else portKeyBase label kind direction False
      else if contains semantic ''review feedback'' then ''review_feedback''
      else if contains semantic ''current'' \<and> kind = ''quest_plan'' then ''current_plan''
      else if contains semantic ''current'' \<and> kind = ''change_set'' then ''current_change_set''
      else if kind = ''review_verdict'' then ''review_feedback''
      else portKeyBase label kind direction False)"

definition generatedArtifactName ::
  "string \<Rightarrow> string \<Rightarrow> port_direction \<Rightarrow> string list \<Rightarrow> string option" where
  "generatedArtifactName label kind direction existingNames =
     (let base = artifact_name_base label kind direction in
      if base \<notin> set existingNames then Some base else next_name base existingNames 2)"

section \<open>What a separator promises\<close>

lemma alnum_digit: "is_digit c \<Longrightarrow> alnum c"
  by (simp add: alnum_def)

lemma show_nat_alnum: "list_all alnum (show_nat n)"
  using show_nat_digits [of n] by (auto simp: list_all_iff alnum_def)

lemma show_nat_inject: "show_nat n = show_nat m \<Longrightarrow> n = m"
  by (metis digits_value_show_nat)

lemma length_show_nat_bound: "n < 10 ^ Suc k \<Longrightarrow> length (show_nat n) \<le> Suc k"
proof (induction k arbitrary: n)
  case 0
  then show ?case by (subst show_nat.simps) simp
next
  case (Suc k)
  then have "n div 10 < 10 ^ Suc k" by (simp add: div_less_iff_less_mult)
  from Suc.IH [OF this] show ?case by (subst show_nat.simps) simp
qed

lemma length_show_nat: "n < 10000 \<Longrightarrow> length (show_nat n) \<le> 4"
  using length_show_nat_bound [of n 3] by simp

lemma trim_end_append: "\<exists>k. s = trim_end sep s @ replicate k sep"
proof -
  have "\<exists>k. s = replicate k sep @ dropWhile (\<lambda>c. c = sep) s" for s
    by (induction s) (auto intro: exI [of _ 0] exI [of _ "Suc k" for k])
  from this [of "rev s"] obtain k where
    "rev s = replicate k sep @ dropWhile (\<lambda>c. c = sep) (rev s)" by blast
  then have "s = trim_end sep s @ replicate k sep"
    unfolding trim_end_def by (metis rev_append rev_replicate rev_rev_ident)
  then show ?thesis by blast
qed

lemma trim_end_list_all: "list_all P s \<Longrightarrow> list_all P (trim_end sep s)"
  using trim_end_append [of s sep] by (metis list_all_append)

lemma length_trim_end: "length (trim_end sep s) \<le> length s"
  using trim_end_append [of s sep] by (metis le_add1 length_append)

lemma starts_trim_end:
  assumes "starts_with_letter s" and "\<not> lower_letter sep"
  shows "starts_with_letter (trim_end sep s)"
proof -
  obtain k where "s = trim_end sep s @ replicate k sep" using trim_end_append by blast
  with assms show ?thesis
    by (cases "trim_end sep s"; cases k) (auto simp: starts_with_letter_def)
qed

lemma collapse_over: "list_all (\<lambda>c. alnum c \<or> c = sep) (collapse sep in_run s)"
  by (induction sep in_run s rule: collapse.induct) simp_all

lemma normalized_over: "list_all (\<lambda>c. alnum c \<or> c = sep) (normalized sep name)"
proof -
  have "list_all P (dropWhile Q s)" if "list_all P s" for P Q and s :: string
    using that by (auto simp: list_all_iff dest: set_dropWhileD)
  then show ?thesis
    unfolding normalized_def trim_both_def by (blast intro: trim_end_list_all collapse_over)
qed

locale key_separator =
  fixes sep :: char
  assumes not_alnum: "\<not> alnum sep"
begin

lemma not_letter: "\<not> lower_letter sep" and not_digit: "\<not> is_digit sep"
  using not_alnum by (simp_all add: alnum_def)

lemma cut_key:
  assumes "starts_with_letter s" and "list_all (\<lambda>c. alnum c \<or> c = sep) s" and "0 < n" and "n \<le> 64"
  shows "key_over sep (trim_end sep (take n s))" and "length (trim_end sep (take n s)) \<le> n"
proof -
  have "starts_with_letter (take n s)"
    using assms(1,3) by (cases s; cases n) (simp_all add: starts_with_letter_def)
  moreover have "list_all (\<lambda>c. alnum c \<or> c = sep) (take n s)"
    using assms(2) by (metis append_take_drop_id list_all_append)
  moreover show "length (trim_end sep (take n s)) \<le> n"
    using length_trim_end [of sep "take n s"] by simp
  ultimately show "key_over sep (trim_end sep (take n s))"
    using assms(4) by (auto simp: key_over_def starts_trim_end not_letter trim_end_list_all)
qed

lemma numbered_key:
  assumes "key_over sep base" and "suffix < 10000"
  shows "key_over sep (numbered sep base suffix)"
proof -
  let ?n = "64 - length (sep # show_nat suffix)"
  have n: "0 < ?n" "?n \<le> 64" using length_show_nat [OF assms(2)] by simp_all
  note cut = cut_key [OF _ _ n, of base]
  have stem: "key_over sep (trim_end sep (take ?n base))" "length (trim_end sep (take ?n base)) \<le> ?n"
    using cut assms(1) by (simp_all add: key_over_def)
  moreover have "list_all (\<lambda>c. alnum c \<or> c = sep) (sep # show_nat suffix)"
    using show_nat_alnum [of suffix] by (auto simp: list_all_iff)
  ultimately show ?thesis
    using n by (auto simp: key_over_def numbered_def Let_def starts_with_letter_def split: list.splits)
qed

text \<open>The digits after the last separator are the number, so two numbers give two keys.\<close>

lemma numbered_inject: "numbered sep base m = numbered sep base n \<Longrightarrow> m = n"
proof -
  assume eq: "numbered sep base m = numbered sep base n"
  have "rev (show_nat k) = takeWhile is_digit (rev (numbered sep base k))" for k
    using show_nat_digits [of k] not_digit
    by (auto simp: numbered_def Let_def takeWhile_append)
  with eq show "m = n" by (metis rev_is_rev_conv show_nat_inject)
qed

lemma next_key_Some:
  assumes "next_key sep base existing suffix = Some k" and "key_over sep base"
  shows "k \<notin> set existing \<and> key_over sep k"
  using assms
proof (induction "10000 - suffix" arbitrary: suffix)
  case 0
  then show ?case by (simp add: next_key.simps)
next
  case (Suc d)
  then have bound: "suffix < 10000" and d: "d = 10000 - (suffix + 1)" by simp_all
  show ?case
  proof (cases "numbered sep base suffix \<in> set existing")
    case True
    then have "next_key sep base existing (suffix + 1) = Some k"
      using Suc.prems(1) bound by (simp add: next_key.simps [of sep base existing suffix])
    then show ?thesis using Suc.hyps(1) [OF d] Suc.prems(2) by blast
  next
    case False
    then have "k = numbered sep base suffix"
      using Suc.prems(1) bound by (simp add: next_key.simps [of sep base existing suffix])
    then show ?thesis using False numbered_key [OF Suc.prems(2) bound] by simp
  qed
qed

lemma next_key_None:
  "next_key sep base existing suffix = None \<Longrightarrow> suffix \<le> k \<Longrightarrow> k < 10000 \<Longrightarrow>
    numbered sep base k \<in> set existing"
proof (induction "10000 - suffix" arbitrary: suffix)
  case 0
  then show ?case by simp
next
  case (Suc d)
  have "numbered sep base suffix \<in> set existing" "next_key sep base existing (suffix + 1) = None"
    using Suc.prems by (simp_all add: next_key.simps [of sep base existing suffix] split: if_splits)
  moreover have "d = 10000 - (suffix + 1)" using Suc.hyps(2) by simp
  ultimately show ?case using Suc.hyps(1) [of "suffix + 1"] Suc.prems by (cases "k = suffix") auto
qed

lemma next_key_total:
  assumes "length existing < 10000 - suffix"
  shows "\<exists>k. next_key sep base existing suffix = Some k"
proof (rule ccontr)
  assume "\<nexists>k. next_key sep base existing suffix = Some k"
  then have "next_key sep base existing suffix = None" by (cases "next_key sep base existing suffix") auto
  then have "numbered sep base ` {suffix..<10000} \<subseteq> set existing"
    by (auto intro: next_key_None)
  then have "card (numbered sep base ` {suffix..<10000}) \<le> length existing"
    by (meson List.finite_set card_length card_mono le_trans)
  moreover have "card (numbered sep base ` {suffix..<10000}) = 10000 - suffix"
    by (subst card_image) (auto intro: inj_onI numbered_inject)
  ultimately show False using assms by simp
qed

end

interpretation product_keys: key_separator "CHR ''-''"
  by unfold_locales (simp add: alnum_def lower_letter_def)

interpretation port_keys: key_separator "CHR ''_''"
  by unfold_locales (simp add: alnum_def lower_letter_def is_digit_def)

section \<open>The stems are keys\<close>

lemma fallback_over:
  assumes "key_over sep fallback" and "list_all (\<lambda>c. alnum c \<or> c = sep) key"
  shows "starts_with_letter (fallback @ key)" and "list_all (\<lambda>c. alnum c \<or> c = sep) (fallback @ key)"
  using assms by (auto simp: key_over_def starts_with_letter_def split: list.splits)

lemma productKeyBase_key:
  assumes "key_over CHR ''-'' fallback"
  shows "key_over CHR ''-'' (productKeyBase name fallback)"
proof -
  let ?key = "normalized CHR ''-'' name"
  let ?long = "if ?key = [] \<or> \<not> starts_with_letter ?key
    then fallback @ (if ?key = [] then [] else CHR ''-'' # ?key) else ?key"
  have "starts_with_letter ?long" and "list_all (\<lambda>c. alnum c \<or> c = CHR ''-'') ?long"
    using fallback_over [OF assms, of "if ?key = [] then [] else CHR ''-'' # ?key"]
      normalized_over [of "CHR ''-''" name]
    by (auto split: if_splits)
  then have "key_over CHR ''-'' (trim_end CHR ''-'' (take 64 ?long))"
    by (rule product_keys.cut_key) simp_all
  then show ?thesis
    using assms by (auto simp: productKeyBase_def Let_def)
qed

lemma portKeyBase_key: "key_over CHR ''_'' (portKeyBase label kind direction acceptedSubject)"
proof -
  let ?base = "normalized CHR ''_'' label"
  let ?long = "if starts_with_letter ?base then ?base else port_direction_text direction @ ''_'' @ ?base"
  have literals: "key_over CHR ''_'' ''accepted_plan''" "key_over CHR ''_'' ''plan''"
    "key_over CHR ''_'' ''accepted_change_set''" "key_over CHR ''_'' ''change_set''"
    "key_over CHR ''_'' ''verdict''" "key_over CHR ''_'' (port_direction_text direction)"
    by (cases direction; simp add: key_over_def starts_with_letter_def alnum_def lower_letter_def)+
  have "starts_with_letter ?long" and "list_all (\<lambda>c. alnum c \<or> c = CHR ''_'') ?long"
    using fallback_over [OF literals(6), of "''_'' @ ?base"] normalized_over [of "CHR ''_''" label]
    by auto
  then have "key_over CHR ''_'' (trim_end CHR ''_'' (take 64 ?long))"
    by (rule port_keys.cut_key) simp_all
  moreover have "?long \<noteq> []" by (auto simp: starts_with_letter_def)
  ultimately show ?thesis
    using literals by (simp add: portKeyBase_def Let_def)
qed

section \<open>The unbounded search returns\<close>

lemma next_name_found:
  "(\<And>m. suffix \<le> m \<Longrightarrow> m < k \<Longrightarrow> base @ ''_'' @ show_nat m \<in> set existing) \<Longrightarrow> suffix \<le> k \<Longrightarrow>
   base @ ''_'' @ show_nat k \<notin> set existing \<Longrightarrow>
   next_name base existing suffix = Some (base @ ''_'' @ show_nat k)"
proof (induction "k - suffix" arbitrary: suffix)
  case 0
  then show ?case by (subst next_name.simps) simp
next
  case (Suc d)
  then have "next_name base existing (suffix + 1) = Some (base @ ''_'' @ show_nat k)"
    by (intro Suc.hyps(1)) auto
  moreover have "base @ ''_'' @ show_nat suffix \<in> set existing" using Suc by simp
  ultimately show ?case by (subst next_name.simps) simp
qed

lemma next_name_returns:
  "\<exists>k \<ge> suffix. next_name base existing suffix = Some (base @ ''_'' @ show_nat k) \<and>
     base @ ''_'' @ show_nat k \<notin> set existing \<and> k \<le> suffix + length existing"
proof -
  let ?name = "\<lambda>k. base @ ''_'' @ show_nat k"
  have "\<exists>k \<in> {suffix..suffix + length existing}. ?name k \<notin> set existing"
  proof (rule ccontr)
    assume "\<not> ?thesis"
    then have "?name ` {suffix..suffix + length existing} \<subseteq> set existing" by blast
    then have "card (?name ` {suffix..suffix + length existing}) \<le> length existing"
      by (meson List.finite_set card_length card_mono le_trans)
    then show False
      by (subst (asm) card_image) (auto intro: inj_onI dest: show_nat_inject)
  qed
  then obtain k where k: "suffix \<le> k" "k \<le> suffix + length existing" "?name k \<notin> set existing" by auto
  define j where "j = (LEAST m. suffix \<le> m \<and> ?name m \<notin> set existing)"
  have j: "suffix \<le> j \<and> ?name j \<notin> set existing"
    unfolding j_def by (rule LeastI [of _ k]) (use k in blast)
  moreover have "j \<le> k"
    unfolding j_def by (rule Least_le) (use k in blast)
  moreover have earlier: "?name m \<in> set existing" if "suffix \<le> m" "m < j" for m
    using not_less_Least [of m "\<lambda>m. suffix \<le> m \<and> ?name m \<notin> set existing"] that by (auto simp: j_def)
  have "next_name base existing suffix = Some (?name j)"
    by (rule next_name_found [OF earlier]) (use j in auto)
  ultimately show ?thesis
    using k(2) j by (intro exI [of _ j]) auto
qed

section \<open>Generated keys and names\<close>

lemma availableProductKey_cases:
  "availableProductKey name existing fallback preferred =
     (if preferred \<le> 1 \<and> productKeyBase name fallback \<notin> set existing
      then Some (productKeyBase name fallback)
      else next_key CHR ''-'' (productKeyBase name fallback) existing (nat (max 2 preferred)))"
  by (simp add: availableProductKey_def Let_def)

lemma availableProductKey_fresh:
  assumes "availableProductKey name existing fallback preferred = Some k" and "key_over CHR ''-'' fallback"
  shows "k \<notin> set existing \<and> key_over CHR ''-'' k"
  using assms product_keys.next_key_Some [OF _ productKeyBase_key] productKeyBase_key [OF assms(2), of name]
  by (auto simp: availableProductKey_cases split: if_splits)

lemma availableProductKey_total:
  "length existing < 9998 \<Longrightarrow> preferred \<le> 2 \<Longrightarrow>
    \<exists>k. availableProductKey name existing fallback preferred = Some k"
  using product_keys.next_key_total [of existing "nat (max 2 preferred)" "productKeyBase name fallback"]
  by (auto simp: availableProductKey_cases)

lemma fallback_keys: "key_over CHR ''-'' ''step''" "key_over CHR ''-'' ''tactic''"
  by (simp_all add: key_over_def starts_with_letter_def alnum_def lower_letter_def)

text \<open>
  C15: a generated product key is new, starts with a lower-case letter, holds only lower-case letters,
  digits and hyphens, and has at most 64 characters, whatever the name. Generation fails only when the
  stem and all its numbered variants up to 9999 are taken, so never with fewer than 9998 keys.
\<close>

theorem generated_key_fresh:
  assumes "key_over CHR ''-'' fallback"
  shows "(\<forall>k. availableProductKey name existing fallback preferred = Some k \<longrightarrow>
      k \<notin> set existing \<and> key_over CHR ''-'' k)
    \<and> (availableProductKey name existing fallback preferred = None \<longrightarrow>
      (\<forall>n. nat (max 2 preferred) \<le> n \<and> n < 10000 \<longrightarrow>
        numbered CHR ''-'' (productKeyBase name fallback) n \<in> set existing))
    \<and> (length existing < 9998 \<and> preferred \<le> 2 \<longrightarrow>
      (\<exists>k. availableProductKey name existing fallback preferred = Some k))"
proof (intro conjI impI allI)
  fix k assume "availableProductKey name existing fallback preferred = Some k"
  then have "k \<notin> set existing \<and> key_over CHR ''-'' k" using assms by (rule availableProductKey_fresh)
  then show "k \<notin> set existing" and "key_over CHR ''-'' k" by simp_all
next
  fix n assume "availableProductKey name existing fallback preferred = None"
    and "nat (max 2 preferred) \<le> n \<and> n < 10000"
  then show "numbered CHR ''-'' (productKeyBase name fallback) n \<in> set existing"
    using product_keys.next_key_None by (auto simp: availableProductKey_cases split: if_splits)
next
  assume "length existing < 9998 \<and> preferred \<le> 2"
  then show "\<exists>k. availableProductKey name existing fallback preferred = Some k"
    using availableProductKey_total by blast
qed

theorem generated_key_fresh_witness:
  "key_over CHR ''-'' ''step'' \<and> availableProductKey ''Review Plan'' [''review-plan''] ''step'' 1 \<noteq> None"
proof -
  note ok = fallback_keys(1)
  from generated_key_fresh [OF ok, of "''Review Plan''" "[''review-plan'']" 1] ok show ?thesis by auto
qed

text \<open>
  a generated port key is new and a key over underscores of at most 64 characters, and exists as
  long as fewer than 9998 keys are in use; a generated artifact name always exists and is new, although
  its search has no bound, and it is the first free variant of the stem.
\<close>

theorem generated_names_fresh:
  "(\<forall>k. generatedPortKey label kind direction existing accepted = Some k \<longrightarrow>
      k \<notin> set existing \<and> key_over CHR ''_'' k)
    \<and> (length existing < 9998 \<longrightarrow> (\<exists>k. generatedPortKey label kind direction existing accepted = Some k))
    \<and> (\<exists>n. generatedArtifactName label kind direction existing = Some n \<and> n \<notin> set existing \<and>
        (n = artifact_name_base label kind direction \<or>
         (\<exists>k \<in> {2..length existing + 2}. n = artifact_name_base label kind direction @ ''_'' @ show_nat k)))"
proof (intro conjI impI allI)
  note base = portKeyBase_key [of label kind direction accepted]
  fix k assume "generatedPortKey label kind direction existing accepted = Some k"
  then have "k \<notin> set existing \<and> key_over CHR ''_'' k"
    using port_keys.next_key_Some [OF _ base] base
    by (auto simp: generatedPortKey_def Let_def split: if_splits)
  then show "k \<notin> set existing" and "key_over CHR ''_'' k" by simp_all
next
  assume "length existing < 9998"
  then show "\<exists>k. generatedPortKey label kind direction existing accepted = Some k"
    using port_keys.next_key_total [of existing 2 "portKeyBase label kind direction accepted"]
    by (auto simp: generatedPortKey_def Let_def)
next
  let ?base = "artifact_name_base label kind direction"
  from next_name_returns [of 2 ?base existing] obtain k where
    "2 \<le> k" "k \<le> 2 + length existing" "next_name ?base existing 2 = Some (?base @ ''_'' @ show_nat k)"
    "?base @ ''_'' @ show_nat k \<notin> set existing" by blast
  then show "\<exists>n. generatedArtifactName label kind direction existing = Some n \<and> n \<notin> set existing \<and>
      (n = ?base \<or> (\<exists>k \<in> {2..length existing + 2}. n = ?base @ ''_'' @ show_nat k))"
    by (cases "?base \<in> set existing") (auto simp: generatedArtifactName_def Let_def)
qed

theorem generated_names_fresh_witness:
  "\<exists>k. generatedPortKey ''Notes'' ''notes'' Port_Input [''notes'', ''notes_2''] False = Some k \<and>
     k \<notin> {''notes'', ''notes_2''}"
  using generated_names_fresh [of "''Notes''" "''notes''" Port_Input "[''notes'', ''notes_2'']" False]
  by auto

end
