(* ===== verification/Tactic_Draft.thy ===== *)
theory Tactic_Draft
  imports Tactic_Laws Tactic_Keys
begin

text \<open>
  Drafts of Tactics in the war room (\<^verbatim>\<open>components/war-room/tactic-model.ts\<close>): labels, the nodes the
  editor creates, renaming of references, resolution of references to artifact kinds, the sources
  offered to an input, and the validation of a draft. The arrow character of the messages is written
  \<^verbatim>\<open>->\<close>; \<open>None\<close> is the exception of a key generator that found no free key.
\<close>

section \<open>Drafts\<close>

record input_port =
  ip_key :: string
  ip_label :: string
  ip_kind :: string
  ip_required :: bool

datatype port_source = From_Binding artifact_ref | From_Accepted_Subject string

record output_port =
  op_key :: string
  op_label :: string
  op_kind :: string
  op_source :: port_source

record tactic_interface =
  ti_inputs :: "input_port list"
  ti_outputs :: "output_port list"

record tactic_definition =
  tac_id :: string
  tac_key :: string
  tac_name :: string
  tac_description :: string
  tac_body :: tactic_node
  tac_interface :: tactic_interface
  tac_archived_at :: "string option"

record tactic_draft =
  draft_id :: "string option"
  draft_key :: string
  draft_name :: string
  draft_description :: string
  draft_body :: tactic_node
  draft_interface :: tactic_interface

definition draftFromTactic :: "tactic_definition \<Rightarrow> tactic_draft" where
  "draftFromTactic tactic = \<lparr>draft_id = Some (tac_id tactic), draft_key = tac_key tactic,
     draft_name = tac_name tactic, draft_description = tac_description tactic,
     draft_body = tac_body tactic, draft_interface = tac_interface tactic\<rparr>"

definition emptyDraft :: "string list \<Rightarrow> tactic_draft option" where
  "emptyDraft existingKeys =
     map_option (\<lambda>key. \<lparr>draft_id = None, draft_key = key, draft_name = [], draft_description = [],
         draft_body = Sequence [], draft_interface = \<lparr>ti_inputs = [], ti_outputs = []\<rparr>\<rparr>)
       (availableProductKey ''New Tactic'' existingKeys ''tactic'' 1)"

definition generatedTacticKey :: "string \<Rightarrow> string list \<Rightarrow> string option" where
  "generatedTacticKey name existingKeys = availableProductKey name existingKeys ''tactic'' 1"

definition generatedLocalKey :: "string \<Rightarrow> tactic_node \<Rightarrow> string \<Rightarrow> string option" where
  "generatedLocalKey name body fallback = availableProductKey name (localIdentities body) fallback 1"

section \<open>Labels\<close>

definition word_char :: "char \<Rightarrow> bool" where
  "word_char c = (alnum c \<or> lower_letter (ascii_lower c) \<or> c = CHR ''_'')"

definition upper :: "char \<Rightarrow> char" where
  "upper c = (if lower_letter c then char_of ((of_char c :: nat) - 32) else c)"

text \<open>\<^verbatim>\<open>.replace(/\b\w/g, upper)\<close>: the first character of every word.\<close>

fun title_words :: "bool \<Rightarrow> string \<Rightarrow> string" where
  "title_words in_word [] = []"
| "title_words in_word (c # cs) =
     (if word_char c \<and> \<not> in_word then upper c else c) # title_words (word_char c) cs"

definition spaced :: "string \<Rightarrow> string" where
  "spaced s = map (\<lambda>c. if c = CHR ''_'' \<or> c = CHR ''-'' then CHR '' '' else c) s"

text \<open>A type is no name of a member of \<^verbatim>\<open>Object.prototype\<close>, which the table lookup would find.\<close>

definition artifactTypeLabel :: "string \<Rightarrow> string" where
  "artifactTypeLabel type =
     (if type = ''quest_plan'' then ''Quest Plan''
      else if type = ''change_set'' then ''Change Set''
      else if type = ''review_verdict'' then ''Review Verdict''
      else let words = trim (spaced type) in
        if words = [] then ''Artifact'' else title_words False words)"

datatype artifact_use = Consumes | Produces

definition artifactContractLabel :: "string \<Rightarrow> string \<Rightarrow> artifact_use \<Rightarrow> string" where
  "artifactContractLabel stepName kind direction =
     (let name = map lower stepName in
      if kind = ''quest_plan'' \<and> direction = Consumes
      then if contains name ''implement'' then ''Accepted Quest Plan'' else ''Current Quest Plan''
      else if kind = ''quest_plan'' \<and> direction = Produces
      then if contains name ''revis'' then ''Updated Quest Plan'' else ''Quest Plan''
      else if kind = ''review_verdict'' \<and> direction = Consumes then ''Latest rejected Review Verdict''
      else if kind = ''review_verdict'' then ''Review Verdict''
      else if kind = ''change_set'' \<and> direction = Consumes then ''Current Change Set''
      else artifactTypeLabel kind)"

definition friendlySlotName :: "string \<Rightarrow> string" where
  "friendlySlotName name =
     (if name = ''current_plan'' then ''Current Quest Plan''
      else if name = ''current_change_set'' then ''Current Change Set''
      else if name = ''review_feedback'' then ''Review Feedback''
      else if name = ''plan'' then ''Quest Plan''
      else title_words False (spaced name))"

definition tactic_named :: "tactic_definition list \<Rightarrow> string \<Rightarrow> tactic_definition option" where
  "tactic_named tactics i = List.find (\<lambda>t. tac_id t = i) tactics"

definition displayNodeName :: "tactic_node \<Rightarrow> tactic_definition list \<Rightarrow> string" where
  "displayNodeName node tactics =
     (case node of
        Step s \<Rightarrow> if step_name s \<noteq> [] then step_name s else productKeyBase (step_key s) ''Step''
      | Sequence _ \<Rightarrow> ''Sequence''
      | Parallel _ \<Rightarrow> ''Parallel work''
      | Until _ _ _ _ \<Rightarrow> ''Repeat until accepted''
      | Use u \<Rightarrow>
          (case tactic_named tactics (use_tactic_definition_id u) of
             None \<Rightarrow> ''Reusable Tactic'' | Some t \<Rightarrow> tac_name t))"

section \<open>New nodes\<close>

definition new_step :: "string \<Rightarrow> string \<Rightarrow> string \<Rightarrow> step_node" where
  "new_step key name classKey = \<lparr>step_key = key, step_name = name, step_instruction = [],
     step_performer_selector = By_Class, step_performer_value = classKey,
     step_context_of = Fresh_Context, step_consumes = [], step_produces = []\<rparr>"

definition makeStep :: "string \<Rightarrow> tactic_node \<Rightarrow> string \<Rightarrow> step_node option" where
  "makeStep name body classKey =
     map_option (\<lambda>key. new_step key name classKey) (generatedLocalKey name body ''step'')"

definition makeUse :: "tactic_definition \<Rightarrow> tactic_node \<Rightarrow> tactic_use option" where
  "makeUse tactic body =
     map_option (\<lambda>key. \<lparr>use_instance_key = key, use_tactic_definition_id = tac_id tactic,
         use_input_bindings = []\<rparr>)
       (generatedLocalKey (tac_name tactic) body ''tactic'')"

text \<open>The plans and change sets a body produces, with their producers.\<close>

definition subject_candidates :: "tactic_node \<Rightarrow> (step_node \<times> artifact_output) list" where
  "subject_candidates body =
     concat (map (\<lambda>s. map (\<lambda>out. (s, out))
         (filter (\<lambda>out. out_kind out = ''quest_plan'' \<or> out_kind out = ''change_set'') (step_produces s)))
       (steps body))"

definition until_subject :: "tactic_node \<Rightarrow> (step_node \<times> artifact_output) option" where
  "until_subject body = (case subject_candidates body of [x] \<Rightarrow> Some x | _ \<Rightarrow> None)"

definition subject_input :: "string \<Rightarrow> string" where
  "subject_input kind = (if kind = ''quest_plan'' then ''current_plan'' else ''current_change_set'')"

definition current_input :: "step_node \<Rightarrow> artifact_output \<Rightarrow> artifact_input" where
  "current_input producer out = \<lparr>in_name = subject_input (out_kind out), in_kind = out_kind out,
     in_source = Some \<lparr>ref_producer = step_key producer, ref_output = out_name out\<rparr>, in_required = True\<rparr>"

definition check_step :: "(step_node \<times> artifact_output) option \<Rightarrow> step_node \<Rightarrow> step_node" where
  "check_step subject check =
     (case subject of
        None \<Rightarrow> check\<lparr>step_instruction := ''Check whether the work is accepted.'',
          step_produces := [\<lparr>out_name = ''result'', out_kind = [], out_review = None\<rparr>]\<rparr>
      | Some (producer, out) \<Rightarrow> check\<lparr>
          step_instruction := ''Review the current '' @ artifactTypeLabel (out_kind out) @ ''.'',
          step_consumes := [current_input producer out],
          step_produces := [\<lparr>out_name = ''verdict'', out_kind = ''review_verdict'',
            out_review = Some \<lparr>
              review_gate_key = (if out_kind out = ''quest_plan'' then ''plan_acceptance''
                else ''implementation_acceptance''),
              review_subject_input = subject_input (out_kind out)\<rparr>\<rparr>]\<rparr>)"

definition remediation_step ::
  "(step_node \<times> artifact_output) option \<Rightarrow> string \<Rightarrow> step_node \<Rightarrow> step_node" where
  "remediation_step subject checkKey otherwise =
     (case subject of
        None \<Rightarrow> otherwise\<lparr>step_instruction := ''Address the requested changes.''\<rparr>
      | Some (producer, out) \<Rightarrow> otherwise\<lparr>
          step_instruction := ''Address the requested changes.'',
          step_performer_selector := Same_As,
          step_performer_value := step_key producer,
          step_consumes := [current_input producer out,
            \<lparr>in_name = ''review_feedback'', in_kind = ''review_verdict'',
              in_source = Some \<lparr>ref_producer = checkKey, ref_output = ''verdict''\<rparr>, in_required = True\<rparr>],
          step_produces := [\<lparr>
            out_name = (if out_kind out = ''quest_plan'' then ''plan'' else ''change_set''),
            out_kind = out_kind out, out_review = None\<rparr>]\<rparr>)"

definition makeUntil :: "tactic_node \<Rightarrow> string \<Rightarrow> tactic_node option" where
  "makeUntil body classKey =
     (let subject = until_subject body;
          is_plan = (case subject of None \<Rightarrow> False | Some (_, out) \<Rightarrow> out_kind out = ''quest_plan'');
          checkName = (case subject of
              None \<Rightarrow> ''Check''
            | Some (_, out) \<Rightarrow> if out_kind out = ''quest_plan'' then ''Review Plan''
                else if out_kind out = ''change_set'' then ''Review Implementation'' else ''Check'') in
      Option.bind (makeStep checkName body classKey) (\<lambda>fresh_check.
      let check = check_step subject fresh_check in
      Option.bind (makeStep ''Remediate'' (Sequence [body, Step check]) classKey) (\<lambda>fresh_otherwise.
      let otherwise = remediation_step subject (step_key check) fresh_otherwise in
      Some (Until (Step check)
        \<lparr>cond_source = \<lparr>ref_producer = step_key check,
            ref_output = (if subject = None then ''result'' else ''verdict'')\<rparr>,
          cond_field = ''status'', cond_value = JStr ''accepted''\<rparr>
        (Step otherwise) (Some (if is_plan then 2 else 3))))))"

datatype remediation_kind = Plan_Revision | Implementation_Repair | Generic_Remediation

definition remediationKind :: "tactic_node \<Rightarrow> until_condition \<Rightarrow> tactic_node \<Rightarrow> remediation_kind" where
  "remediationKind check_body condition otherwise_body =
     (let check = steps check_body; otherwise = steps otherwise_body;
          conditionOutput = Option.bind
            (List.find (\<lambda>s. step_key s = ref_producer (cond_source condition)) check)
            (\<lambda>s. List.find (\<lambda>out. out_name out = ref_output (cond_source condition)) (step_produces s));
          gate = map_option review_gate_key (Option.bind conditionOutput out_review);
          consumes_kind = (\<lambda>ss k. list_ex (\<lambda>s. list_ex (\<lambda>i. in_kind i = k) (step_consumes s)) ss);
          produces_kind = (\<lambda>ss k. list_ex (\<lambda>s. list_ex (\<lambda>out. out_kind out = k) (step_produces s)) ss) in
      if gate = Some ''plan_acceptance'' \<or>
         consumes_kind check ''quest_plan'' \<and> produces_kind otherwise ''quest_plan''
      then Plan_Revision
      else if map_option out_kind conditionOutput = Some ''review_verdict'' \<and>
         (consumes_kind check ''change_set'' \<or> produces_kind otherwise ''change_set'' \<or>
          list_ex (\<lambda>s. contains (map lower (step_name s)) ''repair'') (check @ otherwise))
      then Implementation_Repair
      else Generic_Remediation)"

section \<open>Renaming an output\<close>

definition renamedReference :: "artifact_ref \<Rightarrow> string \<Rightarrow> string \<Rightarrow> string \<Rightarrow> artifact_ref" where
  "renamedReference reference producer oldOutput newOutput =
     (if ref_producer reference = producer \<and> ref_output reference = oldOutput
      then reference\<lparr>ref_output := newOutput\<rparr> else reference)"

fun rewrite_references :: "(artifact_ref \<Rightarrow> artifact_ref) \<Rightarrow> tactic_node \<Rightarrow> tactic_node" where
  "rewrite_references f (Step s) =
     Step (s\<lparr>step_consumes := map (\<lambda>i. i\<lparr>in_source := map_option f (in_source i)\<rparr>) (step_consumes s)\<rparr>)"
| "rewrite_references f (Sequence children) = Sequence (map (rewrite_references f) children)"
| "rewrite_references f (Parallel children) = Parallel (map (rewrite_references f) children)"
| "rewrite_references f (Until check condition otherwise limit) =
     Until (rewrite_references f check) (condition\<lparr>cond_source := f (cond_source condition)\<rparr>)
       (rewrite_references f otherwise) limit"
| "rewrite_references f (Use u) =
     Use (u\<lparr>use_input_bindings := map (\<lambda>b. b\<lparr>bind_source := f (bind_source b)\<rparr>) (use_input_bindings u)\<rparr>)"

definition renameArtifactOutputReferences ::
  "tactic_draft \<Rightarrow> string \<Rightarrow> string \<Rightarrow> string \<Rightarrow> tactic_draft" where
  "renameArtifactOutputReferences draft producer oldOutput newOutput =
     (let f = (\<lambda>reference. renamedReference reference producer oldOutput newOutput) in
      draft\<lparr>draft_body := rewrite_references f (draft_body draft),
        draft_interface := (draft_interface draft)\<lparr>ti_outputs := map (\<lambda>port.
            case op_source port of
              From_Binding reference \<Rightarrow> port\<lparr>op_source := From_Binding (f reference)\<rparr>
            | From_Accepted_Subject _ \<Rightarrow> port) (ti_outputs (draft_interface draft))\<rparr>\<rparr>)"

section \<open>Resolving references\<close>

fun kind_in_entries :: "tactic_definition list \<Rightarrow> artifact_ref \<Rightarrow> node_entry list \<Rightarrow> string option" where
  "kind_in_entries tactics reference [] = None"
| "kind_in_entries tactics reference (e # es) =
     (case entry_node e of
        Step s \<Rightarrow>
          if step_key s = ref_producer reference
          then map_option out_kind
            (List.find (\<lambda>out. out_name out = ref_output reference) (step_produces s))
          else kind_in_entries tactics reference es
      | Use u \<Rightarrow>
          if use_instance_key u = ref_producer reference
          then Option.bind (tactic_named tactics (use_tactic_definition_id u)) (\<lambda>t.
            map_option op_kind
              (List.find (\<lambda>port. op_key port = ref_output reference) (ti_outputs (tac_interface t))))
          else kind_in_entries tactics reference es
      | _ \<Rightarrow> kind_in_entries tactics reference es)"

definition artifactKindForRef :: "tactic_draft \<Rightarrow> tactic_definition list \<Rightarrow> artifact_ref \<Rightarrow> string option" where
  "artifactKindForRef draft tactics reference =
     (if ref_producer reference = ''$inputs''
      then map_option ip_kind
        (List.find (\<lambda>port. ip_key port = ref_output reference) (ti_inputs (draft_interface draft)))
      else kind_in_entries tactics reference (all_entries (draft_body draft)))"

section \<open>Sources offered to an input\<close>

datatype source_semantic = Current_Artifact | Rejected_Review

record source_candidate =
  sc_ref :: artifact_ref
  sc_kind :: string
  sc_label :: string
  sc_semantic :: "source_semantic option"

definition candidate :: "string \<Rightarrow> string \<Rightarrow> string \<Rightarrow> string \<Rightarrow> source_candidate" where
  "candidate producer out kind label = \<lparr>sc_ref = \<lparr>ref_producer = producer, ref_output = out\<rparr>,
     sc_kind = kind, sc_label = label, sc_semantic = None\<rparr>"

definition suggestedInputLabel :: "string \<Rightarrow> source_candidate option \<Rightarrow> string" where
  "suggestedInputLabel kind suggestion =
     (if Option.bind suggestion sc_semantic = Some Rejected_Review \<or> kind = ''review_verdict''
      then ''Review Feedback''
      else if kind = ''quest_plan'' then ''Current Quest Plan''
      else if kind = ''change_set'' then ''Current Change Set''
      else if kind \<noteq> [] then artifactTypeLabel kind else ''New Input'')"

definition node_candidates :: "tactic_definition list \<Rightarrow> tactic_node \<Rightarrow> source_candidate list" where
  "node_candidates tactics node =
     (case node of
        Step s \<Rightarrow> map (\<lambda>out. candidate (step_key s) (out_name out) (out_kind out)
            (step_name s @ '' -> '' @ artifactContractLabel (step_name s) (out_kind out) Produces))
          (step_produces s)
      | Use u \<Rightarrow>
          (case tactic_named tactics (use_tactic_definition_id u) of
             None \<Rightarrow> []
           | Some t \<Rightarrow> map (\<lambda>out. candidate (use_instance_key u) (op_key out) (op_kind out)
               (tac_name t @ '' -> '' @ op_label out)) (ti_outputs (tac_interface t)))
      | _ \<Rightarrow> [])"

definition reviewSourceLabel :: "step_node \<Rightarrow> artifact_output \<Rightarrow> string" where
  "reviewSourceLabel s out =
     (if map_option review_gate_key (out_review out) = Some ''plan_acceptance''
      then ''Latest rejected Plan Review''
      else if map_option review_gate_key (out_review out) = Some ''implementation_acceptance''
      then ''Latest rejected Implementation Review''
      else step_name s @ '' -> Rejected Verdict'')"

fun until_parts :: "tactic_node \<Rightarrow> (tactic_node \<times> tactic_node) option" where
  "until_parts (Until check condition otherwise limit) = Some (check, otherwise)"
| "until_parts _ = None"

definition check_outputs :: "tactic_node \<Rightarrow> artifact_ref \<Rightarrow> (step_node \<times> artifact_output) list" where
  "check_outputs check reference =
     concat (map (\<lambda>s. map (\<lambda>out. (s, out)) (filter (\<lambda>out.
         step_key s = ref_producer reference \<and> out_name out = ref_output reference \<and>
         out_kind out = ''review_verdict'') (step_produces s))) (steps check))"

definition produced_inside :: "tactic_node \<Rightarrow> artifact_ref \<Rightarrow> bool" where
  "produced_inside node reference = (ref_producer reference \<in> set (localIdentities node))"

definition contextual_candidate ::
  "(tactic_node \<times> node_path \<times> path_part) option \<Rightarrow> source_candidate \<Rightarrow> source_candidate" where
  "contextual_candidate context c =
     (case context of
        None \<Rightarrow> c
      | Some (node, path, phase) \<Rightarrow>
          (case until_parts node of
             None \<Rightarrow> c
           | Some (check, otherwise) \<Rightarrow>
               (case (phase, check_outputs check (sc_ref c)) of
                  (At_Otherwise, (s, out) # _) \<Rightarrow>
                    c\<lparr>sc_label := reviewSourceLabel s out, sc_semantic := Some Rejected_Review\<rparr>
                | _ \<Rightarrow>
                    if list_ex (\<lambda>s. list_ex (\<lambda>out. out_kind out = sc_kind c) (step_produces s)) (steps otherwise) \<and>
                       list_ex (\<lambda>s. list_ex (\<lambda>i. in_kind i = sc_kind c) (step_consumes s)) (steps check) \<and>
                       \<not> produced_inside node (sc_ref c)
                    then c\<lparr>sc_label := ''Current '' @ artifactTypeLabel (sc_kind c),
                      sc_semantic := Some Current_Artifact\<rparr>
                    else c)))"

text \<open>The first candidate of each reference.\<close>

fun first_per_ref :: "artifact_ref list \<Rightarrow> source_candidate list \<Rightarrow> source_candidate list" where
  "first_per_ref seen [] = []"
| "first_per_ref seen (c # cs) =
     (if sc_ref c \<in> set seen then first_per_ref seen cs
      else c # first_per_ref (sc_ref c # seen) cs)"

definition upstream_of :: "tactic_node \<Rightarrow> node_path \<Rightarrow> node_entry list" where
  "upstream_of body consumerPath =
     (if consumerPath \<in> set (map entry_path (all_entries body))
      then takeWhile (\<lambda>e. entry_path e \<noteq> consumerPath) (all_entries body)
      else all_entries body)"

definition artifactSourcesFor ::
  "tactic_draft \<Rightarrow> tactic_definition list \<Rightarrow> node_path \<Rightarrow> string \<Rightarrow> source_candidate list" where
  "artifactSourcesFor draft tactics consumerPath kind =
     (let candidates = map (\<lambda>port. candidate ''$inputs'' (ip_key port) (ip_kind port)
              (''Tactic Input -> '' @ ip_label port)) (ti_inputs (draft_interface draft))
            @ concat (map (\<lambda>e. node_candidates tactics (entry_node e)) (upstream_of (draft_body draft) consumerPath));
          contextual = map (contextual_candidate (enclosingUntil (draft_body draft) consumerPath)) candidates in
      first_per_ref [] (filter (\<lambda>c. (kind = [] \<or> sc_kind c = kind) \<and> sc_kind c \<noteq> []) contextual))"

end
