(* ===== verification/Tactic_References.thy ===== *)
theory Tactic_References
  imports Tactic_Edits Tactic_Draft
begin

text \<open>
  References between the artifacts of a draft: what a reference resolves to when the names of the draft
  are unique, the sources offered to an input, and the loop the editor builds around a body.
\<close>

section \<open>The names of an entry\<close>

definition entry_ids :: "node_entry \<Rightarrow> string list" where
  "entry_ids e = (case entry_node e of
     Step s \<Rightarrow> [step_key s] | Use u \<Rightarrow> [use_instance_key u] | _ \<Rightarrow> [])"

lemma localIdentities_ids: "localIdentities body = concat (map entry_ids (all_entries body))"
  unfolding localIdentities_def entry_ids_def ..

definition node_kind :: "tactic_definition list \<Rightarrow> artifact_ref \<Rightarrow> tactic_node \<Rightarrow> string option" where
  "node_kind tactics r node =
     (case node of
        Step s \<Rightarrow> map_option out_kind (List.find (\<lambda>out. out_name out = ref_output r) (step_produces s))
      | Use u \<Rightarrow> Option.bind (tactic_named tactics (use_tactic_definition_id u)) (\<lambda>t.
          map_option op_kind (List.find (\<lambda>port. op_key port = ref_output r) (ti_outputs (tac_interface t))))
      | _ \<Rightarrow> None)"

lemma kind_in_entries_find:
  "kind_in_entries tactics r es =
     Option.bind (List.find (\<lambda>e. ref_producer r \<in> set (entry_ids e)) es) (\<lambda>e. node_kind tactics r (entry_node e))"
  by (induction es) (auto simp: entry_ids_def node_kind_def split: tactic_node.splits)

text \<open>With unique names the first match is the only one.\<close>

lemma find_unique_key:
  assumes "distinct (concat (map f xs))" and "x \<in> set xs" and "a \<in> set (f x)"
  shows "List.find (\<lambda>x. a \<in> set (f x)) xs = Some x"
  using assms by (induction xs) auto

lemma find_distinct_iff:
  assumes "distinct (map f xs)"
  shows "map_option g (List.find (\<lambda>x. f x = a) xs) = Some b \<longleftrightarrow> (\<exists>x \<in> set xs. f x = a \<and> g x = b)"
  using assms by (induction xs) (auto simp: image_iff)

lemma kind_in_entries_iff:
  assumes "distinct (concat (map entry_ids es))"
  shows "kind_in_entries tactics r es = Some k \<longleftrightarrow>
    (\<exists>e \<in> set es. ref_producer r \<in> set (entry_ids e) \<and> node_kind tactics r (entry_node e) = Some k)"
proof
  assume "kind_in_entries tactics r es = Some k"
  then show "\<exists>e \<in> set es. ref_producer r \<in> set (entry_ids e) \<and> node_kind tactics r (entry_node e) = Some k"
    by (auto simp: kind_in_entries_find find_Some_iff bind_eq_Some_conv)
next
  assume "\<exists>e \<in> set es. ref_producer r \<in> set (entry_ids e) \<and> node_kind tactics r (entry_node e) = Some k"
  then show "kind_in_entries tactics r es = Some k"
    using find_unique_key [OF assms] by (auto simp: kind_in_entries_find)
qed

section \<open>Drafts with unique names\<close>

definition unique_outputs :: "tactic_node \<Rightarrow> bool" where
  "unique_outputs body \<longleftrightarrow>
     list_all (\<lambda>s. distinct (map out_name (step_produces s))) (steps body)"

definition well_named :: "tactic_draft \<Rightarrow> tactic_definition list \<Rightarrow> bool" where
  "well_named draft tactics \<longleftrightarrow>
     distinct (''$inputs'' # localIdentities (draft_body draft)) \<and>
     unique_outputs (draft_body draft) \<and>
     distinct (map ip_key (ti_inputs (draft_interface draft))) \<and>
     list_all (\<lambda>t. distinct (map op_key (ti_outputs (tac_interface t)))) tactics"

lemma tactic_named_mem: "tactic_named tactics i = Some t \<Longrightarrow> t \<in> set tactics"
  by (auto simp: tactic_named_def find_Some_iff)

lemma node_kind_candidate:
  assumes "well_named draft tactics" and "e \<in> set (all_entries (draft_body draft))"
  shows "ref_producer r \<in> set (entry_ids e) \<and> node_kind tactics r (entry_node e) = Some k \<longleftrightarrow>
    (\<exists>c \<in> set (node_candidates tactics (entry_node e)). sc_ref c = r \<and> sc_kind c = k)"
proof (cases "entry_node e")
  case (Step s)
  with assms have "distinct (map out_name (step_produces s))"
    by (force simp: well_named_def unique_outputs_def list_all_iff steps_def)
  with Step show ?thesis
    by (cases r) (auto simp del: map_option_eq_Some
        simp: entry_ids_def node_kind_def node_candidates_def candidate_def find_distinct_iff)
next
  case (Use u)
  show ?thesis
  proof (cases "tactic_named tactics (use_tactic_definition_id u)")
    case None
    with Use show ?thesis by (simp add: node_kind_def node_candidates_def)
  next
    case (Some t)
    with assms have "distinct (map op_key (ti_outputs (tac_interface t)))"
      by (auto simp: well_named_def list_all_iff dest: tactic_named_mem)
    with Use Some show ?thesis
      by (cases r) (auto simp del: map_option_eq_Some
        simp: entry_ids_def node_kind_def node_candidates_def candidate_def find_distinct_iff)
  qed
qed (simp_all add: entry_ids_def node_candidates_def)

text \<open>The producer of a candidate is a name of its entry.\<close>

lemma candidate_producer:
  "c \<in> set (node_candidates tactics (entry_node e)) \<Longrightarrow> ref_producer (sc_ref c) \<in> set (entry_ids e)"
  by (auto simp: node_candidates_def candidate_def entry_ids_def split: tactic_node.splits option.splits)

section \<open>The sources offered\<close>

lemma contextual_keeps [simp]:
  "sc_ref (contextual_candidate context c) = sc_ref c" "sc_kind (contextual_candidate context c) = sc_kind c"
  by (auto simp: contextual_candidate_def split: option.splits prod.splits path_part.splits list.splits)

lemma first_per_ref_set: "set (first_per_ref seen cs) \<subseteq> set cs"
  by (induction seen cs rule: first_per_ref.induct) auto

lemma first_per_ref_refs:
  "distinct (map sc_ref (first_per_ref seen cs)) \<and>
   sc_ref ` set (first_per_ref seen cs) = sc_ref ` set cs - set seen"
  by (induction seen cs rule: first_per_ref.induct) auto

lemma first_per_ref_pairs:
  assumes "\<And>c c'. c \<in> set cs \<Longrightarrow> c' \<in> set cs \<Longrightarrow> sc_ref c = sc_ref c' \<Longrightarrow> sc_kind c = sc_kind c'"
  shows "(\<exists>c \<in> set (first_per_ref [] cs). sc_ref c = r \<and> sc_kind c = k) \<longleftrightarrow>
    (\<exists>c \<in> set cs. sc_ref c = r \<and> sc_kind c = k)"
proof
  assume "\<exists>c \<in> set cs. sc_ref c = r \<and> sc_kind c = k"
  then obtain c where c: "c \<in> set cs" "sc_ref c = r" "sc_kind c = k" by blast
  then have "r \<in> sc_ref ` set (first_per_ref [] cs)"
    using first_per_ref_refs [of "[]" cs] by auto
  then obtain c' where "c' \<in> set (first_per_ref [] cs)" "sc_ref c' = r" by auto
  with c assms first_per_ref_set show "\<exists>c \<in> set (first_per_ref [] cs). sc_ref c = r \<and> sc_kind c = k"
    by (metis in_mono)
qed (use first_per_ref_set in blast)

lemma upstream_subset: "set (upstream_of body path) \<subseteq> set (all_entries body)"
  by (auto simp: upstream_of_def dest: set_takeWhileD)

text \<open>The listing before a node has no name of the node.\<close>

lemma own_name_not_upstream:
  assumes "nodeAt body path = Some (Step s)" and "distinct (localIdentities body)"
  shows "step_key s \<in> set (localIdentities body)"
    and "step_key s \<notin> set (concat (map entry_ids (upstream_of body path)))"
proof -
  let ?es = "all_entries body" and ?before = "\<lambda>e. entry_path e \<noteq> path"
  let ?e = "entry_at [] 0 Branch_Root path (Step s)"
  from assms(1) have e: "?e \<in> set ?es" by (auto simp: entries_iff)
  moreover have own: "step_key s \<in> set (entry_ids ?e)" "entry_path ?e = path"
    by (simp_all add: entry_ids_def entry_at_def)
  ultimately show "step_key s \<in> set (localIdentities body)" by (auto simp: localIdentities_ids)
  from e own(2) have "?e \<in> set (dropWhile ?before ?es)"
    using entries_distinct [of body "[]" 0 Branch_Root] by (metis (mono_tags) Un_iff set_append set_takeWhileD takeWhile_dropWhile_id)
  moreover have "distinct (concat (map entry_ids (takeWhile ?before ?es @ dropWhile ?before ?es)))"
    using assms(2) by (simp add: localIdentities_ids)
  then have "set (concat (map entry_ids (takeWhile ?before ?es))) \<inter>
      set (concat (map entry_ids (dropWhile ?before ?es))) = {}"
    by (simp only: map_append concat_append distinct_append)
  ultimately have "step_key s \<notin> set (concat (map entry_ids (takeWhile ?before ?es)))"
    using own(1) by auto
  moreover have "path \<in> set (map entry_path ?es)" using e own(2) by (metis image_eqI set_map)
  then have "upstream_of body path = takeWhile ?before ?es" by (simp add: upstream_of_def)
  ultimately show "step_key s \<notin> set (concat (map entry_ids (upstream_of body path)))" by simp
qed

definition input_candidates :: "tactic_draft \<Rightarrow> source_candidate list" where
  "input_candidates draft = map (\<lambda>port. candidate ''$inputs'' (ip_key port) (ip_kind port)
     (''Tactic Input -> '' @ ip_label port)) (ti_inputs (draft_interface draft))"

text \<open>A candidate is an input port, or an output of an upstream node, with the kind it resolves to.\<close>

lemma candidate_resolves:
  assumes named: "well_named draft tactics" and es: "set es \<subseteq> set (all_entries (draft_body draft))"
  shows "(\<exists>c \<in> set (input_candidates draft @ concat (map (\<lambda>e. node_candidates tactics (entry_node e)) es)).
      sc_ref c = r \<and> sc_kind c = k) \<longleftrightarrow>
    artifactKindForRef draft tactics r = Some k \<and>
      (ref_producer r = ''$inputs'' \<or> ref_producer r \<in> set (concat (map entry_ids es)))"
proof (cases "ref_producer r = ''$inputs''")
  case True
  have "ref_producer r \<notin> set (entry_ids e)" if "e \<in> set es" for e
    using that es named True by (auto simp: well_named_def localIdentities_ids)
  then have "\<not> (\<exists>e \<in> set es. \<exists>c \<in> set (node_candidates tactics (entry_node e)). sc_ref c = r)"
    by (auto dest: candidate_producer)
  moreover have "(\<exists>c \<in> set (input_candidates draft). sc_ref c = r \<and> sc_kind c = k) \<longleftrightarrow>
      artifactKindForRef draft tactics r = Some k"
    using named True unfolding well_named_def
    by (cases r) (auto simp del: map_option_eq_Some
        simp: artifactKindForRef_def input_candidates_def candidate_def find_distinct_iff)
  ultimately show ?thesis using True by auto
next
  case False
  have all: "distinct (concat (map entry_ids (all_entries (draft_body draft))))"
    using named by (simp add: well_named_def localIdentities_ids)
  have "(\<exists>c \<in> set (input_candidates draft). sc_ref c = r) \<longleftrightarrow> False"
    using False by (auto simp: input_candidates_def candidate_def)
  moreover have "(\<exists>e \<in> set es. \<exists>c \<in> set (node_candidates tactics (entry_node e)). sc_ref c = r \<and> sc_kind c = k) \<longleftrightarrow>
      (\<exists>e \<in> set es. ref_producer r \<in> set (entry_ids e) \<and> node_kind tactics r (entry_node e) = Some k)"
    using node_kind_candidate [OF named] es by blast
  moreover have "(\<exists>e \<in> set es. ref_producer r \<in> set (entry_ids e) \<and> node_kind tactics r (entry_node e) = Some k) \<longleftrightarrow>
      kind_in_entries tactics r (all_entries (draft_body draft)) = Some k \<and>
      ref_producer r \<in> set (concat (map entry_ids es))" (is "?here \<longleftrightarrow> ?there")
  proof
    assume ?here
    then show ?there using es by (auto simp: kind_in_entries_iff [OF all])
  next
    assume ?there
    then obtain e where e: "e \<in> set es" "ref_producer r \<in> set (entry_ids e)" by auto
    with es have "List.find (\<lambda>e. ref_producer r \<in> set (entry_ids e)) (all_entries (draft_body draft)) = Some e"
      using find_unique_key [OF all] by blast
    with \<open>?there\<close> e show ?here by (auto simp: kind_in_entries_find)
  qed
  ultimately show ?thesis using False by (auto simp: artifactKindForRef_def)
qed

lemma artifactSourcesFor_pairs:
  assumes "well_named draft tactics"
  shows "(\<exists>c \<in> set (artifactSourcesFor draft tactics path kind). sc_ref c = r \<and> sc_kind c = k) \<longleftrightarrow>
    k \<noteq> [] \<and> (kind = [] \<or> k = kind) \<and> artifactKindForRef draft tactics r = Some k \<and>
    (ref_producer r = ''$inputs'' \<or>
     ref_producer r \<in> set (concat (map entry_ids (upstream_of (draft_body draft) path))))"
proof -
  let ?es = "upstream_of (draft_body draft) path"
  define cs where "cs = input_candidates draft @ concat (map (\<lambda>e. node_candidates tactics (entry_node e)) ?es)"
  let ?shown = "filter (\<lambda>c. (kind = [] \<or> sc_kind c = kind) \<and> sc_kind c \<noteq> [])
    (map (contextual_candidate (enclosingUntil (draft_body draft) path)) cs)"
  note resolves = candidate_resolves [OF assms upstream_subset [of _ path], folded cs_def]
  have same: "sc_kind c = sc_kind c'" if "c \<in> set cs" "c' \<in> set cs" "sc_ref c = sc_ref c'" for c c'
  proof -
    have "artifactKindForRef draft tactics (sc_ref c) = Some (sc_kind c)" if "c \<in> set cs" for c
      using that resolves [of "sc_ref c" "sc_kind c"] by blast
    from this [OF that(1)] this [OF that(2)] that(3) show ?thesis by simp
  qed
  have "sc_kind c = sc_kind c'" if shown: "c \<in> set ?shown" "c' \<in> set ?shown" "sc_ref c = sc_ref c'" for c c'
  proof -
    obtain d d' where "d \<in> set cs" "d' \<in> set cs" "sc_ref c = sc_ref d" "sc_kind c = sc_kind d"
      "sc_ref c' = sc_ref d'" "sc_kind c' = sc_kind d'" using shown(1,2) by auto
    with same [of d d'] shown(3) show ?thesis by simp
  qed
  note pairs = first_per_ref_pairs [OF this]
  have "(\<exists>c \<in> set (artifactSourcesFor draft tactics path kind). sc_ref c = r \<and> sc_kind c = k) \<longleftrightarrow>
      (\<exists>c \<in> set ?shown. sc_ref c = r \<and> sc_kind c = k)"
    unfolding artifactSourcesFor_def Let_def input_candidates_def [symmetric] cs_def [symmetric] by (rule pairs)
  also have "\<dots> \<longleftrightarrow> k \<noteq> [] \<and> (kind = [] \<or> k = kind) \<and> (\<exists>c \<in> set cs. sc_ref c = r \<and> sc_kind c = k)"
    by auto
  finally show ?thesis unfolding resolves by blast
qed

text \<open>
  C16: when the names of a draft are unique, the sources offered to an input are exactly the references of
  the wanted kind that resolve, to that kind, and are Tactic inputs or come before the consumer in the
  listing. Each reference is offered once, and a Step is never offered its own outputs.
\<close>

theorem offered_sources_resolve:
  assumes "well_named draft tactics"
  shows "distinct (map sc_ref (artifactSourcesFor draft tactics path kind))
    \<and> (\<forall>r k. (\<exists>c \<in> set (artifactSourcesFor draft tactics path kind). sc_ref c = r \<and> sc_kind c = k) \<longleftrightarrow>
        k \<noteq> [] \<and> (kind = [] \<or> k = kind) \<and> artifactKindForRef draft tactics r = Some k \<and>
        (ref_producer r = ''$inputs'' \<or>
         ref_producer r \<in> set (concat (map entry_ids (upstream_of (draft_body draft) path)))))
    \<and> (\<forall>s. nodeAt (draft_body draft) path = Some (Step s) \<longrightarrow>
        step_key s \<notin> ref_producer ` sc_ref ` set (artifactSourcesFor draft tactics path kind))"
proof (intro conjI allI impI)
  show "distinct (map sc_ref (artifactSourcesFor draft tactics path kind))"
    by (simp add: artifactSourcesFor_def Let_def first_per_ref_refs)
  note pairs = artifactSourcesFor_pairs [OF assms, of path kind]
  then show "(\<exists>c \<in> set (artifactSourcesFor draft tactics path kind). sc_ref c = r \<and> sc_kind c = k) \<longleftrightarrow>
      k \<noteq> [] \<and> (kind = [] \<or> k = kind) \<and> artifactKindForRef draft tactics r = Some k \<and>
      (ref_producer r = ''$inputs'' \<or>
       ref_producer r \<in> set (concat (map entry_ids (upstream_of (draft_body draft) path))))" for r k .
  fix s assume "nodeAt (draft_body draft) path = Some (Step s)"
  note own = own_name_not_upstream [OF this]
  show "step_key s \<notin> ref_producer ` sc_ref ` set (artifactSourcesFor draft tactics path kind)"
  proof
    assume "step_key s \<in> ref_producer ` sc_ref ` set (artifactSourcesFor draft tactics path kind)"
    then obtain c where "c \<in> set (artifactSourcesFor draft tactics path kind)"
      and c: "ref_producer (sc_ref c) = step_key s" by force
    with pairs [of "sc_ref c" "sc_kind c"] have "step_key s = ''$inputs'' \<or>
      step_key s \<in> set (concat (map entry_ids (upstream_of (draft_body draft) path)))" by force
    with own assms show False by (auto simp: well_named_def)
  qed
qed

definition planned_draft :: tactic_draft where
  "planned_draft = \<lparr>draft_id = None, draft_key = ''deliver'', draft_name = ''Deliver'', draft_description = [],
     draft_body = Sequence
       [Step ((new_step ''plan'' ''Plan'' ''planner'')
          \<lparr>step_produces := [\<lparr>out_name = ''plan'', out_kind = ''quest_plan'', out_review = None\<rparr>]\<rparr>),
        Step (new_step ''build'' ''Build'' ''coder'')],
     draft_interface = \<lparr>ti_inputs = [\<lparr>ip_key = ''brief'', ip_label = ''Brief'', ip_kind = ''notes'', ip_required = True\<rparr>],
       ti_outputs = []\<rparr>\<rparr>"

lemma planned_draft_named: "well_named planned_draft []"
  by (simp add: well_named_def planned_draft_def new_step_def localIdentities_def unique_outputs_def steps_def)

theorem offered_sources_resolve_witness:
  "\<exists>c \<in> set (artifactSourcesFor planned_draft [] [Index 1] ''quest_plan'').
     sc_ref c = \<lparr>ref_producer = ''plan'', ref_output = ''plan''\<rparr> \<and> sc_kind c = ''quest_plan''"
proof -
  have "artifactKindForRef planned_draft [] \<lparr>ref_producer = ''plan'', ref_output = ''plan''\<rparr> = Some ''quest_plan''"
    and "''plan'' \<in> set (concat (map entry_ids (upstream_of (draft_body planned_draft) [Index 1])))"
    by (simp_all add: planned_draft_def new_step_def artifactKindForRef_def upstream_of_def entry_ids_def)
  then show ?thesis using offered_sources_resolve [OF planned_draft_named] by auto
qed

end
