(* ===== verification/Tactic_Loops.thy ===== *)
theory Tactic_Loops
  imports Tactic_References
begin

text \<open>
  The review loop the editor makes from a body (\<open>makeUntil\<close>) and adds to it: its keys are new, its
  references resolve in the draft that holds it, and it is recognised as the remediation it was made for.
\<close>

section \<open>Names and leaves\<close>

lemma in_leaves_entry:
  "Step s \<in> set (leaves body) \<Longrightarrow> \<exists>e \<in> set (all_entries body). entry_node e = Step s"
proof -
  assume "Step s \<in> set (leaves body)"
  then obtain e where "e \<in> set (all_entries body)" "Step s \<in> set (own_leaf (entry_node e))"
    by (auto simp: entries_leaves [of body "[]" 0 Branch_Root, symmetric])
  then show ?thesis by (cases "entry_node e") auto
qed

lemma steps_leaves: "s \<in> set (steps body) \<longleftrightarrow> Step s \<in> set (leaves body)"
  by (force simp: listing_leaves(1) split: tactic_node.splits)

lemma mset_concat_map: "mset (concat (map f xs)) = (\<Sum>x \<in># mset xs. mset (f x))"
  by (induction xs) simp_all

lemma mset_localIdentities:
  "mset (leaves a) = mset (leaves b) + mset (leaves c) \<Longrightarrow>
    mset (localIdentities a) = mset (localIdentities b) + mset (localIdentities c)"
  by (simp add: listing_leaves(3) mset_concat_map)

text \<open>An output of a Step resolves to its kind.\<close>

lemma output_resolves:
  assumes "well_named draft tactics" and "Step s \<in> set (leaves (draft_body draft))" and "out \<in> set (step_produces s)"
  shows "artifactKindForRef draft tactics \<lparr>ref_producer = step_key s, ref_output = out_name out\<rparr> =
    Some (out_kind out)"
proof -
  let ?r = "\<lparr>ref_producer = step_key s, ref_output = out_name out\<rparr>"
  from in_leaves_entry [OF assms(2)] obtain e where
    e: "e \<in> set (all_entries (draft_body draft))" "entry_node e = Step s" by blast
  have "\<exists>c \<in> set (node_candidates tactics (entry_node e)). sc_ref c = ?r \<and> sc_kind c = out_kind out"
    using e(2) assms(3) by (force simp: node_candidates_def candidate_def)
  with node_kind_candidate [OF assms(1) e(1)]
  have "ref_producer ?r \<in> set (entry_ids e) \<and> node_kind tactics ?r (entry_node e) = Some (out_kind out)" by blast
  moreover have "distinct (concat (map entry_ids (all_entries (draft_body draft))))"
    and "step_key s \<noteq> ''$inputs''"
    using assms(1) calculation e(1) by (auto simp: well_named_def localIdentities_ids)
  ultimately show ?thesis
    using e(1) by (auto simp: artifactKindForRef_def kind_in_entries_iff)
qed

section \<open>Adding to a draft\<close>

text \<open>New nodes with new, well-formed keys and unique output names keep a draft well named.\<close>

lemma well_named_added:
  assumes "well_named draft tactics"
    and "mset (leaves body) = mset (leaves (draft_body draft)) + mset (leaves node)"
    and "distinct (localIdentities node)"
    and "\<forall>i \<in> set (localIdentities node). i \<notin> set (localIdentities (draft_body draft)) \<and> key_over CHR ''-'' i"
    and "unique_outputs node"
  shows "well_named (draft\<lparr>draft_body := body\<rparr>) tactics"
proof -
  have "mset (localIdentities body) = mset (localIdentities (draft_body draft) @ localIdentities node)"
    using mset_localIdentities [OF assms(2)] by simp
  then have "distinct (localIdentities body) \<longleftrightarrow> distinct (localIdentities (draft_body draft) @ localIdentities node)"
    and "set (localIdentities body) = set (localIdentities (draft_body draft)) \<union> set (localIdentities node)"
    by (metis mset_eq_imp_distinct_iff, metis mset_eq_setD set_append)
  moreover have "set (leaves body) = set (leaves (draft_body draft)) \<union> set (leaves node)"
    using assms(2) by (metis mset_eq_setD set_append mset_append)
  moreover have "''$inputs'' \<notin> set (localIdentities node)"
    using assms(4) by (auto simp: key_over_def starts_with_letter_def lower_letter_def)
  ultimately show ?thesis
    using assms(1,3-5) by (auto simp: well_named_def unique_outputs_def list_all_iff steps_leaves)
qed

section \<open>The loop made from a body\<close>

lemma makeStep_new:
  assumes "makeStep name body classKey = Some s"
  shows "step_key s \<notin> set (localIdentities body)" and "key_over CHR ''-'' (step_key s)"
    and "s = new_step (step_key s) name classKey"
  using assms availableProductKey_fresh [OF _ fallback_keys(1), of name "localIdentities body" 1]
  by (auto simp: makeStep_def generatedLocalKey_def new_step_def)

lemma makeStep_total: "length (localIdentities body) < 9998 \<Longrightarrow> \<exists>s. makeStep name body classKey = Some s"
  using availableProductKey_total [of "localIdentities body" 1 name "''step''"]
  by (auto simp: makeStep_def generatedLocalKey_def)

lemma bind_total:
  "\<exists>x. m = Some x \<Longrightarrow> (\<And>x. \<exists>y. f x = Some y) \<Longrightarrow> \<exists>y. Option.bind m f = Some y"
  by auto

lemma makeUntil_total:
  assumes "length (localIdentities body) < 9997"
  shows "\<exists>loop. makeUntil body classKey = Some loop"
proof -
  have "length (localIdentities (Sequence [body, Step s])) < 9998" for s
    using assms by (simp add: listing_leaves(3))
  then show ?thesis
    using assms unfolding makeUntil_def Let_def
    by (intro bind_total makeStep_total) auto
qed

lemma made_keys [simp]:
  "step_key (check_step subject s) = step_key s" "step_key (remediation_step subject k s) = step_key s"
  "step_key (new_step key name classKey) = key"
  by (auto simp: check_step_def remediation_step_def new_step_def split: option.splits)

lemma until_subjectD:
  assumes "until_subject body = Some (producer, out)"
  shows "Step producer \<in> set (leaves body)" and "out \<in> set (step_produces producer)"
    and "out_kind out = ''quest_plan'' \<or> out_kind out = ''change_set''"
proof -
  have "(producer, out) \<in> set (subject_candidates body)"
    using assms by (auto simp: until_subject_def split: list.splits)
  then show "Step producer \<in> set (leaves body)" "out \<in> set (step_produces producer)"
    "out_kind out = ''quest_plan'' \<or> out_kind out = ''change_set''"
    by (auto simp: subject_candidates_def steps_leaves)
qed

definition made_condition :: "(step_node \<times> artifact_output) option \<Rightarrow> step_node \<Rightarrow> until_condition" where
  "made_condition subject check = \<lparr>
     cond_source = \<lparr>ref_producer = step_key check,
       ref_output = (if subject = None then ''result'' else ''verdict'')\<rparr>,
     cond_field = ''status'', cond_value = JStr ''accepted''\<rparr>"

lemma makeUntil_shape:
  assumes "makeUntil body classKey = Some loop"
  obtains check otherwise limit checkName where
    "loop = Until (Step (check_step (until_subject body) check))
       (made_condition (until_subject body) check)
       (Step (remediation_step (until_subject body) (step_key check) otherwise)) (Some limit)"
    and "1 \<le> limit"
    and "check = new_step (step_key check) checkName classKey"
    and "otherwise = new_step (step_key otherwise) ''Remediate'' classKey"
    and "distinct [step_key check, step_key otherwise]"
    and "\<forall>i \<in> {step_key check, step_key otherwise}. i \<notin> set (localIdentities body) \<and> key_over CHR ''-'' i"
proof -
  from assms obtain checkName check otherwise limit where
    made: "makeStep checkName body classKey = Some check"
      "makeStep ''Remediate'' (Sequence [body, Step (check_step (until_subject body) check)]) classKey = Some otherwise"
    and loop: "loop = Until (Step (check_step (until_subject body) check))
       (made_condition (until_subject body) check)
       (Step (remediation_step (until_subject body) (step_key check) otherwise)) (Some limit)" "1 \<le> limit"
    by (auto simp: makeUntil_def Let_def bind_eq_Some_conv made_condition_def split: if_splits)
  have "localIdentities (Sequence [body, Step (check_step (until_subject body) check)]) =
      localIdentities body @ [step_key check]"
    by (simp add: listing_leaves(3))
  with makeStep_new [OF made(1)] makeStep_new [OF made(2)] show ?thesis
    by (intro that [OF loop]) auto
qed

text \<open>The inputs of the two Steps name outputs of the subject's producer and of the check.\<close>

lemma made_inputs:
  assumes "i \<in> set (step_consumes (check_step subject (new_step k name c)) @
      step_consumes (remediation_step subject k (new_step k' name' c)))"
  obtains producer out where "subject = Some (producer, out)"
    and "in_source i = Some \<lparr>ref_producer = step_key producer, ref_output = out_name out\<rparr> \<and> in_kind i = out_kind out \<or>
      in_source i = Some \<lparr>ref_producer = k, ref_output = ''verdict''\<rparr> \<and> in_kind i = ''review_verdict''"
  using assms
  by (auto simp: check_step_def remediation_step_def new_step_def current_input_def split: option.splits)

lemma made_remediation:
  assumes "\<And>producer out. subject = Some (producer, out) \<Longrightarrow>
    out_kind out = ''quest_plan'' \<or> out_kind out = ''change_set''"
  shows "remediationKind (Step (check_step subject (new_step k name c))) (made_condition subject (new_step k name c))
      (Step (remediation_step subject k (new_step k' name' c))) =
    (case subject of
       None \<Rightarrow> Generic_Remediation
     | Some (_, out) \<Rightarrow>
         if out_kind out = ''quest_plan'' then Plan_Revision else Implementation_Repair)"
proof (cases subject)
  case None
  then show ?thesis
    by (simp add: remediationKind_def Let_def listing_leaves(1) check_step_def remediation_step_def new_step_def
        made_condition_def)
next
  case (Some p)
  then obtain producer out where p: "subject = Some (producer, out)" by (cases p) auto
  with assms consider "out_kind out = ''quest_plan''" | "out_kind out = ''change_set''" by blast
  then show ?thesis
    by cases (simp_all add: p remediationKind_def Let_def listing_leaves(1) check_step_def remediation_step_def
        new_step_def made_condition_def current_input_def)
qed

lemma made_references:
  assumes named: "well_named draft tactics"
    and check: "Step (check_step subject (new_step k name c)) \<in> set (leaves (draft_body draft))"
    and subject: "\<And>producer out. subject = Some (producer, out) \<Longrightarrow>
      Step producer \<in> set (leaves (draft_body draft)) \<and> out \<in> set (step_produces producer)"
  shows "artifactKindForRef draft tactics (cond_source (made_condition subject (new_step k name c))) =
      Some (if subject = None then [] else ''review_verdict'')"
    and "\<forall>i \<in> set (step_consumes (check_step subject (new_step k name c)) @
        step_consumes (remediation_step subject k (new_step k' name' c))).
      \<exists>r. in_source i = Some r \<and> artifactKindForRef draft tactics r = Some (in_kind i)"
proof -
  let ?check = "check_step subject (new_step k name c)"
  note resolves = output_resolves [OF named]
  show verdict: "artifactKindForRef draft tactics (cond_source (made_condition subject (new_step k name c))) =
      Some (if subject = None then [] else ''review_verdict'')"
    using resolves [OF check, of "hd (step_produces ?check)"]
    by (auto simp: made_condition_def check_step_def split: option.splits)
  show "\<forall>i \<in> set (step_consumes ?check @ step_consumes (remediation_step subject k (new_step k' name' c))).
      \<exists>r. in_source i = Some r \<and> artifactKindForRef draft tactics r = Some (in_kind i)"
  proof
    fix i assume "i \<in> set (step_consumes ?check @ step_consumes (remediation_step subject k (new_step k' name' c)))"
    from made_inputs [OF this] obtain producer out where p: "subject = Some (producer, out)"
      and i: "in_source i = Some \<lparr>ref_producer = step_key producer, ref_output = out_name out\<rparr> \<and> in_kind i = out_kind out \<or>
        in_source i = Some \<lparr>ref_producer = k, ref_output = ''verdict''\<rparr> \<and> in_kind i = ''review_verdict''" .
    have "artifactKindForRef draft tactics \<lparr>ref_producer = step_key producer, ref_output = out_name out\<rparr> = Some (out_kind out)"
      using subject [OF p] resolves by blast
    with i verdict p show "\<exists>r. in_source i = Some r \<and> artifactKindForRef draft tactics r = Some (in_kind i)"
      by (auto simp: made_condition_def)
  qed
qed

text \<open>
  a review loop made from the body of a well-named draft and added to one of its containers keeps
  the draft well named and is found where it was added. Its condition resolves to the verdict of its check
  (to the untyped result, when the body has no single plan or change set to review), all its inputs
  resolve to the kind they declare, its limit is positive, and it is recognised as the revision of a plan,
  the repair of an implementation, or a generic remediation, by the artifact it reviews.
\<close>

lemma made_loop_sound:
  assumes made: "makeUntil (draft_body draft) classKey = Some loop"
    and named: "well_named draft tactics"
    and place: "nodeAt (draft_body draft) path = Some container" "container_children container = Some siblings"
  shows "\<exists>check condition otherwise limit draft'.
    draft' = draft\<lparr>draft_body := appendChild (draft_body draft) path loop\<rparr>
    \<and> well_named draft' tactics
    \<and> nodeAt (draft_body draft') (path @ [Index (length siblings)]) = Some loop
    \<and> loop = Until (Step check) condition (Step otherwise) (Some limit) \<and> 1 \<le> limit
    \<and> artifactKindForRef draft' tactics (cond_source condition) =
        Some (if until_subject (draft_body draft) = None then [] else ''review_verdict'')
    \<and> (\<forall>i \<in> set (step_consumes check @ step_consumes otherwise).
        \<exists>r. in_source i = Some r \<and> artifactKindForRef draft' tactics r = Some (in_kind i))
    \<and> remediationKind (Step check) condition (Step otherwise) =
        (case until_subject (draft_body draft) of
           None \<Rightarrow> Generic_Remediation
         | Some (_, out) \<Rightarrow>
             if out_kind out = ''quest_plan'' then Plan_Revision else Implementation_Repair)"
proof -
  let ?subject = "until_subject (draft_body draft)"
  let ?draft = "draft\<lparr>draft_body := appendChild (draft_body draft) path loop\<rparr>"
  from makeUntil_shape [OF made] obtain check otherwise limit checkName where
    loop: "loop = Until (Step (check_step ?subject check)) (made_condition ?subject check)
       (Step (remediation_step ?subject (step_key check) otherwise)) (Some limit)" "1 \<le> limit"
    and shape: "check = new_step (step_key check) checkName classKey"
      "otherwise = new_step (step_key otherwise) ''Remediate'' classKey"
    and keys: "distinct [step_key check, step_key otherwise]"
      "\<forall>i \<in> {step_key check, step_key otherwise}. i \<notin> set (localIdentities (draft_body draft)) \<and> key_over CHR ''-'' i" .
  let ?check = "check_step ?subject check" and ?otherwise = "remediation_step ?subject (step_key check) otherwise"
  note added = appendChild_found [OF place, of loop]
  have "unique_outputs loop"
    unfolding loop(1) by (subst shape(1), subst shape(2))
      (auto simp: unique_outputs_def listing_leaves(1) check_step_def remediation_step_def new_step_def split: option.splits)
  then have named': "well_named ?draft tactics"
    using keys by (intro well_named_added [OF named added(2)]) (auto simp: loop(1) listing_leaves(3))
  have members: "set (leaves (draft_body ?draft)) = set (leaves (draft_body draft)) \<union> {Step ?check, Step ?otherwise}"
    using arg_cong [OF added(2), of set_mset] by (simp add: loop(1))
  have references: "artifactKindForRef ?draft tactics (cond_source (made_condition ?subject check)) =
      Some (if ?subject = None then [] else ''review_verdict'')"
    "\<forall>i \<in> set (step_consumes ?check @ step_consumes ?otherwise).
      \<exists>r. in_source i = Some r \<and> artifactKindForRef ?draft tactics r = Some (in_kind i)"
    using made_references [OF named', of ?subject "step_key check" checkName classKey, folded shape]
      made_references(2) [OF named', of ?subject "step_key check" checkName classKey "step_key otherwise" "''Remediate''",
        folded shape] until_subjectD(1,2) members by blast+
  have kind: "remediationKind (Step ?check) (made_condition ?subject check) (Step ?otherwise) =
      (case ?subject of None \<Rightarrow> Generic_Remediation
       | Some (_, out) \<Rightarrow> if out_kind out = ''quest_plan'' then Plan_Revision else Implementation_Repair)"
    by (rule made_remediation [of ?subject "step_key check" checkName classKey "step_key otherwise" "''Remediate''",
        folded shape]) (rule until_subjectD(3))
  from named' added(1) loop references kind show ?thesis
    by (intro exI [of _ ?check] exI [of _ "made_condition ?subject check"] exI [of _ ?otherwise] exI [of _ limit]
        exI [of _ ?draft] conjI ballI) simp_all
qed

lemma made_loop_sound_witness:
  "\<exists>loop. makeUntil (draft_body planned_draft) ''reviewer'' = Some loop \<and>
     well_named (planned_draft\<lparr>draft_body := appendChild (draft_body planned_draft) [] loop\<rparr>) []"
proof -
  let ?body = "draft_body planned_draft"
  have ids: "localIdentities ?body = [''plan'', ''build'']"
    by (simp add: planned_draft_def new_step_def listing_leaves(3))
  obtain loop where loop: "makeUntil ?body ''reviewer'' = Some loop"
    using makeUntil_total [of ?body "''reviewer''"] by (auto simp: ids)
  have "nodeAt ?body [] = Some ?body" "container_children ?body = Some (the (container_children ?body))"
    by (simp_all add: planned_draft_def)
  from made_loop_sound [OF loop planned_draft_named this] loop show ?thesis by blast
qed

end
