(* ===== verification/Tactic_Validation.thy ===== *)
theory Tactic_Validation
  imports Tactic_Draft
begin

text \<open>
  Validation of a draft, the references a removal would break, and the uses of a Tactic
  (\<^verbatim>\<open>components/war-room/tactic-model.ts\<close>). Issues are collected in the order of the code and one
  issue is kept per id. \<open>None\<close> as the path of an issue is the absent path.
\<close>

datatype issue_view = View_Details | View_Interface | View_Node

record draft_issue =
  issue_id :: string
  issue_message :: string
  issue_view :: issue_view
  issue_path :: "node_path option"

text \<open>\<^verbatim>\<open>add\<close>: an issue whose id is already there is dropped.\<close>

definition add_issue :: "draft_issue list \<Rightarrow> draft_issue \<Rightarrow> draft_issue list" where
  "add_issue issues issue =
     (if issue_id issue \<in> set (map issue_id issues) then issues else issues @ [issue])"

definition issue_if :: "bool \<Rightarrow> string \<Rightarrow> string \<Rightarrow> issue_view \<Rightarrow> node_path option \<Rightarrow> draft_issue list" where
  "issue_if condition i message view path =
     (if condition then [\<lparr>issue_id = i, issue_message = message, issue_view = view, issue_path = path\<rparr>] else [])"

definition tactic_key_pattern :: "string \<Rightarrow> bool" where
  "tactic_key_pattern = key_over CHR ''-''"

section \<open>Producers and gates\<close>

text \<open>A \<^verbatim>\<open>Map\<close> as the list of its assignments: the last one of a key counts.\<close>

definition map_get :: "('k \<times> 'v) list \<Rightarrow> 'k \<Rightarrow> 'v option" where
  "map_get assignments k = map_of (rev assignments) k"

definition producers :: "tactic_node \<Rightarrow> (string \<times> string list option) list" where
  "producers body = concat (map (\<lambda>e. case entry_node e of
       Step s \<Rightarrow> [(step_key s, Some (map out_name (step_produces s)))]
     | Use u \<Rightarrow> [(use_instance_key u, None)]
     | _ \<Rightarrow> []) (all_entries body))"

definition consumed_input :: "step_node \<Rightarrow> string \<Rightarrow> artifact_input option" where
  "consumed_input s name = List.find (\<lambda>i. in_name i = name) (step_consumes s)"

text \<open>The kinds each gate accepts, as (gate, kind) pairs.\<close>

definition gate_kinds :: "tactic_node \<Rightarrow> (string \<times> string) list" where
  "gate_kinds body = concat (map (\<lambda>s. concat (map (\<lambda>out.
       case out_review out of
         None \<Rightarrow> []
       | Some review \<Rightarrow>
           (case consumed_input s (review_subject_input review) of
              None \<Rightarrow> []
            | Some subject \<Rightarrow>
                if in_kind subject = [] then [] else [(review_gate_key review, in_kind subject)]))
       (step_produces s))) (steps body))"

definition validReference :: "tactic_draft \<Rightarrow> tactic_definition list \<Rightarrow> artifact_ref \<Rightarrow> bool" where
  "validReference draft tactics reference =
     (if ref_producer reference = ''$inputs''
      then list_ex (\<lambda>port. ip_key port = ref_output reference) (ti_inputs (draft_interface draft))
      else case map_get (producers (draft_body draft)) (ref_producer reference) of
        None \<Rightarrow> False
      | Some (Some outputs) \<Rightarrow> ref_output reference \<in> set outputs
      | Some None \<Rightarrow> truthy (artifactKindForRef draft tactics reference))"

section \<open>Issues of a Step\<close>

definition input_label :: "step_node \<Rightarrow> nat \<Rightarrow> artifact_input \<Rightarrow> string" where
  "input_label s index i =
     (if in_name i \<noteq> []
      then if in_kind i \<noteq> [] then artifactContractLabel (step_name s) (in_kind i) Consumes
        else friendlySlotName (in_name i)
      else ''Input '' @ show_nat (index + 1))"

definition output_label :: "step_node \<Rightarrow> nat \<Rightarrow> artifact_output \<Rightarrow> string" where
  "output_label s index out =
     (if out_name out \<noteq> []
      then if out_kind out \<noteq> [] then artifactContractLabel (step_name s) (out_kind out) Produces
        else friendlySlotName (out_name out)
      else ''Output '' @ show_nat (index + 1))"

definition shown_name :: "step_node \<Rightarrow> string" where
  "shown_name s = (if step_name s \<noteq> [] then step_name s else ''A Step'')"

definition kind_mismatch :: "string \<Rightarrow> string option \<Rightarrow> bool" where
  "kind_mismatch kind sourceKind = (kind \<noteq> [] \<and> truthy sourceKind \<and> sourceKind \<noteq> Some kind)"

definition input_issues ::
  "tactic_draft \<Rightarrow> tactic_definition list \<Rightarrow> step_node \<Rightarrow> node_path \<Rightarrow> nat \<times> artifact_input \<Rightarrow> draft_issue list" where
  "input_issues draft tactics s path indexed =
     (let (index, i) = indexed;
          stem = ''step:'' @ step_key s @ '':input:'' @ show_nat index;
          name = shown_name s; label = input_label s index i;
          sourceKind = Option.bind (in_source i) (artifactKindForRef draft tactics) in
      issue_if (trim (in_name i) = []) (stem @ '':name'')
        (name @ '' has an input that needs a name.'') View_Node (Some path) @
      issue_if (trim (in_kind i) = []) (stem @ '':kind'')
        (name @ '' -> '' @ label @ '' needs an artifact type.'') View_Node (Some path) @
      issue_if (case in_source i of None \<Rightarrow> False | Some r \<Rightarrow> \<not> validReference draft tactics r)
        (stem @ '':source'')
        (name @ '' -> '' @ label @ '' is connected to an unavailable output.'') View_Node (Some path) @
      issue_if (kind_mismatch (in_kind i) sourceKind) (stem @ '':kind-mismatch'')
        (name @ '' -> '' @ label @ '' expects '' @ artifactTypeLabel (in_kind i)
          @ '', but its source produces '' @ artifactTypeLabel (the sourceKind) @ ''.'')
        View_Node (Some path) @
      issue_if (in_kind i \<noteq> [] \<and> in_source i = None \<and>
          1 < length (artifactSourcesFor draft tactics path (in_kind i))) (stem @ '':ambiguous'')
        (name @ '' -> '' @ label @ '' has multiple compatible sources. Choose one.'')
        View_Node (Some path))"

definition review_issues ::
  "step_node \<Rightarrow> string \<Rightarrow> node_path \<Rightarrow> artifact_output \<Rightarrow> draft_issue list" where
  "review_issues s stem path out =
     (let name = shown_name s;
          subject = Option.bind (out_review out) (\<lambda>review. consumed_input s (review_subject_input review));
          gate = map_option review_gate_key (out_review out) in
      if out_kind out = ''review_verdict'' then
        issue_if (out_review out = None \<or> subject = None) (stem @ '':review-subject'')
          (name @ '' needs an artifact to review.'') View_Node (Some path) @
        issue_if (\<not> truthy gate) (stem @ '':review-gate'')
          (name @ '' needs an acceptance gate.'') View_Node (Some path) @
        issue_if (map_option in_kind subject = Some ''quest_plan'' \<and> gate = Some ''implementation_acceptance'')
          (stem @ '':review-gate-mismatch'')
          (name @ '' reviews a Quest Plan, so choose Plan Acceptance.'') View_Node (Some path) @
        issue_if (map_option in_kind subject = Some ''change_set'' \<and> gate = Some ''plan_acceptance'')
          (stem @ '':review-gate-mismatch'')
          (name @ '' reviews a Change Set, so choose Implementation Acceptance.'') View_Node (Some path)
      else issue_if (out_review out \<noteq> None) (stem @ '':unexpected-review'')
        (name @ '' has review settings on an output that is not a Review Verdict.'') View_Node (Some path))"

definition output_issues ::
  "step_node \<Rightarrow> node_path \<Rightarrow> nat \<times> artifact_output \<Rightarrow> draft_issue list" where
  "output_issues s path indexed =
     (let (index, out) = indexed;
          stem = ''step:'' @ step_key s @ '':output:'' @ show_nat index in
      issue_if (trim (out_name out) = []) (stem @ '':name'')
        (shown_name s @ '' has an output that needs a name.'') View_Node (Some path) @
      issue_if (trim (out_kind out) = []) (stem @ '':kind'')
        (shown_name s @ '' -> '' @ output_label s index out @ '' needs an artifact type.'')
        View_Node (Some path) @
      review_issues s stem path out)"

definition step_issues ::
  "tactic_draft \<Rightarrow> tactic_definition list \<Rightarrow> step_node \<Rightarrow> node_path \<Rightarrow> draft_issue list" where
  "step_issues draft tactics s path =
     (let stem = ''step:'' @ step_key s in
      issue_if (\<not> tactic_key_pattern (step_key s)) (stem @ '':key'')
        (shown_name s @ '' has an invalid stable key.'') View_Node (Some path) @
      issue_if (trim (step_name s) = []) (stem @ '':name'') ''Every Step needs a name.'' View_Node (Some path) @
      issue_if (trim (step_instruction s) = []) (stem @ '':instruction'')
        (shown_name s @ '' needs an instruction.'') View_Node (Some path) @
      issue_if (step_performer_value s = []) (stem @ '':performer'')
        (shown_name s @ '' needs a performer.'') View_Node (Some path) @
      concat (map (input_issues draft tactics s path) (List.enumerate 0 (step_consumes s))) @
      issue_if (\<not> distinct (map in_name (step_consumes s))) (stem @ '':input:names'')
        (shown_name s @ '' input names must be unique.'') View_Node (Some path) @
      concat (map (output_issues s path) (List.enumerate 0 (step_produces s))))"

section \<open>Issues of the other nodes\<close>

definition has_verdict :: "artifact_ref \<Rightarrow> step_node \<Rightarrow> bool" where
  "has_verdict reference s = list_ex (\<lambda>out. step_key s = ref_producer reference \<and>
     out_name out = ref_output reference \<and> out_kind out = ''review_verdict'') (step_produces s)"

text \<open>The reviewing Step inside the check of the loop at a path, with its own path.\<close>

definition review_step_entry ::
  "tactic_node \<Rightarrow> node_path \<Rightarrow> artifact_ref \<Rightarrow> (step_node \<times> node_path) option" where
  "review_step_entry check path reference =
     List.find (\<lambda>(s, _). has_verdict reference s)
       (concat (map (\<lambda>e. case entry_node e of Step s \<Rightarrow> [(s, entry_path e)] | _ \<Rightarrow> [])
         (entries check (path @ [At_Check]) 0 Branch_Check)))"

definition until_issues ::
  "tactic_draft \<Rightarrow> tactic_definition list \<Rightarrow> tactic_node \<Rightarrow> until_condition \<Rightarrow> int option \<Rightarrow> node_path \<Rightarrow>
   draft_issue list" where
  "until_issues draft tactics check condition limit path =
     (let stem = ''until:'' @ pathKey path; source = cond_source condition in
      issue_if (case limit of None \<Rightarrow> True | Some n \<Rightarrow> n < 1) (stem @ '':limit'')
        ''Maximum remediation iterations must be a positive whole number.'' View_Node (Some path) @
      issue_if (\<not> validReference draft tactics source) (stem @ '':condition'')
        ''Choose what this loop is waiting for.'' View_Node (Some path) @
      (if artifactKindForRef draft tactics source = Some ''review_verdict'' then
         (let reviewStep = review_step_entry check path source;
              verdict = Option.bind reviewStep (\<lambda>(s, _).
                List.find (\<lambda>out. out_name out = ref_output source) (step_produces s)) in
          issue_if (Option.bind verdict out_review = None) (stem @ '':review-contract'')
            ((case reviewStep of None \<Rightarrow> ''The Review Step'' | Some (s, _) \<Rightarrow> step_name s)
              @ '' must define what it reviews before acceptance can be evaluated.'')
            View_Node (Some (case reviewStep of None \<Rightarrow> path | Some (_, p) \<Rightarrow> p)))
       else []))"

definition use_issues :: "tactic_draft \<Rightarrow> tactic_definition list \<Rightarrow> tactic_use \<Rightarrow> node_path \<Rightarrow> draft_issue list" where
  "use_issues draft tactics u path =
     concat (map (\<lambda>(index, b).
       issue_if (\<not> validReference draft tactics (bind_source b))
         (''use:'' @ use_instance_key u @ '':binding:'' @ show_nat index)
         ''A reused Tactic input is connected to an unavailable output.'' View_Node (Some path))
       (List.enumerate 0 (use_input_bindings u)))"

definition node_issues :: "tactic_draft \<Rightarrow> tactic_definition list \<Rightarrow> node_entry \<Rightarrow> draft_issue list" where
  "node_issues draft tactics e =
     (let path = entry_path e in
      case entry_node e of
        Step s \<Rightarrow> step_issues draft tactics s path
      | Until check condition otherwise limit \<Rightarrow> until_issues draft tactics check condition limit path
      | Sequence children \<Rightarrow>
          issue_if (children = []) (''container:'' @ pathKey path @ '':empty'')
            ''Add at least one item to this sequence.'' View_Node (Some path)
      | Parallel children \<Rightarrow>
          issue_if (children = []) (''container:'' @ pathKey path @ '':empty'')
            ''Add at least one parallel branch.'' View_Node (Some path)
      | Use u \<Rightarrow> use_issues draft tactics u path)"

section \<open>Issues of the interface\<close>

definition input_port_issues :: "nat \<times> input_port \<Rightarrow> draft_issue list" where
  "input_port_issues indexed =
     (let (index, port) = indexed in
      issue_if (trim (ip_key port) = [] \<or> trim (ip_label port) = [] \<or> trim (ip_kind port) = [])
        (''interface:input:'' @ show_nat index)
        ((if ip_label port \<noteq> [] then ip_label port else ''Tactic input '' @ show_nat (index + 1))
          @ '' needs a name and artifact type.'') View_Interface None)"

definition output_port_issues ::
  "tactic_draft \<Rightarrow> tactic_definition list \<Rightarrow> nat \<times> output_port \<Rightarrow> draft_issue list" where
  "output_port_issues draft tactics indexed =
     (let (index, port) = indexed;
          stem = ''interface:output:'' @ show_nat index;
          label = (if op_label port \<noteq> [] then op_label port else ''Tactic output '' @ show_nat (index + 1)) in
      issue_if (trim (op_key port) = [] \<or> trim (op_label port) = [] \<or> trim (op_kind port) = [])
        (stem @ '':contract'') (label @ '' needs a name and artifact type.'') View_Interface None @
      (case op_source port of
         From_Binding reference \<Rightarrow>
           (let sourceKind = artifactKindForRef draft tactics reference in
            issue_if (\<not> validReference draft tactics reference) (stem @ '':source'')
              (label @ '' needs an export source.'') View_Interface None @
            issue_if (kind_mismatch (op_kind port) sourceKind) (stem @ '':source-kind'')
              (label @ '' cannot export '' @ artifactTypeLabel (the sourceKind) @ '' as ''
                @ artifactTypeLabel (op_kind port) @ ''.'') View_Interface None)
       | From_Accepted_Subject gate \<Rightarrow>
           issue_if ((gate, op_kind port) \<notin> set (gate_kinds (draft_body draft))) (stem @ '':accepted-source'')
             (label @ '' needs an acceptance gate for '' @ artifactTypeLabel (op_kind port) @ ''.'')
             View_Interface None))"

definition draft_problems :: "tactic_draft \<Rightarrow> tactic_definition list \<Rightarrow> draft_issue list" where
  "draft_problems draft tactics =
     (let interface = draft_interface draft in
      issue_if (trim (draft_name draft) = []) ''tactic:name'' ''Give this Tactic a name.'' View_Details None @
      issue_if (\<not> tactic_key_pattern (draft_key draft)) ''tactic:key''
        ''The generated Tactic key needs a valid name.'' View_Details None @
      issue_if (\<not> distinct (localIdentities (draft_body draft))) ''tactic:identities''
        ''Step and reused-Tactic keys must be unique.'' View_Node None @
      concat (map (node_issues draft tactics) (all_entries (draft_body draft))) @
      concat (map input_port_issues (List.enumerate 0 (ti_inputs interface))) @
      concat (map (output_port_issues draft tactics) (List.enumerate 0 (ti_outputs interface))) @
      issue_if (\<not> distinct (map ip_key (ti_inputs interface) @ map op_key (ti_outputs interface)))
        ''interface:keys'' ''Tactic interface port keys must be unique.'' View_Interface None)"

definition draftValidationIssues :: "tactic_draft \<Rightarrow> tactic_definition list \<Rightarrow> draft_issue list" where
  "draftValidationIssues draft tactics = foldl add_issue [] (draft_problems draft tactics)"

definition localDraftIssues :: "tactic_draft \<Rightarrow> string list" where
  "localDraftIssues draft = map issue_message (draftValidationIssues draft [])"

section \<open>References a removal breaks\<close>

definition remaining_references ::
  "string list \<Rightarrow> tactic_node \<Rightarrow> string list" where
  "remaining_references removed node =
     (case node of
        Step s \<Rightarrow> concat (map (\<lambda>i. case in_source i of
            None \<Rightarrow> []
          | Some r \<Rightarrow> if ref_producer r \<in> set removed
              then [step_name s @ '' -> '' @ artifactTypeLabel (in_kind i)] else []) (step_consumes s))
      | Use u \<Rightarrow> concat (map (\<lambda>b. if ref_producer (bind_source b) \<in> set removed
            then [displayNodeName node [] @ '' -> '' @ bind_input b] else []) (use_input_bindings u))
      | Until check condition otherwise limit \<Rightarrow>
          if ref_producer (cond_source condition) \<in> set removed then [''Repeat until condition''] else []
      | _ \<Rightarrow> [])"

definition removed_gates :: "tactic_node \<Rightarrow> string list" where
  "removed_gates node = concat (map (\<lambda>s. concat (map (\<lambda>out. case out_review out of
       None \<Rightarrow> [] | Some review \<Rightarrow> [review_gate_key review]) (step_produces s))) (steps node))"

text \<open>\<^verbatim>\<open>[...new Set(references)]\<close> keeps the first of equal texts.\<close>

definition referencedOutputsForRemoval :: "tactic_draft \<Rightarrow> node_path \<Rightarrow> string list" where
  "referencedOutputsForRemoval draft path =
     (case nodeAt (draft_body draft) path of
        None \<Rightarrow> []
      | Some selected \<Rightarrow>
          let removed = localIdentities selected; gates = removed_gates selected;
              kept = filter (\<lambda>e. \<not> prefix path (entry_path e)) (all_entries (draft_body draft)) in
          rev (remdups (rev (
            concat (map (\<lambda>e. remaining_references removed (entry_node e)) kept) @
            concat (map (\<lambda>port. case op_source port of
                From_Binding r \<Rightarrow>
                  if ref_producer r \<in> set removed then [''Tactic output -> '' @ op_label port] else []
              | From_Accepted_Subject gate \<Rightarrow>
                  if gate \<in> set gates then [''Tactic output -> '' @ op_label port] else [])
              (ti_outputs (draft_interface draft)))))))"

section \<open>Usage\<close>

text \<open>The sources of the Quests: \<open>Some id\<close> when a Quest uses the definition with that id.\<close>

definition usageFor :: "string \<Rightarrow> tactic_definition list \<Rightarrow> string option list \<Rightarrow> nat \<times> nat" where
  "usageFor tacticId tactics questSources =
     (length (filter (\<lambda>source. source = Some tacticId) questSources),
      length (filter (\<lambda>t. tac_id t \<noteq> tacticId \<and>
        list_ex (\<lambda>u. use_tactic_definition_id u = tacticId) (uses (tac_body t))) tactics))"

end
