(* ===== verification/Tactic_Validity.thy ===== *)
theory Tactic_Validity
  imports Tactic_References Tactic_Validation
begin

text \<open>
  What the validation of a draft decides: the contract \<open>draft_ok\<close> states, part by part, when a draft has
  no issue, and the issues of a draft that has some lead to nodes that exist.
\<close>

section \<open>The contract of a draft\<close>

definition input_ok :: "tactic_draft \<Rightarrow> tactic_definition list \<Rightarrow> node_path \<Rightarrow> artifact_input \<Rightarrow> bool" where
  "input_ok draft tactics path i \<longleftrightarrow>
     trim (in_name i) \<noteq> [] \<and> trim (in_kind i) \<noteq> [] \<and>
     (case in_source i of
        None \<Rightarrow> length (artifactSourcesFor draft tactics path (in_kind i)) \<le> 1
      | Some r \<Rightarrow> validReference draft tactics r \<and>
          artifactKindForRef draft tactics r \<in> {None, Some [], Some (in_kind i)})"

definition review_ok :: "step_node \<Rightarrow> artifact_output \<Rightarrow> bool" where
  "review_ok s out \<longleftrightarrow>
     (if out_kind out = ''review_verdict''
      then \<exists>review subject. out_review out = Some review \<and>
        consumed_input s (review_subject_input review) = Some subject \<and> review_gate_key review \<noteq> [] \<and>
        (in_kind subject, review_gate_key review) \<notin>
          {(''quest_plan'', ''implementation_acceptance''), (''change_set'', ''plan_acceptance'')}
      else out_review out = None)"

definition step_ok :: "tactic_draft \<Rightarrow> tactic_definition list \<Rightarrow> node_path \<Rightarrow> step_node \<Rightarrow> bool" where
  "step_ok draft tactics path s \<longleftrightarrow>
     tactic_key_pattern (step_key s) \<and> trim (step_name s) \<noteq> [] \<and> trim (step_instruction s) \<noteq> [] \<and>
     step_performer_value s \<noteq> [] \<and> distinct (map in_name (step_consumes s)) \<and>
     (\<forall>i \<in> set (step_consumes s). input_ok draft tactics path i) \<and>
     (\<forall>out \<in> set (step_produces s). trim (out_name out) \<noteq> [] \<and> trim (out_kind out) \<noteq> [] \<and> review_ok s out)"

text \<open>The verdict a loop waits for says what was reviewed.\<close>

definition verdict_reviewed :: "tactic_node \<Rightarrow> artifact_ref \<Rightarrow> bool" where
  "verdict_reviewed check reference \<longleftrightarrow>
     (\<exists>s out. List.find (has_verdict reference) (steps check) = Some s \<and>
       List.find (\<lambda>out. out_name out = ref_output reference) (step_produces s) = Some out \<and>
       out_review out \<noteq> None)"

fun node_ok :: "tactic_draft \<Rightarrow> tactic_definition list \<Rightarrow> node_path \<Rightarrow> tactic_node \<Rightarrow> bool" where
  "node_ok draft tactics path (Step s) = step_ok draft tactics path s"
| "node_ok draft tactics path (Sequence children) = (children \<noteq> [])"
| "node_ok draft tactics path (Parallel children) = (children \<noteq> [])"
| "node_ok draft tactics path (Until check condition otherwise limit) =
     ((\<exists>n \<ge> 1. limit = Some n) \<and> validReference draft tactics (cond_source condition) \<and>
      (artifactKindForRef draft tactics (cond_source condition) = Some ''review_verdict'' \<longrightarrow>
        verdict_reviewed check (cond_source condition)))"
| "node_ok draft tactics path (Use u) =
     (\<forall>b \<in> set (use_input_bindings u). validReference draft tactics (bind_source b))"

definition output_port_ok :: "tactic_draft \<Rightarrow> tactic_definition list \<Rightarrow> output_port \<Rightarrow> bool" where
  "output_port_ok draft tactics port \<longleftrightarrow>
     trim (op_key port) \<noteq> [] \<and> trim (op_label port) \<noteq> [] \<and> trim (op_kind port) \<noteq> [] \<and>
     (case op_source port of
        From_Binding r \<Rightarrow> validReference draft tactics r \<and>
          artifactKindForRef draft tactics r \<in> {None, Some [], Some (op_kind port)}
      | From_Accepted_Subject gate \<Rightarrow> (gate, op_kind port) \<in> set (gate_kinds (draft_body draft)))"

definition draft_ok :: "tactic_draft \<Rightarrow> tactic_definition list \<Rightarrow> bool" where
  "draft_ok draft tactics \<longleftrightarrow>
     trim (draft_name draft) \<noteq> [] \<and> tactic_key_pattern (draft_key draft) \<and>
     distinct (localIdentities (draft_body draft)) \<and>
     (\<forall>path node. nodeAt (draft_body draft) path = Some node \<longrightarrow> node_ok draft tactics path node) \<and>
     (\<forall>port \<in> set (ti_inputs (draft_interface draft)).
        trim (ip_key port) \<noteq> [] \<and> trim (ip_label port) \<noteq> [] \<and> trim (ip_kind port) \<noteq> []) \<and>
     (\<forall>port \<in> set (ti_outputs (draft_interface draft)). output_port_ok draft tactics port) \<and>
     distinct (map ip_key (ti_inputs (draft_interface draft)) @ map op_key (ti_outputs (draft_interface draft)))"

section \<open>Collecting issues\<close>

lemma issue_if_Nil [simp]: "issue_if b i m v p = [] \<longleftrightarrow> \<not> b"
  by (simp add: issue_if_def)

lemma add_issues_ids:
  "distinct (map issue_id issues) \<Longrightarrow> distinct (map issue_id (foldl add_issue issues problems)) \<and>
   set (map issue_id (foldl add_issue issues problems)) = set (map issue_id issues) \<union> set (map issue_id problems)"
proof (induction problems arbitrary: issues)
  case (Cons p problems)
  then have "distinct (map issue_id (add_issue issues p))" by (simp add: add_issue_def)
  from Cons.IH [OF this] show ?case by (auto simp: add_issue_def)
qed simp

lemma add_issues_subset: "set (foldl add_issue issues problems) \<subseteq> set issues \<union> set problems"
proof (induction problems arbitrary: issues)
  case (Cons p problems)
  from Cons.IH [of "add_issue issues p"] show ?case by (auto simp: add_issue_def split: if_splits)
qed simp

lemma no_issues_iff: "draftValidationIssues draft tactics = [] \<longleftrightarrow> draft_problems draft tactics = []"
  using add_issues_ids [of "[]" "draft_problems draft tactics"] by (auto simp: draftValidationIssues_def)

lemma enumerate_all: "(\<forall>p \<in> set (List.enumerate n xs). P (snd p)) \<longleftrightarrow> (\<forall>x \<in> set xs. P x)"
  by (induction xs arbitrary: n) simp_all

lemma concat_enumerate_Nil:
  assumes "\<And>index x. f (index, x) = [] \<longleftrightarrow> P x"
  shows "concat (map f (List.enumerate n xs)) = [] \<longleftrightarrow> (\<forall>x \<in> set xs. P x)"
  using enumerate_all [of n xs P] assms by (force simp: concat_eq_Nil_conv)

section \<open>No issue of a part, exactly when the part is right\<close>

lemma mismatch_iff: "\<not> kind_mismatch kind k \<longleftrightarrow> kind = [] \<or> k \<in> {None, Some [], Some kind}"
  by (cases k) (auto simp: kind_mismatch_def)

lemma input_issues_iff: "input_issues draft tactics s path (index, i) = [] \<longleftrightarrow> input_ok draft tactics path i"
  by (auto simp: input_issues_def Let_def input_ok_def mismatch_iff trim_def not_less split: option.splits)

lemma review_issues_iff: "review_issues s stem path out = [] \<longleftrightarrow> review_ok s out"
  by (cases "out_review out")
    (auto simp: review_issues_def Let_def review_ok_def)

lemma output_issues_iff:
  "output_issues s path (index, out) = [] \<longleftrightarrow>
     trim (out_name out) \<noteq> [] \<and> trim (out_kind out) \<noteq> [] \<and> review_ok s out"
  by (simp add: output_issues_def Let_def review_issues_iff)

lemma all_issues_iff:
  "concat (map (input_issues draft tactics s path) (List.enumerate n is)) = [] \<longleftrightarrow>
     (\<forall>i \<in> set is. input_ok draft tactics path i)"
  "concat (map (output_issues s path) (List.enumerate n outs)) = [] \<longleftrightarrow>
     (\<forall>out \<in> set outs. trim (out_name out) \<noteq> [] \<and> trim (out_kind out) \<noteq> [] \<and> review_ok s out)"
  by (rule concat_enumerate_Nil, rule input_issues_iff output_issues_iff)+

lemma step_issues_iff: "step_issues draft tactics s path = [] \<longleftrightarrow> step_ok draft tactics path s"
  unfolding step_issues_def Let_def step_ok_def append_is_Nil_conv issue_if_Nil all_issues_iff
  by blast

lemma review_step_entry_steps:
  "map_option fst (review_step_entry check path r) = List.find (has_verdict r) (steps check)"
proof -
  have find_fst: "map_option fst (List.find (\<lambda>(s, _). P s) ps) = List.find P (map fst ps)" for P and ps :: "('a \<times> 'b) list"
    by (induction ps) auto
  have a: "map fst (concat (map (\<lambda>e. case entry_node e of Step s \<Rightarrow> [(s, entry_path e)] | _ \<Rightarrow> []) es)) =
      concat (map (\<lambda>e. case entry_node e of Step s \<Rightarrow> [s] | _ \<Rightarrow> []) es)" for es
    by (induction es) (auto split: tactic_node.splits)
  have b: "concat (map (\<lambda>e. case entry_node e of Step s \<Rightarrow> [s] | _ \<Rightarrow> []) (entries check p d b)) = steps check" for p d b
    unfolding listing_leaves(1) entries_leaves [of check p d b, symmetric]
    by (rule concat_own_leaf; simp split: tactic_node.split)
  show ?thesis unfolding review_step_entry_def find_fst a b ..
qed

lemma until_issues_iff:
  "until_issues draft tactics check condition limit path = [] \<longleftrightarrow>
     node_ok draft tactics path (Until check condition otherwise limit)"
proof -
  let ?source = "cond_source condition"
  have "Option.bind (Option.bind (review_step_entry check path ?source)
      (\<lambda>(s, _). List.find (\<lambda>out. out_name out = ref_output ?source) (step_produces s))) out_review \<noteq> None \<longleftrightarrow>
      verdict_reviewed check ?source"
    unfolding verdict_reviewed_def review_step_entry_steps [of _ path, symmetric]
    by (cases "review_step_entry check path ?source") (auto simp: bind_eq_None_conv split: prod.splits)
  then show ?thesis
    by (auto simp: until_issues_def Let_def not_less split: option.splits)
qed

lemma use_issues_iff: "use_issues draft tactics u path = [] \<longleftrightarrow> node_ok draft tactics path (Use u)"
  unfolding use_issues_def node_ok.simps by (rule concat_enumerate_Nil) simp

lemma node_issues_iff: "node_issues draft tactics e = [] \<longleftrightarrow> node_ok draft tactics (entry_path e) (entry_node e)"
proof (cases "entry_node e")
  case (Until check condition otherwise limit)
  then show ?thesis using until_issues_iff by (simp add: node_issues_def Let_def del: node_ok.simps)
qed (simp_all add: node_issues_def Let_def step_issues_iff use_issues_iff del: node_ok.simps(5))

lemma output_port_issues_iff: "output_port_issues draft tactics (index, port) = [] \<longleftrightarrow> output_port_ok draft tactics port"
  by (auto simp: output_port_issues_def Let_def output_port_ok_def mismatch_iff trim_def split: port_source.splits)

lemma input_port_issues_iff:
  "input_port_issues (index, port) = [] \<longleftrightarrow>
     trim (ip_key port) \<noteq> [] \<and> trim (ip_label port) \<noteq> [] \<and> trim (ip_kind port) \<noteq> []"
  by (simp add: input_port_issues_def)

lemma all_port_issues_iff:
  "concat (map input_port_issues (List.enumerate n ins)) = [] \<longleftrightarrow>
     (\<forall>port \<in> set ins. trim (ip_key port) \<noteq> [] \<and> trim (ip_label port) \<noteq> [] \<and> trim (ip_kind port) \<noteq> [])"
  "concat (map (output_port_issues draft tactics) (List.enumerate n outs)) = [] \<longleftrightarrow>
     (\<forall>port \<in> set outs. output_port_ok draft tactics port)"
  by (rule concat_enumerate_Nil, rule input_port_issues_iff output_port_issues_iff)+

lemma draft_problems_iff: "draft_problems draft tactics = [] \<longleftrightarrow> draft_ok draft tactics"
proof -
  have "concat (map (node_issues draft tactics) (all_entries (draft_body draft))) = [] \<longleftrightarrow>
      (\<forall>path node. nodeAt (draft_body draft) path = Some node \<longrightarrow> node_ok draft tactics path node)"
    unfolding concat_eq_Nil_conv by (force simp: node_issues_iff entries_iff entry_at_def)
  then show ?thesis
    unfolding draft_problems_def Let_def draft_ok_def append_is_Nil_conv issue_if_Nil all_port_issues_iff
    by blast
qed

section \<open>Issues lead to nodes\<close>

text \<open>An issue of the node view has the path of a node of the body, except that of equal keys.\<close>

definition leads_to_node :: "tactic_node \<Rightarrow> draft_issue \<Rightarrow> bool" where
  "leads_to_node body issue \<longleftrightarrow>
     (case issue_path issue of
        None \<Rightarrow> issue_view issue = View_Node \<longrightarrow> issue_id issue = ''tactic:identities''
      | Some path \<Rightarrow> issue_view issue = View_Node \<and> nodeAt body path \<noteq> None)"

lemma issue_if_mem: "x \<in> set (issue_if b i m v p) \<longleftrightarrow>
    b \<and> x = \<lparr>issue_id = i, issue_message = m, issue_view = v, issue_path = p\<rparr>"
  by (auto simp: issue_if_def)

lemma review_step_exists:
  assumes "nodeAt body path = Some (Until check condition otherwise limit)"
    and "review_step_entry check path r = Some (s, p)"
  shows "nodeAt body p = Some (Step s)"
proof -
  from assms(2) obtain e where e: "e \<in> set (entries check (path @ [At_Check]) 0 Branch_Check)"
    "entry_node e = Step s" "entry_path e = p"
    by (auto simp: review_step_entry_def find_Some_iff in_set_conv_nth [symmetric] split: tactic_node.splits
        dest!: nth_mem)
  then obtain q where "p = (path @ [At_Check]) @ q" "nodeAt check q = Some (Step s)"
    by (auto simp: entries_iff entry_at_def)
  with assms(1) show ?thesis by (simp add: nodeAt_append)
qed

lemma node_issues_lead:
  assumes "nodeAt body path = Some node" and "entry_path e = path" and "entry_node e = node"
    and "x \<in> set (node_issues draft tactics e)"
  shows "issue_view x = View_Node \<and> (\<exists>p. issue_path x = Some p \<and> nodeAt body p \<noteq> None)"
proof (cases node)
  case (Step s)
  with assms show ?thesis
    by (auto simp: node_issues_def step_issues_def input_issues_def output_issues_def review_issues_def Let_def
        issue_if_mem split: if_splits)
next
  case (Until check condition otherwise limit)
  with assms show ?thesis
    by (auto simp: node_issues_def until_issues_def Let_def issue_if_mem review_step_exists
        split: if_splits option.splits)
next
  case (Use u)
  with assms show ?thesis by (auto simp: node_issues_def use_issues_def issue_if_mem)
qed (use assms in \<open>auto simp: node_issues_def issue_if_mem\<close>)

lemma port_issues_lead:
  "x \<in> set (input_port_issues ip) \<Longrightarrow> leads_to_node body x"
  "x \<in> set (output_port_issues draft tactics op) \<Longrightarrow> leads_to_node body x"
  by (cases ip; auto simp: input_port_issues_def issue_if_mem leads_to_node_def)
    (cases op; auto simp: output_port_issues_def Let_def issue_if_mem leads_to_node_def split: port_source.splits)

lemma draft_problems_lead:
  assumes "x \<in> set (draft_problems draft tactics)"
  shows "leads_to_node (draft_body draft) x"
proof (cases "\<exists>e \<in> set (all_entries (draft_body draft)). x \<in> set (node_issues draft tactics e)")
  case True
  then obtain e where e: "e \<in> set (all_entries (draft_body draft))" "x \<in> set (node_issues draft tactics e)" by blast
  from e(1) have "nodeAt (draft_body draft) (entry_path e) = Some (entry_node e)"
    by (auto simp: entries_iff entry_at_def)
  from node_issues_lead [OF this refl refl e(2)] show ?thesis by (auto simp: leads_to_node_def)
next
  case False
  with assms show ?thesis
    unfolding draft_problems_def Let_def
    by (auto simp: issue_if_mem leads_to_node_def dest: port_issues_lead [where body = "draft_body draft"])
qed

text \<open>
  C17: a draft has no issues exactly when it meets the contract of a draft in all its parts. The issues
  have distinct ids, each stands for a problem found, none of the problems is lost, and an issue that
  names a node has the path of a node that exists in the body.
\<close>

theorem draft_issues_complete:
  "(draftValidationIssues draft tactics = [] \<longleftrightarrow> draft_ok draft tactics)
    \<and> distinct (map issue_id (draftValidationIssues draft tactics))
    \<and> set (draftValidationIssues draft tactics) \<subseteq> set (draft_problems draft tactics)
    \<and> issue_id ` set (draftValidationIssues draft tactics) = issue_id ` set (draft_problems draft tactics)
    \<and> list_all (leads_to_node (draft_body draft)) (draftValidationIssues draft tactics)"
proof -
  have subset: "set (draftValidationIssues draft tactics) \<subseteq> set (draft_problems draft tactics)"
    using add_issues_subset [of "[]" "draft_problems draft tactics"] by (simp add: draftValidationIssues_def)
  then have "list_all (leads_to_node (draft_body draft)) (draftValidationIssues draft tactics)"
    using draft_problems_lead by (auto simp: list_all_iff)
  with subset show ?thesis
    using add_issues_ids [of "[]" "draft_problems draft tactics"] no_issues_iff draft_problems_iff
    by (simp add: draftValidationIssues_def)
qed

end
