(* ===== verification/Prompt_Fence.thy ===== *)
theory Prompt_Fence
  imports Json
begin

text \<open>
  The fence before input is typed into a managed pane (\<^verbatim>\<open>session-host/prompt-input-fence.ts\<close> and
  \<^verbatim>\<open>session-host/pane-process-identity.ts\<close>): the authority a Worker holds is checked for itself and then
  against a fresh observation of the backend, the agent and its process.

  A value that the code compares is a JSON scalar; \<open>None\<close> is \<^verbatim>\<open>undefined\<close>. \<open>digest\<close> is the hexadecimal
  SHA-256, \<open>decode\<close> the UTF-8 decoder, and \<open>date\<close> is \<^verbatim>\<open>Date.parse\<close> with \<open>None\<close> for NaN; the fields typed
  as numbers are integers.
\<close>

section \<open>Identities\<close>

record hosted_process =
  hp_pid :: int
  hp_name :: string
  hp_argv0 :: "string option"
  hp_argv :: "string list option"
  hp_cmdline :: "string option"
  hp_cwd :: "string option"

record pane_process_info =
  pp_paneId :: string
  pp_shellPid :: "int option"
  pp_foregroundProcessGroupId :: "int option"
  pp_tty :: "string option"
  pp_foregroundProcesses :: "hosted_process list"

definition or_null :: "('a \<Rightarrow> json) \<Rightarrow> 'a option \<Rightarrow> json" where
  "or_null f v = (case v of None \<Rightarrow> JNull | Some x \<Rightarrow> f x)"

definition process_value :: "hosted_process \<Rightarrow> json" where
  "process_value p = JObj [(''pid'', JNum (hp_pid p)), (''name'', JStr (hp_name p)),
     (''argv0'', or_null JStr (hp_argv0 p)), (''argv'', or_null (\<lambda>xs. JArr (map JStr xs)) (hp_argv p)),
     (''cmdline'', or_null JStr (hp_cmdline p)), (''cwd'', or_null JStr (hp_cwd p))]"

definition process_le :: "hosted_process \<Rightarrow> hosted_process \<Rightarrow> bool" where
  "process_le p q \<longleftrightarrow> hp_pid p < hp_pid q \<or> hp_pid p = hp_pid q \<and> locale_le (hp_name p) (hp_name q)"

definition pane_process_value :: "pane_process_info \<Rightarrow> json" where
  "pane_process_value process = JObj [
     (''paneId'', JStr (pp_paneId process)),
     (''shellPid'', or_null JNum (pp_shellPid process)),
     (''foregroundProcessGroupId'', or_null JNum (pp_foregroundProcessGroupId process)),
     (''tty'', or_null JStr (pp_tty process)),
     (''foregroundProcesses'', JArr (map process_value (sort_by process_le (pp_foregroundProcesses process))))]"

definition paneProcessIdentityDigest :: "(string \<Rightarrow> string) \<Rightarrow> pane_process_info \<Rightarrow> string" where
  "paneProcessIdentityDigest digest process = digest (stringify (pane_process_value process))"

definition environmentIdentityDigest :: "(string \<Rightarrow> string) \<Rightarrow> string \<Rightarrow> string \<Rightarrow> string" where
  "environmentIdentityDigest digest environmentId environmentIncarnation =
     digest (environmentId @ [CHR 0x00] @ environmentIncarnation)"

definition utf8_bytes :: "string \<Rightarrow> string" where
  "utf8_bytes s = concat (map (\<lambda>c. let n = (of_char c :: nat) in
     if n < 128 then [c] else [char_of (0xC0 + n div 64), char_of (0x80 + n mod 64)]) s)"

definition HERDR_METADATA_TOKEN_VALUE_BYTES :: nat where
  "HERDR_METADATA_TOKEN_VALUE_BYTES = 80"

definition boundedHerdrMetadataToken :: "(string \<Rightarrow> string) \<Rightarrow> string \<Rightarrow> string" where
  "boundedHerdrMetadataToken decode value =
     (let bytes = utf8_bytes value in
      if length bytes \<le> HERDR_METADATA_TOKEN_VALUE_BYTES then value
      else decode (take HERDR_METADATA_TOKEN_VALUE_BYTES bytes))"

section \<open>Authority and observation\<close>

record prompt_authority =
  pa_physicalLineageId :: string
  pa_environmentId :: string
  pa_environmentIncarnation :: string
  pa_sessionName :: string
  pa_sessionIncarnation :: string
  pa_workspaceId :: string
  pa_tabId :: string
  pa_paneId :: string
  pa_terminalId :: string
  pa_agentName :: string
  pa_agentIntegrationKind :: string
  pa_paneShellPid :: int
  pa_paneForegroundProcessGroupId :: int
  pa_paneProcessIdentityDigest :: string
  pa_workerId :: string
  pa_questLaunchId :: string
  pa_runId :: string
  pa_actionId :: string
  pa_occurrenceId :: string
  pa_attemptId :: string
  pa_herdrEndpointGeneration :: int
  pa_herdrServerGeneration :: string
  pa_ownershipToken :: string
  pa_resultNonce :: string
  pa_promptAuthorizedAt :: string
  pa_promptIntentAt :: string

record hosted_agent =
  ha_name :: "string option"
  ha_agent :: string
  ha_status :: string
  ha_paneId :: string
  ha_terminalId :: "string option"
  ha_workspaceId :: string
  ha_tabId :: "string option"
  ha_interactiveReady :: "bool option"
  ha_launchPending :: "bool option"
  ha_nativeMaterialized :: "bool option"
  ha_tokens :: "(string \<times> string) list"

record backend_readiness =
  br_ready :: bool
  br_capabilities :: "string list"
  br_endpointGeneration :: "int option"
  br_serverGeneration :: "string option"
  br_sessionIncarnation :: "string option"

record fence_observation =
  fo_sessionName :: string
  fo_sessionIncarnation :: "string option"
  fo_readiness :: backend_readiness
  fo_agentLookupTarget :: string
  fo_agent :: hosted_agent
  fo_process :: pane_process_info

section \<open>Checks\<close>

datatype fence_classification =
    Immutable_Physical_Identity | Generation_Fenced_Authority | Expected_Dynamic_State | Derived_Identity

record fence_check =
  fc_field :: string
  fc_classification :: fence_classification
  fc_expectedPresent :: bool
  fc_currentPresent :: bool
  fc_equal :: bool
  fc_expectedProvenance :: string
  fc_currentProvenance :: string

record fence_result =
  fr_ok :: bool
  fr_checks :: "fence_check list"
  fr_mismatches :: "fence_check list"
  fr_mismatchFields :: "string list"

definition present :: "json option \<Rightarrow> bool" where
  "present value \<longleftrightarrow> value \<noteq> None \<and> value \<noteq> Some JNull \<and> value \<noteq> Some (JStr [])"

definition check ::
  "string \<Rightarrow> fence_classification \<Rightarrow> json option \<Rightarrow> json option \<Rightarrow> bool \<Rightarrow> string \<Rightarrow> string \<Rightarrow> fence_check" where
  "check field classification expected current equal expectedProvenance currentProvenance =
     \<lparr>fc_field = field, fc_classification = classification, fc_expectedPresent = present expected,
       fc_currentPresent = present current, fc_equal = equal,
       fc_expectedProvenance = expectedProvenance, fc_currentProvenance = currentProvenance\<rparr>"

definition compare_values ::
  "string \<Rightarrow> fence_classification \<Rightarrow> json option \<Rightarrow> json option \<Rightarrow> string \<Rightarrow> string \<Rightarrow> fence_check" where
  "compare_values field classification expected current expectedProvenance currentProvenance =
     check field classification expected current (expected = current) expectedProvenance currentProvenance"

definition fence_result_of :: "fence_check list \<Rightarrow> fence_result" where
  "fence_result_of checks =
     (let mismatches = filter (\<lambda>c. \<not> fc_equal c) checks in
      \<lparr>fr_ok = (mismatches = []), fr_checks = checks, fr_mismatches = mismatches,
        fr_mismatchFields = rev (remdups (rev (map fc_field mismatches)))\<rparr>)"

definition authorityField :: "string \<Rightarrow> string" where
  "authorityField field =
     concat (map (\<lambda>c. if is_upper c then [CHR ''_'', to_lower c] else [c]) field)"

section \<open>The authority by itself\<close>

definition required_fields :: "prompt_authority \<Rightarrow> (string \<times> fence_classification \<times> string) list" where
  "required_fields a = [
     (''workerId'', Generation_Fenced_Authority, pa_workerId a),
     (''questLaunchId'', Generation_Fenced_Authority, pa_questLaunchId a),
     (''runId'', Generation_Fenced_Authority, pa_runId a),
     (''actionId'', Generation_Fenced_Authority, pa_actionId a),
     (''occurrenceId'', Generation_Fenced_Authority, pa_occurrenceId a),
     (''attemptId'', Generation_Fenced_Authority, pa_attemptId a),
     (''physicalLineageId'', Immutable_Physical_Identity, pa_physicalLineageId a),
     (''environmentId'', Immutable_Physical_Identity, pa_environmentId a),
     (''environmentIncarnation'', Immutable_Physical_Identity, pa_environmentIncarnation a),
     (''herdrServerGeneration'', Generation_Fenced_Authority, pa_herdrServerGeneration a),
     (''sessionName'', Immutable_Physical_Identity, pa_sessionName a),
     (''sessionIncarnation'', Immutable_Physical_Identity, pa_sessionIncarnation a),
     (''workspaceId'', Immutable_Physical_Identity, pa_workspaceId a),
     (''tabId'', Immutable_Physical_Identity, pa_tabId a),
     (''paneId'', Immutable_Physical_Identity, pa_paneId a),
     (''terminalId'', Immutable_Physical_Identity, pa_terminalId a),
     (''agentName'', Immutable_Physical_Identity, pa_agentName a),
     (''agentIntegrationKind'', Immutable_Physical_Identity, pa_agentIntegrationKind a),
     (''paneProcessIdentityDigest'', Derived_Identity, pa_paneProcessIdentityDigest a),
     (''ownershipToken'', Generation_Fenced_Authority, pa_ownershipToken a),
     (''resultNonce'', Generation_Fenced_Authority, pa_resultNonce a),
     (''promptAuthorizedAt'', Generation_Fenced_Authority, pa_promptAuthorizedAt a),
     (''promptIntentAt'', Generation_Fenced_Authority, pa_promptIntentAt a)]"

definition positive_safe :: "int \<Rightarrow> bool" where
  "positive_safe v \<longleftrightarrow> 1 \<le> v \<and> v < 2 ^ 53"

definition number_fields :: "prompt_authority \<Rightarrow> (string \<times> fence_classification \<times> int) list" where
  "number_fields a = [
     (''herdr_endpoint_generation'', Generation_Fenced_Authority, pa_herdrEndpointGeneration a),
     (''pane_shell_pid'', Immutable_Physical_Identity, pa_paneShellPid a),
     (''pane_foreground_process_group_id'', Immutable_Physical_Identity, pa_paneForegroundProcessGroupId a)]"

text \<open>A number, also NaN, is present; its value does not reach a check.\<close>

definition time_value :: "int option \<Rightarrow> json option" where
  "time_value t = Some (JNum (case t of None \<Rightarrow> 0 | Some n \<Rightarrow> n))"

definition authority_checks :: "(string \<Rightarrow> int option) \<Rightarrow> prompt_authority \<Rightarrow> fence_check list" where
  "authority_checks date a =
     (let authorizedAt = date (pa_promptAuthorizedAt a); intentAt = date (pa_promptIntentAt a) in
      map (\<lambda>(field, classification, value). check (authorityField field) classification
          (Some (JStr ''non-empty'')) (Some (JStr value)) (value \<noteq> [])
          ''prompt authority contract'' ''Worker prompt authority'') (required_fields a) @
      [check ''agent_integration_contract'' Immutable_Physical_Identity (Some (JStr ''agy''))
         (Some (JStr (pa_agentIntegrationKind a))) (pa_agentIntegrationKind a = ''agy'')
         ''Antigravity prompt-input contract'' ''Worker prompt authority''] @
      map (\<lambda>(field, classification, value). check field classification (Some (JNum 1)) (Some (JNum value))
          (positive_safe value) ''prompt authority contract'' ''Worker prompt authority'') (number_fields a) @
      [check ''prompt_authorization_timestamp'' Generation_Fenced_Authority (Some (JStr ''valid timestamp''))
         (Some (JStr (pa_promptAuthorizedAt a))) (authorizedAt \<noteq> None)
         ''Product authorization contract'' ''Product prompt authorization'',
       check ''prompt_intent_timestamp'' Generation_Fenced_Authority (Some (JStr ''valid timestamp''))
         (Some (JStr (pa_promptIntentAt a))) (intentAt \<noteq> None)
         ''Product prompt-intent contract'' ''durable Product prompt intent'',
       check ''prompt_intent_after_authorization'' Generation_Fenced_Authority
         (time_value authorizedAt) (time_value intentAt)
         (case (authorizedAt, intentAt) of (Some t, Some u) \<Rightarrow> t \<le> u | _ \<Rightarrow> False)
         ''Product authorization ordering'' ''durable Product timestamps''])"

definition validatePromptInputAuthority :: "(string \<Rightarrow> int option) \<Rightarrow> prompt_authority \<Rightarrow> fence_result" where
  "validatePromptInputAuthority date a = fence_result_of (authority_checks date a)"

section \<open>The authority against the observation\<close>

abbreviation text_value :: "string \<Rightarrow> json option" where
  "text_value s \<equiv> Some (JStr s)"

abbreviation optional :: "('a \<Rightarrow> json) \<Rightarrow> 'a option \<Rightarrow> json option" where
  "optional \<equiv> map_option"

definition required_capabilities :: "string list" where
  "required_capabilities = [''terminal.literal_input'', ''terminal.submit_input'']"

definition dots_to_underscores :: "string \<Rightarrow> string" where
  "dots_to_underscores s = map (\<lambda>c. if c = CHR ''.'' then CHR ''_'' else c) s"

definition backend_checks :: "prompt_authority \<Rightarrow> fence_observation \<Rightarrow> fence_check list" where
  "backend_checks a observation =
     (let readiness = fo_readiness observation in
      [compare_values ''herdr_session_name'' Immutable_Physical_Identity
         (text_value (pa_sessionName a)) (text_value (fo_sessionName observation))
         ''managed-agent physical identity'' ''current Herdr backend'',
       compare_values ''herdr_session_incarnation'' Immutable_Physical_Identity
         (text_value (pa_sessionIncarnation a)) (Some (or_null JStr (fo_sessionIncarnation observation)))
         ''managed-agent physical identity'' ''current Herdr ownership record'',
       check ''herdr_backend_ready'' Generation_Fenced_Authority (Some (JBool True))
         (Some (JBool (br_ready readiness))) (br_ready readiness)
         ''prompt-input capability contract'' ''current Herdr readiness''] @
      map (\<lambda>capability. check (''herdr_capability_'' @ dots_to_underscores capability) Generation_Fenced_Authority
          (text_value capability)
          (if capability \<in> set (br_capabilities readiness) then text_value capability else None)
          (capability \<in> set (br_capabilities readiness))
          ''prompt-input capability contract'' ''current Herdr readiness'') required_capabilities @
      [compare_values ''herdr_endpoint_generation'' Generation_Fenced_Authority
         (Some (JNum (pa_herdrEndpointGeneration a))) (optional JNum (br_endpointGeneration readiness))
         ''prompt authority'' ''current Herdr readiness'',
       compare_values ''herdr_server_generation'' Generation_Fenced_Authority
         (text_value (pa_herdrServerGeneration a)) (optional JStr (br_serverGeneration readiness))
         ''prompt authority'' ''current Herdr readiness'',
       compare_values ''herdr_readiness_session_incarnation'' Generation_Fenced_Authority
         (text_value (pa_sessionIncarnation a)) (optional JStr (br_sessionIncarnation readiness))
         ''prompt authority'' ''current Herdr readiness''])"

definition agent_checks :: "prompt_authority \<Rightarrow> fence_observation \<Rightarrow> fence_check list" where
  "agent_checks a observation =
     (let agent = fo_agent observation in
      [compare_values ''managed_agent_lookup_target'' Immutable_Physical_Identity
         (text_value (pa_agentName a)) (text_value (fo_agentLookupTarget observation))
         ''managed-agent physical identity'' ''Herdr agent.get target'',
       compare_values ''agent_integration_kind'' Immutable_Physical_Identity
         (text_value ''agy'') (text_value (ha_agent agent))
         ''managed-agent physical identity'' ''Herdr native agent projection'',
       check ''agent_reported_name_if_present'' Immutable_Physical_Identity
         (text_value (pa_agentName a)) (optional JStr (ha_name agent))
         (ha_name agent = None \<or> ha_name agent = Some (pa_agentName a))
         ''managed-agent physical identity'' ''optional Herdr presentation projection'',
       check ''agent_status_idle'' Expected_Dynamic_State (text_value ''idle'') (text_value (ha_status agent))
         (ha_status agent = ''idle'') ''pre-input lifecycle'' ''current Herdr agent state'',
       check ''agent_interactive_ready'' Expected_Dynamic_State (Some (JBool True))
         (optional JBool (ha_interactiveReady agent)) (ha_interactiveReady agent = Some True)
         ''materialized launch contract'' ''current Herdr dynamic projection'',
       check ''agent_launch_not_pending'' Expected_Dynamic_State (Some (JBool False))
         (optional JBool (ha_launchPending agent)) (ha_launchPending agent \<noteq> Some True)
         ''materialized launch contract'' ''optional Herdr dynamic projection'',
       check ''agent_native_materialized'' Expected_Dynamic_State (Some (JBool True))
         (optional JBool (ha_nativeMaterialized agent)) (ha_nativeMaterialized agent = Some True)
         ''native integration contract'' ''Herdr native agent projection'',
       compare_values ''workspace_id'' Immutable_Physical_Identity
         (text_value (pa_workspaceId a)) (text_value (ha_workspaceId agent))
         ''managed-agent physical identity'' ''current Herdr agent topology'',
       compare_values ''tab_id'' Immutable_Physical_Identity
         (text_value (pa_tabId a)) (optional JStr (ha_tabId agent))
         ''managed-agent physical identity'' ''current Herdr agent topology'',
       compare_values ''pane_id'' Immutable_Physical_Identity
         (text_value (pa_paneId a)) (text_value (ha_paneId agent))
         ''managed-agent physical identity'' ''current Herdr agent topology'',
       compare_values ''terminal_id'' Immutable_Physical_Identity
         (text_value (pa_terminalId a)) (optional JStr (ha_terminalId agent))
         ''managed-agent physical identity'' ''current Herdr agent topology''])"

record token_expectation =
  te_field :: string
  te_key :: string
  te_expected :: string
  te_classification :: fence_classification
  te_provenance :: string

definition expected_token ::
  "string \<Rightarrow> string \<Rightarrow> string \<Rightarrow> fence_classification \<Rightarrow> string \<Rightarrow> token_expectation" where
  "expected_token field key expected classification provenance = \<lparr>te_field = field, te_key = key,
     te_expected = expected, te_classification = classification, te_provenance = provenance\<rparr>"

definition expected_tokens ::
  "(string \<Rightarrow> string) \<Rightarrow> (string \<Rightarrow> string) \<Rightarrow> prompt_authority \<Rightarrow> token_expectation list" where
  "expected_tokens digest decode a = [
     expected_token ''owner_marker'' ''qe_owner'' ''quest-engineering-worker/v1'' Generation_Fenced_Authority
       ''Worker ownership protocol'',
     expected_token ''worker_id'' ''qe_worker_id'' (pa_workerId a) Generation_Fenced_Authority ''prompt authority'',
     expected_token ''quest_launch_id'' ''qe_launch_id'' (pa_questLaunchId a) Generation_Fenced_Authority
       ''prompt authority'',
     expected_token ''run_id'' ''qe_run_id'' (pa_runId a) Generation_Fenced_Authority ''prompt authority'',
     expected_token ''physical_lineage_id'' ''qe_lineage_id'' (pa_physicalLineageId a) Immutable_Physical_Identity
       ''managed-agent physical identity'',
     expected_token ''harness_kind'' ''qe_harness_kind'' ''antigravity'' Immutable_Physical_Identity
       ''managed-agent physical identity'',
     expected_token ''agent_name_token'' ''qe_agent_name'' (pa_agentName a) Immutable_Physical_Identity
       ''managed-agent physical identity'',
     expected_token ''ownership_token'' ''qe_ownership_token'' (pa_ownershipToken a) Generation_Fenced_Authority
       ''PhysicalLineage ownership authority'',
     expected_token ''session_incarnation_token'' ''qe_session_incarnation'' (pa_sessionIncarnation a)
       Immutable_Physical_Identity ''managed-agent physical identity'',
     expected_token ''environment_identity_digest'' ''qe_environment_hash''
       (environmentIdentityDigest digest (pa_environmentId a) (pa_environmentIncarnation a)) Derived_Identity
       ''canonical environment identity'',
     expected_token ''active_state'' ''qe_active_state'' ''active'' Generation_Fenced_Authority
       ''current dispatch authority'',
     expected_token ''active_action_id'' ''qe_active_action_id'' (boundedHerdrMetadataToken decode (pa_actionId a))
       Generation_Fenced_Authority ''current dispatch authority bounded by the Herdr metadata protocol'',
     expected_token ''action_identity_digest'' ''qe_action_hash'' (digest (pa_actionId a)) Derived_Identity
       ''current Action identity'',
     expected_token ''occurrence_identity_digest'' ''qe_occurrence_hash'' (digest (pa_occurrenceId a)) Derived_Identity
       ''current StepOccurrence identity'',
     expected_token ''attempt_identity_digest'' ''qe_attempt_hash'' (digest (pa_attemptId a)) Derived_Identity
       ''current Attempt identity'',
     expected_token ''result_nonce'' ''qe_result_nonce'' (pa_resultNonce a) Generation_Fenced_Authority
       ''current dispatch result authority'']"

definition token_checks ::
  "(string \<Rightarrow> string) \<Rightarrow> (string \<Rightarrow> string) \<Rightarrow> prompt_authority \<Rightarrow> (string \<times> string) list \<Rightarrow> fence_check list" where
  "token_checks digest decode a tokens =
     map (\<lambda>t. compare_values (te_field t) (te_classification t) (text_value (te_expected t))
         (optional JStr (map_of tokens (te_key t))) (te_provenance t)
         (''Herdr managed-agent token '' @ te_key t)) (expected_tokens digest decode a)"

definition process_checks ::
  "(string \<Rightarrow> string) \<Rightarrow> prompt_authority \<Rightarrow> pane_process_info \<Rightarrow> fence_check list" where
  "process_checks digest a process = [
     compare_values ''pane_process_pane_id'' Immutable_Physical_Identity
       (text_value (pa_paneId a)) (text_value (pp_paneId process))
       ''managed-agent physical identity'' ''current Herdr process inspection'',
     compare_values ''pane_shell_pid'' Immutable_Physical_Identity
       (Some (JNum (pa_paneShellPid a))) (optional JNum (pp_shellPid process))
       ''preauthorization process observation'' ''current Herdr process inspection'',
     compare_values ''pane_foreground_process_group_id'' Immutable_Physical_Identity
       (Some (JNum (pa_paneForegroundProcessGroupId a))) (optional JNum (pp_foregroundProcessGroupId process))
       ''preauthorization process observation'' ''current Herdr process inspection'',
     compare_values ''pane_process_identity_digest'' Derived_Identity
       (text_value (pa_paneProcessIdentityDigest a)) (text_value (paneProcessIdentityDigest digest process))
       ''canonical preauthorization process observation'' ''canonical current process observation'']"

definition validatePromptInputFence ::
  "(string \<Rightarrow> string) \<Rightarrow> (string \<Rightarrow> string) \<Rightarrow> (string \<Rightarrow> int option) \<Rightarrow> prompt_authority \<Rightarrow>
   fence_observation \<Rightarrow> fence_result" where
  "validatePromptInputFence digest decode date a observation =
     fence_result_of (authority_checks date a @ backend_checks a observation @ agent_checks a observation @
       token_checks digest decode a (ha_tokens (fo_agent observation)) @
       process_checks digest a (fo_process observation))"

section \<open>What a passed fence says\<close>

lemma fence_result_ok: "fr_ok (fence_result_of checks) \<longleftrightarrow> list_all fc_equal checks"
  by (simp add: fence_result_of_def Let_def filter_empty_conv list_all_iff)

lemma check_sel [simp]:
  "fc_equal (check f c e v b p q) = b" "fc_equal (compare_values f c e v p q) = (e = v)"
  by (simp_all add: check_def compare_values_def)

text \<open>The identity a fence pins down, the whole authority but its two times.\<close>

definition same_authority :: "prompt_authority \<Rightarrow> prompt_authority \<Rightarrow> bool" where
  "same_authority a b \<longleftrightarrow>
     a = b\<lparr>pa_promptAuthorizedAt := pa_promptAuthorizedAt a, pa_promptIntentAt := pa_promptIntentAt a\<rparr>"

lemma framed_unique:
  "a @ [x] @ b = a' @ [x] @ b' \<Longrightarrow> x \<notin> set a \<Longrightarrow> x \<notin> set a' \<Longrightarrow> a = a' \<and> b = b'"
proof (induction a arbitrary: a')
  case Nil
  then show ?case by (cases a') auto
next
  case (Cons c cs)
  then show ?case by (cases a') auto
qed

lemma scalar_eq [simp]:
  "Some (JStr x) = map_option JStr y \<longleftrightarrow> y = Some x" "Some (JNum n) = map_option JNum m \<longleftrightarrow> m = Some n"
  "JStr x = or_null JStr y \<longleftrightarrow> y = Some x"
  by (cases y; cases m; auto simp: or_null_def)+

lemma backend_ok: "list_all fc_equal (backend_checks a observation) \<longleftrightarrow>
    fo_sessionName observation = pa_sessionName a \<and>
    fo_sessionIncarnation observation = Some (pa_sessionIncarnation a) \<and>
    br_ready (fo_readiness observation) \<and>
    set required_capabilities \<subseteq> set (br_capabilities (fo_readiness observation)) \<and>
    br_endpointGeneration (fo_readiness observation) = Some (pa_herdrEndpointGeneration a) \<and>
    br_serverGeneration (fo_readiness observation) = Some (pa_herdrServerGeneration a) \<and>
    br_sessionIncarnation (fo_readiness observation) = Some (pa_sessionIncarnation a)"
  by (auto simp: backend_checks_def Let_def required_capabilities_def)

lemma agent_ok: "list_all fc_equal (agent_checks a observation) \<longleftrightarrow>
    (let agent = fo_agent observation in
      fo_agentLookupTarget observation = pa_agentName a \<and> ha_agent agent = ''agy'' \<and>
      ha_name agent \<in> {None, Some (pa_agentName a)} \<and> ha_status agent = ''idle'' \<and>
      ha_interactiveReady agent = Some True \<and> ha_launchPending agent \<noteq> Some True \<and>
      ha_nativeMaterialized agent = Some True \<and> ha_workspaceId agent = pa_workspaceId a \<and>
      ha_tabId agent = Some (pa_tabId a) \<and> ha_paneId agent = pa_paneId a \<and>
      ha_terminalId agent = Some (pa_terminalId a))"
  by (auto simp: agent_checks_def Let_def)

lemma process_ok: "list_all fc_equal (process_checks digest a process) \<longleftrightarrow>
    pp_paneId process = pa_paneId a \<and> pp_shellPid process = Some (pa_paneShellPid a) \<and>
    pp_foregroundProcessGroupId process = Some (pa_paneForegroundProcessGroupId a) \<and>
    paneProcessIdentityDigest digest process = pa_paneProcessIdentityDigest a"
  by (auto simp: process_checks_def)

lemma tokens_ok: "list_all fc_equal (token_checks digest decode a tokens) \<longleftrightarrow>
    (\<forall>t \<in> set (expected_tokens digest decode a). map_of tokens (te_key t) = Some (te_expected t))"
  by (simp add: token_checks_def list_all_iff)

lemma tokens_pinned:
  assumes "list_all fc_equal (token_checks digest decode a tokens)"
  shows "map_of tokens ''qe_worker_id'' = Some (pa_workerId a)"
    "map_of tokens ''qe_launch_id'' = Some (pa_questLaunchId a)"
    "map_of tokens ''qe_run_id'' = Some (pa_runId a)"
    "map_of tokens ''qe_lineage_id'' = Some (pa_physicalLineageId a)"
    "map_of tokens ''qe_ownership_token'' = Some (pa_ownershipToken a)"
    "map_of tokens ''qe_environment_hash'' =
       Some (environmentIdentityDigest digest (pa_environmentId a) (pa_environmentIncarnation a))"
    "map_of tokens ''qe_action_hash'' = Some (digest (pa_actionId a))"
    "map_of tokens ''qe_occurrence_hash'' = Some (digest (pa_occurrenceId a))"
    "map_of tokens ''qe_attempt_hash'' = Some (digest (pa_attemptId a))"
    "map_of tokens ''qe_result_nonce'' = Some (pa_resultNonce a)"
  using assms by (simp_all add: tokens_ok expected_tokens_def expected_token_def)

definition authority_ok :: "(string \<Rightarrow> int option) \<Rightarrow> prompt_authority \<Rightarrow> bool" where
  "authority_ok date a \<longleftrightarrow>
     list_all (\<lambda>(field, classification, value). value \<noteq> []) (required_fields a) \<and>
     pa_agentIntegrationKind a = ''agy'' \<and>
     list_all (\<lambda>(field, classification, value). positive_safe value) (number_fields a) \<and>
     (\<exists>t u. date (pa_promptAuthorizedAt a) = Some t \<and> date (pa_promptIntentAt a) = Some u \<and> t \<le> u)"

lemma authority_checks_ok: "list_all fc_equal (authority_checks date a) \<longleftrightarrow> authority_ok date a"
  by (auto simp: authority_checks_def Let_def authority_ok_def list.pred_map comp_def case_prod_unfold
    split: option.splits)

lemma fence_ok: "fr_ok (validatePromptInputFence digest decode date a observation) \<longleftrightarrow>
    authority_ok date a \<and> list_all fc_equal (backend_checks a observation) \<and>
    list_all fc_equal (agent_checks a observation) \<and>
    list_all fc_equal (token_checks digest decode a (ha_tokens (fo_agent observation))) \<and>
    list_all fc_equal (process_checks digest a (fo_process observation))"
  by (simp add: validatePromptInputFence_def fence_result_ok authority_checks_ok)

text \<open>The texts of an authority that reach the observation as digests only.\<close>

definition digested_texts :: "prompt_authority \<Rightarrow> string list" where
  "digested_texts a = [pa_actionId a, pa_occurrenceId a, pa_attemptId a,
     pa_environmentId a @ [CHR 0x00] @ pa_environmentIncarnation a]"

text \<open>
  C18: a fence that passes for an observation pins the authority down: two authorities that both pass
  agree on everything but the two times, provided that the digest has no collision among the Action,
  occurrence, attempt and environment identities of the two (eight texts) and that their environment ids
  hold no NUL character. The authority is complete, has positive safe process ids, and its prompt intent is
  not before its authorization, and the observed agent is idle and ready to take input.
\<close>

theorem fence_pins_authority:
  assumes a: "fr_ok (validatePromptInputFence digest decode date a observation)"
    and b: "fr_ok (validatePromptInputFence digest decode date b observation)"
    and digest: "inj_on digest (set (digested_texts a @ digested_texts b))"
    and framing: "CHR 0x00 \<notin> set (pa_environmentId a)" "CHR 0x00 \<notin> set (pa_environmentId b)"
  shows "same_authority a b \<and> authority_ok date a \<and>
    ha_status (fo_agent observation) = ''idle'' \<and> ha_interactiveReady (fo_agent observation) = Some True"
proof -
  note a = a [unfolded fence_ok] and b = b [unfolded fence_ok]
  have tokens: "list_all fc_equal (token_checks digest decode a (ha_tokens (fo_agent observation)))"
    "list_all fc_equal (token_checks digest decode b (ha_tokens (fo_agent observation)))"
    using a b by simp_all
  note pinned = tokens_pinned [OF tokens(1)] tokens_pinned [OF tokens(2)]
  have digests: "digest (pa_actionId a) = digest (pa_actionId b)"
    "digest (pa_occurrenceId a) = digest (pa_occurrenceId b)" "digest (pa_attemptId a) = digest (pa_attemptId b)"
    "environmentIdentityDigest digest (pa_environmentId a) (pa_environmentIncarnation a) =
      environmentIdentityDigest digest (pa_environmentId b) (pa_environmentIncarnation b)"
    using pinned by simp_all
  have "pa_environmentId a @ [CHR 0x00] @ pa_environmentIncarnation a =
      pa_environmentId b @ [CHR 0x00] @ pa_environmentIncarnation b"
    by (rule inj_onD [OF digest digests(4) [unfolded environmentIdentityDigest_def]])
      (simp_all add: digested_texts_def)
  then have "pa_environmentId a = pa_environmentId b \<and> pa_environmentIncarnation a = pa_environmentIncarnation b"
    using framing by (rule framed_unique)
  moreover have "pa_actionId a = pa_actionId b" "pa_occurrenceId a = pa_occurrenceId b"
    "pa_attemptId a = pa_attemptId b"
    using digests(1-3) by (auto intro!: inj_onD [OF digest] simp: digested_texts_def)
  moreover have "pa_agentIntegrationKind a = pa_agentIntegrationKind b"
    using a b by (simp add: authority_ok_def)
  moreover have "pa_paneProcessIdentityDigest a = pa_paneProcessIdentityDigest b"
    using a b by (simp add: process_ok)
  ultimately have "same_authority a b"
    using a b pinned unfolding same_authority_def backend_ok agent_ok process_ok Let_def
    by (cases a; cases b) simp
  with a show ?thesis by (simp add: agent_ok Let_def)
qed

section \<open>What a result reveals\<close>

definition check_outcome :: "fence_check \<Rightarrow> bool \<times> bool \<times> bool" where
  "check_outcome c = (fc_expectedPresent c, fc_currentPresent c, fc_equal c)"

definition check_label :: "fence_check \<Rightarrow> string \<times> fence_classification \<times> string \<times> string" where
  "check_label c = (fc_field c, fc_classification c, fc_expectedProvenance c, fc_currentProvenance c)"

lemma check_label_simps [simp]:
  "check_label (check f c e v b p q) = (f, c, p, q)" "check_label (compare_values f c e v p q) = (f, c, p, q)"
  by (simp_all add: check_label_def check_def compare_values_def)

lemma labels_constant:
  "map check_label (authority_checks date a) = map check_label (authority_checks date' a')"
  "map check_label (backend_checks a observation) = map check_label (backend_checks a' observation')"
  "map check_label (agent_checks a observation) = map check_label (agent_checks a' observation')"
  "map check_label (token_checks digest decode a tokens) = map check_label (token_checks digest' decode' a' tokens')"
  "map check_label (process_checks digest a process) = map check_label (process_checks digest' a' process')"
  by (simp_all add: authority_checks_def required_fields_def number_fields_def backend_checks_def agent_checks_def
      token_checks_def expected_tokens_def expected_token_def process_checks_def Let_def)

lemma labelled_outcomes:
  "map check_label xs = map check_label ys \<Longrightarrow> map check_outcome xs = map check_outcome ys \<Longrightarrow> xs = ys"
proof (induction xs arbitrary: ys)
  case (Cons x xs)
  then obtain y ys' where "ys = y # ys'" by (cases ys) auto
  with Cons show ?case by (cases x; cases y) (auto simp: check_label_def check_outcome_def)
qed simp

text \<open>
  C19: the result of a fence holds no value of the authority or the observation: it is determined by which
  of the compared values are present and which pairs are equal.
\<close>

theorem fence_reveals_outcomes_only:
  assumes "map check_outcome (fr_checks (validatePromptInputFence digest decode date a observation)) =
    map check_outcome (fr_checks (validatePromptInputFence digest' decode' date' a' observation'))"
  shows "validatePromptInputFence digest decode date a observation =
    validatePromptInputFence digest' decode' date' a' observation'"
proof -
  let ?checks = "\<lambda>digest decode date a observation. authority_checks date a @ backend_checks a observation @
    agent_checks a observation @ token_checks digest decode a (ha_tokens (fo_agent observation)) @
    process_checks digest a (fo_process observation)"
  have "map check_label (?checks digest decode date a observation) =
      map check_label (?checks digest' decode' date' a' observation')"
    unfolding map_append by (intro arg_cong2 [where f = "(@)"] labels_constant)
  from labelled_outcomes [OF this] assms
  have "?checks digest decode date a observation = ?checks digest' decode' date' a' observation'"
    by (simp add: validatePromptInputFence_def fence_result_of_def Let_def)
  then show ?thesis unfolding validatePromptInputFence_def by (rule arg_cong)
qed

section \<open>Examples\<close>

definition fenced_process :: pane_process_info where
  "fenced_process = \<lparr>pp_paneId = ''p1'', pp_shellPid = Some 10, pp_foregroundProcessGroupId = Some 11, pp_tty = None,
     pp_foregroundProcesses = []\<rparr>"

definition fenced_authority :: "(string \<Rightarrow> string) \<Rightarrow> string \<Rightarrow> prompt_authority" where
  "fenced_authority digest authorizedAt = \<lparr>
     pa_physicalLineageId = ''lineage'', pa_environmentId = ''env'', pa_environmentIncarnation = ''inc'',
     pa_sessionName = ''session'', pa_sessionIncarnation = ''s1'', pa_workspaceId = ''w1'', pa_tabId = ''t1'',
     pa_paneId = ''p1'', pa_terminalId = ''term'', pa_agentName = ''agent'', pa_agentIntegrationKind = ''agy'',
     pa_paneShellPid = 10, pa_paneForegroundProcessGroupId = 11,
     pa_paneProcessIdentityDigest = paneProcessIdentityDigest digest fenced_process,
     pa_workerId = ''worker'', pa_questLaunchId = ''launch'', pa_runId = ''run'', pa_actionId = ''action'',
     pa_occurrenceId = ''occurrence'', pa_attemptId = ''attempt'', pa_herdrEndpointGeneration = 1,
     pa_herdrServerGeneration = ''g1'', pa_ownershipToken = ''token'', pa_resultNonce = ''nonce'',
     pa_promptAuthorizedAt = authorizedAt, pa_promptIntentAt = ''later''\<rparr>"

definition fenced_observation :: "(string \<Rightarrow> string) \<Rightarrow> (string \<Rightarrow> string) \<Rightarrow> fence_observation" where
  "fenced_observation digest decode = \<lparr>
     fo_sessionName = ''session'', fo_sessionIncarnation = Some ''s1'',
     fo_readiness = \<lparr>br_ready = True, br_capabilities = required_capabilities, br_endpointGeneration = Some 1,
       br_serverGeneration = Some ''g1'', br_sessionIncarnation = Some ''s1''\<rparr>,
     fo_agentLookupTarget = ''agent'',
     fo_agent = \<lparr>ha_name = None, ha_agent = ''agy'', ha_status = ''idle'', ha_paneId = ''p1'',
       ha_terminalId = Some ''term'', ha_workspaceId = ''w1'', ha_tabId = Some ''t1'',
       ha_interactiveReady = Some True, ha_launchPending = None, ha_nativeMaterialized = Some True,
       ha_tokens = map (\<lambda>t. (te_key t, te_expected t)) (expected_tokens digest decode (fenced_authority digest []))\<rparr>,
     fo_process = fenced_process\<rparr>"

lemma fenced_passes:
  assumes "date authorizedAt = Some 1" and "date ''later'' = Some 2" and "authorizedAt \<noteq> []"
    and "paneProcessIdentityDigest digest fenced_process \<noteq> []"
  shows "fr_ok (validatePromptInputFence digest decode date (fenced_authority digest authorizedAt)
    (fenced_observation digest decode))"
  unfolding fence_ok backend_ok agent_ok tokens_ok process_ok authority_ok_def
  using assms
  by (simp add: fenced_authority_def fenced_observation_def fenced_process_def required_fields_def number_fields_def
      positive_safe_def expected_tokens_def expected_token_def)

definition example_date :: "string \<Rightarrow> int option" where
  "example_date s = (if s = ''later'' then Some 2 else if s = ''dawn'' \<or> s = ''noon'' then Some 1 else None)"

lemma example_passes:
  assumes "authorizedAt = ''dawn'' \<or> authorizedAt = ''noon''"
  shows "fr_ok (validatePromptInputFence id decode example_date (fenced_authority id authorizedAt)
    (fenced_observation id decode))"
  using assms
  by (intro fenced_passes) (auto simp: example_date_def paneProcessIdentityDigest_def pane_process_value_def)

text \<open>A digest of fixed length, as SHA-256 is, for which the identities of the example do not collide.\<close>

definition padded_digest :: "string \<Rightarrow> string" where
  "padded_digest s = take 12 (s @ replicate 12 (CHR ''.''))"

theorem fence_pins_authority_witness:
  "same_authority (fenced_authority padded_digest ''dawn'') (fenced_authority padded_digest ''noon'') \<and>
   length (padded_digest ''action'') = 12"
proof -
  have passes: "fr_ok (validatePromptInputFence padded_digest id example_date
      (fenced_authority padded_digest authorizedAt) (fenced_observation padded_digest id))"
    if "authorizedAt \<in> {''dawn'', ''noon''}" for authorizedAt
    using that by (intro fenced_passes) (auto simp: example_date_def paneProcessIdentityDigest_def padded_digest_def)
  have framing: "CHR 0x00 \<notin> set (pa_environmentId (fenced_authority padded_digest authorizedAt))" for authorizedAt
    by (simp add: fenced_authority_def)
  have texts: "digested_texts (fenced_authority padded_digest authorizedAt) =
      [''action'', ''occurrence'', ''attempt'', ''env'' @ [CHR 0x00] @ ''inc'']" for authorizedAt
    by (simp add: digested_texts_def fenced_authority_def)
  have "distinct (map padded_digest [''action'', ''occurrence'', ''attempt'', ''env'' @ [CHR 0x00] @ ''inc''])"
    by code_simp
  then have "inj_on padded_digest (set (digested_texts (fenced_authority padded_digest ''dawn'') @
      digested_texts (fenced_authority padded_digest ''noon'')))"
    unfolding texts distinct_map set_append Un_absorb by (rule conjunct2)
  from fence_pins_authority [OF passes passes this framing framing]
  show ?thesis by (simp add: padded_digest_def)
qed

theorem fence_reveals_outcomes_only_witness:
  "validatePromptInputFence id id example_date ((fenced_authority id ''noon'')\<lparr>pa_workerId := ''other''\<rparr>)
     (fenced_observation id id) =
   validatePromptInputFence id id example_date ((fenced_authority id ''noon'')\<lparr>pa_workerId := ''stranger''\<rparr>)
     (fenced_observation id id)"
proof (rule fence_reveals_outcomes_only)
  have token: "map_of (ha_tokens (fo_agent (fenced_observation id id))) ''qe_worker_id'' = Some ''worker''"
    by (simp add: fenced_observation_def expected_tokens_def expected_token_def fenced_authority_def)
  have "present (Some (JStr w)) \<longleftrightarrow> w \<noteq> []" for w by (simp add: present_def)
  with token show "map check_outcome (fr_checks (validatePromptInputFence id id example_date
        ((fenced_authority id ''noon'')\<lparr>pa_workerId := ''other''\<rparr>) (fenced_observation id id))) =
      map check_outcome (fr_checks (validatePromptInputFence id id example_date
        ((fenced_authority id ''noon'')\<lparr>pa_workerId := ''stranger''\<rparr>) (fenced_observation id id)))"
    by (simp add: validatePromptInputFence_def fence_result_of_def Let_def check_outcome_def check_def
        compare_values_def authority_checks_def required_fields_def number_fields_def backend_checks_def
        agent_checks_def token_checks_def expected_tokens_def expected_token_def process_checks_def)
qed

end
