(* ===== verification/Environment_Store.thy ===== *)
theory Environment_Store
  imports Json "HOL-Library.Char_ord" "HOL-Library.List_Lexorder"
begin

text \<open>
  The durable records of execution environments (\<^verbatim>\<open>execution-environment/store.ts\<close> and the owners of
  \<^verbatim>\<open>execution-environment/ownership.ts\<close>): the rows of an environment from its creation claim to its
  retirement, and the log of stop events from which stop attempts are read.

  The state is the three tables. A statement that would break a constraint of the schema fails with
  \<open>Store_Constraint\<close>; a transaction that throws leaves the state as it was. JSON columns hold the value
  that was written; \<open>now\<close> is the clock, read as an ISO text.
\<close>

section \<open>Owners\<close>

datatype environment_owner = Run_Owner string | Account_Owner string int

fun environmentOwnerId :: "environment_owner \<Rightarrow> string" where
  "environmentOwnerId (Run_Owner runId) = runId"
| "environmentOwnerId (Account_Owner account generation) = account"

fun environmentOwnerGeneration :: "environment_owner \<Rightarrow> int option" where
  "environmentOwnerGeneration (Run_Owner runId) = None"
| "environmentOwnerGeneration (Account_Owner account generation) = Some generation"

fun environmentOwnerKey :: "environment_owner \<Rightarrow> string" where
  "environmentOwnerKey (Run_Owner runId) = ''run'' @ [CHR 0x00] @ runId"
| "environmentOwnerKey (Account_Owner account generation) =
     ''provider_account'' @ [CHR 0x00] @ account @ [CHR 0x00] @ show_int generation"

definition sameEnvironmentOwner :: "environment_owner \<Rightarrow> environment_owner \<Rightarrow> bool" where
  "sameEnvironmentOwner left right \<longleftrightarrow> environmentOwnerKey left = environmentOwnerKey right"

fun environmentOwnerLabel :: "environment_owner \<Rightarrow> string" where
  "environmentOwnerLabel (Run_Owner runId) = ''Run '' @ runId"
| "environmentOwnerLabel (Account_Owner account generation) =
     ''ProviderAccount '' @ account @ '' generation '' @ show_int generation"

text \<open>\<open>validateEnvironmentOwner\<close> throws exactly when this does not hold.\<close>

fun valid_environment_owner :: "environment_owner \<Rightarrow> bool" where
  "valid_environment_owner (Run_Owner runId) = (runId \<noteq> [])"
| "valid_environment_owner (Account_Owner account generation) =
     (account \<noteq> [] \<and> 1 \<le> generation \<and> generation < 2 ^ 53)"

section \<open>Rows\<close>

datatype environment_state = Creating | Running | Stopped | Removed | Missing | Incompatible | Degraded

datatype owner_type = Run_Type | Provider_Account_Type

record environment_row =
  e_record_id :: string
  e_backend_kind :: string
  e_worker_id :: string
  e_owner_type :: owner_type
  e_owner_id :: string
  e_owner_generation :: "int option"
  e_display_name :: string
  e_environment_id :: "string option"
  e_incarnation :: string
  e_profile_id :: string
  e_profile_digest :: string
  e_spec_digest :: string
  e_state :: environment_state
  e_creation_token :: string
  e_creator_pid :: int
  e_marker_digest :: "string option"
  e_native_version :: "string option"
  e_native_revision :: "string option"
  e_native_api_version :: "string option"
  e_native_agent :: "string option"
  e_capabilities :: json
  e_diagnostics :: json
  e_created_at :: string
  e_updated_at :: string
  e_last_verified_at :: "string option"
  e_retired_at :: "string option"

datatype stop_event_type =
    Stop_Intent_Recorded | Stop_Invocation_Started | Stop_Invocation_Acknowledged | Stop_Invocation_Ambiguous
  | Stop_Invocation_Not_Started | Stop_Reconcile_Started | Stop_Still_In_Progress | Stop_Observation_Unavailable
  | Stop_Confirmed | Stop_Identity_Mismatch | Stop_Environment_Absent | Stop_Cycle_Reopened

record stop_event =
  se_event_id :: nat
  se_record_id :: string
  se_stop_id :: string
  se_type :: stop_event_type
  se_details :: json
  se_occurred_at :: string

record canary_row =
  cn_record_id :: string
  cn_value :: string
  cn_updated_at :: string

text \<open>\<open>es_next_event\<close> is the sequence of \<^verbatim>\<open>AUTOINCREMENT\<close>; the events are in the order of their ids.\<close>

record environment_store =
  es_environments :: "environment_row list"
  es_events :: "stop_event list"
  es_next_event :: nat
  es_canaries :: "canary_row list"

datatype store_error =
    Unknown_Environment string | Environment_Retired string | Bound_To_Another string
  | Unknown_Stop_Attempt string | Store_Constraint

section \<open>Constraints of the schema\<close>

definition owner_check :: "environment_row \<Rightarrow> bool" where
  "owner_check r \<longleftrightarrow>
     (case e_owner_type r of
        Run_Type \<Rightarrow> e_owner_generation r = None
      | Provider_Account_Type \<Rightarrow> (case e_owner_generation r of None \<Rightarrow> False | Some g \<Rightarrow> 0 < g))"

definition current_owner_key :: "environment_row \<Rightarrow> string \<times> string \<times> owner_type \<times> string \<times> int" where
  "current_owner_key r = (e_backend_kind r, e_worker_id r, e_owner_type r, e_owner_id r,
     case e_owner_generation r of None \<Rightarrow> 0 | Some g \<Rightarrow> g)"

definition environment_constraints :: "environment_row list \<Rightarrow> bool" where
  "environment_constraints rows \<longleftrightarrow>
     distinct (map e_record_id rows) \<and> list_all owner_check rows \<and>
     distinct (map current_owner_key (filter (\<lambda>r. e_retired_at r = None) rows)) \<and>
     distinct (map (\<lambda>r. (e_backend_kind r, e_display_name r)) (filter (\<lambda>r. e_retired_at r = None) rows)) \<and>
     distinct (map (\<lambda>r. (e_backend_kind r, the (e_environment_id r)))
       (filter (\<lambda>r. e_environment_id r \<noteq> None) rows))"

definition write_environments ::
  "environment_row list \<Rightarrow> environment_store \<Rightarrow> store_error + environment_store" where
  "write_environments rows s =
     (if environment_constraints rows then Inr (s\<lparr>es_environments := rows\<rparr>) else Inl Store_Constraint)"

abbreviation environment_row_of :: "string \<Rightarrow> environment_store \<Rightarrow> environment_row option" where
  "environment_row_of recordId s \<equiv> lookup_row e_record_id recordId (es_environments s)"

definition update_environment ::
  "string \<Rightarrow> (environment_row \<Rightarrow> bool) \<Rightarrow> (environment_row \<Rightarrow> environment_row) \<Rightarrow> environment_store \<Rightarrow>
   store_error + environment_store" where
  "update_environment recordId P f s =
     write_environments (update_where (\<lambda>r. e_record_id r = recordId \<and> P r) f (es_environments s)) s"

section \<open>Queries\<close>

definition row_owner :: "environment_row \<Rightarrow> environment_owner" where
  "row_owner r = (case e_owner_type r of
     Run_Type \<Rightarrow> Run_Owner (e_owner_id r)
   | Provider_Account_Type \<Rightarrow> Account_Owner (e_owner_id r) (the (e_owner_generation r)))"

definition owner_type_of :: "environment_owner \<Rightarrow> owner_type" where
  "owner_type_of owner = (case owner of Run_Owner _ \<Rightarrow> Run_Type | Account_Owner _ _ \<Rightarrow> Provider_Account_Type)"

definition owned_by :: "string \<Rightarrow> string \<Rightarrow> environment_owner \<Rightarrow> environment_row \<Rightarrow> bool" where
  "owned_by backendKind workerId owner r \<longleftrightarrow>
     e_backend_kind r = backendKind \<and> e_worker_id r = workerId \<and> e_owner_type r = owner_type_of owner \<and>
     e_owner_id r = environmentOwnerId owner \<and> e_owner_generation r = environmentOwnerGeneration owner"

definition required :: "string \<Rightarrow> environment_store \<Rightarrow> store_error + environment_row" where
  "required recordId s =
     (case environment_row_of recordId s of None \<Rightarrow> Inl (Unknown_Environment recordId) | Some r \<Rightarrow> Inr r)"

definition current :: "string \<Rightarrow> string \<Rightarrow> environment_owner \<Rightarrow> environment_store \<Rightarrow> environment_row option" where
  "current backendKind workerId owner s =
     List.find (\<lambda>r. owned_by backendKind workerId owner r \<and> e_retired_at r = None) (es_environments s)"

record environment_ref =
  er_backendKind :: string
  er_environmentId :: string
  er_incarnation :: string
  er_workerId :: string
  er_owner :: environment_owner

definition byRef :: "environment_ref \<Rightarrow> environment_store \<Rightarrow> environment_row option" where
  "byRef ref s = List.find (\<lambda>r. owned_by (er_backendKind ref) (er_workerId ref) (er_owner ref) r \<and>
     e_environment_id r = Some (er_environmentId ref) \<and> e_incarnation r = er_incarnation ref) (es_environments s)"

section \<open>Creation\<close>

record creation_intent =
  ci_recordId :: string
  ci_backendKind :: string
  ci_workerId :: string
  ci_owner :: environment_owner
  ci_displayName :: string
  ci_incarnation :: string
  ci_profileId :: string
  ci_profileDigest :: string
  ci_specDigest :: string
  ci_creationToken :: string
  ci_creatorPid :: int
  ci_nativeVersion :: string
  ci_nativeRevision :: string
  ci_nativeApiVersion :: string

definition new_environment :: "string \<Rightarrow> creation_intent \<Rightarrow> environment_row" where
  "new_environment now intent = \<lparr>
     e_record_id = ci_recordId intent, e_backend_kind = ci_backendKind intent, e_worker_id = ci_workerId intent,
     e_owner_type = owner_type_of (ci_owner intent), e_owner_id = environmentOwnerId (ci_owner intent),
     e_owner_generation = environmentOwnerGeneration (ci_owner intent), e_display_name = ci_displayName intent,
     e_environment_id = None, e_incarnation = ci_incarnation intent, e_profile_id = ci_profileId intent,
     e_profile_digest = ci_profileDigest intent, e_spec_digest = ci_specDigest intent, e_state = Creating,
     e_creation_token = ci_creationToken intent, e_creator_pid = ci_creatorPid intent, e_marker_digest = None,
     e_native_version = Some (ci_nativeVersion intent), e_native_revision = Some (ci_nativeRevision intent),
     e_native_api_version = Some (ci_nativeApiVersion intent), e_native_agent = None,
     e_capabilities = JArr [], e_diagnostics = JArr [], e_created_at = now, e_updated_at = now,
     e_last_verified_at = None, e_retired_at = None\<rparr>"

definition claimCreation ::
  "string \<Rightarrow> creation_intent \<Rightarrow> environment_store \<Rightarrow>
   store_error + (bool \<times> environment_row) \<times> environment_store" where
  "claimCreation now intent s =
     (case current (ci_backendKind intent) (ci_workerId intent) (ci_owner intent) s of
        Some existing \<Rightarrow> Inr ((False, existing), s)
      | None \<Rightarrow>
          bind_result (write_environments (es_environments s @ [new_environment now intent]) s) (\<lambda>s1.
          bind_result (required (ci_recordId intent) s1) (\<lambda>r. Inr ((True, r), s1))))"

record ownership_request =
  oq_recordId :: string
  oq_creationToken :: string
  oq_creatorPid :: int
  oq_allowTakeover :: bool

definition acquireCreationOwnership ::
  "string \<Rightarrow> ownership_request \<Rightarrow> environment_store \<Rightarrow> store_error + bool \<times> environment_store" where
  "acquireCreationOwnership now input s =
     bind_result (required (oq_recordId input) s) (\<lambda>r.
       if truthy (e_retired_at r) \<or> e_state r \<noteq> Creating then Inr (False, s)
       else if e_creation_token r = oq_creationToken input then Inr (True, s)
       else if \<not> oq_allowTakeover input then Inr (False, s)
       else bind_result (update_environment (oq_recordId input) (\<lambda>r. e_state r = Creating \<and> e_retired_at r = None)
           (\<lambda>r. r\<lparr>e_creation_token := oq_creationToken input, e_creator_pid := oq_creatorPid input,
             e_updated_at := now\<rparr>) s) (\<lambda>s1.
         bind_result (required (oq_recordId input) s1) (\<lambda>r1.
           Inr (e_creation_token r1 = oq_creationToken input, s1))))"

section \<open>Observation and retirement\<close>

record physical_binding =
  pb_recordId :: string
  pb_environmentId :: string
  pb_nativeAgent :: string
  pb_markerDigest :: string
  pb_state :: environment_state
  pb_capabilities :: json
  pb_diagnostics :: json

definition bindPhysical ::
  "string \<Rightarrow> physical_binding \<Rightarrow> environment_store \<Rightarrow> store_error + environment_row \<times> environment_store" where
  "bindPhysical now input s =
     bind_result (required (pb_recordId input) s) (\<lambda>r.
       if truthy (e_retired_at r) then Inl (Environment_Retired (pb_recordId input))
       else if e_environment_id r \<noteq> None \<and> e_environment_id r \<noteq> Some (pb_environmentId input)
       then Inl (Bound_To_Another (pb_recordId input))
       else bind_result (update_environment (pb_recordId input) (\<lambda>r. e_retired_at r = None)
           (\<lambda>r. r\<lparr>e_environment_id := Some (pb_environmentId input), e_native_agent := Some (pb_nativeAgent input),
             e_marker_digest := Some (pb_markerDigest input), e_state := pb_state input,
             e_capabilities := pb_capabilities input, e_diagnostics := pb_diagnostics input,
             e_last_verified_at := Some now, e_updated_at := now\<rparr>) s) (\<lambda>s1.
         bind_result (required (pb_recordId input) s1) (\<lambda>r1. Inr (r1, s1))))"

record verification =
  vf_recordId :: string
  vf_state :: environment_state
  vf_markerDigest :: string
  vf_capabilities :: json
  vf_diagnostics :: json
  vf_nativeVersion :: string
  vf_nativeRevision :: string
  vf_nativeApiVersion :: string

definition markVerified ::
  "string \<Rightarrow> verification \<Rightarrow> environment_store \<Rightarrow> store_error + environment_row \<times> environment_store" where
  "markVerified now input s =
     bind_result (update_environment (vf_recordId input) (\<lambda>r. e_retired_at r = None)
         (\<lambda>r. r\<lparr>e_state := vf_state input, e_marker_digest := Some (vf_markerDigest input),
           e_capabilities := vf_capabilities input, e_diagnostics := vf_diagnostics input,
           e_native_version := Some (vf_nativeVersion input), e_native_revision := Some (vf_nativeRevision input),
           e_native_api_version := Some (vf_nativeApiVersion input), e_last_verified_at := Some now,
           e_updated_at := now\<rparr>) s) (\<lambda>s1.
       bind_result (required (vf_recordId input) s1) (\<lambda>r1. Inr (r1, s1)))"

definition markState ::
  "string \<Rightarrow> string \<Rightarrow> environment_state \<Rightarrow> json \<Rightarrow> environment_store \<Rightarrow>
   store_error + environment_row \<times> environment_store" where
  "markState now recordId state diagnostics s =
     bind_result (update_environment recordId (\<lambda>r. e_retired_at r = None)
         (\<lambda>r. r\<lparr>e_state := state, e_diagnostics := diagnostics, e_updated_at := now\<rparr>) s) (\<lambda>s1.
       bind_result (required recordId s1) (\<lambda>r1. Inr (r1, s1)))"

definition retire ::
  "string \<Rightarrow> string \<Rightarrow> environment_store \<Rightarrow> store_error + environment_row \<times> environment_store" where
  "retire now recordId s =
     bind_result (update_environment recordId (\<lambda>r. True)
         (\<lambda>r. r\<lparr>e_state := Removed, e_retired_at := coalesce (e_retired_at r) (Some now), e_updated_at := now\<rparr>) s) (\<lambda>s1.
       bind_result (required recordId s1) (\<lambda>r1. Inr (r1, s1)))"

text \<open>\<^verbatim>\<open>ORDER BY created_at,record_id\<close>\<close>

definition created_le :: "environment_row \<Rightarrow> environment_row \<Rightarrow> bool" where
  "created_le r r' \<longleftrightarrow> e_created_at r < e_created_at r' \<or>
     e_created_at r = e_created_at r' \<and> e_record_id r \<le> e_record_id r'"

definition list_environments :: "environment_store \<Rightarrow> environment_row list" where
  "list_environments s = sort_by created_le (es_environments s)"

section \<open>Canaries\<close>

definition writeDeterministicCanary ::
  "string \<Rightarrow> string \<Rightarrow> string \<Rightarrow> environment_store \<Rightarrow> store_error + environment_store" where
  "writeDeterministicCanary now recordId canary s =
     bind_result (required recordId s) (\<lambda>_.
       let row = \<lparr>cn_record_id = recordId, cn_value = canary, cn_updated_at = now\<rparr> in
       Inr (s\<lparr>es_canaries :=
         (if recordId \<in> set (map cn_record_id (es_canaries s))
          then update_where (\<lambda>r. cn_record_id r = recordId) (\<lambda>_. row) (es_canaries s)
          else es_canaries s @ [row])\<rparr>))"

definition readDeterministicCanary :: "string \<Rightarrow> environment_store \<Rightarrow> string option" where
  "readDeterministicCanary recordId s = map_option cn_value (lookup_row cn_record_id recordId (es_canaries s))"

section \<open>Stop events\<close>

datatype stop_invocation = Not_Invoked | Invocation_Started | Invocation_Acknowledged | Invocation_Ambiguous

record stop_attempt =
  sa_recordId :: string
  sa_stopId :: string
  sa_events :: "stop_event list"
  sa_invocation :: stop_invocation
  sa_confirmed :: bool
  sa_reopened :: bool

definition stopEvents :: "string \<Rightarrow> environment_store \<Rightarrow> stop_event list" where
  "stopEvents recordId s = filter (\<lambda>e. se_record_id e = recordId) (es_events s)"

definition attempt_events :: "string \<Rightarrow> string \<Rightarrow> environment_store \<Rightarrow> stop_event list" where
  "attempt_events recordId stopId s =
     filter (\<lambda>e. se_record_id e = recordId \<and> se_stop_id e = stopId) (es_events s)"

definition invocation_of :: "stop_event_type set \<Rightarrow> stop_invocation" where
  "invocation_of types =
     (if Stop_Invocation_Acknowledged \<in> types then Invocation_Acknowledged
      else if Stop_Invocation_Ambiguous \<in> types then Invocation_Ambiguous
      else if Stop_Invocation_Started \<in> types then Invocation_Started
      else Not_Invoked)"

definition attempt_of :: "string \<Rightarrow> string \<Rightarrow> stop_event list \<Rightarrow> stop_attempt" where
  "attempt_of recordId stopId events =
     (let types = se_type ` set events in
      \<lparr>sa_recordId = recordId, sa_stopId = stopId, sa_events = events, sa_invocation = invocation_of types,
        sa_confirmed = (Stop_Confirmed \<in> types \<or> Stop_Environment_Absent \<in> types),
        sa_reopened = (Stop_Cycle_Reopened \<in> types)\<rparr>)"

definition requiredStopAttempt :: "string \<Rightarrow> string \<Rightarrow> environment_store \<Rightarrow> store_error + stop_attempt" where
  "requiredStopAttempt recordId stopId s =
     (let events = attempt_events recordId stopId s in
      if events = [] then Inl (Unknown_Stop_Attempt stopId) else Inr (attempt_of recordId stopId events))"

text \<open>The attempt of the last event of the record; \<open>None\<close> is the absence of any.\<close>

definition latestStopAttempt :: "string \<Rightarrow> environment_store \<Rightarrow> store_error + stop_attempt option" where
  "latestStopAttempt recordId s =
     (if stopEvents recordId s = [] then Inr None
      else bind_result (requiredStopAttempt recordId (se_stop_id (last (stopEvents recordId s))) s) (\<lambda>a. Inr (Some a)))"

definition insertStopEvent ::
  "string \<Rightarrow> string \<Rightarrow> string \<Rightarrow> stop_event_type \<Rightarrow> json \<Rightarrow> environment_store \<Rightarrow>
   store_error + stop_event \<times> environment_store" where
  "insertStopEvent now recordId stopId type details s =
     (if environment_row_of recordId s = None then Inl Store_Constraint
      else let event = \<lparr>se_event_id = es_next_event s, se_record_id = recordId, se_stop_id = stopId,
          se_type = type, se_details = details, se_occurred_at = now\<rparr> in
        Inr (event, s\<lparr>es_events := es_events s @ [event], es_next_event := es_next_event s + 1\<rparr>))"

record begun_stop =
  bs_created :: bool
  bs_attempt :: stop_attempt
  bs_event :: "stop_event option"

definition beginStop ::
  "string \<Rightarrow> string \<Rightarrow> string \<Rightarrow> environment_store \<Rightarrow> store_error + begun_stop \<times> environment_store" where
  "beginStop now recordId stopId s =
     bind_result (required recordId s) (\<lambda>_.
     bind_result (latestStopAttempt recordId s) (\<lambda>existing.
       let begin_new =
         bind_result (insertStopEvent now recordId stopId Stop_Intent_Recorded (JObj []) s) (\<lambda>(event, s1).
         bind_result (requiredStopAttempt recordId stopId s1) (\<lambda>attempt.
           Inr (\<lparr>bs_created = True, bs_attempt = attempt, bs_event = Some event\<rparr>, s1))) in
       case existing of
         None \<Rightarrow> begin_new
       | Some attempt \<Rightarrow>
           if \<not> sa_reopened attempt
           then Inr (\<lparr>bs_created = False, bs_attempt = attempt, bs_event = None\<rparr>, s)
           else begin_new))"

text \<open>The event is \<open>None\<close> when the invocation is not claimed.\<close>

definition claimStopInvocation ::
  "string \<Rightarrow> string \<Rightarrow> string \<Rightarrow> environment_store \<Rightarrow> store_error + stop_event option \<times> environment_store" where
  "claimStopInvocation now recordId stopId s =
     bind_result (requiredStopAttempt recordId stopId s) (\<lambda>attempt.
       if sa_invocation attempt \<noteq> Not_Invoked then Inr (None, s)
       else bind_result (insertStopEvent now recordId stopId Stop_Invocation_Started (JObj []) s)
         (\<lambda>(event, s1). Inr (Some event, s1)))"

definition appendStopEvent ::
  "string \<Rightarrow> string \<Rightarrow> string \<Rightarrow> stop_event_type \<Rightarrow> json \<Rightarrow> environment_store \<Rightarrow>
   store_error + stop_event \<times> environment_store" where
  "appendStopEvent now recordId stopId type details s =
     bind_result (requiredStopAttempt recordId stopId s) (\<lambda>_. insertStopEvent now recordId stopId type details s)"

definition reopenStopCycle ::
  "string \<Rightarrow> string \<Rightarrow> environment_store \<Rightarrow> store_error + stop_event option \<times> environment_store" where
  "reopenStopCycle now recordId s =
     bind_result (latestStopAttempt recordId s) (\<lambda>existing.
       case existing of
         None \<Rightarrow> Inr (None, s)
       | Some attempt \<Rightarrow>
           if sa_reopened attempt \<or> \<not> sa_confirmed attempt then Inr (None, s)
           else bind_result (insertStopEvent now recordId (sa_stopId attempt) Stop_Cycle_Reopened (JObj []) s)
             (\<lambda>(event, s1). Inr (Some event, s1)))"

section \<open>Opening the database\<close>

definition EXECUTION_ENVIRONMENT_SCHEMA_VERSION :: int where
  "EXECUTION_ENVIRONMENT_SCHEMA_VERSION = 3"

text \<open>The file: its tables, the versions recorded in the migration table, and the rows.\<close>

record environment_file =
  ef_tables :: "string list"
  ef_versions :: "int list"
  ef_store :: environment_store

datatype open_error = Obsolete_Versions "int list" | Legacy_Schema | Table_Exists

definition empty_environment_store :: environment_store where
  "empty_environment_store = \<lparr>es_environments = [], es_events = [], es_next_event = 1, es_canaries = []\<rparr>"

definition environment_tables :: "string list" where
  "environment_tables = [''execution_environment_schema_migrations'', ''execution_environments'',
     ''execution_environment_stop_events'', ''execution_environment_canaries'']"

definition bootstrapEnvironmentSchema :: "environment_file \<Rightarrow> open_error + environment_file" where
  "bootstrapEnvironmentSchema file =
     (if ''execution_environment_schema_migrations'' \<in> set (ef_tables file) then
        if ef_versions file = [EXECUTION_ENVIRONMENT_SCHEMA_VERSION] then Inr file
        else Inl (Obsolete_Versions (sort (ef_versions file)))
      else if ''execution_environments'' \<in> set (ef_tables file) then Inl Legacy_Schema
      else if set environment_tables \<inter> set (ef_tables file) \<noteq> {} then Inl Table_Exists
      else Inr \<lparr>ef_tables = ef_tables file @ environment_tables,
          ef_versions = [EXECUTION_ENVIRONMENT_SCHEMA_VERSION], ef_store = empty_environment_store\<rparr>)"

end
