(* ===== verification/Environment_Properties.thy ===== *)
theory Environment_Properties
  imports Environment_Store "HOL-Library.Sublist"
begin

text \<open>
  The life of environment records and stop attempts over every history of the store: what a record keeps,
  that an owner has one current environment, and that a stop is invoked once.
\<close>

section \<open>Steps\<close>

text \<open>
  The types that the backend appends by itself; the intent, the start of the invocation and the reopening
  are recorded by the operations that claim them.
\<close>

definition observation_types :: "stop_event_type set" where
  "observation_types = - {Stop_Intent_Recorded, Stop_Invocation_Started, Stop_Cycle_Reopened}"

inductive environment_step :: "environment_store \<Rightarrow> environment_store \<Rightarrow> bool" where
  claim: "claimCreation now intent s = Inr (x, s') \<Longrightarrow> environment_step s s'"
| acquire: "acquireCreationOwnership now request s = Inr (b, s') \<Longrightarrow> environment_step s s'"
| bind: "bindPhysical now binding s = Inr (r, s') \<Longrightarrow> environment_step s s'"
| verify: "markVerified now v s = Inr (r, s') \<Longrightarrow> environment_step s s'"
| mark: "markState now recordId state diagnostics s = Inr (r, s') \<Longrightarrow> environment_step s s'"
| retire: "retire now recordId s = Inr (r, s') \<Longrightarrow> environment_step s s'"
| canary: "writeDeterministicCanary now recordId v s = Inr s' \<Longrightarrow> environment_step s s'"
| begin_stop: "beginStop now recordId stopId s = Inr (b, s') \<Longrightarrow> environment_step s s'"
| claim_stop: "claimStopInvocation now recordId stopId s = Inr (e, s') \<Longrightarrow> environment_step s s'"
| append: "appendStopEvent now recordId stopId type details s = Inr (ev, s') \<Longrightarrow> type \<in> observation_types \<Longrightarrow>
    environment_step s s'"
| reopen: "reopenStopCycle now recordId s = Inr (e, s') \<Longrightarrow> environment_step s s'"

inductive_cases environment_stepE: "environment_step s s'"

abbreviation environment_steps :: "environment_store \<Rightarrow> environment_store \<Rightarrow> bool" where
  "environment_steps \<equiv> environment_step\<^sup>*\<^sup>*"

abbreviation environment_reachable :: "environment_store \<Rightarrow> bool" where
  "environment_reachable \<equiv> environment_steps empty_environment_store"

section \<open>One row\<close>

text \<open>The columns that no statement changes, and those that retirement freezes.\<close>

definition environment_identity ::
  "environment_row \<Rightarrow> string \<times> string \<times> string \<times> owner_type \<times> string \<times> int option \<times> string \<times> string \<times> string \<times>
   string \<times> string \<times> string" where
  "environment_identity r = (e_record_id r, e_backend_kind r, e_worker_id r, e_owner_type r, e_owner_id r,
     e_owner_generation r, e_display_name r, e_incarnation r, e_profile_id r, e_profile_digest r, e_spec_digest r,
     e_created_at r)"

definition frozen :: "environment_row \<Rightarrow> environment_row" where
  "frozen r = r\<lparr>e_state := Removed, e_updated_at := []\<rparr>"

definition environment_evolves :: "environment_row \<Rightarrow> environment_row \<Rightarrow> bool" where
  "environment_evolves r r' \<longleftrightarrow>
     environment_identity r' = environment_identity r \<and>
     write_once (e_environment_id r) (e_environment_id r') \<and> write_once (e_retired_at r) (e_retired_at r') \<and>
     (e_retired_at r \<noteq> None \<longrightarrow> frozen r' = frozen r)"

text \<open>
  One step may also take the creation over, but only of a record that is still being created, and a record
  becomes retired as removed.
\<close>

definition row_change :: "environment_row \<Rightarrow> environment_row \<Rightarrow> bool" where
  "row_change r r' \<longleftrightarrow> environment_evolves r r' \<and>
     (e_creation_token r' \<noteq> e_creation_token r \<longrightarrow> e_state r = Creating \<and> e_retired_at r = None) \<and>
     (e_retired_at r' \<noteq> None \<longrightarrow> e_state r' = Removed \<or> r' = r)"

lemma row_change_refl: "row_change r r"
  by (simp add: row_change_def environment_evolves_def)

lemma transp_environment_evolves: "transp environment_evolves"
  unfolding environment_evolves_def
  by (rule transpI) (auto intro: write_once_trans simp: write_once_def)

section \<open>The table of environments\<close>

definition put_environment ::
  "string \<Rightarrow> (environment_row \<Rightarrow> environment_row) \<Rightarrow> environment_store \<Rightarrow> environment_store" where
  "put_environment k f s = s\<lparr>es_environments := update_where (\<lambda>r. e_record_id r = k) f (es_environments s)\<rparr>"

interpretation environments: keyed_table e_record_id environment_row_of put_environment
  by unfold_locales (auto simp: put_environment_def lookup_row_update_key dest: lookup_row_SomeD)

lemma update_environment_put:
  "update_environment k P f s = Inr s' \<longleftrightarrow>
     s' = put_environment k (\<lambda>r. if P r then f r else r) s \<and> environment_constraints (es_environments s')"
proof -
  have "update_where (\<lambda>r. e_record_id r = k \<and> P r) f rows = update_where (\<lambda>r. e_record_id r = k) (\<lambda>r. if P r then f r else r) rows"
    for rows by (simp add: update_where_def)
  then show ?thesis by (auto simp: update_environment_def write_environments_def put_environment_def)
qed

section \<open>What a step does to the tables\<close>

text \<open>The events that may follow those of an attempt.\<close>

definition event_allowed :: "stop_event_type list \<Rightarrow> stop_event_type \<Rightarrow> bool" where
  "event_allowed types type \<longleftrightarrow>
     (if type = Stop_Intent_Recorded then True
      else if type = Stop_Invocation_Started then types \<noteq> [] \<and> invocation_of (set types) = Not_Invoked
      else if type = Stop_Cycle_Reopened
      then Stop_Cycle_Reopened \<notin> set types \<and> {Stop_Confirmed, Stop_Environment_Absent} \<inter> set types \<noteq> {}
      else types \<noteq> [])"

definition attempt_types :: "string \<Rightarrow> string \<Rightarrow> environment_store \<Rightarrow> stop_event_type list" where
  "attempt_types recordId stopId s = map se_type (attempt_events recordId stopId s)"

inductive store_effect :: "environment_store \<Rightarrow> environment_store \<Rightarrow> bool" where
  unchanged: "store_effect s s"
| row_added: "environment_constraints (es_environments s @ [r]) \<Longrightarrow> e_retired_at r = None \<Longrightarrow>
    store_effect s (s\<lparr>es_environments := es_environments s @ [r]\<rparr>)"
| row_changed: "(\<And>r. e_record_id (f r) = e_record_id r) \<Longrightarrow>
    (\<And>r. environment_row_of k s = Some r \<Longrightarrow> row_change r (f r)) \<Longrightarrow>
    environment_constraints (es_environments (put_environment k f s)) \<Longrightarrow> store_effect s (put_environment k f s)"
| canary_set: "recordId \<in> e_record_id ` set (es_environments s) \<Longrightarrow>
    writeDeterministicCanary now recordId v s = Inr s' \<Longrightarrow> store_effect s s'"
| event_added: "environment_row_of recordId s \<noteq> None \<Longrightarrow>
    event_allowed (attempt_types recordId stopId s) type \<Longrightarrow>
    insertStopEvent now recordId stopId type details s = Inr (event, s') \<Longrightarrow> store_effect s s'"

lemma required_Inr: "required recordId s = Inr r \<longleftrightarrow> environment_row_of recordId s = Some r"
  by (auto simp: required_def split: option.splits)

lemma row_update_effect:
  assumes "update_environment k P f s = Inr s'" and "\<And>r. e_record_id (f r) = e_record_id r"
    and "\<And>r. environment_row_of k s = Some r \<Longrightarrow> P r \<Longrightarrow> row_change r (f r)"
  shows "store_effect s s'"
proof -
  let ?f = "\<lambda>r. if P r then f r else r"
  have "s' = put_environment k ?f s" and "environment_constraints (es_environments (put_environment k ?f s))"
    using assms(1) by (auto simp: update_environment_put)
  moreover have "row_change r (?f r)" if "environment_row_of k s = Some r" for r
    using assms(3) that by (simp add: row_change_refl)
  ultimately show ?thesis using store_effect.row_changed [of ?f k s] assms(2) by auto
qed

lemma required_attempt_Inr:
  "requiredStopAttempt recordId stopId s = Inr a \<longleftrightarrow>
     attempt_events recordId stopId s \<noteq> [] \<and> a = attempt_of recordId stopId (attempt_events recordId stopId s)"
  by (auto simp: requiredStopAttempt_def Let_def)

lemma insert_event_known: "insertStopEvent now recordId stopId type details s = Inr x \<Longrightarrow> environment_row_of recordId s \<noteq> None"
  by (auto simp: insertStopEvent_def split: if_splits)

lemma event_effect:
  assumes "insertStopEvent now recordId stopId type details s = Inr (event, s')"
    and "event_allowed (attempt_types recordId stopId s) type"
  shows "store_effect s s'"
  using store_effect.event_added [OF insert_event_known [OF assms(1)] assms(2,1)] .

lemmas row_changes = row_change_def environment_evolves_def environment_identity_def frozen_def write_once_def

lemma updated_then_read:
  "bind_result u (\<lambda>s1. bind_result (required k s1) (\<lambda>r1. Inr (r1, s1))) = Inr (r, s') \<Longrightarrow> u = Inr s'"
  by (auto elim!: bind_result_InrE)

lemma row_effects:
  "acquireCreationOwnership now request s = Inr (b, s') \<Longrightarrow> store_effect s s'"
  "bindPhysical now binding s = Inr (r, s') \<Longrightarrow> store_effect s s'"
  "markVerified now v s = Inr (r, s') \<Longrightarrow> store_effect s s'"
  "markState now recordId state diagnostics s = Inr (r, s') \<Longrightarrow> store_effect s s'"
  "retire now recordId s = Inr (r, s') \<Longrightarrow> store_effect s s'"
  subgoal
  proof -
    assume "acquireCreationOwnership now request s = Inr (b, s')"
    then have "s' = s \<or> update_environment (oq_recordId request) (\<lambda>r. e_state r = Creating \<and> e_retired_at r = None)
        (\<lambda>r. r\<lparr>e_creation_token := oq_creationToken request, e_creator_pid := oq_creatorPid request,
          e_updated_at := now\<rparr>) s = Inr s'"
      by (auto simp: acquireCreationOwnership_def split: if_splits elim!: bind_result_InrE)
    then show ?thesis
      by (auto simp: row_changes intro: store_effect.unchanged elim!: row_update_effect)
  qed
  subgoal
  proof -
    assume "bindPhysical now binding s = Inr (r, s')"
    then obtain r0 where bound: "environment_row_of (pb_recordId binding) s = Some r0"
        "e_environment_id r0 = None \<or> e_environment_id r0 = Some (pb_environmentId binding)"
      and upd: "update_environment (pb_recordId binding) (\<lambda>r. e_retired_at r = None)
        (\<lambda>r. r\<lparr>e_environment_id := Some (pb_environmentId binding), e_native_agent := Some (pb_nativeAgent binding),
          e_marker_digest := Some (pb_markerDigest binding), e_state := pb_state binding,
          e_capabilities := pb_capabilities binding, e_diagnostics := pb_diagnostics binding,
          e_last_verified_at := Some now, e_updated_at := now\<rparr>) s = Inr s'"
      by (fastforce simp: bindPhysical_def required_Inr split: if_splits elim!: bind_result_InrE)
    from upd show ?thesis by (rule row_update_effect) (use bound in \<open>auto simp: row_changes\<close>)
  qed
  subgoal unfolding markVerified_def by (drule updated_then_read, erule row_update_effect) (simp_all add: row_changes)
  subgoal unfolding markState_def by (drule updated_then_read, erule row_update_effect) (simp_all add: row_changes)
  subgoal
    unfolding retire_def
    by (drule updated_then_read, erule row_update_effect) (auto simp: row_changes coalesce_def split: option.split)
  done

lemma claim_cases:
  assumes "claimCreation now intent s = Inr ((created, r), s')"
  obtains "created = False" "s' = s" "current (ci_backendKind intent) (ci_workerId intent) (ci_owner intent) s = Some r"
  | "created = True" "s' = s\<lparr>es_environments := es_environments s @ [new_environment now intent]\<rparr>"
    "environment_constraints (es_environments s')" "environment_row_of (ci_recordId intent) s' = Some r"
    "current (ci_backendKind intent) (ci_workerId intent) (ci_owner intent) s = None"
  using assms
  by (auto simp: claimCreation_def write_environments_def required_Inr split: option.splits if_splits
      elim!: bind_result_InrE)

lemma claim_effect: "claimCreation now intent s = Inr (x, s') \<Longrightarrow> store_effect s s'"
  by (cases x, hypsubst, erule claim_cases)
    (auto intro: store_effect.unchanged store_effect.row_added simp: new_environment_def)

lemma attempt_of_sel [simp]:
  "sa_stopId (attempt_of k i es) = i" "sa_events (attempt_of k i es) = es"
  "sa_invocation (attempt_of k i es) = invocation_of (se_type ` set es)"
  "sa_confirmed (attempt_of k i es) \<longleftrightarrow> {Stop_Confirmed, Stop_Environment_Absent} \<inter> se_type ` set es \<noteq> {}"
  "sa_reopened (attempt_of k i es) \<longleftrightarrow> Stop_Cycle_Reopened \<in> se_type ` set es"
  by (auto simp: attempt_of_def Let_def)

lemma latest_Inr:
  assumes "latestStopAttempt recordId s = Inr (Some a)"
  shows "attempt_events recordId (sa_stopId a) s \<noteq> []"
    "sa_reopened a \<longleftrightarrow> Stop_Cycle_Reopened \<in> se_type ` set (attempt_events recordId (sa_stopId a) s)"
    "sa_confirmed a \<longleftrightarrow>
       {Stop_Confirmed, Stop_Environment_Absent} \<inter> se_type ` set (attempt_events recordId (sa_stopId a) s) \<noteq> {}"
  using assms
  by (auto simp: latestStopAttempt_def required_attempt_Inr split: if_splits elim!: bind_result_InrE)

lemma stop_effects:
  "beginStop now recordId stopId s = Inr (b, s') \<Longrightarrow> store_effect s s'"
  "claimStopInvocation now recordId stopId s = Inr (e, s') \<Longrightarrow> store_effect s s'"
  "appendStopEvent now recordId stopId type details s = Inr (ev, s') \<Longrightarrow> type \<in> observation_types \<Longrightarrow> store_effect s s'"
  "reopenStopCycle now recordId s = Inr (e, s') \<Longrightarrow> store_effect s s'"
  subgoal
  proof -
    assume "beginStop now recordId stopId s = Inr (b, s')"
    then have "s' = s \<or> (\<exists>event. insertStopEvent now recordId stopId Stop_Intent_Recorded (JObj []) s = Inr (event, s'))"
      by (auto simp: beginStop_def Let_def split: option.splits if_splits prod.splits elim!: bind_result_InrE)
    moreover have "event_allowed (attempt_types recordId stopId s) Stop_Intent_Recorded"
      by (simp add: event_allowed_def)
    ultimately show ?thesis by (auto intro: store_effect.unchanged event_effect)
  qed
  subgoal
    by (auto simp: claimStopInvocation_def required_attempt_Inr event_allowed_def attempt_types_def
        split: if_splits prod.splits intro: store_effect.unchanged elim!: bind_result_InrE event_effect)
  subgoal
    by (auto simp: appendStopEvent_def required_attempt_Inr event_allowed_def attempt_types_def observation_types_def
        elim!: bind_result_InrE event_effect)
  subgoal
  proof -
    assume reopen: "reopenStopCycle now recordId s = Inr (e, s')"
    show ?thesis
    proof (cases "s' = s")
      case False
      then obtain a event where a: "latestStopAttempt recordId s = Inr (Some a)" "\<not> sa_reopened a" "sa_confirmed a"
        and ins: "insertStopEvent now recordId (sa_stopId a) Stop_Cycle_Reopened (JObj []) s = Inr (event, s')"
        using reopen
        by (auto simp: reopenStopCycle_def split: option.splits if_splits prod.splits elim!: bind_result_InrE)
      show ?thesis
        by (rule event_effect [OF ins]) (use a latest_Inr [OF a(1)] in \<open>simp add: event_allowed_def attempt_types_def\<close>)
    qed (simp add: store_effect.unchanged)
  qed
  done

lemma canary_effect: "writeDeterministicCanary now recordId v s = Inr s' \<Longrightarrow> store_effect s s'"
  by (rule store_effect.canary_set)
    (auto simp: writeDeterministicCanary_def required_Inr elim!: bind_result_InrE dest!: lookup_row_SomeD)

lemma step_effect: "environment_step s s' \<Longrightarrow> store_effect s s'"
  by (induction rule: environment_step.induct)
    (blast intro: claim_effect row_effects stop_effects canary_effect)+

section \<open>Histories\<close>

definition history :: "environment_store \<Rightarrow> environment_store \<Rightarrow> bool" where
  "history s s' \<longleftrightarrow>
     rows_evolve environment_row_of environment_evolves s s' \<and> prefix (es_events s) (es_events s')"

lemma environment_evolves_refl: "environment_evolves r r"
  by (simp add: environment_evolves_def)

lemma canary_keeps:
  "writeDeterministicCanary now recordId v s = Inr s' \<Longrightarrow>
    es_environments s' = es_environments s \<and> es_events s' = es_events s \<and> es_next_event s' = es_next_event s"
  by (auto simp: writeDeterministicCanary_def Let_def elim!: bind_result_InrE)

lemma insert_keeps:
  assumes "insertStopEvent now recordId stopId type details s = Inr (event, s')"
  shows "es_environments s' = es_environments s" "es_events s' = es_events s @ [event]"
    "es_next_event s' = es_next_event s + 1" "es_canaries s' = es_canaries s"
    "se_event_id event = es_next_event s" "se_record_id event = recordId" "se_stop_id event = stopId"
    "se_type event = type"
  using assms by (auto simp: insertStopEvent_def Let_def split: if_splits)

lemma put_environment_keeps [simp]:
  "es_events (put_environment k f s) = es_events s" "es_next_event (put_environment k f s) = es_next_event s"
  "es_canaries (put_environment k f s) = es_canaries s"
  "es_environments (put_environment k f s) = update_where (\<lambda>r. e_record_id r = k) f (es_environments s)"
  by (simp_all add: put_environment_def)

lemma effect_history: "store_effect s s' \<Longrightarrow> history s s'"
proof (induction rule: store_effect.induct)
  case (row_added s r)
  show ?case by (auto simp: history_def rows_evolve_def lookup_row_append environment_evolves_refl)
next
  case (row_changed f k s)
  have "rows_evolve environment_row_of environment_evolves s (put_environment k f s)"
    by (rule environments.evolve_update) (use row_changed in \<open>auto simp: row_change_def environment_evolves_refl\<close>)
  then show ?case by (simp add: history_def)
qed (auto simp: history_def rows_evolve_def environment_evolves_refl insert_keeps dest!: canary_keeps)

lemma history_trans: "history s t \<Longrightarrow> history t u \<Longrightarrow> history s u"
  unfolding history_def
  by (meson rows_evolve_trans transp_environment_evolves prefix_order.trans)

lemma steps_history: "environment_steps s s' \<Longrightarrow> history s s'"
proof (induction rule: rtranclp_induct)
  case base
  show ?case by (simp add: history_def rows_evolve_def environment_evolves_refl)
next
  case (step t u)
  then show ?case by (blast intro: history_trans effect_history step_effect)
qed

section \<open>The invariant\<close>

definition attempt_ok :: "stop_event_type list \<Rightarrow> bool" where
  "attempt_ok types \<longleftrightarrow> types = [] \<or>
     hd types = Stop_Intent_Recorded \<and> count_list types Stop_Invocation_Started \<le> 1 \<and>
     count_list types Stop_Cycle_Reopened \<le> 1 \<and>
     (Stop_Cycle_Reopened \<in> set types \<longrightarrow> {Stop_Confirmed, Stop_Environment_Absent} \<inter> set types \<noteq> {})"

definition environment_inv :: "environment_store \<Rightarrow> bool" where
  "environment_inv s \<longleftrightarrow>
     environment_constraints (es_environments s) \<and>
     (\<forall>r \<in> set (es_environments s). e_retired_at r \<noteq> None \<longrightarrow> e_state r = Removed) \<and>
     1 \<le> es_next_event s \<and> map se_event_id (es_events s) = [1..<es_next_event s] \<and>
     se_record_id ` set (es_events s) \<subseteq> e_record_id ` set (es_environments s) \<and>
     distinct (map cn_record_id (es_canaries s)) \<and>
     cn_record_id ` set (es_canaries s) \<subseteq> e_record_id ` set (es_environments s) \<and>
     (\<forall>recordId stopId. attempt_ok (attempt_types recordId stopId s))"

lemma attempt_types_insert:
  "insertStopEvent now recordId stopId type details s = Inr (event, s') \<Longrightarrow>
    attempt_types k i s' = attempt_types k i s @ (if k = recordId \<and> i = stopId then [type] else [])"
  by (auto simp: attempt_types_def attempt_events_def insert_keeps)

lemma attempt_types_cong: "es_events s' = es_events s \<Longrightarrow> attempt_types k i s' = attempt_types k i s"
  by (simp add: attempt_types_def attempt_events_def)

lemma attempt_types_rows [simp]:
  "attempt_types k i (s\<lparr>es_environments := rows\<rparr>) = attempt_types k i s"
  "attempt_types k i (put_environment k' f s) = attempt_types k i s"
  by (simp_all add: attempt_types_def attempt_events_def)

lemma attempt_ok_allowed:
  assumes "attempt_ok types" and "event_allowed types type"
  shows "attempt_ok (types @ [type])"
  using assms
  by (cases types)
    (auto simp: attempt_ok_def event_allowed_def invocation_of_def count_list_0_iff split: if_splits)

lemma map_update_canary:
  "cn_record_id row = k \<Longrightarrow>
    map cn_record_id (update_where (\<lambda>r. cn_record_id r = k) (\<lambda>_. row) rows) = map cn_record_id rows"
  by (induction rows) auto

lemma effect_inv:
  assumes "store_effect s s'" and "environment_inv s"
  shows "environment_inv s'"
  using assms
proof (induction rule: store_effect.induct)
  case (row_added s r)
  then show ?case by (auto simp: environment_inv_def)
next
  case (row_changed f k s)
  have "\<forall>r \<in> set (es_environments (put_environment k f s)). e_retired_at r \<noteq> None \<longrightarrow> e_state r = Removed"
  proof
    fix r' assume "r' \<in> set (es_environments (put_environment k f s))"
    then obtain r where r: "r \<in> set (es_environments s)" "r' = (if e_record_id r = k then f r else r)"
      by (auto simp: set_update_where)
    then have "environment_row_of (e_record_id r) s = Some r"
      using row_changed.prems by (auto simp: environment_inv_def environment_constraints_def intro: lookup_row_mem)
    then show "e_retired_at r' \<noteq> None \<longrightarrow> e_state r' = Removed"
      using r row_changed by (auto simp: row_change_def environment_inv_def)
  qed
  moreover have "e_record_id ` set (es_environments (put_environment k f s)) = e_record_id ` set (es_environments s)"
    using arg_cong [OF map_update_where [of e_record_id f "\<lambda>r. e_record_id r = k" "es_environments s", OF row_changed.hyps(1)], of set]
    by simp
  ultimately show ?case using row_changed by (simp add: environment_inv_def)
next
  case (canary_set recordId s now v s')
  note keeps = canary_keeps [OF canary_set.hyps(2)]
  have "attempt_types k i s' = attempt_types k i s" for k i
    using keeps by (intro attempt_types_cong) simp
  moreover have "cn_record_id ` set (es_canaries s') \<subseteq> insert recordId (cn_record_id ` set (es_canaries s))"
    and "distinct (map cn_record_id (es_canaries s)) \<Longrightarrow> distinct (map cn_record_id (es_canaries s'))"
    using canary_set.hyps(2)
    by (auto simp: writeDeterministicCanary_def Let_def map_update_canary set_update_where elim!: bind_result_InrE
        split: if_splits)
  moreover from this(1) have "cn_record_id ` set (es_canaries s') \<subseteq> e_record_id ` set (es_environments s)"
    by (rule order_trans) (use canary_set.prems canary_set.hyps(1) in \<open>simp add: environment_inv_def\<close>)
  ultimately show ?case
    using canary_set.prems keeps unfolding environment_inv_def by auto
next
  case (event_added recordId s stopId type now details event s')
  then have "recordId \<in> e_record_id ` set (es_environments s)" by (auto dest: lookup_row_SomeD)
  then show ?case using event_added
    by (auto simp: environment_inv_def insert_keeps attempt_types_insert intro: attempt_ok_allowed)
qed

lemma inv_empty: "environment_inv empty_environment_store"
  by (simp add: environment_inv_def empty_environment_store_def environment_constraints_def attempt_types_def
      attempt_events_def attempt_ok_def)

lemma steps_inv: "environment_steps s s' \<Longrightarrow> environment_inv s \<Longrightarrow> environment_inv s'"
  by (induction rule: rtranclp_induct) (auto intro: effect_inv step_effect)

section \<open>The current environment of an owner\<close>

lemma find_by_key:
  assumes "distinct (map key (filter P rows))" and "r \<in> set rows" and "Q r"
    and "\<And>x. Q x \<Longrightarrow> P x \<and> key x = k"
  shows "List.find Q rows = Some r"
  using assms(1-3)
proof (induction rows)
  case (Cons x rows)
  show ?case
  proof (cases "Q x")
    case True
    have "x = r"
    proof (rule ccontr)
      assume "x \<noteq> r"
      then have "r \<in> set (filter P rows)" using Cons.prems(2,3) assms(4) by auto
      then have "key r \<in> key ` set (filter P rows)" by blast
      then show False using Cons.prems(1,3) True assms(4) [of x] assms(4) [of r] by auto
    qed
    then show ?thesis using True by simp
  qed (use Cons assms(4) in \<open>auto split: if_splits\<close>)
qed simp

lemma owned_by_identity:
  "environment_identity r' = environment_identity r \<Longrightarrow> owned_by b w own r' = owned_by b w own r"
  by (simp add: environment_identity_def owned_by_def)

lemma current_unique:
  assumes "environment_constraints (es_environments s)" and "environment_row_of k s = Some r"
    and "owned_by b w own r" and "e_retired_at r = None"
  shows "current b w own s = Some r"
  unfolding current_def
proof (rule find_by_key)
  show "distinct (map current_owner_key (filter (\<lambda>r. e_retired_at r = None) (es_environments s)))"
    using assms(1) by (simp add: environment_constraints_def)
  show "r \<in> set (es_environments s)" using assms(2) by (auto dest: lookup_row_SomeD)
  show "owned_by b w own r \<and> e_retired_at r = None" using assms(3,4) by simp
  show "e_retired_at x = None \<and> current_owner_key x =
      (b, w, owner_type_of own, environmentOwnerId own, case environmentOwnerGeneration own of None \<Rightarrow> 0 | Some g \<Rightarrow> g)"
    if "owned_by b w own x \<and> e_retired_at x = None" for x
    using that by (simp add: owned_by_def current_owner_key_def)
qed

lemma current_SomeD:
  "current b w own s = Some r \<Longrightarrow> r \<in> set (es_environments s) \<and> owned_by b w own r \<and> e_retired_at r = None"
  by (auto simp: current_def find_Some_iff)

lemma new_environment_id: "e_record_id (new_environment now intent) = ci_recordId intent"
  by (simp add: new_environment_def)

lemma new_environment_owned:
  "owned_by (ci_backendKind intent) (ci_workerId intent) (ci_owner intent) (new_environment now intent)"
  by (simp add: owned_by_def new_environment_def)

text \<open>A claim returns a row of the store that belongs to the owner of the intent.\<close>

lemma claimed_row:
  assumes "claimCreation now intent s = Inr ((created, r), s')" and "environment_inv s"
  shows "environment_row_of (e_record_id r) s' = Some r"
    "owned_by (ci_backendKind intent) (ci_workerId intent) (ci_owner intent) r"
  using assms(1)
proof (atomize (full), cases rule: claim_cases)
  case 1
  then show "environment_row_of (e_record_id r) s' = Some r \<and>
      owned_by (ci_backendKind intent) (ci_workerId intent) (ci_owner intent) r"
    using assms(2) by (auto simp: environment_inv_def environment_constraints_def intro: lookup_row_mem dest!: current_SomeD)
next
  case 2
  then have "r \<in> set (es_environments s')" "e_record_id r = ci_recordId intent"
    and "distinct (map e_record_id (es_environments s'))"
    and "new_environment now intent \<in> set (es_environments s')"
    by (auto simp: environment_constraints_def dest!: lookup_row_SomeD)
  then have "r = new_environment now intent"
    by (metis distinct_keys_unique new_environment_id)
  then show "environment_row_of (e_record_id r) s' = Some r \<and>
      owned_by (ci_backendKind intent) (ci_workerId intent) (ci_owner intent) r"
    using 2 new_environment_owned by (auto simp: new_environment_id)
qed

section \<open>Properties\<close>

text \<open>A record, its environment and the first stop of it, for the examples.\<close>

definition example_intent :: creation_intent where
  "example_intent = \<lparr>ci_recordId = ''rec-1'', ci_backendKind = ''sbx'', ci_workerId = ''worker-1'',
     ci_owner = Account_Owner ''account-1'' 1, ci_displayName = ''quest-account-1'', ci_incarnation = ''inc-1'',
     ci_profileId = ''profile'', ci_profileDigest = ''digest'', ci_specDigest = ''spec'', ci_creationToken = ''token'',
     ci_creatorPid = 7, ci_nativeVersion = ''1'', ci_nativeRevision = ''r'', ci_nativeApiVersion = ''2''\<rparr>"

definition example_claimed :: environment_store where
  "example_claimed = empty_environment_store\<lparr>es_environments := [new_environment ''t1'' example_intent]\<rparr>"

definition example_stop :: "stop_event_type \<Rightarrow> nat \<Rightarrow> stop_event" where
  "example_stop type n = \<lparr>se_event_id = n, se_record_id = ''rec-1'', se_stop_id = ''stop-1'', se_type = type,
     se_details = JObj [], se_occurred_at = ''t2''\<rparr>"

definition example_invoked :: environment_store where
  "example_invoked = example_claimed\<lparr>
     es_events := [example_stop Stop_Intent_Recorded 1, example_stop Stop_Invocation_Started 2], es_next_event := 3\<rparr>"

lemmas example_evaluation = example_intent_def example_claimed_def example_stop_def example_invoked_def
  empty_environment_store_def new_environment_def claimCreation_def current_def write_environments_def
  environment_constraints_def owner_check_def required_def owner_type_of_def beginStop_def latestStopAttempt_def
  stopEvents_def insertStopEvent_def requiredStopAttempt_def attempt_events_def claimStopInvocation_def
  invocation_of_def attempt_of_def Let_def

lemma example_claim:
  "claimCreation ''t1'' example_intent empty_environment_store =
     Inr ((True, new_environment ''t1'' example_intent), example_claimed)"
  by (simp add: example_evaluation)

lemma example_claim_step: "environment_reachable example_claimed"
  by (rule r_into_rtranclp, rule environment_step.claim, rule example_claim)

lemma example_begin:
  "environment_step example_claimed (example_claimed\<lparr>es_events := [example_stop Stop_Intent_Recorded 1], es_next_event := 2\<rparr>)"
  by (rule environment_step.begin_stop [where now = "''t2''" and recordId = "''rec-1''" and stopId = "''stop-1''"])
    (simp add: example_evaluation, (rule exI | rule refl)?)

lemma example_claim_stop:
  "claimStopInvocation ''t2'' ''rec-1'' ''stop-1''
     (example_claimed\<lparr>es_events := [example_stop Stop_Intent_Recorded 1], es_next_event := 2\<rparr>) =
   Inr (Some (example_stop Stop_Invocation_Started 2), example_invoked)"
  by (simp add: example_evaluation)

lemma example_history: "environment_steps example_claimed example_invoked"
  using example_begin environment_step.claim_stop [OF example_claim_stop] by (meson rtranclp.simps)

text \<open>
  C20: In every history of the store the records keep the constraints of the schema (one environment that is
  not retired per owner and per name), a retired record is removed, the event ids number the log, events and
  canaries belong to records, and each stop attempt begins with its intent, is invoked at most once and is
  reopened at most once and only after it was confirmed.
\<close>

theorem environment_store_invariant:
  assumes "environment_reachable s"
  shows "environment_inv s"
  using steps_inv [OF assms inv_empty] .

theorem environment_store_invariant_witness: "environment_inv example_invoked"
  by (rule environment_store_invariant) (rule rtranclp_trans [OF example_claim_step example_history])

text \<open>
  C21: A record is never deleted: its owner, name, incarnation and specification never change, the physical
  environment and the retirement are written once, a retired record changes no more in anything but its
  update time, and the log of stop events only grows.
\<close>

theorem environment_history:
  assumes "environment_steps s s'"
  shows "prefix (es_events s) (es_events s') \<and>
    (\<forall>recordId r. environment_row_of recordId s = Some r \<longrightarrow>
       (\<exists>r'. environment_row_of recordId s' = Some r' \<and> environment_identity r' = environment_identity r \<and>
         (e_environment_id r \<noteq> None \<longrightarrow> e_environment_id r' = e_environment_id r) \<and>
         (e_retired_at r \<noteq> None \<longrightarrow> e_retired_at r' = e_retired_at r \<and> frozen r' = frozen r)))"
proof -
  have rows: "rows_evolve environment_row_of environment_evolves s s'" and "prefix (es_events s) (es_events s')"
    using steps_history [OF assms] by (simp_all add: history_def)
  then show ?thesis
    using rows_evolveD [OF rows] unfolding environment_evolves_def write_once_def by blast
qed

theorem environment_history_witness:
  "prefix (es_events example_claimed) (es_events example_invoked) \<and>
   (\<exists>r'. environment_row_of ''rec-1'' example_invoked = Some r' \<and>
     environment_identity r' = environment_identity (new_environment ''t1'' example_intent))"
proof -
  have "environment_row_of ''rec-1'' example_claimed = Some (new_environment ''t1'' example_intent)"
    by (simp add: example_evaluation)
  then show ?thesis using environment_history [OF example_history] by blast
qed

text \<open>
  A creation is claimed once: as long as the record a claim returned is not retired, every later claim for
  the same owner on the same backend and worker creates nothing and returns that record as it is then.
\<close>

lemma creation_claimed_once:
  assumes "environment_reachable s" and "claimCreation now intent s = Inr ((created, r), s1)"
    and "environment_steps s1 s2" and "environment_row_of (e_record_id r) s2 = Some r2" and "e_retired_at r2 = None"
    and "ci_backendKind other = ci_backendKind intent" "ci_workerId other = ci_workerId intent"
      "ci_owner other = ci_owner intent"
  shows "claimCreation later other s2 = Inr ((False, r2), s2)"
proof -
  note inv = steps_inv [OF assms(1) inv_empty]
  note claimed = claimed_row [OF assms(2) inv]
  have rows: "rows_evolve environment_row_of environment_evolves s1 s2"
    using steps_history [OF assms(3)] by (simp add: history_def)
  have "environment_identity r2 = environment_identity r"
    using rows_evolveD [OF rows claimed(1)] assms(4) by (auto simp: environment_evolves_def)
  then have owned: "owned_by (ci_backendKind intent) (ci_workerId intent) (ci_owner intent) r2"
    by (rule owned_by_identity [THEN iffD2, OF _ claimed(2)])
  have "environment_inv s2"
    using steps_inv [OF assms(3)] effect_inv [OF claim_effect [OF assms(2)] inv] by blast
  then have "current (ci_backendKind intent) (ci_workerId intent) (ci_owner intent) s2 = Some r2"
    using current_unique [OF _ assms(4) owned assms(5)] by (simp add: environment_inv_def)
  then show ?thesis using assms(6-8) by (simp add: claimCreation_def)
qed

lemma creation_claimed_once_witness:
  "claimCreation ''t9'' (example_intent\<lparr>ci_recordId := ''rec-2''\<rparr>) example_invoked =
     Inr ((False, new_environment ''t1'' example_intent), example_invoked)"
  by (rule creation_claimed_once [OF rtranclp.rtrancl_refl example_claim example_history])
    (simp_all add: example_evaluation)

text \<open>
  C22: A stop is invoked once: after a claim of the invocation succeeded, every later claim for that stop of
  that record is refused and leaves the store as it is.
\<close>

theorem stop_claimed_once:
  assumes "claimStopInvocation now recordId stopId s = Inr (Some event, s1)" and "environment_steps s1 s2"
  shows "claimStopInvocation later recordId stopId s2 = Inr (None, s2)"
proof -
  have "insertStopEvent now recordId stopId Stop_Invocation_Started (JObj []) s = Inr (event, s1)"
    using assms(1) by (auto simp: claimStopInvocation_def split: if_splits elim!: bind_result_InrE)
  then have "event \<in> set (attempt_events recordId stopId s1)" "se_type event = Stop_Invocation_Started"
    by (auto simp: attempt_events_def insert_keeps)
  moreover have "set (attempt_events recordId stopId s1) \<subseteq> set (attempt_events recordId stopId s2)"
    using steps_history [OF assms(2)] by (auto simp: history_def attempt_events_def prefix_def)
  ultimately have "Stop_Invocation_Started \<in> se_type ` set (attempt_events recordId stopId s2)"
    and "attempt_events recordId stopId s2 \<noteq> []"
    by (force, auto)
  then show ?thesis
    by (simp add: claimStopInvocation_def requiredStopAttempt_def Let_def invocation_of_def)
qed

theorem stop_claimed_once_witness:
  "claimStopInvocation ''t9'' ''rec-1'' ''stop-1'' example_invoked = Inr (None, example_invoked)"
  by (rule stop_claimed_once [OF example_claim_stop rtranclp.rtrancl_refl])

end
