(* ===== verification/Step_Results.thy ===== *)
theory Step_Results
  imports Protocol_Types Harness_Identity Registry_State "HOL-Library.Sublist"
begin

text \<open>
  The files of a structured Step result (\<^verbatim>\<open>harnesses/control/result-envelope.ts\<close>): the lifecycle state of
  a completion, the envelope that a completion publishes by renaming a temporary file, its collection by the
  executor, and the control file of a lineage.

  A file system is the list of its files, a path being a directory and a name; a file holds text that
  \<^verbatim>\<open>JSON.parse\<close> reads as a value or rejects. Directories are created on demand, so a missing directory and an
  empty one are the same. \<open>date_ok\<close> is the test \<^verbatim>\<open>Number.isFinite(Date.parse(...))\<close>; random identifiers are
  arguments. A write that fails leaves the files as they were and is a case of the callers.
\<close>

section \<open>Files\<close>

type_synonym files = "((string \<times> string) \<times> stored_text) list"

definition read_file :: "string \<Rightarrow> string \<Rightarrow> files \<Rightarrow> stored_text option" where
  "read_file dir name fs = map_option snd (lookup_row fst (dir, name) fs)"

definition remove_file :: "string \<Rightarrow> string \<Rightarrow> files \<Rightarrow> files" where
  "remove_file dir name fs = filter (\<lambda>f. fst f \<noteq> (dir, name)) fs"

definition put_file :: "string \<Rightarrow> string \<Rightarrow> stored_text \<Rightarrow> files \<Rightarrow> files" where
  "put_file dir name content fs = remove_file dir name fs @ [((dir, name), content)]"

definition readdir :: "string \<Rightarrow> files \<Rightarrow> string list" where
  "readdir dir fs = map (snd \<circ> fst) (filter (\<lambda>f. fst (fst f) = dir) fs)"

section \<open>The state of a completion\<close>

datatype failure_kind = Semantic_Validation | Stale_Context | Infrastructure | Coerced_Kind json

text \<open>
  A phase or kind that was read passes when its \<^verbatim>\<open>String\<close> is one of the names, so it may be another value
  that prints like one; no writer produces such a value.
\<close>

datatype completion_phase = Awaiting_Result | Exporting | Completed_Phase | Failed_Phase | Coerced_Phase json

record completion_failure =
  cf_kind :: failure_kind
  cf_code :: string
  cf_message :: string

record completion_state =
  cp_phase :: completion_phase
  cp_semanticAccepted :: bool
  cp_acceptedAt :: "string option"
  cp_exportStartedAt :: "string option"
  cp_exportCompletedAt :: "string option"
  cp_failure :: "completion_failure option"

fun failure_kind_value :: "failure_kind \<Rightarrow> json" where
  "failure_kind_value Semantic_Validation = JStr ''semantic_validation''"
| "failure_kind_value Stale_Context = JStr ''stale_context''"
| "failure_kind_value Infrastructure = JStr ''infrastructure''"
| "failure_kind_value (Coerced_Kind v) = v"

fun completion_phase_value :: "completion_phase \<Rightarrow> json" where
  "completion_phase_value Awaiting_Result = JStr ''awaiting_result''"
| "completion_phase_value Exporting = JStr ''exporting''"
| "completion_phase_value Completed_Phase = JStr ''completed''"
| "completion_phase_value Failed_Phase = JStr ''failed''"
| "completion_phase_value (Coerced_Phase v) = v"

definition completion_failure_value :: "completion_failure \<Rightarrow> json" where
  "completion_failure_value f = JObj
     [(''kind'', failure_kind_value (cf_kind f)), (''code'', JStr (cf_code f)), (''message'', JStr (cf_message f))]"

definition completion_state_value :: "completion_state \<Rightarrow> json" where
  "completion_state_value c = JObj
     ([(''phase'', completion_phase_value (cp_phase c)), (''semanticAccepted'', JBool (cp_semanticAccepted c))] @
      j_optional ''acceptedAt'' JStr (cp_acceptedAt c) @
      j_optional ''exportStartedAt'' JStr (cp_exportStartedAt c) @
      j_optional ''exportCompletedAt'' JStr (cp_exportCompletedAt c) @
      j_optional ''failure'' completion_failure_value (cp_failure c))"

definition failure_kind_of :: "json \<Rightarrow> failure_kind" where
  "failure_kind_of v =
     (if v = JStr ''semantic_validation'' then Semantic_Validation
      else if v = JStr ''stale_context'' then Stale_Context
      else if v = JStr ''infrastructure'' then Infrastructure else Coerced_Kind v)"

definition completion_phase_of :: "json \<Rightarrow> completion_phase" where
  "completion_phase_of v =
     (if v = JStr ''awaiting_result'' then Awaiting_Result
      else if v = JStr ''exporting'' then Exporting
      else if v = JStr ''completed'' then Completed_Phase
      else if v = JStr ''failed'' then Failed_Phase else Coerced_Phase v)"

text \<open>The textual reading of a member; an absent member prints as \<^verbatim>\<open>undefined\<close>.\<close>

definition member_String :: "(string \<times> json) list \<Rightarrow> string \<Rightarrow> string" where
  "member_String es k = (case member es k of None \<Rightarrow> ''undefined'' | Some v \<Rightarrow> js_String v)"

definition valid_completion_failure :: "json \<Rightarrow> bool" where
  "valid_completion_failure v =
     (case v of
        JObj es \<Rightarrow> member_String es ''kind'' \<in> {''semantic_validation'', ''infrastructure'', ''stale_context''} \<and>
          (case member es ''code'' of Some (JStr _) \<Rightarrow> True | _ \<Rightarrow> False) \<and>
          (case member es ''message'' of Some (JStr _) \<Rightarrow> True | _ \<Rightarrow> False)
      | _ \<Rightarrow> False)"

definition valid_date :: "(string \<Rightarrow> bool) \<Rightarrow> json option \<Rightarrow> bool" where
  "valid_date date_ok v = (case v of None \<Rightarrow> True | Some (JStr t) \<Rightarrow> date_ok t | _ \<Rightarrow> False)"

definition validStructuredCompletionState :: "(string \<Rightarrow> bool) \<Rightarrow> json \<Rightarrow> bool" where
  "validStructuredCompletionState date_ok v =
     (case v of
        JObj es \<Rightarrow>
          member_String es ''phase'' \<in> {''awaiting_result'', ''exporting'', ''completed'', ''failed''} \<and>
          (case member es ''semanticAccepted'' of Some (JBool _) \<Rightarrow> True | _ \<Rightarrow> False) \<and>
          list_all (\<lambda>field. valid_date date_ok (member es field))
            [''acceptedAt'', ''exportStartedAt'', ''exportCompletedAt''] \<and>
          (case member es ''failure'' of None \<Rightarrow> True | Some f \<Rightarrow> valid_completion_failure f)
      | _ \<Rightarrow> False)"

definition member_text :: "(string \<times> json) list \<Rightarrow> string \<Rightarrow> string option" where
  "member_text es k = (case member es k of Some (JStr s) \<Rightarrow> Some s | _ \<Rightarrow> None)"

definition completion_failure_of :: "json \<Rightarrow> completion_failure option" where
  "completion_failure_of v =
     (case v of
        JObj es \<Rightarrow> (case (member es ''kind'', member_text es ''code'', member_text es ''message'') of
            (Some k, Some code, Some message) \<Rightarrow>
              Some \<lparr>cf_kind = failure_kind_of k, cf_code = code, cf_message = message\<rparr>
          | _ \<Rightarrow> None)
      | _ \<Rightarrow> None)"

definition completion_state_of :: "(string \<times> json) list \<Rightarrow> completion_state" where
  "completion_state_of es = \<lparr>
     cp_phase = completion_phase_of (the (member es ''phase'')),
     cp_semanticAccepted = (member es ''semanticAccepted'' = Some (JBool True)),
     cp_acceptedAt = member_text es ''acceptedAt'', cp_exportStartedAt = member_text es ''exportStartedAt'',
     cp_exportCompletedAt = member_text es ''exportCompletedAt'',
     cp_failure = (case member es ''failure'' of None \<Rightarrow> None | Some f \<Rightarrow> completion_failure_of f)\<rparr>"

section \<open>Failures\<close>

datatype result_error =
    Unreadable_Json | Read_Failed string
  | Completion_State_Invalid
  | No_Step_Result | Several_Step_Results nat
  | Envelope_Invalid
  | Outputs_Mismatch "string list" "string list"
  | Control_File_Invalid

fun result_message :: "result_error \<Rightarrow> string" where
  "result_message Unreadable_Json = ''JSON Parse error''"
| "result_message (Read_Failed message) = message"
| "result_message Completion_State_Invalid = ''Structured completion lifecycle state is invalid.''"
| "result_message No_Step_Result = ''Harness settled without a structured step result.''"
| "result_message (Several_Step_Results n) =
     ''Harness produced '' @ show_nat n @ '' structured step results; exactly one is required.''"
| "result_message Envelope_Invalid = ''Structured step result envelope or identity is invalid.''"
| "result_message (Outputs_Mismatch missing undeclared) =
     ''Structured outputs do not match declarations (missing: '' @
       (if join '','' missing = [] then ''none'' else join '','' missing) @ ''; undeclared: '' @
       (if join '','' undeclared = [] then ''none'' else join '','' undeclared) @ '').''"
| "result_message Control_File_Invalid = ''Result control file is invalid.''"

definition STEP_RESULT_PROTOCOL_VERSION :: int where
  "STEP_RESULT_PROTOCOL_VERSION = 1"

section \<open>Reading and writing the state\<close>

definition completion_record_value :: "dispatch_record \<Rightarrow> completion_state \<Rightarrow> json" where
  "completion_record_value dispatch state = JObj
     [(''protocolVersion'', JNum STEP_RESULT_PROTOCOL_VERSION),
      (''kind'', JStr ''quest_engineering_structured_completion''),
      (''actionId'', JStr (act_action_id (rec_action dispatch))),
      (''attemptId'', JStr (act_attempt_id (rec_action dispatch))),
      (''nonce'', JStr (rec_resultNonce dispatch)), (''state'', completion_state_value state)]"

definition writeStructuredCompletionState :: "dispatch_record \<Rightarrow> completion_state \<Rightarrow> files \<Rightarrow> files" where
  "writeStructuredCompletionState dispatch state fs =
     put_file (rec_resultDirectory dispatch) ''structured-completion-state.json''
       (Stored (completion_record_value dispatch state)) fs"

definition readStructuredCompletionState ::
  "(string \<Rightarrow> bool) \<Rightarrow> dispatch_record \<Rightarrow> files \<Rightarrow> result_error + completion_state option" where
  "readStructuredCompletionState date_ok dispatch fs =
     (case read_file (rec_resultDirectory dispatch) ''structured-completion-state.json'' fs of
        None \<Rightarrow> Inr None
      | Some (Garbage _) \<Rightarrow> Inl Unreadable_Json
      | Some (Stored (JObj es)) \<Rightarrow>
          (if member es ''protocolVersion'' = Some (JNum STEP_RESULT_PROTOCOL_VERSION) \<and>
              member es ''kind'' = Some (JStr ''quest_engineering_structured_completion'') \<and>
              member es ''actionId'' = Some (JStr (act_action_id (rec_action dispatch))) \<and>
              member es ''attemptId'' = Some (JStr (act_attempt_id (rec_action dispatch))) \<and>
              member es ''nonce'' = Some (JStr (rec_resultNonce dispatch))
           then case member es ''state'' of
               Some (JObj state) \<Rightarrow>
                 if validStructuredCompletionState date_ok (JObj state) then Inr (Some (completion_state_of state))
                 else Inl Completion_State_Invalid
             | _ \<Rightarrow> Inl Completion_State_Invalid
           else Inl Completion_State_Invalid)
      | Some (Stored _) \<Rightarrow> Inl Completion_State_Invalid)"

section \<open>Results\<close>

record step_result_envelope =
  se_workerId :: string
  se_actionId :: string
  se_runId :: string
  se_occurrenceId :: string
  se_attemptId :: string
  se_nonce :: string
  se_createdAt :: string
  se_outputs :: json_record

definition envelope_entries :: "step_result_envelope \<Rightarrow> json_record" where
  "envelope_entries e =
     [(''protocolVersion'', JNum STEP_RESULT_PROTOCOL_VERSION), (''kind'', JStr ''quest_engineering_step_result''),
      (''workerId'', JStr (se_workerId e)), (''actionId'', JStr (se_actionId e)), (''runId'', JStr (se_runId e)),
      (''occurrenceId'', JStr (se_occurrenceId e)), (''attemptId'', JStr (se_attemptId e)),
      (''nonce'', JStr (se_nonce e)), (''createdAt'', JStr (se_createdAt e)), (''outputs'', JObj (se_outputs e))]"

definition envelope_value :: "step_result_envelope \<Rightarrow> json" where
  "envelope_value e = JObj (envelope_entries e)"

text \<open>The pattern \<^verbatim>\<open>/^result-[a-zA-Z0-9_-]+\.json$/\<close>.\<close>

definition name_char :: "char \<Rightarrow> bool" where
  "name_char c = (token_char c \<and> c \<noteq> CHR ''.'' \<and> c \<noteq> CHR '':'')"

definition result_name :: "string \<Rightarrow> bool" where
  "result_name name =
     (take 7 name = ''result-'' \<and> drop (length name - 5) name = ''.json'' \<and> 12 < length name \<and>
      list_all name_char (drop 7 (take (length name - 5) name)))"

definition result_names :: "string \<Rightarrow> files \<Rightarrow> string list" where
  "result_names dir fs = filter result_name (readdir dir fs)"

definition hasStepResult :: "dispatch_record \<Rightarrow> files \<Rightarrow> bool" where
  "hasStepResult dispatch fs = list_ex result_name (readdir (rec_resultDirectory dispatch) fs)"

text \<open>The publication: the temporary file that was written, and its renaming.\<close>

record prepared_result =
  pr_directory :: string
  pr_temporary :: string
  pr_destination :: string
  pr_content :: json

definition safe_call_id :: "string \<Rightarrow> string \<Rightarrow> string" where
  "safe_call_id fallback toolCallId =
     (let safe = take 80 (filter name_char toolCallId) in if safe = [] then fallback else safe)"

definition prepareStepResultAtomic ::
  "string \<Rightarrow> string \<Rightarrow> string \<Rightarrow> string \<Rightarrow> step_result_envelope \<Rightarrow> files \<Rightarrow> prepared_result \<times> files" where
  "prepareStepResultAtomic fallback uuid directory toolCallId envelope fs =
     (let publication = safe_call_id fallback toolCallId @ ''-'' @ uuid;
          temporary = ''.result-'' @ publication @ ''.tmp'' in
      (\<lparr>pr_directory = directory, pr_temporary = temporary,
         pr_destination = ''result-'' @ publication @ ''.json'', pr_content = envelope_value envelope\<rparr>,
       put_file directory temporary (Stored (envelope_value envelope)) fs))"

definition publish :: "prepared_result \<Rightarrow> files \<Rightarrow> files" where
  "publish p fs = put_file (pr_directory p) (pr_destination p) (Stored (pr_content p))
     (remove_file (pr_directory p) (pr_temporary p) fs)"

definition writeStepResultAtomic ::
  "string \<Rightarrow> string \<Rightarrow> string \<Rightarrow> string \<Rightarrow> step_result_envelope \<Rightarrow> files \<Rightarrow> string \<times> files" where
  "writeStepResultAtomic fallback uuid directory toolCallId envelope fs =
     (let (prepared, fs1) = prepareStepResultAtomic fallback uuid directory toolCallId envelope fs in
      (pr_destination prepared, publish prepared fs1))"

text \<open>A value of the model is JSON-compatible, so the second check of \<^verbatim>\<open>validateOutputs\<close> always passes.\<close>

definition validateOutputs :: "string list \<Rightarrow> json_record \<Rightarrow> result_error + unit" where
  "validateOutputs declared outputs =
     (let actual = sort (map fst outputs); expected = sort declared in
      if actual \<noteq> expected
      then Inl (Outputs_Mismatch (filter (\<lambda>k. k \<notin> set actual) expected) (filter (\<lambda>k. k \<notin> set expected) actual))
      else Inr ())"

text \<open>
  The check of a parsed file, which narrows its type and changes nothing: what is collected is the
  parsed value itself, members the check does not read included.
\<close>

definition validateEnvelope ::
  "(string \<Rightarrow> bool) \<Rightarrow> json \<Rightarrow> dispatch_record \<Rightarrow> result_error + json_record" where
  "validateEnvelope date_ok v dispatch =
     (let action = rec_action dispatch in
      case v of
        JObj es \<Rightarrow>
          (case (member_text es ''createdAt'', member es ''outputs'') of
             (Some createdAt, Some (JObj outputs)) \<Rightarrow>
               if member es ''protocolVersion'' \<noteq> Some (JNum STEP_RESULT_PROTOCOL_VERSION) \<or>
                  member es ''kind'' \<noteq> Some (JStr ''quest_engineering_step_result'') \<or>
                  member es ''workerId'' \<noteq> Some (JStr (act_worker_id action)) \<or>
                  member es ''actionId'' \<noteq> Some (JStr (act_action_id action)) \<or>
                  member es ''runId'' \<noteq> Some (JStr (act_run_id action)) \<or>
                  member es ''occurrenceId'' \<noteq> Some (JStr (act_occurrence_id action)) \<or>
                  member es ''attemptId'' \<noteq> Some (JStr (act_attempt_id action)) \<or>
                  member es ''nonce'' \<noteq> Some (JStr (rec_resultNonce dispatch)) \<or> \<not> date_ok createdAt
               then Inl Envelope_Invalid
               else bind_result (validateOutputs (act_declared_outputs action) outputs) (\<lambda>_. Inr es)
           | _ \<Rightarrow> Inl Envelope_Invalid)
      | _ \<Rightarrow> Inl Envelope_Invalid)"

definition collectStepResult ::
  "(string \<Rightarrow> bool) \<Rightarrow> dispatch_record \<Rightarrow> files \<Rightarrow> result_error + json_record \<times> string" where
  "collectStepResult date_ok dispatch fs =
     (case sort (result_names (rec_resultDirectory dispatch) fs) of
        [] \<Rightarrow> Inl No_Step_Result
      | [name] \<Rightarrow> (case read_file (rec_resultDirectory dispatch) name fs of
            Some (Stored v) \<Rightarrow> bind_result (validateEnvelope date_ok v dispatch) (\<lambda>envelope. Inr (envelope, name))
          | _ \<Rightarrow> Inl Unreadable_Json)
      | names \<Rightarrow> Inl (Several_Step_Results (length names)))"

section \<open>The control file of a lineage\<close>

record result_control =
  rc_workerId :: string
  rc_lineageId :: string
  rc_action :: execute_action
  rc_nonce :: string
  rc_resultDirectory :: string

definition writeControlAtomic :: "string \<Rightarrow> string \<Rightarrow> result_control \<Rightarrow> files \<Rightarrow> files" where
  "writeControlAtomic dir name control fs = put_file dir name (Stored (JObj
     [(''protocolVersion'', JNum STEP_RESULT_PROTOCOL_VERSION), (''workerId'', JStr (rc_workerId control)),
      (''lineageId'', JStr (rc_lineageId control)), (''action'', action_value (rc_action control)),
      (''nonce'', JStr (rc_nonce control)), (''resultDirectory'', JStr (rc_resultDirectory control))])) fs"

text \<open>The reader checks the shape of the members and returns the value it read.\<close>

definition readControl :: "string \<Rightarrow> string \<Rightarrow> files \<Rightarrow> result_error + json_record" where
  "readControl dir name fs =
     (case read_file dir name fs of
        None \<Rightarrow> Inl (Read_Failed ''ENOENT'')
      | Some (Garbage _) \<Rightarrow> Inl Unreadable_Json
      | Some (Stored (JObj es)) \<Rightarrow>
          if member es ''protocolVersion'' = Some (JNum STEP_RESULT_PROTOCOL_VERSION) \<and>
             list_all (\<lambda>k. member_text es k \<noteq> None) [''workerId'', ''lineageId'', ''nonce'', ''resultDirectory''] \<and>
             (case member es ''action'' of Some (JObj _) \<Rightarrow> True | _ \<Rightarrow> False)
          then Inr es else Inl Control_File_Invalid
      | Some (Stored _) \<Rightarrow> Inl Control_File_Invalid)"

end
