(* ===== verification/Control_Authority.thy ===== *)
theory Control_Authority
  imports Step_Results Registry_Attention
begin

text \<open>
  The authority that every harness integration reports to (\<^verbatim>\<open>harnesses/control/authority.ts\<close>). A native
  process holds an opaque token; the context behind it names the dispatch and lineage the token was issued
  for, and every operation is checked against the registry before it changes anything.

  The code is asynchronous: the model cuts each function at its \<^verbatim>\<open>await\<close> points and makes one definition of
  every stretch in between, which runs without interruption. What a stretch of an operation leaves for later
  is kept in the context (\<open>cc_queue\<close> for \<^verbatim>\<open>operationTail\<close>, \<open>cc_pending\<close> for the operation at an
  \<^verbatim>\<open>await\<close>, \<open>cc_finishing\<close> for the completion that runs in the background) or in the state of the authority
  (\<open>ct_binds\<close>, \<open>ct_receiving\<close>). What it tells others is a list of \<open>control_output\<close>s.

  Time, random identifiers, the outcome of a write, and the completion boundary (the verification of the
  physical workspace, which is another component) are arguments.
\<close>

section \<open>Operations and results\<close>

datatype control_code =
    Invalid_Request | Bridge_Generation_Mismatch | Unknown_Control_Context | Stale_Control_Context
  | Replayed_Request | Invalid_Step_Result | Invalid_Attention | Human_Attention_Request_Rejected
  | Human_Attention_Wait_Unavailable | Human_Attention_Response_Invalid | Human_Attention_Delivery_Uncertain
  | Stale_Human_Attention_Response | Bridge_Unavailable | Invalid_Bridge_Response

fun code_text :: "control_code \<Rightarrow> string" where
  "code_text Invalid_Request = ''invalid_request''"
| "code_text Bridge_Generation_Mismatch = ''bridge_generation_mismatch''"
| "code_text Unknown_Control_Context = ''unknown_control_context''"
| "code_text Stale_Control_Context = ''stale_control_context''"
| "code_text Replayed_Request = ''replayed_request''"
| "code_text Invalid_Step_Result = ''invalid_step_result''"
| "code_text Invalid_Attention = ''invalid_attention''"
| "code_text Human_Attention_Request_Rejected = ''human_attention_request_rejected''"
| "code_text Human_Attention_Wait_Unavailable = ''human_attention_wait_unavailable''"
| "code_text Human_Attention_Response_Invalid = ''human_attention_response_invalid''"
| "code_text Human_Attention_Delivery_Uncertain = ''human_attention_delivery_uncertain''"
| "code_text Stale_Human_Attention_Response = ''stale_human_attention_response''"
| "code_text Bridge_Unavailable = ''bridge_unavailable''"
| "code_text Invalid_Bridge_Response = ''invalid_bridge_response''"

text \<open>A control error carries its code and message; other errors keep what they are.\<close>

datatype control_error =
    Control_Error control_code string | Registry_Failure registry_error | Result_Failure result_error | Io_Failure string

record wait_handle =
  wh_attentionId :: string
  wh_requestGeneration :: int

record assistance_request =
  asq_category :: string
  asq_message :: string
  asq_interaction :: "string option"
  asq_responseSchema :: "json option"
  asq_origin :: "json option"

datatype resolution = Resolved_Completed | Resolved_Cannot_Complete

datatype control_operation =
    Complete_Step json_record
  | Report_Completion_Failure completion_failure
  | Request_Human_Assistance assistance_request
  | Wait_For_Response wait_handle
  | Acknowledge_Response wait_handle string
  | Resolve_Assistance string resolution
  | Yield_To_Human string
  | Automation_Resumed string
  | Report_State session_state
  | Completion_Status
  | Native_Stop string bool "string option"

datatype wait_result = Wait_Responded human_attention_response string | Wait_Cancelled string string

datatype stop_cause =
    Completion_Omitted | Completion_Semantic_Validation | Completion_Infrastructure | Readiness_Probe

datatype stop_decision =
    Allow_Stop | Continue_Stop stop_cause string "nat option" | Contract_Violation string nat

record control_binding =
  cb_actionId :: string
  cb_attemptId :: string
  cb_lineageId :: string
  cb_resultNonce :: string

text \<open>The optional members of a result; the intervention is optional and nullable.\<close>

record control_result =
  cr_duplicate :: bool
  cr_completed :: "bool option"
  cr_semanticAccepted :: "bool option"
  cr_completion :: "completion_state option"
  cr_contractViolation :: "string option"
  cr_attention :: "human_attention option"
  cr_attentionWaitHandle :: "wait_handle option"
  cr_humanAttentionWait :: "wait_result option"
  cr_intervention :: "human_intervention_lifecycle option option"
  cr_nativeStop :: "stop_decision option"
  cr_binding :: "control_binding option"

definition accepted_result :: control_result where
  "accepted_result = \<lparr>cr_duplicate = False, cr_completed = None, cr_semanticAccepted = None, cr_completion = None,
     cr_contractViolation = None, cr_attention = None, cr_attentionWaitHandle = None, cr_humanAttentionWait = None,
     cr_intervention = None, cr_nativeStop = None, cr_binding = None\<rparr>"

datatype receipt_state = Receipt_Acknowledged | Receipt_Uncertain | Receipt_Withdrawn withdrawal

record delivery_receipt =
  dr_attentionId :: string
  dr_requestGeneration :: int
  dr_deliveryAttemptId :: "string option"
  dr_state :: receipt_state
  dr_observedAt :: string
  dr_reason :: "string option"

section \<open>State\<close>

text \<open>
  An operation waiting for a directory listing keeps the answer once it was read; \<open>Completing_Write\<close> and
  \<open>Completing_Abandoned\<close> are about to write the state file, \<open>Completing_Written\<close> has written it. A finishing
  completion verifies, prepares its file, publishes it, and records the outcome.
\<close>

datatype pending =
    Completing string json_record "bool option"
  | Completing_Write string json_record
  | Completing_Written string json_record
  | Completing_Abandoned string control_error
  | Reporting_Status string harness_lineage "bool option"
  | Stopping string "bool option"

datatype finishing =
    Verifying string json_record
  | Preparing string step_result_envelope
  | Publishing prepared_result step_result_envelope
  | Recording_Completed
  | Recording_Failure

record control_context =
  cc_contextToken :: string
  cc_dispatch :: dispatch_record
  cc_lineageId :: string
  cc_requests :: "(string \<times> control_result) list"
  cc_enforcementAttempts :: nat
  cc_contractViolation :: "string option"
  cc_lastCompletionFailure :: "completion_failure option"
  cc_completion :: completion_state
  cc_invalidated :: bool
  cc_recoverability :: recoverability
  cc_queue :: "(string \<times> control_operation) list"
  cc_pending :: "pending option"
  cc_finishing :: "finishing option"

datatype bind_stage =
    Reading_State
  | Reading_Results "completion_state option"
  | Deciding "completion_state option" bool
  | Writing_Failed completion_state
  | Ready_To_Bind "completion_state option"

record bind_progress =
  bp_token :: string
  bp_dispatch :: dispatch_record
  bp_lineage :: harness_lineage
  bp_recoverability :: recoverability
  bp_stage :: bind_stage

record waiter =
  wt_contextToken :: string
  wt_waitHandle :: wait_handle

text \<open>
  \<open>ct_contexts\<close> holds every context that was created, \<open>ct_live\<close> the tokens in the map \<^verbatim>\<open>contexts\<close>.
\<close>

record control =
  ct_registry :: registry
  ct_files :: files
  ct_endpoint :: bool
  ct_contexts :: "control_context list"
  ct_live :: "string list"
  ct_tokens :: "(string \<times> string) list"
  ct_waiters :: "(string \<times> waiter) list"
  ct_binds :: "bind_progress list"
  ct_receiving :: "(string \<times> string \<times> dispatch_record) list"

record control_config =
  cl_generation :: string
  cl_maxStopEnforcements :: nat
  cl_has_boundary :: bool
  cl_date_ok :: "string \<Rightarrow> bool"
  cl_registry_text :: "registry_error \<Rightarrow> string"

datatype control_output =
    Reply string string "control_error + control_result"
  | Settle string string "control_error + control_result"
  | Delivery_Report delivery_receipt
  | Attention_Report string string
  | Bound string string
  | Bind_Failed string control_error
  | Published string string string step_result_envelope

definition MAX_ACTIVE_ATTENTION_WAITS :: nat where
  "MAX_ACTIVE_ATTENTION_WAITS = 64"

abbreviation context_of :: "string \<Rightarrow> control \<Rightarrow> control_context option" where
  "context_of token s \<equiv> lookup_row cc_contextToken token (ct_contexts s)"

definition update_context :: "string \<Rightarrow> (control_context \<Rightarrow> control_context) \<Rightarrow> control \<Rightarrow> control" where
  "update_context token f s = s\<lparr>ct_contexts := update_where (\<lambda>c. cc_contextToken c = token) f (ct_contexts s)\<rparr>"

definition token_of :: "string \<Rightarrow> control \<Rightarrow> string option" where
  "token_of lineageId s = map_of (ct_tokens s) lineageId"

definition drop_key :: "string \<Rightarrow> (string \<times> 'a) list \<Rightarrow> (string \<times> 'a) list" where
  "drop_key k xs = filter (\<lambda>x. fst x \<noteq> k) xs"

definition set_key :: "string \<Rightarrow> 'a \<Rightarrow> (string \<times> 'a) list \<Rightarrow> (string \<times> 'a) list" where
  "set_key k v xs = drop_key k xs @ [(k, v)]"

section \<open>Errors\<close>

fun error_message :: "control_config \<Rightarrow> control_error \<Rightarrow> string" where
  "error_message cfg (Control_Error code message) = message"
| "error_message cfg (Registry_Failure e) = cl_registry_text cfg e"
| "error_message cfg (Result_Failure e) = result_message e"
| "error_message cfg (Io_Failure message) = message"

definition failure :: "control_config \<Rightarrow> control_error \<Rightarrow> control_code \<times> string" where
  "failure cfg e = (case e of Control_Error code message \<Rightarrow> (code, message) | _ \<Rightarrow> (Invalid_Request, error_message cfg e))"

definition completionExportFailure :: "control_config \<Rightarrow> control_error \<Rightarrow> completion_failure" where
  "completionExportFailure cfg e =
     (case e of
        Control_Error code message \<Rightarrow>
          \<lparr>cf_kind = (if code \<in> {Bridge_Generation_Mismatch, Unknown_Control_Context, Stale_Control_Context}
             then Stale_Context else Infrastructure), cf_code = code_text code, cf_message = message\<rparr>
      | _ \<Rightarrow> \<lparr>cf_kind = Infrastructure, cf_code = ''invalid_bridge_response'',
           cf_message = ''Physical workspace export verification failed: '' @ error_message cfg e\<rparr>)"

definition lift_registry :: "registry_error + 'a \<Rightarrow> control_error + 'a" where
  "lift_registry r = (case r of Inl e \<Rightarrow> Inl (Registry_Failure e) | Inr x \<Rightarrow> Inr x)"

lemma lift_registry_Inr [simp]: "lift_registry r = Inr x \<longleftrightarrow> r = Inr x"
  by (auto simp: lift_registry_def split: sum.splits)

section \<open>The current context\<close>

definition stale_error :: control_error where
  "stale_error = Control_Error Stale_Control_Context ''Harness control context is stale for the active Action or Attempt.''"

text \<open>Whether \<^verbatim>\<open>assertCurrent\<close> passes; the result is the dispatch as the registry holds it.\<close>

definition current_dispatch :: "control_context \<Rightarrow> control \<Rightarrow> control_error + dispatch_record" where
  "current_dispatch c s =
     bind_result (lift_registry (get (act_action_id (rec_action (cc_dispatch c))) (ct_registry s))) (\<lambda>dispatch.
     bind_result (lift_registry (getLineage (cc_lineageId c) (ct_registry s))) (\<lambda>lineage.
       if cc_invalidated c \<or> cc_contextToken c \<notin> set (ct_live s) \<or>
          rec_resultNonce dispatch \<noteq> rec_resultNonce (cc_dispatch c) \<or>
          rec_lineageId dispatch \<noteq> Some (cc_lineageId c) \<or>
          rec_state dispatch \<notin> {Accepted, Running} \<or>
          lin_activeActionId lineage \<noteq> Some (act_action_id (rec_action dispatch)) \<or>
          token_of (cc_lineageId c) s \<noteq> Some (cc_contextToken c)
       then Inl stale_error else Inr dispatch))"

definition assertCurrent :: "string \<Rightarrow> control \<Rightarrow> control_error + control" where
  "assertCurrent token s =
     (case context_of token s of
        None \<Rightarrow> Inl stale_error
      | Some c \<Rightarrow> bind_result (current_dispatch c s) (\<lambda>dispatch.
          Inr (update_context token (\<lambda>c. c\<lparr>cc_dispatch := dispatch\<rparr>) s)))"

section \<open>Human attention\<close>

type_synonym control_outcome = "(control_error + control_result) \<times> control_output list \<times> control"

definition attention_report :: "dispatch_record \<Rightarrow> string \<Rightarrow> control_output" where
  "attention_report dispatch lineageId = Attention_Report (act_action_id (rec_action dispatch)) lineageId"

definition requested_attention :: "string \<Rightarrow> string \<Rightarrow> assistance_request \<Rightarrow> human_attention" where
  "requested_attention now attentionId request = \<lparr>
     att_attentionId = attentionId, att_requestGeneration = 1, att_category = asq_category request,
     att_message = take 240 (trim (asq_message request)), att_requestedAt = now, att_responseState = Pending,
     att_deliveryState = Response_Not_Delivered, att_deliveryAttemptId = None, att_origin = asq_origin request,
     att_interaction = map_option (\<lambda>kind. JObj
       ([(''kind'', JStr kind), (''controlState'', JStr ''intervention_pending'')] @
        (if kind = ''conversational_intervention'' then [(''resumeCommand'', JStr ''/qe-resume'')] else [])))
       (asq_interaction request),
     att_responseSchema = asq_responseSchema request\<rparr>"

definition requested_intervention ::
  "string \<Rightarrow> string \<Rightarrow> assistance_request \<Rightarrow> human_intervention_lifecycle option" where
  "requested_intervention now attentionId request =
     (if asq_interaction request = Some ''conversational_intervention''
      then Some \<lparr>inter_attentionId = attentionId, inter_state = Intervention_Pending, inter_requestedAt = now,
        inter_handedBackAt = None, inter_automationResumedAt = None\<rparr> else None)"

definition requested_value :: "assistance_request \<Rightarrow> json" where
  "requested_value request = JObj
     ([(''category'', JStr (asq_category request)), (''message'', JStr (take 240 (trim (asq_message request))))] @
      j_optional ''interaction'' JStr (asq_interaction request) @
      j_optional ''responseSchema'' id (asq_responseSchema request) @
      j_optional ''origin'' id (asq_origin request))"

definition requestAttention ::
  "control_config \<Rightarrow> string \<Rightarrow> string \<Rightarrow> control_context \<Rightarrow> assistance_request \<Rightarrow> string \<Rightarrow> control \<Rightarrow> control_outcome" where
  "requestAttention cfg now attentionId c request requestId s =
     (if take 240 (trim (asq_message request)) = []
      then (Inl (Control_Error Invalid_Attention ''Human assistance message is required.''), [], s)
      else case bind_result (lift_registry (getLineage (cc_lineageId c) (ct_registry s))) (\<lambda>lineage.
          lift_registry (registerHumanAttention
            \<lparr>regi_dispatch = cc_dispatch c, regi_lineage = lineage, regi_registrationRequestId = requestId,
              regi_attention = requested_attention now attentionId request,
              regi_intervention = requested_intervention now attentionId request,
              regi_request = requested_value request, regi_recoverability = cc_recoverability c,
              regi_controllerGeneration = cl_generation cfg\<rparr> (ct_registry s))) of
        Inl e \<Rightarrow> (Inl e, [], s)
      | Inr (row, reg) \<Rightarrow>
          let s1 = s\<lparr>ct_registry := reg\<rparr> in
          (case lift_registry (getLineage (cc_lineageId c) reg) of
             Inl e \<Rightarrow> (Inl e, [], s1)
           | Inr current \<Rightarrow>
               (case lin_attention current of
                  Some attention \<Rightarrow>
                    if att_attentionId attention = h_attention_id row
                    then (Inr (accepted_result\<lparr>cr_attention := Some attention,
                        cr_attentionWaitHandle := Some \<lparr>wh_attentionId = h_attention_id row,
                          wh_requestGeneration = h_request_generation row\<rparr>,
                        cr_intervention := Some (requested_intervention now attentionId request)\<rparr>),
                      [attention_report (cc_dispatch c) (cc_lineageId c)], s1)
                    else (Inl (Control_Error Human_Attention_Request_Rejected
                        ''The durable HumanAttention request is no longer active.''), [], s1)
                | None \<Rightarrow> (Inl (Control_Error Human_Attention_Request_Rejected
                      ''The durable HumanAttention request is no longer active.''), [], s1))))"

definition assertAttentionWaitBinding ::
  "control_config \<Rightarrow> control_context \<Rightarrow> wait_handle \<Rightarrow> control \<Rightarrow> control_error + HumanAttentionRequestRow" where
  "assertAttentionWaitBinding cfg c handle s =
     (case getHumanAttentionRequest (wh_attentionId handle) (ct_registry s) of
        Inl _ \<Rightarrow> Inl (Control_Error Stale_Human_Attention_Response ''HumanAttention wait handle is unknown.'')
      | Inr request \<Rightarrow>
          bind_result (lift_registry (getLineage (cc_lineageId c) (ct_registry s))) (\<lambda>lineage.
          bind_result (lift_registry (lift_identity (nativeSessionPublicId (lin_nativeSession lineage)))) (\<lambda>session.
          if h_request_generation request \<noteq> wh_requestGeneration handle \<or>
             h_action_id request \<noteq> act_action_id (rec_action (cc_dispatch c)) \<or>
             h_attempt_id request \<noteq> act_attempt_id (rec_action (cc_dispatch c)) \<or>
             h_lineage_id request \<noteq> cc_lineageId c \<or>
             h_harness_execution_id request \<noteq> lin_lineageId lineage \<or>
             h_native_session_id request \<noteq> session
          then Inl (Control_Error Stale_Human_Attention_Response
            ''HumanAttention wait handle does not match the exact current execution.'')
          else if h_controller_generation request \<noteq> cl_generation cfg \<and> h_recoverability request \<noteq> Rebind_Exact
          then Inl (Control_Error Human_Attention_Wait_Unavailable
            ''This adapter declares that its native HumanAttention wait cannot be rebound after Worker loss.'')
          else Inr request)))"

definition deliverCommittedAttentionResponse ::
  "string \<Rightarrow> string \<Rightarrow> control \<Rightarrow> (control_error + control_result) \<times> control" where
  "deliverCommittedAttentionResponse now attentionId s =
     (case lift_registry (getHumanAttentionRequest attentionId (ct_registry s)) of
        Inl e \<Rightarrow> (Inl e, s)
      | Inr current \<Rightarrow>
          if h_delivery_state current \<noteq> Response_Not_Delivered
          then (Inl (Control_Error Human_Attention_Delivery_Uncertain
            ''HumanAttention response delivery was already requested and will not be replayed automatically.''), s)
          else case lift_registry (beginHumanAttentionDelivery now attentionId (h_request_generation current) (ct_registry s)) of
            Inl e \<Rightarrow> (Inl e, s)
          | Inr (request, reg) \<Rightarrow>
              (case (h_response request, h_delivery_attempt_id request) of
                 (Some response, Some attempt) \<Rightarrow>
                   if attempt = [] then (Inl (Control_Error Human_Attention_Response_Invalid
                       ''The committed HumanAttention response is incomplete.''), s\<lparr>ct_registry := reg\<rparr>)
                   else (Inr (accepted_result\<lparr>cr_humanAttentionWait := Some (Wait_Responded response attempt)\<rparr>),
                     s\<lparr>ct_registry := reg\<rparr>)
               | _ \<Rightarrow> (Inl (Control_Error Human_Attention_Response_Invalid
                   ''The committed HumanAttention response is incomplete.''), s\<lparr>ct_registry := reg\<rparr>)))"

text \<open>
  A wait is answered at once (\<open>Some\<close>) or subscribed; \<open>aborted\<close> is the state of the signal when it arrives.
\<close>

definition waitForHumanAttention ::
  "control_config \<Rightarrow> string \<Rightarrow> bool \<Rightarrow> control_context \<Rightarrow> wait_handle \<Rightarrow> control \<Rightarrow>
   (control_error + control_result) option \<times> control" where
  "waitForHumanAttention cfg now aborted c handle s =
     (case assertAttentionWaitBinding cfg c handle s of
        Inl e \<Rightarrow> (Some (Inl e), s)
      | Inr request \<Rightarrow>
          if h_response_state request \<in> {Cancelled, Obsolete}
          then (Some (Inr (accepted_result\<lparr>cr_humanAttentionWait := Some (Wait_Cancelled
              (case h_cancellation_reason request of None \<Rightarrow> ''HumanAttention request cancelled.'' | Some r \<Rightarrow> r)
              (case h_cancelled_at request of None \<Rightarrow> now | Some t \<Rightarrow> t))\<rparr>)), s)
          else if h_response_state request = Responded
          then (let (r, s1) = deliverCommittedAttentionResponse now (h_attention_id request) s in (Some r, s1))
          else if h_attention_id request \<in> fst ` set (ct_waiters s)
          then (Some (Inl (Control_Error Human_Attention_Wait_Unavailable
            ''The exact HumanAttention request already has an active native wait.'')), s)
          else if length (ct_waiters s) \<ge> MAX_ACTIVE_ATTENTION_WAITS
          then (Some (Inl (Control_Error Human_Attention_Wait_Unavailable
            ''The Worker has reached its bounded active HumanAttention wait limit.'')), s)
          else if aborted
          then (Some (Inl (Control_Error Human_Attention_Wait_Unavailable
            ''The native HumanAttention wait disconnected before subscription.'')), s)
          else (None, s\<lparr>ct_waiters := ct_waiters s @ [(h_attention_id request,
            \<lparr>wt_contextToken = cc_contextToken c, wt_waitHandle = handle\<rparr>)]\<rparr>))"

text \<open>The listener of a waiter that is still subscribed.\<close>

definition abort_wait :: "string \<Rightarrow> string \<Rightarrow> control \<Rightarrow> control_output list \<times> control" where
  "abort_wait token attentionId s =
     (case map_of (ct_waiters s) attentionId of
        None \<Rightarrow> ([], s)
      | Some waiter \<Rightarrow>
          if wt_contextToken waiter \<noteq> token then ([], s)
          else ([Settle attentionId token (Inl (Control_Error Human_Attention_Wait_Unavailable
              ''The native HumanAttention wait disconnected; the durable request remains pending.''))],
            s\<lparr>ct_waiters := drop_key attentionId (ct_waiters s)\<rparr>))"

text \<open>The two stretches of \<^verbatim>\<open>receiveHumanAttentionResponse\<close>, before and after its first report.\<close>

definition receiveHumanAttentionResponse ::
  "string \<Rightarrow> attention_response_input \<Rightarrow> control \<Rightarrow> control_error + control_output list \<times> control" where
  "receiveHumanAttentionResponse now input s =
     bind_result (lift_registry (recordHumanAttentionResponse now input (ct_registry s))) (\<lambda>(request, reg).
     bind_result (lift_registry (get (h_action_id request) reg)) (\<lambda>dispatch.
     bind_result (lift_registry (getLineage (h_lineage_id request) reg)) (\<lambda>_.
       Inr ([attention_report dispatch (h_lineage_id request)], s\<lparr>ct_registry := reg,
         ct_receiving := ct_receiving s @ [(h_attention_id request, h_lineage_id request, dispatch)]\<rparr>))))"

definition receive_delivers :: "string \<Rightarrow> string \<times> string \<times> dispatch_record \<Rightarrow> control \<Rightarrow> control_output list \<times> control" where
  "receive_delivers now x s =
     (let (attentionId, lineageId, dispatch) = x; s0 = s\<lparr>ct_receiving := remove1 x (ct_receiving s)\<rparr> in
      case map_of (ct_waiters s0) attentionId of
        None \<Rightarrow> ([], s0)
      | Some waiter \<Rightarrow>
          let s1 = s0\<lparr>ct_waiters := drop_key attentionId (ct_waiters s0)\<rparr>;
              (r, s2) = deliverCommittedAttentionResponse now attentionId s1 in
          (Settle attentionId (wt_contextToken waiter) r #
            (case r of Inr _ \<Rightarrow> [attention_report dispatch lineageId] | Inl _ \<Rightarrow> []), s2))"

definition acknowledgeAttentionResponse ::
  "control_config \<Rightarrow> string \<Rightarrow> control_context \<Rightarrow> wait_handle \<Rightarrow> string \<Rightarrow> control \<Rightarrow> control_outcome" where
  "acknowledgeAttentionResponse cfg now c handle deliveryAttemptId s =
     (case assertAttentionWaitBinding cfg c handle s of
        Inl e \<Rightarrow> (Inl e, [], s)
      | Inr _ \<Rightarrow>
          (case acknowledgeHumanAttentionDelivery now (wh_attentionId handle) (wh_requestGeneration handle)
             deliveryAttemptId (ct_registry s) of
             Inl e \<Rightarrow> (Inl (Control_Error Human_Attention_Delivery_Uncertain (cl_registry_text cfg e)), [], s)
           | Inr (request, reg) \<Rightarrow>
               (Inr accepted_result,
                [Delivery_Report \<lparr>dr_attentionId = h_attention_id request,
                   dr_requestGeneration = h_request_generation request,
                   dr_deliveryAttemptId = h_delivery_attempt_id request, dr_state = Receipt_Acknowledged,
                   dr_observedAt = (case h_delivery_acknowledged_at request of None \<Rightarrow> now | Some t \<Rightarrow> t),
                   dr_reason = None\<rparr>, attention_report (cc_dispatch c) (cc_lineageId c)],
                s\<lparr>ct_registry := reg\<rparr>)))"

definition withdrawal_result :: "string \<Rightarrow> string \<Rightarrow> HumanAttentionRequestRow \<Rightarrow> control_result" where
  "withdrawal_result now reason request = accepted_result\<lparr>cr_humanAttentionWait := Some (Wait_Cancelled
     (case h_cancellation_reason request of None \<Rightarrow> reason | Some r \<Rightarrow> r)
     (case h_cancelled_at request of None \<Rightarrow> now | Some t \<Rightarrow> t))\<rparr>"

definition cancelPendingHumanAttention ::
  "string \<Rightarrow> string \<Rightarrow> string \<Rightarrow> withdrawal \<Rightarrow> string option \<Rightarrow> control \<Rightarrow> control_error + control_output list \<times> control" where
  "cancelPendingHumanAttention now lineageId reason state exactActionId s =
     bind_result (lift_registry (getLineage lineageId (ct_registry s))) (\<lambda>lineage.
       let actionId = coalesce exactActionId (lin_activeActionId lineage) in
       if \<not> truthy actionId then Inr ([], s)
       else case activeHumanAttentionRequest (the actionId) (ct_registry s) of
         None \<Rightarrow> Inr ([], s)
       | Some active \<Rightarrow>
           bind_result (lift_registry (cancelHumanAttention now (h_attention_id active) reason state (ct_registry s)))
             (\<lambda>(request, reg).
             let s1 = s\<lparr>ct_registry := reg\<rparr>;
                 settled = (case map_of (ct_waiters s) (h_attention_id request) of
                     None \<Rightarrow> []
                   | Some waiter \<Rightarrow> [Settle (h_attention_id request) (wt_contextToken waiter)
                       (Inr (withdrawal_result now reason request))]) in
             Inr (settled @
               [Delivery_Report \<lparr>dr_attentionId = h_attention_id request,
                  dr_requestGeneration = h_request_generation request,
                  dr_deliveryAttemptId = h_delivery_attempt_id request, dr_state = Receipt_Withdrawn state,
                  dr_observedAt = (case h_cancelled_at request of None \<Rightarrow> now | Some t \<Rightarrow> t),
                  dr_reason = coalesce (h_cancellation_reason request) (Some reason)\<rparr>,
                Attention_Report (the actionId) lineageId],
              s1\<lparr>ct_waiters := drop_key (h_attention_id request) (ct_waiters s1)\<rparr>)))"

definition resolveAttention ::
  "string \<Rightarrow> control_context \<Rightarrow> string \<Rightarrow> resolution \<Rightarrow> control \<Rightarrow> control_outcome" where
  "resolveAttention now c attentionId outcome s =
     (case lift_registry (getLineage (cc_lineageId c) (ct_registry s)) of
        Inl e \<Rightarrow> (Inl e, [], s)
      | Inr lineage \<Rightarrow>
          if map_option att_attentionId (lin_attention lineage) \<noteq> Some attentionId
          then (Inl (Control_Error Invalid_Attention ''Human attention request is stale.''), [], s)
          else
            let active = activeHumanAttentionRequest (act_action_id (rec_action (cc_dispatch c))) (ct_registry s);
                updated = (if map_option h_attention_id active = Some attentionId
                  then bind_result (cancelHumanAttention now attentionId
                      (if outcome = Resolved_Completed
                       then ''The native harness resolved the request without a Product response.''
                       else ''The native harness could not complete the requested human action.'')
                      Withdraw_Obsolete (ct_registry s)) (\<lambda>(_, reg). Inr reg)
                  else bind_result (updateSession (cc_lineageId c) Session_Running None now None (ct_registry s))
                      (\<lambda>(_, reg). Inr reg)) in
            (case lift_registry updated of
               Inl e \<Rightarrow> (Inl e, [], s)
             | Inr reg \<Rightarrow> (Inr accepted_result, [attention_report (cc_dispatch c) (cc_lineageId c)],
                 s\<lparr>ct_registry := reg\<rparr>)))"

definition yieldToHuman :: "control_context \<Rightarrow> string \<Rightarrow> control \<Rightarrow> control_outcome" where
  "yieldToHuman c attentionId s =
     (case lift_registry (getLineage (cc_lineageId c) (ct_registry s)) of
        Inl e \<Rightarrow> (Inl e, [], s)
      | Inr lineage \<Rightarrow>
          if map_option att_attentionId (lin_attention lineage) \<noteq> Some attentionId
          then (Inl (Control_Error Invalid_Attention ''Human intervention is stale.''), [], s)
          else (Inr (accepted_result\<lparr>cr_attention := lin_attention lineage,
            cr_intervention := Some (lin_intervention lineage)\<rparr>), [], s))"

definition automationResumed :: "string \<Rightarrow> control_context \<Rightarrow> string \<Rightarrow> control \<Rightarrow> control_outcome" where
  "automationResumed now c attentionId s =
     (case lift_registry (getLineage (cc_lineageId c) (ct_registry s)) of
        Inl e \<Rightarrow> (Inl e, [], s)
      | Inr lineage \<Rightarrow>
          (case lin_intervention lineage of
             Some current \<Rightarrow>
               if inter_attentionId current \<noteq> attentionId
               then (Inl (Control_Error Invalid_Attention ''Human intervention is stale.''), [], s)
               else
                 let intervention = current\<lparr>inter_state := Resumed,
                       inter_handedBackAt := coalesce (inter_handedBackAt current) (Some now),
                       inter_automationResumedAt := Some now\<rparr> in
                 (case lift_registry (updateSession (cc_lineageId c) Session_Running None now (Some intervention) (ct_registry s)) of
                    Inl e \<Rightarrow> (Inl e, [], s)
                  | Inr (_, reg) \<Rightarrow> (Inr (accepted_result\<lparr>cr_intervention := Some (Some intervention)\<rparr>), [],
                      s\<lparr>ct_registry := reg\<rparr>))
           | None \<Rightarrow> (Inl (Control_Error Invalid_Attention ''Human intervention is stale.''), [], s)))"

end
