(* ===== verification/Control_Operations.thy ===== *)
theory Control_Operations
  imports Control_Authority
begin

text \<open>
  The authority's contexts: their binding to a dispatch and lineage and their invalidation, the serialised
  handling of operations, structured completion in the foreground and in the background, and the answer to a
  native stop (\<^verbatim>\<open>harnesses/control/authority.ts\<close>).
\<close>

section \<open>Invalidation\<close>

definition uncertain_receipt :: "string \<Rightarrow> string option \<Rightarrow> HumanAttentionRequestRow \<Rightarrow> delivery_receipt" where
  "uncertain_receipt now reason request = \<lparr>dr_attentionId = h_attention_id request,
     dr_requestGeneration = h_request_generation request, dr_deliveryAttemptId = h_delivery_attempt_id request,
     dr_state = Receipt_Uncertain,
     dr_observedAt = (case h_delivery_uncertain_at request of None \<Rightarrow> now | Some t \<Rightarrow> t), dr_reason = reason\<rparr>"

definition context_ended :: string where
  "context_ended = ''The control context ended before native delivery acknowledgement.''"

definition wait_lost :: control_error where
  "wait_lost = Control_Error Human_Attention_Wait_Unavailable ''The exact native HumanAttention wait lost its control context.''"

text \<open>The context is invalidated, and the waits of its token are rejected.\<close>

definition lose_context :: "string \<Rightarrow> control \<Rightarrow> control_output list \<times> control" where
  "lose_context token s =
     (let s1 = (if token \<in> set (ct_live s) then update_context token (\<lambda>c. c\<lparr>cc_invalidated := True\<rparr>) s else s) in
      (map (\<lambda>x. Settle (fst x) token (Inl wait_lost)) (filter (\<lambda>x. wt_contextToken (snd x) = token) (ct_waiters s1)),
       s1\<lparr>ct_waiters := filter (\<lambda>x. wt_contextToken (snd x) \<noteq> token) (ct_waiters s1)\<rparr>))"

definition forget_context :: "string \<Rightarrow> string \<Rightarrow> control \<Rightarrow> control" where
  "forget_context token lineageId s =
     s\<lparr>ct_live := removeAll token (ct_live s), ct_tokens := drop_key lineageId (ct_tokens s)\<rparr>"

text \<open>
  When the registry fails the maps keep the token; the context is invalidated and its waiters are rejected.
\<close>

definition invalidate :: "string \<Rightarrow> string \<Rightarrow> control \<Rightarrow> control_output list \<times> control_error option \<times> control" where
  "invalidate now lineageId s =
     (case token_of lineageId s of
        None \<Rightarrow> ([], None, s)
      | Some token \<Rightarrow>
          let (rejected, s1) = lose_context token s in
          case (if token \<in> set (ct_live s) then context_of token s else None) of
            None \<Rightarrow> (rejected, None, forget_context token lineageId s1)
          | Some c \<Rightarrow>
              (case activeHumanAttentionRequest (act_action_id (rec_action (cc_dispatch c))) (ct_registry s1) of
                 None \<Rightarrow> (rejected, None, forget_context token lineageId s1)
               | Some request \<Rightarrow>
                   if h_delivery_state request \<noteq> Delivery_Requested
                   then (rejected, None, forget_context token lineageId s1)
                   else case markHumanAttentionDeliveryUncertain now (h_attention_id request) context_ended (ct_registry s1) of
                     Inl e \<Rightarrow> (rejected, Some (Registry_Failure e), s1)
                   | Inr (uncertain, reg) \<Rightarrow>
                       (rejected @ [Delivery_Report (uncertain_receipt now
                          (coalesce (h_cancellation_reason uncertain) (Some context_ended)) uncertain)],
                        None, forget_context token lineageId (s1\<lparr>ct_registry := reg\<rparr>))))"

section \<open>Binding\<close>

definition worker_restarted :: string where
  "worker_restarted = ''The Worker restarted after native delivery was requested but before exact acknowledgement.''"

definition wait_not_recovered :: string where
  "wait_not_recovered =
     ''The adapter declared that its native HumanAttention wait cannot be recovered after Worker restart.''"

definition reconcileHumanAttentionControllerGeneration ::
  "control_config \<Rightarrow> string \<Rightarrow> dispatch_record \<Rightarrow> harness_lineage \<Rightarrow> bool \<Rightarrow> control \<Rightarrow>
   control_error + control_output list \<times> control" where
  "reconcileHumanAttentionControllerGeneration cfg now dispatch lineage priorContextInvalidated s =
     (let actionId = act_action_id (rec_action dispatch) in
      case activeHumanAttentionRequest actionId (ct_registry s) of
        None \<Rightarrow> Inr ([], s)
      | Some active \<Rightarrow>
          if h_delivery_state active = Delivery_Requested then
            bind_result (lift_registry
                (markHumanAttentionDeliveryUncertain now (h_attention_id active) worker_restarted (ct_registry s)))
              (\<lambda>(request, reg).
              Inr ([Delivery_Report (uncertain_receipt now
                     (if truthy (h_cancellation_reason request) then h_cancellation_reason request else None) request),
                   attention_report dispatch (lin_lineageId lineage)], s\<lparr>ct_registry := reg\<rparr>))
          else if h_delivery_state active = Delivery_Uncertain \<or> h_recoverability active = Rebind_Exact \<or>
            (\<not> priorContextInvalidated \<and> h_controller_generation active = cl_generation cfg)
          then Inr ([], s)
          else cancelPendingHumanAttention now (lin_lineageId lineage) wait_not_recovered Withdraw_Obsolete (Some actionId) s)"

text \<open>
  The first stretch of \<^verbatim>\<open>bind\<close>; \<open>token\<close> is the identifier this binding will issue. The bindings in progress
  are known by that token.
\<close>

definition bind_begins ::
  "control_config \<Rightarrow> string \<Rightarrow> string \<Rightarrow> dispatch_record \<Rightarrow> harness_lineage \<Rightarrow> recoverability \<Rightarrow> control \<Rightarrow>
   control_output list \<times> control" where
  "bind_begins cfg now token dispatch lineage recoverability s =
     (if \<not> ct_endpoint s then ([Bind_Failed token (Control_Error Bridge_Unavailable
        ''Quest Engineering harness control bridge is not listening.'')], s)
      else if rec_lineageId dispatch \<noteq> Some (lin_lineageId lineage)
      then ([Bind_Failed token (Control_Error Stale_Control_Context ''Dispatch and harness lineage do not match.'')], s)
      else
        let previous = truthy (token_of (lin_lineageId lineage) s);
            (out1, failed, s1) = (if previous then invalidate now (lin_lineageId lineage) s else ([], None, s)) in
        case failed of
          Some e \<Rightarrow> (out1 @ [Bind_Failed token e], s1)
        | None \<Rightarrow>
            (case reconcileHumanAttentionControllerGeneration cfg now dispatch lineage previous s1 of
               Inl e \<Rightarrow> (out1 @ [Bind_Failed token e], s1)
             | Inr (out2, s2) \<Rightarrow> (out1 @ out2, s2\<lparr>ct_binds := ct_binds s2 @
                 [\<lparr>bp_token = token, bp_dispatch = dispatch, bp_lineage = lineage,
                   bp_recoverability = recoverability, bp_stage = Reading_State\<rparr>]\<rparr>)))"

definition set_bind_stage :: "string \<Rightarrow> bind_stage \<Rightarrow> control \<Rightarrow> control" where
  "set_bind_stage token stage s =
     s\<lparr>ct_binds := update_where (\<lambda>b. bp_token b = token) (\<lambda>b. b\<lparr>bp_stage := stage\<rparr>) (ct_binds s)\<rparr>"

definition end_bind :: "string \<Rightarrow> control \<Rightarrow> control" where
  "end_bind token s = s\<lparr>ct_binds := filter (\<lambda>b. bp_token b \<noteq> token) (ct_binds s)\<rparr>"

definition new_context :: "bind_progress \<Rightarrow> completion_state option \<Rightarrow> control_context" where
  "new_context b completion = \<lparr>
     cc_contextToken = bp_token b, cc_dispatch = bp_dispatch b, cc_lineageId = lin_lineageId (bp_lineage b),
     cc_requests = [], cc_enforcementAttempts = 0, cc_contractViolation = None, cc_lastCompletionFailure = None,
     cc_completion = (case completion of
         None \<Rightarrow> \<lparr>cp_phase = Awaiting_Result, cp_semanticAccepted = False, cp_acceptedAt = None,
           cp_exportStartedAt = None, cp_exportCompletedAt = None, cp_failure = None\<rparr>
       | Some c \<Rightarrow> c),
     cc_invalidated = False, cc_recoverability = bp_recoverability b, cc_queue = [], cc_pending = None,
     cc_finishing = None\<rparr>"

text \<open>The last stretch of \<^verbatim>\<open>bind\<close>: the context becomes the current one of its lineage.\<close>

definition install_context :: "bind_progress \<Rightarrow> completion_state option \<Rightarrow> control \<Rightarrow> control_output list \<times> control" where
  "install_context b completion s =
     ([Bound (bp_token b) (lin_lineageId (bp_lineage b))],
      (end_bind (bp_token b) s)\<lparr>ct_contexts := ct_contexts s @ [new_context b completion],
        ct_live := ct_live s @ [bp_token b],
        ct_tokens := set_key (lin_lineageId (bp_lineage b)) (bp_token b) (ct_tokens s)\<rparr>)"

definition completed_by_result :: "string \<Rightarrow> completion_state option \<Rightarrow> completion_state" where
  "completed_by_result now completion = \<lparr>
     cp_phase = Completed_Phase, cp_semanticAccepted = True,
     cp_acceptedAt = (case completion of None \<Rightarrow> None | Some c \<Rightarrow> cp_acceptedAt c),
     cp_exportStartedAt = (case completion of None \<Rightarrow> None | Some c \<Rightarrow> cp_exportStartedAt c),
     cp_exportCompletedAt = coalesce (case completion of None \<Rightarrow> None | Some c \<Rightarrow> cp_exportCompletedAt c) (Some now),
     cp_failure = (case completion of None \<Rightarrow> None | Some c \<Rightarrow> cp_failure c)\<rparr>"

definition generation_ended :: completion_failure where
  "generation_ended = \<lparr>cf_kind = Infrastructure, cf_code = ''bridge_unavailable'',
     cf_message = ''The Worker control generation ended before physical completion became authoritative.''\<rparr>"

text \<open>
  The stretches in between. A file operation succeeds or fails (\<open>io\<close>, with the message of the error).
\<close>

definition bind_continues ::
  "control_config \<Rightarrow> string \<Rightarrow> string option \<Rightarrow> bind_progress \<Rightarrow> control \<Rightarrow> control_output list \<times> control" where
  "bind_continues cfg now io b s =
     (let token = bp_token b; dispatch = bp_dispatch b;
          failed = (\<lambda>e. ([Bind_Failed token e], end_bind token s)) in
      case bp_stage b of
        Reading_State \<Rightarrow>
          (case io of
             Some message \<Rightarrow> failed (Io_Failure message)
           | None \<Rightarrow> (case readStructuredCompletionState (cl_date_ok cfg) dispatch (ct_files s) of
               Inl e \<Rightarrow> failed (Result_Failure e)
             | Inr completion \<Rightarrow> ([], set_bind_stage token (Reading_Results completion) s)))
      | Reading_Results completion \<Rightarrow>
          (case io of
             Some message \<Rightarrow> failed (Io_Failure message)
           | None \<Rightarrow> ([], set_bind_stage token (Deciding completion (hasStepResult dispatch (ct_files s))) s))
      | Deciding completion has_result \<Rightarrow>
          if has_result then install_context b (Some (completed_by_result now completion)) s
          else (case completion of
              Some c \<Rightarrow>
                if cp_semanticAccepted c \<and> cp_phase c \<in> {Exporting, Completed_Phase}
                then ([], set_bind_stage token
                  (Writing_Failed (c\<lparr>cp_phase := Failed_Phase, cp_failure := Some generation_ended\<rparr>)) s)
                else install_context b completion s
            | None \<Rightarrow> install_context b None s)
      | Writing_Failed c \<Rightarrow>
          (case io of
             Some message \<Rightarrow> failed (Io_Failure message)
           | None \<Rightarrow> ([], set_bind_stage token (Ready_To_Bind (Some c))
               (s\<lparr>ct_files := writeStructuredCompletionState dispatch c (ct_files s)\<rparr>)))
      | Ready_To_Bind completion \<Rightarrow> install_context b completion s)"

section \<open>Native stops\<close>

definition omitted_reason :: string where
  "omitted_reason = ''Quest Engineering has not received a structured Step result. Submit the already-completed work's declared outputs through qe_complete_step before stopping; do not repeat implementation work.''"

definition repeated_reason :: string where
  "repeated_reason = ''The native harness repeatedly stopped without a valid structured Quest Engineering Step result.''"

definition probe_reason :: string where
  "probe_reason = ''Quest Engineering verified the Antigravity Stop-hook transport without authorizing a provider turn.''"

definition model_reason :: "string \<Rightarrow> model_choice \<Rightarrow> string" where
  "model_reason observed expected = ''Antigravity stopped with model '' @ observed @ '', but this PhysicalLineage is fenced to ''
     @ model_provider expected @ ''/'' @ model_model expected @ ''. Continue only through a fresh compatible Attempt.''"

definition rejected_reason :: "completion_failure \<Rightarrow> string" where
  "rejected_reason f =
     (if cf_kind f = Semantic_Validation
      then ''Quest Engineering rejected the submitted Step result ('' @ cf_code f @ ''): '' @ cf_message f @ '' Correct the declared outputs and call qe_complete_step again; do not repeat completed implementation work.''
      else ''Quest Engineering completion infrastructure rejected the submission ('' @ cf_code f @ ''): '' @ cf_message f @ '' Preserve the completed work and retry qe_complete_step after the local bridge recovers.'')"

text \<open>The checks before the directory is listed; \<open>None\<close> goes on to list it.\<close>

definition nativeStop_checks ::
  "control_context \<Rightarrow> string \<Rightarrow> string option \<Rightarrow> (control_result \<times> control_context) option" where
  "nativeStop_checks c terminationReason observedModel =
     (let configuration = exec_configuration (act_execution (rec_action (cc_dispatch c)));
          expected = conf_model configuration; antigravity = (conf_harness_kind configuration = ''antigravity'') in
      if antigravity \<and> terminationReason \<noteq> ''qe_zero_inference_readiness'' \<and> truthy observedModel \<and>
         the observedModel \<noteq> model_model expected
      then let reason = model_reason (the observedModel) expected in
        Some (accepted_result\<lparr>cr_completed := Some False, cr_contractViolation := Some reason,
            cr_nativeStop := Some (Contract_Violation reason (cc_enforcementAttempts c))\<rparr>,
          c\<lparr>cc_contractViolation := Some reason\<rparr>)
      else if antigravity \<and> terminationReason = ''qe_zero_inference_readiness''
      then Some (accepted_result\<lparr>cr_completed := Some False,
        cr_nativeStop := Some (Continue_Stop Readiness_Probe probe_reason None)\<rparr>, c)
      else None)"

definition nativeStop_decides ::
  "control_config \<Rightarrow> bool \<Rightarrow> control_error + harness_lineage \<Rightarrow> control_context \<Rightarrow>
   (control_error + control_result) \<times> control_context" where
  "nativeStop_decides cfg has_result read_lineage c =
     (if has_result then (Inr (accepted_result\<lparr>cr_completed := Some True, cr_semanticAccepted := Some True,
        cr_completion := Some (cc_completion c), cr_nativeStop := Some Allow_Stop\<rparr>), c)
      else if cp_phase (cc_completion c) \<in> {Exporting, Failed_Phase}
      then (Inr (accepted_result\<lparr>cr_completed := Some False, cr_semanticAccepted := Some True,
        cr_completion := Some (cc_completion c), cr_nativeStop := Some Allow_Stop\<rparr>), c)
      else case read_lineage of
        Inl e \<Rightarrow> (Inl e, c)
      | Inr lineage \<Rightarrow>
          if lin_sessionState lineage = Waiting_For_Human \<or> lin_attention lineage \<noteq> None
          then (Inr (accepted_result\<lparr>cr_completed := Some False, cr_attention := lin_attention lineage,
            cr_intervention := Some (lin_intervention lineage), cr_nativeStop := Some Allow_Stop\<rparr>), c)
          else case cc_lastCompletionFailure c of
            Some f \<Rightarrow> (Inr (accepted_result\<lparr>cr_completed := Some False, cr_nativeStop := Some (Continue_Stop
                (if cf_kind f = Semantic_Validation then Completion_Semantic_Validation else Completion_Infrastructure)
                (rejected_reason f) None)\<rparr>), c)
          | None \<Rightarrow>
              let attempts = cc_enforcementAttempts c + 1; c1 = c\<lparr>cc_enforcementAttempts := attempts\<rparr> in
              if attempts \<le> cl_maxStopEnforcements cfg
              then (Inr (accepted_result\<lparr>cr_completed := Some False,
                cr_nativeStop := Some (Continue_Stop Completion_Omitted omitted_reason (Some attempts))\<rparr>), c1)
              else (Inr (accepted_result\<lparr>cr_completed := Some False, cr_contractViolation := Some repeated_reason,
                cr_nativeStop := Some (Contract_Violation repeated_reason attempts)\<rparr>),
                c1\<lparr>cc_contractViolation := Some repeated_reason\<rparr>))"

section \<open>Handling operations\<close>

text \<open>The end of a handled operation: an accepted result is kept for replays, and the next may run.\<close>

definition conclude ::
  "string \<Rightarrow> string \<Rightarrow> control_error + control_result \<Rightarrow> control \<Rightarrow> control_output list \<times> control" where
  "conclude token requestId r s =
     ([Reply token requestId r],
      update_context token (\<lambda>c. c\<lparr>cc_pending := None,
        cc_requests := (case r of Inl _ \<Rightarrow> cc_requests c | Inr result \<Rightarrow> set_key requestId result (cc_requests c))\<rparr>) s)"

definition outcome_concludes :: "string \<Rightarrow> string \<Rightarrow> control_outcome \<Rightarrow> control_output list \<times> control" where
  "outcome_concludes token requestId outcome =
     (let (r, outs, s) = outcome; (reply, s1) = conclude token requestId r s in (outs @ reply, s1))"

definition suspend :: "string \<Rightarrow> pending \<Rightarrow> control \<Rightarrow> control_output list \<times> control" where
  "suspend token p s = ([], update_context token (\<lambda>c. c\<lparr>cc_pending := Some p\<rparr>) s)"

definition replayed_error :: control_error where
  "replayed_error = Control_Error Replayed_Request ''This Attempt already accepted a structured Step result.''"

text \<open>
  \<^verbatim>\<open>apply\<close> up to its first \<^verbatim>\<open>await\<close>; \<open>now\<close> and \<open>uuid\<close> are drawn when it needs them.
\<close>

definition apply_begins ::
  "control_config \<Rightarrow> string \<Rightarrow> string \<Rightarrow> control_context \<Rightarrow> string \<Rightarrow> control_operation \<Rightarrow> control \<Rightarrow>
   control_output list \<times> control" where
  "apply_begins cfg now uuid c requestId operation s =
     (let token = cc_contextToken c in
      case operation of
        Complete_Step outputs \<Rightarrow>
          (case validateOutputs (act_declared_outputs (rec_action (cc_dispatch c))) outputs of
             Inl e \<Rightarrow> conclude token requestId (Inl (Control_Error Invalid_Step_Result (result_message e)))
               (update_context token (\<lambda>c. c\<lparr>cc_lastCompletionFailure := Some \<lparr>cf_kind = Semantic_Validation,
                 cf_code = ''invalid_step_result'', cf_message = result_message e\<rparr>\<rparr>) s)
           | Inr _ \<Rightarrow>
               if cp_semanticAccepted (cc_completion c) \<or> cp_phase (cc_completion c) \<noteq> Awaiting_Result
               then conclude token requestId (Inl replayed_error) s
               else suspend token (Completing requestId outputs None) s)
      | Report_Completion_Failure f \<Rightarrow>
          conclude token requestId (Inr (accepted_result\<lparr>cr_completed := Some False\<rparr>))
            (update_context token (\<lambda>c. c\<lparr>cc_lastCompletionFailure := Some f\<rparr>) s)
      | Request_Human_Assistance request \<Rightarrow>
          outcome_concludes token requestId (requestAttention cfg now uuid c request requestId s)
      | Wait_For_Response _ \<Rightarrow>
          conclude token requestId (Inl (Control_Error Invalid_Request
            ''HumanAttention waits must use the subscription path.'')) s
      | Acknowledge_Response handle attempt \<Rightarrow>
          outcome_concludes token requestId (acknowledgeAttentionResponse cfg now c handle attempt s)
      | Resolve_Assistance attentionId outcome \<Rightarrow>
          outcome_concludes token requestId (resolveAttention now c attentionId outcome s)
      | Yield_To_Human attentionId \<Rightarrow> outcome_concludes token requestId (yieldToHuman c attentionId s)
      | Automation_Resumed attentionId \<Rightarrow>
          outcome_concludes token requestId (automationResumed now c attentionId s)
      | Report_State state \<Rightarrow>
          (case lift_registry (bind_result (getLineage (cc_lineageId c) (ct_registry s)) (\<lambda>lineage.
             updateSession (cc_lineageId c) state (lin_attention lineage) now None (ct_registry s))) of
             Inl e \<Rightarrow> conclude token requestId (Inl e) s
           | Inr (_, reg) \<Rightarrow> conclude token requestId (Inr accepted_result) (s\<lparr>ct_registry := reg\<rparr>))
      | Completion_Status \<Rightarrow>
          (case lift_registry (getLineage (cc_lineageId c) (ct_registry s)) of
             Inl e \<Rightarrow> conclude token requestId (Inl e) s
           | Inr lineage \<Rightarrow> suspend token (Reporting_Status requestId lineage None) s)
      | Native_Stop terminationReason fullyIdle observedModel \<Rightarrow>
          (case nativeStop_checks c terminationReason observedModel of
             Some (result, c1) \<Rightarrow> conclude token requestId (Inr result) (update_context token (\<lambda>_. c1) s)
           | None \<Rightarrow> suspend token (Stopping requestId None) s))"

definition wrong_generation :: control_error where
  "wrong_generation = Control_Error Bridge_Generation_Mismatch
     ''Harness control request belongs to another Worker controller generation.''"

definition unknown_context :: control_error where
  "unknown_context = Control_Error Unknown_Control_Context ''Harness control context is unknown or has been invalidated.''"

definition rotated_context :: control_error where
  "rotated_context = Control_Error Stale_Control_Context ''Harness control context rotated while the request was pending.''"

text \<open>The arrival of a request: refused, answered, subscribed, or queued behind the others of its context.\<close>

definition handle ::
  "control_config \<Rightarrow> string \<Rightarrow> bool \<Rightarrow> string \<Rightarrow> string \<Rightarrow> string \<Rightarrow> control_operation \<Rightarrow> control \<Rightarrow>
   control_output list \<times> control" where
  "handle cfg now aborted bridgeGeneration token requestId operation s =
     (let reply = (\<lambda>r. case operation of
            Wait_For_Response wait_handle \<Rightarrow> [Settle (wh_attentionId wait_handle) token r]
          | _ \<Rightarrow> [Reply token requestId r]) in
      if bridgeGeneration \<noteq> cl_generation cfg then (reply (Inl wrong_generation), s)
      else case (if token \<in> set (ct_live s) then context_of token s else None) of
        None \<Rightarrow> (reply (Inl unknown_context), s)
      | Some c \<Rightarrow>
          (case operation of
             Wait_For_Response wait_handle \<Rightarrow>
               (case current_dispatch c s of
                  Inl e \<Rightarrow> (reply (Inl e), s)
                | Inr dispatch \<Rightarrow>
                    let c1 = c\<lparr>cc_dispatch := dispatch\<rparr>; s1 = update_context token (\<lambda>_. c1) s in
                    (case waitForHumanAttention cfg now aborted c1 wait_handle s1 of
                       (None, s2) \<Rightarrow> ([], s2)
                     | (Some r, s2) \<Rightarrow> (reply r, s2)))
           | _ \<Rightarrow> ([], update_context token (\<lambda>c. c\<lparr>cc_queue := cc_queue c @ [(requestId, operation)]\<rparr>) s)))"

text \<open>The turn of the first queued request, when no operation of the context is at an \<^verbatim>\<open>await\<close>.\<close>

definition run_next ::
  "control_config \<Rightarrow> string \<Rightarrow> string \<Rightarrow> string \<Rightarrow> control \<Rightarrow> control_output list \<times> control" where
  "run_next cfg now uuid token s =
     (case context_of token s of
        None \<Rightarrow> ([], s)
      | Some c \<Rightarrow>
          (case (cc_pending c, cc_queue c) of
             (None, (requestId, operation) # rest) \<Rightarrow>
               let s1 = update_context token (\<lambda>c. c\<lparr>cc_queue := rest\<rparr>) s in
               if token \<notin> set (ct_live s) then ([Reply token requestId (Inl rotated_context)], s1)
               else (case map_of (cc_requests c) requestId of
                   Some result \<Rightarrow> ([Reply token requestId (Inr (result\<lparr>cr_duplicate := True\<rparr>))], s1)
                 | None \<Rightarrow>
                     (case current_dispatch c s of
                        Inl e \<Rightarrow> ([Reply token requestId (Inl e)], s1)
                      | Inr dispatch \<Rightarrow>
                          let c1 = c\<lparr>cc_queue := rest, cc_dispatch := dispatch\<rparr> in
                          apply_begins cfg now uuid c1 requestId operation (update_context token (\<lambda>_. c1) s)))
           | _ \<Rightarrow> ([], s)))"

section \<open>Completion\<close>

text \<open>The directory is listed, or listing it fails.\<close>

definition list_results :: "string option \<Rightarrow> string \<Rightarrow> control \<Rightarrow> control_output list \<times> control" where
  "list_results io token s =
     (case context_of token s of
        None \<Rightarrow> ([], s)
      | Some c \<Rightarrow>
          let listed = hasStepResult (cc_dispatch c) (ct_files s);
              answer = (\<lambda>requestId p. case io of
                  Some message \<Rightarrow> conclude token requestId (Inl (Io_Failure message)) s
                | None \<Rightarrow> suspend token p s) in
          (case cc_pending c of
             Some (Completing requestId outputs None) \<Rightarrow> answer requestId (Completing requestId outputs (Some listed))
           | Some (Reporting_Status requestId lineage None) \<Rightarrow>
               answer requestId (Reporting_Status requestId lineage (Some listed))
           | Some (Stopping requestId None) \<Rightarrow> answer requestId (Stopping requestId (Some listed))
           | _ \<Rightarrow> ([], s)))"

definition set_completion :: "completion_state \<Rightarrow> completion_failure option \<Rightarrow> control_context \<Rightarrow> control_context" where
  "set_completion completion failed c = c\<lparr>cc_completion := completion, cc_lastCompletionFailure := failed\<rparr>"

definition status_result :: "bool \<Rightarrow> harness_lineage \<Rightarrow> control_context \<Rightarrow> control_result" where
  "status_result completed lineage c = accepted_result\<lparr>cr_completed := Some completed,
     cr_semanticAccepted := Some (cp_semanticAccepted (cc_completion c)), cr_completion := Some (cc_completion c),
     cr_binding := Some \<lparr>cb_actionId = act_action_id (rec_action (cc_dispatch c)),
       cb_attemptId = act_attempt_id (rec_action (cc_dispatch c)), cb_lineageId = cc_lineageId c,
       cb_resultNonce = rec_resultNonce (cc_dispatch c)\<rparr>,
     cr_attention := lin_attention lineage, cr_intervention := Some (lin_intervention lineage),
     cr_contractViolation := (if truthy (cc_contractViolation c) then cc_contractViolation c else None)\<rparr>"

definition accepted_completion :: "string \<Rightarrow> completion_state" where
  "accepted_completion now = \<lparr>cp_phase = Exporting, cp_semanticAccepted = True, cp_acceptedAt = Some now,
     cp_exportStartedAt = Some now, cp_exportCompletedAt = None, cp_failure = None\<rparr>"

definition failed_completion :: "completion_failure \<Rightarrow> control_context \<Rightarrow> control_context" where
  "failed_completion f c =
     set_completion ((cc_completion c)\<lparr>cp_phase := Failed_Phase, cp_failure := Some f\<rparr>) (Some f) c"

text \<open>
  The stretches of \<^verbatim>\<open>finishCompletion\<close>. A failure anywhere makes the phase \<^verbatim>\<open>failed\<close> and is recorded in
  the state file on a best-effort basis.
\<close>

definition finish_fails :: "control_config \<Rightarrow> string \<Rightarrow> control_error \<Rightarrow> control \<Rightarrow> control_output list \<times> control" where
  "finish_fails cfg token e s =
     ([], update_context token (\<lambda>c. (failed_completion (completionExportFailure cfg e) c)\<lparr>
       cc_finishing := Some Recording_Failure\<rparr>) s)"

definition result_envelope :: "string \<Rightarrow> dispatch_record \<Rightarrow> json_record \<Rightarrow> step_result_envelope" where
  "result_envelope now dispatch outputs = \<lparr>
     se_workerId = act_worker_id (rec_action dispatch), se_actionId = act_action_id (rec_action dispatch),
     se_runId = act_run_id (rec_action dispatch), se_occurrenceId = act_occurrence_id (rec_action dispatch),
     se_attemptId = act_attempt_id (rec_action dispatch), se_nonce = rec_resultNonce dispatch,
     se_createdAt = now, se_outputs = outputs\<rparr>"

text \<open>\<open>prepared\<close> is what the boundary answered: the outputs, or its error.\<close>

definition finish_verified ::
  "control_config \<Rightarrow> string \<Rightarrow> control_error + json_record \<Rightarrow> string \<Rightarrow> string \<Rightarrow> control \<Rightarrow>
   control_output list \<times> control" where
  "finish_verified cfg now prepared requestId token s =
     (case bind_result prepared (\<lambda>outputs.
         bind_result (assertCurrent token s) (\<lambda>s1. Inr (outputs, s1))) of
        Inl e \<Rightarrow> finish_fails cfg token e s
      | Inr (outputs, s1) \<Rightarrow>
          (case context_of token s1 of
             None \<Rightarrow> ([], s1)
           | Some c \<Rightarrow>
               (case validateOutputs (act_declared_outputs (rec_action (cc_dispatch c))) outputs of
                  Inl e \<Rightarrow> finish_fails cfg token (Result_Failure e) s1
                | Inr _ \<Rightarrow> ([], update_context token (\<lambda>c. c\<lparr>cc_finishing :=
                    Some (Preparing requestId (result_envelope now (cc_dispatch c) outputs))\<rparr>) s1))))"

text \<open>
  The last stretch before the result is public: the boundary commits (\<open>commit\<close>), the context is checked again,
  and the temporary file is renamed (\<open>io\<close>).
\<close>

definition finish_publishes ::
  "control_config \<Rightarrow> control_error option \<Rightarrow> string option \<Rightarrow> prepared_result \<Rightarrow> step_result_envelope \<Rightarrow> string \<Rightarrow>
   control \<Rightarrow> control_output list \<times> control" where
  "finish_publishes cfg commit io p envelope token s =
     (case assertCurrent token s of
        Inl e \<Rightarrow> finish_fails cfg token e s
      | Inr s1 \<Rightarrow>
          (case bind_result (case commit of Some e \<Rightarrow> Inl e | None \<Rightarrow> Inr ()) (\<lambda>_. assertCurrent token s1) of
             Inl e \<Rightarrow> finish_fails cfg token e s1
           | Inr s2 \<Rightarrow>
               (case io of
                  Some message \<Rightarrow> finish_fails cfg token (Io_Failure message) s2
                | None \<Rightarrow>
                    ([Published token (pr_directory p) (pr_destination p) envelope],
                     update_context token (\<lambda>c. c\<lparr>cc_completion := (cc_completion c)\<lparr>cp_phase := Completed_Phase,
                         cp_exportCompletedAt := Some (se_createdAt envelope)\<rparr>, cc_finishing := Some Recording_Completed\<rparr>)
                       (s2\<lparr>ct_files := publish p (ct_files s2)\<rparr>)))))"

definition record_outcome :: "string \<Rightarrow> control_context \<Rightarrow> control \<Rightarrow> control_output list \<times> control" where
  "record_outcome token c s =
     ([], update_context token (\<lambda>c. c\<lparr>cc_finishing := None\<rparr>)
       (s\<lparr>ct_files := writeStructuredCompletionState (cc_dispatch c) (cc_completion c) (ct_files s)\<rparr>))"

definition finish_continues ::
  "control_config \<Rightarrow> string \<Rightarrow> string \<Rightarrow> string \<Rightarrow> control_error + json_record \<Rightarrow> control_error option \<Rightarrow>
   string option \<Rightarrow> string \<Rightarrow> control \<Rightarrow> control_output list \<times> control" where
  "finish_continues cfg now fallback uuid boundary commit io token s =
     (case context_of token s of
        None \<Rightarrow> ([], s)
      | Some c \<Rightarrow>
          (case cc_finishing c of
             Some (Verifying requestId outputs) \<Rightarrow> finish_verified cfg now boundary requestId token s
           | Some (Preparing requestId envelope) \<Rightarrow>
               (case io of
                  Some message \<Rightarrow> finish_fails cfg token (Io_Failure message) s
                | None \<Rightarrow>
                    let (p, fs) = prepareStepResultAtomic fallback uuid (rec_resultDirectory (cc_dispatch c))
                          requestId envelope (ct_files s) in
                    ([], update_context token (\<lambda>c. c\<lparr>cc_finishing := Some (Publishing p envelope)\<rparr>)
                      (s\<lparr>ct_files := fs\<rparr>)))
           | Some (Publishing p envelope) \<Rightarrow> finish_publishes cfg commit io p envelope token s
           | Some Recording_Completed \<Rightarrow>
               (case io of
                  Some message \<Rightarrow> finish_fails cfg token (Io_Failure message) s
                | None \<Rightarrow> record_outcome token c s)
           | Some Recording_Failure \<Rightarrow>
               (case io of
                  Some _ \<Rightarrow> ([], update_context token (\<lambda>c. c\<lparr>cc_finishing := None\<rparr>) s)
                | None \<Rightarrow> record_outcome token c s)
           | None \<Rightarrow> ([], s)))"

text \<open>
  \<^verbatim>\<open>complete\<close> after its state file was written: the check, and the start of the background completion, which
  goes on at once when there is no boundary to wait for.
\<close>

definition complete_written ::
  "control_config \<Rightarrow> string \<Rightarrow> string \<Rightarrow> json_record \<Rightarrow> string \<Rightarrow> control \<Rightarrow> control_output list \<times> control" where
  "complete_written cfg now requestId outputs token s =
     (case assertCurrent token s of
        Inl e \<Rightarrow> suspend token (Completing_Abandoned requestId e)
          (update_context token (failed_completion (completionExportFailure cfg e)) s)
      | Inr s1 \<Rightarrow>
          let s2 = update_context token (\<lambda>c. c\<lparr>cc_pending := None,
                cc_finishing := Some (Verifying requestId outputs)\<rparr>) s1;
              s3 = (if cl_has_boundary cfg then s2 else snd (finish_verified cfg now (Inr outputs) requestId token s2)) in
          (case context_of token s3 of
             None \<Rightarrow> ([], s3)
           | Some c \<Rightarrow> conclude token requestId (Inr (accepted_result\<lparr>cr_completed := Some False,
               cr_semanticAccepted := Some True, cr_completion := Some (cc_completion c)\<rparr>)) s3))"

definition write_fails :: "control_config \<Rightarrow> string \<Rightarrow> string \<Rightarrow> string \<Rightarrow> control \<Rightarrow> control_output list \<times> control" where
  "write_fails cfg message requestId token s =
     (let f = completionExportFailure cfg (Io_Failure message) in
      conclude token requestId (Inl (Control_Error Invalid_Bridge_Response (cf_message f)))
        (update_context token (\<lambda>c. (set_completion \<lparr>cp_phase = Awaiting_Result, cp_semanticAccepted = False,
          cp_acceptedAt = None, cp_exportStartedAt = None, cp_exportCompletedAt = None, cp_failure = Some f\<rparr> (Some f) c)\<lparr>
          cc_pending := None\<rparr>) s))"

text \<open>A write of the state file by the operation at an \<^verbatim>\<open>await\<close>.\<close>

definition write_state ::
  "control_config \<Rightarrow> string option \<Rightarrow> string \<Rightarrow> control \<Rightarrow> control_output list \<times> control" where
  "write_state cfg io token s =
     (case context_of token s of
        None \<Rightarrow> ([], s)
      | Some c \<Rightarrow>
          let written = s\<lparr>ct_files := writeStructuredCompletionState (cc_dispatch c) (cc_completion c) (ct_files s)\<rparr> in
          (case cc_pending c of
             Some (Completing_Write requestId outputs) \<Rightarrow>
               (case io of
                  Some message \<Rightarrow> write_fails cfg message requestId token s
                | None \<Rightarrow> suspend token (Completing_Written requestId outputs) written)
           | Some (Completing_Abandoned requestId e) \<Rightarrow>
               conclude token requestId (Inl e) (if io = None then written else s)
           | _ \<Rightarrow> ([], s)))"

text \<open>An operation goes on after the listing, or after its state file was written.\<close>

definition resume_operation ::
  "control_config \<Rightarrow> string \<Rightarrow> string \<Rightarrow> control \<Rightarrow> control_output list \<times> control" where
  "resume_operation cfg now token s =
     (case context_of token s of
        None \<Rightarrow> ([], s)
      | Some c \<Rightarrow>
          (case cc_pending c of
             Some (Completing requestId outputs (Some True)) \<Rightarrow> conclude token requestId (Inl replayed_error) s
           | Some (Completing requestId outputs (Some False)) \<Rightarrow>
               ([], update_context token (\<lambda>c. (set_completion (accepted_completion now) None c)\<lparr>
                 cc_pending := Some (Completing_Write requestId outputs)\<rparr>) s)
           | Some (Completing_Written requestId outputs) \<Rightarrow> complete_written cfg now requestId outputs token s
           | Some (Reporting_Status requestId lineage (Some completed)) \<Rightarrow>
               let c1 = (if completed \<and> cp_phase (cc_completion c) \<noteq> Completed_Phase
                     then c\<lparr>cc_completion := completed_by_result now (Some (cc_completion c))\<rparr> else c) in
               conclude token requestId (Inr (status_result completed lineage c1)) (update_context token (\<lambda>_. c1) s)
           | Some (Stopping requestId (Some has_result)) \<Rightarrow>
               let (r, c1) = nativeStop_decides cfg has_result
                     (lift_registry (getLineage (cc_lineageId c) (ct_registry s))) c in
               conclude token requestId r (update_context token (\<lambda>_. c1) s)
           | _ \<Rightarrow> ([], s)))"

end
