(* ===== verification/Step_Result_Properties.thy ===== *)
theory Step_Result_Properties
  imports Step_Results Registry_Examples
begin

text \<open>
  What the files of a Step result promise: the state of a completion is read back as it was written, a
  published envelope is what the executor collects, and what it collects is the only result, made for this
  dispatch and with exactly the declared outputs.
\<close>

section \<open>Files\<close>

lemma lookup_filter:
  "lookup_row key k (filter (\<lambda>r. key r \<noteq> k') rows) = (if k = k' then None else lookup_row key k rows)"
  by (induction rows) auto

lemma read_put [simp]:
  "read_file dir name (put_file dir' name' content fs) =
     (if (dir, name) = (dir', name') then Some content else read_file dir name fs)"
  by (auto simp: read_file_def put_file_def remove_file_def lookup_row_append lookup_filter split: option.split)

lemma read_remove [simp]:
  "read_file dir name (remove_file dir' name' fs) = (if (dir, name) = (dir', name') then None else read_file dir name fs)"
  by (auto simp: read_file_def remove_file_def lookup_filter)

lemma result_names_remove:
  "result_names dir (remove_file dir' name fs) =
     (if dir = dir' then filter (\<lambda>n. n \<noteq> name) (result_names dir fs) else result_names dir fs)"
proof -
  have "readdir dir (remove_file dir' name fs) =
      (if dir = dir' then filter (\<lambda>n. n \<noteq> name) (readdir dir fs) else readdir dir fs)"
    by (induction fs) (auto simp: readdir_def remove_file_def)
  then show ?thesis by (auto simp: result_names_def intro: filter_cong)
qed

lemma result_names_append:
  "result_names dir (fs @ [((dir', name), content)]) =
     result_names dir fs @ (if dir = dir' \<and> result_name name then [name] else [])"
  by (simp add: result_names_def readdir_def)

lemma result_names_put:
  "result_names dir (put_file dir' name content fs) =
     (if dir = dir' then filter (\<lambda>n. n \<noteq> name) (result_names dir fs) @ (if result_name name then [name] else [])
      else result_names dir fs)"
  by (simp add: put_file_def result_names_append result_names_remove)

lemma result_names_other [simp]:
  assumes "\<not> result_name name"
  shows "result_names dir (put_file dir' name content fs) = result_names dir fs"
    and "result_names dir (remove_file dir' name fs) = result_names dir fs"
proof -
  have "filter (\<lambda>n. n \<noteq> name) (result_names d fs) = result_names d fs" for d
    using assms by (auto simp: result_names_def intro: filter_cong)
  then show "result_names dir (put_file dir' name content fs) = result_names dir fs"
    and "result_names dir (remove_file dir' name fs) = result_names dir fs"
    using assms by (simp_all add: result_names_put result_names_remove)
qed

lemma hasStepResult_names: "hasStepResult dispatch fs \<longleftrightarrow> result_names (rec_resultDirectory dispatch) fs \<noteq> []"
  by (auto simp: hasStepResult_def result_names_def list_ex_iff filter_empty_conv)

lemma not_result_names [simp]:
  "\<not> result_name ''structured-completion-state.json''" "\<not> result_name (CHR ''.'' # x)"
  by (simp_all add: result_name_def)

section \<open>Reading back a state\<close>

text \<open>The states the worker writes: their times are dates, their phase and kind are names.\<close>

definition proper_completion :: "(string \<Rightarrow> bool) \<Rightarrow> completion_state \<Rightarrow> bool" where
  "proper_completion date_ok c \<longleftrightarrow>
     list_all (\<lambda>t. case t of None \<Rightarrow> True | Some d \<Rightarrow> date_ok d)
       [cp_acceptedAt c, cp_exportStartedAt c, cp_exportCompletedAt c] \<and>
     (case cp_phase c of Coerced_Phase _ \<Rightarrow> False | _ \<Rightarrow> True) \<and>
     (case cp_failure c of None \<Rightarrow> True | Some f \<Rightarrow> (case cf_kind f of Coerced_Kind _ \<Rightarrow> False | _ \<Rightarrow> True))"

lemma member_Cons [simp]: "member ((k, v) # es) k' = (if k = k' then Some v else member es k')"
  and member_Nil [simp]: "member [] k = None"
  by (simp_all add: member_def)

lemma member_append: "member (es @ es') k = (case member es k of None \<Rightarrow> member es' k | Some v \<Rightarrow> Some v)"
  by (simp add: member_def map_add_def split: option.split)

lemma member_optional [simp]:
  "member (j_optional k f x) k' = (if k = k' then map_option f x else None)"
  by (simp add: j_optional_def split: option.split)

lemmas read_state_simps = member_append member_text_def member_String_def valid_date_def

lemma failure_roundtrip:
  assumes "case cf_kind f of Coerced_Kind _ \<Rightarrow> False | _ \<Rightarrow> True"
  shows "valid_completion_failure (completion_failure_value f)"
    and "completion_failure_of (completion_failure_value f) = Some f"
  using assms
  by (cases "cf_kind f";
      simp add: valid_completion_failure_def completion_failure_value_def completion_failure_of_def read_state_simps
        failure_kind_of_def)+

lemma state_value_members:
  "completion_state_value c = JObj es \<Longrightarrow>
     member es ''phase'' = Some (completion_phase_value (cp_phase c)) \<and>
     member es ''semanticAccepted'' = Some (JBool (cp_semanticAccepted c)) \<and>
     member es ''acceptedAt'' = map_option JStr (cp_acceptedAt c) \<and>
     member es ''exportStartedAt'' = map_option JStr (cp_exportStartedAt c) \<and>
     member es ''exportCompletedAt'' = map_option JStr (cp_exportCompletedAt c) \<and>
     member es ''failure'' = map_option completion_failure_value (cp_failure c)"
  by (auto simp: completion_state_value_def member_append split: option.split)

lemma state_valid:
  assumes "proper_completion date_ok c"
  shows "validStructuredCompletionState date_ok (completion_state_value c)"
proof -
  obtain es where es: "completion_state_value c = JObj es" by (simp add: completion_state_value_def)
  have "member_String es ''phase'' \<in> {''awaiting_result'', ''exporting'', ''completed'', ''failed''}"
    using assms state_value_members [OF es] by (cases "cp_phase c") (simp_all add: member_String_def proper_completion_def)
  moreover have "list_all (\<lambda>field. valid_date date_ok (member es field))
      [''acceptedAt'', ''exportStartedAt'', ''exportCompletedAt'']"
    using assms state_value_members [OF es]
    by (auto simp: proper_completion_def valid_date_def split: option.splits)
  moreover have "case member es ''failure'' of None \<Rightarrow> True | Some f \<Rightarrow> valid_completion_failure f"
    using assms state_value_members [OF es] failure_roundtrip(1)
    by (cases "cp_failure c") (simp_all add: proper_completion_def)
  ultimately show ?thesis
    using state_value_members [OF es] by (simp add: validStructuredCompletionState_def es)
qed

lemma member_text_JStr: "member es k = map_option JStr x \<Longrightarrow> member_text es k = x"
  by (cases x) (simp_all add: member_text_def)

lemma state_read:
  assumes "proper_completion date_ok c" and es: "completion_state_value c = JObj es"
  shows "completion_state_of es = c"
proof -
  note members = state_value_members [OF es]
  have "completion_phase_of (completion_phase_value (cp_phase c)) = cp_phase c"
    using assms(1) by (cases "cp_phase c") (simp_all add: completion_phase_of_def proper_completion_def)
  moreover have "(case member es ''failure'' of None \<Rightarrow> None | Some f \<Rightarrow> completion_failure_of f) = cp_failure c"
    using members assms(1) failure_roundtrip(2)
    by (cases "cp_failure c") (simp_all add: proper_completion_def)
  ultimately show ?thesis
    using members by (intro completion_state.equality) (simp_all add: completion_state_of_def member_text_JStr)
qed

section \<open>Publication and collection\<close>

lemma validateOutputs_Inr: "validateOutputs declared outputs = Inr u \<longleftrightarrow> mset (map fst outputs) = mset declared"
  unfolding validateOutputs_def Let_def
  by (simp only: sort_eq_iff_mset [symmetric] split: if_splits) simp

lemma result_name_published:
  assumes "list_all name_char safe" and "list_all name_char uuid"
  shows "result_name (''result-'' @ safe @ ''-'' @ uuid @ ''.json'')"
proof -
  have "name_char CHR ''-''" by (simp add: name_char_def token_char_def)
  then show ?thesis using assms by (simp add: result_name_def)
qed

lemma safe_call_id_chars: "list_all name_char fallback \<Longrightarrow> list_all name_char (safe_call_id fallback callId)"
  by (auto simp: safe_call_id_def Let_def list_all_iff dest!: in_set_takeD)

text \<open>The envelope a completion makes for a dispatch.\<close>

definition envelope_for :: "dispatch_record \<Rightarrow> step_result_envelope \<Rightarrow> bool" where
  "envelope_for dispatch e \<longleftrightarrow>
     se_workerId e = act_worker_id (rec_action dispatch) \<and> se_actionId e = act_action_id (rec_action dispatch) \<and>
     se_runId e = act_run_id (rec_action dispatch) \<and> se_occurrenceId e = act_occurrence_id (rec_action dispatch) \<and>
     se_attemptId e = act_attempt_id (rec_action dispatch) \<and> se_nonce e = rec_resultNonce dispatch \<and>
     mset (map fst (se_outputs e)) = mset (act_declared_outputs (rec_action dispatch))"

text \<open>An object that has the members of an envelope, and possibly others.\<close>

definition has_members :: "json_record \<Rightarrow> json_record \<Rightarrow> bool" where
  "has_members es required = list_all (\<lambda>(k, v). member es k = Some v) required"

lemma has_members_self [simp]: "has_members (envelope_entries e) (envelope_entries e)"
  by (simp add: has_members_def envelope_entries_def)

lemma validateEnvelope_Inr:
  "validateEnvelope date_ok v dispatch = Inr es \<longleftrightarrow>
     v = JObj es \<and> (\<exists>e. envelope_for dispatch e \<and> date_ok (se_createdAt e) \<and> has_members es (envelope_entries e))"
proof
  assume valid: "validateEnvelope date_ok v dispatch = Inr es"
  then obtain createdAt outputs where v: "v = JObj es"
    "member_text es ''createdAt'' = Some createdAt" "member es ''outputs'' = Some (JObj outputs)"
    by (auto simp: validateEnvelope_def Let_def split: json.splits option.splits if_splits elim!: bind_result_InrE)
  let ?a = "rec_action dispatch"
  have "envelope_for dispatch \<lparr>se_workerId = act_worker_id ?a, se_actionId = act_action_id ?a,
      se_runId = act_run_id ?a, se_occurrenceId = act_occurrence_id ?a, se_attemptId = act_attempt_id ?a,
      se_nonce = rec_resultNonce dispatch, se_createdAt = createdAt, se_outputs = outputs\<rparr> \<and> date_ok createdAt \<and>
    has_members es (envelope_entries \<lparr>se_workerId = act_worker_id ?a, se_actionId = act_action_id ?a,
      se_runId = act_run_id ?a, se_occurrenceId = act_occurrence_id ?a, se_attemptId = act_attempt_id ?a,
      se_nonce = rec_resultNonce dispatch, se_createdAt = createdAt, se_outputs = outputs\<rparr>)"
    using valid v
    by (auto simp: validateEnvelope_def Let_def envelope_for_def validateOutputs_Inr has_members_def
        envelope_entries_def member_text_def split: option.splits json.splits if_splits elim!: bind_result_InrE)
  with v show "v = JObj es \<and> (\<exists>e. envelope_for dispatch e \<and> date_ok (se_createdAt e) \<and> has_members es (envelope_entries e))"
    by (intro conjI exI) auto
next
  assume "v = JObj es \<and> (\<exists>e. envelope_for dispatch e \<and> date_ok (se_createdAt e) \<and> has_members es (envelope_entries e))"
  then obtain e where v: "v = JObj es" and e: "envelope_for dispatch e" "date_ok (se_createdAt e)"
    "has_members es (envelope_entries e)" by blast
  have "validateOutputs (act_declared_outputs (rec_action dispatch)) (se_outputs e) = Inr ()"
    using e(1) by (simp add: validateOutputs_Inr envelope_for_def)
  then show "validateEnvelope date_ok v dispatch = Inr es"
    using v e by (simp add: validateEnvelope_def Let_def has_members_def envelope_entries_def envelope_for_def member_text_def)
qed

section \<open>Properties\<close>

text \<open>
  The lifecycle state of a completion that is written for a dispatch is read back for it unchanged, whatever
  the directory held before.
\<close>

theorem completion_state_roundtrip:
  assumes "proper_completion date_ok c"
  shows "readStructuredCompletionState date_ok dispatch (writeStructuredCompletionState dispatch c fs) = Inr (Some c)"
proof -
  obtain es where es: "completion_state_value c = JObj es" by (simp add: completion_state_value_def)
  then show ?thesis
    using state_valid [OF assms] state_read [OF assms es]
    by (simp add: readStructuredCompletionState_def writeStructuredCompletionState_def completion_record_value_def)
qed

definition example_failed :: completion_state where
  "example_failed = \<lparr>cp_phase = Failed_Phase, cp_semanticAccepted = True, cp_acceptedAt = Some ''t1'',
     cp_exportStartedAt = Some ''t1'', cp_exportCompletedAt = None,
     cp_failure = Some \<lparr>cf_kind = Stale_Context, cf_code = ''stale_control_context'', cf_message = ''stale''\<rparr>\<rparr>"

theorem completion_state_roundtrip_witness:
  "readStructuredCompletionState (\<lambda>_. True) (mapDispatch example_dispatch)
     (writeStructuredCompletionState (mapDispatch example_dispatch) example_failed []) = Inr (Some example_failed)"
  by (rule completion_state_roundtrip) (simp add: proper_completion_def example_failed_def)

text \<open>
  When a directory holds no result, publishing an envelope with the identity and the declared outputs of the
  dispatch makes it the one result that the executor collects, under the published name.
\<close>

lemma published_result_collected:
  assumes "\<not> hasStepResult dispatch fs" and "envelope_for dispatch e" and "date_ok (se_createdAt e)"
    and "list_all name_char fallback" "list_all name_char uuid"
    and "writeStepResultAtomic fallback uuid (rec_resultDirectory dispatch) callId e fs = (name, fs')"
  shows "collectStepResult date_ok dispatch fs' = Inr (envelope_entries e, name)"
proof -
  have name: "name = ''result-'' @ safe_call_id fallback callId @ ''-'' @ uuid @ ''.json''"
    using assms(6) by (auto simp: writeStepResultAtomic_def prepareStepResultAtomic_def Let_def)
  then have "result_name name"
    using result_name_published [OF safe_call_id_chars [OF assms(4)] assms(5)] by simp
  then have names: "result_names (rec_resultDirectory dispatch) fs' = [name]"
    using assms(1,6)
    by (auto simp: writeStepResultAtomic_def prepareStepResultAtomic_def Let_def publish_def hasStepResult_names
        result_names_put)
  have "read_file (rec_resultDirectory dispatch) name fs' = Some (Stored (envelope_value e))"
    using assms(6) by (auto simp: writeStepResultAtomic_def prepareStepResultAtomic_def Let_def publish_def)
  then show ?thesis
    using assms(2,3)
    by (auto simp: collectStepResult_def names envelope_value_def validateEnvelope_Inr bind_result_eq_Inr)
qed

definition example_envelope :: step_result_envelope where
  "example_envelope = \<lparr>se_workerId = ''worker'', se_actionId = ''a1'', se_runId = ''run'', se_occurrenceId = ''occ'',
     se_attemptId = ''try1'', se_nonce = ''n1'', se_createdAt = ''t2'',
     se_outputs = map (\<lambda>k. (k, JNull)) (act_declared_outputs example_action)\<rparr>"

lemma example_envelope_for: "envelope_for (mapDispatch example_dispatch) example_envelope"
  by (simp add: envelope_for_def example_envelope_def mapDispatch_def example_dispatch_def new_dispatch_row_def comp_def)

lemma published_result_collected_witness:
  "collectStepResult (\<lambda>_. True) (mapDispatch example_dispatch)
     (snd (writeStepResultAtomic ''u0'' ''u1'' (rec_resultDirectory (mapDispatch example_dispatch)) ''call'' example_envelope [])) =
   Inr (envelope_entries example_envelope, ''result-call-u1.json'')"
  by (rule published_result_collected [where fs = "[]" and fallback = "''u0''" and uuid = "''u1''" and callId = "''call''"])
    (simp_all add: hasStepResult_def readdir_def example_envelope_for name_char_def token_char_def
      writeStepResultAtomic_def prepareStepResultAtomic_def safe_call_id_def Let_def)



end
