(* ===== verification/Control_Steps.thy ===== *)
theory Control_Steps
  imports Control_Operations Step_Result_Properties Attention_Evolution
begin

text \<open>
  The control authority as a labelled step relation: one step for every stretch of code between two
  \<^verbatim>\<open>await\<close>s, in any order, interleaved with transactions of the registry that others make. Each step is
  reduced to its effect on the contexts, the maps, the files and the registry, from which the properties
  follow.
\<close>

section \<open>Contexts as a table\<close>

interpretation contexts: keyed_table cc_contextToken context_of update_context
  by unfold_locales (auto simp: update_context_def lookup_row_update_key dest: lookup_row_SomeD)

lemma update_context_keeps [simp]:
  "ct_registry (update_context t f s) = ct_registry s" "ct_files (update_context t f s) = ct_files s"
  "ct_live (update_context t f s) = ct_live s" "ct_tokens (update_context t f s) = ct_tokens s"
  "ct_waiters (update_context t f s) = ct_waiters s" "ct_binds (update_context t f s) = ct_binds s"
  "ct_receiving (update_context t f s) = ct_receiving s" "ct_endpoint (update_context t f s) = ct_endpoint s"
  by (simp_all add: update_context_def)

lemma token_of_update [simp]: "token_of l (update_context t f s) = token_of l s"
  by (simp add: token_of_def)

section \<open>Steps\<close>

text \<open>The random identifiers of a publication consist of letters, digits and hyphens.\<close>

inductive control_step ::
  "registry_config \<Rightarrow> control_config \<Rightarrow> control \<Rightarrow> control_output list \<Rightarrow> control \<Rightarrow> bool" for rc cfg where
  listening: "control_step rc cfg s [] (s\<lparr>ct_endpoint := True\<rparr>)"
| registry: "registry_step rc (ct_registry s) reg \<Longrightarrow> control_step rc cfg s [] (s\<lparr>ct_registry := reg\<rparr>)"
| bind_begin: "token \<notin> cc_contextToken ` set (ct_contexts s) \<union> bp_token ` set (ct_binds s) \<Longrightarrow>
    get (act_action_id (rec_action dispatch)) (ct_registry s) = Inr dispatch \<Longrightarrow>
    bind_begins cfg now token dispatch lineage recoverability s = (outs, s') \<Longrightarrow> control_step rc cfg s outs s'"
| bind_continue: "b \<in> set (ct_binds s) \<Longrightarrow> bind_continues cfg now io b s = (outs, s') \<Longrightarrow> control_step rc cfg s outs s'"
| invalidate: "invalidate now lineageId s = (outs, e, s') \<Longrightarrow> control_step rc cfg s outs s'"
| handle: "handle cfg now aborted generation token requestId operation s = (outs, s') \<Longrightarrow> control_step rc cfg s outs s'"
| run: "run_next cfg now uuid token s = (outs, s') \<Longrightarrow> control_step rc cfg s outs s'"
| listed: "list_results io token s = (outs, s') \<Longrightarrow> control_step rc cfg s outs s'"
| wrote: "write_state cfg io token s = (outs, s') \<Longrightarrow> control_step rc cfg s outs s'"
| resume: "resume_operation cfg now token s = (outs, s') \<Longrightarrow> control_step rc cfg s outs s'"
| finish: "list_all name_char fallback \<Longrightarrow> list_all name_char uuid \<Longrightarrow>
    finish_continues cfg now fallback uuid boundary commit io token s = (outs, s') \<Longrightarrow> control_step rc cfg s outs s'"
| abort: "abort_wait token attentionId s = (outs, s') \<Longrightarrow> control_step rc cfg s outs s'"
| receive: "receiveHumanAttentionResponse now input s = Inr (outs, s') \<Longrightarrow> control_step rc cfg s outs s'"
| deliver: "x \<in> set (ct_receiving s) \<Longrightarrow> receive_delivers now x s = (outs, s') \<Longrightarrow> control_step rc cfg s outs s'"
| withdraw: "cancelPendingHumanAttention now lineageId reason state exact s = Inr (outs, s') \<Longrightarrow> control_step rc cfg s outs s'"

text \<open>A history with everything it told others.\<close>

inductive control_run ::
  "registry_config \<Rightarrow> control_config \<Rightarrow> control \<Rightarrow> control_output list \<Rightarrow> control \<Rightarrow> bool" for rc cfg where
  start: "control_run rc cfg s [] s"
| extend: "control_run rc cfg s outs t \<Longrightarrow> control_step rc cfg t new u \<Longrightarrow> control_run rc cfg s (outs @ new) u"

text \<open>An authority that was just created over a registry and its files.\<close>

definition initial_control :: "registry \<Rightarrow> files \<Rightarrow> control" where
  "initial_control reg fs = \<lparr>ct_registry = reg, ct_files = fs, ct_endpoint = False, ct_contexts = [], ct_live = [],
     ct_tokens = [], ct_waiters = [], ct_binds = [], ct_receiving = []\<rparr>"

section \<open>The registry moves by its own steps\<close>

abbreviation registry_steps :: "registry_config \<Rightarrow> registry \<Rightarrow> registry \<Rightarrow> bool" where
  "registry_steps rc \<equiv> (registry_step rc)\<^sup>*\<^sup>*"

lemma registry_one: "registry_step rc reg reg' \<Longrightarrow> registry_steps rc reg reg'"
  by (rule r_into_rtranclp)

lemmas attention_steps = registry_one [OF registry_step.update_session] registry_one [OF registry_step.register_attention]
  registry_one [OF registry_step.record_response] registry_one [OF registry_step.begin_delivery]
  registry_one [OF registry_step.acknowledge_delivery] registry_one [OF registry_step.uncertain_delivery]
  registry_one [OF registry_step.cancel_attention]

text \<open>A step that changes nothing but the registry.\<close>

definition registry_only :: "registry_config \<Rightarrow> control \<Rightarrow> control \<Rightarrow> bool" where
  "registry_only rc s s' \<longleftrightarrow> (\<exists>reg. s' = s\<lparr>ct_registry := reg\<rparr> \<and> registry_steps rc (ct_registry s) reg)"

lemma registry_only_refl [simp]: "registry_only rc s s"
  by (auto simp: registry_only_def intro!: exI [of _ "ct_registry s"])

lemma registry_only_step: "registry_steps rc (ct_registry s) reg \<Longrightarrow> registry_only rc s (s\<lparr>ct_registry := reg\<rparr>)"
  by (auto simp: registry_only_def)

lemma second_of_result: "bind_result x (\<lambda>(_, reg). Inr reg) = Inr reg' \<longleftrightarrow> (\<exists>a. x = Inr (a, reg'))"
  by (cases x) auto

lemma requestAttention_effect:
  assumes "requestAttention cfg now i c request requestId s = (r, outs, s')"
  shows "registry_only rc s s'"
  using assms
  by (auto simp: requestAttention_def Let_def split: if_splits sum.splits option.splits prod.splits
      intro!: registry_only_step intro: attention_steps elim!: bind_result_InrE)

lemma deliver_effect:
  assumes "deliverCommittedAttentionResponse now i s = (r, s')"
  shows "registry_only rc s s'"
  using assms
  by (auto simp: deliverCommittedAttentionResponse_def split: if_splits sum.splits option.splits prod.splits
      intro!: registry_only_step intro: attention_steps)

lemma acknowledge_effect:
  assumes "acknowledgeAttentionResponse cfg now c h attempt s = (r, outs, s')"
  shows "registry_only rc s s'"
  using assms
  by (auto simp: acknowledgeAttentionResponse_def split: sum.splits prod.splits
      intro!: registry_only_step intro: attention_steps)

lemma resolve_effect:
  assumes "resolveAttention now c i outcome s = (r, outs, s')"
  shows "registry_only rc s s'"
  using assms
  by (auto simp: resolveAttention_def Let_def second_of_result split: sum.splits if_splits
      intro!: registry_only_step intro: attention_steps)

lemma resumed_effect:
  assumes "automationResumed now c i s = (r, outs, s')"
  shows "registry_only rc s s'"
  using assms
  by (auto simp: automationResumed_def Let_def split: sum.splits option.splits if_splits prod.splits
      intro!: registry_only_step intro: attention_steps)

lemma yield_effect: "yieldToHuman c i s = (r, outs, s') \<Longrightarrow> registry_only rc s s'"
  by (auto simp: yieldToHuman_def split: sum.splits if_splits)

section \<open>One context\<close>

text \<open>
  A context is armed from the listing that found no result until its completion is published or has failed.
  The phases exclude each other: an operation that completes the Step is not yet accepted, a background
  completion belongs to an accepted result.
\<close>

fun arming :: "pending option \<Rightarrow> bool" where
  "arming (Some (Completing _ _ (Some found))) \<longleftrightarrow> \<not> found"
| "arming (Some (Completing_Write _ _)) \<longleftrightarrow> True"
| "arming (Some (Completing_Written _ _)) \<longleftrightarrow> True"
| "arming _ \<longleftrightarrow> False"

fun exporting :: "finishing option \<Rightarrow> bool" where
  "exporting None \<longleftrightarrow> False"
| "exporting (Some Recording_Completed) \<longleftrightarrow> False"
| "exporting (Some Recording_Failure) \<longleftrightarrow> False"
| "exporting _ \<longleftrightarrow> True"

definition armed :: "control_context \<Rightarrow> bool" where
  "armed c \<longleftrightarrow> arming (cc_pending c) \<or> exporting (cc_finishing c)"

fun phase_ok :: "pending option \<Rightarrow> bool \<Rightarrow> bool \<Rightarrow> bool" where
  "phase_ok (Some (Completing _ _ _)) finishing accepted \<longleftrightarrow> \<not> accepted \<and> \<not> finishing"
| "phase_ok (Some (Completing_Write _ _)) finishing accepted \<longleftrightarrow> accepted \<and> \<not> finishing"
| "phase_ok (Some (Completing_Written _ _)) finishing accepted \<longleftrightarrow> accepted \<and> \<not> finishing"
| "phase_ok (Some (Completing_Abandoned _ _)) finishing accepted \<longleftrightarrow> accepted \<and> \<not> finishing"
| "phase_ok _ finishing accepted \<longleftrightarrow> (finishing \<longrightarrow> accepted)"

definition context_ok :: "control_context \<Rightarrow> bool" where
  "context_ok c \<longleftrightarrow> phase_ok (cc_pending c) (cc_finishing c \<noteq> None) (cp_semanticAccepted (cc_completion c))"

fun envelope_fits :: "dispatch_record \<Rightarrow> finishing option \<Rightarrow> bool" where
  "envelope_fits dispatch (Some (Preparing _ e)) \<longleftrightarrow> envelope_for dispatch e"
| "envelope_fits dispatch (Some (Publishing p e)) \<longleftrightarrow> envelope_for dispatch e \<and>
     pr_directory p = rec_resultDirectory dispatch \<and> pr_content p = envelope_value e \<and>
     result_name (pr_destination p) \<and> \<not> result_name (pr_temporary p)"
| "envelope_fits dispatch _ \<longleftrightarrow> True"

definition envelope_ok :: "control_context \<Rightarrow> bool" where
  "envelope_ok c \<longleftrightarrow> envelope_fits (cc_dispatch c) (cc_finishing c)"

lemmas phase_defs = armed_def context_ok_def envelope_ok_def

lemma phase_ok_weaken: "phase_ok p f a \<Longrightarrow> f \<longrightarrow> a"
  by (cases "(p, f, a)" rule: phase_ok.cases) auto

definition same_dispatch :: "dispatch_record \<Rightarrow> dispatch_record \<Rightarrow> bool" where
  "same_dispatch d d' \<longleftrightarrow> rec_action d' = rec_action d \<and> rec_resultNonce d' = rec_resultNonce d \<and>
     rec_resultDirectory d' = rec_resultDirectory d"

definition context_step :: "bool \<Rightarrow> control_context \<Rightarrow> control_context \<Rightarrow> bool" where
  "context_step arms c c' \<longleftrightarrow>
     cc_contextToken c' = cc_contextToken c \<and> cc_lineageId c' = cc_lineageId c \<and>
     (cc_invalidated c \<longrightarrow> cc_invalidated c') \<and> same_dispatch (cc_dispatch c) (cc_dispatch c') \<and>
     (context_ok c \<longrightarrow> context_ok c') \<and> (envelope_ok c \<longrightarrow> envelope_ok c') \<and>
     (context_ok c \<longrightarrow> armed c' \<longrightarrow> armed c \<or> arms)"

lemma same_dispatch_refl [simp]: "same_dispatch d d"
  by (simp add: same_dispatch_def)

lemma same_dispatch_trans: "same_dispatch a b \<Longrightarrow> same_dispatch b c \<Longrightarrow> same_dispatch a c"
  by (simp add: same_dispatch_def)

lemma context_step_refl [simp]: "context_step arms c c"
  by (simp add: context_step_def)

lemma context_step_trans: "context_step a c d \<Longrightarrow> context_step a d e \<Longrightarrow> context_step a c e"
  unfolding context_step_def by (elim conjE, intro conjI) (simp, simp, blast, erule (1) same_dispatch_trans, blast+)

lemma same_envelope: "same_dispatch d d' \<Longrightarrow> envelope_for d' e = envelope_for d e"
  by (simp add: same_dispatch_def envelope_for_def)

text \<open>A change that keeps the phase, for every column that is not part of it.\<close>

lemma context_step_phase:
  assumes "cc_contextToken c' = cc_contextToken c" "cc_lineageId c' = cc_lineageId c"
    "cc_invalidated c \<longrightarrow> cc_invalidated c'" "same_dispatch (cc_dispatch c) (cc_dispatch c')"
    "cc_pending c' = cc_pending c" "cc_finishing c' = cc_finishing c"
    "cp_semanticAccepted (cc_completion c') = cp_semanticAccepted (cc_completion c)"
  shows "context_step arms c c'"
proof -
  have "envelope_fits (cc_dispatch c') f = envelope_fits (cc_dispatch c) f" for f
    using assms(4) same_envelope [OF assms(4)]
    by (cases "(cc_dispatch c, f)" rule: envelope_fits.cases) (simp_all add: same_dispatch_def)
  then show ?thesis using assms by (simp add: context_step_def phase_defs)
qed

section \<open>Steps of one context\<close>

definition local_effect :: "registry_config \<Rightarrow> bool \<Rightarrow> control_context \<Rightarrow> control \<Rightarrow> control \<Rightarrow> bool" where
  "local_effect rc arms c s s' \<longleftrightarrow>
     (\<exists>c'. (\<forall>t. context_of t s' = (if t = cc_contextToken c then Some c' else context_of t s)) \<and> context_step arms c c') \<and>
     ct_live s' = ct_live s \<and> ct_tokens s' = ct_tokens s \<and> ct_binds s' = ct_binds s \<and>
     (\<forall>d. result_names d (ct_files s') = result_names d (ct_files s)) \<and> registry_steps rc (ct_registry s) (ct_registry s')"

lemma local_effect_refl [intro]: "context_of (cc_contextToken c) s = Some c \<Longrightarrow> local_effect rc arms c s s"
  unfolding local_effect_def by (auto intro!: exI [of _ c])

lemma local_effect_trans:
  assumes "local_effect rc a c s t" and "context_of (cc_contextToken c) t = Some d" and "local_effect rc a d t u"
  shows "local_effect rc a c s u"
proof -
  obtain c' where c': "\<forall>k. context_of k t = (if k = cc_contextToken c then Some c' else context_of k s)" "context_step a c c'"
    using assms(1) by (auto simp: local_effect_def)
  moreover from this have "c' = d" using assms(2) by simp
  moreover obtain d' where "\<forall>k. context_of k u = (if k = cc_contextToken d then Some d' else context_of k t)" "context_step a d d'"
    using assms(3) by (auto simp: local_effect_def)
  moreover have "cc_contextToken d = cc_contextToken c" using calculation(2,3) by (simp add: context_step_def)
  ultimately have "\<exists>c'. (\<forall>k. context_of k u = (if k = cc_contextToken c then Some c' else context_of k s)) \<and> context_step a c c'"
    by (intro exI [of _ d']) (auto intro: context_step_trans)
  then show ?thesis using assms(1,3) by (auto simp: local_effect_def)
qed

text \<open>The building blocks: an update of the context, a move of the registry, and files without a result.\<close>

lemma local_update:
  assumes "context_of token s = Some c" and "\<And>c. cc_contextToken (f c) = cc_contextToken c" and "context_step arms c (f c)"
  shows "local_effect rc arms c s (update_context token f s)"
proof -
  have "cc_contextToken c = token" using contexts.lookup_key [OF assms(1)] .
  then show ?thesis
    using assms unfolding local_effect_def
    by (auto intro!: exI [of _ "f c"] simp: contexts.lookup_update)
qed

lemma lookup_set:
  assumes "cc_contextToken c' = token"
  shows "context_of t (update_context token (\<lambda>_. c') s) =
    (if t = token then map_option (\<lambda>_. c') (context_of token s) else context_of t s)"
proof -
  have "lookup_row cc_contextToken t (update_where (\<lambda>c. cc_contextToken c = token) (\<lambda>_. c') rows) =
      (if t = token then map_option (\<lambda>_. c') (lookup_row cc_contextToken token rows)
       else lookup_row cc_contextToken t rows)" for rows
    using assms by (induction rows) auto
  then show ?thesis by (simp add: update_context_def)
qed

lemma local_set:
  assumes "context_of token s = Some c" and "context_step arms c c'"
  shows "local_effect rc arms c s (update_context token (\<lambda>_. c') s)"
proof -
  have tok: "cc_contextToken c = token" "cc_contextToken c' = token"
    using contexts.lookup_key [OF assms(1)] assms(2) by (auto simp: context_step_def)
  show ?thesis
    using assms tok unfolding local_effect_def by (auto intro!: exI [of _ c'] simp: lookup_set)
qed

lemma local_registry:
  "context_of (cc_contextToken c) s = Some c \<Longrightarrow> registry_only rc s s' \<Longrightarrow> local_effect rc arms c s s'"
  unfolding local_effect_def registry_only_def by (auto intro!: exI [of _ c])

lemma local_files:
  "context_of (cc_contextToken c) s = Some c \<Longrightarrow> (\<And>d. result_names d fs = result_names d (ct_files s)) \<Longrightarrow>
   local_effect rc arms c s (s\<lparr>ct_files := fs\<rparr>)"
  unfolding local_effect_def by (auto intro!: exI [of _ c])

section \<open>Operations are steps of one context\<close>

lemma conclude_step: "context_step arms c (c\<lparr>cc_pending := None, cc_requests := rs\<rparr>)"
  by (auto simp: context_step_def phase_defs dest: phase_ok_weaken)

lemma suspended_step:
  assumes "cc_pending c = None" and "context_ok c \<Longrightarrow> phase_ok (Some p) (cc_finishing c \<noteq> None) (cp_semanticAccepted (cc_completion c))"
    and "\<not> arming (Some p)"
  shows "context_step arms c (c\<lparr>cc_pending := Some p\<rparr>)"
  using assms by (simp add: context_step_def phase_defs)

definition publications :: "control_output list \<Rightarrow> (string \<times> string) list" where
  "publications outs = concat (map (\<lambda>out. case out of Published t d n e \<Rightarrow> [(t, d)] | _ \<Rightarrow> []) outs)"

lemma publications_simps [simp]:
  "publications [] = []" "publications (xs @ ys) = publications xs @ publications ys"
  "publications (Published t d n e # outs) = (t, d) # publications outs"
  "publications (Reply t i r # outs) = publications outs" "publications (Settle t i r # outs) = publications outs"
  "publications (Delivery_Report dr # outs) = publications outs" "publications (Attention_Report a l # outs) = publications outs"
  "publications (Bound t l # outs) = publications outs" "publications (Bind_Failed t err # outs) = publications outs"
  by (simp_all add: publications_def)

definition context_effect ::
  "registry_config \<Rightarrow> bool \<Rightarrow> control_context \<Rightarrow> control \<Rightarrow> control_output list \<Rightarrow> control \<Rightarrow> bool" where
  "context_effect rc arms c s outs s' \<longleftrightarrow> local_effect rc arms c s s' \<and> publications outs = []"

lemma context_effectI: "local_effect rc arms c s s' \<Longrightarrow> publications outs = [] \<Longrightarrow> context_effect rc arms c s outs s'"
  by (simp add: context_effect_def)

lemma conclude_effect:
  assumes "conclude token requestId r s = (outs, s')" and "context_of token s = Some c"
  shows "local_effect rc arms c s s'" "publications outs = []"
  using assms
  by (auto simp: conclude_def intro!: local_update conclude_step)

lemma outcome_effect:
  assumes "outcome_concludes token requestId (r, outs, t) = (all, s')" and "context_of token s = Some c"
    and "registry_only rc s t" and "publications outs = []"
  shows "local_effect rc arms c s s'" "publications all = []"
proof -
  have tok: "cc_contextToken c = token" using contexts.lookup_key [OF assms(2)] .
  have c: "context_of token t = Some c" using assms(2,3) by (auto simp: registry_only_def)
  obtain reply where "conclude token requestId r t = (reply, s')" "all = outs @ reply"
    using assms(1) by (auto simp: outcome_concludes_def Let_def split: prod.splits)
  from conclude_effect [OF this(1) c] this(2) assms(4)
  show "local_effect rc arms c s s'" "publications all = []"
    using local_effect_trans [OF local_registry [OF _ assms(3)] , of c c arms s'] assms(2) c tok by auto
qed

lemma update_effect:
  assumes "context_of token s = Some c" and "\<And>c. cc_contextToken (f c) = cc_contextToken c" and "context_step arms c (f c)"
    and "context_of token (update_context token f s) = Some (f c) \<Longrightarrow> local_effect rc arms (f c) (update_context token f s) s'"
  shows "local_effect rc arms c s s'"
proof -
  have tok: "cc_contextToken c = token" using contexts.lookup_key [OF assms(1)] .
  have c: "context_of token (update_context token f s) = Some (f c)"
    using assms(1,2) by (simp add: contexts.lookup_update)
  show ?thesis
    by (rule local_effect_trans [OF local_update [OF assms(1-3)] _ assms(4)]) (use c tok in simp_all)
qed

lemma set_effect:
  assumes "context_of token s = Some c" and "context_step arms c c'"
    and "context_of token (update_context token (\<lambda>_. c') s) = Some c' \<Longrightarrow>
      local_effect rc arms c' (update_context token (\<lambda>_. c') s) s'"
  shows "local_effect rc arms c s s'"
proof -
  have tok: "cc_contextToken c = token" using contexts.lookup_key [OF assms(1)] .
  note set = local_set [OF assms(1,2)]
  have "context_of token (update_context token (\<lambda>_. c') s) = Some c'"
    using tok assms(1,2) by (simp add: lookup_set context_step_def)
  then show ?thesis using local_effect_trans [OF set _ assms(3)] tok by simp
qed

lemma suspend_effect:
  assumes "suspend token p s = (outs, s')" and "context_of token s = Some c" and "context_step arms c (c\<lparr>cc_pending := Some p\<rparr>)"
  shows "local_effect rc arms c s s'" "publications outs = []"
  using assms by (auto simp: suspend_def intro!: local_update)

text \<open>The stretches of the operations.\<close>

lemma no_publication:
  "requestAttention cfg now i c request requestId s = (r, outs, s') \<Longrightarrow> publications outs = []"
  "acknowledgeAttentionResponse cfg now c h attempt s = (r, outs, s') \<Longrightarrow> publications outs = []"
  "resolveAttention now c i outcome s = (r, outs, s') \<Longrightarrow> publications outs = []"
  "automationResumed now c i s = (r, outs, s') \<Longrightarrow> publications outs = []"
  "yieldToHuman c i s = (r, outs, s') \<Longrightarrow> publications outs = []"
  subgoal by (auto simp: requestAttention_def Let_def attention_report_def split: if_splits sum.splits option.splits prod.splits)
  subgoal by (auto simp: acknowledgeAttentionResponse_def attention_report_def split: sum.splits prod.splits)
  subgoal by (auto simp: resolveAttention_def Let_def attention_report_def split: if_splits sum.splits)
  subgoal by (auto simp: automationResumed_def Let_def split: if_splits sum.splits option.splits prod.splits)
  subgoal by (auto simp: yieldToHuman_def split: if_splits sum.splits)
  done

lemma checks_step:
  "nativeStop_checks c reason model = Some (r, c') \<Longrightarrow> context_step arms c c'"
  by (auto simp: nativeStop_checks_def Let_def split: if_splits intro!: context_step_phase)

lemma update_concludes:
  assumes "conclude token requestId r (update_context token f s) = (outs, s')" and "context_of token s = Some c"
    and "\<And>c. cc_contextToken (f c) = cc_contextToken c" and "context_step arms c (f c)"
  shows "context_effect rc arms c s outs s'"
proof -
  have c: "context_of token (update_context token f s) = Some (f c)"
    using assms(2,3) by (simp add: contexts.lookup_update)
  show ?thesis
    using update_effect [OF assms(2,3,4)] conclude_effect [OF assms(1) c] by (blast intro: context_effectI)
qed

lemma set_concludes:
  assumes "conclude token requestId r (update_context token (\<lambda>_. c') s) = (outs, s')" and "context_of token s = Some c"
    and "context_step arms c c'"
  shows "context_effect rc arms c s outs s'"
proof -
  have "context_of token (update_context token (\<lambda>_. c') s) = Some c'"
    using assms(2,3) contexts.lookup_key [OF assms(2)] by (simp add: lookup_set context_step_def)
  then show ?thesis
    using set_effect [OF assms(2,3)] conclude_effect [OF assms(1)] by (blast intro: context_effectI)
qed

lemma registry_concludes:
  assumes "conclude token requestId r (s\<lparr>ct_registry := reg\<rparr>) = (outs, s')" and "context_of token s = Some c"
    and "registry_steps rc (ct_registry s) reg"
  shows "context_effect rc arms c s outs s'"
proof -
  have tok: "cc_contextToken c = token" using contexts.lookup_key [OF assms(2)] .
  have c: "context_of token (s\<lparr>ct_registry := reg\<rparr>) = Some c" using assms(2) by simp
  show ?thesis
    using local_effect_trans [OF local_registry [OF _ registry_only_step [OF assms(3)]] _ conclude_effect(1) [OF assms(1) c]]
      conclude_effect(2) [OF assms(1) c] assms(2) tok by (simp add: context_effect_def)
qed

lemma attention_outcomes:
  assumes "context_of token s = Some c"
  shows "outcome_concludes token i (requestAttention cfg now uuid k request i s) = (outs, s') \<Longrightarrow>
      context_effect rc arms c s outs s'"
    and "outcome_concludes token i (acknowledgeAttentionResponse cfg now k h attempt s) = (outs, s') \<Longrightarrow>
      context_effect rc arms c s outs s'"
    and "outcome_concludes token i (resolveAttention now k a outcome s) = (outs, s') \<Longrightarrow>
      context_effect rc arms c s outs s'"
    and "outcome_concludes token i (automationResumed now k a s) = (outs, s') \<Longrightarrow>
      context_effect rc arms c s outs s'"
    and "outcome_concludes token i (yieldToHuman k a s) = (outs, s') \<Longrightarrow>
      context_effect rc arms c s outs s'"
  subgoal by (cases "requestAttention cfg now uuid k request i s")
      (use outcome_effect [OF _ assms] requestAttention_effect no_publication(1) in \<open>metis context_effectI\<close>)
  subgoal by (cases "acknowledgeAttentionResponse cfg now k h attempt s")
      (use outcome_effect [OF _ assms] acknowledge_effect no_publication(2) in \<open>metis context_effectI\<close>)
  subgoal by (cases "resolveAttention now k a outcome s")
      (use outcome_effect [OF _ assms] resolve_effect no_publication(3) in \<open>metis context_effectI\<close>)
  subgoal by (cases "automationResumed now k a s")
      (use outcome_effect [OF _ assms] resumed_effect no_publication(4) in \<open>metis context_effectI\<close>)
  subgoal by (cases "yieldToHuman k a s")
      (use outcome_effect [OF _ assms] yield_effect no_publication(5) in \<open>metis context_effectI\<close>)
  done

lemma reported_state:
  assumes "bind_result (getLineage l reg) (\<lambda>lineage. updateSession l state (lin_attention lineage) now None reg) = Inr (x, reg')"
  shows "registry_steps rc reg reg'"
  using assms by (auto elim!: bind_result_InrE intro: attention_steps)

lemma apply_effect:
  assumes "apply_begins cfg now uuid c requestId operation s = (outs, s')"
    and c: "context_of (cc_contextToken c) s = Some c" and idle: "cc_pending c = None"
  shows "context_effect rc arms c s outs s'"
proof -
  have suspends: "context_effect rc arms c s outs s'"
    if "suspend (cc_contextToken c) p s = (outs, s')" "\<not> arming (Some p)"
      "context_ok c \<Longrightarrow> phase_ok (Some p) (cc_finishing c \<noteq> None) (cp_semanticAccepted (cc_completion c))" for p
    using suspend_effect [OF that(1) c suspended_step [OF idle that(3,2)]] by (blast intro: context_effectI)
  have idle_ok: "context_ok c \<Longrightarrow> cc_finishing c \<noteq> None \<longrightarrow> cp_semanticAccepted (cc_completion c)"
    unfolding context_ok_def by (rule phase_ok_weaken)
  have concludes: "conclude (cc_contextToken c) requestId r s = (outs, s') \<Longrightarrow> context_effect rc arms c s outs s'" for r
    using conclude_effect [OF _ c] by (blast intro: context_effectI)
  note begins = assms(1) [unfolded apply_begins_def Let_def]
  show ?thesis
  proof (cases operation)
    case (Complete_Step outputs)
    then show ?thesis
      using begins idle_ok
      by (auto split: sum.splits if_splits elim!: concludes suspends update_concludes [OF _ c]
          intro!: context_step_phase)
  next
    case (Report_Completion_Failure f)
    then show ?thesis using begins by (auto elim!: update_concludes [OF _ c] intro!: context_step_phase)
  next
    case (Report_State state)
    then show ?thesis
      using begins
      by (auto split: sum.splits prod.splits elim!: concludes registry_concludes [OF _ c] dest!: reported_state)
  next
    case Completion_Status
    then show ?thesis
      using begins idle_ok by (auto split: sum.splits elim!: concludes suspends)
  next
    case (Native_Stop reason idle model)
    then show ?thesis
      using begins idle_ok
      by (auto split: option.splits elim!: suspends set_concludes [OF _ c] intro!: checks_step)
  qed (use begins attention_outcomes [OF c] concludes in simp_all)
qed

section \<open>Effects of the stretches\<close>

text \<open>The registry still holds the dispatch a context was bound for.\<close>

definition known_dispatch :: "registry \<Rightarrow> dispatch_record \<Rightarrow> bool" where
  "known_dispatch reg d \<longleftrightarrow> (\<exists>d'. get (act_action_id (rec_action d)) reg = Inr d' \<and> same_dispatch d d')"

lemma current_dispatch_same:
  "current_dispatch c s = Inr d \<Longrightarrow> known_dispatch (ct_registry s) (cc_dispatch c) \<Longrightarrow> same_dispatch (cc_dispatch c) d"
  by (auto simp: current_dispatch_def known_dispatch_def split: if_splits elim!: bind_result_InrE)

text \<open>Nothing changes, or one context makes a step; listing the results may arm it.\<close>

definition token_effect ::
  "registry_config \<Rightarrow> string \<Rightarrow> control \<Rightarrow> control_output list \<Rightarrow> control \<Rightarrow> bool" where
  "token_effect rc token s outs s' \<longleftrightarrow>
     s' = s \<and> publications outs = [] \<or>
     (\<exists>c. context_of token s = Some c \<and> context_effect rc (\<not> hasStepResult (cc_dispatch c) (ct_files s)) c s outs s')"

lemma token_effectI: "context_of token s = Some c \<Longrightarrow> (\<And>arms. context_effect rc arms c s outs s') \<Longrightarrow> token_effect rc token s outs s'"
  by (auto simp: token_effect_def)

lemma token_effect_refl [intro]: "publications outs = [] \<Longrightarrow> token_effect rc token s outs s"
  by (simp add: token_effect_def)

lemma updated_effect:
  assumes "context_of token s = Some c" and "\<And>c. cc_contextToken (f c) = cc_contextToken c" and "context_step arms c (f c)"
    and "publications outs = []"
  shows "context_effect rc arms c s outs (update_context token f s)"
  using assms by (simp add: context_effect_def local_update)

lemma run_effect:
  assumes "run_next cfg now uuid token s = (outs, s')"
    and "\<And>c. context_of token s = Some c \<Longrightarrow> known_dispatch (ct_registry s) (cc_dispatch c)"
  shows "token_effect rc token s outs s'"
proof (cases "context_of token s")
  case None
  then show ?thesis using assms(1) by (auto simp: run_next_def)
next
  case (Some c)
  note tok = contexts.lookup_key [OF Some]
  show ?thesis
  proof (cases "\<exists>requestId operation rest. cc_pending c = None \<and> cc_queue c = (requestId, operation) # rest")
    case False
    then have "outs = [] \<and> s' = s"
      using assms(1) Some by (auto simp: run_next_def split: option.splits list.splits)
    then show ?thesis by auto
  next
    case True
    then obtain requestId operation rest where q: "cc_pending c = None" "cc_queue c = (requestId, operation) # rest" by blast
    have replied: "context_effect rc arms c s [Reply token requestId r] (update_context token (\<lambda>c. c\<lparr>cc_queue := rest\<rparr>) s)" for r arms
      by (rule updated_effect [OF Some]) (auto intro: context_step_phase)
    show ?thesis
    proof (cases "token \<in> set (ct_live s) \<and> map_of (cc_requests c) requestId = None \<and> (\<exists>d. current_dispatch c s = Inr d)")
      case False
      then have "\<exists>r. outs = [Reply token requestId r] \<and> s' = update_context token (\<lambda>c. c\<lparr>cc_queue := rest\<rparr>) s"
        using assms(1) Some q by (auto simp: run_next_def Let_def split: option.splits sum.splits if_splits)
      then show ?thesis using replied Some by (auto intro: token_effectI)
    next
      case True
      then obtain d where d: "current_dispatch c s = Inr d" by blast
      let ?c = "c\<lparr>cc_queue := rest, cc_dispatch := d\<rparr>"
      have begins: "apply_begins cfg now uuid ?c requestId operation (update_context token (\<lambda>_. ?c) s) = (outs, s')"
        using assms(1) Some q True d by (simp add: run_next_def Let_def)
      have step: "context_step arms c ?c" for arms
        using current_dispatch_same [OF d assms(2) [OF Some]] by (auto intro: context_step_phase)
      have c: "context_of (cc_contextToken ?c) (update_context token (\<lambda>_. ?c) s) = Some ?c"
        using tok Some by (simp add: lookup_set)
      have "context_effect rc arms ?c (update_context token (\<lambda>_. ?c) s) outs s'" for arms
        by (rule apply_effect [OF begins c]) (simp add: q)
      then show ?thesis
        using set_effect [OF Some step] Some by (auto simp: context_effect_def intro!: token_effectI)
    qed
  qed
qed

lemma local_frame:
  assumes "context_of (cc_contextToken c) s = Some c" and "ct_contexts s' = ct_contexts s" "ct_live s' = ct_live s"
    "ct_tokens s' = ct_tokens s" "ct_binds s' = ct_binds s" "ct_files s' = ct_files s"
    and "registry_steps rc (ct_registry s) (ct_registry s')"
  shows "local_effect rc arms c s s'"
  using assms unfolding local_effect_def by (auto intro!: exI [of _ c])

lemma deliver_frame:
  assumes "deliverCommittedAttentionResponse now i s = (r, s')"
  shows "ct_contexts s' = ct_contexts s" "ct_live s' = ct_live s" "ct_tokens s' = ct_tokens s"
    "ct_binds s' = ct_binds s" "ct_files s' = ct_files s" "registry_steps rc (ct_registry s) (ct_registry s')"
  using deliver_effect [OF assms, of rc] by (auto simp: registry_only_def)

lemma wait_effect:
  assumes "waitForHumanAttention cfg now aborted c h s = (r, s')" and "context_of (cc_contextToken c) s = Some c"
  shows "local_effect rc arms c s s'"
  using assms
  by (auto simp: waitForHumanAttention_def deliver_frame split: sum.splits if_splits prod.splits
      intro!: local_frame)

lemma handle_effect:
  assumes "handle cfg now aborted generation token requestId operation s = (outs, s')"
    and "\<And>c. context_of token s = Some c \<Longrightarrow> known_dispatch (ct_registry s) (cc_dispatch c)"
  shows "token_effect rc token s outs s'"
proof (cases "s' = s \<and> publications outs = []")
  case False
  then obtain c where c: "context_of token s = Some c"
    using assms(1) by (auto simp: handle_def Let_def split: if_splits option.splits control_operation.splits)
  note tok = contexts.lookup_key [OF c]
  have "context_effect rc arms c s outs s'" for arms
  proof (cases "\<exists>h. operation = Wait_For_Response h")
    case True
    then obtain h d r where h: "operation = Wait_For_Response h" and d: "current_dispatch c s = Inr d"
      and wait: "waitForHumanAttention cfg now aborted (c\<lparr>cc_dispatch := d\<rparr>) h
        (update_context token (\<lambda>_. c\<lparr>cc_dispatch := d\<rparr>) s) = (r, s')"
      and outs: "publications outs = []"
      using assms(1) c False
      by (auto simp: handle_def Let_def split: if_splits option.splits sum.splits prod.splits)
    have step: "context_step arms c (c\<lparr>cc_dispatch := d\<rparr>)"
      using current_dispatch_same [OF d assms(2) [OF c]] by (auto intro: context_step_phase)
    have "context_of (cc_contextToken (c\<lparr>cc_dispatch := d\<rparr>)) (update_context token (\<lambda>_. c\<lparr>cc_dispatch := d\<rparr>) s) = Some (c\<lparr>cc_dispatch := d\<rparr>)"
      using tok c by (simp add: lookup_set)
    then show ?thesis
      using set_effect [OF c step] wait_effect [OF wait] outs by (simp add: context_effect_def)
  next
    case False
    then have "outs = [] \<and> s' = update_context token (\<lambda>c. c\<lparr>cc_queue := cc_queue c @ [(requestId, operation)]\<rparr>) s"
      using assms(1) c \<open>\<not> (s' = s \<and> publications outs = [])\<close>
      by (cases operation) (auto simp: handle_def Let_def split: if_splits)
    then show ?thesis by (auto intro!: updated_effect [OF c] context_step_phase)
  qed
  then show ?thesis using c by (rule token_effectI [rotated])
qed auto

lemma list_effect:
  assumes "list_results io token s = (outs, s')"
  shows "token_effect rc token s outs s'"
proof (cases "context_of token s")
  case (Some c)
  have concluded: "conclude token i r s = (outs, s') \<Longrightarrow> token_effect rc token s outs s'" for i r
    using conclude_effect [OF _ Some] Some by (blast intro: context_effectI token_effectI)
  have suspended: "token_effect rc token s outs s'"
    if "suspend token p s = (outs, s')" "cc_pending c = Some q" "\<And>f a. phase_ok (Some q) f a = phase_ok (Some p) f a"
      "arming (Some p) \<Longrightarrow> \<not> hasStepResult (cc_dispatch c) (ct_files s)" for p q
  proof -
    have "context_step (\<not> hasStepResult (cc_dispatch c) (ct_files s)) c (c\<lparr>cc_pending := Some p\<rparr>)"
      using that by (auto simp: context_step_def phase_defs)
    then show ?thesis
      using suspend_effect [OF that(1) Some] Some by (auto simp: token_effect_def context_effect_def)
  qed
  show ?thesis
    using assms Some
    by (auto simp: list_results_def Let_def
        split: option.splits pending.splits elim!: concluded suspended)
qed (use assms in \<open>auto simp: list_results_def\<close>)

lemma assert_effect:
  assumes "assertCurrent token s = Inr s'" and "context_of token s = Some c" and "known_dispatch (ct_registry s) (cc_dispatch c)"
  obtains d where "current_dispatch c s = Inr d" "s' = update_context token (\<lambda>c. c\<lparr>cc_dispatch := d\<rparr>) s"
    "same_dispatch (cc_dispatch c) d"
  using assms by (auto simp: assertCurrent_def elim!: bind_result_InrE dest: current_dispatch_same)

lemma dispatch_step: "same_dispatch (cc_dispatch c) d \<Longrightarrow> context_step arms c (c\<lparr>cc_dispatch := d\<rparr>)"
  by (rule context_step_phase) auto

lemma refreshed_effect:
  assumes "context_of token s = Some c" and "same_dispatch (cc_dispatch c) d"
    and "context_effect rc arms (c\<lparr>cc_dispatch := d\<rparr>) (update_context token (\<lambda>c. c\<lparr>cc_dispatch := d\<rparr>) s) outs s'"
  shows "context_effect rc arms c s outs s'"
  using assms(3) update_effect [where f = "\<lambda>c. c\<lparr>cc_dispatch := d\<rparr>", OF assms(1) _ dispatch_step [OF assms(2)]]
  by (simp add: context_effect_def)

lemma fails_step:
  assumes "cc_finishing c \<noteq> None"
  shows "context_step arms c ((failed_completion f c)\<lparr>cc_finishing := Some Recording_Failure\<rparr>)"
  using assms by (auto simp: context_step_def phase_defs failed_completion_def set_completion_def)

lemma fails_effect:
  assumes "finish_fails cfg token e s = (outs, s')" and "context_of token s = Some c" and "cc_finishing c \<noteq> None"
  shows "context_effect rc arms c s outs s'"
  using assms
  by (auto simp: finish_fails_def failed_completion_def set_completion_def context_effect_def
      intro!: local_update fails_step [unfolded failed_completion_def set_completion_def])

lemma verified_effect:
  assumes "finish_verified cfg now prepared requestId token s = (outs, s')" and c: "context_of token s = Some c"
    and "known_dispatch (ct_registry s) (cc_dispatch c)" and "exporting (cc_finishing c)"
  shows "context_effect rc arms c s outs s'"
proof (cases "\<exists>outputs s1. prepared = Inr outputs \<and> assertCurrent token s = Inr s1")
  case False
  then obtain e where "finish_fails cfg token e s = (outs, s')"
    using assms(1)
    by (cases prepared; cases "assertCurrent token s") (auto simp: finish_verified_def)
  then show ?thesis using fails_effect [OF _ c] assms(4) by (cases "cc_finishing c") auto
next
  case True
  then obtain outputs s1 where p: "prepared = Inr outputs" "assertCurrent token s = Inr s1" by blast
  from assert_effect [OF p(2) c assms(3)] obtain d
    where d: "s1 = update_context token (\<lambda>c. c\<lparr>cc_dispatch := d\<rparr>) s" "same_dispatch (cc_dispatch c) d" by blast
  let ?c = "c\<lparr>cc_dispatch := d\<rparr>"
  have c1: "context_of token s1 = Some ?c" using c d(1) by (simp add: contexts.lookup_update)
  have fin: "exporting (cc_finishing ?c)" using assms(4) by simp
  have "context_effect rc arms ?c s1 outs s'"
  proof (cases "validateOutputs (act_declared_outputs (rec_action d)) outputs")
    case (Inl e)
    then show ?thesis
      using assms(1) p c1 fails_effect [OF _ c1] fin by (cases "cc_finishing c") (auto simp: finish_verified_def)
  next
    case (Inr u)
    then have outs: "outs = []" and s': "s' = update_context token (\<lambda>c. c\<lparr>cc_finishing :=
        Some (Preparing requestId (result_envelope now (cc_dispatch c) outputs))\<rparr>) s1"
      using assms(1) p c1 by (auto simp: finish_verified_def)
    have "envelope_for d (result_envelope now d outputs)"
      using Inr by (simp add: envelope_for_def result_envelope_def validateOutputs_Inr)
    moreover have "cc_finishing c \<noteq> None" using assms(4) by (cases "cc_finishing c") auto
    ultimately have "context_step arms ?c (?c\<lparr>cc_finishing := Some (Preparing requestId (result_envelope now d outputs))\<rparr>)"
      using assms(4) by (simp add: context_step_def phase_defs)
    then show ?thesis unfolding outs s' by (intro updated_effect [OF c1]) simp_all
  qed
  then show ?thesis using refreshed_effect [OF c d(2)] d(1) by simp
qed

text \<open>The publication, which is the one step that makes a result.\<close>

definition publishes ::
  "registry_config \<Rightarrow> control_context \<Rightarrow> control \<Rightarrow> prepared_result \<Rightarrow> step_result_envelope \<Rightarrow> control \<Rightarrow> bool" where
  "publishes rc c s p e s' \<longleftrightarrow>
     cc_finishing c = Some (Publishing p e) \<and>
     (\<exists>d c'. current_dispatch c s = Inr d \<and> same_dispatch (cc_dispatch c) d \<and>
       (\<forall>t. context_of t s' = (if t = cc_contextToken c then Some c' else context_of t s)) \<and>
       cc_contextToken c' = cc_contextToken c \<and> cc_lineageId c' = cc_lineageId c \<and> cc_dispatch c' = d \<and>
       cc_pending c' = cc_pending c \<and> cc_finishing c' = Some Recording_Completed \<and> cc_invalidated c' = cc_invalidated c \<and>
       cp_semanticAccepted (cc_completion c') = cp_semanticAccepted (cc_completion c)) \<and>
     ct_live s' = ct_live s \<and> ct_tokens s' = ct_tokens s \<and> ct_binds s' = ct_binds s \<and>
     ct_files s' = publish p (ct_files s) \<and> ct_registry s' = ct_registry s"

lemma current_dispatch_again:
  assumes "current_dispatch c s = Inr d" and "same_dispatch (cc_dispatch c) d"
  shows "current_dispatch (c\<lparr>cc_dispatch := d\<rparr>) (update_context token f s) = Inr d"
  using assms
  by (auto simp: current_dispatch_def same_dispatch_def split: if_splits elim!: bind_result_InrE)

lemma publishing_effect:
  assumes "finish_publishes cfg commit io p e token s = (outs, s')" and c: "context_of token s = Some c"
    and known: "known_dispatch (ct_registry s) (cc_dispatch c)" and fin: "cc_finishing c = Some (Publishing p e)"
  shows "(\<forall>arms. context_effect rc arms c s outs s') \<or>
    publishes rc c s p e s' \<and> outs = [Published token (pr_directory p) (pr_destination p) e]"
proof (cases "assertCurrent token s")
  case (Inl error)
  then show ?thesis using assms(1) fails_effect [OF _ c] fin by (auto simp: finish_publishes_def)
next
  case (Inr s1)
  note tok = contexts.lookup_key [OF c]
  from assert_effect [OF Inr c known] obtain d where d: "current_dispatch c s = Inr d"
    "s1 = update_context token (\<lambda>c. c\<lparr>cc_dispatch := d\<rparr>) s" "same_dispatch (cc_dispatch c) d" .
  let ?c = "c\<lparr>cc_dispatch := d\<rparr>"
  have c1: "context_of token s1 = Some ?c" using c d(2) by (simp add: contexts.lookup_update)
  have again: "assertCurrent token s1 = Inr (update_context token (\<lambda>c. c\<lparr>cc_dispatch := d\<rparr>) s1)"
    using c1 current_dispatch_again [OF d(1,3)] d(2) by (simp add: assertCurrent_def)
  have through: "context_effect rc arms ?c s1 outs s' \<Longrightarrow> context_effect rc arms c s outs s'" for arms
    using refreshed_effect [OF c d(3)] d(2) by simp
  show ?thesis
  proof (cases commit)
    case (Some error)
    then have "finish_fails cfg token error s1 = (outs, s')"
      using assms(1) Inr by (simp add: finish_publishes_def)
    then show ?thesis using fails_effect [OF _ c1] fin through by auto
  next
    case None
    let ?s2 = "update_context token (\<lambda>c. c\<lparr>cc_dispatch := d\<rparr>) s1"
    have c2: "context_of token ?s2 = Some ?c" using c1 by (simp add: contexts.lookup_update)
    show ?thesis
    proof (cases io)
      case (Some message)
      then have "finish_fails cfg token (Io_Failure message) ?s2 = (outs, s')"
        using assms(1) Inr None again by (simp add: finish_publishes_def)
      then have "context_effect rc arms ?c ?s2 outs s'" for arms using fails_effect [OF _ c2] fin by simp
      then have "context_effect rc arms ?c s1 outs s'" for arms
        using refreshed_effect [OF c1, of d] by simp
      then show ?thesis using through by blast
    next
      case io: None
      let ?f = "\<lambda>c. c\<lparr>cc_completion := (cc_completion c)\<lparr>cp_phase := Completed_Phase,
          cp_exportCompletedAt := Some (se_createdAt e)\<rparr>, cc_finishing := Some Recording_Completed\<rparr>"
      have "outs = [Published token (pr_directory p) (pr_destination p) e]"
        and s': "s' = update_context token ?f (?s2\<lparr>ct_files := publish p (ct_files ?s2)\<rparr>)"
        using assms(1) Inr None again io by (auto simp: finish_publishes_def)
      moreover have "context_of t s' = (if t = cc_contextToken c then Some (?f ?c) else context_of t s)" for t
        using c tok unfolding s' d(2) by (simp add: contexts.lookup_update)
      ultimately show ?thesis
        using fin d(1,3) tok unfolding publishes_def s' d(2) by (auto intro!: exI [of _ "?f ?c"])
    qed
  qed
qed

end
