(* ===== verification/Control_Effects.thy ===== *)
theory Control_Effects
  imports Control_Steps
begin

text \<open>
  The effects of the remaining stretches of the control authority (background completion, state files,
  bindings, invalidation, waits) and of a whole step.
\<close>

section \<open>Completion\<close>

lemma phase_ok_finished: "phase_ok p True a \<Longrightarrow> phase_ok p False a"
  by (cases "(p, True, a)" rule: phase_ok.cases) auto

lemma record_effect:
  assumes "record_outcome token c s = (outs, s')" and c: "context_of token s = Some c"
    and "cc_finishing c = Some f" "\<not> exporting (Some f)"
  shows "context_effect rc arms c s outs s'"
proof -
  note tok = contexts.lookup_key [OF c]
  let ?s = "s\<lparr>ct_files := writeStructuredCompletionState (cc_dispatch c) (cc_completion c) (ct_files s)\<rparr>"
  have files: "local_effect rc arms c s ?s"
    using c tok by (intro local_files) (simp_all add: writeStructuredCompletionState_def)
  have c1: "context_of token ?s = Some c" using c by simp
  have "context_step arms c (c\<lparr>cc_finishing := None\<rparr>)"
    using assms(3,4) by (cases f; cases "cc_pending c") (auto simp: context_step_def phase_defs dest: phase_ok_finished)
  then have "local_effect rc arms c s (update_context token (\<lambda>c. c\<lparr>cc_finishing := None\<rparr>) ?s)"
    using local_effect_trans [OF files _ local_update [OF c1]] c tok by simp
  then show ?thesis using assms(1) by (auto simp: record_outcome_def context_effect_def)
qed

lemma prepared_effect:
  assumes random: "list_all name_char fallback" "list_all name_char uuid" and c: "context_of token s = Some c" and "cc_finishing c = Some (Preparing requestId e)"
    and "prepareStepResultAtomic fallback uuid (rec_resultDirectory (cc_dispatch c)) requestId e (ct_files s) = (p, fs)"
  shows "context_effect rc arms c s [] (update_context token (\<lambda>c. c\<lparr>cc_finishing := Some (Publishing p e)\<rparr>) (s\<lparr>ct_files := fs\<rparr>))"
proof -
  note tok = contexts.lookup_key [OF c]
  let ?s = "s\<lparr>ct_files := fs\<rparr>"
  have fs: "\<And>d. result_names d fs = result_names d (ct_files s)"
    and p: "pr_directory p = rec_resultDirectory (cc_dispatch c)" "pr_content p = envelope_value e"
      "result_name (pr_destination p)" "\<not> result_name (pr_temporary p)"
    using assms(5) result_name_published [OF safe_call_id_chars [OF random(1)] random(2), of requestId]
    by (auto simp: prepareStepResultAtomic_def Let_def)
  have files: "local_effect rc arms c s ?s"
    using c tok fs by (intro local_files) simp_all
  have c1: "context_of token ?s = Some c" using c by simp
  have "context_step arms c (c\<lparr>cc_finishing := Some (Publishing p e)\<rparr>)"
    using assms(4) p by (simp add: context_step_def phase_defs)
  then show ?thesis
    using local_effect_trans [OF files _ local_update [OF c1]] c tok by (simp add: context_effect_def)
qed

text \<open>A whole step of the background: a step of the context, or the publication.\<close>

lemma finish_effect:
  assumes random: "list_all name_char fallback" "list_all name_char uuid"
    and "finish_continues cfg now fallback uuid boundary commit io token s = (outs, s')"
    and known: "\<And>c. context_of token s = Some c \<Longrightarrow> known_dispatch (ct_registry s) (cc_dispatch c)"
  shows "token_effect rc token s outs s' \<or>
    (\<exists>c p e. context_of token s = Some c \<and> publishes rc c s p e s' \<and>
      outs = [Published token (pr_directory p) (pr_destination p) e])"
proof (cases "context_of token s")
  case (Some c)
  note effect = token_effectI [OF Some]
  have fails: "finish_fails cfg token e s = (outs, s') \<Longrightarrow> cc_finishing c \<noteq> None \<Longrightarrow> token_effect rc token s outs s'" for e
    using fails_effect [OF _ Some] effect by blast
  have recorded: "record_outcome token c s = (outs, s') \<Longrightarrow> cc_finishing c = Some f \<Longrightarrow> \<not> exporting (Some f) \<Longrightarrow>
      token_effect rc token s outs s'" for f
    using record_effect [OF _ Some] effect by blast
  note continues = assms(3) [unfolded finish_continues_def Some option.case]
  show ?thesis
  proof (cases "cc_finishing c")
    case None
    then show ?thesis using continues by auto
  next
    case fin: (Some f)
    show ?thesis
    proof (cases f)
      case (Verifying requestId outputs)
      then show ?thesis
        using continues fin verified_effect [OF _ Some known [OF Some]] effect by auto
    next
      case (Preparing requestId e)
      then show ?thesis
        using continues fin prepared_effect [OF random Some] effect by (auto split: option.splits prod.splits dest!: fails)
    next
      case (Publishing p e)
      then have "finish_publishes cfg commit io p e token s = (outs, s')" using continues fin by simp
      from publishing_effect [OF this Some known [OF Some]] show ?thesis
        using effect Some fin Publishing by blast
    next
      case Recording_Completed
      then show ?thesis using continues fin fails recorded by (auto split: option.splits)
    next
      case Recording_Failure
      have "context_step arms c (c\<lparr>cc_finishing := None\<rparr>)" for arms
        using fin Recording_Failure
        by (cases "cc_pending c") (auto simp: context_step_def phase_defs dest: phase_ok_finished)
      then have "token_effect rc token s [] (update_context token (\<lambda>c. c\<lparr>cc_finishing := None\<rparr>) s)"
        by (intro effect updated_effect [OF Some]) simp_all
      then show ?thesis using continues fin Recording_Failure recorded by (auto split: option.splits)
    qed
  qed
qed (use assms in \<open>auto simp: finish_continues_def\<close>)

lemma failed_completion_keeps [simp]:
  "cc_contextToken (failed_completion f c) = cc_contextToken c" "cc_lineageId (failed_completion f c) = cc_lineageId c"
  "cc_dispatch (failed_completion f c) = cc_dispatch c" "cc_pending (failed_completion f c) = cc_pending c"
  "cc_finishing (failed_completion f c) = cc_finishing c" "cc_invalidated (failed_completion f c) = cc_invalidated c"
  "cp_semanticAccepted (cc_completion (failed_completion f c)) = cp_semanticAccepted (cc_completion c)"
  by (simp_all add: failed_completion_def set_completion_def)

lemma set_completion_keeps [simp]:
  "cc_contextToken (set_completion x f c) = cc_contextToken c" "cc_lineageId (set_completion x f c) = cc_lineageId c"
  "cc_dispatch (set_completion x f c) = cc_dispatch c" "cc_pending (set_completion x f c) = cc_pending c"
  "cc_finishing (set_completion x f c) = cc_finishing c" "cc_invalidated (set_completion x f c) = cc_invalidated c"
  "cc_completion (set_completion x f c) = x"
  by (simp_all add: set_completion_def)

lemma context_effect_trans:
  assumes "local_effect rc arms c s t" and "context_of (cc_contextToken c) t = Some d" and "context_effect rc arms d t outs u"
  shows "context_effect rc arms c s outs u"
  using assms local_effect_trans by (auto simp: context_effect_def)

lemma local_effect_context:
  "local_effect rc arms c s t \<Longrightarrow> \<exists>d. context_of (cc_contextToken c) t = Some d"
  by (auto simp: local_effect_def)

lemma written_effect:
  assumes "complete_written cfg now requestId outputs token s = (outs, s')" and c: "context_of token s = Some c"
    and pending: "cc_pending c = Some (Completing_Written requestId outputs)"
    and known: "known_dispatch (ct_registry s) (cc_dispatch c)"
  shows "context_effect rc arms c s outs s'"
proof (cases "assertCurrent token s")
  case (Inl e)
  let ?f = "failed_completion (completionExportFailure cfg e)"
  have step: "context_step arms c (?f c)" by (rule context_step_phase) auto
  have c1: "context_of token (update_context token ?f s) = Some (?f c)"
    using c by (simp add: contexts.lookup_update)
  have "context_step arms (?f c) ((?f c)\<lparr>cc_pending := Some (Completing_Abandoned requestId e)\<rparr>)"
    using pending by (simp add: context_step_def phase_defs)
  then have "context_effect rc arms (?f c) (update_context token ?f s) outs s'"
    using assms(1) Inl suspend_effect [OF _ c1] by (auto simp: complete_written_def context_effect_def)
  then show ?thesis
    using context_effect_trans [OF local_update [where f = ?f, OF c _ step]] c1 contexts.lookup_key [OF c] by simp
next
  case (Inr s1)
  from assert_effect [OF Inr c known] obtain d where d: "s1 = update_context token (\<lambda>c. c\<lparr>cc_dispatch := d\<rparr>) s"
    "same_dispatch (cc_dispatch c) d" by blast
  let ?c = "c\<lparr>cc_dispatch := d\<rparr>" and ?g = "\<lambda>c. c\<lparr>cc_pending := None, cc_finishing := Some (Verifying requestId outputs)\<rparr>"
  let ?s2 = "update_context token ?g s1"
  let ?s3 = "if cl_has_boundary cfg then ?s2 else snd (finish_verified cfg now (Inr outputs) requestId token ?s2)"
  have c1: "context_of token s1 = Some ?c" using c d(1) by (simp add: contexts.lookup_update)
  have c2: "context_of token ?s2 = Some (?g ?c)" using c1 by (simp add: contexts.lookup_update)
  have tok: "cc_contextToken c = token" using contexts.lookup_key [OF c] .
  have step: "context_step arms ?c (?g ?c)" using pending by (simp add: context_step_def phase_defs)
  have known2: "known_dispatch (ct_registry ?s2) (cc_dispatch (?g ?c))"
    using known d by (auto simp: known_dispatch_def same_dispatch_def)
  have third: "local_effect rc arms (?g ?c) ?s2 ?s3"
  proof (cases "cl_has_boundary cfg")
    case True
    then show ?thesis using c2 tok by (simp add: local_effect_refl)
  next
    case False
    obtain outs3 s3 where v: "finish_verified cfg now (Inr outputs) requestId token ?s2 = (outs3, s3)" by fastforce
    from verified_effect [OF v c2 known2, of rc arms] show ?thesis using False v by (simp add: context_effect_def)
  qed
  from local_effect_context [OF this] tok obtain c3 where c3: "context_of token ?s3 = Some c3" by auto
  have "conclude token requestId (Inr (accepted_result\<lparr>cr_completed := Some False, cr_semanticAccepted := Some True,
      cr_completion := Some (cc_completion c3)\<rparr>)) ?s3 = (outs, s')"
    using assms(1) Inr c3 by (simp add: complete_written_def Let_def split: if_splits)
  from conclude_effect [OF this c3] have "context_effect rc arms c3 ?s3 outs s'" by (rule context_effectI)
  then have "context_effect rc arms (?g ?c) ?s2 outs s'"
    using context_effect_trans [OF third] c3 tok by simp
  then have "context_effect rc arms ?c s1 outs s'"
    using context_effect_trans [OF local_update [where f = ?g, OF c1 _ step]] c2 tok by simp
  then show ?thesis using refreshed_effect [OF c d(2)] d(1) by simp
qed

lemma write_effect:
  assumes "write_state cfg io token s = (outs, s')"
  shows "token_effect rc token s outs s'"
proof (cases "context_of token s")
  case (Some c)
  note effect = token_effectI [OF Some]
  have tok: "cc_contextToken c = token" using contexts.lookup_key [OF Some] .
  let ?s = "s\<lparr>ct_files := writeStructuredCompletionState (cc_dispatch c) (cc_completion c) (ct_files s)\<rparr>"
  have files: "local_effect rc arms c s ?s" for arms
    using Some tok by (intro local_files) (simp_all add: writeStructuredCompletionState_def)
  have c1: "context_of token ?s = Some c" using Some by simp
  note writes = assms(1) [unfolded write_state_def Some option.case Let_def]
  consider (written) requestId outputs where "cc_pending c = Some (Completing_Write requestId outputs)"
    | (abandoned) requestId e where "cc_pending c = Some (Completing_Abandoned requestId e)"
    | (other) "outs = [] \<and> s' = s"
    using writes by (auto split: option.splits pending.splits)
  then show ?thesis
  proof cases
    case (written requestId outputs)
    show ?thesis
    proof (cases io)
      case None
      have "context_step arms c (c\<lparr>cc_pending := Some (Completing_Written requestId outputs)\<rparr>)" for arms
        using written by (simp add: context_step_def phase_defs)
      then have "context_effect rc arms c ?s outs s'" for arms
        using writes written None suspend_effect [OF _ c1] by (simp add: context_effect_def)
      then show ?thesis using context_effect_trans [OF files] c1 tok effect by simp
    next
      case (Some message)
      have "context_step arms c ((set_completion x f c)\<lparr>cc_pending := None\<rparr>)" if "cp_semanticAccepted x = False" for arms x f
        using written that by (simp add: context_step_def phase_defs)
      then have "context_effect rc arms c s outs s'" for arms
        using writes written Some
        by (auto simp: write_fails_def Let_def intro: update_concludes [OF _ \<open>context_of token s = Some c\<close>])
      then show ?thesis by (rule effect)
    qed
  next
    case (abandoned requestId e)
    have "context_effect rc arms c s outs s'" for arms
    proof (cases io)
      case None
      then have "conclude token requestId (Inl e) ?s = (outs, s')" using writes abandoned by simp
      from conclude_effect [OF this c1] show ?thesis
        using local_effect_trans [OF files] c1 tok by (simp add: context_effect_def)
    next
      case (Some message)
      then have "conclude token requestId (Inl e) s = (outs, s')" using writes abandoned by simp
      from conclude_effect [OF this \<open>context_of token s = Some c\<close>] show ?thesis by (rule context_effectI)
    qed
    then show ?thesis by (rule effect)
  qed auto
qed (use assms in \<open>auto simp: write_state_def\<close>)

lemma decides_step:
  assumes "nativeStop_decides cfg found lineage c = (r, c')"
  shows "context_step arms c c'"
  using assms
  by (auto simp: nativeStop_decides_def Let_def split: if_splits sum.splits option.splits intro!: context_step_phase)

lemma resume_effect:
  assumes "resume_operation cfg now token s = (outs, s')"
    and known: "\<And>c. context_of token s = Some c \<Longrightarrow> known_dispatch (ct_registry s) (cc_dispatch c)"
  shows "token_effect rc token s outs s'"
proof (cases "context_of token s")
  case (Some c)
  note effect = token_effectI [OF Some]
  note resumes = assms(1) [unfolded resume_operation_def Some option.case Let_def]
  consider (replayed) requestId outputs where "cc_pending c = Some (Completing requestId outputs (Some True))"
    | (accepted) requestId outputs where "cc_pending c = Some (Completing requestId outputs (Some False))"
    | (written) requestId outputs where "cc_pending c = Some (Completing_Written requestId outputs)"
    | (status) requestId lineage completed where "cc_pending c = Some (Reporting_Status requestId lineage (Some completed))"
    | (stopping) requestId found where "cc_pending c = Some (Stopping requestId (Some found))"
    | (other) "outs = [] \<and> s' = s"
    using resumes by (auto split: option.splits pending.splits bool.splits)
  then show ?thesis
  proof cases
    case (replayed requestId outputs)
    then have "conclude token requestId (Inl replayed_error) s = (outs, s')" using resumes by simp
    from conclude_effect [OF this Some] show ?thesis by (intro effect context_effectI)
  next
    case (accepted requestId outputs)
    have "context_step arms c ((set_completion (accepted_completion now) None c)\<lparr>
        cc_pending := Some (Completing_Write requestId outputs)\<rparr>)" for arms
      using accepted by (simp add: context_step_def phase_defs accepted_completion_def)
    then show ?thesis
      using resumes accepted by (auto intro!: effect updated_effect [OF Some])
  next
    case (written requestId outputs)
    then have "complete_written cfg now requestId outputs token s = (outs, s')" using resumes by simp
    from written_effect [OF this Some written known [OF Some]] show ?thesis by (rule effect)
  next
    case (status requestId lineage completed)
    let ?c = "if completed \<and> cp_phase (cc_completion c) \<noteq> Completed_Phase
      then c\<lparr>cc_completion := completed_by_result now (Some (cc_completion c))\<rparr> else c"
    have "context_step arms c ?c" for arms
      using status by (simp add: context_step_def phase_defs completed_by_result_def)
    moreover have "conclude token requestId (Inr (status_result completed lineage ?c)) (update_context token (\<lambda>_. ?c) s) = (outs, s')"
      using resumes status by simp
    ultimately show ?thesis using set_concludes [OF _ Some] by (blast intro: effect)
  next
    case (stopping requestId found)
    then show ?thesis
      using resumes set_concludes [OF _ Some] decides_step by (auto intro!: effect split: prod.splits)
  qed auto
qed (use assms in \<open>auto simp: resume_operation_def\<close>)

section \<open>Steps in which no context advances\<close>

definition invalidates :: "control_context \<Rightarrow> control_context \<Rightarrow> bool" where
  "invalidates c c' \<longleftrightarrow> c' = c \<or> c' = c\<lparr>cc_invalidated := True\<rparr>"

definition bind_identity :: "bind_progress \<Rightarrow> string \<times> dispatch_record" where
  "bind_identity b = (bp_token b, bp_dispatch b)"

definition calm :: "registry_config \<Rightarrow> control \<Rightarrow> control \<Rightarrow> bool" where
  "calm rc s s' \<longleftrightarrow>
     (\<forall>t. rel_option invalidates (context_of t s) (context_of t s')) \<and>
     (\<forall>l t. token_of l s' = Some t \<longrightarrow> token_of l s = Some t) \<and>
     bind_identity ` set (ct_binds s') \<subseteq> bind_identity ` set (ct_binds s) \<and>
     (distinct (map bp_token (ct_binds s)) \<longrightarrow> distinct (map bp_token (ct_binds s'))) \<and>
     (\<forall>d. result_names d (ct_files s') = result_names d (ct_files s)) \<and>
     registry_steps rc (ct_registry s) (ct_registry s')"

lemma rel_option_invalidates_refl [simp]: "rel_option invalidates x x"
  by (cases x) (simp_all add: invalidates_def)

lemma calm_frame:
  assumes "ct_contexts s' = ct_contexts s" "ct_tokens s' = ct_tokens s" "ct_binds s' = ct_binds s"
    "\<And>d. result_names d (ct_files s') = result_names d (ct_files s)" "registry_steps rc (ct_registry s) (ct_registry s')"
  shows "calm rc s s'"
  using assms by (simp add: calm_def token_of_def)

lemma calm_refl [simp]: "calm rc s s"
  by (rule calm_frame) simp_all

lemma calm_trans: "calm rc s t \<Longrightarrow> calm rc t u \<Longrightarrow> calm rc s u"
proof -
  assume st: "calm rc s t" and tu: "calm rc t u"
  have "rel_option invalidates (context_of k s) (context_of k u)" for k
  proof -
    have "rel_option invalidates (context_of k s) (context_of k t)" "rel_option invalidates (context_of k t) (context_of k u)"
      using st tu by (simp_all add: calm_def)
    then show ?thesis
      by (cases "context_of k s"; cases "context_of k t"; cases "context_of k u") (auto simp: invalidates_def)
  qed
  moreover have "bind_identity ` set (ct_binds u) \<subseteq> bind_identity ` set (ct_binds s)"
    by (rule order_trans [of _ "bind_identity ` set (ct_binds t)"]) (use st tu in \<open>simp_all add: calm_def\<close>)
  moreover have "registry_steps rc (ct_registry s) (ct_registry u)"
    by (rule rtranclp_trans [of _ _ "ct_registry t"]) (use st tu in \<open>simp_all add: calm_def\<close>)
  ultimately show "calm rc s u" using st tu unfolding calm_def by simp
qed

lemma map_of_filter_key: "map_of (drop_key k xs) k' = (if k' = k then None else map_of xs k')"
  by (induction xs) (auto simp: drop_key_def)

lemma calm_unmap:
  "calm rc s (s\<lparr>ct_live := removeAll token (ct_live s), ct_tokens := drop_key l (ct_tokens s)\<rparr>)"
  by (simp add: calm_def token_of_def map_of_filter_key)

lemma calm_invalidated: "calm rc s (update_context token (\<lambda>c. c\<lparr>cc_invalidated := True\<rparr>) s)"
proof -
  have "rel_option invalidates (context_of t s) (context_of t (update_context token (\<lambda>c. c\<lparr>cc_invalidated := True\<rparr>) s))" for t
    by (cases "context_of t s") (auto simp: contexts.lookup_update invalidates_def)
  then show ?thesis by (simp add: calm_def)
qed

lemma calm_waiters: "calm rc s (s\<lparr>ct_waiters := ws\<rparr>)"
  by (rule calm_frame) simp_all

lemma calm_registry: "registry_steps rc (ct_registry s) reg \<Longrightarrow> calm rc s (s\<lparr>ct_registry := reg\<rparr>)"
  by (rule calm_frame) simp_all

lemma settles_publish_nothing [simp]: "publications (map (\<lambda>x. Settle (f x) token r) xs) = []"
  by (induction xs) auto

lemma invalidate_calm:
  assumes "invalidate now lineageId s = (outs, e, s')"
  shows "calm rc s s' \<and> publications outs = []"
proof (cases "token_of lineageId s")
  case None
  then show ?thesis using assms by (simp add: invalidate_def)
next
  case (Some token)
  obtain rejected s1 where lost: "lose_context token s = (rejected, s1)" by fastforce
  have calm1: "calm rc s s1" and "publications rejected = []"
    using lost by (auto simp: lose_context_def Let_def intro: calm_trans [OF calm_invalidated calm_waiters] calm_waiters)
  moreover have "calm rc s (forget_context token lineageId s1)"
    unfolding forget_context_def by (rule calm_trans [OF calm1 calm_unmap])
  moreover have "calm rc s (forget_context token lineageId (s1\<lparr>ct_registry := reg\<rparr>))"
    if "registry_steps rc (ct_registry s1) reg" for reg
    unfolding forget_context_def by (rule calm_trans [OF calm_trans [OF calm1 calm_registry [OF that]] calm_unmap])
  ultimately show ?thesis
    using assms Some lost unfolding invalidate_def
    by (auto split: option.splits if_splits sum.splits prod.splits intro: attention_steps)
qed

section \<open>Waits and responses\<close>

lemma abort_calm: "abort_wait token attentionId s = (outs, s') \<Longrightarrow> calm rc s s' \<and> publications outs = []"
  by (auto simp: abort_wait_def calm_waiters split: option.splits if_splits)

lemma receive_calm:
  "receiveHumanAttentionResponse now input s = Inr (outs, s') \<Longrightarrow> calm rc s s' \<and> publications outs = []"
  by (auto simp: receiveHumanAttentionResponse_def attention_report_def elim!: bind_result_InrE intro!: calm_frame
      intro: attention_steps)

lemma delivers_calm:
  assumes "receive_delivers now x s = (outs, s')"
  shows "calm rc s s' \<and> publications outs = []"
proof -
  have "calm rc s t" if "deliverCommittedAttentionResponse now i (s\<lparr>ct_receiving := xs, ct_waiters := ws\<rparr>) = (r, t)" for i xs ws r t
    using deliver_frame [OF that] by (intro calm_frame) simp_all
  then show ?thesis
    using assms
    by (auto simp: receive_delivers_def Let_def attention_report_def intro: calm_frame
        split: prod.splits option.splits sum.splits)
qed

lemma withdraw_registry:
  "cancelHumanAttention now hid reason state reg = Inr (request, reg') \<Longrightarrow> registry_steps rc reg reg'"
  by (rule registry_one) (rule registry_step.cancel_attention)

lemma withdraw_calm:
  assumes "cancelPendingHumanAttention now lineageId reason state exact s = Inr (outs, s')"
  shows "calm rc s s' \<and> publications outs = []"
  using assms withdraw_registry [of now _ reason state "ct_registry s"]
  by (auto simp: cancelPendingHumanAttention_def Let_def split: if_splits option.splits elim!: bind_result_InrE
      intro!: calm_frame)

lemma reconcile_calm:
  assumes "reconcileHumanAttentionControllerGeneration cfg now dispatch lineage prior s = Inr (outs, s')"
  shows "calm rc s s' \<and> publications outs = []"
  using assms
  by (auto simp: reconcileHumanAttentionControllerGeneration_def Let_def attention_report_def
      split: if_splits option.splits elim!: bind_result_InrE dest: withdraw_calm
      intro!: calm_registry intro: attention_steps)

section \<open>Bindings\<close>

text \<open>A binding that begins: nothing but losses, and perhaps a new binding in progress.\<close>

lemma bind_begins_effect:
  assumes "bind_begins cfg now token dispatch lineage recoverability s = (outs, s')"
  shows "publications outs = [] \<and>
    (calm rc s s' \<or> (\<exists>t. calm rc s t \<and> s' = t\<lparr>ct_binds := ct_binds t @ [\<lparr>bp_token = token, bp_dispatch = dispatch,
       bp_lineage = lineage, bp_recoverability = recoverability, bp_stage = Reading_State\<rparr>]\<rparr>))"
proof -
  let ?previous = "truthy (token_of (lin_lineageId lineage) s)"
  obtain out1 failed s1 where inv: "(if ?previous then invalidate now (lin_lineageId lineage) s else ([], None, s)) = (out1, failed, s1)"
    by (cases "if ?previous then invalidate now (lin_lineageId lineage) s else ([], None, s)") auto
  then have calm1: "calm rc s s1" "publications out1 = []"
    using invalidate_calm by (auto split: if_splits)
  show ?thesis
    using assms inv calm1
    by (auto simp: bind_begins_def Let_def split: if_splits option.splits sum.splits prod.splits
        dest!: reconcile_calm [where rc = rc] intro: calm_trans)
qed

definition installs :: "bind_progress \<Rightarrow> completion_state option \<Rightarrow> control \<Rightarrow> control \<Rightarrow> bool" where
  "installs b completion s s' \<longleftrightarrow> s' = snd (install_context b completion s)"

lemma bind_continues_effect:
  assumes "bind_continues cfg now io b s = (outs, s')"
  shows "publications outs = [] \<and> (calm rc s s' \<or> (\<exists>completion. installs b completion s s'))"
proof -
  have ended: "calm rc s (end_bind token s)" for token
    by (auto simp: calm_def end_bind_def token_of_def bind_identity_def distinct_map_filter)
  have staged: "calm rc s (set_bind_stage token stage s)" for token stage s
    by (auto simp: calm_def set_bind_stage_def token_of_def bind_identity_def set_update_where map_update_where)
  have filed: "calm rc s (s\<lparr>ct_files := writeStructuredCompletionState d c (ct_files s)\<rparr>)" for d c
    by (rule calm_frame) (simp_all add: writeStructuredCompletionState_def)
  have installed: "publications outs = [] \<and> installs b completion s s'" if "install_context b completion s = (outs, s')" for completion
    using that by (auto simp: installs_def install_context_def)
  show ?thesis
    using assms unfolding bind_continues_def Let_def
    by (cases "bp_stage b")
      (auto split: option.splits sum.splits if_splits intro: ended staged calm_trans [OF filed staged] dest: installed)
qed

end
