(* ===== verification/Control_History.thy ===== *)
theory Control_History
  imports Control_Effects Registry_Evolution
begin

text \<open>
  What holds over every history of the control authority: the invariant that makes a published result unique,
  the authority of a publication, and the single delivery of a human response.
\<close>

section \<open>The cases of a step\<close>

lemma known_same: "known_dispatch reg d \<Longrightarrow> same_dispatch d d' \<Longrightarrow> known_dispatch reg d'"
  by (auto simp: known_dispatch_def same_dispatch_def)

lemma known_steps:
  assumes "registry_steps rc reg reg'" and "known_dispatch reg d"
  shows "known_dispatch reg' d"
  using assms
proof (induction rule: rtranclp_induct)
  case (step t u)
  then obtain r where r: "dispatch_row (act_action_id (rec_action d)) t = Some r" "same_dispatch d (mapDispatch r)"
    by (auto simp: known_dispatch_def get_Inr)
  from rows_evolveD [OF step_dispatch_evolves [OF step.hyps(2)] r(1)] obtain r'
    where "dispatch_row (act_action_id (rec_action d)) u = Some r'" "dispatch_identity r' = dispatch_identity r"
    by (auto simp: dispatch_evolves_def)
  then show ?case using r(2)
    by (auto simp: known_dispatch_def get_Inr same_dispatch_def dispatch_identity_def mapDispatch_def)
qed

definition all_known :: "control \<Rightarrow> bool" where
  "all_known s \<longleftrightarrow> (\<forall>t c. context_of t s = Some c \<longrightarrow> known_dispatch (ct_registry s) (cc_dispatch c))"

lemma control_step_cases:
  assumes "control_step rc cfg s outs s'" and "all_known s"
  obtains (calm) "calm rc s s'" "publications outs = []"
  | (one) c where "context_of (cc_contextToken c) s = Some c" "publications outs = []"
      "local_effect rc (\<not> hasStepResult (cc_dispatch c) (ct_files s)) c s s'"
  | (published) c p e where "context_of (cc_contextToken c) s = Some c" "publishes rc c s p e s'"
      "outs = [Published (cc_contextToken c) (pr_directory p) (pr_destination p) e]"
  | (began) t b where "calm rc s t" "s' = t\<lparr>ct_binds := ct_binds t @ [b]\<rparr>" "publications outs = []"
      "bp_token b \<notin> cc_contextToken ` set (ct_contexts s) \<union> bp_token ` set (ct_binds s)"
      "known_dispatch (ct_registry s) (bp_dispatch b)"
  | (installed) b completion where "b \<in> set (ct_binds s)" "installs b completion s s'" "publications outs = []"
proof -
  have known: "\<And>token c. context_of token s = Some c \<Longrightarrow> known_dispatch (ct_registry s) (cc_dispatch c)"
    using assms(2) by (auto simp: all_known_def)
  have of_token: thesis if "token_effect rc token s outs s'" for token
    using that calm one by (auto simp: token_effect_def context_effect_def dest: contexts.lookup_key)
  show thesis
    using assms(1)
  proof (cases rule: control_step.cases)
    case listening
    moreover have "calm rc s (s\<lparr>ct_endpoint := True\<rparr>)" by (rule calm_frame) simp_all
    ultimately show thesis using calm by simp
  next
    case (registry reg)
    then show thesis using calm by (auto intro: calm_registry)
  next
    case (bind_begin token dispatch now lineage recoverability)
    then have "known_dispatch (ct_registry s) dispatch" by (auto simp: known_dispatch_def)
    then show thesis using bind_begin bind_begins_effect [OF bind_begin(3), where rc = rc] calm began by fastforce
  next
    case (bind_continue b now io)
    then show thesis using bind_continues_effect [OF bind_continue(2), where rc = rc] calm installed by blast
  next
    case (invalidate now lineageId e)
    then show thesis using invalidate_calm calm by blast
  next
    case (finish fallback uuid now boundary commit io token)
    from finish_effect [where rc = rc, OF finish known] show thesis
    proof
      assume "token_effect rc token s outs s'"
      then show thesis by (rule of_token)
    next
      assume "\<exists>c p e. context_of token s = Some c \<and> publishes rc c s p e s' \<and>
        outs = [Published token (pr_directory p) (pr_destination p) e]"
      then obtain c p e where pub: "context_of token s = Some c" "publishes rc c s p e s'"
        "outs = [Published token (pr_directory p) (pr_destination p) e]" by blast
      then show thesis using published contexts.lookup_key [OF pub(1)] by auto
    qed
  next
    case (abort token attentionId)
    then show thesis using abort_calm calm by blast
  next
    case (receive now input)
    then show thesis using receive_calm calm by blast
  next
    case (deliver x now)
    then show thesis using delivers_calm calm by blast
  next
    case (withdraw now lineageId reason state exact)
    then show thesis using withdraw_calm calm by blast
  next
    case (handle now aborted generation token requestId operation)
    show thesis by (rule of_token, rule handle_effect [OF handle known])
  next
    case (run now uuid token)
    show thesis by (rule of_token, rule run_effect [OF run known])
  next
    case (listed io token)
    show thesis by (rule of_token, rule list_effect [OF listed])
  next
    case (wrote io token)
    show thesis by (rule of_token, rule write_effect [OF wrote])
  next
    case (resume now token)
    show thesis by (rule of_token, rule resume_effect [OF resume known])
  qed
qed

section \<open>The invariant\<close>

text \<open>
  \<open>P\<close> is the list of publications so far. A result made under a lineage stays in its directory; while a
  context that is armed holds the token of its lineage, that lineage has published nothing into its directory.
\<close>

definition published_by :: "control \<Rightarrow> string \<times> string \<Rightarrow> string option \<times> string" where
  "published_by s x = (map_option cc_lineageId (context_of (fst x) s), snd x)"

definition contexts_inv :: "control \<Rightarrow> bool" where
  "contexts_inv s \<longleftrightarrow>
     (\<forall>t c. context_of t s = Some c \<longrightarrow>
        context_ok c \<and> envelope_ok c \<and> known_dispatch (ct_registry s) (cc_dispatch c)) \<and>
     distinct (map bp_token (ct_binds s)) \<and>
     (\<forall>b \<in> set (ct_binds s). context_of (bp_token b) s = None \<and> known_dispatch (ct_registry s) (bp_dispatch b)) \<and>
     (\<forall>l t. token_of l s = Some t \<longrightarrow> (\<exists>c. context_of t s = Some c \<and> cc_lineageId c = l))"

definition publications_inv :: "(string \<times> string) list \<Rightarrow> control \<Rightarrow> bool" where
  "publications_inv P s \<longleftrightarrow>
     (\<forall>(t, d) \<in> set P. result_names d (ct_files s) \<noteq> [] \<and>
        (\<exists>c. context_of t s = Some c \<and> rec_resultDirectory (cc_dispatch c) = d)) \<and>
     (\<forall>t c. context_of t s = Some c \<longrightarrow> armed c \<longrightarrow> token_of (cc_lineageId c) s = Some t \<longrightarrow>
        (Some (cc_lineageId c), rec_resultDirectory (cc_dispatch c)) \<notin> published_by s ` set P) \<and>
     distinct (map (published_by s) P)"

lemma calm_contexts_inv:
  assumes "calm rc s s'" and "contexts_inv s"
  shows "contexts_inv s'"
proof -
  have rel: "rel_option invalidates (context_of t s) (context_of t s')" for t using assms(1) by (simp add: calm_def)
  have before: "\<exists>c. context_of t s = Some c \<and> invalidates c c'" if "context_of t s' = Some c'" for t c'
    using rel [of t] that by (auto simp: option_rel_Some2)
  have regs: "registry_steps rc (ct_registry s) (ct_registry s')" using assms(1) by (simp add: calm_def)
  have "context_ok c \<and> envelope_ok c \<and> known_dispatch (ct_registry s') (cc_dispatch c)" if "context_of t s' = Some c" for t c
    using before [OF that] assms(2) known_steps [OF regs]
    by (auto simp: contexts_inv_def invalidates_def phase_defs)
  moreover have "context_of (bp_token b) s' = None \<and> known_dispatch (ct_registry s') (bp_dispatch b)"
    if "b \<in> set (ct_binds s')" for b
  proof -
    have "bind_identity b \<in> bind_identity ` set (ct_binds s)" using assms(1) that by (auto simp: calm_def)
    then have "context_of (bp_token b) s = None \<and> known_dispatch (ct_registry s) (bp_dispatch b)"
      using assms(2) by (auto simp: bind_identity_def contexts_inv_def)
    then show ?thesis using rel [of "bp_token b"] known_steps [OF regs] by auto
  qed
  moreover have "\<exists>c. context_of t s' = Some c \<and> cc_lineageId c = l" if "token_of l s' = Some t" for l t
  proof -
    have "token_of l s = Some t" using assms(1) that by (simp add: calm_def)
    then obtain c where "context_of t s = Some c" "cc_lineageId c = l"
      using assms(2) unfolding contexts_inv_def by blast
    then show ?thesis using rel [of t] by (auto simp: option_rel_Some1 invalidates_def)
  qed
  ultimately show ?thesis using assms by (simp add: contexts_inv_def calm_def)
qed

lemma publications_invI:
  assumes "\<And>t d. (t, d) \<in> set P \<Longrightarrow> result_names d (ct_files s) \<noteq> []"
    and "\<And>t d. (t, d) \<in> set P \<Longrightarrow> \<exists>c. context_of t s = Some c \<and> rec_resultDirectory (cc_dispatch c) = d"
    and "\<And>t c. context_of t s = Some c \<Longrightarrow> armed c \<Longrightarrow> token_of (cc_lineageId c) s = Some t \<Longrightarrow>
      (Some (cc_lineageId c), rec_resultDirectory (cc_dispatch c)) \<notin> published_by s ` set P"
    and "distinct (map (published_by s) P)"
  shows "publications_inv P s"
  using assms unfolding publications_inv_def by blast

lemma publications_invD:
  assumes "publications_inv P s"
  shows "(t, d) \<in> set P \<Longrightarrow> result_names d (ct_files s) \<noteq> []"
    and "(t, d) \<in> set P \<Longrightarrow> \<exists>c. context_of t s = Some c \<and> rec_resultDirectory (cc_dispatch c) = d"
    and "context_of t s = Some c \<Longrightarrow> armed c \<Longrightarrow> token_of (cc_lineageId c) s = Some t \<Longrightarrow>
      (Some (cc_lineageId c), rec_resultDirectory (cc_dispatch c)) \<notin> published_by s ` set P"
    and "distinct (map (published_by s) P)"
  using assms unfolding publications_inv_def by fast+

lemma calm_publications_inv:
  assumes "calm rc s s'" and inv: "publications_inv P s"
  shows "publications_inv P s'"
proof (rule publications_invI)
  have rel: "rel_option invalidates (context_of t s) (context_of t s')" for t using assms(1) by (simp add: calm_def)
  have pub_by: "published_by s' x = published_by s x" for x
    using rel [of "fst x"] by (auto simp: published_by_def option_rel_Some1 invalidates_def
        elim!: option.rel_cases)
  show "result_names d (ct_files s') \<noteq> []" if "(t, d) \<in> set P" for t d
    using publications_invD(1) [OF inv that] assms(1) by (simp add: calm_def)
  show "\<exists>c. context_of t s' = Some c \<and> rec_resultDirectory (cc_dispatch c) = d" if "(t, d) \<in> set P" for t d
    using publications_invD(2) [OF inv that] rel [of t] by (auto simp: option_rel_Some1 invalidates_def)
  show "(Some (cc_lineageId c), rec_resultDirectory (cc_dispatch c)) \<notin> published_by s' ` set P"
    if c: "context_of t s' = Some c" "armed c" "token_of (cc_lineageId c) s' = Some t" for t c
  proof -
    obtain c0 where c0: "context_of t s = Some c0" "invalidates c0 c"
      using rel [of t] c(1) by (auto simp: option_rel_Some2)
    moreover have "token_of (cc_lineageId c) s = Some t" using assms(1) c(3) by (simp add: calm_def)
    ultimately show ?thesis
      using publications_invD(3) [OF inv c0(1)] c(2) by (auto simp: pub_by invalidates_def phase_defs)
  qed
  show "distinct (map (published_by s') P)" using publications_invD(4) [OF inv] pub_by by presburger
qed

lemma one_contexts_inv:
  assumes "context_of (cc_contextToken c) s = Some c" and "local_effect rc arms c s s'" and "contexts_inv s"
  shows "contexts_inv s'"
proof -
  obtain c' where c': "\<And>t. context_of t s' = (if t = cc_contextToken c then Some c' else context_of t s)"
    and step: "context_step arms c c'" using assms(2) by (auto simp: local_effect_def)
  have regs: "registry_steps rc (ct_registry s) (ct_registry s')" using assms(2) by (simp add: local_effect_def)
  have known: "known_dispatch (ct_registry s') d" if "known_dispatch (ct_registry s) d" for d
    using known_steps [OF regs that] .
  have "context_ok c" "envelope_ok c" "known_dispatch (ct_registry s) (cc_dispatch c)"
    using assms(1,3) unfolding contexts_inv_def by blast+
  then have "context_ok c'" "envelope_ok c'" "known_dispatch (ct_registry s') (cc_dispatch c')"
    using step known known_same by (auto simp: context_step_def)
  then have "context_ok k \<and> envelope_ok k \<and> known_dispatch (ct_registry s') (cc_dispatch k)"
    if "context_of t s' = Some k" for t k
    using that assms(3) known unfolding contexts_inv_def c' by (auto split: if_splits)
  moreover have "context_of (bp_token b) s' = None \<and> known_dispatch (ct_registry s') (bp_dispatch b)"
    if "b \<in> set (ct_binds s')" for b
    using that assms known unfolding contexts_inv_def c' by (auto simp: local_effect_def)
  moreover have "\<exists>k. context_of t s' = Some k \<and> cc_lineageId k = l" if "token_of l s' = Some t" for l t
  proof -
    have "token_of l s = Some t" using that assms(2) by (simp add: local_effect_def token_of_def)
    then obtain k where "context_of t s = Some k" "cc_lineageId k = l"
      using assms(3) unfolding contexts_inv_def by blast
    then show ?thesis using assms(1) step unfolding c' by (auto simp: context_step_def)
  qed
  ultimately show ?thesis using assms(2,3) by (simp add: contexts_inv_def local_effect_def)
qed

lemma one_publications_inv:
  assumes c: "context_of (cc_contextToken c) s = Some c"
    and effect: "local_effect rc (\<not> hasStepResult (cc_dispatch c) (ct_files s)) c s s'"
    and "contexts_inv s" and inv: "publications_inv P s"
  shows "publications_inv P s'"
proof (rule publications_invI)
  obtain c' where c': "\<And>t. context_of t s' = (if t = cc_contextToken c then Some c' else context_of t s)"
    and step: "context_step (\<not> hasStepResult (cc_dispatch c) (ct_files s)) c c'" using effect by (auto simp: local_effect_def)
  have ok: "context_ok c" using c assms(3) unfolding contexts_inv_def by blast
  have pub_by: "published_by s' x = published_by s x" for x
    using c step by (simp add: published_by_def c' context_step_def)
  have names: "result_names d (ct_files s') = result_names d (ct_files s)" for d using effect by (simp add: local_effect_def)
  have tokens: "token_of l s' = token_of l s" for l using effect by (simp add: local_effect_def token_of_def)
  have same: "cc_lineageId c' = cc_lineageId c" "rec_resultDirectory (cc_dispatch c') = rec_resultDirectory (cc_dispatch c)"
    using step by (simp_all add: context_step_def same_dispatch_def)
  show "result_names d (ct_files s') \<noteq> []" if "(t, d) \<in> set P" for t d
    using publications_invD(1) [OF inv that] by (simp add: names)
  show "\<exists>k. context_of t s' = Some k \<and> rec_resultDirectory (cc_dispatch k) = d" if "(t, d) \<in> set P" for t d
    using publications_invD(2) [OF inv that] c same by (auto simp: c')
  show "distinct (map (published_by s') P)" using publications_invD(4) [OF inv] pub_by by presburger
  show "(Some (cc_lineageId k), rec_resultDirectory (cc_dispatch k)) \<notin> published_by s' ` set P"
    if k: "context_of t s' = Some k" "armed k" "token_of (cc_lineageId k) s' = Some t" for t k
  proof (cases "t = cc_contextToken c \<and> \<not> armed c")
    case False
    then show ?thesis
      using k same c publications_invD(3) [OF inv, of t] by (auto simp: c' pub_by tokens split: if_splits)
  next
    case True
    then have k': "k = c'" using k(1) by (simp add: c')
    then have "result_names (rec_resultDirectory (cc_dispatch c)) (ct_files s) = []"
      using step ok k(2) True by (auto simp: context_step_def hasStepResult_names)
    then have "(t', rec_resultDirectory (cc_dispatch k)) \<notin> set P" for t'
      using publications_invD(1) [OF inv, of t' "rec_resultDirectory (cc_dispatch k)"] k' same by auto
    then show ?thesis by (auto simp: pub_by published_by_def)
  qed
qed

text \<open>The publication.\<close>

lemma current_dispatchD:
  assumes "current_dispatch c s = Inr d"
  shows "get (act_action_id (rec_action (cc_dispatch c))) (ct_registry s) = Inr d"
    and "\<not> cc_invalidated c" and "cc_contextToken c \<in> set (ct_live s)" and "rec_resultNonce d = rec_resultNonce (cc_dispatch c)"
    and "rec_lineageId d = Some (cc_lineageId c)" and "rec_state d \<in> {Accepted, Running}"
    and "\<exists>lineage. getLineage (cc_lineageId c) (ct_registry s) = Inr lineage \<and>
      lin_activeActionId lineage = Some (act_action_id (rec_action d))"
    and "token_of (cc_lineageId c) s = Some (cc_contextToken c)"
  using assms by (auto simp: current_dispatch_def split: if_splits elim!: bind_result_InrE)

lemma result_names_publish:
  assumes "result_name (pr_destination p)" and "\<not> result_name (pr_temporary p)"
  shows "result_names d (publish p fs) \<noteq> [] \<longleftrightarrow> d = pr_directory p \<or> result_names d fs \<noteq> []"
  using assms by (auto simp: publish_def result_names_put)

lemma published_contexts_inv:
  assumes "context_of (cc_contextToken c) s = Some c" and "publishes rc c s p e s'" and inv: "contexts_inv s"
  shows "contexts_inv s'"
proof -
  obtain d c' where d: "same_dispatch (cc_dispatch c) d" and c': "cc_contextToken c' = cc_contextToken c"
    "\<And>t. context_of t s' = (if t = cc_contextToken c then Some c' else context_of t s)"
    "cc_lineageId c' = cc_lineageId c" "cc_dispatch c' = d" "cc_pending c' = cc_pending c"
    "cc_finishing c' = Some Recording_Completed"
    "cp_semanticAccepted (cc_completion c') = cp_semanticAccepted (cc_completion c)"
    using assms(2) unfolding publishes_def by blast
  have fin: "cc_finishing c = Some (Publishing p e)" and same: "ct_registry s' = ct_registry s" "ct_binds s' = ct_binds s"
    "\<And>l. token_of l s' = token_of l s"
    using assms(2) by (simp_all add: publishes_def token_of_def)
  have "context_ok c" "known_dispatch (ct_registry s) (cc_dispatch c)" using assms(1) inv unfolding contexts_inv_def by blast+
  then have "context_ok c'" "envelope_ok c'" "known_dispatch (ct_registry s) (cc_dispatch c')"
    using c' d fin known_same by (simp_all add: phase_defs)
  then have "\<forall>t k. context_of t s' = Some k \<longrightarrow> context_ok k \<and> envelope_ok k \<and> known_dispatch (ct_registry s') (cc_dispatch k)"
    using inv unfolding contexts_inv_def c'(2) same by auto
  moreover have "\<forall>b \<in> set (ct_binds s'). context_of (bp_token b) s' = None \<and> known_dispatch (ct_registry s') (bp_dispatch b)"
    using inv assms(1) unfolding contexts_inv_def c'(2) same by auto
  moreover have "\<forall>l t. token_of l s' = Some t \<longrightarrow> (\<exists>k. context_of t s' = Some k \<and> cc_lineageId k = l)"
    using inv assms(1) c'(3) unfolding contexts_inv_def c'(2) same by fastforce
  ultimately show ?thesis using inv same by (simp add: contexts_inv_def)
qed

lemma published_publications_inv:
  assumes c: "context_of (cc_contextToken c) s = Some c" and pub: "publishes rc c s p e s'"
    and "contexts_inv s" and inv: "publications_inv P s"
  shows "publications_inv (P @ [(cc_contextToken c, pr_directory p)]) s'"
proof -
  let ?x = "(cc_contextToken c, pr_directory p)"
  obtain d c' where d: "current_dispatch c s = Inr d" "same_dispatch (cc_dispatch c) d"
    and c': "\<And>t. context_of t s' = (if t = cc_contextToken c then Some c' else context_of t s)"
    "cc_lineageId c' = cc_lineageId c" "cc_dispatch c' = d" "cc_pending c' = cc_pending c"
    "cc_finishing c' = Some Recording_Completed"
    using pub unfolding publishes_def by blast
  have fin: "cc_finishing c = Some (Publishing p e)" and files: "ct_files s' = publish p (ct_files s)"
    and tokens: "\<And>l. token_of l s' = token_of l s"
    using pub by (simp_all add: publishes_def token_of_def)
  have ok: "context_ok c" "envelope_ok c" using c assms(3) unfolding contexts_inv_def by blast+
  then have p: "pr_directory p = rec_resultDirectory (cc_dispatch c)" "result_name (pr_destination p)"
    "\<not> result_name (pr_temporary p)"
    using fin by (simp_all add: phase_defs)
  note token = current_dispatchD(8) [OF d(1)]
  have calm: "\<not> armed c'"
    using ok(1) fin c' by (cases "cc_pending c") (auto simp: phase_defs elim: phase_ok.elims)
  have pub_by: "published_by s' = published_by s"
    using c c'(1,2) by (intro ext) (simp add: published_by_def)
  have x: "published_by s ?x = (Some (cc_lineageId c), rec_resultDirectory (cc_dispatch c))"
    using c p by (simp add: published_by_def)
  have new: "published_by s ?x \<notin> published_by s ` set P"
    using publications_invD(3) [OF inv c _ token] fin x by (simp add: phase_defs)
  show ?thesis
  proof (rule publications_invI)
    show "result_names dir (ct_files s') \<noteq> []" if "(t, dir) \<in> set (P @ [?x])" for t dir
      using that publications_invD(1) [OF inv] result_names_publish [OF p(2,3)] by (auto simp: files)
    show "\<exists>k. context_of t s' = Some k \<and> rec_resultDirectory (cc_dispatch k) = dir" if "(t, dir) \<in> set (P @ [?x])" for t dir
      using that publications_invD(2) [OF inv] c p d(2) c' by (fastforce simp: same_dispatch_def)
    show "(Some (cc_lineageId k), rec_resultDirectory (cc_dispatch k)) \<notin> published_by s' ` set (P @ [?x])"
      if k: "context_of t s' = Some k" "armed k" "token_of (cc_lineageId k) s' = Some t" for t k
    proof -
      have t: "t \<noteq> cc_contextToken c" using k(1,2) calm c'(1) by auto
      then have "context_of t s = Some k" "cc_lineageId k \<noteq> cc_lineageId c" using k c'(1) token by (auto simp: tokens)
      then show ?thesis using publications_invD(3) [OF inv] k(2,3) x by (simp add: pub_by tokens)
    qed
    show "distinct (map (published_by s') (P @ [?x]))" using publications_invD(4) [OF inv] new by (simp add: pub_by)
  qed
qed

text \<open>Bindings that begin, and the context that one installs.\<close>

lemma began_inv:
  assumes calm: "calm rc s t" and "s' = t\<lparr>ct_binds := ct_binds t @ [b]\<rparr>"
    and fresh: "bp_token b \<notin> cc_contextToken ` set (ct_contexts s) \<union> bp_token ` set (ct_binds s)"
    and known: "known_dispatch (ct_registry s) (bp_dispatch b)"
    and "contexts_inv s" and "publications_inv P s"
  shows "contexts_inv s'" and "publications_inv P s'"
proof -
  note t = calm_contexts_inv [OF calm assms(5)] calm_publications_inv [OF calm assms(6)]
  have "context_of (bp_token b) s = None"
    using fresh by (cases "context_of (bp_token b) s") (force dest: lookup_row_SomeD)+
  moreover have "rel_option invalidates (context_of (bp_token b) s) (context_of (bp_token b) t)"
    using calm by (simp add: calm_def)
  ultimately have none: "context_of (bp_token b) t = None" by auto
  have regs: "registry_steps rc (ct_registry s) (ct_registry t)"
    and "bind_identity ` set (ct_binds t) \<subseteq> bind_identity ` set (ct_binds s)" using calm by (simp_all add: calm_def)
  then have "bp_token ` set (ct_binds t) \<subseteq> bp_token ` set (ct_binds s)" by (auto simp: bind_identity_def)
  then have "bp_token b \<notin> bp_token ` set (ct_binds t)" using fresh by auto
  then show "contexts_inv s'"
    using t(1) none known_steps [OF regs known] by (auto simp: contexts_inv_def assms(2) token_of_def)
  show "publications_inv P s'"
    using t(2) by (simp add: publications_inv_def assms(2) token_of_def published_by_def [abs_def])
qed

lemma map_of_set_key: "map_of (set_key k v xs) k' = (if k' = k then Some v else map_of xs k')"
  by (auto simp: set_key_def map_add_def map_of_filter_key split: option.splits)

lemma installs_context:
  assumes "installs b completion s s'" and "context_of (bp_token b) s = None"
  shows "context_of t s' = (if t = bp_token b then Some (new_context b completion) else context_of t s)"
    and "token_of l s' = (if l = lin_lineageId (bp_lineage b) then Some (bp_token b) else token_of l s)"
    and "ct_registry s' = ct_registry s" and "ct_files s' = ct_files s"
    and "ct_binds s' = filter (\<lambda>x. bp_token x \<noteq> bp_token b) (ct_binds s)"
  using assms
  by (auto simp: installs_def install_context_def end_bind_def lookup_row_append token_of_def map_of_set_key
      new_context_def split: option.splits)

lemma installed_inv:
  assumes "b \<in> set (ct_binds s)" and "installs b completion s s'"
    and ctx: "contexts_inv s" and inv: "publications_inv P s"
  shows "contexts_inv s'" and "publications_inv P s'"
proof -
  have none: "context_of (bp_token b) s = None" and known: "known_dispatch (ct_registry s) (bp_dispatch b)"
    using ctx assms(1) by (auto simp: contexts_inv_def)
  note new = installs_context [OF assms(2) none]
  have fresh: "context_ok (new_context b completion)" "envelope_ok (new_context b completion)"
    "\<not> armed (new_context b completion)" by (simp_all add: phase_defs new_context_def)
  have id: "cc_dispatch (new_context b completion) = bp_dispatch b"
    "cc_lineageId (new_context b completion) = lin_lineageId (bp_lineage b)" by (simp_all add: new_context_def)
  have "\<exists>c. context_of t s' = Some c \<and> cc_lineageId c = l" if "token_of l s' = Some t" for l t
  proof (cases "l = lin_lineageId (bp_lineage b)")
    case False
    then have "token_of l s = Some t" using that by (simp add: new)
    then obtain c where "context_of t s = Some c" "cc_lineageId c = l"
      using ctx unfolding contexts_inv_def by blast
    then show ?thesis using none by (auto simp: new)
  qed (use that id in \<open>simp add: new\<close>)
  then show "contexts_inv s'"
    using ctx known fresh id unfolding contexts_inv_def by (auto simp: new distinct_map_filter split: if_splits)
  have pub_by: "published_by s' x = published_by s x" if "x \<in> set P" for x
    using publications_invD(2) [OF inv, of "fst x" "snd x"] that none by (auto simp: published_by_def new)
  show "publications_inv P s'"
  proof (rule publications_invI)
    show "result_names d (ct_files s') \<noteq> []" if "(t, d) \<in> set P" for t d
      using publications_invD(1) [OF inv that] by (simp add: new)
    show "\<exists>c. context_of t s' = Some c \<and> rec_resultDirectory (cc_dispatch c) = d" if "(t, d) \<in> set P" for t d
      using publications_invD(2) [OF inv that] none by (auto simp: new)
    have same: "map (published_by s') P = map (published_by s) P" using pub_by by simp
    show "distinct (map (published_by s') P)" unfolding same by (rule publications_invD(4) [OF inv])
    show "(Some (cc_lineageId c), rec_resultDirectory (cc_dispatch c)) \<notin> published_by s' ` set P"
      if "context_of t s' = Some c" "armed c" "token_of (cc_lineageId c) s' = Some t" for t c
    proof -
      have "t \<noteq> bp_token b" using that fresh by (auto simp: new)
      then have "context_of t s = Some c" "token_of (cc_lineageId c) s = Some t" using that by (auto simp: new split: if_splits)
      then show ?thesis using publications_invD(3) [OF inv _ that(2)] pub_by by (auto simp: image_def)
    qed
  qed
qed

section \<open>Histories\<close>

lemma contexts_inv_known: "contexts_inv s \<Longrightarrow> all_known s"
  by (simp add: contexts_inv_def all_known_def)

lemma step_inv:
  assumes "control_step rc cfg s outs s'" and "contexts_inv s" and "publications_inv P s"
  shows "contexts_inv s' \<and> publications_inv (P @ publications outs) s'"
  using assms(1) contexts_inv_known [OF assms(2)]
proof (cases rule: control_step_cases)
  case calm
  then show ?thesis using calm_contexts_inv calm_publications_inv assms by simp
next
  case (one c)
  then show ?thesis using one_contexts_inv one_publications_inv assms by simp
next
  case (published c p e)
  then show ?thesis using published_contexts_inv published_publications_inv assms by simp
next
  case (began t b)
  then show ?thesis using began_inv assms by simp
next
  case (installed b completion)
  then show ?thesis using installed_inv assms by simp
qed

lemma initial_inv: "contexts_inv (initial_control reg fs)" "publications_inv [] (initial_control reg fs)"
  by (simp_all add: contexts_inv_def publications_inv_def initial_control_def token_of_def)

lemma run_inv:
  assumes "control_run rc cfg (initial_control reg fs) outs s"
  shows "contexts_inv s \<and> publications_inv (publications outs) s"
  using assms
proof (induction "initial_control reg fs" outs s rule: control_run.induct)
  case start
  then show ?case using initial_inv by simp
next
  case (extend outs t new u)
  then show ?case using step_inv by auto
qed

end
