(* ===== verification/Control_Responses.thy ===== *)
theory Control_Responses
  imports Control_History
begin

text \<open>
  The hand-over of a human response to a native wait, through the control authority: which steps settle a
  wait with a response, and what the registry holds before and after one that does.
\<close>

definition responded :: "control_error + control_result \<Rightarrow> bool" where
  "responded r \<longleftrightarrow> (case r of
     Inr result \<Rightarrow> (case cr_humanAttentionWait result of Some (Wait_Responded _ _) \<Rightarrow> True | _ \<Rightarrow> False)
   | Inl _ \<Rightarrow> False)"

definition handovers :: "control_output list \<Rightarrow> string list" where
  "handovers outs = concat (map (\<lambda>out. case out of Settle i t r \<Rightarrow> (if responded r then [i] else []) | _ \<Rightarrow> []) outs)"

lemma handovers_simps [simp]:
  "handovers [] = []" "handovers (xs @ ys) = handovers xs @ handovers ys"
  "handovers (Published t d n e # outs) = handovers outs"
  "handovers (Reply t i r # outs) = handovers outs"
  "handovers (Settle i t r # outs) = (if responded r then i # handovers outs else handovers outs)"
  "handovers (Delivery_Report dr # outs) = handovers outs" "handovers (Attention_Report a l # outs) = handovers outs"
  "handovers (Bound t l # outs) = handovers outs" "handovers (Bind_Failed t err # outs) = handovers outs"
  by (simp_all add: handovers_def)

lemma responded_simps [simp]: "\<not> responded (Inl e)" "\<not> responded (Inr (withdrawal_result now reason request))"
  by (simp_all add: responded_def withdrawal_result_def)

lemma handovers_attention_report [simp]: "handovers (attention_report d l # outs) = handovers outs"
  by (simp add: attention_report_def)

lemma handovers_rejections [simp]: "handovers (map (\<lambda>x. Settle (f x) token (Inl e)) xs) = []"
  by (induction xs) auto

section \<open>Steps that hand over nothing\<close>

lemma conclude_quiet: "conclude token i r s = (outs, s') \<Longrightarrow> handovers outs = []"
  by (auto simp: conclude_def)

lemma outcome_quiet:
  "outcome_concludes token i (r, outs, s) = (all, s') \<Longrightarrow> handovers outs = [] \<Longrightarrow> handovers all = []"
  by (auto simp: outcome_concludes_def Let_def split: prod.splits dest: conclude_quiet)

lemma attention_quiet:
  "requestAttention cfg now i c request requestId s = (r, outs, s') \<Longrightarrow> handovers outs = []"
  "acknowledgeAttentionResponse cfg now c h attempt s = (r, outs, s') \<Longrightarrow> handovers outs = []"
  "resolveAttention now c i outcome s = (r, outs, s') \<Longrightarrow> handovers outs = []"
  "automationResumed now c i s = (r, outs, s') \<Longrightarrow> handovers outs = []"
  "yieldToHuman c i s = (r, outs, s') \<Longrightarrow> handovers outs = []"
  subgoal by (auto simp: requestAttention_def Let_def split: if_splits sum.splits option.splits prod.splits)
  subgoal by (auto simp: acknowledgeAttentionResponse_def split: sum.splits prod.splits)
  subgoal by (auto simp: resolveAttention_def Let_def split: if_splits sum.splits)
  subgoal by (auto simp: automationResumed_def Let_def split: if_splits sum.splits option.splits prod.splits)
  subgoal by (auto simp: yieldToHuman_def split: if_splits sum.splits)
  done

lemma suspend_quiet: "suspend token p s = (outs, s') \<Longrightarrow> handovers outs = []"
  by (simp add: suspend_def)

lemma apply_quiet:
  assumes "apply_begins cfg now uuid c requestId operation s = (outs, s')"
  shows "handovers outs = []"
proof -
  have outcome: "handovers outs = []" if "outcome_concludes token i x = (outs, s')" "handovers (fst (snd x)) = []" for token i x
    using that by (cases x) (auto dest: outcome_quiet)
  have "handovers (fst (snd (requestAttention cfg now uuid c request requestId s))) = []"
    "handovers (fst (snd (acknowledgeAttentionResponse cfg now c h attempt s))) = []"
    "handovers (fst (snd (resolveAttention now c i outcome s))) = []"
    "handovers (fst (snd (yieldToHuman c i s))) = []" "handovers (fst (snd (automationResumed now c i s))) = []"
    for request h attempt i outcome
    using attention_quiet by (metis prod.collapse)+
  then show ?thesis
    using assms
    by (cases operation)
      (auto simp: apply_begins_def Let_def split: sum.splits if_splits option.splits prod.splits
        dest: conclude_quiet suspend_quiet outcome)
qed

lemma run_quiet: "run_next cfg now uuid token s = (outs, s') \<Longrightarrow> handovers outs = []"
  by (auto simp: run_next_def Let_def split: option.splits list.splits sum.splits if_splits prod.splits
      dest: apply_quiet)

lemma list_quiet: "list_results io token s = (outs, s') \<Longrightarrow> handovers outs = []"
  by (auto simp: list_results_def Let_def split: option.splits pending.splits dest: conclude_quiet suspend_quiet)

lemma write_quiet: "write_state cfg io token s = (outs, s') \<Longrightarrow> handovers outs = []"
  by (auto simp: write_state_def write_fails_def Let_def split: option.splits pending.splits if_splits
      dest: conclude_quiet suspend_quiet)

lemma written_quiet: "complete_written cfg now i outputs token s = (outs, s') \<Longrightarrow> handovers outs = []"
  by (auto simp: complete_written_def Let_def split: option.splits sum.splits if_splits
      dest: conclude_quiet suspend_quiet)

lemma resume_quiet: "resume_operation cfg now token s = (outs, s') \<Longrightarrow> handovers outs = []"
  by (auto simp: resume_operation_def Let_def split: option.splits pending.splits bool.splits prod.splits
      dest: conclude_quiet written_quiet)

lemma finish_quiet: "finish_continues cfg now f u b commit io token s = (outs, s') \<Longrightarrow> handovers outs = []"
  by (auto simp: finish_continues_def finish_verified_def finish_publishes_def finish_fails_def record_outcome_def
      split: option.splits finishing.splits sum.splits prod.splits)

lemma lose_quiet: "lose_context token s = (outs, s') \<Longrightarrow> handovers outs = []"
  by (auto simp: lose_context_def Let_def)

lemma invalidate_quiet: "invalidate now lineageId s = (outs, e, s') \<Longrightarrow> handovers outs = []"
  by (auto simp: invalidate_def split: option.splits prod.splits if_splits sum.splits dest: lose_quiet)

lemma withdraw_quiet:
  "cancelPendingHumanAttention now lineageId reason state exact s = Inr (outs, s') \<Longrightarrow> handovers outs = []"
  by (auto simp: cancelPendingHumanAttention_def Let_def split: if_splits option.splits elim!: bind_result_InrE)

lemma reconcile_quiet:
  "reconcileHumanAttentionControllerGeneration cfg now dispatch lineage prior s = Inr (outs, s') \<Longrightarrow> handovers outs = []"
  by (auto simp: reconcileHumanAttentionControllerGeneration_def Let_def split: if_splits option.splits
      elim!: bind_result_InrE dest: withdraw_quiet)

lemma bind_begins_quiet: "bind_begins cfg now token dispatch lineage recoverability s = (outs, s') \<Longrightarrow> handovers outs = []"
  by (auto simp: bind_begins_def Let_def split: if_splits option.splits sum.splits prod.splits
      dest: invalidate_quiet reconcile_quiet)

lemma bind_continues_quiet: "bind_continues cfg now io b s = (outs, s') \<Longrightarrow> handovers outs = []"
  by (auto simp: bind_continues_def Let_def install_context_def
      split: bind_stage.splits option.splits sum.splits if_splits)

lemma abort_quiet: "abort_wait token i s = (outs, s') \<Longrightarrow> handovers outs = []"
  by (auto simp: abort_wait_def split: option.splits if_splits)

lemma receive_quiet: "receiveHumanAttentionResponse now input s = Inr (outs, s') \<Longrightarrow> handovers outs = []"
  by (auto simp: receiveHumanAttentionResponse_def elim!: bind_result_InrE)

lemmas quiet = bind_begins_quiet bind_continues_quiet invalidate_quiet run_quiet list_quiet write_quiet resume_quiet
  finish_quiet abort_quiet receive_quiet withdraw_quiet

section \<open>Steps that hand over a response\<close>

text \<open>The row of the request before and after: its delivery had not begun, and now it has.\<close>

definition handed_over :: "string \<Rightarrow> registry \<Rightarrow> registry \<Rightarrow> bool" where
  "handed_over i reg reg' \<longleftrightarrow>
     (\<exists>r. attention_row i reg = Some r \<and> h_delivery_state r = Response_Not_Delivered \<and>
        h_response_state r = Responded) \<and>
     (\<exists>r. attention_row i reg' = Some r \<and> h_delivery_state r = Delivery_Requested)"

lemma deliver_hands_over:
  assumes "deliverCommittedAttentionResponse now i s = (r, s')" and "responded r"
  shows "handed_over i (ct_registry s) (ct_registry s')"
proof -
  obtain current where current: "getHumanAttentionRequest i (ct_registry s) = Inr current"
    and unsent: "h_delivery_state current = Response_Not_Delivered"
    using assms by (auto simp: deliverCommittedAttentionResponse_def lift_registry_def split: sum.splits if_splits)
  show ?thesis
  proof (cases "beginHumanAttentionDelivery now i (h_request_generation current) (ct_registry s)")
    case (Inl e)
    then show ?thesis
      using assms current unsent by (auto simp: deliverCommittedAttentionResponse_def lift_registry_def)
  next
    case (Inr x)
    then obtain row reg where started: "beginHumanAttentionDelivery now i (h_request_generation current) (ct_registry s) = Inr (row, reg)"
      by (cases x) auto
    have s': "s' = s\<lparr>ct_registry := reg\<rparr>"
      using assms(1) current unsent started
      by (auto simp: deliverCommittedAttentionResponse_def lift_registry_def split: if_splits option.splits)
    from started obtain r where "attention_row i (ct_registry s) = Some r" "h_response_state r = Responded"
      "h_delivery_state r = Response_Not_Delivered" "request_updated i (request_delivery now) (ct_registry s) reg"
      by (cases rule: begin_delivery_effect)
    then show ?thesis
      by (auto simp: handed_over_def s' request_updated_row request_delivery_def)
  qed
qed

lemma wait_hands_over:
  assumes "waitForHumanAttention cfg now aborted c h s = (Some r, s')" and "responded r"
  shows "handed_over (wh_attentionId h) (ct_registry s) (ct_registry s')"
proof -
  obtain request where binding: "assertAttentionWaitBinding cfg c h s = Inr request"
    and "deliverCommittedAttentionResponse now (h_attention_id request) s = (r, s')"
    using assms
    by (auto simp: waitForHumanAttention_def responded_def split: sum.splits if_splits prod.splits)
  moreover have "h_attention_id request = wh_attentionId h"
    using binding attentions.lookup_key
    by (auto simp: assertAttentionWaitBinding_def getHumanAttentionRequest_Inr attention_row_def
        split: sum.splits if_splits elim!: bind_result_InrE)
  ultimately show ?thesis using deliver_hands_over assms(2) by simp
qed

lemma handle_hands_over:
  assumes "handle cfg now aborted generation token requestId operation s = (outs, s')"
  shows "handovers outs = [] \<or> (\<exists>i. handovers outs = [i] \<and> handed_over i (ct_registry s) (ct_registry s'))"
proof (cases operation)
  case (Wait_For_Response h)
  show ?thesis
    using assms unfolding handle_def Let_def Wait_For_Response
    by (auto split: if_splits option.splits sum.splits prod.splits dest!: wait_hands_over)
qed (use assms in \<open>auto simp: handle_def Let_def split: if_splits option.splits\<close>)

lemma delivers_hand_over:
  assumes "receive_delivers now x s = (outs, s')"
  shows "handovers outs = [] \<or> (\<exists>i. handovers outs = [i] \<and> handed_over i (ct_registry s) (ct_registry s'))"
  using assms
  by (auto simp: receive_delivers_def Let_def split: prod.splits option.splits sum.splits dest!: deliver_hands_over)

lemma step_hands_over:
  assumes "control_step rc cfg s outs s'"
  shows "handovers outs = [] \<or> (\<exists>i. handovers outs = [i] \<and> handed_over i (ct_registry s) (ct_registry s'))"
  using assms
proof (cases rule: control_step.cases)
  case (handle now aborted generation token requestId operation)
  then show ?thesis using handle_hands_over by blast
next
  case (deliver x now)
  then show ?thesis using delivers_hand_over by blast
qed (auto dest: quiet)

section \<open>The registry over a history\<close>

lemma step_registry:
  assumes "control_step rc cfg s outs s'" and "all_known s"
  shows "registry_steps rc (ct_registry s) (ct_registry s')"
  using assms
  by (cases rule: control_step_cases)
    (auto simp: calm_def local_effect_def publishes_def installs_def install_context_def end_bind_def)

lemma run_registry:
  assumes "control_run rc cfg (initial_control reg fs) outs s"
  shows "registry_steps rc reg (ct_registry s)"
  using assms
proof (induction "initial_control reg fs" outs s rule: control_run.induct)
  case start
  then show ?case by (simp add: initial_control_def)
next
  case (extend outs t new u)
  have "all_known t" using run_inv [OF extend(1)] contexts_inv_known by blast
  then have "registry_steps rc (ct_registry t) (ct_registry u)" using step_registry extend(3) by blast
  with extend(2) show ?case by (rule rtranclp_trans)
qed

lemma handed_over_stays:
  assumes "registry_steps rc reg reg'" and "registry_reachable rc reg"
    and "attention_row i reg = Some r" and "h_delivery_state r \<noteq> Response_Not_Delivered"
  shows "\<exists>r'. attention_row i reg' = Some r' \<and> h_delivery_state r' \<noteq> Response_Not_Delivered"
  using rows_evolveD [OF steps_attention_evolves [OF assms(1,2)] assms(3)] assms(4)
  by (auto simp: attention_evolves_def delivery_moves_def)

lemma run_hands_over:
  assumes "control_run rc cfg (initial_control reg fs) outs s" and "registry_reachable rc reg"
  shows "distinct (handovers outs) \<and> (\<forall>i \<in> set (handovers outs).
    \<exists>r. attention_row i (ct_registry s) = Some r \<and> h_delivery_state r \<noteq> Response_Not_Delivered)"
  using assms(1)
proof (induction "initial_control reg fs" outs s rule: control_run.induct)
  case start
  then show ?case by simp
next
  case (extend outs t new u)
  have reach: "registry_reachable rc (ct_registry t)"
    using reachable_steps [OF run_registry [OF extend(1)] assms(2)] .
  have regs: "registry_steps rc (ct_registry t) (ct_registry u)"
    using step_registry [OF extend(3)] run_inv [OF extend(1)] contexts_inv_known by blast
  have stays: "\<exists>r. attention_row i (ct_registry u) = Some r \<and> h_delivery_state r \<noteq> Response_Not_Delivered"
    if "i \<in> set (handovers outs)" for i
    using extend(2) that handed_over_stays [OF regs reach] by blast
  show ?case
  proof (cases "handovers new")
    case Nil
    then show ?thesis using extend(2) stays by simp
  next
    case (Cons i others)
    then have i: "handovers new = [i]" "handed_over i (ct_registry t) (ct_registry u)"
      using step_hands_over [OF extend(3)] by auto
    then have "i \<notin> set (handovers outs)" using extend(2) by (fastforce simp: handed_over_def)
    moreover have "\<exists>r. attention_row i (ct_registry u) = Some r \<and> h_delivery_state r \<noteq> Response_Not_Delivered"
      using i(2) by (auto simp: handed_over_def)
    ultimately show ?thesis using extend(2) stays i(1) by auto
  qed
qed

section \<open>Waits\<close>

text \<open>Every step but a subscription drops waits, if it touches them at all.\<close>

definition waits_kept :: "control \<Rightarrow> control \<Rightarrow> bool" where
  "waits_kept s s' \<longleftrightarrow> (\<exists>P. ct_waiters s' = filter P (ct_waiters s))"

lemma waits_kept_refl [intro]: "ct_waiters s' = ct_waiters s \<Longrightarrow> waits_kept s s'"
  unfolding waits_kept_def by (intro exI [of _ "\<lambda>_. True"]) simp

lemma waits_kept_trans: "waits_kept s t \<Longrightarrow> waits_kept t u \<Longrightarrow> waits_kept s u"
  unfolding waits_kept_def by auto

lemma registry_waits: "registry_only rc s s' \<Longrightarrow> ct_waiters s' = ct_waiters s"
  by (auto simp: registry_only_def)

lemmas attention_waits = requestAttention_effect [THEN registry_waits] acknowledge_effect [THEN registry_waits]
  resolve_effect [THEN registry_waits] yield_effect [THEN registry_waits] resumed_effect [THEN registry_waits]
  deliver_effect [THEN registry_waits]

lemma conclude_waits: "conclude token i r s = (outs, s') \<Longrightarrow> ct_waiters s' = ct_waiters s"
  by (auto simp: conclude_def)

lemma suspend_waits: "suspend token p s = (outs, s') \<Longrightarrow> ct_waiters s' = ct_waiters s"
  by (auto simp: suspend_def)

lemma outcome_waits:
  "outcome_concludes token i (r, outs, s) = (all, s') \<Longrightarrow> ct_waiters s' = ct_waiters s"
  by (auto simp: outcome_concludes_def Let_def split: prod.splits dest: conclude_waits)

lemma apply_waits:
  assumes "apply_begins cfg now uuid c requestId operation s = (outs, s')"
  shows "ct_waiters s' = ct_waiters s"
proof -
  have outcome: "ct_waiters s' = ct_waiters (snd (snd x))" if "outcome_concludes token i x = (outs, s')" for token i x
    using that by (cases x) (auto dest: outcome_waits)
  have "ct_waiters (snd (snd (requestAttention cfg now uuid c request requestId s))) = ct_waiters s"
    "ct_waiters (snd (snd (acknowledgeAttentionResponse cfg now c h attempt s))) = ct_waiters s"
    "ct_waiters (snd (snd (resolveAttention now c i outcome s))) = ct_waiters s"
    "ct_waiters (snd (snd (yieldToHuman c i s))) = ct_waiters s"
    "ct_waiters (snd (snd (automationResumed now c i s))) = ct_waiters s" for request h attempt i outcome
    using attention_waits by (metis prod.collapse)+
  then show ?thesis
    using assms
    by (cases operation)
      (auto simp: apply_begins_def Let_def split: sum.splits if_splits option.splits prod.splits
        dest!: conclude_waits suspend_waits outcome)
qed

lemma run_waits: "run_next cfg now uuid token s = (outs, s') \<Longrightarrow> ct_waiters s' = ct_waiters s"
  by (auto simp: run_next_def Let_def split: option.splits list.splits sum.splits if_splits prod.splits
      dest: apply_waits)

lemma list_waits: "list_results io token s = (outs, s') \<Longrightarrow> ct_waiters s' = ct_waiters s"
  by (auto simp: list_results_def Let_def split: option.splits pending.splits dest: conclude_waits suspend_waits)

lemma write_waits: "write_state cfg io token s = (outs, s') \<Longrightarrow> ct_waiters s' = ct_waiters s"
  by (auto simp: write_state_def write_fails_def Let_def split: option.splits pending.splits if_splits
      dest: conclude_waits suspend_waits)

lemma assert_waits: "assertCurrent token s = Inr s' \<Longrightarrow> ct_waiters s' = ct_waiters s"
  by (auto simp: assertCurrent_def split: option.splits elim!: bind_result_InrE)

lemma verified_waits: "finish_verified cfg now prepared i token s = (outs, s') \<Longrightarrow> ct_waiters s' = ct_waiters s"
  by (auto simp: finish_verified_def finish_fails_def split: sum.splits option.splits dest!: assert_waits
      elim!: bind_result_InrE)

lemma finish_waits: "finish_continues cfg now f u b commit io token s = (outs, s') \<Longrightarrow> ct_waiters s' = ct_waiters s"
  by (auto simp: finish_continues_def finish_publishes_def finish_fails_def record_outcome_def
      split: option.splits finishing.splits sum.splits prod.splits dest!: verified_waits assert_waits
      elim!: bind_result_InrE)

lemma written_waits: "complete_written cfg now i outputs token s = (outs, s') \<Longrightarrow> ct_waiters s' = ct_waiters s"
proof -
  assume "complete_written cfg now i outputs token s = (outs, s')"
  moreover have "ct_waiters (snd (finish_verified cfg now p i token t)) = ct_waiters t" for p t
    using verified_waits by (metis prod.collapse)
  ultimately show ?thesis
    by (auto simp: complete_written_def Let_def split: option.splits sum.splits if_splits
        dest!: conclude_waits suspend_waits assert_waits)
qed

lemma resume_waits: "resume_operation cfg now token s = (outs, s') \<Longrightarrow> ct_waiters s' = ct_waiters s"
  by (auto simp: resume_operation_def Let_def split: option.splits pending.splits bool.splits prod.splits
      dest: conclude_waits written_waits)

text \<open>Losses and bindings.\<close>

lemma lose_waits: "lose_context token s = (outs, s') \<Longrightarrow> waits_kept s s'"
  by (auto simp: lose_context_def Let_def waits_kept_def)

lemma forget_waits [simp]: "ct_waiters (forget_context token l s) = ct_waiters s"
  by (simp add: forget_context_def)

lemma waits_kept_same: "waits_kept s t \<Longrightarrow> ct_waiters s' = ct_waiters t \<Longrightarrow> waits_kept s s'"
  by (simp add: waits_kept_def)

lemma invalidate_waits: "invalidate now lineageId s = (outs, e, s') \<Longrightarrow> waits_kept s s'"
  by (auto simp: invalidate_def split: option.splits prod.splits if_splits sum.splits
      dest!: lose_waits elim: waits_kept_same)

lemma drop_waits: "ct_waiters s' = drop_key i (ct_waiters s) \<Longrightarrow> waits_kept s s'"
  by (auto simp: waits_kept_def drop_key_def)

lemma waits_kept_simps [simp]:
  "waits_kept s s" "waits_kept s (s\<lparr>ct_registry := reg, ct_waiters := drop_key i (ct_waiters s)\<rparr>)"
  "waits_kept s (s\<lparr>ct_waiters := drop_key i (ct_waiters s)\<rparr>)" "waits_kept s (s\<lparr>ct_registry := reg\<rparr>)"
  by (auto intro: drop_waits)

lemma withdraw_waits:
  "cancelPendingHumanAttention now lineageId reason state exact s = Inr (outs, s') \<Longrightarrow> waits_kept s s'"
  by (auto simp: cancelPendingHumanAttention_def Let_def split: if_splits option.splits elim!: bind_result_InrE)

lemma reconcile_waits:
  "reconcileHumanAttentionControllerGeneration cfg now dispatch lineage prior s = Inr (outs, s') \<Longrightarrow> waits_kept s s'"
  by (auto simp: reconcileHumanAttentionControllerGeneration_def Let_def split: if_splits option.splits
      elim!: bind_result_InrE dest: withdraw_waits)

lemma bind_begins_waits:
  assumes "bind_begins cfg now token dispatch lineage recoverability s = (outs, s')"
  shows "waits_kept s s'"
proof -
  obtain out1 failed s1 where inv: "(if truthy (token_of (lin_lineageId lineage) s)
      then invalidate now (lin_lineageId lineage) s else ([], None, s)) = (out1, failed, s1)"
    by (cases "if truthy (token_of (lin_lineageId lineage) s)
      then invalidate now (lin_lineageId lineage) s else ([], None, s)") auto
  then have "waits_kept s s1" by (auto split: if_splits dest: invalidate_waits)
  then show ?thesis
    using assms inv
    by (auto simp: bind_begins_def Let_def split: if_splits option.splits sum.splits prod.splits
        dest!: reconcile_waits intro: waits_kept_trans waits_kept_same)
qed

lemma bind_continues_waits: "bind_continues cfg now io b s = (outs, s') \<Longrightarrow> ct_waiters s' = ct_waiters s"
  by (auto simp: bind_continues_def Let_def install_context_def end_bind_def set_bind_stage_def
      split: bind_stage.splits option.splits sum.splits if_splits)

lemma abort_waits: "abort_wait token i s = (outs, s') \<Longrightarrow> waits_kept s s'"
  by (auto simp: abort_wait_def split: option.splits if_splits)

lemma delivers_waits: "receive_delivers now x s = (outs, s') \<Longrightarrow> waits_kept s s'"
  by (auto simp: receive_delivers_def Let_def split: prod.splits option.splits
      dest!: attention_waits(6) intro: drop_waits)

text \<open>A subscription is new, and there is room for it.\<close>

definition subscribes :: "control \<Rightarrow> control \<Rightarrow> bool" where
  "subscribes s s' \<longleftrightarrow> (\<exists>i w. ct_waiters s' = ct_waiters s @ [(i, w)] \<and> i \<notin> fst ` set (ct_waiters s) \<and>
     length (ct_waiters s) < MAX_ACTIVE_ATTENTION_WAITS)"

lemma wait_waits:
  "waitForHumanAttention cfg now aborted c h s = (r, s') \<Longrightarrow> ct_waiters s' = ct_waiters s \<or> subscribes s s'"
  by (auto simp: waitForHumanAttention_def subscribes_def split: sum.splits if_splits prod.splits
      dest: attention_waits(6))

lemma handle_waits:
  assumes "handle cfg now aborted generation token requestId operation s = (outs, s')"
  shows "ct_waiters s' = ct_waiters s \<or> subscribes s s'"
proof (cases operation)
  case (Wait_For_Response h)
  show ?thesis
    using assms unfolding handle_def Let_def Wait_For_Response
    by (auto split: if_splits option.splits sum.splits prod.splits dest!: wait_waits simp: subscribes_def)
qed (use assms in \<open>auto simp: handle_def Let_def split: if_splits option.splits\<close>)

lemma step_waits:
  assumes "control_step rc cfg s outs s'"
  shows "waits_kept s s' \<or> subscribes s s'"
  using assms
proof (cases rule: control_step.cases)
  case (handle now aborted generation token requestId operation)
  then show ?thesis using handle_waits by blast
next
  case (receive now input)
  then show ?thesis
    by (auto simp: receiveHumanAttentionResponse_def elim!: bind_result_InrE)
qed (auto dest: bind_begins_waits bind_continues_waits invalidate_waits run_waits list_waits write_waits
    resume_waits finish_waits abort_waits delivers_waits withdraw_waits)

end
