(* ===== verification/Control_Examples.thy ===== *)
theory Control_Examples
  imports Control_Responses
begin

text \<open>
  A concrete history of the control authority, on which its properties are evaluated: the lineage of the
  example dispatch is bound, its harness submits a result, and the result is published.
\<close>

definition example_control_cfg :: control_config where
  "example_control_cfg = \<lparr>cl_generation = ''g1'', cl_maxStopEnforcements = 2, cl_has_boundary = False,
     cl_date_ok = (\<lambda>_. True), cl_registry_text = (\<lambda>_. ''registry'')\<rparr>"

definition example_harness_lineage :: harness_lineage where
  "example_harness_lineage = (case getLineage ''l1'' occupied_state of Inr l \<Rightarrow> l)"

lemma example_getLineage: "getLineage ''l1'' occupied_state = Inr example_harness_lineage"
  by (simp add: example_harness_lineage_def getLineage_def occupied_lineage_def mapLineage_new)

lemma example_lineage_sel [simp]:
  "lin_lineageId example_harness_lineage = ''l1''" "lin_activeActionId example_harness_lineage = Some ''a1''"
  by (simp_all add: example_harness_lineage_def getLineage_def occupied_lineage_def mapLineage_new)

abbreviation example_record :: dispatch_record where "example_record \<equiv> mapDispatch example_dispatch"

lemma example_record_sel [simp]:
  "rec_action example_record = example_action" "rec_resultNonce example_record = ''n1''"
  "rec_resultDirectory example_record = ''/data/results/a1/n1''" "rec_lineageId example_record = Some ''l1''"
  "rec_state example_record = Accepted"
  by (simp_all add: example_dispatch_def new_dispatch_row_def mapDispatch_def resultDirectory_def example_cfg_def)

lemma example_get: "get ''a1'' occupied_state = Inr example_record"
  by (simp add: get_Inr)

definition example_control :: "control_context \<Rightarrow> files \<Rightarrow> control" where
  "example_control c fs = \<lparr>ct_registry = occupied_state, ct_files = fs, ct_endpoint = True, ct_contexts = [c],
     ct_live = [''token''], ct_tokens = [(''l1'', ''token'')], ct_waiters = [], ct_binds = [], ct_receiving = []\<rparr>"

definition example_bind :: bind_progress where
  "example_bind = \<lparr>bp_token = ''token'', bp_dispatch = example_record, bp_lineage = example_harness_lineage,
     bp_recoverability = Rebind_Exact, bp_stage = Reading_State\<rparr>"

definition example_context :: control_context where
  "example_context = new_context example_bind None"

lemma example_context_sel [simp]:
  "cc_contextToken example_context = ''token''" "cc_dispatch example_context = example_record"
  "cc_lineageId example_context = ''l1''" "cc_requests example_context = []" "\<not> cc_invalidated example_context"
  "cc_queue example_context = []" "cc_pending example_context = None" "cc_finishing example_context = None"
  by (simp_all add: example_context_def new_context_def example_bind_def)

lemma example_context_upd [simp]:
  "example_context\<lparr>cc_queue := [], cc_dispatch := example_record\<rparr> = example_context"
  "example_context\<lparr>cc_dispatch := example_record, cc_queue := [], cc_pending := p\<rparr> = example_context\<lparr>cc_pending := p\<rparr>"
  "\<not> cp_semanticAccepted (cc_completion example_context)" "cp_phase (cc_completion example_context) = Awaiting_Result"
  by (simp_all add: example_context_def new_context_def example_bind_def)

text \<open>The binding.\<close>

abbreviation "listening_control \<equiv> (initial_control occupied_state [])\<lparr>ct_endpoint := True\<rparr>"

lemma example_binds:
  "bind_begins example_control_cfg ''t1'' ''token'' example_record example_harness_lineage Rebind_Exact listening_control =
     ([], listening_control\<lparr>ct_binds := [example_bind]\<rparr>)"
  by (simp add: bind_begins_def initial_control_def token_of_def truthy_def
      reconcileHumanAttentionControllerGeneration_def activeHumanAttentionRequest_def example_bind_def)

lemma example_continues:
  "bind_continues example_control_cfg ''t1'' None example_bind (listening_control\<lparr>ct_binds := [example_bind]\<rparr>) =
     ([], listening_control\<lparr>ct_binds := [example_bind\<lparr>bp_stage := Reading_Results None\<rparr>]\<rparr>)"
  "bind_continues example_control_cfg ''t1'' None (example_bind\<lparr>bp_stage := Reading_Results None\<rparr>)
     (listening_control\<lparr>ct_binds := [example_bind\<lparr>bp_stage := Reading_Results None\<rparr>]\<rparr>) =
     ([], listening_control\<lparr>ct_binds := [example_bind\<lparr>bp_stage := Deciding None False\<rparr>]\<rparr>)"
  "bind_continues example_control_cfg ''t1'' None (example_bind\<lparr>bp_stage := Deciding None False\<rparr>)
     (listening_control\<lparr>ct_binds := [example_bind\<lparr>bp_stage := Deciding None False\<rparr>]\<rparr>) =
     ([Bound ''token'' ''l1''], example_control example_context [])"
  by (simp_all add: bind_continues_def example_bind_def initial_control_def readStructuredCompletionState_def
      read_file_def set_bind_stage_def hasStepResult_def readdir_def install_context_def end_bind_def
      example_control_def example_context_def new_context_def set_key_def drop_key_def)


text \<open>The completion.\<close>

lemma example_control_sel [simp]:
  "ct_registry (example_control c fs) = occupied_state" "ct_files (example_control c fs) = fs"
  "ct_live (example_control c fs) = [''token'']" "token_of ''l1'' (example_control c fs) = Some ''token''"
  "(example_control c fs)\<lparr>ct_files := fs'\<rparr> = example_control c fs'"
  "cc_contextToken c = ''token'' \<Longrightarrow> context_of ''token'' (example_control c fs) = Some c"
  "cc_contextToken c = ''token'' \<Longrightarrow> update_context ''token'' f (example_control c fs) = example_control (f c) fs"
  by (simp_all add: example_control_def update_context_def token_of_def)

lemma example_current:
  assumes "cc_contextToken c = ''token''" "cc_dispatch c = example_record" "cc_lineageId c = ''l1''" "\<not> cc_invalidated c"
  shows "current_dispatch c (example_control k fs) = Inr example_record"
    and "assertCurrent ''token'' (example_control c fs) = Inr (example_control (c\<lparr>cc_dispatch := example_record\<rparr>) fs)"
proof -
  show current: "current_dispatch c (example_control k fs) = Inr example_record" for k
    using assms by (simp add: current_dispatch_def example_get example_getLineage lift_registry_def)
  show "assertCurrent ''token'' (example_control c fs) = Inr (example_control (c\<lparr>cc_dispatch := example_record\<rparr>) fs)"
    using assms by (simp add: assertCurrent_def current)
qed

lemmas example_operations = handle_def run_next_def apply_begins_def list_results_def resume_operation_def
  write_state_def complete_written_def finish_continues_def finish_verified_def finish_publishes_def suspend_def conclude_def
  set_completion_def

definition example_accepted :: control_context where
  "example_accepted = example_context\<lparr>cc_completion := accepted_completion ''t2'', cc_requests :=
     [(''r1'', accepted_result\<lparr>cr_completed := Some False, cr_semanticAccepted := Some True,
        cr_completion := Some (accepted_completion ''t2'')\<rparr>)]\<rparr>"

definition example_result :: step_result_envelope where
  "example_result = result_envelope ''t2'' example_record []"

definition state_file :: "completion_state \<Rightarrow> (string \<times> string) \<times> stored_text" where
  "state_file c = ((''/data/results/a1/n1'', ''structured-completion-state.json''), Stored (completion_record_value example_record c))"

lemma example_accepts:
  "handle example_control_cfg ''t2'' False ''g1'' ''token'' ''r1'' (Complete_Step []) (example_control example_context []) =
     ([], example_control (example_context\<lparr>cc_queue := [(''r1'', Complete_Step [])]\<rparr>) [])"
  "run_next example_control_cfg ''t2'' ''u'' ''token'' (example_control (example_context\<lparr>cc_queue := [(''r1'', Complete_Step [])]\<rparr>) []) =
     ([], example_control (example_context\<lparr>cc_pending := Some (Completing ''r1'' [] None)\<rparr>) [])"
  "list_results None ''token'' (example_control (example_context\<lparr>cc_pending := Some (Completing ''r1'' [] None)\<rparr>) []) =
     ([], example_control (example_context\<lparr>cc_pending := Some (Completing ''r1'' [] (Some False))\<rparr>) [])"
  "resume_operation example_control_cfg ''t2'' ''token'' (example_control (example_context\<lparr>cc_pending := Some (Completing ''r1'' [] (Some False))\<rparr>) []) =
     ([], example_control (example_context\<lparr>cc_completion := accepted_completion ''t2'', cc_pending := Some (Completing_Write ''r1'' [])\<rparr>) [])"
  "write_state example_control_cfg None ''token'' (example_control (example_context\<lparr>cc_completion := accepted_completion ''t2'', cc_pending := Some (Completing_Write ''r1'' [])\<rparr>) []) =
     ([], example_control (example_context\<lparr>cc_completion := accepted_completion ''t2'', cc_pending := Some (Completing_Written ''r1'' [])\<rparr>)
        [state_file (accepted_completion ''t2'')])"
  "resume_operation example_control_cfg ''t2'' ''token'' (example_control (example_context\<lparr>cc_completion := accepted_completion ''t2'', cc_pending := Some (Completing_Written ''r1'' [])\<rparr>) [state_file (accepted_completion ''t2'')]) =
     ([Reply ''token'' ''r1'' (Inr (snd (hd (cc_requests example_accepted))))],
      example_control (example_accepted\<lparr>cc_finishing := Some (Preparing ''r1'' example_result)\<rparr>) [state_file (accepted_completion ''t2'')])"
  subgoal by (simp add: example_operations example_control_cfg_def)
  subgoal by (simp add: example_operations example_current validateOutputs_def accepted_state_def)
  subgoal by (simp add: example_operations hasStepResult_def readdir_def)
  subgoal by (simp add: example_operations) (simp add: example_context_def new_context_def)
  subgoal by (simp add: example_operations writeStructuredCompletionState_def put_file_def remove_file_def state_file_def)
  subgoal by (simp add: example_operations example_current example_control_cfg_def validateOutputs_def example_accepted_def example_result_def set_key_def drop_key_def)
    (simp add: example_context_def new_context_def example_bind_def)
  done


definition example_prepared :: prepared_result where
  "example_prepared = fst (prepareStepResultAtomic ''f'' ''u1'' ''/data/results/a1/n1'' ''r1'' example_result [])"

lemma example_finishes:
  "finish_continues example_control_cfg ''t3'' ''f'' ''u1'' (Inr []) None None ''token''
     (example_control (example_accepted\<lparr>cc_finishing := Some (Preparing ''r1'' example_result)\<rparr>) [state_file (accepted_completion ''t2'')]) =
     ([], example_control (example_accepted\<lparr>cc_finishing := Some (Publishing example_prepared example_result)\<rparr>)
       [state_file (accepted_completion ''t2''), ((''/data/results/a1/n1'', ''.result-r1-u1.tmp''), Stored (envelope_value example_result))])"
  "finish_continues example_control_cfg ''t3'' ''f'' ''u1'' (Inr []) None None ''token''
     (example_control (example_accepted\<lparr>cc_finishing := Some (Publishing example_prepared example_result)\<rparr>)
       [state_file (accepted_completion ''t2''), ((''/data/results/a1/n1'', ''.result-r1-u1.tmp''), Stored (envelope_value example_result))]) =
     ([Published ''token'' ''/data/results/a1/n1'' ''result-r1-u1.json'' example_result],
      example_control (example_accepted\<lparr>cc_completion := (accepted_completion ''t2'')\<lparr>cp_phase := Completed_Phase,
          cp_exportCompletedAt := Some ''t2''\<rparr>, cc_finishing := Some Recording_Completed\<rparr>)
       [state_file (accepted_completion ''t2''), ((''/data/results/a1/n1'', ''result-r1-u1.json''), Stored (envelope_value example_result))])"
proof -
  have "safe_call_id ''f'' ''r1'' = ''r1''" by code_simp
  then have p: "prepareStepResultAtomic ''f'' ''u1'' d ''r1'' e fs = (\<lparr>pr_directory = d, pr_temporary = ''.result-r1-u1.tmp'',
      pr_destination = ''result-r1-u1.json'', pr_content = envelope_value e\<rparr>,
      put_file d ''.result-r1-u1.tmp'' (Stored (envelope_value e)) fs)" for d e fs
    by (simp add: prepareStepResultAtomic_def Let_def)
  show "finish_continues example_control_cfg ''t3'' ''f'' ''u1'' (Inr []) None None ''token''
     (example_control (example_accepted\<lparr>cc_finishing := Some (Preparing ''r1'' example_result)\<rparr>) [state_file (accepted_completion ''t2'')]) =
     ([], example_control (example_accepted\<lparr>cc_finishing := Some (Publishing example_prepared example_result)\<rparr>)
       [state_file (accepted_completion ''t2''), ((''/data/results/a1/n1'', ''.result-r1-u1.tmp''), Stored (envelope_value example_result))])"
    by (simp add: finish_continues_def p example_prepared_def example_accepted_def put_file_def remove_file_def state_file_def)
  show "finish_continues example_control_cfg ''t3'' ''f'' ''u1'' (Inr []) None None ''token''
     (example_control (example_accepted\<lparr>cc_finishing := Some (Publishing example_prepared example_result)\<rparr>)
       [state_file (accepted_completion ''t2''), ((''/data/results/a1/n1'', ''.result-r1-u1.tmp''), Stored (envelope_value example_result))]) =
     ([Published ''token'' ''/data/results/a1/n1'' ''result-r1-u1.json'' example_result],
      example_control (example_accepted\<lparr>cc_completion := (accepted_completion ''t2'')\<lparr>cp_phase := Completed_Phase,
          cp_exportCompletedAt := Some ''t2''\<rparr>, cc_finishing := Some Recording_Completed\<rparr>)
       [state_file (accepted_completion ''t2''), ((''/data/results/a1/n1'', ''result-r1-u1.json''), Stored (envelope_value example_result))])"
    by (simp add: finish_continues_def finish_publishes_def p example_prepared_def example_accepted_def publish_def
        put_file_def remove_file_def state_file_def example_current example_result_def result_envelope_def)
      (simp add: example_context_def new_context_def example_bind_def)
qed


section \<open>The history\<close>

definition example_files :: files where
  "example_files = [state_file (accepted_completion ''t2''),
     ((''/data/results/a1/n1'', ''.result-r1-u1.tmp''), Stored (envelope_value example_result))]"

text \<open>The state before the publication, with its context, and the state after it.\<close>

definition publishing_control :: control where
  "publishing_control = example_control (example_accepted\<lparr>cc_finishing := Some (Publishing example_prepared example_result)\<rparr>)
     example_files"

definition published_control :: control where
  "published_control = example_control (example_accepted\<lparr>cc_completion := (accepted_completion ''t2'')\<lparr>
       cp_phase := Completed_Phase, cp_exportCompletedAt := Some ''t2''\<rparr>, cc_finishing := Some Recording_Completed\<rparr>)
     [state_file (accepted_completion ''t2''), ((''/data/results/a1/n1'', ''result-r1-u1.json''), Stored (envelope_value example_result))]"

definition example_outputs :: "control_output list" where
  "example_outputs = [Bound ''token'' ''l1'', Reply ''token'' ''r1'' (Inr (snd (hd (cc_requests example_accepted))))]"

lemma run_more:
  "control_step rc cfg t new u \<Longrightarrow> control_run rc cfg s outs t \<Longrightarrow> all = outs @ new \<Longrightarrow> control_run rc cfg s all u"
  by (simp add: control_run.extend)

abbreviation "example_history \<equiv> control_run example_cfg example_control_cfg (initial_control occupied_state [])"

lemma example_bound_run: "example_history [Bound ''token'' ''l1''] (example_control example_context [])"
proof -
  have 1: "example_history [] listening_control"
    by (rule run_more [OF control_step.listening control_run.start]) simp
  have 2: "example_history [] (listening_control\<lparr>ct_binds := [example_bind]\<rparr>)"
    by (rule run_more [OF control_step.bind_begin [OF _ _ example_binds] 1])
      (simp_all add: initial_control_def example_get)
  have 3: "example_history [] (listening_control\<lparr>ct_binds := [example_bind\<lparr>bp_stage := Reading_Results None\<rparr>]\<rparr>)"
    by (rule run_more [OF control_step.bind_continue [OF _ example_continues(1)] 2]) simp_all
  have 4: "example_history [] (listening_control\<lparr>ct_binds := [example_bind\<lparr>bp_stage := Deciding None False\<rparr>]\<rparr>)"
    by (rule run_more [OF control_step.bind_continue [OF _ example_continues(2)] 3]) simp_all
  show ?thesis
    by (rule run_more [OF control_step.bind_continue [OF _ example_continues(3)] 4]) simp_all
qed

lemma example_publishing_run: "example_history example_outputs publishing_control"
proof -
  note run_more [OF control_step.handle [OF example_accepts(1)] example_bound_run refl]
  note run_more [OF control_step.run [OF example_accepts(2)] this refl]
  note run_more [OF control_step.listed [OF example_accepts(3)] this refl]
  note run_more [OF control_step.resume [OF example_accepts(4)] this refl]
  note run_more [OF control_step.wrote [OF example_accepts(5)] this refl]
  note run_more [OF control_step.resume [OF example_accepts(6)] this refl]
  note run_more [OF control_step.finish [OF _ _ example_finishes(1)] this refl]
  then show ?thesis
    by (simp add: publishing_control_def example_files_def example_outputs_def name_char_def token_char_def)
qed

lemma example_publication:
  "control_step example_cfg example_control_cfg publishing_control
     [Published ''token'' ''/data/results/a1/n1'' ''result-r1-u1.json'' example_result] published_control"
  using control_step.finish [OF _ _ example_finishes(2)]
  by (simp add: publishing_control_def published_control_def example_files_def name_char_def token_char_def)

lemma example_published_run:
  "example_history (example_outputs @ [Published ''token'' ''/data/results/a1/n1'' ''result-r1-u1.json'' example_result])
     published_control"
  by (rule control_run.extend [OF example_publishing_run example_publication])

end
