(* ===== verification/Control_Properties.thy ===== *)
theory Control_Properties
  imports Control_Examples Attention_Properties
begin

text \<open>
  What the control authority guarantees over every history: a lineage publishes at most one result of a Step,
  and only with the authority of the registry; a human response is handed to a native process at most once;
  the waits it keeps are bounded; an answered request is never applied again.
\<close>

section \<open>Publications\<close>

lemma publications_nth:
  assumes "i < length outs" and "outs ! i = Published t d n e"
  shows "publications outs = publications (take i outs) @ (t, d) # publications (drop (Suc i) outs)"
proof -
  have "outs = take i outs @ Published t d n e # drop (Suc i) outs"
    using id_take_nth_drop [OF assms(1)] assms(2) by simp
  then have "publications outs = publications (take i outs @ Published t d n e # drop (Suc i) outs)"
    by (rule arg_cong)
  then show ?thesis by simp
qed

lemma publications_distinct:
  assumes "distinct (map f (publications outs))" and "i < j" "j < length outs"
    and "outs ! i = Published t d n e" "outs ! j = Published t' d' n' e'"
  shows "f (t, d) \<noteq> f (t', d')"
proof -
  have "take j outs ! i = Published t d n e" "i < length (take j outs)" using assms(2-4) by simp_all
  from publications_nth [OF this(2,1)] have "(t, d) \<in> set (publications (take j outs))" by simp
  then have "f (t, d) \<in> f ` set (publications (take j outs))" by (rule imageI)
  moreover have "f (t', d') \<notin> f ` set (publications (take j outs))"
    using assms(1) unfolding publications_nth [OF assms(3,5)] by simp
  ultimately show ?thesis by metis
qed

text \<open>
  C23: over every history of an authority, however its operations interleave, a lineage publishes at most one
  result into a result directory: two publications of contexts of one lineage are the same publication.
\<close>

theorem result_published_once:
  assumes "control_run rc cfg (initial_control reg fs) outs s"
    and "i < length outs" "outs ! i = Published t d n e" and "j < length outs" "outs ! j = Published t' d n' e'"
    and "context_of t s = Some c" "context_of t' s = Some c'" "cc_lineageId c' = cc_lineageId c"
  shows "i = j"
proof (rule ccontr)
  have distinct: "distinct (map (published_by s) (publications outs))"
    using run_inv [OF assms(1)] publications_invD(4) by blast
  have same: "published_by s (t, d) = published_by s (t', d)"
    using assms(6-8) by (simp add: published_by_def)
  assume "i \<noteq> j"
  then consider "i < j" | "j < i" by linarith
  then show False
    using publications_distinct [OF distinct _ assms(4) assms(3) assms(5)]
      publications_distinct [OF distinct _ assms(2) assms(5) assms(3)] same by cases auto
qed

theorem result_published_once_witness: "length example_outputs = 2"
proof -
  have "context_of ''token'' published_control = Some (example_accepted\<lparr>cc_completion := (accepted_completion ''t2'')\<lparr>
       cp_phase := Completed_Phase, cp_exportCompletedAt := Some ''t2''\<rparr>, cc_finishing := Some Recording_Completed\<rparr>)"
    by (simp add: published_control_def example_accepted_def)
  then show ?thesis
    by (intro result_published_once [OF example_published_run, of _ "''token''" "''/data/results/a1/n1''"
        "''result-r1-u1.json''" example_result _ "''token''" "''result-r1-u1.json''" example_result])
      (simp_all add: example_outputs_def)
qed

text \<open>
  C24: a result is published only with authority. The publishing context is live, was not invalidated and is the
  current one of its lineage; the registry holds its dispatch, accepted or running, under the nonce and the
  Action the result names, with the lineage occupied by that Action; the result has exactly the declared
  outputs, and it is the content of the file.
\<close>

theorem publication_authorised:
  assumes "control_run rc cfg (initial_control reg fs) outs s" and "control_step rc cfg s new s'"
    and "Published t d n e \<in> set new"
  shows "\<exists>c r lineage. context_of t s = Some c \<and> t \<in> set (ct_live s) \<and> \<not> cc_invalidated c \<and>
    token_of (cc_lineageId c) s = Some t \<and>
    get (se_actionId e) (ct_registry s) = Inr r \<and> rec_state r \<in> {Accepted, Running} \<and>
    rec_lineageId r = Some (cc_lineageId c) \<and> getLineage (cc_lineageId c) (ct_registry s) = Inr lineage \<and>
    lin_activeActionId lineage = Some (se_actionId e) \<and> envelope_for r e \<and> rec_resultDirectory r = d \<and>
    result_name n \<and> read_file d n (ct_files s') = Some (Stored (envelope_value e))"
proof -
  have inv: "contexts_inv s" using run_inv [OF assms(1)] by blast
  have mem: "(t', d') \<in> set (publications outs')" if "Published t' d' n' e' \<in> set outs'" for t' d' n' e' outs'
    using that by (force simp: publications_def)
  obtain c p where c: "context_of (cc_contextToken c) s = Some c" and pub: "publishes rc c s p e s'"
    and out: "t = cc_contextToken c" "d = pr_directory p" "n = pr_destination p"
    using assms(2) contexts_inv_known [OF inv]
    by (cases rule: control_step_cases) (use assms(3) mem in force)+
  have ok: "context_ok c" "envelope_ok c" using c inv unfolding contexts_inv_def by blast+
  obtain r where r: "current_dispatch c s = Inr r" "same_dispatch (cc_dispatch c) r" and
    fin: "cc_finishing c = Some (Publishing p e)" and files: "ct_files s' = publish p (ct_files s)"
    using pub by (auto simp: publishes_def)
  have e: "envelope_for (cc_dispatch c) e" "pr_directory p = rec_resultDirectory (cc_dispatch c)"
    "pr_content p = envelope_value e" "result_name (pr_destination p)"
    using ok(2) fin by (simp_all add: envelope_ok_def)
  then have id: "se_actionId e = act_action_id (rec_action (cc_dispatch c))" by (simp add: envelope_for_def)
  note current = current_dispatchD [OF r(1)]
  obtain lineage where "getLineage (cc_lineageId c) (ct_registry s) = Inr lineage"
    "lin_activeActionId lineage = Some (act_action_id (rec_action r))" using current(7) by blast
  moreover have "read_file d n (ct_files s') = Some (Stored (envelope_value e))"
    using out e(3) by (simp add: files publish_def)
  ultimately show ?thesis
    using c r(2) current out e id same_envelope [OF r(2)] by (auto simp: same_dispatch_def)
qed

theorem publication_authorised_witness:
  "read_file ''/data/results/a1/n1'' ''result-r1-u1.json'' (ct_files published_control) =
     Some (Stored (envelope_value example_result))"
  using publication_authorised [OF example_publishing_run example_publication] by auto

section \<open>Responses and waits\<close>

text \<open>
  C25: a human response is handed to a native process at most once, over every history of an authority that
  starts on a reachable registry: no request occurs twice among the waits settled with its response, and the
  registry never forgets that its delivery began.
\<close>

theorem response_handed_over_once:
  assumes "control_run rc cfg (initial_control reg fs) outs s" and "registry_reachable rc reg"
  shows "distinct (handovers outs) \<and> (\<forall>i \<in> set (handovers outs).
    \<exists>r. attention_row i (ct_registry s) = Some r \<and> h_delivery_state r \<noteq> Response_Not_Delivered)"
  using run_hands_over [OF assms] .

text \<open>
  C26: at most 64 native waits are subscribed at any time, one for a request.
\<close>

theorem waits_bounded:
  assumes "control_run rc cfg (initial_control reg fs) outs s"
  shows "length (ct_waiters s) \<le> 64 \<and> distinct (map fst (ct_waiters s))"
  using assms
proof (induction "initial_control reg fs" outs s rule: control_run.induct)
  case start
  then show ?case by (simp add: initial_control_def)
next
  case (extend outs t new u)
  from step_waits [OF extend(3)] show ?case
  proof
    assume "waits_kept t u"
    then show ?thesis
      using extend(2) by (auto simp: waits_kept_def distinct_map_filter intro: order_trans [OF length_filter_le])
  next
    assume "subscribes t u"
    then show ?thesis using extend(2) by (auto simp: subscribes_def MAX_ACTIVE_ATTENTION_WAITS_def)
  qed
qed

text \<open>A history with a wait: the request of the waiting registry is awaited, answered, and the answer delivered.\<close>

lemma response_keeps_readable:
  assumes "recordHumanAttentionResponse now input s = Inr (h, s')" and "lineage_readable (ri_lineageId input) s"
  shows "lineage_readable (ri_lineageId input) s'"
proof (cases "s' = s")
  case False
  then obtain f t where t: "updateAttentionProjection now (ri_lineageId input) (ri_attentionId input) Responded
      Response_Not_Delivered (Some (ri_deliveryAttemptId input)) (update_attention (ri_attentionId input) f s) = Inr t"
    "recordHumanAttentionEvent (ri_attentionId input) Response_Committed (resp_respondedAt (ri_response input))
      [(''deliveryAttemptId'', JStr (ri_deliveryAttemptId input))] t = Inr s'"
    using assms(1) by (auto simp: recordHumanAttentionResponse_def Let_def split: if_splits option.splits
        elim!: bind_result_InrE)
  have "lineage_readable (ri_lineageId input) (update_attention (ri_attentionId input) f s)" using assms(2) by simp
  then have "lineage_readable (ri_lineageId input) t" using projection_progress(1) t(1) by (metis sum.inject(2))
  then show ?thesis using t(2) by (auto simp: recordHumanAttentionEvent_def split: option.splits if_splits)
qed (use assms in simp)

definition example_handle :: wait_handle where
  "example_handle = \<lparr>wh_attentionId = ''h1'', wh_requestGeneration = 1\<rparr>"

abbreviation "waiting_control \<equiv> (example_control example_context [])\<lparr>ct_registry := waiting_state\<rparr>"

abbreviation "subscribed_control \<equiv> waiting_control\<lparr>
  ct_waiters := [(''h1'', \<lparr>wt_contextToken = ''token'', wt_waitHandle = example_handle\<rparr>)]\<rparr>"

lemma waiting_lineage:
  obtains l where "getLineage ''l1'' waiting_state = Inr l" "lin_lineageId l = ''l1''"
    "lin_activeActionId l = Some ''a1''" "lin_nativeSession l = None"
proof -
  obtain l where l: "getLineage ''l1'' waiting_state = Inr l"
    using example_request_ready(3) by (auto simp: lineage_readable_def split: sum.splits)
  then obtain row where row: "lineage_row ''l1'' waiting_state = Some row" "mapLineage row = Inr l"
    by (auto simp: getLineage_def split: option.splits)
  have "row = occupied_lineage\<lparr>l_session_state := Waiting_For_Human,
      l_attention := Some example_attention, l_intervention := None, l_last_activity_at := ''t1''\<rparr>"
    using row(1) by (simp add: waiting_state_def lineage_row_def occupied_owner)
  then have "lin_lineageId l = ''l1''" "lin_activeActionId l = Some ''a1''" "lin_nativeSession l = None"
    using row(2)
    by (auto simp: occupied_lineage_def new_lineage_row_def mapLineage_def capabilities_readable parseTransportBinding_def
        parseNativeSessionRef_def persistedExecutionHandle_def persistedInteractive_def lift_identity_def)
  then show thesis using that l by blast
qed

lemma waiting_get: "get ''a1'' waiting_state = Inr example_record"
proof -
  have "dispatch_row ''a1'' waiting_state = dispatch_row ''a1'' occupied_state"
    by (simp add: waiting_state_def dispatch_row_def)
  then show ?thesis by (simp add: get_Inr)
qed

lemma example_subscribes:
  "handle example_control_cfg ''t2'' False ''g1'' ''token'' ''r1'' (Wait_For_Response example_handle) waiting_control =
     ([], subscribed_control)"
proof -
  obtain l where l: "getLineage ''l1'' waiting_state = Inr l" "lin_lineageId l = ''l1''"
    "lin_activeActionId l = Some ''a1''" "lin_nativeSession l = None" by (rule waiting_lineage)
  have same: "update_context ''token'' (\<lambda>_. example_context\<lparr>cc_dispatch := example_record\<rparr>) waiting_control = waiting_control"
    by (simp add: update_context_def example_control_def example_context_def new_context_def example_bind_def)
  have context_is: "context_of ''token'' waiting_control = Some example_context" by (simp add: example_control_def)
  have "current_dispatch example_context waiting_control = Inr example_record"
    using l by (simp add: current_dispatch_def waiting_get lift_registry_def token_of_def example_control_def)
  moreover have "assertAttentionWaitBinding example_control_cfg (example_context\<lparr>cc_dispatch := example_record\<rparr>)
      example_handle waiting_control = Inr example_request"
    using l by (simp add: assertAttentionWaitBinding_def getHumanAttentionRequest_def example_handle_def lift_registry_def
        lift_identity_def nativeSessionPublicId_def example_request_def new_attention_row_def example_registration_def)
  ultimately show ?thesis
    using context_is same
    by (simp add: handle_def waitForHumanAttention_def example_control_cfg_def MAX_ACTIVE_ATTENTION_WAITS_def
        example_control_def example_handle_def)
qed

lemma example_waiting_run: "example_history [Bound ''token'' ''l1''] subscribed_control"
proof -
  have 1: "example_history [Bound ''token'' ''l1''] waiting_control"
    by (rule run_more [OF control_step.registry example_bound_run])
      (simp_all add: registry_step.register_attention [OF example_register])
  show ?thesis by (rule run_more [OF control_step.handle [OF example_subscribes] 1]) simp
qed

theorem waits_bounded_witness: "length (ct_waiters subscribed_control) \<le> 64"
  using waits_bounded [OF example_waiting_run] by blast

lemma example_delivery:
  assumes c1: "recordHumanAttentionResponse ''t2'' example_input waiting_state = Inr (h1, s1)"
    and c2: "beginHumanAttentionDelivery ''t3'' ''h1'' 1 s1 = Inr (h2, s2)"
  shows "\<exists>outs s. example_history outs s \<and> handovers outs = [''h1'']"
proof -
  have step: "registry_step example_cfg waiting_state s1" by (rule registry_step.record_response [OF c1])
  have "known_dispatch waiting_state example_record" by (simp add: known_dispatch_def waiting_get)
  from known_steps [OF registry_one [OF step] this] obtain d where d: "get ''a1'' s1 = Inr d"
    by (auto simp: known_dispatch_def)
  have id: "ri_lineageId example_input = ''l1''" by (simp add: example_input_def)
  have "lineage_readable ''l1'' s1" using response_keeps_readable [OF c1] example_request_ready(3) id by simp
  then obtain l where l: "getLineage ''l1'' s1 = Inr l"
    by (auto simp: lineage_readable_def split: sum.splits)
  have h1: "h1 = commit_response example_input example_request" "attention_row ''h1'' s1 = Some h1"
  proof -
    from c1 have "h1 = commit_response example_input example_request \<and>
        request_updated ''h1'' (commit_response example_input) waiting_state s1"
    proof (cases rule: record_response_effect)
      case (repeated response)
      then have "h1 = example_request" by simp
      then show ?thesis using repeated(3) by simp
    next
      case (committed r)
      then show ?thesis by simp
    qed
    then have one: "h1 = commit_response example_input example_request"
      and upd: "request_updated ''h1'' (commit_response example_input) waiting_state s1" by blast+
    show "h1 = commit_response example_input example_request" by (rule one)
    have "attention_row ''h1'' s1 = map_option (commit_response example_input) (attention_row ''h1'' waiting_state)"
      using request_updated_row [OF upd, of "''h1''"] by (simp add: commit_response_def)
    then show "attention_row ''h1'' s1 = Some h1" by (simp add: one)
  qed
  have h1_sel: "h_attention_id h1 = ''h1''" "h_action_id h1 = ''a1''" "h_lineage_id h1 = ''l1''"
    "h_request_generation h1 = 1" "h_delivery_state h1 = Response_Not_Delivered"
    "h_response h1 = Some (ri_response example_input)" "h_delivery_attempt_id h1 = Some ''d1''"
    by (simp_all add: h1(1) commit_response_def)
  have h2: "h_response h2 = Some (ri_response example_input)" "h_delivery_attempt_id h2 = Some ''d1''"
    using c2 h1(2) h1_sel by (cases rule: begin_delivery_effect; auto simp: request_delivery_def)+
  let ?x = "(''h1'', ''l1'', d)"
  let ?s = "subscribed_control\<lparr>ct_registry := s1, ct_receiving := [?x]\<rparr>"
  have receives: "receiveHumanAttentionResponse ''t2'' example_input subscribed_control = Inr ([attention_report d ''l1''], ?s)"
    using c1 d l by (simp add: receiveHumanAttentionResponse_def lift_registry_def h1_sel example_control_def)
  obtain result t where delivers: "receive_delivers ''t3'' ?x ?s = ([Settle ''h1'' ''token'' (Inr result), attention_report d ''l1''], t)"
    "responded (Inr result)"
    using c2 h1 h2 h1_sel
    by (simp add: receive_delivers_def deliverCommittedAttentionResponse_def getHumanAttentionRequest_def lift_registry_def
        responded_def drop_key_def)
  have "example_history [Bound ''token'' ''l1'', attention_report d ''l1''] ?s"
    by (rule run_more [OF control_step.receive [OF receives] example_waiting_run]) simp
  from run_more [OF control_step.deliver [OF _ delivers(1)] this refl] delivers(2)
  show ?thesis by (intro exI conjI) (assumption | simp)+
qed

theorem response_handed_over_once_witness:
  "\<exists>outs (s :: control) r. handovers outs = [''h1''] \<and> attention_row ''h1'' (ct_registry s) = Some r \<and>
     h_delivery_state r \<noteq> Response_Not_Delivered"
proof -
  obtain outs s where run: "example_history outs s" "handovers outs = [''h1'']"
    using example_run example_delivery by metis
  obtain r where "attention_row ''h1'' (ct_registry s) = Some r" "h_delivery_state r \<noteq> Response_Not_Delivered"
    using response_handed_over_once [OF run(1) occupied_state_reachable] run(2) by auto
  with run(2) show ?thesis by blast
qed

end
