(* ===== verification/Run_Cleanup.thy ===== *)
theory Run_Cleanup
  imports Environment_Store Harness_Identity
begin

text \<open>
  The cleanup of a Run: its durable record (\<^verbatim>\<open>run-cleanup-store.ts\<close>) and the coordinator that advances it
  (\<^verbatim>\<open>run-cleanup.ts\<close>). The record freezes the identities of what is to be removed and keeps one state for the
  harness, one for the execution environment and one for the host repository.

  The JSON columns are written by the store itself, so a row holds their values. An asynchronous function is cut
  at its \<^verbatim>\<open>await\<close>s, and what the dependencies answer is an argument.
\<close>

section \<open>Records\<close>

datatype harness_cleanup = Harness_Retained | Harness_Retiring | Harness_Retired | Harness_Unavailable

datatype environment_cleanup = Env_Requested | Env_Stopping | Env_Stopped | Env_Removed | Env_Uncertain | Env_Failed

datatype host_cleanup = Host_Retained | Host_Requested | Host_Removed | Host_Failed

record cleanup_issue =
  ci_code :: string
  ci_message :: string

record cleanup_target =
  tg_lineageId :: string
  tg_harnessKind :: string
  tg_transportBinding :: "harness_transport_binding option"
  tg_authorityDigest :: string
  tg_nativeSessionDigest :: "string option"

record cleanup_row =
  k_run_id :: string
  k_worktree_id :: string
  k_workspace_binding_id :: string
  k_identity_hash :: string
  k_harness_targets :: "cleanup_target list"
  k_environment_ref :: "environment_ref option"
  k_environment_absence_proven :: bool
  k_harness_state :: harness_cleanup
  k_harness_issue :: "cleanup_issue option"
  k_environment_state :: environment_cleanup
  k_environment_issue :: "cleanup_issue option"
  k_host_state :: host_cleanup
  k_host_issue :: "cleanup_issue option"
  k_requested_at :: string
  k_updated_at :: string

record cleanup_request =
  cq_runId :: string
  cq_worktreeId :: string
  cq_workspaceBindingId :: string
  cq_identityHash :: string

datatype cleanup_error =
    Conflicting_Targets string | Absence_Contradicted | Frozen_Identity_Conflict
  | Harness_Regression | Environment_Regression | Host_Too_Early | Host_Regression | Cleanup_Missing string
  | Dependency_Failed

section \<open>The store\<close>

definition cleanup_of :: "string \<Rightarrow> cleanup_row list \<Rightarrow> cleanup_row option" where
  "cleanup_of runId rows = lookup_row k_run_id runId rows"

definition required_cleanup :: "string \<Rightarrow> cleanup_row list \<Rightarrow> cleanup_error + cleanup_row" where
  "required_cleanup runId rows = (case cleanup_of runId rows of None \<Rightarrow> Inl (Cleanup_Missing runId) | Some r \<Rightarrow> Inr r)"

fun collect_targets :: "cleanup_target list \<Rightarrow> cleanup_target list \<Rightarrow> cleanup_error + cleanup_target list" where
  "collect_targets [] seen = Inr seen"
| "collect_targets (target # targets) seen =
     (case lookup_row tg_lineageId (tg_lineageId target) seen of
        None \<Rightarrow> collect_targets targets (seen @ [target])
      | Some existing \<Rightarrow>
          if existing \<noteq> target then Inl (Conflicting_Targets (tg_lineageId target)) else collect_targets targets seen)"

definition normalizeTargets :: "cleanup_target list \<Rightarrow> cleanup_error + cleanup_target list" where
  "normalizeTargets targets = bind_result (collect_targets targets []) (\<lambda>xs.
     Inr (sort_by (\<lambda>a b. locale_le (tg_lineageId a) (tg_lineageId b)) xs))"

text \<open>\<open>absence\<close> is the optional member \<^verbatim>\<open>environmentAbsenceProven\<close>.\<close>

definition assertIdentity ::
  "cleanup_row \<Rightarrow> cleanup_request \<Rightarrow> cleanup_target list \<Rightarrow> environment_ref option \<Rightarrow> bool option \<Rightarrow>
   cleanup_error + unit" where
  "assertIdentity existing request harnessTargets environmentRef absence =
     bind_result (normalizeTargets harnessTargets) (\<lambda>targets.
       ensure Frozen_Identity_Conflict
         (k_worktree_id existing = cq_worktreeId request \<and>
          k_workspace_binding_id existing = cq_workspaceBindingId request \<and>
          k_identity_hash existing = cq_identityHash request \<and>
          k_harness_targets existing = targets \<and> k_environment_ref existing = environmentRef \<and>
          (absence = None \<or> absence = Some (k_environment_absence_proven existing))))"

definition new_cleanup ::
  "string \<Rightarrow> cleanup_request \<Rightarrow> cleanup_target list \<Rightarrow> environment_ref option \<Rightarrow> bool \<Rightarrow> cleanup_row" where
  "new_cleanup now request targets environmentRef absenceProven = \<lparr>
     k_run_id = cq_runId request, k_worktree_id = cq_worktreeId request,
     k_workspace_binding_id = cq_workspaceBindingId request, k_identity_hash = cq_identityHash request,
     k_harness_targets = targets, k_environment_ref = environmentRef,
     k_environment_absence_proven = absenceProven, k_harness_state = Harness_Retiring, k_harness_issue = None,
     k_environment_state = (if environmentRef \<noteq> None then Env_Requested
       else if absenceProven then Env_Removed else Env_Failed),
     k_environment_issue = None, k_host_state = Host_Requested, k_host_issue = None,
     k_requested_at = now, k_updated_at = now\<rparr>"

definition begin_cleanup ::
  "string \<Rightarrow> cleanup_request \<Rightarrow> cleanup_target list \<Rightarrow> environment_ref option \<Rightarrow> bool option \<Rightarrow> cleanup_row list \<Rightarrow>
   cleanup_error + cleanup_row \<times> cleanup_row list" where
  "begin_cleanup now request harnessTargets environmentRef absence rows =
     (case cleanup_of (cq_runId request) rows of
        Some existing \<Rightarrow>
          bind_result (assertIdentity existing request harnessTargets environmentRef absence) (\<lambda>_. Inr (existing, rows))
      | None \<Rightarrow>
          bind_result (normalizeTargets harnessTargets) (\<lambda>targets.
            let absenceProven = (case absence of None \<Rightarrow> environmentRef = None | Some b \<Rightarrow> b) in
            if environmentRef \<noteq> None \<and> absenceProven then Inl Absence_Contradicted
            else let row = new_cleanup now request targets environmentRef absenceProven in Inr (row, rows @ [row])))"

definition update_cleanup :: "string \<Rightarrow> (cleanup_row \<Rightarrow> cleanup_row) \<Rightarrow> cleanup_row list \<Rightarrow> cleanup_row list" where
  "update_cleanup runId f rows = update_where (\<lambda>r. k_run_id r = runId) f rows"

definition stored_cleanup :: "string \<Rightarrow> cleanup_row list \<Rightarrow> cleanup_error + cleanup_row \<times> cleanup_row list" where
  "stored_cleanup runId rows = bind_result (required_cleanup runId rows) (\<lambda>row. Inr (row, rows))"

definition updateHarness ::
  "string \<Rightarrow> string \<Rightarrow> harness_cleanup \<Rightarrow> cleanup_issue option \<Rightarrow> cleanup_row list \<Rightarrow>
   cleanup_error + cleanup_row \<times> cleanup_row list" where
  "updateHarness now runId state issue rows =
     bind_result (required_cleanup runId rows) (\<lambda>current.
       if k_harness_state current = Harness_Retired \<and> state \<noteq> Harness_Retired then Inl Harness_Regression
       else stored_cleanup runId (update_cleanup runId
         (\<lambda>r. r\<lparr>k_harness_state := state, k_harness_issue := issue, k_updated_at := now\<rparr>) rows))"

definition updateEnvironment ::
  "string \<Rightarrow> string \<Rightarrow> environment_cleanup \<Rightarrow> cleanup_issue option \<Rightarrow> cleanup_row list \<Rightarrow>
   cleanup_error + cleanup_row \<times> cleanup_row list" where
  "updateEnvironment now runId state issue rows =
     bind_result (required_cleanup runId rows) (\<lambda>current.
       if k_environment_state current = Env_Removed \<and> state \<noteq> Env_Removed then Inl Environment_Regression
       else stored_cleanup runId (update_cleanup runId
         (\<lambda>r. r\<lparr>k_environment_state := state, k_environment_issue := issue, k_updated_at := now\<rparr>) rows))"

definition updateHostRepository ::
  "string \<Rightarrow> string \<Rightarrow> host_cleanup \<Rightarrow> cleanup_issue option \<Rightarrow> cleanup_row list \<Rightarrow>
   cleanup_error + cleanup_row \<times> cleanup_row list" where
  "updateHostRepository now runId state issue rows =
     bind_result (required_cleanup runId rows) (\<lambda>current.
       if state = Host_Removed \<and> (k_harness_state current \<noteq> Harness_Retired \<or> k_environment_state current \<noteq> Env_Removed)
       then Inl Host_Too_Early
       else if k_host_state current = Host_Removed \<and> state \<noteq> Host_Removed then Inl Host_Regression
       else stored_cleanup runId (update_cleanup runId
         (\<lambda>r. r\<lparr>k_host_state := state, k_host_issue := issue, k_updated_at := now\<rparr>) rows))"

definition reconcilable :: "cleanup_row \<Rightarrow> bool" where
  "reconcilable r \<longleftrightarrow> k_harness_state r \<in> {Harness_Retained, Harness_Retiring} \<or>
     k_environment_state r \<in> {Env_Requested, Env_Stopping, Env_Stopped, Env_Uncertain} \<or>
     (k_environment_state r = Env_Removed \<and> k_host_state r = Host_Requested)"

definition listReconcilable :: "cleanup_row list \<Rightarrow> cleanup_row list" where
  "listReconcilable rows = sort_by (\<lambda>a b. k_requested_at a < k_requested_at b \<or>
     (k_requested_at a = k_requested_at b \<and> k_run_id a \<le> k_run_id b)) (filter reconcilable rows)"

end
