(* ===== verification/Run_Cleanup_Coordinator.thy ===== *)
theory Run_Cleanup_Coordinator
  imports Run_Cleanup
begin

text \<open>
  The coordinator of Run cleanups (\<^verbatim>\<open>run-cleanup.ts\<close>) and the teardown of one environment incarnation
  (\<^verbatim>\<open>execution-environment/run-cleanup.ts\<close>). At most one operation per Run is under way; between two
  \<^verbatim>\<open>await\<close>s it runs without interruption. The operations are lost when the worker ends; the store is not.
\<close>

section \<open>Teardown of an environment\<close>

datatype backend_failure = Backend_Error string | Other_Failure

datatype stop_state = Stop_Running | Stop_Stopping | Stop_Stopped | Stop_Uncertain

definition teardown_failure :: "string \<Rightarrow> string \<Rightarrow> environment_cleanup \<times> cleanup_issue option" where
  "teardown_failure code message = (Env_Failed, Some \<lparr>ci_code = code, ci_message = message\<rparr>)"

definition stopOutcome :: "stop_state \<Rightarrow> string option \<Rightarrow> environment_cleanup \<times> cleanup_issue option" where
  "stopOutcome state errorCode =
     (if state = Stop_Stopping then (Env_Stopping, None)
      else if state = Stop_Uncertain then (Env_Uncertain, Some \<lparr>
        ci_code = (case errorCode of None \<Rightarrow> ''environment_observation_unavailable'' | Some c \<Rightarrow> c),
        ci_message = ''Execution environment stop is unresolved; cleanup will reconcile without another stop request.''\<rparr>)
      else if truthy errorCode
      then teardown_failure (the errorCode) ''Execution environment stop could not be initiated safely.''
      else (Env_Requested, None))"

text \<open>
  The backend is a parameter: what its operations answer, in the order they are called. \<open>intent_recorded\<close> is
  the answer of \<^verbatim>\<open>inspect\<close>, \<open>stop_or_reconcile\<close> the answer of \<^verbatim>\<open>reconcileStop\<close> (\<open>True\<close>) or \<^verbatim>\<open>stop\<close>.
\<close>

record environment_backend =
  be_retire :: "backend_failure + unit"
  be_intent_recorded :: "backend_failure + bool"
  be_stop_or_reconcile :: "bool \<Rightarrow> backend_failure + stop_state \<times> string option"
  be_remove :: "backend_failure + unit"

definition advanceStop :: "environment_backend \<Rightarrow> bool \<Rightarrow> backend_failure + stop_state \<times> string option" where
  "advanceStop backend recorded = be_stop_or_reconcile backend recorded"

definition cleanupExecutionEnvironment ::
  "environment_backend \<Rightarrow> environment_ref \<Rightarrow> environment_cleanup \<times> cleanup_issue option" where
  "cleanupExecutionEnvironment backend target =
     (case er_owner target of
        Account_Owner _ _ \<Rightarrow> teardown_failure ''environment_owner_mismatch''
          ''Run cleanup cannot remove a ProviderAccount-owned environment.''
      | Run_Owner _ \<Rightarrow>
          (case bind_result (be_retire backend) (\<lambda>_.
             bind_result (be_intent_recorded backend) (\<lambda>recorded.
             bind_result (advanceStop backend recorded) (\<lambda>(state, errorCode).
               if state \<noteq> Stop_Stopped then Inr (stopOutcome state errorCode)
               else bind_result (be_remove backend) (\<lambda>_. Inr (Env_Removed, None))))) of
             Inr outcome \<Rightarrow> outcome
           | Inl e \<Rightarrow> teardown_failure
               (case e of Backend_Error code \<Rightarrow> code | Other_Failure \<Rightarrow> ''environment_operation_failed'')
               ''Execution environment cleanup could not continue safely.''))"

section \<open>State\<close>

text \<open>What an operation waits for, with the record it last read.\<close>

datatype cleanup_stage =
    Looking_Up "cleanup_target list"
  | Reporting_Frozen cleanup_row
  | Reporting_Refusal cleanup_row
  | Closing_Harness cleanup_row
  | Reporting_Harness cleanup_row
  | Cleaning_Environment cleanup_row
  | Reporting_Environment cleanup_row
  | Removing_Repository cleanup_row
  | Reporting_Repository cleanup_row

record cleanup_operation =
  co_request :: cleanup_request
  co_retryFailures :: bool
  co_stage :: cleanup_stage

record cleanup_state =
  cs_rows :: "cleanup_row list"
  cs_operations :: "cleanup_operation list"

datatype cleanup_output =
    Close_Targets string "cleanup_target list"
  | Clean_Environment string environment_ref
  | Remove_Repository string string
  | Report_Cleanup cleanup_row
  | Cleanup_Ended string "cleanup_error option"

text \<open>What the dependencies answer; a report or a lookup may fail, the others have an outcome in any case.\<close>

datatype cleanup_answer =
    Looked_Up "environment_ref option" | Lookup_Failed
  | Reported bool
  | Targets_Closed bool "cleanup_issue option" | Close_Failed
  | Environment_Outcome environment_cleanup "cleanup_issue option" | Environment_Outcome_Failed
  | Repository_Outcome bool "cleanup_issue option" | Repository_Outcome_Failed

definition op_run :: "cleanup_operation \<Rightarrow> string" where
  "op_run op = cq_runId (co_request op)"

section \<open>The phases of an operation\<close>

text \<open>A stretch ends at an \<^verbatim>\<open>await\<close> (\<open>Inr\<close> of the next stage), at the end (\<open>Inr None\<close>) or with an error.\<close>

type_synonym stretch = "(cleanup_error + cleanup_stage option) \<times> cleanup_output list \<times> cleanup_row list"

definition repository_phase :: "bool \<Rightarrow> cleanup_request \<Rightarrow> cleanup_row \<Rightarrow> cleanup_row list \<Rightarrow> stretch" where
  "repository_phase retry request cleanup rows =
     (if k_harness_state cleanup = Harness_Retired \<and> k_environment_state cleanup = Env_Removed \<and>
         (k_host_state cleanup = Host_Requested \<or> (retry \<and> k_host_state cleanup = Host_Failed))
      then (Inr (Some (Removing_Repository cleanup)), [Remove_Repository (cq_runId request) (cq_worktreeId request)], rows)
      else (Inr None, [], rows))"

definition environment_phase :: "bool \<Rightarrow> cleanup_request \<Rightarrow> cleanup_row \<Rightarrow> cleanup_row list \<Rightarrow> stretch" where
  "environment_phase retry request cleanup rows =
     (case k_environment_ref cleanup of
        Some ref \<Rightarrow>
          if k_harness_state cleanup = Harness_Retired \<and>
             (k_environment_state cleanup \<in> {Env_Requested, Env_Stopping, Env_Stopped, Env_Uncertain} \<or>
              (retry \<and> k_environment_state cleanup = Env_Failed))
          then (Inr (Some (Cleaning_Environment cleanup)), [Clean_Environment (cq_runId request) ref], rows)
          else repository_phase retry request cleanup rows
      | None \<Rightarrow> repository_phase retry request cleanup rows)"

definition harness_phase :: "string \<Rightarrow> bool \<Rightarrow> cleanup_request \<Rightarrow> cleanup_row \<Rightarrow> cleanup_row list \<Rightarrow> stretch" where
  "harness_phase now retry request cleanup rows =
     (if k_harness_state cleanup \<in> {Harness_Retained, Harness_Retiring} \<or>
         (retry \<and> k_harness_state cleanup = Harness_Unavailable)
      then case updateHarness now (cq_runId request) Harness_Retiring None rows of
          Inl e \<Rightarrow> (Inl e, [], rows)
        | Inr (row, rows1) \<Rightarrow>
            (Inr (Some (Closing_Harness row)), [Close_Targets (cq_runId request) (k_harness_targets row)], rows1)
      else environment_phase retry request cleanup rows)"

definition host_refusal :: cleanup_issue where
  "host_refusal = \<lparr>ci_code = ''run_repository_cleanup_not_safe'',
     ci_message = ''The host Run repository could not enter cleanup safely.''\<rparr>"

text \<open>\<open>host_ok\<close> tells whether \<^verbatim>\<open>requestHostCleanup\<close> returns.\<close>

definition host_phase :: "string \<Rightarrow> bool \<Rightarrow> bool \<Rightarrow> cleanup_request \<Rightarrow> cleanup_row \<Rightarrow> cleanup_row list \<Rightarrow> stretch" where
  "host_phase now host_ok retry request cleanup rows =
     (if host_ok then harness_phase now retry request cleanup rows
      else case updateHostRepository now (cq_runId request) Host_Failed (Some host_refusal) rows of
          Inl e \<Rightarrow> (Inl e, [], rows)
        | Inr (row, rows1) \<Rightarrow> (Inr (Some (Reporting_Refusal row)), [Report_Cleanup row], rows1))"

definition identity_unavailable :: cleanup_issue where
  "identity_unavailable = \<lparr>ci_code = ''environment_identity_unavailable'',
     ci_message = ''The exact Run-owned execution environment identity could not be proven.''\<rparr>"

text \<open>\<^verbatim>\<open>freeze\<close> after its lookup, which answered (\<open>Inr\<close>) or failed.\<close>

definition freeze_continues ::
  "string \<Rightarrow> unit + environment_ref option \<Rightarrow> cleanup_target list \<Rightarrow> cleanup_request \<Rightarrow> cleanup_row list \<Rightarrow> stretch" where
  "freeze_continues now found targets request rows =
     (let (ref, absence) = (case found of Inl _ \<Rightarrow> (None, False) | Inr ref \<Rightarrow> (ref, ref = None)) in
      case bind_result (begin_cleanup now request targets ref (Some absence) rows) (\<lambda>(row, rows1).
          case found of
            Inr _ \<Rightarrow> Inr (row, rows1)
          | Inl _ \<Rightarrow> updateEnvironment now (cq_runId request) Env_Failed (Some identity_unavailable) rows1) of
        Inl e \<Rightarrow> (Inl e, [], rows)
      | Inr (row, rows1) \<Rightarrow> (Inr (Some (Reporting_Frozen row)), [Report_Cleanup row], rows1))"

text \<open>
  \<^verbatim>\<open>advance\<close> up to its first \<^verbatim>\<open>await\<close>; \<open>idle\<close> and \<open>identity_ok\<close> tell whether the two assertions pass, \<open>targets\<close> is
  the answer of \<^verbatim>\<open>harnessTargets\<close>.
\<close>

definition advance_begins ::
  "string \<Rightarrow> bool \<Rightarrow> bool \<Rightarrow> bool \<Rightarrow> cleanup_target list option \<Rightarrow> bool \<Rightarrow> cleanup_request \<Rightarrow> cleanup_row list \<Rightarrow> stretch" where
  "advance_begins now idle identity_ok host_ok targets retry request rows =
     (if \<not> idle \<or> \<not> identity_ok then (Inl Dependency_Failed, [], rows)
      else case cleanup_of (cq_runId request) rows of
        None \<Rightarrow> (case targets of None \<Rightarrow> (Inl Dependency_Failed, [], rows) | Some ts \<Rightarrow> (Inr (Some (Looking_Up ts)), [], rows))
      | Some cleanup \<Rightarrow>
          (case begin_cleanup now request (k_harness_targets cleanup) (k_environment_ref cleanup)
             (Some (k_environment_absence_proven cleanup)) rows of
             Inl e \<Rightarrow> (Inl e, [], rows)
           | Inr (row, rows1) \<Rightarrow> host_phase now host_ok retry request row rows1))"

text \<open>A write of the store whose record is then reported.\<close>

definition reports :: "(cleanup_row \<Rightarrow> cleanup_stage) \<Rightarrow> cleanup_error + cleanup_row \<times> cleanup_row list \<Rightarrow> cleanup_row list \<Rightarrow> stretch" where
  "reports stage written rows =
     (case written of
        Inl e \<Rightarrow> (Inl e, [], rows)
      | Inr (row, rows1) \<Rightarrow> (Inr (Some (stage row)), [Report_Cleanup row], rows1))"

definition issue_of :: "string \<Rightarrow> string \<Rightarrow> cleanup_issue option" where
  "issue_of code message = Some \<lparr>ci_code = code, ci_message = message\<rparr>"

fun awaits_report :: "cleanup_stage \<Rightarrow> bool" where
  "awaits_report (Looking_Up _) \<longleftrightarrow> False"
| "awaits_report (Closing_Harness _) \<longleftrightarrow> False"
| "awaits_report (Cleaning_Environment _) \<longleftrightarrow> False"
| "awaits_report (Removing_Repository _) \<longleftrightarrow> False"
| "awaits_report _ \<longleftrightarrow> True"

text \<open>The stretches after an \<^verbatim>\<open>await\<close>; an answer that does not fit the stage leaves the operation where it is.\<close>

definition advance_continues ::
  "string \<Rightarrow> bool \<Rightarrow> cleanup_answer \<Rightarrow> cleanup_operation \<Rightarrow> cleanup_row list \<Rightarrow> stretch" where
  "advance_continues now host_ok answer op rows =
     (let request = co_request op; retry = co_retryFailures op; run = cq_runId request in
      case (co_stage op, answer) of
        (Looking_Up targets, Looked_Up ref) \<Rightarrow> freeze_continues now (Inr ref) targets request rows
      | (Looking_Up targets, Lookup_Failed) \<Rightarrow> freeze_continues now (Inl ()) targets request rows
      | (Reporting_Frozen row, Reported True) \<Rightarrow> host_phase now host_ok retry request row rows
      | (Reporting_Refusal row, Reported True) \<Rightarrow> (Inr None, [], rows)
      | (Closing_Harness row, Targets_Closed retired i) \<Rightarrow> reports Reporting_Harness
          (updateHarness now run (if retired then Harness_Retired else Harness_Unavailable) i rows) rows
      | (Closing_Harness row, Close_Failed) \<Rightarrow> reports Reporting_Harness
          (updateHarness now run Harness_Unavailable (issue_of ''harness_cleanup_unavailable''
            ''The frozen Run harness identities could not be closed safely.'') rows) rows
      | (Reporting_Harness row, Reported True) \<Rightarrow> environment_phase retry request row rows
      | (Cleaning_Environment row, Environment_Outcome state i) \<Rightarrow> reports Reporting_Environment
          (updateEnvironment now run state i rows) rows
      | (Cleaning_Environment row, Environment_Outcome_Failed) \<Rightarrow> reports Reporting_Environment
          (updateEnvironment now run Env_Failed (issue_of ''environment_cleanup_failed''
            ''The frozen execution environment could not be reconciled safely.'') rows) rows
      | (Reporting_Environment row, Reported True) \<Rightarrow> repository_phase retry request row rows
      | (Removing_Repository row, Repository_Outcome removed i) \<Rightarrow> reports Reporting_Repository
          (updateHostRepository now run (if removed then Host_Removed else Host_Failed) i rows) rows
      | (Removing_Repository row, Repository_Outcome_Failed) \<Rightarrow> reports Reporting_Repository
          (updateHostRepository now run Host_Failed (issue_of ''run_repository_cleanup_failed''
            ''The host Run repository could not be removed safely.'') rows) rows
      | (Reporting_Repository row, Reported True) \<Rightarrow> (Inr None, [], rows)
      | (stage, Reported False) \<Rightarrow>
          if awaits_report stage then (Inl Dependency_Failed, [], rows) else (Inr (Some stage), [], rows)
      | (stage, _) \<Rightarrow> (Inr (Some stage), [], rows))"

section \<open>Operations\<close>

text \<open>The end of a stretch: the operation goes on, or it is over and another may start.\<close>

definition after_stretch :: "cleanup_operation \<Rightarrow> stretch \<Rightarrow> cleanup_state \<Rightarrow> cleanup_output list \<times> cleanup_state" where
  "after_stretch op x s =
     (let (r, outs, rows) = x; others = filter (\<lambda>o1. op_run o1 \<noteq> op_run op) (cs_operations s) in
      case r of
        Inr (Some stage) \<Rightarrow> (outs, s\<lparr>cs_rows := rows, cs_operations := others @ [op\<lparr>co_stage := stage\<rparr>]\<rparr>)
      | Inr None \<Rightarrow> (outs @ [Cleanup_Ended (op_run op) None], s\<lparr>cs_rows := rows, cs_operations := others\<rparr>)
      | Inl e \<Rightarrow> (outs @ [Cleanup_Ended (op_run op) (Some e)], s\<lparr>cs_rows := rows, cs_operations := others\<rparr>))"

text \<open>A request joins the operation of its Run if there is one.\<close>

definition request_cleanup ::
  "string \<Rightarrow> bool \<Rightarrow> bool \<Rightarrow> bool \<Rightarrow> cleanup_target list option \<Rightarrow> cleanup_request \<Rightarrow> bool \<Rightarrow> cleanup_state \<Rightarrow>
   cleanup_output list \<times> cleanup_state" where
  "request_cleanup now idle identity_ok host_ok targets request retry s =
     (if List.find (\<lambda>op. op_run op = cq_runId request) (cs_operations s) \<noteq> None then ([], s)
      else after_stretch \<lparr>co_request = request, co_retryFailures = retry, co_stage = Looking_Up []\<rparr>
        (advance_begins now idle identity_ok host_ok targets retry request (cs_rows s)) s)"

definition continue_cleanup ::
  "string \<Rightarrow> bool \<Rightarrow> cleanup_answer \<Rightarrow> cleanup_operation \<Rightarrow> cleanup_state \<Rightarrow> cleanup_output list \<times> cleanup_state" where
  "continue_cleanup now host_ok answer op s = after_stretch op (advance_continues now host_ok answer op (cs_rows s)) s"

text \<open>The requests of \<^verbatim>\<open>reconcilePending\<close>, which are made one after another.\<close>

definition pending_requests :: "cleanup_row list \<Rightarrow> cleanup_request list" where
  "pending_requests rows = map (\<lambda>r. \<lparr>cq_runId = k_run_id r, cq_worktreeId = k_worktree_id r,
     cq_workspaceBindingId = k_workspace_binding_id r, cq_identityHash = k_identity_hash r\<rparr>) (listReconcilable rows)"

inductive cleanup_step :: "cleanup_state \<Rightarrow> cleanup_output list \<Rightarrow> cleanup_state \<Rightarrow> bool" where
  request: "request_cleanup now idle identity_ok host_ok targets request retry s = (outs, s') \<Longrightarrow> cleanup_step s outs s'"
| continues: "op \<in> set (cs_operations s) \<Longrightarrow> continue_cleanup now host_ok answer op s = (outs, s') \<Longrightarrow>
    cleanup_step s outs s'"
| restart: "cleanup_step s [] (s\<lparr>cs_operations := []\<rparr>)"

inductive cleanup_run :: "cleanup_state \<Rightarrow> cleanup_output list \<Rightarrow> cleanup_state \<Rightarrow> bool" where
  start: "cleanup_run s [] s"
| extend: "cleanup_run s outs t \<Longrightarrow> cleanup_step t new u \<Longrightarrow> cleanup_run s (outs @ new) u"

definition no_cleanups :: cleanup_state where
  "no_cleanups = \<lparr>cs_rows = [], cs_operations = []\<rparr>"

end
