(* ===== verification/Run_Cleanup_Properties.thy ===== *)
theory Run_Cleanup_Properties
  imports Run_Cleanup_Coordinator
begin

text \<open>
  What holds of every history of Run cleanups: the frozen identities, the order in which the harness, the
  environment and the repository go, and that a cleanup whose dependencies succeed completes.
\<close>

section \<open>The invariant\<close>

interpretation cleanups: keyed_table k_run_id cleanup_of update_cleanup
  by unfold_locales (auto simp: cleanup_of_def update_cleanup_def lookup_row_update_key dest: lookup_row_SomeD)

lemma sort_by_sorted: "sorted_wrt le xs \<Longrightarrow> sort_by le xs = xs"
proof (induction xs)
  case (Cons x xs)
  then show ?case by (cases xs) auto
qed simp

lemma collect_distinct:
  "distinct (map tg_lineageId (seen @ targets)) \<Longrightarrow> collect_targets targets seen = Inr (seen @ targets)"
proof (induction targets arbitrary: seen)
  case (Cons t targets)
  then have "lookup_row tg_lineageId (tg_lineageId t) seen = None" by (auto simp: lookup_row_None_iff)
  then show ?case using Cons by simp
qed simp

lemma collect_targets_distinct:
  "collect_targets targets seen = Inr xs \<Longrightarrow> distinct (map tg_lineageId seen) \<Longrightarrow> distinct (map tg_lineageId xs)"
  by (induction targets arbitrary: seen) (auto simp: lookup_row_None_iff split: option.splits if_splits)

lemma normalized_again:
  assumes "normalizeTargets targets = Inr xs" shows "normalizeTargets xs = Inr xs"
proof -
  let ?le = "\<lambda>a b. locale_le (tg_lineageId a) (tg_lineageId b)"
  from assms obtain ys where ys: "collect_targets targets [] = Inr ys" "xs = sort_by ?le ys"
    by (auto simp: normalizeTargets_def elim!: bind_result_InrE)
  have "distinct (map tg_lineageId ys)" using collect_targets_distinct [OF ys(1)] by simp
  then have "distinct (map tg_lineageId xs)"
    using ys(2) by (metis mset_map mset_sort_by mset_eq_imp_distinct_iff)
  then have "collect_targets xs [] = Inr xs" using collect_distinct [of "[]" xs] by simp
  moreover have "sort_by ?le xs = xs"
    unfolding ys(2) by (rule sort_by_sorted, rule sorted_sort_by) (use locale_order.le_total locale_order.le_trans in blast)+
  ultimately show ?thesis by (simp add: normalizeTargets_def)
qed

definition row_ok :: "cleanup_row \<Rightarrow> bool" where
  "row_ok r \<longleftrightarrow> normalizeTargets (k_harness_targets r) = Inr (k_harness_targets r) \<and>
     (k_host_state r = Host_Removed \<longrightarrow> k_harness_state r = Harness_Retired \<and> k_environment_state r = Env_Removed) \<and>
     k_host_state r \<noteq> Host_Retained \<and>
     (case k_environment_ref r of
        None \<Rightarrow> k_environment_state r = (if k_environment_absence_proven r then Env_Removed else Env_Failed)
      | Some _ \<Rightarrow> \<not> k_environment_absence_proven r)"

definition frozen_columns :: "cleanup_row \<Rightarrow> string \<times> string \<times> string \<times> string \<times> cleanup_target list \<times> environment_ref option \<times> bool \<times> string" where
  "frozen_columns r = (k_run_id r, k_worktree_id r, k_workspace_binding_id r, k_identity_hash r, k_harness_targets r,
     k_environment_ref r, k_environment_absence_proven r, k_requested_at r)"

definition cleanup_evolves :: "cleanup_row \<Rightarrow> cleanup_row \<Rightarrow> bool" where
  "cleanup_evolves r r' \<longleftrightarrow> frozen_columns r' = frozen_columns r \<and>
     (k_harness_state r = Harness_Retired \<longrightarrow> k_harness_state r' = Harness_Retired) \<and>
     (k_environment_state r = Env_Removed \<longrightarrow> k_environment_state r' = Env_Removed) \<and>
     (k_host_state r = Host_Removed \<longrightarrow> k_host_state r' = Host_Removed)"

lemma cleanup_evolves_refl [simp]: "cleanup_evolves r r"
  by (simp add: cleanup_evolves_def)

lemma transp_cleanup_evolves: "transp cleanup_evolves"
  by (rule transpI) (simp add: cleanup_evolves_def)

text \<open>What an operation relies on: its record is the stored one, frozen from its request.\<close>

definition frozen_from :: "cleanup_request \<Rightarrow> cleanup_row \<Rightarrow> bool" where
  "frozen_from request r \<longleftrightarrow> k_run_id r = cq_runId request \<and> k_worktree_id r = cq_worktreeId request"

fun stage_row :: "cleanup_stage \<Rightarrow> cleanup_row option" where
  "stage_row (Looking_Up _) = None"
| "stage_row (Reporting_Frozen r) = Some r"
| "stage_row (Reporting_Refusal r) = Some r"
| "stage_row (Closing_Harness r) = Some r"
| "stage_row (Reporting_Harness r) = Some r"
| "stage_row (Cleaning_Environment r) = Some r"
| "stage_row (Reporting_Environment r) = Some r"
| "stage_row (Removing_Repository r) = Some r"
| "stage_row (Reporting_Repository r) = Some r"

definition stage_ok :: "cleanup_request \<Rightarrow> cleanup_row list \<Rightarrow> cleanup_stage \<Rightarrow> bool" where
  "stage_ok request rows stage \<longleftrightarrow> cleanup_of (cq_runId request) rows = stage_row stage \<and>
     (\<forall>r. stage_row stage = Some r \<longrightarrow> frozen_from request r) \<and>
     (\<forall>r. stage = Cleaning_Environment r \<longrightarrow> k_environment_ref r \<noteq> None)"

fun output_ok :: "cleanup_row list \<Rightarrow> cleanup_output \<Rightarrow> bool" where
  "output_ok rows (Close_Targets run targets) \<longleftrightarrow>
     (\<exists>r. cleanup_of run rows = Some r \<and> k_harness_targets r = targets \<and> k_harness_state r = Harness_Retiring)"
| "output_ok rows (Clean_Environment run ref) \<longleftrightarrow>
     (\<exists>r. cleanup_of run rows = Some r \<and> k_environment_ref r = Some ref \<and> k_harness_state r = Harness_Retired \<and>
        k_environment_state r \<noteq> Env_Removed)"
| "output_ok rows (Remove_Repository run worktree) \<longleftrightarrow>
     (\<exists>r. cleanup_of run rows = Some r \<and> k_worktree_id r = worktree \<and> k_harness_state r = Harness_Retired \<and>
        k_environment_state r = Env_Removed \<and> k_host_state r \<noteq> Host_Removed)"
| "output_ok rows (Report_Cleanup r) \<longleftrightarrow> cleanup_of (k_run_id r) rows = Some r"
| "output_ok rows (Cleanup_Ended run e) \<longleftrightarrow> True"

text \<open>A sound stretch of an operation.\<close>

definition sound :: "cleanup_request \<Rightarrow> cleanup_row list \<Rightarrow> stretch \<Rightarrow> bool" where
  "sound request rows x \<longleftrightarrow> (case x of (r, outs, rows') \<Rightarrow>
     (\<forall>run. run \<noteq> cq_runId request \<longrightarrow> cleanup_of run rows' = cleanup_of run rows) \<and>
     (\<forall>row. cleanup_of (cq_runId request) rows = Some row \<longrightarrow>
        (\<exists>row'. cleanup_of (cq_runId request) rows' = Some row' \<and> cleanup_evolves row row')) \<and>
     (\<forall>row. cleanup_of (cq_runId request) rows' = Some row \<longrightarrow> row_ok row) \<and>
     (\<forall>stage. r = Inr (Some stage) \<longrightarrow> stage_ok request rows' stage) \<and>
     list_all (output_ok rows') outs)"

lemma sound_refused: "(\<And>row. cleanup_of (cq_runId request) rows = Some row \<Longrightarrow> row_ok row) \<Longrightarrow> sound request rows (Inl e, [], rows)"
  by (simp add: sound_def)

section \<open>Writes\<close>

definition writes :: "string \<Rightarrow> cleanup_row list \<Rightarrow> cleanup_row \<Rightarrow> cleanup_row list \<Rightarrow> bool" where
  "writes run rows row rows' \<longleftrightarrow> (\<exists>old. cleanup_of run rows = Some old \<and> cleanup_evolves old row \<and>
     (row_ok old \<longrightarrow> k_environment_ref old \<noteq> None \<or> k_environment_state row = k_environment_state old \<longrightarrow> row_ok row) \<and>
     (\<forall>x. cleanup_of x rows' = (if x = run then Some row else cleanup_of x rows)))"

lemma stored_update:
  assumes "stored_cleanup run (update_cleanup run f rows) = Inr (row, rows')" and "\<And>r. k_run_id (f r) = k_run_id r"
  obtains old where "cleanup_of run rows = Some old" "row = f old"
    "\<And>x. cleanup_of x rows' = (if x = run then Some row else cleanup_of x rows)"
  using assms
  by (cases "cleanup_of run rows")
    (auto simp: stored_cleanup_def required_cleanup_def cleanups.lookup_update elim!: bind_result_InrE split: option.splits)

lemma updateHarness_writes:
  assumes "updateHarness now run state i rows = Inr (row, rows')"
  shows "writes run rows row rows' \<and> k_harness_state row = state \<and>
    (\<forall>old. cleanup_of run rows = Some old \<longrightarrow> k_environment_state row = k_environment_state old)"
proof -
  obtain current where current: "cleanup_of run rows = Some current" "k_harness_state current = Harness_Retired \<longrightarrow> state = Harness_Retired"
    and stored: "stored_cleanup run (update_cleanup run
      (\<lambda>r. r\<lparr>k_harness_state := state, k_harness_issue := i, k_updated_at := now\<rparr>) rows) = Inr (row, rows')"
    using assms by (auto simp: updateHarness_def required_cleanup_def elim!: bind_result_InrE split: option.splits if_splits)
  from stored show ?thesis
    by (rule stored_update)
      (use current in \<open>auto simp: writes_def cleanup_evolves_def frozen_columns_def row_ok_def split: option.splits\<close>)
qed

lemma updateEnvironment_writes:
  assumes "updateEnvironment now run state i rows = Inr (row, rows')"
  shows "writes run rows row rows' \<and> k_environment_state row = state"
proof -
  obtain current where current: "cleanup_of run rows = Some current" "k_environment_state current = Env_Removed \<longrightarrow> state = Env_Removed"
    and stored: "stored_cleanup run (update_cleanup run
      (\<lambda>r. r\<lparr>k_environment_state := state, k_environment_issue := i, k_updated_at := now\<rparr>) rows) = Inr (row, rows')"
    using assms by (auto simp: updateEnvironment_def required_cleanup_def elim!: bind_result_InrE split: option.splits if_splits)
  from stored show ?thesis
    by (rule stored_update)
      (use current in \<open>auto simp: writes_def cleanup_evolves_def frozen_columns_def row_ok_def split: option.splits\<close>)
qed

lemma updateHost_writes:
  assumes "updateHostRepository now run state i rows = Inr (row, rows')" and "state \<noteq> Host_Retained"
  shows "writes run rows row rows' \<and> k_host_state row = state \<and>
    (\<forall>old. cleanup_of run rows = Some old \<longrightarrow> k_environment_state row = k_environment_state old)"
proof -
  obtain current where current: "cleanup_of run rows = Some current" "k_host_state current = Host_Removed \<longrightarrow> state = Host_Removed"
      "state = Host_Removed \<longrightarrow> k_harness_state current = Harness_Retired \<and> k_environment_state current = Env_Removed"
    and stored: "stored_cleanup run (update_cleanup run
      (\<lambda>r. r\<lparr>k_host_state := state, k_host_issue := i, k_updated_at := now\<rparr>) rows) = Inr (row, rows')"
    using assms(1) by (auto simp: updateHostRepository_def required_cleanup_def elim!: bind_result_InrE split: option.splits if_splits)
  from stored show ?thesis
    by (rule stored_update)
      (use current assms(2) in \<open>auto simp: writes_def cleanup_evolves_def frozen_columns_def row_ok_def split: option.splits\<close>)
qed

lemma frozen_from_evolves: "cleanup_evolves r r' \<Longrightarrow> frozen_from request r \<Longrightarrow> frozen_from request r'"
  by (simp add: frozen_from_def cleanup_evolves_def frozen_columns_def)

section \<open>Sound stretches\<close>

definition current_row :: "cleanup_request \<Rightarrow> cleanup_row list \<Rightarrow> cleanup_row \<Rightarrow> bool" where
  "current_row request rows row \<longleftrightarrow> cleanup_of (cq_runId request) rows = Some row \<and> row_ok row \<and> frozen_from request row"

lemma sound_ended: "current_row request rows row \<Longrightarrow> sound request rows (Inr None, [], rows)"
  and sound_failed: "current_row request rows row \<Longrightarrow> sound request rows (Inl e, [], rows)"
  by (simp_all add: sound_def current_row_def)

lemma sound_waits:
  assumes "current_row request rows row" and "stage_row stage = Some row"
    and "\<forall>r. stage = Cleaning_Environment r \<longrightarrow> k_environment_ref r \<noteq> None" and "list_all (output_ok rows) outs"
  shows "sound request rows (Inr (Some stage), outs, rows)"
  using assms by (auto simp: sound_def current_row_def stage_ok_def)

lemma repository_sound:
  assumes "current_row request rows row" shows "sound request rows (repository_phase retry request row rows)"
  using assms sound_ended [OF assms]
  by (auto simp: repository_phase_def current_row_def frozen_from_def intro!: sound_waits)

lemma environment_sound:
  assumes "current_row request rows row" shows "sound request rows (environment_phase retry request row rows)"
  using assms repository_sound [OF assms]
  by (auto simp: environment_phase_def current_row_def intro!: sound_waits split: option.splits)

lemma sound_writes:
  assumes "current_row request rows old" and "writes (cq_runId request) rows row rows'"
    and "k_environment_ref old \<noteq> None \<or> k_environment_state row = k_environment_state old"
    and "stage_row stage = Some row" and "\<forall>r. stage \<noteq> Cleaning_Environment r" and "list_all (output_ok rows') outs"
  shows "sound request rows (Inr (Some stage), outs, rows')"
  using assms frozen_from_evolves [of old row request]
  by (auto simp: sound_def current_row_def stage_ok_def writes_def)

lemma written_row: "writes run rows row rows' \<Longrightarrow> cleanup_of run rows' = Some row"
  by (auto simp: writes_def)

lemma written_run: "writes run rows row rows' \<Longrightarrow> k_run_id row = run"
  using cleanups.lookup_key [of run _ row] by (fastforce dest: written_row)

lemma harness_sound:
  assumes "current_row request rows row" shows "sound request rows (harness_phase now retry request row rows)"
proof (cases "k_harness_state row \<in> {Harness_Retained, Harness_Retiring} \<or> (retry \<and> k_harness_state row = Harness_Unavailable)")
  case True
  show ?thesis
  proof (cases "updateHarness now (cq_runId request) Harness_Retiring None rows")
    case (Inr x)
    obtain row1 rows1 where x: "x = (row1, rows1)" by (cases x)
    from updateHarness_writes [OF Inr [unfolded x]] have w: "writes (cq_runId request) rows row1 rows1"
      "k_harness_state row1 = Harness_Retiring" "k_environment_state row1 = k_environment_state row"
      using assms by (auto simp: current_row_def)
    show ?thesis
      using True Inr x w written_row [OF w(1)] by (auto simp: harness_phase_def intro!: sound_writes [OF assms])
  qed (use True sound_failed [OF assms] in \<open>simp add: harness_phase_def\<close>)
qed (use environment_sound [OF assms] in \<open>auto simp: harness_phase_def\<close>)

lemma host_sound:
  assumes "current_row request rows row" shows "sound request rows (host_phase now host_ok retry request row rows)"
proof (cases host_ok)
  case False
  show ?thesis
  proof (cases "updateHostRepository now (cq_runId request) Host_Failed (Some host_refusal) rows")
    case (Inr x)
    obtain row1 rows1 where x: "x = (row1, rows1)" by (cases x)
    from updateHost_writes [OF Inr [unfolded x]] have w: "writes (cq_runId request) rows row1 rows1"
      "k_environment_state row1 = k_environment_state row"
      using assms by (auto simp: current_row_def)
    show ?thesis
      using False Inr x w written_row [OF w(1)] written_run [OF w(1)]
      by (auto simp: host_phase_def intro!: sound_writes [OF assms])
  qed (use False sound_failed [OF assms] in \<open>simp add: host_phase_def\<close>)
qed (use harness_sound [OF assms] in \<open>simp add: host_phase_def\<close>)

lemma reports_sound:
  assumes "current_row request rows old"
    and "\<And>row rows'. written = Inr (row, rows') \<Longrightarrow> writes (cq_runId request) rows row rows' \<and>
      (k_environment_ref old \<noteq> None \<or> k_environment_state row = k_environment_state old)"
    and "\<And>row. stage_row (stage row) = Some row" and "\<And>row r. stage row \<noteq> Cleaning_Environment r"
  shows "sound request rows (reports stage written rows)"
proof (cases written)
  case (Inr x)
  obtain row rows' where x: "x = (row, rows')" by (cases x)
  have w: "writes (cq_runId request) rows row rows'" "k_environment_ref old \<noteq> None \<or> k_environment_state row = k_environment_state old"
    using assms(2) Inr x by blast+
  show ?thesis
    using Inr x assms(3,4) written_row [OF w(1)] written_run [OF w(1)]
    by (auto simp: reports_def intro!: sound_writes [OF assms(1) w])
qed (use sound_failed [OF assms(1)] in \<open>simp add: reports_def\<close>)

text \<open>The record that is frozen.\<close>

lemma begin_existing:
  assumes "begin_cleanup now request targets ref absence rows = Inr (row, rows')" and "cleanup_of (cq_runId request) rows = Some existing"
  shows "row = existing \<and> rows' = rows \<and> frozen_from request row"
  using assms cleanups.lookup_key [OF assms(2)]
  by (auto simp: begin_cleanup_def assertIdentity_def frozen_from_def ensure_eq_Inr elim!: bind_result_InrE)

lemma begin_new:
  assumes "begin_cleanup now request targets ref (Some absence) rows = Inr (row, rows')" and "cleanup_of (cq_runId request) rows = None"
  shows "rows' = rows @ [row] \<and> current_row request rows' row \<and> k_environment_ref row = ref \<and>
    k_environment_absence_proven row = absence \<and> (\<forall>x. x \<noteq> cq_runId request \<longrightarrow> cleanup_of x rows' = cleanup_of x rows)"
  using assms
  by (auto simp: begin_cleanup_def Let_def new_cleanup_def current_row_def cleanup_of_def lookup_row_append row_ok_def
      frozen_from_def elim!: bind_result_InrE split: if_splits option.splits)
    (erule normalized_again)+

lemma freeze_sound:
  assumes none: "cleanup_of (cq_runId request) rows = None"
  shows "sound request rows (freeze_continues now found targets request rows)"
proof -
  let ?ref = "case found of Inl _ \<Rightarrow> None | Inr ref \<Rightarrow> ref" and ?absence = "case found of Inl _ \<Rightarrow> False | Inr ref \<Rightarrow> ref = None"
  have refused: "sound request rows (Inl e, [], rows)" for e using none by (simp add: sound_def)
  show ?thesis
  proof (cases "begin_cleanup now request targets ?ref (Some ?absence) rows")
    case (Inl e)
    then show ?thesis using refused by (cases found) (auto simp: freeze_continues_def)
  next
    case (Inr x)
    obtain row rows1 where x: "x = (row, rows1)" by (cases x)
    from begin_new [OF Inr [unfolded x] none] have new: "current_row request rows1 row" "k_environment_ref row = ?ref"
      "k_environment_absence_proven row = ?absence"
      "\<And>y. y \<noteq> cq_runId request \<Longrightarrow> cleanup_of y rows1 = cleanup_of y rows" by auto
    have whole: "sound request rows y" if "sound request rows1 y" for y
      using that none new(4) by (auto simp: sound_def)
    show ?thesis
    proof (cases found)
      case found: (Inr ref)
      have "sound request rows1 (Inr (Some (Reporting_Frozen row)), [Report_Cleanup row], rows1)"
        using new(1) by (intro sound_waits [OF new(1)]) (auto simp: current_row_def frozen_from_def)
      then show ?thesis
        using found Inr x whole by (simp add: freeze_continues_def)
    next
      case found: (Inl u)
      have failed: "k_environment_state row = Env_Failed" using new found by (simp add: current_row_def row_ok_def)
      have "sound request rows1 (reports Reporting_Frozen
          (updateEnvironment now (cq_runId request) Env_Failed (Some identity_unavailable) rows1) rows1)"
        using updateEnvironment_writes failed by (intro reports_sound [OF new(1)]) fastforce+
      then show ?thesis
        using found Inr x whole refused
        by (auto simp: freeze_continues_def reports_def split: sum.splits)
    qed
  qed
qed

lemma begins_sound:
  assumes "\<And>row. cleanup_of (cq_runId request) rows = Some row \<Longrightarrow> row_ok row"
  shows "sound request rows (advance_begins now idle identity_ok host_ok targets retry request rows)"
proof (cases "cleanup_of (cq_runId request) rows")
  case None
  then show ?thesis by (auto simp: advance_begins_def sound_def stage_ok_def split: option.splits)
next
  case (Some row)
  have refused: "sound request rows (Inl e, [], rows)" for e by (rule sound_refused) (rule assms)
  show ?thesis
  proof (cases "begin_cleanup now request (k_harness_targets row) (k_environment_ref row)
      (Some (k_environment_absence_proven row)) rows")
    case (Inl e)
    then show ?thesis using Some refused by (simp add: advance_begins_def)
  next
    case (Inr x)
    then have x: "x = (row, rows)" "frozen_from request row" using begin_existing [OF _ Some] by (cases x; auto)+
    then have "current_row request rows row" using Some assms by (simp add: current_row_def)
    then show ?thesis using Some Inr x(1) host_sound refused by (simp add: advance_begins_def)
  qed
qed

lemma sound_stays:
  assumes "stage_ok request rows stage" and "\<And>row. cleanup_of (cq_runId request) rows = Some row \<Longrightarrow> row_ok row"
  shows "sound request rows (Inr (Some stage), [], rows)" "sound request rows (Inl e, [], rows)" "sound request rows (Inr None, [], rows)"
  using assms by (auto simp: sound_def)

lemma writes_same_environment:
  assumes "cleanup_of run rows = Some row"
  shows "updateHarness now run state i rows = Inr (row1, rows1) \<Longrightarrow>
      writes run rows row1 rows1 \<and> (k_environment_ref row \<noteq> None \<or> k_environment_state row1 = k_environment_state row)"
    and "updateHostRepository now run host i rows = Inr (row1, rows1) \<Longrightarrow> host \<noteq> Host_Retained \<Longrightarrow>
      writes run rows row1 rows1 \<and> (k_environment_ref row \<noteq> None \<or> k_environment_state row1 = k_environment_state row)"
  using updateHarness_writes updateHost_writes assms by blast+

lemma continues_sound:
  assumes ok: "stage_ok (co_request op) rows (co_stage op)"
    and rows: "\<And>row. cleanup_of (op_run op) rows = Some row \<Longrightarrow> row_ok row"
  shows "sound (co_request op) rows (advance_continues now host_ok answer op rows)"
proof -
  let ?request = "co_request op" and ?run = "cq_runId (co_request op)"
  have rows': "\<And>row. cleanup_of ?run rows = Some row \<Longrightarrow> row_ok row" using rows by (simp add: op_run_def)
  note stays = sound_stays [OF ok rows']
  have current: "current_row ?request rows row" if "stage_row (co_stage op) = Some row" for row
    using ok rows' that by (simp add: stage_ok_def current_row_def)
  have looked: "cleanup_of ?run rows = None" if "co_stage op = Looking_Up targets" for targets
    using ok that by (simp add: stage_ok_def)
  have harness: "sound ?request rows (reports Reporting_Harness (updateHarness now ?run state i rows) rows)"
    if "co_stage op = Closing_Harness row" for row state i
  proof (rule reports_sound [OF current])
    show row: "stage_row (co_stage op) = Some row" using that by simp
    have stored: "cleanup_of ?run rows = Some row" using current [OF row] by (simp add: current_row_def)
    show "writes ?run rows row1 rows1 \<and> (k_environment_ref row \<noteq> None \<or> k_environment_state row1 = k_environment_state row)"
      if "updateHarness now ?run state i rows = Inr (row1, rows1)" for row1 rows1
      by (rule writes_same_environment(1) [OF stored that])
  qed auto
  have environment: "sound ?request rows (reports Reporting_Environment (updateEnvironment now ?run state i rows) rows)"
    if "co_stage op = Cleaning_Environment row" for row state i
  proof (rule reports_sound [OF current])
    show "stage_row (co_stage op) = Some row" using that by simp
    have "k_environment_ref row \<noteq> None" using ok that by (simp add: stage_ok_def)
    then show "writes ?run rows row1 rows1 \<and> (k_environment_ref row \<noteq> None \<or> k_environment_state row1 = k_environment_state row)"
      if "updateEnvironment now ?run state i rows = Inr (row1, rows1)" for row1 rows1
      using updateEnvironment_writes [OF that] by blast
  qed auto
  have host: "sound ?request rows (reports Reporting_Repository (updateHostRepository now ?run state i rows) rows)"
    if stage: "co_stage op = Removing_Repository row" "state \<noteq> Host_Retained" for row state i
  proof (rule reports_sound [OF current])
    show row: "stage_row (co_stage op) = Some row" using stage by simp
    have stored: "cleanup_of ?run rows = Some row" using current [OF row] by (simp add: current_row_def)
    show "writes ?run rows row1 rows1 \<and> (k_environment_ref row \<noteq> None \<or> k_environment_state row1 = k_environment_state row)"
      if "updateHostRepository now ?run state i rows = Inr (row1, rows1)" for row1 rows1
      by (rule writes_same_environment(2) [OF stored that stage(2)])
  qed auto
  note phases = freeze_sound host_sound environment_sound repository_sound
  show ?thesis
    unfolding advance_continues_def Let_def
    using stays current looked harness environment host phases
    by (cases "co_stage op"; cases answer) (auto split: bool.splits)
qed

section \<open>Histories\<close>

definition cleanup_inv :: "cleanup_state \<Rightarrow> bool" where
  "cleanup_inv s \<longleftrightarrow> (\<forall>run row. cleanup_of run (cs_rows s) = Some row \<longrightarrow> row_ok row) \<and>
     distinct (map op_run (cs_operations s)) \<and>
     (\<forall>op \<in> set (cs_operations s). stage_ok (co_request op) (cs_rows s) (co_stage op))"

definition step_sound :: "cleanup_state \<Rightarrow> cleanup_output list \<Rightarrow> cleanup_state \<Rightarrow> bool" where
  "step_sound s outs s' \<longleftrightarrow> cleanup_inv s' \<and> list_all (output_ok (cs_rows s')) outs \<and>
     rows_evolve cleanup_of cleanup_evolves (cs_rows s) (cs_rows s')"

lemma after_sound:
  assumes inv: "cleanup_inv s" and x: "sound (co_request op) (cs_rows s) x" and "after_stretch op x s = (outs, s')"
  shows "step_sound s outs s'"
proof -
  obtain r news rows where x_def: "x = (r, news, rows)" by (cases x)
  let ?others = "filter (\<lambda>o1. op_run o1 \<noteq> op_run op) (cs_operations s)"
  have same: "cleanup_of run rows = cleanup_of run (cs_rows s)" if "run \<noteq> op_run op" for run
    using x that by (auto simp: x_def sound_def op_run_def)
  have ok: "row_ok row" if "cleanup_of run rows = Some row" for run row
    using x that inv same by (cases "run = op_run op") (auto simp: x_def sound_def op_run_def cleanup_inv_def)
  have others: "stage_ok (co_request o1) rows (co_stage o1)" if "o1 \<in> set ?others" for o1
    using inv that same [of "op_run o1"] by (auto simp: cleanup_inv_def stage_ok_def op_run_def)
  have distinct: "distinct (map op_run ?others)" using inv by (simp add: cleanup_inv_def distinct_map_filter)
  have evolve: "rows_evolve cleanup_of cleanup_evolves (cs_rows s) rows"
    unfolding rows_evolve_def
  proof (intro allI impI)
    fix run row assume "cleanup_of run (cs_rows s) = Some row"
    then show "\<exists>row'. cleanup_of run rows = Some row' \<and> cleanup_evolves row row'"
      using x same [of run] by (cases "run = op_run op") (auto simp: x_def sound_def op_run_def)
  qed
  have news: "list_all (output_ok rows) news" using x by (simp add: x_def sound_def)
  have stage: "stage_ok (co_request op) rows stage" if "r = Inr (Some stage)" for stage
    using x that by (simp add: x_def sound_def)
  have op: "op_run (op\<lparr>co_stage := stage\<rparr>) = op_run op" for stage by (simp add: op_run_def)
  show ?thesis
    using assms(3) ok others distinct evolve news stage op
    by (auto simp: x_def after_stretch_def Let_def step_sound_def cleanup_inv_def split: sum.splits option.splits)
qed

lemma cleanup_step_sound:
  assumes "cleanup_step s outs s'" and "cleanup_inv s"
  shows "step_sound s outs s'"
  using assms(1)
proof (cases rule: cleanup_step.cases)
  case (request now idle identity_ok host_ok targets request retry)
  show ?thesis
  proof (cases "List.find (\<lambda>op. op_run op = cq_runId request) (cs_operations s) = None")
    case True
    have "sound request (cs_rows s) (advance_begins now idle identity_ok host_ok targets retry request (cs_rows s))"
      using assms(2) by (intro begins_sound) (auto simp: cleanup_inv_def)
    then show ?thesis
      using request True by (intro after_sound [OF assms(2)]) (auto simp: request_cleanup_def)
  next
    case False
    then show ?thesis
      using request assms(2) by (auto simp: request_cleanup_def step_sound_def rows_evolve_def)
  qed
next
  case (continues op now host_ok answer)
  have "sound (co_request op) (cs_rows s) (advance_continues now host_ok answer op (cs_rows s))"
    using assms(2) continues(1) by (intro continues_sound) (auto simp: cleanup_inv_def)
  then show ?thesis using continues(2) after_sound [OF assms(2)] by (simp add: continue_cleanup_def)
next
  case restart
  then show ?thesis using assms(2) by (auto simp: step_sound_def cleanup_inv_def rows_evolve_def)
qed

lemma cleanup_run_inv: "cleanup_run s outs s' \<Longrightarrow> cleanup_inv s \<Longrightarrow> cleanup_inv s'"
  by (induction rule: cleanup_run.induct) (auto dest: cleanup_step_sound simp: step_sound_def)

lemma no_cleanups_inv: "cleanup_inv no_cleanups"
  by (simp add: cleanup_inv_def no_cleanups_def cleanup_of_def)

end
