(* ===== verification/Cleanup_Histories.thy ===== *)
theory Cleanup_Histories
  imports Run_Cleanup_Properties
begin

text \<open>
  The properties of Run cleanups: the order of the destructive effects over a whole history, the frozen records,
  what an unresolved environment blocks, and that one request whose dependencies succeed completes its cleanup.
\<close>

section \<open>Effects in order\<close>

text \<open>The destructive effects of a Run in a history: 0 closes targets, 1 cleans an environment, 2 removes the repository.\<close>

fun effect_rank :: "string \<Rightarrow> cleanup_output \<Rightarrow> nat list" where
  "effect_rank run (Close_Targets r targets) = (if r = run then [0] else [])"
| "effect_rank run (Clean_Environment r ref) = (if r = run then [1] else [])"
| "effect_rank run (Remove_Repository r worktree) = (if r = run then [2] else [])"
| "effect_rank run (Report_Cleanup row) = []"
| "effect_rank run (Cleanup_Ended r e) = []"

definition effects :: "string \<Rightarrow> cleanup_output list \<Rightarrow> nat list" where
  "effects run outs = concat (map (effect_rank run) outs)"

lemma effects_simps [simp]:
  "effects run [] = []" "effects run (x # outs) = effect_rank run x @ effects run outs"
  "effects run (outs @ outs') = effects run outs @ effects run outs'"
  by (simp_all add: effects_def)

lemma effect_close: "0 \<in> set (effects run outs) \<longleftrightarrow> (\<exists>targets. Close_Targets run targets \<in> set outs)"
proof (induction outs)
  case (Cons x outs)
  then show ?case by (cases x) auto
qed simp

lemma effect_clean: "Suc 0 \<in> set (effects run outs) \<longleftrightarrow> (\<exists>ref. Clean_Environment run ref \<in> set outs)"
proof (induction outs)
  case (Cons x outs)
  then show ?case by (cases x) auto
qed simp

lemma effect_ranks: "k \<in> set (effects run outs) \<Longrightarrow> k = 0 \<or> k = Suc 0 \<or> k = 2"
proof (induction outs)
  case (Cons x outs)
  then show ?case by (cases x) (auto split: if_splits)
qed simp

lemma effect_remove: "2 \<in> set (effects run outs) \<longleftrightarrow> (\<exists>worktree. Remove_Repository run worktree \<in> set outs)"
proof (induction outs)
  case (Cons x outs)
  then show ?case by (cases x) auto
qed simp

definition one_effect :: "stretch \<Rightarrow> bool" where
  "one_effect x \<longleftrightarrow> (\<forall>run. length (effects run (fst (snd x))) \<le> 1)"

lemma repository_one: "one_effect (repository_phase retry request row rows)"
  by (simp add: one_effect_def repository_phase_def)

lemma environment_one: "one_effect (environment_phase retry request row rows)"
  using repository_one by (auto simp: one_effect_def environment_phase_def split: option.splits)

lemma harness_one: "one_effect (harness_phase now retry request row rows)"
  using environment_one by (auto simp: one_effect_def harness_phase_def split: sum.splits)

lemma host_one: "one_effect (host_phase now host_ok retry request row rows)"
  using harness_one by (auto simp: one_effect_def host_phase_def split: sum.splits)

lemma freeze_one: "one_effect (freeze_continues now found targets request rows)"
  by (auto simp: one_effect_def freeze_continues_def Let_def split: sum.splits prod.splits)

lemma reports_one: "one_effect (reports stage written rows)"
  by (auto simp: one_effect_def reports_def split: sum.splits)

lemma begins_one: "one_effect (advance_begins now idle identity_ok host_ok targets retry request rows)"
  using host_one by (auto simp: one_effect_def advance_begins_def split: option.splits sum.splits)

lemma quiet_one: "one_effect (r, [], rows)"
  by (simp add: one_effect_def)

lemma continues_one: "one_effect (advance_continues now host_ok answer op rows)"
  unfolding advance_continues_def Let_def
  using freeze_one reports_one host_one environment_one repository_one quiet_one
  by (cases "co_stage op"; cases answer) (simp_all split: bool.split)

lemma after_one: "after_stretch op x s = (outs, s') \<Longrightarrow> one_effect x \<Longrightarrow> length (effects run outs) \<le> 1"
  by (cases x) (auto simp: after_stretch_def one_effect_def Let_def split: sum.splits option.splits)

lemma step_one_effect: "cleanup_step s outs s' \<Longrightarrow> length (effects run outs) \<le> 1"
  by (erule cleanup_step.cases)
    (auto simp: request_cleanup_def continue_cleanup_def split: if_splits dest: after_one [OF _ begins_one] after_one [OF _ continues_one])

text \<open>What an effect names is what the record froze, and the resources before it are gone for good.\<close>

fun output_kept :: "cleanup_row list \<Rightarrow> cleanup_output \<Rightarrow> bool" where
  "output_kept rows (Close_Targets run targets) \<longleftrightarrow> (\<exists>r. cleanup_of run rows = Some r \<and> k_harness_targets r = targets)"
| "output_kept rows (Clean_Environment run ref) \<longleftrightarrow>
     (\<exists>r. cleanup_of run rows = Some r \<and> k_environment_ref r = Some ref \<and> k_harness_state r = Harness_Retired)"
| "output_kept rows (Remove_Repository run worktree) \<longleftrightarrow>
     (\<exists>r. cleanup_of run rows = Some r \<and> k_worktree_id r = worktree \<and> k_harness_state r = Harness_Retired \<and>
        k_environment_state r = Env_Removed)"
| "output_kept rows (Report_Cleanup r) \<longleftrightarrow> True"
| "output_kept rows (Cleanup_Ended run e) \<longleftrightarrow> True"

lemma output_ok_kept: "output_ok rows x \<Longrightarrow> output_kept rows x"
  by (cases x) auto

lemma output_kept_evolves:
  assumes "output_kept rows x" and "rows_evolve cleanup_of cleanup_evolves rows rows'"
  shows "output_kept rows' x"
  using assms by (cases x) (fastforce simp: rows_evolve_def cleanup_evolves_def frozen_columns_def)+

lemma run_kept:
  assumes "cleanup_run s outs s'" and "cleanup_inv s"
  shows "list_all (output_kept (cs_rows s')) outs"
  using assms
proof (induction rule: cleanup_run.induct)
  case (extend s outs t new u)
  have "step_sound t new u" using extend cleanup_run_inv cleanup_step_sound by blast
  then show ?case
    using extend by (auto simp: step_sound_def list_all_iff intro: output_kept_evolves output_ok_kept)
qed simp

lemma run_sorted:
  assumes "cleanup_run s outs s'" and "cleanup_inv s"
  shows "sorted (effects run outs)"
  using assms
proof (induction rule: cleanup_run.induct)
  case (extend s outs t new u)
  have sound: "step_sound t new u" using extend cleanup_run_inv cleanup_step_sound by blast
  have kept: "list_all (output_kept (cs_rows u)) (outs @ new)"
    using run_kept [OF cleanup_run.extend [OF extend.hyps] extend.prems] .
  have old: "output_kept (cs_rows u) x" if "x \<in> set outs" for x using kept that by (simp add: list_all_iff)
  have new: "output_ok (cs_rows u) x" if "x \<in> set new" for x using sound that by (simp add: step_sound_def list_all_iff)
  have "k \<le> l" if kl: "k \<in> set (effects run outs)" "l \<in> set (effects run new)" for k l
    using effect_ranks [OF kl(1)] effect_ranks [OF kl(2)]
  proof (elim disjE)
    assume k: "k = Suc 0" "l = 0"
    then obtain ref targets where "Clean_Environment run ref \<in> set outs" "Close_Targets run targets \<in> set new"
      using kl effect_clean effect_close by auto
    from old [OF this(1)] new [OF this(2)] show ?thesis by auto
  next
    assume k: "k = 2" "l = 0"
    then obtain worktree targets where "Remove_Repository run worktree \<in> set outs" "Close_Targets run targets \<in> set new"
      using kl effect_remove effect_close by auto
    from old [OF this(1)] new [OF this(2)] show ?thesis by auto
  next
    assume k: "k = 2" "l = Suc 0"
    then obtain worktree ref where "Remove_Repository run worktree \<in> set outs" "Clean_Environment run ref \<in> set new"
      using kl effect_remove effect_clean by auto
    from old [OF this(1)] new [OF this(2)] show ?thesis by auto
  qed simp_all
  moreover have "sorted (effects run new)" using step_one_effect [OF extend.hyps(2), of run]
    by (cases "effects run new") auto
  ultimately show ?case using extend by (simp add: sorted_append)
qed simp

lemma run_evolves:
  assumes "cleanup_run s outs s'" and "cleanup_inv s"
  shows "rows_evolve cleanup_of cleanup_evolves (cs_rows s) (cs_rows s')"
  using assms
proof (induction rule: cleanup_run.induct)
  case (extend s outs t new u)
  then have "step_sound t new u" using cleanup_run_inv cleanup_step_sound by blast
  then show ?case
    using extend rows_evolve_trans [OF _ _ transp_cleanup_evolves] by (fastforce simp: step_sound_def)
qed (simp add: rows_evolve_def)

section \<open>Completion\<close>

definition removed :: "string \<Rightarrow> cleanup_state \<Rightarrow> bool" where
  "removed run s \<longleftrightarrow> (\<exists>r. cleanup_of run (cs_rows s) = Some r \<and> k_harness_state r = Harness_Retired \<and>
     k_environment_state r = Env_Removed \<and> k_host_state r = Host_Removed)"

text \<open>
  An operation is served when what it waits for succeeds: the answer of each stage, one after another, with
  any readings of the clock and without another request. An operation that has ended is not served again.
\<close>

fun successful :: "environment_ref option \<Rightarrow> cleanup_stage \<Rightarrow> cleanup_answer" where
  "successful ref (Looking_Up targets) = Looked_Up ref"
| "successful ref (Closing_Harness row) = Targets_Closed True None"
| "successful ref (Cleaning_Environment row) = Environment_Outcome Env_Removed None"
| "successful ref (Removing_Repository row) = Repository_Outcome True None"
| "successful ref stage = Reported True"

definition operation_of :: "string \<Rightarrow> cleanup_state \<Rightarrow> cleanup_operation option" where
  "operation_of run s = List.find (\<lambda>op. op_run op = run) (cs_operations s)"

definition serve_once :: "environment_ref option \<Rightarrow> string \<Rightarrow> string \<Rightarrow> cleanup_state \<Rightarrow> cleanup_state" where
  "serve_once ref run now s =
     (case operation_of run s of
        None \<Rightarrow> s
      | Some op \<Rightarrow> snd (continue_cleanup now True (successful ref (co_stage op)) op s))"

fun serve :: "environment_ref option \<Rightarrow> string \<Rightarrow> string list \<Rightarrow> cleanup_state \<Rightarrow> cleanup_state" where
  "serve ref run [] s = s"
| "serve ref run (now # clock) s = serve ref run clock (serve_once ref run now s)"

lemma run_append: "cleanup_run t new u \<Longrightarrow> cleanup_run s outs t \<Longrightarrow> cleanup_run s (outs @ new) u"
proof (induction arbitrary: outs rule: cleanup_run.induct)
  case (extend t xs u new v)
  then show ?case using cleanup_run.extend by (metis append.assoc)
qed simp

lemma serve_is_run: "\<exists>outs. cleanup_run s outs (serve ref run clock s)"
proof (induction clock arbitrary: s)
  case Nil
  show ?case by (auto intro: cleanup_run.start)
next
  case (Cons now clock)
  have "\<exists>outs. cleanup_run s outs (serve_once ref run now s)"
  proof (cases "operation_of run s")
    case None
    then show ?thesis by (auto simp: serve_once_def intro: cleanup_run.start)
  next
    case (Some op)
    then have "op \<in> set (cs_operations s)" by (auto simp: operation_of_def find_Some_iff)
    then have "cleanup_step s (fst (continue_cleanup now True (successful ref (co_stage op)) op s)) (serve_once ref run now s)"
      using Some by (intro cleanup_step.continues) (simp_all add: serve_once_def)
    then show ?thesis using cleanup_run.extend [OF cleanup_run.start] by blast
  qed
  with Cons.IH show ?case using run_append by (metis serve.simps(2))
qed

text \<open>The Run is cleaned up and its operation is over after at most \<open>n\<close> answers.\<close>

definition completes :: "environment_ref option \<Rightarrow> nat \<Rightarrow> string \<Rightarrow> cleanup_state \<Rightarrow> bool" where
  "completes ref n run s \<longleftrightarrow>
     (\<forall>clock. n \<le> length clock \<longrightarrow> removed run (serve ref run clock s) \<and> operation_of run (serve ref run clock s) = None)"

lemma completes_mono: "completes ref n run s \<Longrightarrow> n \<le> m \<Longrightarrow> completes ref m run s"
  by (simp add: completes_def)

lemma serve_idle: "operation_of run s = None \<Longrightarrow> serve ref run clock s = s"
  by (induction clock) (simp_all add: serve_once_def)

lemma completes_now: "removed run s \<Longrightarrow> operation_of run s = None \<Longrightarrow> completes ref n run s"
  by (simp add: completes_def serve_idle)

lemma operation_after [simp]:
  "operation_of (op_run op) (snd (after_stretch op (Inr (Some stage), outs, rows) s)) = Some (op\<lparr>co_stage := stage\<rparr>)"
  "operation_of (op_run op) (snd (after_stretch op (Inr None, outs, rows) s)) = None"
proof -
  have none: "List.find (\<lambda>x. op_run x = op_run op) (filter (\<lambda>x. op_run x \<noteq> op_run op) xs) = None" for xs
    by (simp add: find_None_iff)
  have some: "List.find P (xs @ [x]) = (case List.find P xs of None \<Rightarrow> if P x then Some x else None | Some y \<Rightarrow> Some y)" for P xs x
    by (induction xs) auto
  show "operation_of (op_run op) (snd (after_stretch op (Inr (Some stage), outs, rows) s)) = Some (op\<lparr>co_stage := stage\<rparr>)"
    "operation_of (op_run op) (snd (after_stretch op (Inr None, outs, rows) s)) = None"
    using none by (simp_all add: operation_of_def after_stretch_def some op_run_def)
qed

text \<open>An operation that waits completes if it completes after the answer.\<close>

lemma completes_waits:
  assumes "\<And>now t. completes ref n (op_run op) (snd (after_stretch (op\<lparr>co_stage := stage\<rparr>)
      (advance_continues now True (successful ref stage) (op\<lparr>co_stage := stage\<rparr>) rows) t))"
  shows "completes ref (Suc n) (op_run op) (snd (after_stretch op (Inr (Some stage), outs, rows) s))"
  unfolding completes_def
proof (intro allI impI)
  let ?t = "snd (after_stretch op (Inr (Some stage), outs, rows) s)"
  fix clock :: "string list"
  assume "Suc n \<le> length clock"
  then obtain now later where clock: "clock = now # later" "n \<le> length later" by (cases clock) auto
  have rows: "cs_rows ?t = rows" by (simp add: after_stretch_def)
  have "serve_once ref (op_run op) now ?t = snd (after_stretch (op\<lparr>co_stage := stage\<rparr>)
      (advance_continues now True (successful ref stage) (op\<lparr>co_stage := stage\<rparr>) rows) ?t)"
    by (simp add: serve_once_def continue_cleanup_def rows)
  with clock assms [of now ?t] show "removed (op_run op) (serve ref (op_run op) clock ?t) \<and>
      operation_of (op_run op) (serve ref (op_run op) clock ?t) = None"
    by (simp add: completes_def)
qed

text \<open>A write that succeeds is reported, and the phase after the report goes on with the record written.\<close>

lemma completes_reports:
  assumes "written = Inr (row, rows1)" and "awaits_report (stage row)"
    and "\<And>now t. completes ref n (op_run op) (snd (after_stretch (op\<lparr>co_stage := stage row\<rparr>)
      (advance_continues now True (Reported True) (op\<lparr>co_stage := stage row\<rparr>) rows1) t))"
  shows "completes ref (Suc n) (op_run op) (snd (after_stretch op (reports stage written rows) s))"
proof -
  have "successful ref (stage row) = Reported True" using assms(2) by (cases "stage row") simp_all
  then show ?thesis using assms(1,3) by (simp add: reports_def completes_waits)
qed

lemma removed_ends:
  "removed (op_run op) (s\<lparr>cs_rows := rows\<rparr>) \<Longrightarrow> completes ref n (op_run op) (snd (after_stretch op (Inr None, outs, rows) s))"
  by (rule completes_now, simp add: removed_def after_stretch_def, rule operation_after)

lemma updated_row:
  assumes "cleanup_of run rows = Some row" and "\<And>r. k_run_id (f r) = k_run_id r"
  shows "stored_cleanup run (update_cleanup run f rows) = Inr (f row, update_cleanup run f rows)"
    "cleanup_of run (update_cleanup run f rows) = Some (f row)"
  using assms by (simp_all add: stored_cleanup_def required_cleanup_def cleanups.lookup_update)

lemma op_run_stage [simp]: "op_run (op\<lparr>co_stage := st\<rparr>) = op_run op"
  by (simp add: op_run_def)

lemma repository_completes:
  assumes row: "cleanup_of (op_run op) rows = Some row" "k_harness_state row = Harness_Retired"
      "k_environment_state row = Env_Removed" "k_host_state row \<noteq> Host_Retained"
    and op: "co_retryFailures op"
  shows "completes ref 2 (op_run op) (snd (after_stretch op (repository_phase True (co_request op) row rows) s))"
proof (cases "k_host_state row = Host_Removed")
  case True
  then show ?thesis using row by (simp add: repository_phase_def removed_ends removed_def)
next
  case False
  let ?run = "cq_runId (co_request op)"
  let ?f = "\<lambda>now r. r\<lparr>k_host_state := Host_Removed, k_host_issue := None, k_updated_at := now\<rparr>"
  have run: "op_run op = ?run" by (simp add: op_run_def)
  note updated = updated_row [OF row(1) [unfolded run], of "?f now" for now]
  have upd: "updateHostRepository now ?run Host_Removed None rows = Inr (?f now row, update_cleanup ?run (?f now) rows)" for now
    using row updated [of now] by (simp add: updateHostRepository_def required_cleanup_def run)
  have "completes ref 0 (op_run op) (snd (after_stretch (op\<lparr>co_stage := Reporting_Repository (?f now row)\<rparr>)
      (Inr None, [], update_cleanup ?run (?f now) rows) t))" for now t
    using removed_ends [of "op\<lparr>co_stage := Reporting_Repository (?f now row)\<rparr>"] row updated [of now] run
    by (simp add: removed_def)
  then have "completes ref (Suc 0) (op_run op) (snd (after_stretch (op\<lparr>co_stage := Removing_Repository row\<rparr>)
      (reports Reporting_Repository (updateHostRepository now ?run Host_Removed None rows) rows) t))" for now t
    using completes_reports [where stage = Reporting_Repository and ref = ref and n = 0 and op = "op\<lparr>co_stage := Removing_Repository row\<rparr>", OF upd]
    by (simp add: advance_continues_def)
  then have "completes ref (Suc (Suc 0)) (op_run op)
      (snd (after_stretch op (Inr (Some (Removing_Repository row)), [Remove_Repository ?run (cq_worktreeId (co_request op))], rows) s))"
    by (intro completes_waits) (simp add: advance_continues_def)
  moreover have "k_host_state row = Host_Requested \<or> k_host_state row = Host_Failed" using False row(4) by (cases "k_host_state row") auto
  ultimately show ?thesis using row by (auto simp: repository_phase_def numeral_2_eq_2)
qed

lemma environment_completes:
  assumes row: "cleanup_of (op_run op) rows = Some row" "k_harness_state row = Harness_Retired" "k_host_state row \<noteq> Host_Retained"
      "k_environment_ref row \<noteq> None \<or> k_environment_state row = Env_Removed"
    and op: "co_retryFailures op"
  shows "completes ref 4 (op_run op) (snd (after_stretch op (environment_phase True (co_request op) row rows) s))"
proof (cases "k_environment_state row = Env_Removed")
  case True
  then have "environment_phase True (co_request op) row rows = repository_phase True (co_request op) row rows"
    by (simp add: environment_phase_def split: option.split)
  then show ?thesis using completes_mono [OF repository_completes [OF row(1,2) True row(3) op], of 4] by simp
next
  case False
  then obtain env where env: "k_environment_ref row = Some env" using row(4) by auto
  let ?run = "cq_runId (co_request op)"
  let ?f = "\<lambda>now r. r\<lparr>k_environment_state := Env_Removed, k_environment_issue := None, k_updated_at := now\<rparr>"
  have run: "op_run op = ?run" by (simp add: op_run_def)
  note updated = updated_row [OF row(1) [unfolded run], of "?f now" for now]
  have upd: "updateEnvironment now ?run Env_Removed None rows = Inr (?f now row, update_cleanup ?run (?f now) rows)" for now
    using row updated [of now] by (simp add: updateEnvironment_def required_cleanup_def run)
  have "completes ref 2 (op_run op) (snd (after_stretch (op\<lparr>co_stage := st\<rparr>)
      (repository_phase True (co_request op) (?f now row) (update_cleanup ?run (?f now) rows)) t))" for st now t
    using repository_completes [of "op\<lparr>co_stage := st\<rparr>" _ "?f now row"] row updated [of now] op run by simp
  then have "completes ref (Suc 2) (op_run op) (snd (after_stretch (op\<lparr>co_stage := Cleaning_Environment row\<rparr>)
      (reports Reporting_Environment (updateEnvironment now ?run Env_Removed None rows) rows) t))" for now t
    using completes_reports [where stage = Reporting_Environment and ref = ref and n = 2 and op = "op\<lparr>co_stage := Cleaning_Environment row\<rparr>", OF upd] op
    by (simp add: advance_continues_def)
  then have "completes ref (Suc (Suc 2)) (op_run op)
      (snd (after_stretch op (Inr (Some (Cleaning_Environment row)), [Clean_Environment ?run env], rows) s))"
    by (intro completes_waits) (simp add: advance_continues_def)
  moreover have "environment_phase True (co_request op) row rows =
      (Inr (Some (Cleaning_Environment row)), [Clean_Environment ?run env], rows)"
    using False env row(2) by (cases "k_environment_state row") (auto simp: environment_phase_def)
  ultimately show ?thesis by simp
qed

lemma harness_completes:
  assumes row: "cleanup_of (op_run op) rows = Some row" "k_host_state row \<noteq> Host_Retained"
      "k_environment_ref row \<noteq> None \<or> k_environment_state row = Env_Removed"
    and op: "co_retryFailures op"
  shows "completes ref 6 (op_run op) (snd (after_stretch op (harness_phase now True (co_request op) row rows) s))"
proof (cases "k_harness_state row = Harness_Retired")
  case True
  then show ?thesis
    using completes_mono [OF environment_completes [OF row(1) True row(2,3) op], of 6] True by (simp add: harness_phase_def)
next
  case False
  let ?run = "cq_runId (co_request op)"
  let ?f = "\<lambda>state now r. r\<lparr>k_harness_state := state, k_harness_issue := None, k_updated_at := now\<rparr>"
  have run: "op_run op = ?run" by (simp add: op_run_def)
  let ?row1 = "?f Harness_Retiring now row" and ?rows1 = "update_cleanup ?run (?f Harness_Retiring now) rows"
  note one = updated_row [OF row(1) [unfolded run], of "?f Harness_Retiring now"]
  have row1: "cleanup_of ?run ?rows1 = Some ?row1" using one by simp
  let ?row2 = "\<lambda>now. ?f Harness_Retired now ?row1" and ?rows2 = "\<lambda>now. update_cleanup ?run (?f Harness_Retired now) ?rows1"
  note two = updated_row [OF row1, of "?f Harness_Retired now" for now]
  have upd1: "updateHarness now ?run Harness_Retiring None rows = Inr (?row1, ?rows1)"
    using row False one by (simp add: updateHarness_def required_cleanup_def run)
  have upd2: "updateHarness now' ?run Harness_Retired None ?rows1 = Inr (?row2 now', ?rows2 now')" for now'
    using row1 two [of now'] by (simp add: updateHarness_def required_cleanup_def)
  have "completes ref 4 (op_run op) (snd (after_stretch (op\<lparr>co_stage := st\<rparr>)
      (environment_phase True (co_request op) (?row2 now') (?rows2 now')) t))" for st now' t
    using environment_completes [of "op\<lparr>co_stage := st\<rparr>" "?rows2 now'" "?row2 now'"] row two [of now'] op run by simp
  then have "completes ref (Suc 4) (op_run op) (snd (after_stretch (op\<lparr>co_stage := Closing_Harness ?row1\<rparr>)
      (reports Reporting_Harness (updateHarness now' ?run Harness_Retired None ?rows1) ?rows1) t))" for now' t
    using completes_reports [where stage = Reporting_Harness and ref = ref and n = 4 and op = "op\<lparr>co_stage := Closing_Harness ?row1\<rparr>", OF upd2] op
    by (simp add: advance_continues_def)
  then have "completes ref (Suc (Suc 4)) (op_run op)
      (snd (after_stretch op (Inr (Some (Closing_Harness ?row1)), [Close_Targets ?run (k_harness_targets ?row1)], ?rows1) s))"
    by (intro completes_waits) (simp add: advance_continues_def)
  moreover have "harness_phase now True (co_request op) row rows =
      (Inr (Some (Closing_Harness ?row1)), [Close_Targets ?run (k_harness_targets ?row1)], ?rows1)"
    using False upd1 by (cases "k_harness_state row") (auto simp: harness_phase_def)
  ultimately show ?thesis by simp
qed

lemma host_completes:
  assumes "cleanup_of (op_run op) rows = Some row" "row_ok row" "k_environment_ref row \<noteq> None \<or> k_environment_absence_proven row"
    and "co_retryFailures op"
  shows "completes ref 6 (op_run op) (snd (after_stretch op (host_phase now True True (co_request op) row rows) s))"
  using assms by (auto simp: host_phase_def row_ok_def intro!: harness_completes split: option.splits)

lemma freeze_completes:
  assumes "cleanup_of (op_run op) rows = None" and "normalizeTargets targets = Inr ts" and op: "co_retryFailures op"
  shows "completes ref 7 (op_run op) (snd (after_stretch op (freeze_continues now (Inr ref) targets (co_request op) rows) s))"
proof -
  let ?row = "new_cleanup now (co_request op) ts ref (ref = None)"
  have row: "cleanup_of (op_run op) (rows @ [?row]) = Some ?row"
    using assms(1) by (simp add: cleanup_of_def lookup_row_append new_cleanup_def op_run_def)
  have ok: "row_ok ?row"
    using normalized_again [OF assms(2)] by (cases ref) (simp_all add: row_ok_def new_cleanup_def)
  have "completes ref 6 (op_run op) (snd (after_stretch (op\<lparr>co_stage := st\<rparr>)
      (host_phase now' True True (co_request op) ?row (rows @ [?row])) t))" for st now' t
    using host_completes [of "op\<lparr>co_stage := st\<rparr>" _ ?row] row ok op
    by (cases ref) (simp_all add: new_cleanup_def)
  then have "completes ref (Suc 6) (op_run op)
      (snd (after_stretch op (Inr (Some (Reporting_Frozen ?row)), [Report_Cleanup ?row], rows @ [?row]) s))"
    using op by (intro completes_waits) (simp add: advance_continues_def)
  moreover have "freeze_continues now (Inr ref) targets (co_request op) rows =
      (Inr (Some (Reporting_Frozen ?row)), [Report_Cleanup ?row], rows @ [?row])"
    using assms by (cases ref) (simp_all add: freeze_continues_def begin_cleanup_def op_run_def Let_def)
  ultimately show ?thesis by simp
qed

lemma request_completes:
  assumes inv: "cleanup_inv s" and idle: "operation_of (cq_runId request) s = None"
    and same: "case cleanup_of (cq_runId request) (cs_rows s) of
        None \<Rightarrow> (\<exists>ts. normalizeTargets targets = Inr ts)
      | Some r \<Rightarrow> k_worktree_id r = cq_worktreeId request \<and> k_workspace_binding_id r = cq_workspaceBindingId request \<and>
          k_identity_hash r = cq_identityHash request \<and> (k_environment_ref r \<noteq> None \<or> k_environment_absence_proven r)"
    and begins: "request_cleanup now True True True (Some targets) request True s = (outs, t)"
  shows "completes ref 8 (cq_runId request) t"
proof -
  let ?op = "\<lparr>co_request = request, co_retryFailures = True, co_stage = Looking_Up []\<rparr>"
  have op: "op_run ?op = cq_runId request" by (simp add: op_run_def)
  have t: "t = snd (after_stretch ?op (advance_begins now True True True (Some targets) True request (cs_rows s)) s)"
    using begins idle by (simp add: request_cleanup_def operation_of_def prod_eq_iff)
  show ?thesis
  proof (cases "cleanup_of (cq_runId request) (cs_rows s)")
    case None
    then obtain ts where ts: "normalizeTargets targets = Inr ts" using same by auto
    have "completes ref 7 (op_run ?op) (snd (after_stretch (?op\<lparr>co_stage := Looking_Up targets\<rparr>)
        (freeze_continues now' (Inr ref) targets request (cs_rows s)) u))" for now' u
      using freeze_completes [of "?op\<lparr>co_stage := Looking_Up targets\<rparr>" "cs_rows s" targets ts ref now' u] None ts op
      by (simp add: op_run_def)
    then have "completes ref (Suc 7) (op_run ?op) (snd (after_stretch ?op (Inr (Some (Looking_Up targets)), [], cs_rows s) s))"
      by (intro completes_waits) (simp add: advance_continues_def)
    then show ?thesis using None op by (simp add: t advance_begins_def)
  next
    case (Some r)
    then have "row_ok r" using inv by (simp add: cleanup_inv_def)
    then have "completes ref 6 (op_run ?op) t"
      using Some same host_completes [of ?op "cs_rows s" r ref now s] op
      by (simp add: t advance_begins_def begin_cleanup_def assertIdentity_def row_ok_def op_run_def)
    then show ?thesis unfolding op by (rule completes_mono) simp
  qed
qed

section \<open>An example\<close>

definition example_request :: cleanup_request where
  "example_request = \<lparr>cq_runId = ''run-1'', cq_worktreeId = ''wt-1'', cq_workspaceBindingId = ''b-1'', cq_identityHash = ''h''\<rparr>"

definition example_target :: cleanup_target where
  "example_target = \<lparr>tg_lineageId = ''l-1'', tg_harnessKind = ''pi'', tg_transportBinding = None,
     tg_authorityDigest = ''d'', tg_nativeSessionDigest = None\<rparr>"

definition example_frozen :: "bool \<Rightarrow> cleanup_row" where
  "example_frozen absence = new_cleanup ''t'' example_request [example_target] None absence"

definition example_waits :: "cleanup_stage \<Rightarrow> cleanup_row list \<Rightarrow> cleanup_state" where
  "example_waits stage rows = \<lparr>cs_rows = rows,
     cs_operations = [\<lparr>co_request = example_request, co_retryFailures = True, co_stage = stage\<rparr>]\<rparr>"

lemmas cleanup_example = example_request_def example_target_def example_frozen_def example_waits_def new_cleanup_def
  no_cleanups_def request_cleanup_def continue_cleanup_def after_stretch_def advance_begins_def advance_continues_def
  freeze_continues_def begin_cleanup_def normalizeTargets_def cleanup_of_def op_run_def host_phase_def harness_phase_def
  updateHarness_def updateEnvironment_def required_cleanup_def stored_cleanup_def update_cleanup_def update_where_def
  cleanups.lookup_update identity_unavailable_def lookup_row_def Let_def

lemma example_asked:
  "request_cleanup ''t'' True True True (Some [example_target]) example_request True no_cleanups =
     ([], example_waits (Looking_Up [example_target]) [])"
  by (simp add: cleanup_example)

lemma example_absent:
  "cleanup_run no_cleanups [Report_Cleanup (example_frozen True)]
     (example_waits (Reporting_Frozen (example_frozen True)) [example_frozen True])"
proof -
  have a: "cleanup_run no_cleanups [] (example_waits (Looking_Up [example_target]) [])"
    using cleanup_run.extend [OF cleanup_run.start cleanup_step.request [OF example_asked]] by simp
  let ?op = "\<lparr>co_request = example_request, co_retryFailures = True, co_stage = Looking_Up [example_target]\<rparr>"
  have "continue_cleanup ''t'' True (Looked_Up None) ?op (example_waits (Looking_Up [example_target]) []) =
      ([Report_Cleanup (example_frozen True)], example_waits (Reporting_Frozen (example_frozen True)) [example_frozen True])"
    by (simp add: cleanup_example)
  from cleanup_run.extend [OF a cleanup_step.continues [OF _ this]] show ?thesis by (simp add: example_waits_def)
qed

lemma example_closing:
  "\<exists>s. cleanup_run no_cleanups [Report_Cleanup (example_frozen True), Close_Targets ''run-1'' [example_target]] s"
proof -
  let ?op = "\<lparr>co_request = example_request, co_retryFailures = True, co_stage = Reporting_Frozen (example_frozen True)\<rparr>"
  obtain s where "continue_cleanup ''t'' True (Reported True) ?op
      (example_waits (Reporting_Frozen (example_frozen True)) [example_frozen True]) =
      ([Close_Targets ''run-1'' [example_target]], s)"
    by (simp add: cleanup_example)
  from cleanup_run.extend [OF example_absent cleanup_step.continues [OF _ this]] show ?thesis
    by (auto simp: example_waits_def)
qed

lemma example_unresolved:
  "cleanup_run no_cleanups [Report_Cleanup (example_frozen False\<lparr>k_environment_issue := Some identity_unavailable\<rparr>)]
     (example_waits (Reporting_Frozen (example_frozen False\<lparr>k_environment_issue := Some identity_unavailable\<rparr>))
       [example_frozen False\<lparr>k_environment_issue := Some identity_unavailable\<rparr>])"
proof -
  have a: "cleanup_run no_cleanups [] (example_waits (Looking_Up [example_target]) [])"
    using cleanup_run.extend [OF cleanup_run.start cleanup_step.request [OF example_asked]] by simp
  let ?op = "\<lparr>co_request = example_request, co_retryFailures = True, co_stage = Looking_Up [example_target]\<rparr>"
  let ?r = "example_frozen False\<lparr>k_environment_issue := Some identity_unavailable\<rparr>"
  have "continue_cleanup ''t'' True Lookup_Failed ?op (example_waits (Looking_Up [example_target]) []) =
      ([Report_Cleanup ?r], example_waits (Reporting_Frozen ?r) [?r])"
    by (simp add: cleanup_example)
  from cleanup_run.extend [OF a cleanup_step.continues [OF _ this]] show ?thesis by (simp add: example_waits_def)
qed

section \<open>Properties\<close>

text \<open>
  C28: In every history of cleanups, over all interleavings and restarts of the worker, the destructive effects of a
  Run come in order: targets are closed before its environment is cleaned, and the environment before the repository
  is removed; after the first of a kind none of an earlier kind follows. Every effect names what the record froze,
  the environment is touched only once the harness is retired, and the repository only once the environment is removed too.
\<close>

theorem cleanup_ordered:
  assumes "cleanup_run no_cleanups outs s"
  shows "sorted (effects run outs) \<and>
    (\<forall>targets. Close_Targets run targets \<in> set outs \<longrightarrow>
      (\<exists>r. cleanup_of run (cs_rows s) = Some r \<and> k_harness_targets r = targets)) \<and>
    (\<forall>ref. Clean_Environment run ref \<in> set outs \<longrightarrow>
      (\<exists>r. cleanup_of run (cs_rows s) = Some r \<and> k_environment_ref r = Some ref \<and> k_harness_state r = Harness_Retired)) \<and>
    (\<forall>worktree. Remove_Repository run worktree \<in> set outs \<longrightarrow>
      (\<exists>r. cleanup_of run (cs_rows s) = Some r \<and> k_worktree_id r = worktree \<and>
        k_harness_state r = Harness_Retired \<and> k_environment_state r = Env_Removed))"
proof -
  have kept: "output_kept (cs_rows s) x" if "x \<in> set outs" for x
    using run_kept [OF assms no_cleanups_inv] that by (simp add: list_all_iff)
  show ?thesis
    using run_sorted [OF assms no_cleanups_inv] kept [of "Close_Targets run _"] kept [of "Clean_Environment run _"]
      kept [of "Remove_Repository run _"] by simp
qed

theorem cleanup_ordered_witness:
  "\<exists>s r. cleanup_run no_cleanups [Report_Cleanup (example_frozen True), Close_Targets ''run-1'' [example_target]] s \<and>
     cleanup_of ''run-1'' (cs_rows s) = Some r \<and> k_harness_targets r = [example_target]"
proof -
  obtain s where run: "cleanup_run no_cleanups [Report_Cleanup (example_frozen True), Close_Targets ''run-1'' [example_target]] s"
    using example_closing by blast
  then show ?thesis using cleanup_ordered [OF run, of "''run-1''"] by auto
qed

text \<open>
  C29: A cleanup is never deleted and what it froze never changes: its Run, repository, binding, identity, targets,
  environment and the proof of its absence. A retired harness, a removed environment and a removed repository stay
  so, and a repository is recorded as removed only with the harness retired and the environment removed.
\<close>

theorem cleanup_history:
  assumes "cleanup_run no_cleanups past s" and "cleanup_run s outs s'" and "cleanup_of run (cs_rows s) = Some r"
  shows "\<exists>r'. cleanup_of run (cs_rows s') = Some r' \<and>
    k_worktree_id r' = k_worktree_id r \<and> k_workspace_binding_id r' = k_workspace_binding_id r \<and>
    k_identity_hash r' = k_identity_hash r \<and> k_harness_targets r' = k_harness_targets r \<and>
    k_environment_ref r' = k_environment_ref r \<and> k_environment_absence_proven r' = k_environment_absence_proven r \<and>
    (k_harness_state r = Harness_Retired \<longrightarrow> k_harness_state r' = Harness_Retired) \<and>
    (k_environment_state r = Env_Removed \<longrightarrow> k_environment_state r' = Env_Removed) \<and>
    (k_host_state r = Host_Removed \<longrightarrow> k_host_state r' = Host_Removed) \<and>
    (k_host_state r' = Host_Removed \<longrightarrow> k_harness_state r' = Harness_Retired \<and> k_environment_state r' = Env_Removed)"
proof -
  have inv: "cleanup_inv s" by (rule cleanup_run_inv [OF assms(1) no_cleanups_inv])
  have "rows_evolve cleanup_of cleanup_evolves (cs_rows s) (cs_rows s')" by (rule run_evolves [OF assms(2) inv])
  then obtain r' where r': "cleanup_of run (cs_rows s') = Some r'" "cleanup_evolves r r'"
    using assms(3) by (auto simp: rows_evolve_def)
  have "row_ok r'" using cleanup_run_inv [OF assms(2) inv] r'(1) by (simp add: cleanup_inv_def)
  then show ?thesis using r' by (auto simp: cleanup_evolves_def frozen_columns_def row_ok_def)
qed

theorem cleanup_history_witness:
  "\<exists>r'. cleanup_of ''run-1'' (cs_rows (example_waits (Reporting_Frozen (example_frozen True)) [example_frozen True])) = Some r' \<and>
     k_harness_targets r' = [example_target]"
proof -
  have "cleanup_of ''run-1'' (cs_rows (example_waits (Reporting_Frozen (example_frozen True)) [example_frozen True])) =
      Some (example_frozen True)" "k_harness_targets (example_frozen True) = [example_target]"
    by (simp_all add: cleanup_example)
  then show ?thesis using cleanup_history [OF example_absent cleanup_run.start] by metis
qed

text \<open>
  C30: When the environment of a Run could not be identified as its cleanup was frozen, the environment stays failed
  and the repository of the Run is never removed, whatever is asked, answered or restarted later: a retry does not
  look the environment up again.
\<close>

theorem unresolved_environment_blocks:
  assumes "cleanup_run no_cleanups past s" and "cleanup_of run (cs_rows s) = Some r"
    and "k_environment_ref r = None" and "\<not> k_environment_absence_proven r" and "cleanup_run s outs s'"
  shows "(\<nexists>worktree. Remove_Repository run worktree \<in> set outs) \<and> (\<nexists>ref. Clean_Environment run ref \<in> set outs) \<and>
    (\<exists>r'. cleanup_of run (cs_rows s') = Some r' \<and> k_environment_state r' = Env_Failed \<and> k_host_state r' \<noteq> Host_Removed)"
proof -
  have inv: "cleanup_inv s" by (rule cleanup_run_inv [OF assms(1) no_cleanups_inv])
  have "rows_evolve cleanup_of cleanup_evolves (cs_rows s) (cs_rows s')" by (rule run_evolves [OF assms(5) inv])
  then obtain r' where r': "cleanup_of run (cs_rows s') = Some r'" "cleanup_evolves r r'"
    using assms(2) by (auto simp: rows_evolve_def)
  have "row_ok r'" using cleanup_run_inv [OF assms(5) inv] r'(1) by (simp add: cleanup_inv_def)
  moreover have unresolved: "k_environment_ref r' = None" "\<not> k_environment_absence_proven r'"
    using r'(2) assms(3,4) by (simp_all add: cleanup_evolves_def frozen_columns_def)
  ultimately have "k_environment_state r' = Env_Failed" "k_host_state r' \<noteq> Host_Removed"
    by (auto simp: row_ok_def)
  then show ?thesis
    using run_kept [OF assms(5) inv] r'(1) unresolved by (fastforce simp: list_all_iff)
qed

theorem unresolved_environment_blocks_witness:
  "\<exists>r' :: cleanup_row. k_run_id r' = ''run-1'' \<and> k_environment_state r' = Env_Failed \<and> k_host_state r' \<noteq> Host_Removed"
proof -
  let ?r = "example_frozen False\<lparr>k_environment_issue := Some identity_unavailable\<rparr>"
  have "cleanup_of ''run-1'' (cs_rows (example_waits (Reporting_Frozen ?r) [?r])) = Some ?r"
    "k_environment_ref ?r = None" "\<not> k_environment_absence_proven ?r"
    by (simp_all add: cleanup_example)
  from unresolved_environment_blocks [OF example_unresolved this cleanup_run.start] show ?thesis
    using cleanups.lookup_key by blast
qed

text \<open>
  C31: From every reachable state, one request that retries failures, for a Run that no operation is working
  on and that keeps the identity of a recorded cleanup, cleans the Run up when its dependencies succeed: the
  assertions pass, the targets are valid, the recorded environment is identified or proven absent, and every
  answer that the operation waits for is a success. After at most eight answers and without another request
  the harness is retired, the environment and the repository are removed, and the operation is over. An
  earlier failure of any of the three does not prevent it.
\<close>

theorem cleanup_completes:
  assumes "cleanup_run no_cleanups past s" and "operation_of (cq_runId request) s = None"
    and "case cleanup_of (cq_runId request) (cs_rows s) of
        None \<Rightarrow> (\<exists>ts. normalizeTargets targets = Inr ts)
      | Some r \<Rightarrow> k_worktree_id r = cq_worktreeId request \<and> k_workspace_binding_id r = cq_workspaceBindingId request \<and>
          k_identity_hash r = cq_identityHash request \<and> (k_environment_ref r \<noteq> None \<or> k_environment_absence_proven r)"
    and "request_cleanup now True True True (Some targets) request True s = (outs, t)"
    and "8 \<le> length clock"
  shows "\<exists>later u r. u = serve ref (cq_runId request) clock t \<and> cleanup_run t later u \<and>
    operation_of (cq_runId request) u = None \<and> cleanup_of (cq_runId request) (cs_rows u) = Some r \<and>
    k_harness_state r = Harness_Retired \<and> k_environment_state r = Env_Removed \<and> k_host_state r = Host_Removed"
  using request_completes [OF cleanup_run_inv [OF assms(1) no_cleanups_inv] assms(2-4), of ref] assms(5)
    serve_is_run [of t ref "cq_runId request" clock]
  by (auto simp: completes_def removed_def)

theorem cleanup_completes_witness:
  "\<exists>r. cleanup_of ''run-1'' (cs_rows (serve None ''run-1'' (replicate 8 ''t'')
       (example_waits (Looking_Up [example_target]) []))) = Some r \<and> k_host_state r = Host_Removed"
proof -
  have "normalizeTargets [example_target] = Inr [example_target]" by (simp add: normalizeTargets_def)
  moreover have run: "cq_runId example_request = ''run-1''" by (simp add: example_request_def)
  ultimately show ?thesis
    using cleanup_completes [OF cleanup_run.start _ _ example_asked, of "replicate 8 ''t''" None]
    by (simp add: no_cleanups_def cleanup_of_def lookup_row_def operation_of_def run) blast
qed

end
