(* ===== verification/Broker_Protocol.thy ===== *)
theory Broker_Protocol
  imports Harness_Identity
begin

text \<open>
  The frames of the workspace tool broker (\<^verbatim>\<open>workspace-tool-broker-protocol.ts\<close>): what a request or a response
  must look like, the paths it may name and the bounds it keeps, and the JSON value of a decoded frame.
\<close>

section \<open>Frames\<close>

definition WORKSPACE_TOOL_BROKER_PROTOCOL :: string where
  "WORKSPACE_TOOL_BROKER_PROTOCOL = ''workspace_tool_broker_v1''"

definition MAX_BROKER_FRAME_BYTES :: nat where "MAX_BROKER_FRAME_BYTES = 320 * 1024"
definition MAX_BROKER_PATH_BYTES :: nat where "MAX_BROKER_PATH_BYTES = 1024"
definition MAX_BROKER_FILE_BYTES :: nat where "MAX_BROKER_FILE_BYTES = 256 * 1024"
definition MAX_BROKER_QUERY_BYTES :: nat where "MAX_BROKER_QUERY_BYTES = 4 * 1024"
definition MAX_BROKER_COMMAND_BYTES :: nat where "MAX_BROKER_COMMAND_BYTES = 32 * 1024"
definition MIN_BROKER_TIMEOUT_MS :: int where "MIN_BROKER_TIMEOUT_MS = 100"
definition MAX_BROKER_TIMEOUT_MS :: int where "MAX_BROKER_TIMEOUT_MS = 30000"

datatype tool_operation = Read_File | List_Directory | Stat_File | Write_File | Edit_File | Grep | Shell

datatype tool_arguments =
    Path_Argument string
  | Write_Arguments string string
  | Edit_Arguments string string string int
  | Grep_Arguments string string
  | Shell_Arguments string string int

record tool_request =
  tq_request_id :: string
  tq_operation :: tool_operation
  tq_arguments :: tool_arguments

datatype tool_status = Tool_Completed | Tool_Rejected | Tool_Uncertain | Tool_Cancelled

datatype tool_certainty = Certainly_Not_Submitted | Certainly_Acknowledged | Certainly_Completed | Certainty_Uncertain

record tool_error =
  te_code :: string
  te_message :: string

record tool_response =
  tr_request_id :: string
  tr_status :: tool_status
  tr_certainty :: tool_certainty
  tr_result :: "(string \<times> json) list option"
  tr_error :: "tool_error option"

datatype frame_error =
    Not_An_Object string | Unexpected_Fields | Invalid_Identity | Unknown_Operation | Invalid_Field string
  | Path_Not_Contained | Invalid_Replacements | Invalid_Timeout | Invalid_Lifecycle | Frame_Too_Large

section \<open>Fields\<close>

definition frame_record :: "json option \<Rightarrow> string \<Rightarrow> frame_error + (string \<times> json) list" where
  "frame_record v label = (case v of Some (JObj es) \<Rightarrow> Inr es | _ \<Rightarrow> Inl (Not_An_Object label))"

definition exactKeys :: "(string \<times> json) list \<Rightarrow> string list \<Rightarrow> frame_error + unit" where
  "exactKeys es expected = ensure Unexpected_Fields (hasExactKeys es expected)"

definition boundedString :: "json option \<Rightarrow> string \<Rightarrow> nat \<Rightarrow> bool \<Rightarrow> frame_error + string" where
  "boundedString v field maximumBytes allowEmpty =
     (case v of
        Some (JStr s) \<Rightarrow>
          if (\<not> allowEmpty \<and> s = []) \<or> utf8_length s > maximumBytes then Inl (Invalid_Field field) else Inr s
      | _ \<Rightarrow> Inl (Invalid_Field field))"

text \<open>\<^verbatim>\<open>path.split("/")\<close>.\<close>

fun segments :: "string \<Rightarrow> string list" where
  "segments [] = [[]]"
| "segments (c # s) =
     (if c = CHR ''/'' then [] # segments s
      else (case segments s of [] \<Rightarrow> [[c]] | x # xs \<Rightarrow> (c # x) # xs))"

definition without_dot :: "string \<Rightarrow> string" where
  "without_dot path = (if take 2 path = ''./'' then drop 2 path else path)"

definition relativePath :: "json option \<Rightarrow> frame_error + string" where
  "relativePath v = bind_result (boundedString v ''path'' MAX_BROKER_PATH_BYTES True) (\<lambda>path.
     if CHR 0x00 \<in> set path \<or> take 1 path = ''/'' \<or> ''..'' \<in> set (segments path) \<or> ch_backslash \<in> set path
     then Inl Path_Not_Contained
     else Inr (if path = [] \<or> path = ''.'' then ''.'' else without_dot path))"

text \<open>The pattern \<^verbatim>\<open>/^[A-Za-z0-9][A-Za-z0-9._:-]{0,127}$/\<close>.\<close>

definition request_id_ok :: "string \<Rightarrow> bool" where
  "request_id_ok s = (token_128 s \<and> hd s \<notin> set ''._:-'')"

definition operation_name :: "tool_operation \<Rightarrow> string" where
  "operation_name o1 = (case o1 of
     Read_File \<Rightarrow> ''filesystem.read'' | List_Directory \<Rightarrow> ''filesystem.list'' | Stat_File \<Rightarrow> ''filesystem.stat''
   | Write_File \<Rightarrow> ''filesystem.write'' | Edit_File \<Rightarrow> ''filesystem.edit'' | Grep \<Rightarrow> ''search.grep''
   | Shell \<Rightarrow> ''terminal.shell'')"

definition operations :: "tool_operation list" where
  "operations = [Read_File, List_Directory, Stat_File, Write_File, Edit_File, Grep, Shell]"

definition operationName :: "json option \<Rightarrow> frame_error + tool_operation" where
  "operationName v =
     (case List.find (\<lambda>o1. v = Some (JStr (operation_name o1))) operations of
        Some o1 \<Rightarrow> Inr o1
      | None \<Rightarrow> Inl Unknown_Operation)"

text \<open>\<^verbatim>\<open>Number.isSafeInteger\<close> and the bounds; the numbers of the model are integers.\<close>

definition bounded_integer :: "frame_error \<Rightarrow> int \<Rightarrow> int \<Rightarrow> json option \<Rightarrow> frame_error + int" where
  "bounded_integer e low high v =
     (case v of Some (JNum i) \<Rightarrow> if i < low \<or> i > high then Inl e else Inr i | _ \<Rightarrow> Inl e)"

section \<open>Requests\<close>

definition decode_arguments :: "tool_operation \<Rightarrow> (string \<times> json) list \<Rightarrow> frame_error + tool_arguments" where
  "decode_arguments operation args =
     (if operation \<in> {Read_File, List_Directory, Stat_File} then
        bind_result (exactKeys args [''path'']) (\<lambda>_.
        bind_result (relativePath (member args ''path'')) (\<lambda>path. Inr (Path_Argument path)))
      else if operation = Write_File then
        bind_result (exactKeys args [''path'', ''content'']) (\<lambda>_.
        bind_result (relativePath (member args ''path'')) (\<lambda>path.
        bind_result (boundedString (member args ''content'') ''content'' MAX_BROKER_FILE_BYTES True) (\<lambda>content.
          Inr (Write_Arguments path content))))
      else if operation = Edit_File then
        bind_result (exactKeys args [''path'', ''old_text'', ''new_text'', ''expected_replacements'']) (\<lambda>_.
        bind_result (bounded_integer Invalid_Replacements 1 1000 (member args ''expected_replacements'')) (\<lambda>n.
        bind_result (relativePath (member args ''path'')) (\<lambda>path.
        bind_result (boundedString (member args ''old_text'') ''old_text'' MAX_BROKER_FILE_BYTES False) (\<lambda>old.
        bind_result (boundedString (member args ''new_text'') ''new_text'' MAX_BROKER_FILE_BYTES True) (\<lambda>new.
          Inr (Edit_Arguments path old new n))))))
      else if operation = Grep then
        bind_result (exactKeys args [''path'', ''query'']) (\<lambda>_.
        bind_result (relativePath (member args ''path'')) (\<lambda>path.
        bind_result (boundedString (member args ''query'') ''query'' MAX_BROKER_QUERY_BYTES False) (\<lambda>query.
          Inr (Grep_Arguments path query))))
      else
        bind_result (exactKeys args [''command'', ''cwd'', ''timeout_ms'']) (\<lambda>_.
        bind_result (bounded_integer Invalid_Timeout MIN_BROKER_TIMEOUT_MS MAX_BROKER_TIMEOUT_MS (member args ''timeout_ms'')) (\<lambda>timeout.
        bind_result (boundedString (member args ''command'') ''command'' MAX_BROKER_COMMAND_BYTES False) (\<lambda>command.
        bind_result (relativePath (member args ''cwd'')) (\<lambda>cwd.
          Inr (Shell_Arguments command cwd timeout))))))"

definition arguments_value :: "tool_arguments \<Rightarrow> json" where
  "arguments_value args = JObj (case args of
     Path_Argument path \<Rightarrow> [(''path'', JStr path)]
   | Write_Arguments path content \<Rightarrow> [(''path'', JStr path), (''content'', JStr content)]
   | Edit_Arguments path old new n \<Rightarrow> [(''path'', JStr path), (''old_text'', JStr old), (''new_text'', JStr new),
       (''expected_replacements'', JNum n)]
   | Grep_Arguments path query \<Rightarrow> [(''path'', JStr path), (''query'', JStr query)]
   | Shell_Arguments command cwd timeout \<Rightarrow> [(''command'', JStr command), (''cwd'', JStr cwd), (''timeout_ms'', JNum timeout)])"

definition request_value :: "tool_request \<Rightarrow> json" where
  "request_value r = JObj [(''version'', JStr WORKSPACE_TOOL_BROKER_PROTOCOL), (''type'', JStr ''request''),
     (''request_id'', JStr (tq_request_id r)), (''operation'', JStr (operation_name (tq_operation r))),
     (''arguments'', arguments_value (tq_arguments r))]"

definition frame_identity :: "(string \<times> json) list \<Rightarrow> string \<Rightarrow> frame_error + string" where
  "frame_identity frame type =
     (if member frame ''version'' \<noteq> Some (JStr WORKSPACE_TOOL_BROKER_PROTOCOL) \<or> member frame ''type'' \<noteq> Some (JStr type)
      then Inl Invalid_Identity
      else case member frame ''request_id'' of
        Some (JStr s) \<Rightarrow> if request_id_ok s then Inr s else Inl Invalid_Identity
      | _ \<Rightarrow> Inl Invalid_Identity)"

definition decodeWorkspaceToolRequest :: "json \<Rightarrow> frame_error + tool_request" where
  "decodeWorkspaceToolRequest v =
     bind_result (frame_record (Some v) ''broker request'') (\<lambda>frame.
     bind_result (exactKeys frame [''version'', ''type'', ''request_id'', ''operation'', ''arguments'']) (\<lambda>_.
     bind_result (frame_identity frame ''request'') (\<lambda>requestId.
     bind_result (operationName (member frame ''operation'')) (\<lambda>operation.
     bind_result (frame_record (member frame ''arguments'') ''broker arguments'') (\<lambda>args.
     bind_result (decode_arguments operation args) (\<lambda>arguments.
       let decoded = \<lparr>tq_request_id = requestId, tq_operation = operation, tq_arguments = arguments\<rparr> in
       if utf8_length (stringify (request_value decoded)) > MAX_BROKER_FRAME_BYTES then Inl Frame_Too_Large
       else Inr decoded))))))"

definition isMutatingWorkspaceTool :: "tool_operation \<Rightarrow> bool" where
  "isMutatingWorkspaceTool operation \<longleftrightarrow> operation \<in> {Write_File, Edit_File, Shell}"

definition requiredSemanticTool :: "tool_operation \<Rightarrow> string" where
  "requiredSemanticTool operation =
     (if operation \<in> {Read_File, List_Directory, Stat_File, Write_File, Edit_File} then ''workspace.filesystem''
      else if operation = Grep then ''workspace.search'' else ''terminal.shell'')"

section \<open>Responses\<close>

definition status_name :: "tool_status \<Rightarrow> string" where
  "status_name s = (case s of Tool_Completed \<Rightarrow> ''completed'' | Tool_Rejected \<Rightarrow> ''rejected''
     | Tool_Uncertain \<Rightarrow> ''uncertain'' | Tool_Cancelled \<Rightarrow> ''cancelled'')"

definition certainty_name :: "tool_certainty \<Rightarrow> string" where
  "certainty_name c = (case c of Certainly_Not_Submitted \<Rightarrow> ''not_submitted'' | Certainly_Acknowledged \<Rightarrow> ''acknowledged''
     | Certainly_Completed \<Rightarrow> ''completed'' | Certainty_Uncertain \<Rightarrow> ''uncertain'')"

definition named :: "('a \<Rightarrow> string) \<Rightarrow> 'a list \<Rightarrow> json option \<Rightarrow> 'a option" where
  "named name xs v = List.find (\<lambda>x. v = Some (JStr (name x))) xs"

definition decode_error :: "json option \<Rightarrow> frame_error + tool_error option" where
  "decode_error v = (if v = Some JNull then Inr None else
     bind_result (frame_record v ''broker error'') (\<lambda>candidate.
     bind_result (exactKeys candidate [''code'', ''message'']) (\<lambda>_.
     bind_result (boundedString (member candidate ''code'') ''error.code'' 128 False) (\<lambda>code.
     bind_result (boundedString (member candidate ''message'') ''error.message'' 1024 False) (\<lambda>message.
       Inr (Some \<lparr>te_code = code, te_message = message\<rparr>))))))"

definition decode_result :: "json option \<Rightarrow> frame_error + (string \<times> json) list option" where
  "decode_result v = (if v = Some JNull then Inr None
     else bind_result (frame_record v ''broker result'') (\<lambda>es. Inr (Some es)))"

definition result_value :: "(string \<times> json) list option \<Rightarrow> json" where
  "result_value r = (case r of None \<Rightarrow> JNull | Some es \<Rightarrow> JObj es)"

definition valid_lifecycle :: "tool_status \<Rightarrow> tool_certainty \<Rightarrow> bool \<Rightarrow> bool \<Rightarrow> bool" where
  "valid_lifecycle status certainty has_result has_error \<longleftrightarrow>
     (status = Tool_Completed \<and> certainty = Certainly_Completed \<and> has_result \<and> \<not> has_error) \<or>
     (status = Tool_Rejected \<and> certainty \<in> {Certainly_Not_Submitted, Certainly_Acknowledged} \<and> \<not> has_result \<and> has_error) \<or>
     (status = Tool_Uncertain \<and> certainty = Certainty_Uncertain \<and> \<not> has_result \<and> has_error) \<or>
     (status = Tool_Cancelled \<and> certainty = Certainly_Acknowledged \<and> \<not> has_result \<and> has_error)"

definition error_value :: "tool_error option \<Rightarrow> json" where
  "error_value e = (case e of None \<Rightarrow> JNull
     | Some x \<Rightarrow> JObj [(''code'', JStr (te_code x)), (''message'', JStr (te_message x))])"

definition response_value :: "tool_response \<Rightarrow> json" where
  "response_value r = JObj [(''version'', JStr WORKSPACE_TOOL_BROKER_PROTOCOL), (''type'', JStr ''response''),
     (''request_id'', JStr (tr_request_id r)), (''status'', JStr (status_name (tr_status r))),
     (''certainty'', JStr (certainty_name (tr_certainty r))),
     (''result'', result_value (tr_result r)), (''error'', error_value (tr_error r))]"

definition decodeWorkspaceToolResponse :: "json \<Rightarrow> frame_error + tool_response" where
  "decodeWorkspaceToolResponse v =
     bind_result (frame_record (Some v) ''broker response'') (\<lambda>frame.
     bind_result (exactKeys frame [''version'', ''type'', ''request_id'', ''status'', ''certainty'', ''result'', ''error'']) (\<lambda>_.
     bind_result (frame_identity frame ''response'') (\<lambda>requestId.
     case (named status_name [Tool_Completed, Tool_Rejected, Tool_Uncertain, Tool_Cancelled] (member frame ''status''),
           named certainty_name [Certainly_Not_Submitted, Certainly_Acknowledged, Certainly_Completed, Certainty_Uncertain]
             (member frame ''certainty'')) of
       (Some status, Some certainty) \<Rightarrow>
         bind_result (decode_result (member frame ''result'')) (\<lambda>result.
         bind_result (decode_error (member frame ''error'')) (\<lambda>error.
           if \<not> valid_lifecycle status certainty (result \<noteq> None) (error \<noteq> None) then Inl Invalid_Lifecycle
           else let response = \<lparr>tr_request_id = requestId, tr_status = status, tr_certainty = certainty,
               tr_result = result, tr_error = error\<rparr> in
             if utf8_length (stringify (response_value response)) > MAX_BROKER_FRAME_BYTES then Inl Frame_Too_Large
             else Inr response))
     | _ \<Rightarrow> Inl Invalid_Identity)))"

end
