(* ===== verification/Broker_Store.thy ===== *)
theory Broker_Store
  imports Broker_Protocol Protocol_Types
begin

text \<open>
  The durable store of the workspace tool broker (\<^verbatim>\<open>workspace-tool-broker-store.ts\<close>): sessions, requests and the
  log of events. An operation returns its record or an error together with the store; \<open>now\<close> is the timestamp it
  takes. The JSON columns are written by the store itself, so a row holds their values; a process handle is only
  stored, never read, and is a JSON value.
\<close>

section \<open>Rows\<close>

datatype broker_session_state = Session_Prepared | Session_Admitted | Session_Closing | Session_Closed

record broker_environment =
  bn_backendKind :: string
  bn_environmentId :: string
  bn_incarnation :: string

record broker_binding =
  bb_authorizationId :: string
  bb_providerAccountId :: string
  bb_credentialGeneration :: int
  bb_accountEnvironmentGeneration :: int
  bb_accountEnvironment :: broker_environment
  bb_runId :: string
  bb_actionId :: string
  bb_occurrenceId :: string
  bb_attemptId :: string
  bb_operationalEpoch :: int
  bb_operationalAttempt :: int
  bb_physicalLineageId :: string
  bb_runEnvironment :: broker_environment
  bb_workspaceId :: string
  bb_worktreeId :: string
  bb_workspaceBindingId :: string
  bb_workspaceAccess :: workspace_access
  bb_workerId :: string
  bb_workerGeneration :: int
  bb_resolvedToolProfile :: "string list"
  bb_resolvedToolProfileId :: string

record broker_session =
  bs_session_id :: string
  bs_broker_generation :: int
  bs_binding :: broker_binding
  bs_state :: broker_session_state
  bs_process :: "json option"
  bs_close_reason :: "string option"
  bs_created_at :: string
  bs_admitted_at :: "string option"
  bs_closed_at :: "string option"
  bs_updated_at :: string

datatype request_state =
    Request_Not_Submitted | Request_Submitted | Request_Completed | Request_Uncertain | Request_Cancelled | Request_Rejected

record broker_request =
  br_session_id :: string
  br_request_id :: string
  br_operation :: tool_operation
  br_mutating :: bool
  br_request_digest :: string
  br_state :: request_state
  br_process :: "json option"
  br_error_code :: "string option"
  br_request_bytes :: int
  br_result_bytes :: "int option"
  br_started_at :: "string option"
  br_completed_at :: "string option"
  br_updated_at :: string

record broker_event =
  ev_id :: nat
  ev_session_id :: string
  ev_request_id :: "string option"
  ev_event_type :: string
  ev_detail :: "string option"
  ev_observed_at :: string

record broker_store =
  st_sessions :: "broker_session list"
  st_requests :: "broker_request list"
  st_events :: "broker_event list"
  st_next_event :: nat

datatype broker_store_error =
    Session_Constraint | Request_Constraint | Session_Not_Prepared | Session_Missing string | Request_Missing string
  | Process_Binding_Stale | Transition_Stale

type_synonym 'a stored = "(broker_store_error + 'a) \<times> broker_store"

definition empty_broker_store :: broker_store where
  "empty_broker_store = \<lparr>st_sessions = [], st_requests = [], st_events = [], st_next_event = 1\<rparr>"

section \<open>Queries\<close>

definition session :: "string \<Rightarrow> broker_store \<Rightarrow> broker_session option" where
  "session sid s = lookup_row bs_session_id sid (st_sessions s)"

definition request_key :: "broker_request \<Rightarrow> string \<times> string" where
  "request_key r = (br_session_id r, br_request_id r)"

definition request_of :: "string \<Rightarrow> string \<Rightarrow> broker_store \<Rightarrow> broker_request option" where
  "request_of sid rid s = lookup_row request_key (sid, rid) (st_requests s)"

definition sessions :: "broker_store \<Rightarrow> broker_session list" where
  "sessions s = sort_by (\<lambda>a b. bs_created_at a \<le> bs_created_at b) (st_sessions s)"

definition generation :: "string \<Rightarrow> string \<Rightarrow> broker_store \<Rightarrow> int" where
  "generation providerAccountId actionId s =
     (let gs = map bs_broker_generation (filter (\<lambda>r. bb_providerAccountId (bs_binding r) = providerAccountId \<and>
        bb_actionId (bs_binding r) = actionId) (st_sessions s))
      in (case gs of [] \<Rightarrow> 0 | g # rest \<Rightarrow> foldr max rest g) + 1)"

definition requiredSession :: "string \<Rightarrow> broker_store \<Rightarrow> broker_store_error + broker_session" where
  "requiredSession sid s = (case session sid s of None \<Rightarrow> Inl (Session_Missing sid) | Some r \<Rightarrow> Inr r)"

definition requiredRequest :: "string \<Rightarrow> string \<Rightarrow> broker_store \<Rightarrow> broker_store_error + broker_request" where
  "requiredRequest sid rid s = (case request_of sid rid s of None \<Rightarrow> Inl (Request_Missing rid) | Some r \<Rightarrow> Inr r)"

section \<open>Writes\<close>

definition event :: "string \<Rightarrow> string \<Rightarrow> string option \<Rightarrow> string \<Rightarrow> string option \<Rightarrow> broker_store \<Rightarrow> broker_store" where
  "event now sid rid type detail s = s\<lparr>st_events := st_events s @ [\<lparr>ev_id = st_next_event s, ev_session_id = sid,
     ev_request_id = rid, ev_event_type = type, ev_detail = detail, ev_observed_at = now\<rparr>],
     st_next_event := st_next_event s + 1\<rparr>"

definition createSession :: "string \<Rightarrow> string \<Rightarrow> int \<Rightarrow> broker_binding \<Rightarrow> broker_store \<Rightarrow> broker_session stored" where
  "createSession now sid gen binding s =
     (if session sid s \<noteq> None then (Inl Session_Constraint, s)
      else let row = \<lparr>bs_session_id = sid, bs_broker_generation = gen, bs_binding = binding, bs_state = Session_Prepared,
          bs_process = None, bs_close_reason = None, bs_created_at = now, bs_admitted_at = None, bs_closed_at = None,
          bs_updated_at = now\<rparr>;
        s1 = event now sid None ''session_prepared'' None (s\<lparr>st_sessions := st_sessions s @ [row]\<rparr>)
      in (requiredSession sid s1, s1))"

definition admit :: "string \<Rightarrow> string \<Rightarrow> json option \<Rightarrow> broker_store \<Rightarrow> broker_session stored" where
  "admit now sid process s =
     (case session sid s of
        Some row \<Rightarrow>
          if bs_state row \<noteq> Session_Prepared then (Inl Session_Not_Prepared, s)
          else let s1 = event now sid None ''session_admitted'' None (s\<lparr>st_sessions := update_where (\<lambda>r. bs_session_id r = sid)
            (\<lambda>r. r\<lparr>bs_state := Session_Admitted, bs_process := process, bs_admitted_at := coalesce (bs_admitted_at r) (Some now),
               bs_updated_at := now\<rparr>) (st_sessions s)\<rparr>)
          in (requiredSession sid s1, s1)
      | None \<Rightarrow> (Inl Session_Not_Prepared, s))"

text \<open>The \<^verbatim>\<open>CASE\<close> expressions with which a closed session or a restart settles what is open.\<close>

definition unsettled :: "request_state \<Rightarrow> bool" where
  "unsettled state \<longleftrightarrow> state \<in> {Request_Not_Submitted, Request_Submitted}"

definition settle :: "string \<Rightarrow> string \<Rightarrow> broker_request \<Rightarrow> broker_request" where
  "settle code now r = r\<lparr>
     br_state := (if br_mutating r \<and> br_state r = Request_Submitted then Request_Uncertain
       else if unsettled (br_state r) then Request_Cancelled else br_state r),
     br_error_code := (if br_mutating r \<and> br_state r = Request_Submitted then Some ''broker_request_outcome_uncertain''
       else if unsettled (br_state r) then Some code else br_error_code r),
     br_completed_at := (if unsettled (br_state r) then Some now else br_completed_at r),
     br_updated_at := now\<rparr>"

definition close_row :: "string \<Rightarrow> string \<Rightarrow> broker_session \<Rightarrow> broker_session" where
  "close_row reason now r = r\<lparr>bs_state := Session_Closed, bs_close_reason := Some reason,
     bs_closed_at := coalesce (bs_closed_at r) (Some now), bs_updated_at := now\<rparr>"

definition closeSession :: "string \<Rightarrow> string \<Rightarrow> string \<Rightarrow> broker_store \<Rightarrow> broker_session stored" where
  "closeSession now sid reason s =
     (let s1 = event now sid None ''session_closed'' (Some reason) (s\<lparr>
        st_requests := update_where (\<lambda>r. br_session_id r = sid) (settle ''broker_session_closed'' now) (st_requests s),
        st_sessions := update_where (\<lambda>r. bs_session_id r = sid \<and> bs_state r \<noteq> Session_Closed) (close_row reason now)
          (st_sessions s)\<rparr>)
      in (requiredSession sid s1, s1))"

definition createRequest ::
  "string \<Rightarrow> string \<Rightarrow> string \<Rightarrow> tool_operation \<Rightarrow> bool \<Rightarrow> string \<Rightarrow> int \<Rightarrow> broker_store \<Rightarrow> broker_request stored" where
  "createRequest now sid rid operation mutating digest bytes s =
     (if request_of sid rid s \<noteq> None \<or> session sid s = None then (Inl Request_Constraint, s)
      else let row = \<lparr>br_session_id = sid, br_request_id = rid, br_operation = operation, br_mutating = mutating,
          br_request_digest = digest, br_state = Request_Not_Submitted, br_process = None, br_error_code = None,
          br_request_bytes = bytes, br_result_bytes = None, br_started_at = None, br_completed_at = None, br_updated_at = now\<rparr>;
        s1 = event now sid (Some rid) ''request_recorded'' (Some (operation_name operation))
          (s\<lparr>st_requests := st_requests s @ [row]\<rparr>)
      in (requiredRequest sid rid s1, s1))"

definition update_request :: "string \<Rightarrow> string \<Rightarrow> (broker_request \<Rightarrow> broker_request) \<Rightarrow> broker_store \<Rightarrow> broker_store" where
  "update_request sid rid f s = s\<lparr>st_requests := update_where (\<lambda>r. request_key r = (sid, rid)) f (st_requests s)\<rparr>"

record transition_values =
  tv_errorCode :: "string option"
  tv_resultBytes :: "int option"
  tv_startedAt :: "string option"
  tv_completedAt :: "string option"

definition no_values :: transition_values where
  "no_values = \<lparr>tv_errorCode = None, tv_resultBytes = None, tv_startedAt = None, tv_completedAt = None\<rparr>"

definition transitioned :: "string \<Rightarrow> request_state \<Rightarrow> transition_values \<Rightarrow> broker_request \<Rightarrow> broker_request" where
  "transitioned now state values r = r\<lparr>br_state := state, br_error_code := coalesce (tv_errorCode values) (br_error_code r),
     br_result_bytes := coalesce (tv_resultBytes values) (br_result_bytes r),
     br_started_at := coalesce (tv_startedAt values) (br_started_at r),
     br_completed_at := coalesce (tv_completedAt values) (br_completed_at r), br_updated_at := now\<rparr>"

text \<open>\<^verbatim>\<open>transition\<close>, the event of the caller and the record it returns.\<close>

definition transition ::
  "string \<Rightarrow> string \<Rightarrow> string \<Rightarrow> request_state set \<Rightarrow> request_state \<Rightarrow> transition_values \<Rightarrow> string \<times> string option \<Rightarrow>
   broker_store \<Rightarrow> broker_request stored" where
  "transition now sid rid expected state values ev s =
     (case request_of sid rid s of
        Some row \<Rightarrow>
          if br_state row \<notin> expected then (Inl Transition_Stale, s)
          else let s1 = event now sid (Some rid) (fst ev) (snd ev) (update_request sid rid (transitioned now state values) s)
            in (requiredRequest sid rid s1, s1)
      | None \<Rightarrow> (Inl Transition_Stale, s))"

definition submitted :: "string \<Rightarrow> string \<Rightarrow> string \<Rightarrow> broker_store \<Rightarrow> broker_request stored" where
  "submitted now sid rid s = transition now sid rid {Request_Not_Submitted} Request_Submitted
     (no_values\<lparr>tv_startedAt := Some now\<rparr>) (''request_submitted'', None) s"

definition bindProcess :: "string \<Rightarrow> string \<Rightarrow> string \<Rightarrow> json \<Rightarrow> broker_store \<Rightarrow> broker_request stored" where
  "bindProcess now sid rid process s =
     (case request_of sid rid s of
        Some row \<Rightarrow>
          if br_state row \<noteq> Request_Submitted \<or> br_process row \<noteq> None then (Inl Process_Binding_Stale, s)
          else let s1 = event now sid (Some rid) ''process_acknowledged'' None
              (update_request sid rid (\<lambda>r. r\<lparr>br_process := Some process, br_updated_at := now\<rparr>) s)
            in (requiredRequest sid rid s1, s1)
      | None \<Rightarrow> (Inl Process_Binding_Stale, s))"

definition complete_request :: "string \<Rightarrow> string \<Rightarrow> string \<Rightarrow> int \<Rightarrow> broker_store \<Rightarrow> broker_request stored" where
  "complete_request now sid rid resultBytes s = transition now sid rid {Request_Submitted} Request_Completed
     (no_values\<lparr>tv_resultBytes := Some resultBytes, tv_completedAt := Some now\<rparr>)
     (''request_completed'', Some (show_int resultBytes)) s"

definition reject :: "string \<Rightarrow> string \<Rightarrow> string \<Rightarrow> string \<Rightarrow> broker_store \<Rightarrow> broker_request stored" where
  "reject now sid rid code s = transition now sid rid {Request_Not_Submitted, Request_Submitted} Request_Rejected
     (no_values\<lparr>tv_errorCode := Some code, tv_completedAt := Some now\<rparr>) (''request_rejected'', Some code) s"

definition uncertain :: "string \<Rightarrow> string \<Rightarrow> string \<Rightarrow> string \<Rightarrow> broker_store \<Rightarrow> broker_request stored" where
  "uncertain now sid rid code s = transition now sid rid {Request_Submitted} Request_Uncertain
     (no_values\<lparr>tv_errorCode := Some code, tv_completedAt := Some now\<rparr>) (''request_uncertain'', Some code) s"

definition cancelled :: "string \<Rightarrow> string \<Rightarrow> string \<Rightarrow> string \<Rightarrow> broker_store \<Rightarrow> broker_request stored" where
  "cancelled now sid rid code s = transition now sid rid {Request_Not_Submitted, Request_Submitted} Request_Cancelled
     (no_values\<lparr>tv_errorCode := Some code, tv_completedAt := Some now\<rparr>) (''request_cancelled'', Some code) s"

definition reconcileRestart :: "string \<Rightarrow> broker_store \<Rightarrow> broker_store" where
  "reconcileRestart now s = s\<lparr>
     st_requests := update_where (\<lambda>r. unsettled (br_state r)) (settle ''broker_transport_lost'' now) (st_requests s),
     st_sessions := update_where (\<lambda>r. bs_state r \<noteq> Session_Closed)
       (\<lambda>r. r\<lparr>bs_state := Session_Closed, bs_close_reason := Some ''worker_restarted'', bs_closed_at := Some now,
          bs_updated_at := now\<rparr>) (st_sessions s)\<rparr>"

section \<open>Opening the database\<close>

definition SCHEMA_VERSION :: int where "SCHEMA_VERSION = 1"

datatype bootstrap_outcome = Schema_Created | Schema_Kept | Schema_Stale int | Schema_Incomplete

text \<open>\<open>tables\<close> are the names of the tables that begin with \<^verbatim>\<open>broker_\<close>.\<close>

definition bootstrap :: "int \<Rightarrow> string list \<Rightarrow> bootstrap_outcome" where
  "bootstrap version tables =
     (if version = 0 \<and> tables = [] then Schema_Created
      else if version \<noteq> SCHEMA_VERSION then Schema_Stale version
      else if set [''broker_sessions'', ''broker_requests'', ''broker_events''] \<subseteq> set tables then Schema_Kept
      else Schema_Incomplete)"

end
