(* ===== verification/Broker_Results.thy ===== *)
theory Broker_Results
  imports Broker_Store
begin

text \<open>
  The answers of the workspace tool broker (\<^verbatim>\<open>workspace-tool-broker.ts\<close>): the responses it makes, what it
  concludes from an exception about the outcome of a request, and the results of the Run-side tool it accepts.
\<close>

section \<open>Responses\<close>

definition error_response :: "tool_status \<Rightarrow> tool_certainty \<Rightarrow> string \<Rightarrow> string \<Rightarrow> string \<Rightarrow> tool_response" where
  "error_response status certainty rid code message = \<lparr>tr_request_id = rid, tr_status = status, tr_certainty = certainty,
     tr_result = None, tr_error = Some \<lparr>te_code = code, te_message = message\<rparr>\<rparr>"

definition completed_response :: "string \<Rightarrow> (string \<times> json) list \<Rightarrow> tool_response" where
  "completed_response rid result = \<lparr>tr_request_id = rid, tr_status = Tool_Completed, tr_certainty = Certainly_Completed,
     tr_result = Some result, tr_error = None\<rparr>"

definition rejected_response :: "string \<Rightarrow> string \<Rightarrow> string \<Rightarrow> tool_response" where
  "rejected_response rid code message = error_response Tool_Rejected Certainly_Not_Submitted rid code (take 1024 message)"

definition failed_response :: "string \<Rightarrow> string \<Rightarrow> string \<Rightarrow> tool_response" where
  "failed_response rid code message = error_response Tool_Rejected Certainly_Acknowledged rid code (take 1024 message)"

definition uncertain_response :: "string \<Rightarrow> string \<Rightarrow> string \<Rightarrow> tool_response" where
  "uncertain_response rid code message = error_response Tool_Uncertain Certainty_Uncertain rid code (take 1024 message)"

definition cancelled_response :: "string \<Rightarrow> string \<Rightarrow> tool_response" where
  "cancelled_response rid code = error_response Tool_Cancelled Certainly_Acknowledged rid code
     (if code = ''broker_request_timeout'' then ''Broker request exceeded its timeout and was cancelled.''
      else ''Broker request was cancelled.'')"

section \<open>Exceptions\<close>

text \<open>The \<^verbatim>\<open>sideEffectCertainty\<close> an exception carries.\<close>

datatype certainty_claim = Claims_Nothing | Claims_Not_Submitted | Claims_Acknowledged | Claims_Ambiguous | Claims_Uncertain

text \<open>What is thrown: an \<^verbatim>\<open>EnvironmentBackendError\<close>, another \<^verbatim>\<open>Error\<close> (with a \<^verbatim>\<open>code\<close> or not), or another value.\<close>

datatype thrown =
    Thrown_Backend string string certainty_claim
  | Thrown_Error "string option" string certainty_claim
  | Thrown_Other

definition plain_error :: "string \<Rightarrow> thrown" where
  "plain_error message = Thrown_Error None message Claims_Nothing"

definition brokerFailure :: "string \<Rightarrow> string \<Rightarrow> thrown" where
  "brokerFailure code message = Thrown_Error (Some code) message Claims_Not_Submitted"

definition brokerError :: "thrown \<Rightarrow> string \<Rightarrow> string \<times> string" where
  "brokerError error fallback = (case error of
     Thrown_Backend code message claim \<Rightarrow> (code, take 1024 message)
   | Thrown_Error code message claim \<Rightarrow> (case code of Some c \<Rightarrow> c | None \<Rightarrow> fallback, take 1024 message)
   | Thrown_Other \<Rightarrow> (fallback, ''Workspace tool broker rejected the request.''))"

definition claim_of :: "thrown \<Rightarrow> certainty_claim" where
  "claim_of error = (case error of Thrown_Backend code message claim \<Rightarrow> claim | Thrown_Error code message claim \<Rightarrow> claim
     | Thrown_Other \<Rightarrow> Claims_Nothing)"

definition side_effect_message :: string where
  "side_effect_message = ''Workspace tool side-effect outcome is uncertain; it was not replayed.''"

definition uncertain_codes :: "string list" where
  "uncertain_codes = [''streamed_process_write_uncertain'', ''streamed_process_stream_unavailable'',
     ''streamed_process_cancellation_uncertain'']"

text \<open>\<open>process\<close> tells whether the record of the request names a process.\<close>

definition classifyExecutionError :: "thrown \<Rightarrow> bool \<Rightarrow> bool \<Rightarrow> tool_certainty \<times> string \<times> string" where
  "classifyExecutionError error process mutating =
     (if claim_of error = Claims_Not_Submitted then (Certainly_Not_Submitted, brokerError error ''broker_tool_rejected'')
      else if claim_of error = Claims_Acknowledged then (Certainly_Acknowledged, brokerError error ''broker_tool_failed'')
      else if claim_of error \<in> {Claims_Ambiguous, Claims_Uncertain} then
        (if mutating then (Certainty_Uncertain, ''broker_request_outcome_uncertain'', side_effect_message)
         else (Certainly_Acknowledged, brokerError error ''broker_request_outcome_uncertain''))
      else let (ambiguous, code, message) = (case error of
            Thrown_Backend code message claim \<Rightarrow> (mutating \<and> (code \<in> set uncertain_codes \<or> process), code, message)
          | _ \<Rightarrow> (mutating \<and> process, brokerError error ''broker_tool_failed''))
        in if ambiguous then (Certainty_Uncertain, ''broker_request_outcome_uncertain'', side_effect_message)
           else (if process then Certainly_Acknowledged else Certainly_Not_Submitted, code, message))"

section \<open>Results of the Run-side tool\<close>

definition malformed :: "string \<Rightarrow> thrown" where
  "malformed what = plain_error (''Run-side workspace tool '' @ what @ '' is malformed.'')"

definition resultRecord :: "json option \<Rightarrow> string \<Rightarrow> thrown + (string \<times> json) list" where
  "resultRecord v label = (case v of Some (JObj es) \<Rightarrow> Inr es | _ \<Rightarrow> Inl (malformed label))"

definition resultExactKeys :: "(string \<times> json) list \<Rightarrow> string list \<Rightarrow> thrown + unit" where
  "resultExactKeys es expected =
     ensure (plain_error ''Run-side workspace tool returned unexpected fields.'') (hasExactKeys es expected)"

definition resultString :: "json option \<Rightarrow> string \<Rightarrow> nat \<Rightarrow> bool \<Rightarrow> thrown + string" where
  "resultString v label maximumBytes allowEmpty =
     (case v of
        Some (JStr s) \<Rightarrow> if (\<not> allowEmpty \<and> s = []) \<or> utf8_length s > maximumBytes then Inl (malformed label) else Inr s
      | _ \<Rightarrow> Inl (malformed label))"

definition MAX_SAFE_INTEGER :: int where "MAX_SAFE_INTEGER = 2 ^ 53 - 1"

definition resultNonNegativeInteger :: "json option \<Rightarrow> bool" where
  "resultNonNegativeInteger v = (case v of Some (JNum i) \<Rightarrow> 0 \<le> i \<and> i \<le> MAX_SAFE_INTEGER | _ \<Rightarrow> False)"

definition resultNonNegativeNumber :: "json option \<Rightarrow> bool" where
  "resultNonNegativeNumber v = (case v of Some (JNum i) \<Rightarrow> 0 \<le> i | _ \<Rightarrow> False)"

definition validateMetadata :: "bool \<Rightarrow> json \<Rightarrow> thrown + unit" where
  "validateMetadata includesPath v =
     bind_result (resultRecord (Some v) ''metadata'') (\<lambda>metadata.
     bind_result (if includesPath then Inr () else resultExactKeys metadata [''name'', ''type'', ''size'', ''mode'', ''modified_ns'']) (\<lambda>_.
     bind_result (resultString (member metadata ''name'') ''metadata name'' 1024 False) (\<lambda>_.
       ensure (plain_error ''Run-side workspace metadata is malformed.'')
         (member metadata ''type'' \<in> Some ` JStr ` {''file'', ''directory'', ''symlink'', ''other''} \<and>
          (member metadata ''size'' = Some JNull \<or> resultNonNegativeInteger (member metadata ''size'')) \<and>
          resultNonNegativeInteger (member metadata ''mode'') \<and> resultNonNegativeNumber (member metadata ''modified_ns'')))))"

fun each :: "('a \<Rightarrow> 'e + unit) \<Rightarrow> 'a list \<Rightarrow> 'e + unit" where
  "each f [] = Inr ()"
| "each f (x # xs) = bind_result (f x) (\<lambda>_. each f xs)"

definition validate_match :: "json \<Rightarrow> thrown + unit" where
  "validate_match v =
     bind_result (resultRecord (Some v) ''search match'') (\<lambda>m.
     bind_result (resultExactKeys m [''path'', ''line'', ''text'']) (\<lambda>_.
     bind_result (resultString (member m ''path'') ''search path'' 1024 False) (\<lambda>path.
     bind_result (ensure (plain_error ''Run-side search match is malformed.'')
       (take 1 path \<noteq> ''/'' \<and> ''..'' \<notin> set (segments path) \<and> resultNonNegativeInteger (member m ''line'') \<and>
        member m ''line'' \<noteq> Some (JNum 0))) (\<lambda>_.
     bind_result (resultString (member m ''text'') ''search text'' 4096 True) (\<lambda>_. Inr ())))))"

definition tool_failure_claim :: "json option \<Rightarrow> certainty_claim" where
  "tool_failure_claim v = (if v = Some (JStr ''not_submitted'') then Claims_Not_Submitted
     else if v = Some (JStr ''acknowledged'') then Claims_Acknowledged else Claims_Uncertain)"

definition array_of :: "json option \<Rightarrow> json list option" where
  "array_of v = (case v of Some (JArr xs) \<Rightarrow> Some xs | _ \<Rightarrow> None)"

definition path_of :: "tool_arguments \<Rightarrow> string" where
  "path_of args = (case args of Path_Argument p \<Rightarrow> p | Write_Arguments p content \<Rightarrow> p | Edit_Arguments p old new n \<Rightarrow> p
     | Grep_Arguments p query \<Rightarrow> p | Shell_Arguments command cwd timeout \<Rightarrow> cwd)"

definition expected_replacements :: "tool_arguments \<Rightarrow> int option" where
  "expected_replacements args = (case args of Edit_Arguments p old new n \<Rightarrow> Some n | _ \<Rightarrow> None)"

definition validate_result :: "tool_request \<Rightarrow> (string \<times> json) list \<Rightarrow> thrown + unit" where
  "validate_result request result =
     (let same_path = (member result ''path'' = Some (JStr (path_of (tq_arguments request)))) in
      case tq_operation request of
        Read_File \<Rightarrow>
          bind_result (resultExactKeys result [''path'', ''content'', ''bytes'', ''modified_ns'']) (\<lambda>_.
          bind_result (resultString (member result ''content'') ''file content'' (256 * 1024) True) (\<lambda>content.
            ensure (plain_error ''Run-side file-read result is malformed.'')
              (same_path \<and> member result ''bytes'' = Some (JNum (int (utf8_length content))) \<and>
               resultNonNegativeNumber (member result ''modified_ns''))))
      | List_Directory \<Rightarrow>
          bind_result (resultExactKeys result [''path'', ''entries'']) (\<lambda>_.
            case array_of (member result ''entries'') of
              Some entries \<Rightarrow>
                if \<not> same_path \<or> length entries > 256 then Inl (plain_error ''Run-side directory-list result is malformed.'')
                else each (validateMetadata False) entries
            | None \<Rightarrow> Inl (plain_error ''Run-side directory-list result is malformed.''))
      | Stat_File \<Rightarrow>
          bind_result (resultExactKeys result [''path'', ''name'', ''type'', ''size'', ''mode'', ''modified_ns'']) (\<lambda>_.
            if \<not> same_path then Inl (plain_error ''Run-side stat result is stale.'')
            else validateMetadata True (JObj result))
      | Write_File \<Rightarrow>
          bind_result (resultExactKeys result [''path'', ''bytes'']) (\<lambda>_.
            ensure (plain_error ''Run-side write result is malformed.'')
              (same_path \<and> resultNonNegativeInteger (member result ''bytes'')))
      | Edit_File \<Rightarrow>
          bind_result (resultExactKeys result [''path'', ''bytes'', ''replacements'']) (\<lambda>_.
            ensure (plain_error ''Run-side edit result is malformed.'')
              (same_path \<and> resultNonNegativeInteger (member result ''bytes'') \<and>
               member result ''replacements'' = map_option JNum (expected_replacements (tq_arguments request))))
      | Grep \<Rightarrow>
          bind_result (resultExactKeys result [''matches'', ''truncated'']) (\<lambda>_.
            case array_of (member result ''matches'') of
              Some matches \<Rightarrow>
                if length matches > 100 \<or> member result ''truncated'' \<notin> Some ` JBool ` UNIV
                then Inl (plain_error ''Run-side search result is malformed.'')
                else each validate_match matches
            | None \<Rightarrow> Inl (plain_error ''Run-side search result is malformed.''))
      | Shell \<Rightarrow> Inr ())"

text \<open>\<open>parsed\<close> is the value of \<^verbatim>\<open>JSON.parse\<close>, \<open>None\<close> when it throws.\<close>

definition decodeToolResult :: "json option \<Rightarrow> tool_request \<Rightarrow> thrown + (string \<times> json) list" where
  "decodeToolResult parsed request =
     (case parsed of None \<Rightarrow> Inl (plain_error ''JSON Parse error'')
      | Some v \<Rightarrow>
          bind_result (resultRecord (Some v) ''envelope'') (\<lambda>envelope.
          if member envelope ''ok'' \<noteq> Some (JBool True) then
            bind_result (resultExactKeys envelope [''ok'', ''error'']) (\<lambda>_.
            bind_result (resultRecord (member envelope ''error'') ''error'') (\<lambda>error.
            bind_result (resultExactKeys error [''code'', ''message'', ''certainty'']) (\<lambda>_.
            bind_result (resultString (member error ''code'') ''error code'' 128 False) (\<lambda>code.
            bind_result (resultString (member error ''message'') ''error message'' 1024 False) (\<lambda>message.
              Inl (Thrown_Error (Some code) message (tool_failure_claim (member error ''certainty''))))))))
          else
            bind_result (resultExactKeys envelope [''ok'', ''result'']) (\<lambda>_.
            bind_result (resultRecord (member envelope ''result'') ''result'') (\<lambda>result.
            bind_result (validate_result request result) (\<lambda>_. Inr result)))))"

end
