(* ===== verification/Workspace_Broker.thy ===== *)
theory Workspace_Broker
  imports Broker_Results Environment_Store
begin

text \<open>
  The workspace tool broker (\<^verbatim>\<open>workspace-tool-broker.ts\<close>): sessions that a prepared authorization opens, requests
  that are recorded, checked, launched in the Run environment and settled, their cancellation and the closing of
  sessions. An asynchronous function is cut at its \<^verbatim>\<open>await\<close>s; what a process, an authority or a report answers is an
  argument. The framing of the streamed account client is not modelled: a request enters with \<open>client_request\<close>.
\<close>

section \<open>Authority\<close>

record broker_preparation =
  wp_authorizationId :: string
  wp_providerAccountId :: string
  wp_credentialGeneration :: int
  wp_accountEnvironmentGeneration :: int
  wp_accountEnvironment :: broker_environment
  wp_runId :: string
  wp_actionId :: string
  wp_occurrenceId :: string
  wp_attemptId :: string
  wp_operationalEpoch :: int
  wp_operationalAttempt :: int
  wp_workspaceId :: string
  wp_worktreeId :: string
  wp_workspaceBindingId :: string
  wp_workspaceAccess :: workspace_access
  wp_resolvedToolProfile :: "string list"
  wp_workerId :: string
  wp_workerGeneration :: int

record run_authority =
  ra_ref :: environment_ref
  ra_physicalLineageId :: string
  ra_workspaceId :: string
  ra_worktreeId :: string
  ra_workspaceBindingId :: string
  ra_workspaceAccess :: workspace_access
  ra_resolvedToolProfile :: "string list"

text \<open>The types of the fields are those of the declaration; what remains of the check are the values.\<close>

definition validatePreparation :: "broker_preparation \<Rightarrow> bool" where
  "validatePreparation i \<longleftrightarrow>
     list_all (\<lambda>s. s \<noteq> []) [wp_authorizationId i, wp_providerAccountId i, wp_runId i, wp_actionId i, wp_occurrenceId i,
       wp_attemptId i, wp_workspaceId i, wp_worktreeId i, wp_workspaceBindingId i, wp_workerId i] \<and>
     list_all (\<lambda>n. 1 \<le> n \<and> n \<le> MAX_SAFE_INTEGER) [wp_credentialGeneration i, wp_accountEnvironmentGeneration i,
       wp_workerGeneration i, wp_operationalAttempt i] \<and>
     0 \<le> wp_operationalEpoch i \<and> wp_operationalEpoch i \<le> MAX_SAFE_INTEGER"

definition assertAccountRef :: "broker_preparation \<Rightarrow> environment_ref \<Rightarrow> bool" where
  "assertAccountRef i ref \<longleftrightarrow> er_workerId ref = wp_workerId i \<and>
     er_owner ref = Account_Owner (wp_providerAccountId i) (wp_accountEnvironmentGeneration i) \<and>
     er_backendKind ref = bn_backendKind (wp_accountEnvironment i) \<and>
     er_environmentId ref = bn_environmentId (wp_accountEnvironment i) \<and>
     er_incarnation ref = bn_incarnation (wp_accountEnvironment i)"

definition assertRunAuthority :: "broker_preparation \<Rightarrow> run_authority \<Rightarrow> bool" where
  "assertRunAuthority i run \<longleftrightarrow> er_workerId (ra_ref run) = wp_workerId i \<and> er_owner (ra_ref run) = Run_Owner (wp_runId i) \<and>
     ra_workspaceId run = wp_workspaceId i \<and> ra_worktreeId run = wp_worktreeId i \<and>
     ra_workspaceBindingId run = wp_workspaceBindingId i \<and> ra_workspaceAccess run = wp_workspaceAccess i \<and>
     sort (ra_resolvedToolProfile run) = sort (wp_resolvedToolProfile i)"

definition preparationFromBinding :: "broker_binding \<Rightarrow> broker_preparation" where
  "preparationFromBinding b = \<lparr>wp_authorizationId = bb_authorizationId b, wp_providerAccountId = bb_providerAccountId b,
     wp_credentialGeneration = bb_credentialGeneration b,
     wp_accountEnvironmentGeneration = bb_accountEnvironmentGeneration b,
     wp_accountEnvironment = bb_accountEnvironment b, wp_runId = bb_runId b, wp_actionId = bb_actionId b,
     wp_occurrenceId = bb_occurrenceId b, wp_attemptId = bb_attemptId b, wp_operationalEpoch = bb_operationalEpoch b,
     wp_operationalAttempt = bb_operationalAttempt b, wp_workspaceId = bb_workspaceId b, wp_worktreeId = bb_worktreeId b,
     wp_workspaceBindingId = bb_workspaceBindingId b, wp_workspaceAccess = bb_workspaceAccess b,
     wp_resolvedToolProfile = bb_resolvedToolProfile b, wp_workerId = bb_workerId b,
     wp_workerGeneration = bb_workerGeneration b\<rparr>"

text \<open>SHA-256 is the argument \<open>digest\<close>.\<close>

definition toolProfileIdentity :: "(string \<Rightarrow> string) \<Rightarrow> string list \<Rightarrow> workspace_access \<Rightarrow> string" where
  "toolProfileIdentity digest tools access =
     digest (stringify (JObj [(''tools'', JArr (map JStr (sort tools))), (''access'', workspace_access_value access)]))"

definition environment_of :: "environment_ref \<Rightarrow> broker_environment" where
  "environment_of ref = \<lparr>bn_backendKind = er_backendKind ref, bn_environmentId = er_environmentId ref,
     bn_incarnation = er_incarnation ref\<rparr>"

definition new_binding :: "(string \<Rightarrow> string) \<Rightarrow> broker_preparation \<Rightarrow> environment_ref \<Rightarrow> run_authority \<Rightarrow> broker_binding" where
  "new_binding digest i account run = \<lparr>bb_authorizationId = wp_authorizationId i,
     bb_providerAccountId = wp_providerAccountId i, bb_credentialGeneration = wp_credentialGeneration i,
     bb_accountEnvironmentGeneration = wp_accountEnvironmentGeneration i, bb_accountEnvironment = environment_of account,
     bb_runId = wp_runId i, bb_actionId = wp_actionId i, bb_occurrenceId = wp_occurrenceId i,
     bb_attemptId = wp_attemptId i, bb_operationalEpoch = wp_operationalEpoch i,
     bb_operationalAttempt = wp_operationalAttempt i, bb_physicalLineageId = ra_physicalLineageId run,
     bb_runEnvironment = environment_of (ra_ref run), bb_workspaceId = ra_workspaceId run,
     bb_worktreeId = ra_worktreeId run, bb_workspaceBindingId = ra_workspaceBindingId run,
     bb_workspaceAccess = ra_workspaceAccess run, bb_workerId = wp_workerId i, bb_workerGeneration = wp_workerGeneration i,
     bb_resolvedToolProfile = ra_resolvedToolProfile run,
     bb_resolvedToolProfileId = toolProfileIdentity digest (ra_resolvedToolProfile run) (ra_workspaceAccess run)\<rparr>"

section \<open>State\<close>

text \<open>
  A live session: what \<^verbatim>\<open>LiveSession\<close> holds. \<open>lv_listed\<close> tells whether the broker still knows it, \<open>lv_mutations\<close>
  are the requests chained in \<^verbatim>\<open>mutationTail\<close>, the first of them running.
\<close>

record live_session =
  lv_record :: broker_session
  lv_account :: environment_ref
  lv_run :: run_authority
  lv_listed :: bool
  lv_active :: "(string \<times> json) list"
  lv_completed :: "(string \<times> tool_response) list"
  lv_activeCount :: nat
  lv_mutations :: "string list"
  lv_closing :: bool

definition lv_id :: "live_session \<Rightarrow> string" where
  "lv_id l = bs_session_id (lv_record l)"

record process_exit =
  px_exited :: bool
  px_nonzero :: bool
  px_exitCode :: int

text \<open>What an \<^verbatim>\<open>executeNow\<close> waits for.\<close>

datatype broker_stage =
    Queued
  | Spawning
  | Cancelling_Late request_state "string option"
  | Writing
  | Running
  | Cancelling_Timeout
  | Draining
  | Collecting process_exit
  | Reporting tool_response

record broker_task =
  bt_session :: string
  bt_request :: tool_request
  bt_stage :: broker_stage

definition task_key :: "broker_task \<Rightarrow> string \<times> string" where
  "task_key t = (bt_session t, tq_request_id (bt_request t))"

text \<open>A \<^verbatim>\<open>closeSession\<close> and the requests whose process it is cancelling.\<close>

record broker_closing =
  bl_session :: string
  bl_reason :: string
  bl_waits :: "string list"

text \<open>A \<^verbatim>\<open>prepare\<close> that closes the session it replaces; \<open>pr_waits\<close> tells whether the closing is its own.\<close>

record broker_preparing =
  pr_binding :: broker_binding
  pr_replaces :: string
  pr_waits :: bool

record broker =
  bk_store :: broker_store
  bk_live :: "live_session list"
  bk_tasks :: "broker_task list"
  bk_cancels :: "(string \<times> string) list"
  bk_closings :: "broker_closing list"
  bk_preparing :: "broker_preparing list"

record broker_config =
  bc_maxActiveRequests :: "int option"
  bc_digest :: "string \<Rightarrow> string"
  bc_parse :: "string \<Rightarrow> json option"

definition MAX_ACTIVE_BROKER_REQUESTS :: int where "MAX_ACTIVE_BROKER_REQUESTS = 8"

definition maxActiveRequests :: "broker_config \<Rightarrow> int" where
  "maxActiveRequests cfg = max 1 (min (case bc_maxActiveRequests cfg of None \<Rightarrow> MAX_ACTIVE_BROKER_REQUESTS | Some n \<Rightarrow> n)
     MAX_ACTIVE_BROKER_REQUESTS)"

datatype broker_output =
    Spawn string tool_request
  | Write_Input string string
  | Cancel_Process string string
  | Responded string string tool_response
  | Refused string
  | Execution_Failed string string
  | Cancel_Answered string string "tool_response option"
  | Session_Prepared_As string
  | Session_Admitted_As string
  | Session_Ended string string

definition live_of :: "string \<Rightarrow> broker \<Rightarrow> live_session option" where
  "live_of sid s = lookup_row lv_id sid (bk_live s)"

definition listed_live :: "string \<Rightarrow> broker \<Rightarrow> live_session option" where
  "listed_live sid s = (case live_of sid s of None \<Rightarrow> None | Some l \<Rightarrow> if lv_listed l then Some l else None)"

definition update_live :: "string \<Rightarrow> (live_session \<Rightarrow> live_session) \<Rightarrow> broker \<Rightarrow> broker" where
  "update_live sid f s = s\<lparr>bk_live := update_where (\<lambda>l. lv_id l = sid) f (bk_live s)\<rparr>"

definition set_stage :: "broker_task \<Rightarrow> broker_stage \<Rightarrow> broker \<Rightarrow> broker" where
  "set_stage t stage s = s\<lparr>bk_tasks := update_where (\<lambda>u. task_key u = task_key t) (\<lambda>u. u\<lparr>bt_stage := stage\<rparr>) (bk_tasks s)\<rparr>"

definition without :: "string \<Rightarrow> (string \<times> 'a) list \<Rightarrow> (string \<times> 'a) list" where
  "without k xs = filter (\<lambda>x. fst x \<noteq> k) xs"

definition remember :: "string \<Rightarrow> string \<Rightarrow> tool_response \<Rightarrow> broker \<Rightarrow> broker" where
  "remember sid rid response s = update_live sid (\<lambda>l. l\<lparr>lv_completed := (rid, response) # without rid (lv_completed l)\<rparr>) s"

text \<open>The end of an \<^verbatim>\<open>executeNow\<close>: its process is inactive, the count falls and the next mutation may run.\<close>

definition finish :: "broker_task \<Rightarrow> broker \<Rightarrow> broker" where
  "finish t s = (let (sid, rid) = task_key t in
     (update_live sid (\<lambda>l. l\<lparr>lv_active := without rid (lv_active l), lv_activeCount := lv_activeCount l - 1,
        lv_mutations := filter (\<lambda>m. m \<noteq> rid) (lv_mutations l)\<rparr>) s)
     \<lparr>bk_tasks := filter (\<lambda>u. task_key u \<noteq> task_key t) (bk_tasks s)\<rparr>)"

section \<open>Execution of a request\<close>

definition assertAdmitted :: "live_session \<Rightarrow> thrown option \<Rightarrow> tool_request \<Rightarrow> broker_store \<Rightarrow> thrown option" where
  "assertAdmitted l authority request st =
     (case session (lv_id l) st of
        None \<Rightarrow> Some (brokerFailure ''broker_session_not_admitted'' ''Broker session is not admitted.'')
      | Some row \<Rightarrow>
          if bs_state row \<noteq> Session_Admitted \<or> lv_closing l
          then Some (brokerFailure ''broker_session_not_admitted'' ''Broker session is not admitted.'')
          else if authority \<noteq> None then authority
          else if bb_workerGeneration (bs_binding row) \<noteq> bb_workerGeneration (bs_binding (lv_record l)) \<or>
              bn_incarnation (bb_accountEnvironment (bs_binding row)) \<noteq> er_incarnation (lv_account l) \<or>
              bn_incarnation (bb_runEnvironment (bs_binding row)) \<noteq> er_incarnation (ra_ref (lv_run l)) \<or>
              bb_physicalLineageId (bs_binding row) \<noteq> ra_physicalLineageId (lv_run l)
          then Some (brokerFailure ''broker_binding_stale'' ''Broker binding is stale.'')
          else if requiredSemanticTool (tq_operation request) \<notin> set (ra_resolvedToolProfile (lv_run l))
          then Some (brokerFailure ''broker_tool_denied'' ''Resolved tool policy denied the operation.'')
          else if tq_operation request \<in> {Write_File, Edit_File, Shell} \<and> ra_workspaceAccess (lv_run l) \<noteq> Access_Read_Write
          then Some (brokerFailure ''broker_workspace_read_only'' ''Workspace permission denied the mutating operation.'')
          else if ra_workspaceAccess (lv_run l) = Access_None
          then Some (brokerFailure ''broker_workspace_unavailable'' ''Workspace access is unavailable.'')
          else None)"

definition responseForSettled :: "live_session \<Rightarrow> string \<Rightarrow> request_state \<Rightarrow> string option \<Rightarrow> tool_response" where
  "responseForSettled l rid state errorCode =
     (case map_of (lv_completed l) rid of
        Some cached \<Rightarrow> cached
      | None \<Rightarrow>
          if state = Request_Uncertain then uncertain_response rid
            (case errorCode of None \<Rightarrow> ''broker_request_outcome_uncertain'' | Some c \<Rightarrow> c)
            ''Broker request outcome is uncertain and will not be replayed.''
          else if state = Request_Cancelled then cancelled_response rid ''broker_request_cancelled''
          else if state = Request_Completed then rejected_response rid ''broker_result_unavailable''
            ''The completed result is no longer available; the operation was not replayed.''
          else rejected_response rid (case errorCode of None \<Rightarrow> ''broker_request_not_submitted'' | Some c \<Rightarrow> c)
            ''Broker request was not submitted.'')"

text \<open>The answer for the record as it is, or for the given state when there is none.\<close>

definition settled_response :: "live_session \<Rightarrow> string \<Rightarrow> broker_request option \<Rightarrow> request_state \<Rightarrow> string \<Rightarrow> tool_response" where
  "settled_response l rid row state code =
     (case row of
        Some r \<Rightarrow> responseForSettled l rid (br_state r) (Some (case br_error_code r of None \<Rightarrow> code | Some c \<Rightarrow> c))
      | None \<Rightarrow> responseForSettled l rid state (Some code))"

type_synonym stepped = "broker_output list \<times> broker"

definition respond :: "broker_task \<Rightarrow> tool_response \<Rightarrow> broker \<Rightarrow> stepped" where
  "respond t response s = ([Responded (bt_session t) (tq_request_id (bt_request t)) response], finish t s)"

definition fails :: "broker_task \<Rightarrow> broker \<Rightarrow> stepped" where
  "fails t s = ([Execution_Failed (bt_session t) (tq_request_id (bt_request t))], finish t s)"

text \<open>A response that is kept and reported before it is given.\<close>

definition concludes :: "broker_task \<Rightarrow> tool_response \<Rightarrow> broker \<Rightarrow> stepped" where
  "concludes t response s = ([], set_stage t (Reporting response)
     (remember (bt_session t) (tq_request_id (bt_request t)) response s))"

definition executeNow_begins :: "string \<Rightarrow> thrown option \<Rightarrow> live_session \<Rightarrow> broker_task \<Rightarrow> broker \<Rightarrow> stepped" where
  "executeNow_begins now authority l t s =
     (let sid = bt_session t; rid = tq_request_id (bt_request t); queued = request_of sid rid (bk_store s) in
      if queued = None \<or> br_state (the queued) \<noteq> Request_Not_Submitted
      then respond t (settled_response l rid queued Request_Rejected ''broker_request_not_submitted'') s
      else case assertAdmitted l authority (bt_request t) (bk_store s) of
        Some error \<Rightarrow>
          let (code, message) = brokerError error ''broker_authority_rejected'' in
          (case reject now sid rid code (bk_store s) of
             (Inl e, st) \<Rightarrow> fails t (s\<lparr>bk_store := st\<rparr>)
           | (Inr r, st) \<Rightarrow> concludes t (rejected_response rid code message) (s\<lparr>bk_store := st\<rparr>))
      | None \<Rightarrow>
          (case submitted now sid rid (bk_store s) of
             (Inl e, st) \<Rightarrow> fails t (s\<lparr>bk_store := st\<rparr>)
           | (Inr r, st) \<Rightarrow> ([Spawn sid (bt_request t)], set_stage t Spawning (s\<lparr>bk_store := st\<rparr>))))"

text \<open>The \<^verbatim>\<open>catch\<close> of \<^verbatim>\<open>executeNow\<close>.\<close>

definition catches :: "string \<Rightarrow> thrown \<Rightarrow> live_session \<Rightarrow> broker_task \<Rightarrow> broker \<Rightarrow> stepped" where
  "catches now error l t s =
     (let sid = bt_session t; rid = tq_request_id (bt_request t); row = request_of sid rid (bk_store s) in
      case row of
        Some r \<Rightarrow>
          if br_state r \<noteq> Request_Submitted then respond t (responseForSettled l rid (br_state r) (br_error_code r)) s
          else let (certainty, code, message) = classifyExecutionError error (br_process r \<noteq> None) (br_mutating r) in
            (case (if certainty = Certainty_Uncertain then uncertain now sid rid code (bk_store s)
                   else reject now sid rid code (bk_store s)) of
               (Inl e, st) \<Rightarrow> fails t (s\<lparr>bk_store := st\<rparr>)
             | (Inr r, st) \<Rightarrow> concludes t
                 (if certainty = Certainty_Uncertain then uncertain_response rid code message
                  else if certainty = Certainly_Acknowledged then failed_response rid code message
                  else rejected_response rid code message) (s\<lparr>bk_store := st\<rparr>))
      | None \<Rightarrow> fails t s)"

record tool_output =
  to_text :: string
  to_truncated :: bool

definition MAX_BROKER_METADATA_BYTES :: nat where "MAX_BROKER_METADATA_BYTES = 64 * 1024"

definition execution_result ::
  "broker_config \<Rightarrow> process_exit \<Rightarrow> tool_output \<Rightarrow> tool_output \<Rightarrow> tool_request \<Rightarrow> thrown + (string \<times> json) list" where
  "execution_result cfg exit out err request =
     (if tq_operation request = Shell then
        (if \<not> px_exited exit \<and> \<not> px_nonzero exit then Inl (plain_error ''Run-side shell process outcome is unavailable.'')
         else Inr [(''exit_code'', JNum (px_exitCode exit)), (''stdout'', JStr (to_text out)), (''stderr'', JStr (to_text err)),
           (''stdout_truncated'', JBool (to_truncated out)), (''stderr_truncated'', JBool (to_truncated err))])
      else if \<not> px_exited exit \<or> px_exitCode exit \<noteq> 0 then
        Inl (plain_error (if to_text err \<noteq> [] then to_text err else ''Run-side workspace tool process did not complete.''))
      else if to_truncated out then Inl (plain_error ''Run-side workspace tool response exceeded its bound.'')
      else decodeToolResult (bc_parse cfg (to_text out)) request)"

definition result_bound :: "tool_operation \<Rightarrow> nat" where
  "result_bound operation = (if operation \<in> {Read_File, Shell} then MAX_BROKER_FRAME_BYTES else MAX_BROKER_METADATA_BYTES)"

definition executeNow_completes ::
  "broker_config \<Rightarrow> string \<Rightarrow> thrown option \<Rightarrow> process_exit \<Rightarrow> tool_output \<Rightarrow> tool_output \<Rightarrow> live_session \<Rightarrow> broker_task \<Rightarrow>
   broker \<Rightarrow> stepped" where
  "executeNow_completes cfg now authority exit out err l t s =
     (let sid = bt_session t; rid = tq_request_id (bt_request t); settled = request_of sid rid (bk_store s) in
      if settled = None \<or> br_state (the settled) \<noteq> Request_Submitted then
        let response = settled_response l rid settled Request_Cancelled ''broker_request_cancelled'' in
        respond t response (remember sid rid response s)
      else case authority of
        Some error \<Rightarrow> catches now error l t s
      | None \<Rightarrow>
          (case execution_result cfg exit out err (bt_request t) of
             Inl error \<Rightarrow> catches now error l t s
           | Inr result \<Rightarrow>
               let response = completed_response rid result; bytes = utf8_length (stringify (response_value response)) in
               if bytes > result_bound (tq_operation (bt_request t))
               then catches now (plain_error ''Workspace tool result exceeds its bound.'') l t s
               else (case complete_request now sid rid (int bytes) (bk_store s) of
                   (Inl e, st) \<Rightarrow> catches now (plain_error ''Workspace tool broker request transition is stale.'') l t
                     (s\<lparr>bk_store := st\<rparr>)
                 | (Inr r, st) \<Rightarrow> concludes t response (s\<lparr>bk_store := st\<rparr>))))"

text \<open>What an \<^verbatim>\<open>await\<close> of \<^verbatim>\<open>executeNow\<close> answers; \<open>Answer_Failed\<close> is an exception.\<close>

datatype task_answer =
    Turn
  | Spawned json
  | Cancel_Settled
  | Input_Written
  | Exited process_exit
  | Timed_Out
  | Drained
  | Collected tool_output tool_output
  | Reported_Activity
  | Answer_Failed thrown

definition cancellation_unsettled :: thrown where
  "cancellation_unsettled = Thrown_Backend ''streamed_process_cancellation_uncertain''
     ''Workspace tool cancellation did not settle.'' Claims_Ambiguous"

definition spawned :: "string \<Rightarrow> json \<Rightarrow> live_session \<Rightarrow> broker_task \<Rightarrow> broker \<Rightarrow> stepped" where
  "spawned now process l t s0 =
     (let sid = bt_session t; rid = tq_request_id (bt_request t);
          s = update_live sid (\<lambda>l. l\<lparr>lv_active := (rid, process) # without rid (lv_active l)\<rparr>) s0;
          row = request_of sid rid (bk_store s) in
      if row = None \<or> br_state (the row) \<noteq> Request_Submitted then
        ([Cancel_Process sid rid], set_stage t (case row of
            None \<Rightarrow> Cancelling_Late Request_Cancelled (Some ''broker_request_cancelled'')
          | Some r \<Rightarrow> Cancelling_Late (br_state r)
              (Some (case br_error_code r of None \<Rightarrow> ''broker_request_cancelled'' | Some c \<Rightarrow> c))) s)
      else case bindProcess now sid rid process (bk_store s) of
          (Inl e, st) \<Rightarrow> catches now (plain_error ''Workspace tool broker request process binding is stale.'') l t (s\<lparr>bk_store := st\<rparr>)
        | (Inr r, st) \<Rightarrow> ([Write_Input sid rid], set_stage t Writing (s\<lparr>bk_store := st\<rparr>)))"

definition timed_out :: "string \<Rightarrow> broker_task \<Rightarrow> broker \<Rightarrow> stepped" where
  "timed_out now t s =
     (let sid = bt_session t; rid = tq_request_id (bt_request t);
          st = (case request_of sid rid (bk_store s) of
            None \<Rightarrow> bk_store s
          | Some r \<Rightarrow> if unsettled (br_state r) then snd (cancelled now sid rid ''broker_request_timeout'' (bk_store s))
              else bk_store s)
      in concludes t (cancelled_response rid ''broker_request_timeout'') (s\<lparr>bk_store := st\<rparr>))"

text \<open>The stretches of \<^verbatim>\<open>executeNow\<close>; an answer that does not fit the stage leaves the task where it is.\<close>

definition task_continues ::
  "broker_config \<Rightarrow> string \<Rightarrow> thrown option \<Rightarrow> task_answer \<Rightarrow> live_session \<Rightarrow> broker_task \<Rightarrow> broker \<Rightarrow> stepped" where
  "task_continues cfg now authority answer l t s =
     (let sid = bt_session t; rid = tq_request_id (bt_request t) in
      case (bt_stage t, answer) of
        (Queued, Turn) \<Rightarrow>
          if lv_mutations l \<noteq> [] \<and> hd (lv_mutations l) = rid then executeNow_begins now authority l t s else ([], s)
      | (Spawning, Spawned process) \<Rightarrow> spawned now process l t s
      | (Spawning, Answer_Failed error) \<Rightarrow> catches now error l t s
      | (Cancelling_Late state code, Cancel_Settled) \<Rightarrow> respond t (responseForSettled l rid state code) s
      | (Writing, Input_Written) \<Rightarrow> ([], set_stage t Running s)
      | (Writing, Answer_Failed error) \<Rightarrow> catches now error l t s
      | (Running, Exited exit) \<Rightarrow> ([], set_stage t (Collecting exit) s)
      | (Running, Timed_Out) \<Rightarrow> ([Cancel_Process sid rid], set_stage t Cancelling_Timeout s)
      | (Running, Answer_Failed error) \<Rightarrow> catches now error l t s
      | (Cancelling_Timeout, Cancel_Settled) \<Rightarrow> ([], set_stage t Draining s)
      | (Cancelling_Timeout, Answer_Failed error) \<Rightarrow> catches now error l t s
      | (Draining, Timed_Out) \<Rightarrow> catches now cancellation_unsettled l t s
      | (Draining, Drained) \<Rightarrow> timed_out now t s
      | (Draining, Answer_Failed error) \<Rightarrow> catches now error l t s
      | (Collecting exit, Collected out err) \<Rightarrow> executeNow_completes cfg now authority exit out err l t s
      | (Collecting exit, Answer_Failed error) \<Rightarrow> catches now error l t s
      | (Reporting response, Reported_Activity) \<Rightarrow> respond t response s
      | _ \<Rightarrow> ([], s))"

definition execute :: "broker_config \<Rightarrow> string \<Rightarrow> thrown option \<Rightarrow> live_session \<Rightarrow> tool_request \<Rightarrow> broker \<Rightarrow> stepped" where
  "execute cfg now authority l request s =
     (let sid = lv_id l; rid = tq_request_id request; encoded = stringify (request_value request);
          digest = bc_digest cfg encoded; mutating = isMutatingWorkspaceTool (tq_operation request) in
      case request_of sid rid (bk_store s) of
        Some existing \<Rightarrow>
          ([Responded sid rid
            (if br_request_digest existing \<noteq> digest then rejected_response rid ''broker_request_conflict''
               ''Broker request identity was reused with different content.''
             else responseForSettled l rid (br_state existing) (br_error_code existing))], s)
      | None \<Rightarrow>
          if int (lv_activeCount l) \<ge> maxActiveRequests cfg
          then ([Responded sid rid (rejected_response rid ''broker_active_request_limit''
            ''Broker active request limit is exhausted.'')], s)
          else case createRequest now sid rid (tq_operation request) mutating digest (int (utf8_length encoded)) (bk_store s) of
            (Inl e, st) \<Rightarrow> ([Execution_Failed sid rid], s\<lparr>bk_store := st\<rparr>)
          | (Inr r, st) \<Rightarrow>
              let t = \<lparr>bt_session = sid, bt_request = request, bt_stage = Queued\<rparr>;
                  count = (\<lambda>l. l\<lparr>lv_activeCount := lv_activeCount l + 1,
                    lv_mutations := (if mutating then lv_mutations l @ [rid] else lv_mutations l)\<rparr>);
                  s1 = (update_live sid count (s\<lparr>bk_store := st\<rparr>))\<lparr>bk_tasks := bk_tasks s @ [t]\<rparr> in
              if mutating then ([], s1) else executeNow_begins now authority (count l) t s1)"

text \<open>
  A request that reaches the broker: from the local client, which refuses once the session closes, or in a frame of
  the streamed client (\<open>streamed\<close>).
\<close>

definition client_request ::
  "broker_config \<Rightarrow> string \<Rightarrow> thrown option \<Rightarrow> bool \<Rightarrow> string \<Rightarrow> json \<Rightarrow> broker \<Rightarrow> stepped" where
  "client_request cfg now authority streamed sid v s =
     (case live_of sid s of
        None \<Rightarrow> ([Refused sid], s)
      | Some l \<Rightarrow>
          if lv_closing l \<and> \<not> streamed then ([Refused sid], s)
          else case decodeWorkspaceToolRequest v of
            Inl e \<Rightarrow> ([Refused sid], s)
          | Inr request \<Rightarrow> execute cfg now authority l request s)"

section \<open>Cancellation\<close>

definition cancel_begins :: "string \<Rightarrow> string \<Rightarrow> string \<Rightarrow> broker \<Rightarrow> stepped" where
  "cancel_begins now sid rid s =
     (case listed_live sid s of
        None \<Rightarrow> ([Cancel_Answered sid rid None], s)
      | Some l \<Rightarrow>
          if lv_closing l then ([Cancel_Answered sid rid None], s)
          else case request_of sid rid (bk_store s) of
            None \<Rightarrow> ([Cancel_Answered sid rid (Some (rejected_response rid ''broker_request_not_found''
              ''Broker request does not exist.''))], s)
          | Some r \<Rightarrow>
              if \<not> unsettled (br_state r)
              then ([Cancel_Answered sid rid (Some (responseForSettled l rid (br_state r) (br_error_code r)))], s)
              else if rid \<in> fst ` set (lv_active l)
              then ([Cancel_Process sid rid], s\<lparr>bk_cancels := bk_cancels s @ [(sid, rid)]\<rparr>)
              else case cancelled now sid rid ''broker_request_cancelled'' (bk_store s) of
                  (Inl e, st) \<Rightarrow> ([Cancel_Answered sid rid None], s\<lparr>bk_store := st\<rparr>)
                | (Inr r, st) \<Rightarrow> ([Cancel_Answered sid rid (Some (cancelled_response rid ''broker_request_cancelled''))],
                    s\<lparr>bk_store := st\<rparr>))"

text \<open>\<open>ok\<close> tells whether \<^verbatim>\<open>process.cancel\<close> returned; a failing write of the store lands in the \<^verbatim>\<open>catch\<close> too.\<close>

definition cancel_continues :: "string \<Rightarrow> bool \<Rightarrow> string \<times> string \<Rightarrow> broker \<Rightarrow> stepped" where
  "cancel_continues now ok pending s0 =
     (let (sid, rid) = pending; s = s0\<lparr>bk_cancels := remove1 pending (bk_cancels s0)\<rparr>;
          tried = (if ok then cancelled now sid rid ''broker_request_cancelled'' (bk_store s) else (Inl Transition_Stale, bk_store s)) in
      case tried of
        (Inr r, st) \<Rightarrow> ([Cancel_Answered sid rid (Some (cancelled_response rid ''broker_request_cancelled''))], s\<lparr>bk_store := st\<rparr>)
      | (Inl e, st) \<Rightarrow>
          (case uncertain now sid rid ''broker_cancellation_uncertain'' st of
             (Inr r, st') \<Rightarrow> ([Cancel_Answered sid rid (Some (uncertain_response rid ''broker_cancellation_uncertain''
               ''Broker request cancellation outcome is uncertain.''))], s\<lparr>bk_store := st'\<rparr>)
           | (Inl e, st') \<Rightarrow> ([Cancel_Answered sid rid None], s\<lparr>bk_store := st'\<rparr>)))"

section \<open>Closing\<close>

definition close_begins :: "string \<Rightarrow> string \<Rightarrow> string \<Rightarrow> broker \<Rightarrow> stepped" where
  "close_begins now reason sid s =
     (case listed_live sid s of
        Some l \<Rightarrow>
          if lv_closing l then ([], s)
          else (map (\<lambda>x. Cancel_Process sid (fst x)) (lv_active l),
            (update_live sid (\<lambda>l. l\<lparr>lv_closing := True\<rparr>) s)\<lparr>bk_closings := bk_closings s @
              [\<lparr>bl_session = sid, bl_reason = reason, bl_waits = map fst (lv_active l)\<rparr>]\<rparr>)
      | None \<Rightarrow>
          (case session sid (bk_store s) of
             None \<Rightarrow> ([], s)
           | Some r \<Rightarrow> if bs_state r = Session_Closed then ([], s)
               else ([], s\<lparr>bk_store := snd (closeSession now sid reason (bk_store s))\<rparr>)))"

definition closing_cancels :: "string \<Rightarrow> bool \<Rightarrow> string \<Rightarrow> broker_closing \<Rightarrow> broker \<Rightarrow> stepped" where
  "closing_cancels now ok rid c s0 =
     (let sid = bl_session c;
          s = s0\<lparr>bk_closings := update_where (\<lambda>d. bl_session d = sid) (\<lambda>d. d\<lparr>bl_waits := remove1 rid (bl_waits d)\<rparr>) (bk_closings s0)\<rparr> in
      case request_of sid rid (bk_store s) of
        None \<Rightarrow> ([], s)
      | Some r \<Rightarrow>
          if ok then ([], if unsettled (br_state r) then s\<lparr>bk_store := snd (cancelled now sid rid (bl_reason c) (bk_store s))\<rparr> else s)
          else ([], if br_state r = Request_Submitted \<and> br_mutating r
             then s\<lparr>bk_store := snd (uncertain now sid rid ''broker_cancellation_uncertain'' (bk_store s))\<rparr> else s))"

definition close_finishes :: "string \<Rightarrow> broker_closing \<Rightarrow> broker \<Rightarrow> stepped" where
  "close_finishes now c s =
     (let sid = bl_session c in
      ([Session_Ended sid (bl_reason c)],
       (update_live sid (\<lambda>l. l\<lparr>lv_listed := False\<rparr>) s)
         \<lparr>bk_store := snd (closeSession now sid (bl_reason c) (bk_store s)),
          bk_closings := filter (\<lambda>d. bl_session d \<noteq> sid) (bk_closings s)\<rparr>))"

text \<open>\<^verbatim>\<open>closeByExecution\<close>, \<^verbatim>\<open>closeByRun\<close>, \<^verbatim>\<open>closeByProviderAccount\<close>, \<^verbatim>\<open>retireAuthorization\<close> and \<^verbatim>\<open>retireAll\<close>, by the binding.\<close>

fun close_each :: "string \<Rightarrow> string \<Rightarrow> string list \<Rightarrow> broker \<Rightarrow> stepped" where
  "close_each now reason [] s = ([], s)"
| "close_each now reason (sid # sids) s =
     (let (outs, s1) = close_begins now reason sid s; (more_outs, s2) = close_each now reason sids s1 in (outs @ more_outs, s2))"

definition closeMatching :: "string \<Rightarrow> (broker_binding \<Rightarrow> bool) \<Rightarrow> string \<Rightarrow> broker \<Rightarrow> stepped" where
  "closeMatching now matches reason s = close_each now reason
     (map bs_session_id (filter (\<lambda>r. bs_state r \<noteq> Session_Closed \<and> matches (bs_binding r)) (sessions (bk_store s)))) s"

section \<open>Sessions\<close>

definition creates_session :: "string \<Rightarrow> string \<Rightarrow> broker_binding \<Rightarrow> broker \<Rightarrow> stepped" where
  "creates_session now sid binding s =
     (let gen = generation (bb_providerAccountId binding) (bb_actionId binding) (bk_store s) in
      case createSession now sid gen binding (bk_store s) of
        (Inl e, st) \<Rightarrow> ([Refused sid], s\<lparr>bk_store := st\<rparr>)
      | (Inr r, st) \<Rightarrow> ([Session_Prepared_As sid], s\<lparr>bk_store := st\<rparr>))"

text \<open>\<^verbatim>\<open>prepare\<close> after the two authorities were resolved; \<open>ok\<close> tells whether both are current, \<open>sid\<close> is the fresh UUID.\<close>

definition prepare_session ::
  "broker_config \<Rightarrow> string \<Rightarrow> bool \<Rightarrow> string \<Rightarrow> environment_ref \<Rightarrow> run_authority \<Rightarrow> broker_preparation \<Rightarrow> broker \<Rightarrow> stepped" where
  "prepare_session cfg now ok sid account run input s =
     (if \<not> validatePreparation input \<or> \<not> assertAccountRef input account \<or> \<not> assertRunAuthority input run \<or> \<not> ok
      then ([Refused sid], s)
      else let binding = new_binding (bc_digest cfg) input account run in
        case List.find (\<lambda>r. bs_state r \<noteq> Session_Closed \<and> bb_providerAccountId (bs_binding r) = wp_providerAccountId input \<and>
            bb_actionId (bs_binding r) = wp_actionId input) (sessions (bk_store s)) of
          None \<Rightarrow> creates_session now sid binding s
        | Some existing \<Rightarrow>
            if bs_binding existing = binding then ([Session_Prepared_As (bs_session_id existing)], s)
            else let (outs, s1) = close_begins now ''broker_authority_replaced'' (bs_session_id existing) s;
                waits = (case listed_live (bs_session_id existing) s of Some l \<Rightarrow> \<not> lv_closing l | None \<Rightarrow> False)
              in (outs, s1\<lparr>bk_preparing := bk_preparing s1 @
                [\<lparr>pr_binding = binding, pr_replaces = bs_session_id existing, pr_waits = waits\<rparr>]\<rparr>))"

definition prepare_continues :: "string \<Rightarrow> string \<Rightarrow> broker_preparing \<Rightarrow> broker \<Rightarrow> stepped" where
  "prepare_continues now sid p s = creates_session now sid (pr_binding p) (s\<lparr>bk_preparing := remove1 p (bk_preparing s)\<rparr>)"

definition new_live :: "broker_session \<Rightarrow> environment_ref \<Rightarrow> run_authority \<Rightarrow> live_session" where
  "new_live r account run = \<lparr>lv_record = r, lv_account = account, lv_run = run, lv_listed = True, lv_active = [],
     lv_completed = [], lv_activeCount = 0, lv_mutations = [], lv_closing = False\<rparr>"

text \<open>\<^verbatim>\<open>admit\<close> and \<^verbatim>\<open>admitLocal\<close> after their \<^verbatim>\<open>await\<close>s; \<open>process\<close> is the handle of the streamed client.\<close>

definition admit_session ::
  "string \<Rightarrow> bool \<Rightarrow> json option \<Rightarrow> environment_ref \<Rightarrow> run_authority \<Rightarrow> broker_preparation \<Rightarrow> string \<Rightarrow> broker \<Rightarrow> stepped" where
  "admit_session now ok process account run input sid s =
     (if \<not> assertAccountRef input account \<or> \<not> assertRunAuthority input run \<or> \<not> ok then ([Refused sid], s)
      else case admit now sid process (bk_store s) of
        (Inl e, st) \<Rightarrow> ([Refused sid], s\<lparr>bk_store := st\<rparr>)
      | (Inr r, st) \<Rightarrow> ([Session_Admitted_As sid], s\<lparr>bk_store := st, bk_live := bk_live s @ [new_live r account run]\<rparr>))"

definition restart_broker :: "string \<Rightarrow> broker \<Rightarrow> broker" where
  "restart_broker now s = \<lparr>bk_store = reconcileRestart now (bk_store s), bk_live = [], bk_tasks = [], bk_cancels = [],
     bk_closings = [], bk_preparing = []\<rparr>"

section \<open>Steps\<close>

inductive broker_step :: "broker_config \<Rightarrow> broker \<Rightarrow> broker_output list \<Rightarrow> broker \<Rightarrow> bool" for cfg where
  prepare: "prepare_session cfg now ok sid account run input s = (outs, s') \<Longrightarrow> broker_step cfg s outs s'"
| prepared: "p \<in> set (bk_preparing s) \<Longrightarrow>
    pr_waits p \<longrightarrow> pr_replaces p \<notin> bl_session ` set (bk_closings s) \<Longrightarrow>
    prepare_continues now sid p s = (outs, s') \<Longrightarrow> broker_step cfg s outs s'"
| admits: "session sid (bk_store s) = Some r \<Longrightarrow> input = preparationFromBinding (bs_binding r) \<Longrightarrow>
    admit_session now ok process account run input sid s = (outs, s') \<Longrightarrow> broker_step cfg s outs s'"
| asks: "client_request cfg now authority streamed sid v s = (outs, s') \<Longrightarrow> broker_step cfg s outs s'"
| task: "t \<in> set (bk_tasks s) \<Longrightarrow> live_of (bt_session t) s = Some l \<Longrightarrow>
    task_continues cfg now authority answer l t s = (outs, s') \<Longrightarrow> broker_step cfg s outs s'"
| cancels: "cancel_begins now sid rid s = (outs, s') \<Longrightarrow> broker_step cfg s outs s'"
| cancel_settles: "pending \<in> set (bk_cancels s) \<Longrightarrow> cancel_continues now ok pending s = (outs, s') \<Longrightarrow>
    broker_step cfg s outs s'"
| closes: "close_begins now reason sid s = (outs, s') \<Longrightarrow> broker_step cfg s outs s'"
| closes_matching: "closeMatching now matches reason s = (outs, s') \<Longrightarrow> broker_step cfg s outs s'"
| closing: "c \<in> set (bk_closings s) \<Longrightarrow> rid \<in> set (bl_waits c) \<Longrightarrow> closing_cancels now ok rid c s = (outs, s') \<Longrightarrow>
    broker_step cfg s outs s'"
| closed: "c \<in> set (bk_closings s) \<Longrightarrow> bl_waits c = [] \<Longrightarrow> close_finishes now c s = (outs, s') \<Longrightarrow>
    broker_step cfg s outs s'"
| restart: "broker_step cfg s [] (restart_broker now s)"

inductive broker_run :: "broker_config \<Rightarrow> broker \<Rightarrow> broker_output list \<Rightarrow> broker \<Rightarrow> bool" for cfg where
  start: "broker_run cfg s [] s"
| extend: "broker_run cfg s outs t \<Longrightarrow> broker_step cfg t news u \<Longrightarrow> broker_run cfg s (outs @ news) u"

definition new_broker :: broker where
  "new_broker = \<lparr>bk_store = empty_broker_store, bk_live = [], bk_tasks = [], bk_cancels = [], bk_closings = [],
     bk_preparing = []\<rparr>"

end
