(* ===== verification/Broker_Invariant.thy ===== *)
theory Broker_Invariant
  imports Workspace_Broker
begin

text \<open>
  The invariant of the workspace tool broker: what its tasks, its live sessions and the recorded requests have to do
  with each other, and that each elementary change of the state keeps it.
\<close>

section \<open>Requests evolve\<close>

interpretation requests: keyed_table request_key "\<lambda>k st. request_of (fst k) (snd k) st" "\<lambda>k. update_request (fst k) (snd k)"
  by unfold_locales (auto simp: request_of_def update_request_def lookup_row_update_key dest: lookup_row_SomeD)

definition request_evolves :: "broker_request \<Rightarrow> broker_request \<Rightarrow> bool" where
  "request_evolves r r' \<longleftrightarrow> br_operation r' = br_operation r \<and> br_mutating r' = br_mutating r \<and>
     br_request_digest r' = br_request_digest r \<and> br_request_bytes r' = br_request_bytes r \<and>
     write_once (br_process r) (br_process r') \<and>
     (br_state r \<noteq> Request_Not_Submitted \<longrightarrow> br_state r' \<noteq> Request_Not_Submitted) \<and>
     (\<not> unsettled (br_state r) \<longrightarrow> br_state r' = br_state r \<and> br_error_code r' = br_error_code r \<and>
        br_process r' = br_process r \<and> br_result_bytes r' = br_result_bytes r \<and> br_completed_at r' = br_completed_at r)"

lemma request_evolves_refl [simp]: "request_evolves r r"
  by (simp add: request_evolves_def)

lemma request_evolves_trans: "request_evolves a b \<Longrightarrow> request_evolves b c \<Longrightarrow> request_evolves a c"
  unfolding request_evolves_def by (metis write_once_trans)

definition requests_evolve :: "broker_store \<Rightarrow> broker_store \<Rightarrow> bool" where
  "requests_evolve st st' \<longleftrightarrow> (\<forall>sid rid r. request_of sid rid st = Some r \<longrightarrow>
     (\<exists>r'. request_of sid rid st' = Some r' \<and> request_evolves r r'))"

lemma requests_evolve_refl [simp]: "requests_evolve st st"
  by (simp add: requests_evolve_def)

lemma requests_evolve_trans: "requests_evolve a b \<Longrightarrow> requests_evolve b c \<Longrightarrow> requests_evolve a c"
  unfolding requests_evolve_def using request_evolves_trans by meson

text \<open>Changes of the store that every task survives: requests keep their state or are settled, sessions go on.\<close>

definition settles :: "broker_request \<Rightarrow> broker_request \<Rightarrow> bool" where
  "settles r r' \<longleftrightarrow> request_evolves r r' \<and>
     (br_state r' = br_state r \<or> unsettled (br_state r) \<and> \<not> unsettled (br_state r'))"

definition store_ok :: "broker_store \<Rightarrow> broker_store \<Rightarrow> bool" where
  "store_ok st st' \<longleftrightarrow>
     (\<forall>sid rid. case request_of sid rid st of
        None \<Rightarrow> request_of sid rid st' = None
      | Some r \<Rightarrow> (\<exists>r'. request_of sid rid st' = Some r' \<and> settles r r')) \<and>
     (\<forall>sid row. session sid st = Some row \<longrightarrow> bs_state row \<noteq> Session_Prepared \<longrightarrow>
        (\<exists>row'. session sid st' = Some row' \<and> bs_state row' \<noteq> Session_Prepared))"

lemma settles_refl [simp]: "settles r r"
  by (simp add: settles_def)

lemma store_ok_refl [simp]: "store_ok st st"
  by (auto simp: store_ok_def split: option.split)

lemma store_okD:
  assumes "store_ok st st'" and "request_of sid rid st = Some r"
  obtains r' where "request_of sid rid st' = Some r'" "settles r r'"
proof -
  have "case request_of sid rid st of None \<Rightarrow> request_of sid rid st' = None
      | Some r \<Rightarrow> \<exists>r'. request_of sid rid st' = Some r' \<and> settles r r'" using assms(1) by (simp add: store_ok_def)
  then show ?thesis using that assms(2) by auto
qed

lemma store_ok_none:
  assumes "store_ok st st'" and "request_of sid rid st = None" shows "request_of sid rid st' = None"
proof -
  have "case request_of sid rid st of None \<Rightarrow> request_of sid rid st' = None
      | Some r \<Rightarrow> \<exists>r'. request_of sid rid st' = Some r' \<and> settles r r'" using assms(1) by (simp add: store_ok_def)
  then show ?thesis using assms(2) by simp
qed

lemma store_ok_session:
  "store_ok st st' \<Longrightarrow> session sid st = Some row \<Longrightarrow> bs_state row \<noteq> Session_Prepared \<Longrightarrow>
    \<exists>row'. session sid st' = Some row' \<and> bs_state row' \<noteq> Session_Prepared"
  by (simp add: store_ok_def)

lemma store_ok_evolve: "store_ok st st' \<Longrightarrow> requests_evolve st st'"
  unfolding requests_evolve_def by (meson store_okD settles_def)

section \<open>The operations of the store\<close>

lemma event_simps [simp]:
  "request_of sid rid (event now x y type detail st) = request_of sid rid st"
  "session sid (event now x y type detail st) = session sid st"
  "st_requests (event now x y type detail st) = st_requests st"
  "st_sessions (event now x y type detail st) = st_sessions st"
  by (simp_all add: event_def request_of_def session_def)

lemma update_request_simps [simp]: "session sid (update_request x y f st) = session sid st"
  by (simp add: update_request_def session_def)

lemma request_of_update:
  assumes "\<And>r. request_key (f r) = request_key r"
  shows "request_of sid rid (update_request x y f st) =
    (if sid = x \<and> rid = y then map_option f (request_of x y st) else request_of sid rid st)"
  using requests.lookup_update [of f "(sid, rid)" "(x, y)" st] assms by auto

lemma transitioned_key [simp]: "request_key (transitioned now state values r) = request_key r"
  by (simp add: transitioned_def request_key_def)

text \<open>A transition that succeeds changes one request, one that fails changes nothing.\<close>

lemma transition_fails: "transition now sid rid E state values ev st = (Inl e, st') \<Longrightarrow> st' = st"
  by (auto simp: transition_def Let_def requiredRequest_def request_of_update split: option.splits if_splits)

lemma transition_result:
  assumes "transition now sid rid E state values ev st = (Inr r', st')"
  obtains r where "request_of sid rid st = Some r" "br_state r \<in> E" "r' = transitioned now state values r"
    "\<And>x y. request_of x y st' = (if x = sid \<and> y = rid then Some r' else request_of x y st)"
    "\<And>x. session x st' = session x st"
  using assms
  by (auto simp: transition_def Let_def requiredRequest_def request_of_update split: option.splits if_splits)

lemma transitioned_settles:
  "unsettled (br_state r) \<Longrightarrow> state \<noteq> Request_Not_Submitted \<Longrightarrow> \<not> unsettled state \<Longrightarrow> settles r (transitioned now state values r)"
  by (simp add: settles_def request_evolves_def transitioned_def)

lemma transition_ok:
  assumes "transition now sid rid E state values ev st = (x, st')" and "E \<subseteq> {Request_Not_Submitted, Request_Submitted}"
    and "\<not> unsettled state"
  shows "store_ok st st' \<and> (\<forall>r'. x = Inr r' \<longrightarrow> request_of sid rid st' = Some r' \<and> br_state r' = state)"
proof (cases x)
  case (Inl e)
  then show ?thesis using transition_fails assms(1) by fastforce
next
  case (Inr r')
  from transition_result [OF assms(1) [unfolded Inr]] obtain r where r: "request_of sid rid st = Some r" "br_state r \<in> E"
    "r' = transitioned now state values r" "\<And>x y. request_of x y st' = (if x = sid \<and> y = rid then Some r' else request_of x y st)"
    "\<And>x. session x st' = session x st" by blast
  have "unsettled (br_state r)" using r(2) assms(2) by (auto simp: unsettled_def)
  then have "settles r r'" using transitioned_settles r(3) assms(3) by (auto simp: unsettled_def)
  then show ?thesis using r Inr by (auto simp: store_ok_def transitioned_def split: option.split)
qed

lemma settling_ok:
  "complete_request now sid rid n st = (x, st') \<Longrightarrow> store_ok st st' \<and>
    (\<forall>r'. x = Inr r' \<longrightarrow> request_of sid rid st' = Some r' \<and> br_state r' = Request_Completed)"
  "reject now sid rid code st = (x, st') \<Longrightarrow> store_ok st st' \<and>
    (\<forall>r'. x = Inr r' \<longrightarrow> request_of sid rid st' = Some r' \<and> br_state r' = Request_Rejected)"
  "uncertain now sid rid code st = (x, st') \<Longrightarrow> store_ok st st' \<and>
    (\<forall>r'. x = Inr r' \<longrightarrow> request_of sid rid st' = Some r' \<and> br_state r' = Request_Uncertain)"
  "cancelled now sid rid code st = (x, st') \<Longrightarrow> store_ok st st' \<and>
    (\<forall>r'. x = Inr r' \<longrightarrow> request_of sid rid st' = Some r' \<and> br_state r' = Request_Cancelled)"
  unfolding complete_request_def reject_def uncertain_def cancelled_def
  by (erule transition_ok; simp add: unsettled_def)+

lemma bindProcess_ok:
  assumes "bindProcess now sid rid process st = (x, st')" shows "store_ok st st'"
proof (cases "request_of sid rid st")
  case (Some r)
  let ?f = "\<lambda>r. r\<lparr>br_process := Some process, br_updated_at := now\<rparr>"
  have "request_of a b (update_request sid rid ?f st) = (if a = sid \<and> b = rid then map_option ?f (request_of sid rid st)
      else request_of a b st)" for a b by (rule request_of_update) (simp add: request_key_def)
  moreover have "settles r (?f r)" if "br_state r = Request_Submitted" "br_process r = None"
    using that by (simp add: settles_def request_evolves_def write_once_def unsettled_def)
  ultimately show ?thesis
    using assms Some by (auto simp: bindProcess_def Let_def store_ok_def split: if_splits option.split)
qed (use assms in \<open>simp add: bindProcess_def\<close>)

lemma settle_settles: "settles r (settle code now r)"
  by (simp add: settles_def request_evolves_def settle_def unsettled_def)

lemma settle_key [simp]: "request_key (settle code now r) = request_key r"
  and close_row_key [simp]: "bs_session_id (close_row reason now b) = bs_session_id b"
  and close_row_state [simp]: "bs_state (close_row reason now b) = Session_Closed"
  by (simp_all add: request_key_def settle_def close_row_def)

lemma request_of_settle:
  "request_of sid rid (st\<lparr>st_requests := update_where P (settle code now) (st_requests st), st_sessions := B\<rparr>) =
     map_option (\<lambda>r. if P r then settle code now r else r) (request_of sid rid st)"
  by (simp add: request_of_def lookup_row_update_where)

lemma session_of_close:
  assumes "\<And>r. bs_session_id (f r) = bs_session_id r"
  shows "session sid (st\<lparr>st_requests := A, st_sessions := update_where P f (st_sessions st)\<rparr>) =
     map_option (\<lambda>r. if P r then f r else r) (session sid st)"
  using assms by (simp add: session_def lookup_row_update_where)

lemma closeSession_ok: "store_ok st (snd (closeSession now sid reason st))"
  by (auto simp: store_ok_def closeSession_def Let_def request_of_settle session_of_close settle_settles split: option.split)

lemma createSession_ok:
  assumes "createSession now sid gen binding st = (x, st')" shows "store_ok st st'"
  using assms by (auto simp: createSession_def Let_def store_ok_def request_of_def session_def lookup_row_append event_def
      split: if_splits option.splits)

lemma admit_ok:
  assumes "admit now sid process st = (x, st')"
  shows "store_ok st st' \<and> (\<forall>r. x = Inr r \<longrightarrow> session sid st' = Some r \<and> bs_state r = Session_Admitted \<and> bs_session_id r = sid \<and>
    (\<exists>row. session sid st = Some row \<and> bs_state row = Session_Prepared \<and> bs_binding r = bs_binding row))"
proof -
  let ?f = "\<lambda>r. r\<lparr>bs_state := Session_Admitted, bs_process := process, bs_admitted_at := coalesce (bs_admitted_at r) (Some now),
     bs_updated_at := now\<rparr>"
  have upd: "session a (st\<lparr>st_sessions := update_where (\<lambda>r. bs_session_id r = sid) ?f (st_sessions st)\<rparr>) =
      (if a = sid then map_option ?f (session sid st) else session a st)"
    "request_of a b (st\<lparr>st_sessions := update_where (\<lambda>r. bs_session_id r = sid) ?f (st_sessions st)\<rparr>) = request_of a b st" for a b
    by (simp_all add: session_def request_of_def lookup_row_update_key)
  have id: "session sid st = Some row \<Longrightarrow> bs_session_id row = sid" for row
    by (auto simp: session_def dest: lookup_row_SomeD)
  show ?thesis
    using assms by (auto simp: admit_def Let_def requiredSession_def upd store_ok_def id split: if_splits option.splits)
qed

section \<open>The invariant\<close>

definition task_mutating :: "broker_task \<Rightarrow> bool" where
  "task_mutating t = isMutatingWorkspaceTool (tq_operation (bt_request t))"

definition task_rid :: "broker_task \<Rightarrow> string" where
  "task_rid t = tq_request_id (bt_request t)"

lemma task_key_eq: "task_key t = (bt_session t, task_rid t)"
  by (simp add: task_key_def task_rid_def)

text \<open>What the record of a request is at each stage of its execution.\<close>

fun stage_fits :: "broker_stage \<Rightarrow> broker_request \<Rightarrow> bool" where
  "stage_fits Queued r \<longleftrightarrow> br_state r \<noteq> Request_Submitted"
| "stage_fits (Reporting response) r \<longleftrightarrow> \<not> unsettled (br_state r) \<and>
     (tr_status response = Tool_Completed \<longrightarrow> br_state r = Request_Completed)"
| "stage_fits (Cancelling_Late state code) r \<longleftrightarrow> \<not> unsettled (br_state r)"
| "stage_fits stage r \<longleftrightarrow> br_state r \<noteq> Request_Not_Submitted"

definition recorded_as :: "broker_config \<Rightarrow> tool_request \<Rightarrow> broker_request \<Rightarrow> bool" where
  "recorded_as cfg request r \<longleftrightarrow> br_operation r = tq_operation request \<and>
     br_mutating r = isMutatingWorkspaceTool (tq_operation request) \<and>
     br_request_digest r = bc_digest cfg (stringify (request_value request))"

definition task_ok :: "broker_config \<Rightarrow> broker \<Rightarrow> broker_task \<Rightarrow> bool" where
  "task_ok cfg s t \<longleftrightarrow> (\<exists>r l. request_of (bt_session t) (task_rid t) (bk_store s) = Some r \<and>
     live_of (bt_session t) s = Some l \<and> recorded_as cfg (bt_request t) r \<and> stage_fits (bt_stage t) r \<and>
     (task_mutating t \<longrightarrow> bt_stage t \<noteq> Queued \<longrightarrow> hd (lv_mutations l) = task_rid t))"

definition tasks_of :: "string \<Rightarrow> broker \<Rightarrow> broker_task list" where
  "tasks_of sid s = filter (\<lambda>t. bt_session t = sid) (bk_tasks s)"

definition cache_ok :: "broker \<Rightarrow> live_session \<Rightarrow> bool" where
  "cache_ok s l \<longleftrightarrow> (\<forall>rid response. map_of (lv_completed l) rid = Some response \<longrightarrow> tr_status response = Tool_Completed \<longrightarrow>
     (\<exists>r. request_of (lv_id l) rid (bk_store s) = Some r \<and> br_state r = Request_Completed))"

definition live_ok :: "broker_config \<Rightarrow> broker \<Rightarrow> live_session \<Rightarrow> bool" where
  "live_ok cfg s l \<longleftrightarrow> lv_mutations l = map task_rid (filter task_mutating (tasks_of (lv_id l) s)) \<and>
     lv_activeCount l = length (tasks_of (lv_id l) s) \<and> int (lv_activeCount l) \<le> maxActiveRequests cfg \<and>
     (\<exists>row. session (lv_id l) (bk_store s) = Some row \<and> bs_state row \<noteq> Session_Prepared) \<and> cache_ok s l"

definition broker_inv :: "broker_config \<Rightarrow> broker \<Rightarrow> bool" where
  "broker_inv cfg s \<longleftrightarrow> distinct (map task_key (bk_tasks s)) \<and> distinct (map lv_id (bk_live s)) \<and>
     (\<forall>t \<in> set (bk_tasks s). task_ok cfg s t) \<and> (\<forall>l \<in> set (bk_live s). live_ok cfg s l) \<and>
     (\<forall>sid rid r. request_of sid rid (bk_store s) = Some r \<longrightarrow> unsettled (br_state r) \<longrightarrow>
        (\<exists>t \<in> set (bk_tasks s). task_key t = (sid, rid)))"

lemma inv_taskD: "broker_inv cfg s \<Longrightarrow> t \<in> set (bk_tasks s) \<Longrightarrow> task_ok cfg s t"
  by (simp add: broker_inv_def)

lemma inv_liveD: "broker_inv cfg s \<Longrightarrow> live_of sid s = Some l \<Longrightarrow> live_ok cfg s l \<and> lv_id l = sid"
  by (auto simp: broker_inv_def live_of_def dest: lookup_row_SomeD)

lemma inv_openD:
  "broker_inv cfg s \<Longrightarrow> request_of sid rid (bk_store s) = Some r \<Longrightarrow> unsettled (br_state r) \<Longrightarrow>
    \<exists>t \<in> set (bk_tasks s). task_key t = (sid, rid)"
  by (simp add: broker_inv_def)

lemma new_broker_inv: "broker_inv cfg new_broker"
  by (simp add: broker_inv_def new_broker_def empty_broker_store_def request_of_def)

text \<open>Only the store, the live sessions and the tasks matter.\<close>

lemma inv_rest [simp]:
  "broker_inv cfg (s\<lparr>bk_cancels := a\<rparr>) = broker_inv cfg s" "broker_inv cfg (s\<lparr>bk_closings := b\<rparr>) = broker_inv cfg s"
  "broker_inv cfg (s\<lparr>bk_preparing := c\<rparr>) = broker_inv cfg s"
  by (simp_all add: broker_inv_def task_ok_def live_ok_def cache_ok_def tasks_of_def live_of_def)

section \<open>Elementary changes\<close>

lemma stage_settles: "stage_fits stage r \<Longrightarrow> settles r r' \<Longrightarrow> stage_fits stage r'"
  by (cases stage) (auto simp: settles_def request_evolves_def unsettled_def)

lemma recorded_evolves: "recorded_as cfg request r \<Longrightarrow> settles r r' \<Longrightarrow> recorded_as cfg request r'"
  by (simp add: recorded_as_def settles_def request_evolves_def)

lemma inv_store:
  assumes inv: "broker_inv cfg s" and ok: "store_ok (bk_store s) st"
  shows "broker_inv cfg (s\<lparr>bk_store := st\<rparr>)"
proof -
  have "task_ok cfg (s\<lparr>bk_store := st\<rparr>) t" if t: "t \<in> set (bk_tasks s)" for t
  proof -
    from inv_taskD [OF inv t] obtain r l where r: "request_of (bt_session t) (task_rid t) (bk_store s) = Some r"
      "live_of (bt_session t) s = Some l" "recorded_as cfg (bt_request t) r" "stage_fits (bt_stage t) r"
      "task_mutating t \<longrightarrow> bt_stage t \<noteq> Queued \<longrightarrow> hd (lv_mutations l) = task_rid t" by (auto simp: task_ok_def)
    obtain r' where "request_of (bt_session t) (task_rid t) st = Some r'" "settles r r'" by (rule store_okD [OF ok r(1)])
    then show ?thesis using r stage_settles recorded_evolves by (auto simp: task_ok_def live_of_def)
  qed
  moreover have "live_ok cfg (s\<lparr>bk_store := st\<rparr>) l" if l: "l \<in> set (bk_live s)" for l
  proof -
    have ok1: "live_ok cfg s l" using inv l by (simp add: broker_inv_def)
    have "cache_ok (s\<lparr>bk_store := st\<rparr>) l"
      unfolding cache_ok_def
    proof (intro allI impI)
      fix rid response assume "map_of (lv_completed l) rid = Some response" "tr_status response = Tool_Completed"
      then obtain r where r: "request_of (lv_id l) rid (bk_store s) = Some r" "br_state r = Request_Completed"
        using ok1 by (auto simp: live_ok_def cache_ok_def)
      obtain r' where "request_of (lv_id l) rid st = Some r'" "settles r r'" by (rule store_okD [OF ok r(1)])
      then show "\<exists>r. request_of (lv_id l) rid (bk_store (s\<lparr>bk_store := st\<rparr>)) = Some r \<and> br_state r = Request_Completed"
        using r(2) by (auto simp: settles_def unsettled_def)
    qed
    then show ?thesis using ok1 store_ok_session [OF ok] by (auto simp: live_ok_def tasks_of_def)
  qed
  moreover have "\<exists>t \<in> set (bk_tasks s). task_key t = (sid, rid)"
    if r': "request_of sid rid st = Some r'" "unsettled (br_state r')" for sid rid r'
  proof (cases "request_of sid rid (bk_store s)")
    case (Some r)
    then have "settles r r'" using store_okD [OF ok Some] r'(1) by auto
    then have "unsettled (br_state r)" using r'(2) by (auto simp: settles_def)
    then show ?thesis using inv_openD [OF inv Some] by simp
  qed (use store_ok_none [OF ok] r'(1) in simp)
  ultimately show ?thesis using inv by (simp add: broker_inv_def)
qed

lemma live_of_update:
  assumes "\<And>l. lv_id (f l) = lv_id l"
  shows "live_of x (update_live sid f s) = (if x = sid then map_option f (live_of sid s) else live_of x s)"
  unfolding live_of_def update_live_def using assms by (simp add: lookup_row_update_key)

lemma update_live_simps [simp]:
  "bk_store (update_live sid f s) = bk_store s" "bk_tasks (update_live sid f s) = bk_tasks s"
  "tasks_of x (update_live sid f s) = tasks_of x s"
  by (simp_all add: update_live_def tasks_of_def)

lemma update_live_mem:
  "l \<in> set (bk_live (update_live sid f s)) \<Longrightarrow> \<exists>l0 \<in> set (bk_live s). l = (if lv_id l0 = sid then f l0 else l0)"
  by (auto simp: update_live_def update_where_def)

lemma update_live_ids: "(\<And>l. lv_id (f l) = lv_id l) \<Longrightarrow> map lv_id (bk_live (update_live sid f s)) = map lv_id (bk_live s)"
  by (simp add: update_live_def update_where_def)

text \<open>A change of a live session in what the invariant does not mention, but its cache.\<close>

lemma inv_update_live:
  assumes inv: "broker_inv cfg s"
    and f: "\<And>l. lv_id (f l) = lv_id l" "\<And>l. lv_mutations (f l) = lv_mutations l" "\<And>l. lv_activeCount (f l) = lv_activeCount l"
    and cache: "\<And>l. lv_id l = sid \<Longrightarrow> cache_ok s l \<Longrightarrow> cache_ok s (f l)"
  shows "broker_inv cfg (update_live sid f s)"
proof -
  let ?s = "update_live sid f s"
  have "task_ok cfg ?s t" if "t \<in> set (bk_tasks s)" for t
    using inv_taskD [OF inv that] by (auto simp: task_ok_def live_of_update [OF f(1)] f(2))
  moreover have "live_ok cfg ?s l" if l: "l \<in> set (bk_live ?s)" for l
  proof -
    obtain l0 where l0: "l0 \<in> set (bk_live s)" "l = (if lv_id l0 = sid then f l0 else l0)" using update_live_mem [OF l] by blast
    have "live_ok cfg s l0" using inv l0(1) by (simp add: broker_inv_def)
    moreover have "cache_ok s l" using calculation cache l0(2) by (auto simp: live_ok_def)
    then have "cache_ok ?s l" by (simp add: cache_ok_def)
    ultimately show ?thesis using l0(2) f by (auto simp: live_ok_def)
  qed
  ultimately show ?thesis using inv update_live_ids [OF f(1)] by (simp add: broker_inv_def)
qed

lemma lv_id_update [simp]:
  "lv_id (l\<lparr>lv_listed := a\<rparr>) = lv_id l" "lv_id (l\<lparr>lv_active := b\<rparr>) = lv_id l" "lv_id (l\<lparr>lv_completed := c\<rparr>) = lv_id l"
  "lv_id (l\<lparr>lv_activeCount := d\<rparr>) = lv_id l" "lv_id (l\<lparr>lv_mutations := e\<rparr>) = lv_id l" "lv_id (l\<lparr>lv_closing := g\<rparr>) = lv_id l"
  by (simp_all add: lv_id_def)

end
