(* ===== verification/Broker_Steps.thy ===== *)
theory Broker_Steps
  imports Broker_Invariant
begin

text \<open>Every step of the workspace tool broker keeps its invariant, and what its outputs say is so.\<close>

section \<open>Changes of tasks\<close>

lemma map_of_without: "map_of (without k xs) x = (if x = k then None else map_of xs x)"
  by (induction xs) (auto simp: without_def)

lemma inv_remember:
  assumes "broker_inv cfg s"
    and "tr_status response = Tool_Completed \<Longrightarrow> \<exists>r. request_of sid rid (bk_store s) = Some r \<and> br_state r = Request_Completed"
  shows "broker_inv cfg (remember sid rid response s)"
  unfolding remember_def using assms by (intro inv_update_live) (auto simp: cache_ok_def map_of_without)

lemma key_unique: "broker_inv cfg s \<Longrightarrow> t \<in> set (bk_tasks s) \<Longrightarrow> u \<in> set (bk_tasks s) \<Longrightarrow> task_key u = task_key t \<Longrightarrow> u = t"
  unfolding broker_inv_def by (metis distinct_map inj_onD)

lemma set_stage_simps [simp]:
  "bk_store (set_stage t stage s) = bk_store s" "live_of x (set_stage t stage s) = live_of x s"
  "bk_live (set_stage t stage s) = bk_live s"
  by (simp_all add: set_stage_def live_of_def)

lemma staged_simps [simp]:
  "task_key (t\<lparr>bt_stage := stage\<rparr>) = task_key t" "task_rid (t\<lparr>bt_stage := stage\<rparr>) = task_rid t"
  "task_mutating (t\<lparr>bt_stage := stage\<rparr>) = task_mutating t"
  by (simp_all add: task_key_def task_rid_def task_mutating_def)

lemma set_stage_tasks:
  "map task_key (bk_tasks (set_stage t stage s)) = map task_key (bk_tasks s)"
  "length (tasks_of x (set_stage t stage s)) = length (tasks_of x s)"
  "map task_rid (filter task_mutating (tasks_of x (set_stage t stage s))) = map task_rid (filter task_mutating (tasks_of x s))"
proof -
  let ?f = "\<lambda>u. if task_key u = task_key t then u\<lparr>bt_stage := stage\<rparr> else u"
  have f: "task_key (?f u) = task_key u" "bt_session (?f u) = bt_session u" "task_rid (?f u) = task_rid u"
    "task_mutating (?f u) = task_mutating u" for u by auto
  have map: "map g (filter P (map ?f us)) = map g (filter P us)"
    if "\<And>u. g (?f u) = g u" "\<And>u. P (?f u) = P u" for g :: "broker_task \<Rightarrow> 'a" and P us
    using that by (induction us) (auto split: if_splits)
  show "map task_key (bk_tasks (set_stage t stage s)) = map task_key (bk_tasks s)"
    by (simp add: set_stage_def update_where_def comp_def f)
  show "map task_rid (filter task_mutating (tasks_of x (set_stage t stage s))) = map task_rid (filter task_mutating (tasks_of x s))"
    using map [of task_rid "\<lambda>u. bt_session u = x \<and> task_mutating u"] f
    by (simp add: set_stage_def update_where_def tasks_of_def filter_filter)
  show "length (tasks_of x (set_stage t stage s)) = length (tasks_of x s)"
    using arg_cong [OF map [of task_rid "\<lambda>u. bt_session u = x"], of length] f
    by (simp add: set_stage_def update_where_def tasks_of_def)
qed

lemma set_stage_mem:
  "u \<in> set (bk_tasks (set_stage t stage s)) \<Longrightarrow>
    (u \<in> set (bk_tasks s) \<and> task_key u \<noteq> task_key t) \<or> (\<exists>v \<in> set (bk_tasks s). task_key v = task_key t \<and> u = v\<lparr>bt_stage := stage\<rparr>)"
  by (auto simp: set_stage_def update_where_def)

text \<open>A task moves on, and with it the record of its request.\<close>

lemma inv_move:
  assumes inv: "broker_inv cfg s" and t: "t \<in> set (bk_tasks s)" and l: "live_of (bt_session t) s = Some l"
    and first: "task_mutating t \<Longrightarrow> hd (lv_mutations l) = task_rid t"
    and others: "\<And>x y. (x, y) \<noteq> task_key t \<Longrightarrow> request_of x y st = request_of x y (bk_store s)"
    and sessions: "\<And>x. session x st = session x (bk_store s)"
    and r: "request_of (bt_session t) (task_rid t) (bk_store s) = Some r"
    and r': "request_of (bt_session t) (task_rid t) st = Some r'" "request_evolves r r'" "stage_fits stage r'"
    and kept: "br_state r = Request_Completed \<Longrightarrow> br_state r' = Request_Completed"
  shows "broker_inv cfg (set_stage t stage (s\<lparr>bk_store := st\<rparr>))"
proof -
  let ?s = "set_stage t stage (s\<lparr>bk_store := st\<rparr>)"
  have live: "live_of x ?s = live_of x s" for x by (simp add: live_of_def)
  have recorded: "recorded_as cfg (bt_request t) r'"
    using inv_taskD [OF inv t] r r'(2) by (auto simp: task_ok_def recorded_as_def request_evolves_def)
  have "task_ok cfg ?s u" if u: "u \<in> set (bk_tasks ?s)" for u
    using set_stage_mem [OF u]
  proof (elim disjE conjE bexE)
    assume "u \<in> set (bk_tasks (s\<lparr>bk_store := st\<rparr>))" "task_key u \<noteq> task_key t"
    then show ?thesis
      using inv_taskD [OF inv, of u] others [of "bt_session u" "task_rid u"] live by (auto simp: task_ok_def task_key_eq)
  next
    fix v assume v: "v \<in> set (bk_tasks (s\<lparr>bk_store := st\<rparr>))" "task_key v = task_key t" "u = v\<lparr>bt_stage := stage\<rparr>"
    then have "v = t" using key_unique [OF inv t, of v] by simp
    then have "u = t\<lparr>bt_stage := stage\<rparr>" using v(3) by simp
    then show ?thesis using r' recorded l first live by (auto simp: task_ok_def task_rid_def task_mutating_def)
  qed
  moreover have "live_ok cfg ?s k" if "k \<in> set (bk_live s)" for k
  proof -
    have k: "live_ok cfg s k" using inv that by (simp add: broker_inv_def)
    have "cache_ok ?s k"
      unfolding cache_ok_def
    proof (intro allI impI)
      fix rid response assume "map_of (lv_completed k) rid = Some response" "tr_status response = Tool_Completed"
      then obtain q where q: "request_of (lv_id k) rid (bk_store s) = Some q" "br_state q = Request_Completed"
        using k by (auto simp: live_ok_def cache_ok_def)
      then show "\<exists>r. request_of (lv_id k) rid (bk_store ?s) = Some r \<and> br_state r = Request_Completed"
        using others [of "lv_id k" rid] r r' kept by (cases "(lv_id k, rid) = task_key t") (auto simp: task_key_eq)
    qed
    then show ?thesis using k sessions set_stage_tasks by (simp add: live_ok_def tasks_of_def)
  qed
  moreover have "\<exists>u \<in> set (bk_tasks ?s). task_key u = (sid, rid)"
    if "request_of sid rid st = Some q" "unsettled (br_state q)" for sid rid q
  proof -
    have "(sid, rid) \<in> task_key ` set (bk_tasks s)"
      using that others [of sid rid] inv_openD [OF inv, of sid rid] t
      by (cases "(sid, rid) = task_key t") (auto simp: rev_image_eqI)
    moreover have "task_key ` set (bk_tasks ?s) = task_key ` set (bk_tasks s)"
      using arg_cong [OF set_stage_tasks(1) [of t stage "s\<lparr>bk_store := st\<rparr>"], of set] by simp
    ultimately have "(sid, rid) \<in> task_key ` set (bk_tasks ?s)" by simp
    then show ?thesis by (metis imageE)
  qed
  ultimately show ?thesis using inv set_stage_tasks(1) [of t stage "s\<lparr>bk_store := st\<rparr>"] by (simp add: broker_inv_def)
qed

lemma inv_stage:
  assumes "broker_inv cfg s" and "t \<in> set (bk_tasks s)" and "request_of (bt_session t) (task_rid t) (bk_store s) = Some r"
    and "bt_stage t \<noteq> Queued \<or> \<not> task_mutating t \<or> (\<exists>l. live_of (bt_session t) s = Some l \<and> hd (lv_mutations l) = task_rid t)"
    and "stage_fits stage r"
  shows "broker_inv cfg (set_stage t stage s)"
proof -
  obtain l where l: "live_of (bt_session t) s = Some l" "task_mutating t \<longrightarrow> bt_stage t \<noteq> Queued \<longrightarrow> hd (lv_mutations l) = task_rid t"
    using inv_taskD [OF assms(1,2)] by (auto simp: task_ok_def)
  have "broker_inv cfg (set_stage t stage (s\<lparr>bk_store := bk_store s\<rparr>))"
    by (rule inv_move [OF assms(1,2) l(1) _ _ _ assms(3,3) _ assms(5)]) (use assms(4) l in auto)
  then show ?thesis by simp
qed

lemma mutating_first:
  assumes "broker_inv cfg s" and "u \<in> set (bk_tasks s)" and "task_mutating u" and "live_of (bt_session u) s = Some l"
  shows "task_rid u \<in> set (lv_mutations l)"
  using inv_liveD [OF assms(1,4)] assms(2,3) by (force simp: live_ok_def tasks_of_def)

lemma length_filter_key:
  assumes "distinct (map f xs)" and "x \<in> set xs"
  shows "length (filter (\<lambda>u. f u \<noteq> f x) xs) = length xs - 1"
  using assms
proof (induction xs)
  case (Cons u us)
  show ?case
  proof (cases "u = x")
    case True
    have "filter (\<lambda>v. f v \<noteq> f x) us = us" by (rule filter_True) (use Cons.prems(1) True in \<open>auto simp: image_iff\<close>)
    then show ?thesis using True by simp
  next
    case False
    then have "x \<in> set us" using Cons.prems by simp
    moreover from this have "f u \<noteq> f x" using Cons.prems by (auto simp: rev_image_eqI)
    ultimately show ?thesis using Cons by (cases us) auto
  qed
qed simp

text \<open>An execution ends.\<close>

lemma inv_finish:
  assumes inv: "broker_inv cfg s" and t: "t \<in> set (bk_tasks s)"
    and r: "request_of (bt_session t) (task_rid t) (bk_store s) = Some r" "\<not> unsettled (br_state r)"
  shows "broker_inv cfg (finish t s)"
proof -
  let ?s = "finish t s" and ?sid = "bt_session t" and ?rid = "task_rid t"
  let ?f = "\<lambda>l. l\<lparr>lv_active := without ?rid (lv_active l), lv_activeCount := lv_activeCount l - 1,
    lv_mutations := filter (\<lambda>m. m \<noteq> ?rid) (lv_mutations l)\<rparr>"
  have s: "?s = (update_live ?sid ?f s)\<lparr>bk_tasks := filter (\<lambda>u. task_key u \<noteq> task_key t) (bk_tasks s)\<rparr>"
    by (simp add: finish_def task_key_eq)
  have store: "bk_store ?s = bk_store s" and tasks: "bk_tasks ?s = filter (\<lambda>u. task_key u \<noteq> task_key t) (bk_tasks s)"
    by (simp_all add: s)
  have f: "lv_id (?f l) = lv_id l" for l by simp
  have live: "live_of x ?s = (if x = ?sid then map_option ?f (live_of ?sid s) else live_of x s)" for x
    using live_of_update [of ?f x ?sid s] f by (simp add: s live_of_def)
  have "task_ok cfg ?s u" if u: "u \<in> set (bk_tasks ?s)" for u
  proof -
    have u': "u \<in> set (bk_tasks s)" "task_key u \<noteq> task_key t" using u by (simp_all add: tasks)
    from inv_taskD [OF inv u'(1)] obtain q l where q: "request_of (bt_session u) (task_rid u) (bk_store s) = Some q"
      "live_of (bt_session u) s = Some l" "recorded_as cfg (bt_request u) q" "stage_fits (bt_stage u) q"
      "task_mutating u \<longrightarrow> bt_stage u \<noteq> Queued \<longrightarrow> hd (lv_mutations l) = task_rid u" by (auto simp: task_ok_def)
    have "hd (filter (\<lambda>m. m \<noteq> ?rid) (lv_mutations l)) = task_rid u"
      if "task_mutating u" "bt_stage u \<noteq> Queued" "bt_session u = ?sid"
    proof -
      have "task_rid u \<in> set (lv_mutations l)" by (rule mutating_first [OF inv u'(1) that(1) q(2)])
      then obtain m ms where "lv_mutations l = m # ms" by (cases "lv_mutations l") auto
      then show ?thesis using q(5) that u'(2) by (simp add: task_key_eq)
    qed
    then show ?thesis using q store live by (auto simp: task_ok_def)
  qed
  moreover have "live_ok cfg ?s l" if l: "l \<in> set (bk_live ?s)" for l
  proof -
    obtain l0 where l0: "l0 \<in> set (bk_live s)" "l = (if lv_id l0 = ?sid then ?f l0 else l0)"
      using l update_live_mem [of l ?sid ?f s] by (auto simp: s)
    have ok: "live_ok cfg s l0" using inv l0(1) by (simp add: broker_inv_def)
    have of: "tasks_of x ?s = filter (\<lambda>u. task_key u \<noteq> task_key t) (tasks_of x s)" for x
      by (simp add: tasks_of_def tasks conj_commute)
    have cache: "cache_ok ?s l" using ok l0(2) store by (auto simp: live_ok_def cache_ok_def)
    show ?thesis
    proof (cases "lv_id l0 = ?sid")
      case True
      have same: "task_key u \<noteq> task_key t \<longleftrightarrow> task_rid u \<noteq> ?rid" if "u \<in> set (tasks_of ?sid s)" for u
        using that by (auto simp: tasks_of_def task_key_eq)
      have "map task_rid (filter task_mutating (tasks_of ?sid ?s)) =
          filter (\<lambda>m. m \<noteq> ?rid) (map task_rid (filter task_mutating (tasks_of ?sid s)))"
        using same unfolding of by (induction "tasks_of ?sid s") (auto simp: filter_map comp_def conj_commute cong: filter_cong)
      moreover have "length (tasks_of ?sid ?s) = length (tasks_of ?sid s) - 1"
      proof -
        have d: "distinct (map task_key (tasks_of ?sid s))" using inv by (simp add: broker_inv_def tasks_of_def distinct_map_filter)
        have m: "t \<in> set (tasks_of ?sid s)" using t by (simp add: tasks_of_def)
        show ?thesis using length_filter_key [OF d m] by (simp add: of)
      qed
      moreover have "int (lv_activeCount l0 - 1) \<le> maxActiveRequests cfg"
        using ok by (simp add: live_ok_def) linarith
      ultimately show ?thesis using True l0(2) ok store cache by (simp add: live_ok_def)
    next
      case False
      then have "tasks_of (lv_id l0) ?s = tasks_of (lv_id l0) s"
        unfolding of by (auto simp: tasks_of_def task_key_eq intro!: filter_cong)
      then show ?thesis using False l0(2) ok store cache by (simp add: live_ok_def)
    qed
  qed
  moreover have "\<exists>u \<in> set (bk_tasks ?s). task_key u = (sid, rid)"
    if q: "request_of sid rid (bk_store ?s) = Some q" "unsettled (br_state q)" for sid rid q
  proof -
    have "(sid, rid) \<noteq> task_key t" using q r store by (auto simp: task_key_eq)
    then show ?thesis using inv_openD [OF inv, of sid rid q] q by (auto simp: store tasks)
  qed
  moreover have "map lv_id (bk_live ?s) = map lv_id (bk_live s)" using update_live_ids [of ?f ?sid s] f by (simp add: s)
  moreover have "distinct (map task_key (bk_tasks ?s))" using inv by (simp add: tasks broker_inv_def distinct_map_filter)
  ultimately show ?thesis using inv by (simp add: broker_inv_def)
qed

text \<open>A request is recorded and its execution is under way.\<close>

definition entered :: "tool_request \<Rightarrow> string \<Rightarrow> live_session \<Rightarrow> live_session" where
  "entered request rid l = l\<lparr>lv_activeCount := lv_activeCount l + 1,
     lv_mutations := (if isMutatingWorkspaceTool (tq_operation request) then lv_mutations l @ [rid] else lv_mutations l)\<rparr>"

lemma entered_id [simp]: "lv_id (entered request rid l) = lv_id l"
  by (simp add: entered_def)

lemma createRequest_result:
  assumes "createRequest now sid rid operation mutating digest bytes st = (x, st')"
  shows "(\<forall>e. x = Inl e \<longrightarrow> st' = st) \<and>
    (\<forall>r. x = Inr r \<longrightarrow> request_of sid rid st = None \<and> br_state r = Request_Not_Submitted \<and> br_operation r = operation \<and>
      br_mutating r = mutating \<and> br_request_digest r = digest \<and> (\<forall>a. session a st' = session a st) \<and>
      (\<forall>a b. request_of a b st' = (if a = sid \<and> b = rid then Some r else request_of a b st)))"
  using assms
  by (auto simp: createRequest_def Let_def requiredRequest_def request_of_def session_def lookup_row_append request_key_def event_def
      split: if_splits option.splits)

lemma inv_created:
  assumes inv: "broker_inv cfg s" and l: "live_of sid s = Some l" and space: "int (lv_activeCount l) < maxActiveRequests cfg"
    and created: "createRequest now sid rid (tq_operation request) (isMutatingWorkspaceTool (tq_operation request))
      (bc_digest cfg (stringify (request_value request))) bytes (bk_store s) = (Inr r, st)"
    and rid: "tq_request_id request = rid" and t: "t = \<lparr>bt_session = sid, bt_request = request, bt_stage = Queued\<rparr>"
  shows "broker_inv cfg ((update_live sid (entered request rid) (s\<lparr>bk_store := st\<rparr>))\<lparr>bk_tasks := bk_tasks s @ [t]\<rparr>)"
proof -
  let ?s = "(update_live sid (entered request rid) (s\<lparr>bk_store := st\<rparr>))\<lparr>bk_tasks := bk_tasks s @ [t]\<rparr>"
  from createRequest_result [OF created] have new: "request_of sid rid (bk_store s) = None" "br_state r = Request_Not_Submitted"
    "recorded_as cfg request r" "\<And>a. session a st = session a (bk_store s)"
    "\<And>a b. request_of a b st = (if a = sid \<and> b = rid then Some r else request_of a b (bk_store s))"
    by (auto simp: recorded_as_def)
  have key: "task_key t = (sid, rid)" "task_rid t = rid" using t rid by (simp_all add: task_key_def task_rid_def)
  have store: "bk_store ?s = st" by simp
  have live: "live_of x ?s = (if x = sid then Some (entered request rid l) else live_of x s)" for x
    using live_of_update [of "entered request rid" x sid s] l by (auto simp: live_of_def update_live_def)
  have fresh: "task_key u \<noteq> (sid, rid)" if "u \<in> set (bk_tasks s)" for u
    using inv_taskD [OF inv that] new(1) by (auto simp: task_ok_def task_key_eq)
  have "task_ok cfg ?s u" if u: "u \<in> set (bk_tasks ?s)" for u
  proof (cases "u = t")
    case True
    then show ?thesis using new live t rid by (auto simp: task_ok_def task_rid_def task_mutating_def)
  next
    case False
    then have u': "u \<in> set (bk_tasks s)" using u by simp
    from inv_taskD [OF inv u'] obtain q k where q: "request_of (bt_session u) (task_rid u) (bk_store s) = Some q"
      "live_of (bt_session u) s = Some k" "recorded_as cfg (bt_request u) q" "stage_fits (bt_stage u) q"
      "task_mutating u \<longrightarrow> bt_stage u \<noteq> Queued \<longrightarrow> hd (lv_mutations k) = task_rid u" by (auto simp: task_ok_def)
    have "hd (lv_mutations (entered request rid k)) = task_rid u" if "task_mutating u" "bt_stage u \<noteq> Queued"
    proof -
      have "task_rid u \<in> set (lv_mutations k)" by (rule mutating_first [OF inv u' that(1) q(2)])
      then show ?thesis using q(5) that by (cases "lv_mutations k") (auto simp: entered_def)
    qed
    then show ?thesis using q fresh [OF u'] new(5) live l store by (auto simp: task_ok_def task_key_eq)
  qed
  moreover have "live_ok cfg ?s k" if k: "k \<in> set (bk_live ?s)" for k
  proof -
    obtain k0 where k0: "k0 \<in> set (bk_live s)" "k = (if lv_id k0 = sid then entered request rid k0 else k0)"
      using k update_live_mem [of k sid "entered request rid" "s\<lparr>bk_store := st\<rparr>"] by auto
    have ok: "live_ok cfg s k0" using inv k0(1) by (simp add: broker_inv_def)
    have of: "tasks_of x ?s = tasks_of x s @ (if x = sid then [t] else [])" for x using t by (simp add: tasks_of_def)
    have "cache_ok ?s k0" using ok new(1,5) by (fastforce simp: live_ok_def cache_ok_def)
    then have cache: "cache_ok ?s k" using k0(2) by (auto simp: cache_ok_def entered_def)
    show ?thesis
    proof (cases "lv_id k0 = sid")
      case True
      have "live_of sid s = Some k0" using inv k0(1) True by (auto simp: broker_inv_def live_of_def intro: lookup_row_mem)
      then have "k0 = l" using l by simp
      moreover have "task_mutating t = isMutatingWorkspaceTool (tq_operation request)" by (simp add: t task_mutating_def)
      ultimately show ?thesis using True k0(2) ok new(4) cache space key
        by (auto simp: live_ok_def of entered_def)
    next
      case False
      then show ?thesis using k0(2) ok new(4) cache by (simp add: live_ok_def of)
    qed
  qed
  moreover have "\<exists>u \<in> set (bk_tasks ?s). task_key u = (a, b)"
    if "request_of a b st = Some q" "unsettled (br_state q)" for a b q
    using that new(5) inv_openD [OF inv, of a b q] key by (auto split: if_splits)
  moreover have "task_key t \<notin> task_key ` set (bk_tasks s)" using fresh key(1) by (metis imageE)
  then have "distinct (map task_key (bk_tasks ?s))" using inv by (simp add: broker_inv_def)
  moreover have "map lv_id (bk_live ?s) = map lv_id (bk_live s)"
    using update_live_ids [of "entered request rid" sid "s\<lparr>bk_store := st\<rparr>"] by simp
  ultimately show ?thesis using inv by (simp add: broker_inv_def)
qed

section \<open>What outputs say\<close>

fun spawn_key :: "broker_output \<Rightarrow> (string \<times> string) list" where
  "spawn_key (Spawn sid request) = [(sid, tq_request_id request)]"
| "spawn_key (Write_Input sid rid) = []"
| "spawn_key (Cancel_Process sid rid) = []"
| "spawn_key (Responded sid rid response) = []"
| "spawn_key (Refused sid) = []"
| "spawn_key (Execution_Failed sid rid) = []"
| "spawn_key (Cancel_Answered sid rid answer) = []"
| "spawn_key (Session_Prepared_As sid) = []"
| "spawn_key (Session_Admitted_As sid) = []"
| "spawn_key (Session_Ended sid reason) = []"

definition spawns :: "broker_output list \<Rightarrow> (string \<times> string) list" where
  "spawns outs = concat (map spawn_key outs)"

lemma spawns_simps [simp]:
  "spawns [] = []" "spawns (x # outs) = spawn_key x @ spawns outs" "spawns (outs @ news) = spawns outs @ spawns news"
  by (simp_all add: spawns_def)

text \<open>A launch that the authority of the session covers.\<close>

definition launch_ok :: "broker_config \<Rightarrow> broker \<Rightarrow> string \<Rightarrow> tool_request \<Rightarrow> bool" where
  "launch_ok cfg s sid request \<longleftrightarrow> (\<exists>r row l. request_of sid (tq_request_id request) (bk_store s) = Some r \<and>
     br_state r = Request_Submitted \<and> recorded_as cfg request r \<and>
     session sid (bk_store s) = Some row \<and> bs_state row = Session_Admitted \<and> live_of sid s = Some l \<and> \<not> lv_closing l \<and>
     requiredSemanticTool (tq_operation request) \<in> set (ra_resolvedToolProfile (lv_run l)) \<and>
     ra_workspaceAccess (lv_run l) \<noteq> Access_None \<and>
     (isMutatingWorkspaceTool (tq_operation request) \<longrightarrow> ra_workspaceAccess (lv_run l) = Access_Read_Write) \<and>
     bb_physicalLineageId (bs_binding row) = ra_physicalLineageId (lv_run l))"

fun output_sound :: "broker_config \<Rightarrow> broker \<Rightarrow> broker \<Rightarrow> broker_output \<Rightarrow> bool" where
  "output_sound cfg s s' (Spawn sid request) \<longleftrightarrow> launch_ok cfg s' sid request \<and>
     (\<forall>r. request_of sid (tq_request_id request) (bk_store s) = Some r \<longrightarrow> br_state r = Request_Not_Submitted)"
| "output_sound cfg s s' (Responded sid rid response) \<longleftrightarrow> (tr_status response = Tool_Completed \<longrightarrow>
     (\<exists>r. request_of sid rid (bk_store s') = Some r \<and> br_state r = Request_Completed))"
| "output_sound cfg s s' _ \<longleftrightarrow> True"

definition good :: "broker_config \<Rightarrow> broker \<Rightarrow> stepped \<Rightarrow> bool" where
  "good cfg s x \<longleftrightarrow> (case x of (outs, s') \<Rightarrow> broker_inv cfg s' \<and> requests_evolve (bk_store s) (bk_store s') \<and>
     length (spawns outs) \<le> 1 \<and> list_all (output_sound cfg s s') outs)"

lemma good_quiet:
  "broker_inv cfg s' \<Longrightarrow> requests_evolve (bk_store s) (bk_store s') \<Longrightarrow>
    list_all (\<lambda>x. \<nexists>sid request rid response. x = Spawn sid request \<or> x = Responded sid rid response) outs \<Longrightarrow> good cfg s (outs, s')"
proof -
  assume a: "broker_inv cfg s'" "requests_evolve (bk_store s) (bk_store s')"
    and outs: "list_all (\<lambda>x. \<nexists>sid request rid response. x = Spawn sid request \<or> x = Responded sid rid response) outs"
  have "spawns outs = [] \<and> list_all (output_sound cfg s s') outs"
    using outs
  proof (induction outs)
    case (Cons x outs)
    then show ?case by (cases x) auto
  qed simp
  then show ?thesis using a by (simp add: good_def)
qed

lemma good_same: "broker_inv cfg s \<Longrightarrow> good cfg s ([], s)"
  by (rule good_quiet) simp_all

lemma good_trans:
  assumes "good cfg s1 x" and "requests_evolve (bk_store s) (bk_store s1)"
  shows "good cfg s x"
proof -
  obtain outs s' where x: "x = (outs, s')" by (cases x)
  have "output_sound cfg s s' y" if "output_sound cfg s1 s' y" for y
  proof (cases y)
    case (Spawn sid request)
    have "br_state r = Request_Not_Submitted" if "request_of sid (tq_request_id request) (bk_store s) = Some r" for r
      using that assms(2) \<open>output_sound cfg s1 s' y\<close> Spawn by (force simp: requests_evolve_def request_evolves_def)
    then show ?thesis using that Spawn by simp
  qed (use that in auto)
  then show ?thesis
    using assms requests_evolve_trans by (auto simp: x good_def list_all_iff)
qed

lemma good_store:
  assumes "broker_inv cfg s" and "store_ok (bk_store s) st"
    and "\<And>s1. s1 = s\<lparr>bk_store := st\<rparr> \<Longrightarrow> broker_inv cfg s1 \<Longrightarrow> good cfg s1 x"
  shows "good cfg s x"
  by (rule good_trans [OF assms(3) [OF refl inv_store [OF assms(1,2)]]]) (simp add: store_ok_evolve [OF assms(2)])

section \<open>Ends of an execution\<close>

lemma finish_store [simp]: "bk_store (finish t s) = bk_store s"
  by (simp add: finish_def task_key_eq)

lemma remember_simps [simp]: "bk_store (remember sid rid response s) = bk_store s" "bk_tasks (remember sid rid response s) = bk_tasks s"
  by (simp_all add: remember_def)

lemma good_respond:
  assumes "broker_inv cfg s" and "t \<in> set (bk_tasks s)"
    and "request_of (bt_session t) (task_rid t) (bk_store s) = Some r" and "\<not> unsettled (br_state r)"
    and "tr_status response = Tool_Completed \<Longrightarrow> br_state r = Request_Completed"
  shows "good cfg s (respond t response s)"
  using inv_finish [OF assms(1-4)] assms(3,5) by (auto simp: good_def respond_def task_rid_def)

lemma good_fails:
  assumes "broker_inv cfg s" and "t \<in> set (bk_tasks s)"
    and "request_of (bt_session t) (task_rid t) (bk_store s) = Some r" and "\<not> unsettled (br_state r)"
  shows "good cfg s (fails t s)"
  using inv_finish [OF assms] by (auto simp: good_def fails_def)

lemma good_concludes:
  assumes inv: "broker_inv cfg s" and t: "t \<in> set (bk_tasks s)"
    and r: "request_of (bt_session t) (task_rid t) (bk_store s) = Some r" "\<not> unsettled (br_state r)"
    and first: "bt_stage t \<noteq> Queued \<or> \<not> task_mutating t \<or> (\<exists>l. live_of (bt_session t) s = Some l \<and> hd (lv_mutations l) = task_rid t)"
    and kept: "tr_status response = Tool_Completed \<Longrightarrow> br_state r = Request_Completed"
  shows "good cfg s (concludes t response s)"
proof -
  let ?s = "remember (bt_session t) (task_rid t) response s"
  have "broker_inv cfg ?s" using r kept by (intro inv_remember [OF inv]) auto
  moreover have "bt_stage t \<noteq> Queued \<or> \<not> task_mutating t \<or> (\<exists>l. live_of (bt_session t) ?s = Some l \<and> hd (lv_mutations l) = task_rid t)"
    using first by (auto simp: remember_def live_of_update)
  ultimately have "broker_inv cfg (set_stage t (Reporting response) ?s)"
    using r kept t by (intro inv_stage [where r = r]) auto
  then show ?thesis by (simp add: good_def concludes_def task_rid_def)
qed

lemma responseForSettled_completed:
  assumes "tr_status (responseForSettled l rid state code) = Tool_Completed"
  shows "\<exists>response. map_of (lv_completed l) rid = Some response \<and> tr_status response = Tool_Completed"
  using assms
  by (auto simp: responseForSettled_def uncertain_response_def cancelled_response_def rejected_response_def error_response_def
      split: option.splits if_splits)

lemma settled_answer:
  assumes "broker_inv cfg s" and "live_of sid s = Some l" and "tr_status (responseForSettled l rid state code) = Tool_Completed"
  shows "\<exists>r. request_of sid rid (bk_store s) = Some r \<and> br_state r = Request_Completed"
  using responseForSettled_completed [OF assms(3)] inv_liveD [OF assms(1,2)] by (auto simp: live_ok_def cache_ok_def)

end
