(* ===== verification/Broker_Progress.thy ===== *)
theory Broker_Progress
  imports Broker_Steps
begin

text \<open>The stretches of an execution are good: they keep the invariant and their outputs are sound.\<close>

lemma transition_succeeds:
  assumes "request_of sid rid st = Some r" and "br_state r \<in> E"
  shows "\<exists>r' st'. transition now sid rid E state values ev st = (Inr r', st')"
  using assms by (auto simp: transition_def Let_def requiredRequest_def request_of_update)

lemma settling_succeeds:
  assumes "request_of sid rid st = Some r" and "br_state r = Request_Submitted"
  shows "\<exists>r' st'. complete_request now sid rid n st = (Inr r', st')" "\<exists>r' st'. reject now sid rid code st = (Inr r', st')"
    "\<exists>r' st'. uncertain now sid rid code st = (Inr r', st')" "\<exists>r' st'. cancelled now sid rid code st = (Inr r', st')"
  using assms unfolding complete_request_def reject_def uncertain_def cancelled_def
  by (auto intro!: transition_succeeds)

lemma rejecting_succeeds:
  assumes "request_of sid rid st = Some r" and "br_state r = Request_Not_Submitted"
  shows "\<exists>r' st'. reject now sid rid code st = (Inr r', st')"
  using assms unfolding reject_def by (auto intro!: transition_succeeds)

text \<open>A task with its record and its session.\<close>

definition at_work :: "broker_config \<Rightarrow> broker \<Rightarrow> broker_task \<Rightarrow> live_session \<Rightarrow> broker_request \<Rightarrow> bool" where
  "at_work cfg s t l r \<longleftrightarrow> broker_inv cfg s \<and> t \<in> set (bk_tasks s) \<and> live_of (bt_session t) s = Some l \<and>
     request_of (bt_session t) (task_rid t) (bk_store s) = Some r \<and> stage_fits (bt_stage t) r \<and> recorded_as cfg (bt_request t) r"

lemma at_workI:
  assumes "broker_inv cfg s" and "t \<in> set (bk_tasks s)" and "live_of (bt_session t) s = Some l"
  obtains r where "at_work cfg s t l r"
  using inv_taskD [OF assms(1,2)] assms by (auto simp: task_ok_def at_work_def)

lemma started: "stage_fits stage r \<Longrightarrow> stage \<noteq> Queued \<Longrightarrow> br_state r \<noteq> Request_Not_Submitted"
  by (cases stage) (auto simp: unsettled_def)

lemma settled_iff: "\<not> unsettled state \<longleftrightarrow> state \<noteq> Request_Not_Submitted \<and> state \<noteq> Request_Submitted"
  by (simp add: unsettled_def)

text \<open>The answer for a settled record.\<close>

lemma good_settled:
  assumes w: "at_work cfg s t l r" and "\<not> unsettled (br_state r)"
  shows "good cfg s (respond t (responseForSettled l (task_rid t) state code) s)"
proof (rule good_respond)
  assume "tr_status (responseForSettled l (task_rid t) state code) = Tool_Completed"
  then show "br_state r = Request_Completed" using settled_answer [of cfg s "bt_session t" l] w by (fastforce simp: at_work_def)
qed (use assms in \<open>auto simp: at_work_def\<close>)

text \<open>A store that settled the record, and the response that is then reported.\<close>

lemma good_settling:
  assumes w: "at_work cfg s t l r" and ok: "store_ok (bk_store s) st" and r': "request_of (bt_session t) (task_rid t) st = Some r'"
    and "\<not> unsettled (br_state r')"
    and "bt_stage t \<noteq> Queued \<or> \<not> task_mutating t \<or> hd (lv_mutations l) = task_rid t"
    and "tr_status response = Tool_Completed \<Longrightarrow> br_state r' = Request_Completed"
  shows "good cfg s (concludes t response (s\<lparr>bk_store := st\<rparr>))"
proof (rule good_store [OF _ ok])
  fix s1 assume s1: "s1 = s\<lparr>bk_store := st\<rparr>" "broker_inv cfg s1"
  have live: "live_of x s1 = live_of x s" for x by (simp add: s1 live_of_def)
  show "good cfg s1 (concludes t response (s\<lparr>bk_store := st\<rparr>))"
    unfolding s1(1) [symmetric]
    by (rule good_concludes [OF s1(2)]) (use assms s1 live in \<open>auto simp: at_work_def\<close>)
qed (use w in \<open>simp add: at_work_def\<close>)

lemma not_completed:
  "tr_status (uncertain_response rid code message) \<noteq> Tool_Completed" "tr_status (failed_response rid code message) \<noteq> Tool_Completed"
  "tr_status (rejected_response rid code message) \<noteq> Tool_Completed" "tr_status (cancelled_response rid code) \<noteq> Tool_Completed"
  by (simp_all add: uncertain_response_def failed_response_def rejected_response_def cancelled_response_def error_response_def)

lemma assertAdmitted_None:
  "assertAdmitted l authority request st = None \<Longrightarrow> \<exists>row. session (lv_id l) st = Some row \<and> bs_state row = Session_Admitted \<and>
     \<not> lv_closing l \<and> requiredSemanticTool (tq_operation request) \<in> set (ra_resolvedToolProfile (lv_run l)) \<and>
     ra_workspaceAccess (lv_run l) \<noteq> Access_None \<and>
     (isMutatingWorkspaceTool (tq_operation request) \<longrightarrow> ra_workspaceAccess (lv_run l) = Access_Read_Write) \<and>
     bb_physicalLineageId (bs_binding row) = ra_physicalLineageId (lv_run l)"
  by (auto simp: assertAdmitted_def isMutatingWorkspaceTool_def split: option.splits if_splits)

lemma executeNow_begins_good:
  assumes w: "at_work cfg s t l r" and queued: "bt_stage t = Queued" and first: "task_mutating t \<Longrightarrow> hd (lv_mutations l) = task_rid t"
  shows "good cfg s (executeNow_begins now authority l t s)"
proof -
  let ?sid = "bt_session t" and ?rid = "task_rid t"
  have rid: "tq_request_id (bt_request t) = ?rid" by (simp add: task_rid_def)
  have inv: "broker_inv cfg s" and t: "t \<in> set (bk_tasks s)" and l: "live_of ?sid s = Some l"
    and r: "request_of ?sid ?rid (bk_store s) = Some r" using w by (simp_all add: at_work_def)
  have id: "lv_id l = ?sid" using inv_liveD [OF inv l] by simp
  show ?thesis
  proof (cases "br_state r = Request_Not_Submitted")
    case False
    then have "\<not> unsettled (br_state r)" using w queued by (simp add: at_work_def unsettled_def)
    then show ?thesis
      using False r good_settled [OF w] by (auto simp: executeNow_begins_def rid Let_def settled_response_def)
  next
    case new: True
    show ?thesis
    proof (cases "assertAdmitted l authority (bt_request t) (bk_store s)")
      case (Some error)
      obtain code message where e: "brokerError error ''broker_authority_rejected'' = (code, message)" by fastforce
      obtain r' st where rej: "reject now ?sid ?rid code (bk_store s) = (Inr r', st)" using rejecting_succeeds [OF r new] by blast
      have "store_ok (bk_store s) st" "request_of ?sid ?rid st = Some r'" "br_state r' = Request_Rejected"
        using settling_ok(2) [OF rej] by auto
      then have "good cfg s (concludes t (rejected_response ?rid code message) (s\<lparr>bk_store := st\<rparr>))"
        using first by (intro good_settling [OF w]) (auto simp: unsettled_def rejected_response_def error_response_def)
      then show ?thesis using Some e rej r new by (simp add: executeNow_begins_def rid)
    next
      case None
      obtain r' st where sub: "submitted now ?sid ?rid (bk_store s) = (Inr r', st)"
        using transition_succeeds [OF r] new unfolding submitted_def by blast
      obtain r0 where r0: "request_of ?sid ?rid (bk_store s) = Some r0"
        "r' = transitioned now Request_Submitted (no_values\<lparr>tv_startedAt := Some now\<rparr>) r0"
        and r': "\<And>x y. request_of x y st = (if x = ?sid \<and> y = ?rid then Some r' else request_of x y (bk_store s))"
        "\<And>x. session x st = session x (bk_store s)"
        by (rule transition_result [OF sub [unfolded submitted_def]]) (rule that)
      have transitioned: "r' = transitioned now Request_Submitted (no_values\<lparr>tv_startedAt := Some now\<rparr>) r" using r0 r by simp
      have evolves: "request_evolves r r'" "br_state r' = Request_Submitted" using transitioned new
        by (simp_all add: request_evolves_def transitioned_def unsettled_def)
      have "broker_inv cfg (set_stage t Spawning (s\<lparr>bk_store := st\<rparr>))"
        by (rule inv_move [OF inv t l first _ r'(2) r _ evolves(1)]) (use r' evolves new in \<open>auto simp: task_key_eq\<close>)
      moreover have "requests_evolve (bk_store s) st"
        using r'(1) r evolves(1) by (simp add: requests_evolve_def)
      moreover have "launch_ok cfg (set_stage t Spawning (s\<lparr>bk_store := st\<rparr>)) ?sid (bt_request t)"
        using assertAdmitted_None [OF None] r' evolves l w id
        by (auto simp: launch_ok_def rid at_work_def recorded_as_def request_evolves_def live_of_def set_stage_def)
      ultimately show ?thesis
        using None sub r new by (simp add: executeNow_begins_def rid good_def)
    qed
  qed
qed

lemma catches_good:
  assumes w: "at_work cfg s t l r" and stage: "bt_stage t \<noteq> Queued"
  shows "good cfg s (catches now error l t s)"
proof -
  let ?sid = "bt_session t" and ?rid = "task_rid t"
  have rid: "tq_request_id (bt_request t) = ?rid" by (simp add: task_rid_def)
  have r: "request_of ?sid ?rid (bk_store s) = Some r" using w by (simp add: at_work_def)
  have started: "br_state r \<noteq> Request_Not_Submitted" using started [OF _ stage] w by (simp add: at_work_def)
  show ?thesis
  proof (cases "br_state r = Request_Submitted")
    case False
    then show ?thesis using good_settled [OF w] started r by (simp add: catches_def rid settled_iff)
  next
    case True
    obtain certainty code message where c: "classifyExecutionError error (br_process r \<noteq> None) (br_mutating r) = (certainty, code, message)"
      by (metis prod_cases3)
    let ?settled = "if certainty = Certainty_Uncertain then uncertain now ?sid ?rid code (bk_store s) else reject now ?sid ?rid code (bk_store s)"
    obtain r' st where wr: "?settled = (Inr r', st)" using settling_succeeds(2,3) [OF r True] by (metis (full_types))
    have "store_ok (bk_store s) st" "request_of ?sid ?rid st = Some r'" "\<not> unsettled (br_state r')"
      using wr settling_ok(2,3) by (fastforce simp: unsettled_def split: if_splits)+
    then have "good cfg s (concludes t response (s\<lparr>bk_store := st\<rparr>))" if "tr_status response \<noteq> Tool_Completed" for response
      using stage that by (intro good_settling [OF w]) auto
    note answered = this [OF not_completed(1)] this [OF not_completed(2)] this [OF not_completed(3)]
    show ?thesis
      using True r c wr answered
      by (cases "certainty = Certainty_Uncertain") (simp_all add: catches_def rid Let_def)
  qed
qed

lemma at_work_state:
  assumes "at_work cfg s t l r" and "bt_stage t \<noteq> Queued"
  shows "br_state r = Request_Submitted \<or> \<not> unsettled (br_state r)"
  using started [OF _ assms(2), of r] assms(1) by (auto simp: at_work_def unsettled_def)

lemma at_work_stage:
  assumes w: "at_work cfg s t l r" and "bt_stage t \<noteq> Queued" and "stage_fits stage r"
    and "list_all (\<lambda>x. \<nexists>sid request rid response. x = Spawn sid request \<or> x = Responded sid rid response) outs"
  shows "good cfg s (outs, set_stage t stage s)"
  by (rule good_quiet [OF inv_stage]) (use assms in \<open>auto simp: at_work_def\<close>)

lemma completes_good:
  assumes w: "at_work cfg s t l r" and stage: "bt_stage t \<noteq> Queued"
  shows "good cfg s (executeNow_completes cfg now authority exit out err l t s)"
proof -
  let ?sid = "bt_session t" and ?rid = "task_rid t"
  have rid: "tq_request_id (bt_request t) = ?rid" by (simp add: task_rid_def)
  have r: "request_of ?sid ?rid (bk_store s) = Some r" and inv: "broker_inv cfg s" and t: "t \<in> set (bk_tasks s)"
    and l: "live_of ?sid s = Some l" using w by (simp_all add: at_work_def)
  show ?thesis
  proof (cases "br_state r = Request_Submitted")
    case False
    then have settled: "\<not> unsettled (br_state r)" using at_work_state [OF w stage] by simp
    let ?response = "responseForSettled l ?rid (br_state r) (Some (case br_error_code r of None \<Rightarrow> ''broker_request_cancelled'' | Some c \<Rightarrow> c))"
    have kept: "br_state r = Request_Completed" if "tr_status ?response = Tool_Completed"
      using settled_answer [OF inv l that] r by simp
    have "broker_inv cfg (remember ?sid ?rid ?response s)" using kept r by (intro inv_remember [OF inv]) auto
    then have "good cfg (remember ?sid ?rid ?response s) (respond t ?response (remember ?sid ?rid ?response s))"
      using t r settled kept by (intro good_respond [where r = r]) auto
    then have "good cfg s (respond t ?response (remember ?sid ?rid ?response s))" by (rule good_trans) simp
    then show ?thesis using False r by (simp add: executeNow_completes_def rid settled_response_def Let_def)
  next
    case True
    note caught = catches_good [OF w stage]
    show ?thesis
    proof (cases "authority = None \<and> (\<exists>result. execution_result cfg exit out err (bt_request t) = Inr result \<and>
        utf8_length (stringify (response_value (completed_response ?rid result))) \<le> result_bound (tq_operation (bt_request t)))")
      case ok: True
      then obtain result where result: "execution_result cfg exit out err (bt_request t) = Inr result"
        "utf8_length (stringify (response_value (completed_response ?rid result))) \<le> result_bound (tq_operation (bt_request t))" by blast
      let ?n = "int (utf8_length (stringify (response_value (completed_response ?rid result))))"
      obtain r' st where c: "complete_request now ?sid ?rid ?n (bk_store s) = (Inr r', st)"
        using settling_succeeds(1) [OF r True] by blast
      have "store_ok (bk_store s) st" "request_of ?sid ?rid st = Some r'" "br_state r' = Request_Completed" using settling_ok(1) [OF c] by auto
      then have "good cfg s (concludes t (completed_response ?rid result) (s\<lparr>bk_store := st\<rparr>))"
        using stage by (intro good_settling [OF w]) (auto simp: unsettled_def)
      then show ?thesis using True ok result c r by (simp add: executeNow_completes_def rid Let_def)
    next
      case no: False
      then show ?thesis
        using True caught r
        by (cases authority; cases "execution_result cfg exit out err (bt_request t)")
          (auto simp: executeNow_completes_def rid Let_def)
    qed
  qed
qed

lemma cache_active [simp]: "cache_ok s (l\<lparr>lv_active := a\<rparr>) = cache_ok s l" "cache_ok s (l\<lparr>lv_closing := b\<rparr>) = cache_ok s l"
  "cache_ok s (l\<lparr>lv_listed := c\<rparr>) = cache_ok s l"
  by (simp_all add: cache_ok_def)

lemma spawned_good:
  assumes w: "at_work cfg s t l r" and stage: "bt_stage t = Spawning"
  shows "good cfg s (spawned now process l t s)"
proof -
  let ?sid = "bt_session t" and ?rid = "task_rid t"
  let ?f = "\<lambda>l. l\<lparr>lv_active := (?rid, process) # without ?rid (lv_active l)\<rparr>" and ?s = "update_live (bt_session t)
    (\<lambda>l. l\<lparr>lv_active := (task_rid t, process) # without (task_rid t) (lv_active l)\<rparr>) s"
  have rid: "tq_request_id (bt_request t) = ?rid" by (simp add: task_rid_def)
  have inv: "broker_inv cfg ?s" using w by (intro inv_update_live) (simp_all add: at_work_def)
  have r: "request_of ?sid ?rid (bk_store s) = Some r" using w by (simp add: at_work_def)
  have w1: "at_work cfg ?s t (?f l) r" using w inv by (simp add: at_work_def live_of_update)
  have q: "bt_stage t \<noteq> Queued" using stage by simp
  show ?thesis
  proof (cases "br_state r = Request_Submitted")
    case False
    then have "\<not> unsettled (br_state r)" using at_work_state [OF w q] by simp
    then have "good cfg ?s ([Cancel_Process ?sid ?rid], set_stage t (Cancelling_Late (br_state r) code) ?s)" for code
      by (intro at_work_stage [OF w1 q]) simp_all
    then have "good cfg s ([Cancel_Process ?sid ?rid], set_stage t (Cancelling_Late (br_state r) code) ?s)" for code
      by (rule good_trans) simp
    then show ?thesis using False r by (simp add: spawned_def rid Let_def)
  next
    case True
    show ?thesis
    proof (cases "bindProcess now ?sid ?rid process (bk_store s)")
      case (Pair x st)
      have ok: "store_ok (bk_store ?s) st" using bindProcess_ok [OF Pair] by simp
      show ?thesis
      proof (cases x)
        case (Inl e)
        then have same: "st = bk_store s" using Pair by (auto simp: bindProcess_def Let_def requiredRequest_def request_of_update request_key_def split: if_splits option.splits)
        have "good cfg s (catches now error (?f l) t ?s)" for error by (rule good_trans [OF catches_good [OF w1 q]]) simp
        moreover have "catches now error (?f l) t ?s = catches now error l t ?s" for error
          using True r by (simp add: catches_def rid)
        ultimately have caught: "good cfg s (catches now error l t ?s)" for error by simp
        have eq: "?s\<lparr>bk_store := st\<rparr> = ?s" unfolding same by (simp add: update_live_def)
        have "spawned now process l t s = catches now (plain_error ''Workspace tool broker request process binding is stale.'') l t
            (?s\<lparr>bk_store := st\<rparr>)" using True r Pair Inl by (simp add: spawned_def rid Let_def)
        then show ?thesis using caught unfolding eq by simp
      next
        case (Inr r')
        have st: "request_of ?sid ?rid st = Some r'" "br_state r' = Request_Submitted"
          using Pair Inr r True by (auto simp: bindProcess_def Let_def requiredRequest_def request_of_update request_key_def split: if_splits)
        have "good cfg ?s ([Write_Input ?sid ?rid], set_stage t Writing (?s\<lparr>bk_store := st\<rparr>))"
        proof (rule good_store [OF inv ok])
          fix s1 assume s1: "s1 = ?s\<lparr>bk_store := st\<rparr>" "broker_inv cfg s1"
          have "broker_inv cfg (set_stage t Writing s1)"
            by (rule inv_stage [OF s1(2)]) (use w st q s1 in \<open>auto simp: at_work_def\<close>)
          then show "good cfg s1 ([Write_Input ?sid ?rid], set_stage t Writing (?s\<lparr>bk_store := st\<rparr>))"
            unfolding s1(1) [symmetric] by (rule good_quiet) simp_all
        qed
        then have "good cfg s ([Write_Input ?sid ?rid], set_stage t Writing (?s\<lparr>bk_store := st\<rparr>))" by (rule good_trans) simp
        then show ?thesis using True r Pair Inr by (simp add: spawned_def rid Let_def)
      qed
    qed
  qed
qed

lemma timed_out_good:
  assumes w: "at_work cfg s t l r" and stage: "bt_stage t \<noteq> Queued"
  shows "good cfg s (timed_out now t s)"
proof -
  let ?sid = "bt_session t" and ?rid = "task_rid t"
  have rid: "tq_request_id (bt_request t) = ?rid" by (simp add: task_rid_def)
  have r: "request_of ?sid ?rid (bk_store s) = Some r" using w by (simp add: at_work_def)
  show ?thesis
  proof (cases "br_state r = Request_Submitted")
    case False
    then have settled: "\<not> unsettled (br_state r)" using at_work_state [OF w stage] by simp
    have "good cfg s (concludes t (cancelled_response ?rid ''broker_request_timeout'') (s\<lparr>bk_store := bk_store s\<rparr>))"
      using stage r settled not_completed by (intro good_settling [OF w]) auto
    then show ?thesis using settled r by (simp add: timed_out_def rid Let_def)
  next
    case True
    obtain r' st where c: "cancelled now ?sid ?rid ''broker_request_timeout'' (bk_store s) = (Inr r', st)"
      using settling_succeeds(4) [OF r True] by blast
    have "store_ok (bk_store s) st" "request_of ?sid ?rid st = Some r'" "br_state r' = Request_Cancelled" using settling_ok(4) [OF c] by auto
    then have "good cfg s (concludes t (cancelled_response ?rid ''broker_request_timeout'') (s\<lparr>bk_store := st\<rparr>))"
      using stage not_completed by (intro good_settling [OF w]) (auto simp: unsettled_def)
    then show ?thesis using True r c by (simp add: timed_out_def rid Let_def unsettled_def)
  qed
qed

lemma task_continues_good:
  assumes inv: "broker_inv cfg s" and t: "t \<in> set (bk_tasks s)" and l: "live_of (bt_session t) s = Some l"
  shows "good cfg s (task_continues cfg now authority answer l t s)"
proof -
  obtain r where w: "at_work cfg s t l r" using at_workI [OF inv t l] .
  have rid: "tq_request_id (bt_request t) = task_rid t" by (simp add: task_rid_def)
  have fits: "stage_fits (bt_stage t) r" using w by (simp add: at_work_def)
  note same = good_same [OF inv]
  note parts = catches_good [OF w] completes_good [OF w] spawned_good [OF w] timed_out_good [OF w]
  show ?thesis
  proof (cases "bt_stage t")
    case Queued
    have "good cfg s (executeNow_begins now authority l t s)" if "lv_mutations l \<noteq> []" "hd (lv_mutations l) = task_rid t"
      using that by (intro executeNow_begins_good [OF w Queued]) simp
    then show ?thesis using same Queued by (cases answer) (auto simp: task_continues_def rid)
  next
    case (Cancelling_Late state code)
    then have "\<not> unsettled (br_state r)" using fits by simp
    then show ?thesis
      using same Cancelling_Late good_settled [OF w] by (cases answer) (auto simp: task_continues_def rid)
  next
    case (Reporting response)
    then have "good cfg s (respond t response s)"
      using fits w by (intro good_respond [where r = r]) (auto simp: at_work_def)
    then show ?thesis using same Reporting by (cases answer) (auto simp: task_continues_def)
  qed (use same parts fits at_work_stage [OF w] in \<open>cases answer; auto simp: task_continues_def Let_def\<close>)+
qed

section \<open>Requests of clients\<close>

lemma execute_good:
  assumes inv: "broker_inv cfg s" and l: "live_of (lv_id l) s = Some l"
  shows "good cfg s (execute cfg now authority l request s)"
proof (cases "request_of (lv_id l) (tq_request_id request) (bk_store s)")
  case (Some existing)
  have "\<exists>r. request_of (lv_id l) (tq_request_id request) (bk_store s) = Some r \<and> br_state r = Request_Completed"
    if "tr_status (responseForSettled l (tq_request_id request) state code) = Tool_Completed" for state code
    using settled_answer [OF inv l that] .
  then show ?thesis
    using Some inv not_completed by (auto simp: execute_def Let_def good_def)
next
  case None
  let ?sid = "lv_id l" and ?rid = "tq_request_id request" and ?mutating = "isMutatingWorkspaceTool (tq_operation request)"
  let ?bytes = "int (utf8_length (stringify (request_value request)))"
  show ?thesis
  proof (cases "int (lv_activeCount l) \<ge> maxActiveRequests cfg")
    case True
    then show ?thesis using None inv not_completed by (simp add: execute_def Let_def good_def)
  next
    case space: False
    obtain x st where create: "createRequest now ?sid ?rid (tq_operation request) ?mutating
        (bc_digest cfg (stringify (request_value request))) ?bytes (bk_store s) = (x, st)" by fastforce
    show ?thesis
    proof (cases x)
      case (Inl e)
      then have "st = bk_store s" using createRequest_result [OF create] by simp
      then have "good cfg s ([Execution_Failed ?sid ?rid], s\<lparr>bk_store := st\<rparr>)" using inv by (intro good_quiet) simp_all
      then show ?thesis using None space create Inl by (simp add: execute_def Let_def)
    next
      case (Inr r)
      define t where "t = \<lparr>bt_session = ?sid, bt_request = request, bt_stage = Queued\<rparr>"
      let ?s = "(update_live ?sid (entered request ?rid) (s\<lparr>bk_store := st\<rparr>))\<lparr>bk_tasks := bk_tasks s @ [t]\<rparr>"
      have inv1: "broker_inv cfg ?s"
        by (rule inv_created [OF inv l _ create [unfolded Inr] refl t_def]) (use space in simp)
      have evolve: "requests_evolve (bk_store s) (bk_store ?s)"
        using createRequest_result [OF create] Inr None by (auto simp: requests_evolve_def)
      have started: "good cfg s (executeNow_begins now authority (entered request ?rid l) t ?s)" if "\<not> ?mutating"
      proof (rule good_trans [OF _ evolve])
        have live: "live_of ?sid ?s = Some (entered request ?rid l)"
          using live_of_update [of "entered request ?rid" ?sid ?sid "s\<lparr>bk_store := st\<rparr>"] l by (simp add: live_of_def update_live_def)
        obtain q where "at_work cfg ?s t (entered request ?rid l) q"
          by (rule at_workI [OF inv1]) (use live in \<open>auto simp: t_def\<close>)
        then show "good cfg ?s (executeNow_begins now authority (entered request ?rid l) t ?s)"
          using that by (intro executeNow_begins_good) (auto simp: t_def task_mutating_def)
      qed
      have waits: "good cfg s ([], ?s)" using inv1 evolve by (intro good_quiet) simp_all
      have "entered request ?rid = (\<lambda>l. l\<lparr>lv_activeCount := lv_activeCount l + 1,
          lv_mutations := (if ?mutating then lv_mutations l @ [?rid] else lv_mutations l)\<rparr>)" by (simp add: fun_eq_iff entered_def)
      then have "execute cfg now authority l request s =
          (if ?mutating then ([], ?s) else executeNow_begins now authority (entered request ?rid l) t ?s)"
        using None space create Inr by (simp add: execute_def Let_def t_def)
      then show ?thesis using started waits by simp
    qed
  qed
qed

lemma client_request_good:
  assumes "broker_inv cfg s" shows "good cfg s (client_request cfg now authority streamed sid v s)"
proof -
  have refused: "good cfg s ([Refused sid], s)" using assms by (intro good_quiet) simp_all
  show ?thesis
    using refused execute_good [OF assms] inv_liveD [OF assms]
    by (auto simp: client_request_def split: option.splits sum.splits)
qed

section \<open>Cancellation and closing\<close>

lemma good_write:
  assumes "broker_inv cfg s" and "store_ok (bk_store s) st"
    and "list_all (\<lambda>x. \<nexists>sid request rid response. x = Spawn sid request \<or> x = Responded sid rid response) outs"
  shows "good cfg s (outs, s\<lparr>bk_store := st\<rparr>)"
  by (rule good_quiet [OF inv_store [OF assms(1,2)]]) (use store_ok_evolve [OF assms(2)] assms(3) in auto)

lemma cancel_begins_good:
  assumes "broker_inv cfg s" shows "good cfg s (cancel_begins now sid rid s)"
proof -
  have quiet: "good cfg s ([Cancel_Answered sid rid x], s)" for x using assms by (intro good_quiet) simp_all
  have waits: "good cfg s ([Cancel_Process sid rid], s\<lparr>bk_cancels := a\<rparr>)" for a using assms by (intro good_quiet) simp_all
  have stored: "good cfg s ([Cancel_Answered sid rid y], s\<lparr>bk_store := st\<rparr>)"
    if "cancelled now sid rid code (bk_store s) = (x, st)" for code x st y
    using settling_ok(4) [OF that] by (intro good_write [OF assms]) simp_all
  obtain x st where c: "cancelled now sid rid ''broker_request_cancelled'' (bk_store s) = (x, st)" by fastforce
  show ?thesis
    using quiet waits stored [OF c] c by (auto simp: cancel_begins_def split: option.splits sum.splits)
qed

lemma cancel_continues_good:
  assumes "broker_inv cfg s0" shows "good cfg s0 (cancel_continues now ok pending s0)"
proof -
  obtain sid rid where p: "pending = (sid, rid)" by (cases pending)
  let ?s = "s0\<lparr>bk_cancels := remove1 pending (bk_cancels s0)\<rparr>"
  have inv: "broker_inv cfg ?s" using assms by simp
  let ?tried = "if ok then cancelled now sid rid ''broker_request_cancelled'' (bk_store ?s) else (Inl Transition_Stale, bk_store ?s)"
  obtain x st where tried: "?tried = (x, st)" by fastforce
  have ok1: "store_ok (bk_store ?s) st" using tried settling_ok(4) by (cases ok) auto
  have unchanged: "st = bk_store ?s" if "x = Inl e" for e
    using tried that transition_fails unfolding cancelled_def by (cases ok) auto
  obtain y st' where unc: "uncertain now sid rid ''broker_cancellation_uncertain'' st = (y, st')" by fastforce
  have "good cfg ?s (cancel_continues now ok pending s0)"
  proof (cases x)
    case (Inr r)
    have "good cfg ?s ([Cancel_Answered sid rid z], ?s\<lparr>bk_store := st\<rparr>)" for z using ok1 by (intro good_write [OF inv]) simp_all
    then show ?thesis using tried Inr p by (cases ok) (simp_all add: cancel_continues_def Let_def)
  next
    case (Inl e)
    have "store_ok (bk_store ?s) st'" using settling_ok(3) [OF unc] unchanged [OF Inl] by simp
    then have "good cfg ?s ([Cancel_Answered sid rid z], ?s\<lparr>bk_store := st'\<rparr>)" for z by (intro good_write [OF inv]) simp_all
    then show ?thesis using tried Inl p unc by (cases ok; cases y) (simp_all add: cancel_continues_def Let_def)
  qed
  then show ?thesis by (rule good_trans) simp
qed

definition no_launch :: "broker_output list \<Rightarrow> bool" where
  "no_launch outs \<longleftrightarrow> list_all (\<lambda>x. \<nexists>sid request rid response. x = Spawn sid request \<or> x = Responded sid rid response) outs"

definition calm :: "broker_config \<Rightarrow> broker \<Rightarrow> stepped \<Rightarrow> bool" where
  "calm cfg s x \<longleftrightarrow> (case x of (outs, s') \<Rightarrow> broker_inv cfg s' \<and> requests_evolve (bk_store s) (bk_store s') \<and> no_launch outs)"

lemma calm_good: "calm cfg s x \<Longrightarrow> good cfg s x"
  by (cases x) (auto simp: calm_def no_launch_def intro: good_quiet)

lemma close_begins_calm:
  assumes "broker_inv cfg s" shows "calm cfg s (close_begins now reason sid s)"
proof -
  have listed: "broker_inv cfg (update_live sid (\<lambda>l. l\<lparr>lv_closing := True\<rparr>) s)"
    using assms by (intro inv_update_live) simp_all
  have quiet: "no_launch (map (\<lambda>x. Cancel_Process sid (fst x)) xs)" for xs :: "(string \<times> json) list"
    by (induction xs) (simp_all add: no_launch_def)
  have closed: "broker_inv cfg (s\<lparr>bk_store := snd (closeSession now sid reason (bk_store s))\<rparr>)"
    "requests_evolve (bk_store s) (snd (closeSession now sid reason (bk_store s)))"
    using inv_store [OF assms closeSession_ok] store_ok_evolve [OF closeSession_ok] by auto
  show ?thesis
    using assms listed quiet closed by (auto simp: close_begins_def calm_def no_launch_def split: option.split)
qed

lemma close_each_calm: "broker_inv cfg s \<Longrightarrow> calm cfg s (close_each now reason sids s)"
proof (induction sids arbitrary: s)
  case Nil
  then show ?case by (simp add: calm_def no_launch_def)
next
  case (Cons sid sids)
  obtain outs s1 where one: "close_begins now reason sid s = (outs, s1)" by fastforce
  obtain more s2 where two: "close_each now reason sids s1 = (more, s2)" by fastforce
  have "calm cfg s (outs, s1)" using close_begins_calm [OF Cons.prems] one by metis
  moreover from this have "calm cfg s1 (more, s2)" using Cons.IH [of s1] two by (simp add: calm_def)
  ultimately have "calm cfg s (outs @ more, s2)" using requests_evolve_trans by (fastforce simp: calm_def no_launch_def)
  then show ?case using one two by simp
qed

lemma closing_cancels_good:
  assumes "broker_inv cfg s0" shows "good cfg s0 (closing_cancels now ok rid c s0)"
proof -
  let ?sid = "bl_session c"
  define s where "s = s0\<lparr>bk_closings := update_where (\<lambda>d. bl_session d = ?sid) (\<lambda>d. d\<lparr>bl_waits := remove1 rid (bl_waits d)\<rparr>) (bk_closings s0)\<rparr>"
  have inv: "broker_inv cfg s" and store: "bk_store s = bk_store s0" using assms by (simp_all add: s_def)
  have "store_ok (bk_store s) (snd (cancelled now ?sid rid (bl_reason c) (bk_store s)))"
    "store_ok (bk_store s) (snd (uncertain now ?sid rid code (bk_store s)))" for code
    using settling_ok(3,4) by (metis prod.collapse)+
  then have writes: "good cfg s ([], s\<lparr>bk_store := snd (cancelled now ?sid rid (bl_reason c) (bk_store s))\<rparr>)"
    "good cfg s ([], s\<lparr>bk_store := snd (uncertain now ?sid rid code (bk_store s))\<rparr>)" for code
    by (intro good_write [OF inv]; simp)+
  have "good cfg s (closing_cancels now ok rid c s0)"
    unfolding closing_cancels_def Let_def s_def [symmetric]
    using writes good_same [OF inv] by (auto split: option.split)
  then show ?thesis by (rule good_trans) (simp add: store)
qed

lemma close_finishes_good:
  assumes "broker_inv cfg s" shows "good cfg s (close_finishes now c s)"
proof -
  let ?st = "snd (closeSession now (bl_session c) (bl_reason c) (bk_store s))"
  have live: "broker_inv cfg (update_live (bl_session c) (\<lambda>l. l\<lparr>lv_listed := False\<rparr>) s)"
    using assms by (intro inv_update_live) simp_all
  have "broker_inv cfg ((update_live (bl_session c) (\<lambda>l. l\<lparr>lv_listed := False\<rparr>) s)\<lparr>bk_store := ?st\<rparr>)"
    by (rule inv_store [OF live]) (simp add: closeSession_ok)
  then show ?thesis
    using store_ok_evolve [OF closeSession_ok] by (intro calm_good) (simp add: close_finishes_def calm_def no_launch_def Let_def)
qed

section \<open>Sessions\<close>

lemma creates_session_good:
  assumes "broker_inv cfg s" shows "good cfg s (creates_session now sid binding s)"
proof -
  obtain x st where c: "createSession now sid (generation (bb_providerAccountId binding) (bb_actionId binding) (bk_store s)) binding (bk_store s)
      = (x, st)" by fastforce
  have "store_ok (bk_store s) st" by (rule createSession_ok [OF c])
  then have "good cfg s ([Refused sid], s\<lparr>bk_store := st\<rparr>)" "good cfg s ([Session_Prepared_As sid], s\<lparr>bk_store := st\<rparr>)"
    by (intro good_write [OF assms]; simp)+
  then show ?thesis using c by (cases x) (simp_all add: creates_session_def Let_def)
qed

lemma prepare_session_good:
  assumes "broker_inv cfg s" shows "good cfg s (prepare_session cfg now ok sid account run input s)"
proof -
  have quiet: "good cfg s ([Refused x], s)" "good cfg s ([Session_Prepared_As x], s)" for x
    using assms by (intro good_quiet; simp)+
  have closes: "good cfg s (outs, s1\<lparr>bk_preparing := a\<rparr>)" if "close_begins now reason x s = (outs, s1)" for reason x outs s1 a
    using close_begins_calm [OF assms, of now reason x] that by (intro calm_good) (simp add: calm_def)
  show ?thesis
    using quiet closes creates_session_good [OF assms]
    by (auto simp: prepare_session_def Let_def split: option.split prod.split)
qed

lemma admit_session_good:
  assumes inv: "broker_inv cfg s" shows "good cfg s (admit_session now ok process account run input sid s)"
proof -
  have refused: "good cfg s ([Refused sid], s)" using inv by (intro good_quiet) simp_all
  obtain x st where a: "admit now sid process (bk_store s) = (x, st)" by fastforce
  have st: "store_ok (bk_store s) st" using admit_ok [OF a] by simp
  show ?thesis
  proof (cases x)
    case (Inl e)
    then show ?thesis using refused a good_write [OF inv st] by (simp add: admit_session_def)
  next
    case (Inr r)
    then have r: "session sid st = Some r" "bs_state r = Session_Admitted" "bs_session_id r = sid"
      and was: "\<exists>row. session sid (bk_store s) = Some row \<and> bs_state row = Session_Prepared" using admit_ok [OF a] by auto
    let ?l = "new_live r account run"
    let ?s = "s\<lparr>bk_store := st, bk_live := bk_live s @ [?l]\<rparr>"
    have id: "lv_id ?l = sid" by (simp add: new_live_def lv_id_def r(3))
    have fresh: "lv_id l \<noteq> sid" if "l \<in> set (bk_live s)" for l
      using inv that was by (fastforce simp: broker_inv_def live_ok_def)
    have inv1: "broker_inv cfg (s\<lparr>bk_store := st\<rparr>)" by (rule inv_store [OF inv st])
    have none: "tasks_of sid s = []"
      using inv_taskD [OF inv] fresh by (force simp: tasks_of_def task_ok_def live_of_def filter_empty_conv dest: lookup_row_SomeD)
    have "live_of y ?s = live_of y s" if "live_of y s \<noteq> None" for y
      using that by (auto simp: live_of_def lookup_row_append split: option.split)
    then have "task_ok cfg ?s t" if "t \<in> set (bk_tasks s)" for t
      using inv_taskD [OF inv1, of t] that by (fastforce simp: task_ok_def live_of_def)
    moreover have "live_ok cfg ?s l" if "l \<in> set (bk_live s)" for l
    proof -
      have "live_ok cfg (s\<lparr>bk_store := st\<rparr>) l" using inv1 that by (simp add: broker_inv_def)
      then show ?thesis unfolding live_ok_def cache_ok_def tasks_of_def by simp
    qed
    moreover have "live_ok cfg ?s ?l"
      using none r id by (simp add: live_ok_def new_live_def tasks_of_def cache_ok_def maxActiveRequests_def lv_id_def)
    moreover have "sid \<notin> lv_id ` set (bk_live s)" using fresh by blast
    then have "distinct (map lv_id (bk_live ?s))" using inv1 id by (simp add: broker_inv_def)
    ultimately have "broker_inv cfg ?s"
      using inv1 unfolding broker_inv_def by simp
    then have "good cfg s ([Session_Admitted_As sid], ?s)" using store_ok_evolve [OF st] by (intro good_quiet) simp_all
    then show ?thesis using refused a Inr by (simp add: admit_session_def)
  qed
qed

lemma request_of_restart:
  "request_of sid rid (reconcileRestart now st) =
    map_option (\<lambda>r. if unsettled (br_state r) then settle ''broker_transport_lost'' now r else r) (request_of sid rid st)"
  by (simp add: reconcileRestart_def request_of_settle)

lemma settle_settled [simp]: "unsettled (br_state r) \<Longrightarrow> \<not> unsettled (br_state (settle code now r))"
  by (simp add: settle_def unsettled_def)

lemma reconcileRestart_evolves:
  "requests_evolve st (reconcileRestart now st)"
  "request_of sid rid (reconcileRestart now st) = Some r \<Longrightarrow> \<not> unsettled (br_state r)"
proof -
  have "request_evolves r (settle code now r)" for r code using settle_settles [of r code now] by (simp add: settles_def)
  then show "requests_evolve st (reconcileRestart now st)" by (simp add: requests_evolve_def request_of_restart)
next
  assume "request_of sid rid (reconcileRestart now st) = Some r"
  then obtain r0 where "r = (if unsettled (br_state r0) then settle ''broker_transport_lost'' now r0 else r0)"
    by (auto simp: request_of_restart)
  then show "\<not> unsettled (br_state r)" by simp
qed

lemma restart_good: "good cfg s ([], restart_broker now s)"
proof -
  have "broker_inv cfg (restart_broker now s)"
    using reconcileRestart_evolves(2) by (fastforce simp: broker_inv_def restart_broker_def)
  then show ?thesis
    using reconcileRestart_evolves(1) by (intro good_quiet) (simp_all add: restart_broker_def)
qed

section \<open>Histories\<close>

lemma broker_step_good:
  assumes "broker_step cfg s outs s'" and inv: "broker_inv cfg s" shows "good cfg s (outs, s')"
  using assms(1)
proof (cases rule: broker_step.cases)
  case (prepare now ok sid account run input)
  then show ?thesis using prepare_session_good [OF inv] by metis
next
  case (prepared p now sid)
  have "broker_inv cfg (s\<lparr>bk_preparing := remove1 p (bk_preparing s)\<rparr>)" using inv by simp
  then have "good cfg (s\<lparr>bk_preparing := remove1 p (bk_preparing s)\<rparr>) (outs, s')"
    using creates_session_good prepared unfolding prepare_continues_def by metis
  then show ?thesis by (rule good_trans) simp
next
  case (admits sid r input now ok process account run)
  then show ?thesis using admit_session_good [OF inv] by metis
next
  case (asks now authority streamed sid v)
  then show ?thesis using client_request_good [OF inv] by metis
next
  case (task t l now authority answer)
  then show ?thesis using task_continues_good [OF inv] by metis
next
  case (cancels now sid rid)
  then show ?thesis using cancel_begins_good [OF inv] by metis
next
  case (cancel_settles pending now ok)
  then show ?thesis using cancel_continues_good [OF inv] by metis
next
  case (closes now reason sid)
  then show ?thesis using calm_good [OF close_begins_calm [OF inv]] by metis
next
  case (closes_matching now matches reason)
  then show ?thesis using calm_good [OF close_each_calm [OF inv]] unfolding closeMatching_def by metis
next
  case (closing c rid now ok)
  then show ?thesis using closing_cancels_good [OF inv] by metis
next
  case (closed c now)
  then show ?thesis using close_finishes_good [OF inv] by metis
next
  case (restart now)
  then show ?thesis using restart_good by metis
qed

lemma broker_run_inv: "broker_run cfg s outs s' \<Longrightarrow> broker_inv cfg s \<Longrightarrow> broker_inv cfg s'"
  by (induction rule: broker_run.induct) (auto dest: broker_step_good simp: good_def)

end
