(* ===== verification/Broker_Frames.thy ===== *)
theory Broker_Frames
  imports Broker_Protocol
begin

text \<open>
  What holds of the frames of the workspace tool broker: which paths a decoded request may hold, when the value of
  a decoded request decodes to it again, and that a decoded response always does.
\<close>

section \<open>Paths\<close>

lemma segments_Cons_slash [simp]: "segments (CHR ''/'' # s) = [] # segments s"
  by simp

lemma segments_ne [simp]: "segments s \<noteq> []"
  by (induction s) (auto split: list.splits)

lemma segments_drop: "segments (CHR ''.'' # CHR ''/'' # s) = ''.'' # segments s"
  by simp

definition clean :: "string \<Rightarrow> bool" where
  "clean p \<longleftrightarrow> CHR 0x00 \<notin> set p \<and> ch_backslash \<notin> set p \<and> ''..'' \<notin> set (segments p) \<and>
     utf8_length p \<le> MAX_BROKER_PATH_BYTES"

text \<open>The paths that decode to themselves.\<close>

definition settled_path :: "string \<Rightarrow> bool" where
  "settled_path p \<longleftrightarrow> p \<noteq> [] \<and> take 1 p \<noteq> ''/'' \<and> take 2 p \<noteq> ''./''"

lemma dot_prefix: "take 2 s = ''./'' \<Longrightarrow> s = CHR ''.'' # CHR ''/'' # drop 2 s"
  by (metis append_Cons append_Nil append_take_drop_id)

lemma clean_without_dot:
  assumes "clean s" shows "clean (without_dot s)"
proof (cases "take 2 s = ''./''")
  case True
  let ?t = "drop 2 s"
  have s: "s = CHR ''.'' # CHR ''/'' # ?t" by (rule dot_prefix [OF True])
  have "utf8_length s = 2 + utf8_length ?t" by (subst s) (simp add: utf8_length_def)
  moreover have "segments s = ''.'' # segments ?t" by (subst s) (rule segments_drop)
  moreover have "set ?t \<subseteq> set s" by (rule set_drop_subset)
  ultimately show ?thesis using assms True by (auto simp: clean_def without_dot_def)
qed (use assms in \<open>simp add: without_dot_def\<close>)

lemma relativePath_accepts:
  "relativePath v = Inr p \<longleftrightarrow>
     (\<exists>s. v = Some (JStr s) \<and> clean s \<and> take 1 s \<noteq> ''/'' \<and> p = (if s = [] \<or> s = ''.'' then ''.'' else without_dot s))"
proof (cases "\<exists>s. v = Some (JStr s)")
  case True
  then obtain s where v: "v = Some (JStr s)" by blast
  have "relativePath v = (if utf8_length s > MAX_BROKER_PATH_BYTES then Inl (Invalid_Field ''path'')
      else if clean s \<and> take 1 s \<noteq> ''/'' then Inr (if s = [] \<or> s = ''.'' then ''.'' else without_dot s)
      else Inl Path_Not_Contained)"
    unfolding v relativePath_def boundedString_def clean_def by simp
  then show ?thesis using v by (auto simp: clean_def simp del: One_nat_def)
next
  case False
  then show ?thesis by (auto simp: relativePath_def boundedString_def split: option.splits json.splits)
qed

lemma relativePath_clean: "relativePath v = Inr p \<Longrightarrow> clean p"
proof -
  have dot: "clean ''.''" by (simp add: clean_def utf8_length_def ch_backslash_def MAX_BROKER_PATH_BYTES_def)
  show "relativePath v = Inr p \<Longrightarrow> clean p"
    by (auto simp: relativePath_accepts dot clean_without_dot)
qed

lemma relativePath_again:
  assumes "relativePath v = Inr p"
  shows "relativePath (Some (JStr p)) = Inr p \<longleftrightarrow> settled_path p"
  using relativePath_clean [OF assms] dot_prefix [of p]
  by (auto simp: relativePath_accepts settled_path_def without_dot_def dest: arg_cong [of _ _ length])

text \<open>A decoded path is absolute exactly when the given one begins with a dot and two slashes.\<close>

lemma relativePath_absolute:
  assumes "relativePath (Some (JStr s)) = Inr p"
  shows "take 1 p = ''/'' \<longleftrightarrow> take 3 s = ''.//''"
proof (cases "take 2 s = ''./''")
  case True
  then have s: "s = CHR ''.'' # CHR ''/'' # drop 2 s" by (rule dot_prefix)
  then have "p = drop 2 s" using assms True by (auto simp: relativePath_accepts without_dot_def)
  moreover have "take 3 s = ''.//'' \<longleftrightarrow> take 1 (drop 2 s) = ''/''" by (subst s) (simp add: numeral_3_eq_3)
  ultimately show ?thesis by simp
next
  case False
  then have "take 3 s \<noteq> ''.//''" by (metis One_nat_def Suc_1 drop0 eval_nat_numeral(3) min.absorb1 le_SucI le_refl
      take_Suc_Cons take_take take0)
  then show ?thesis using assms False by (auto simp: relativePath_accepts without_dot_def split: if_splits)
qed

section \<open>Requests\<close>

fun argument_paths :: "tool_arguments \<Rightarrow> string list" where
  "argument_paths (Path_Argument path) = [path]"
| "argument_paths (Write_Arguments path content) = [path]"
| "argument_paths (Edit_Arguments path old new n) = [path]"
| "argument_paths (Grep_Arguments path query) = [path]"
| "argument_paths (Shell_Arguments command cwd timeout) = [cwd]"

lemma boundedString_accepts:
  "boundedString v field n e = Inr s \<longleftrightarrow> v = Some (JStr s) \<and> (e \<or> s \<noteq> []) \<and> utf8_length s \<le> n"
  by (auto simp: boundedString_def split: option.splits json.splits if_splits)

lemma bounded_integer_accepts: "bounded_integer e low high v = Inr i \<longleftrightarrow> v = Some (JNum i) \<and> low \<le> i \<and> i \<le> high"
  by (auto simp: bounded_integer_def split: option.splits json.splits if_splits)

lemma exactKeys_accepts: "exactKeys es ks = Inr u \<longleftrightarrow> mset (map fst es) = mset ks"
  by (simp add: exactKeys_def ensure_eq_Inr hasExactKeys_mset)

lemmas field_accepts = bind_result_eq_Inr boundedString_accepts bounded_integer_accepts exactKeys_accepts

lemma decode_arguments_clean:
  "decode_arguments operation args = Inr a \<Longrightarrow> path \<in> set (argument_paths a) \<Longrightarrow> clean path"
  by (auto simp: decode_arguments_def field_accepts dest: relativePath_clean split: if_splits)

lemma decode_arguments_again:
  assumes "decode_arguments operation args = Inr a" and "arguments_value a = JObj es"
  shows "decode_arguments operation es = Inr a \<longleftrightarrow> list_all settled_path (argument_paths a)"
proof -
  have again: "relativePath (Some (JStr path)) = Inr path \<longleftrightarrow> settled_path path"
    if "relativePath w = Inr path" for w path by (rule relativePath_again [OF that])
  show ?thesis
    using assms
    by (cases operation)
      (auto simp: decode_arguments_def field_accepts arguments_value_def member_def again)
qed

text \<open>What a decoded request was decoded from.\<close>

lemma decoded_request:
  assumes "decodeWorkspaceToolRequest v = Inr r"
  obtains args where "decode_arguments (tq_operation r) args = Inr (tq_arguments r)" and "request_id_ok (tq_request_id r)"
    and "utf8_length (stringify (request_value r)) \<le> MAX_BROKER_FRAME_BYTES"
  using assms
  by (fastforce simp: decodeWorkspaceToolRequest_def bind_result_eq_Inr frame_identity_def Let_def
      split: if_splits option.splits json.splits)

lemma operationName_name: "operationName (Some (JStr (operation_name o1))) = Inr o1"
  by (cases o1) (simp_all add: operationName_def operations_def operation_name_def)

lemma decode_again:
  assumes "decodeWorkspaceToolRequest v = Inr r"
  shows "decodeWorkspaceToolRequest (request_value r) = Inr r \<longleftrightarrow> list_all settled_path (argument_paths (tq_arguments r))"
proof -
  obtain args where args: "decode_arguments (tq_operation r) args = Inr (tq_arguments r)" "request_id_ok (tq_request_id r)"
    "utf8_length (stringify (request_value r)) \<le> MAX_BROKER_FRAME_BYTES" using decoded_request [OF assms] .
  obtain es where es: "arguments_value (tq_arguments r) = JObj es" by (simp add: arguments_value_def)
  have "decodeWorkspaceToolRequest (request_value r) = bind_result (decode_arguments (tq_operation r) es) (\<lambda>a.
      let decoded = \<lparr>tq_request_id = tq_request_id r, tq_operation = tq_operation r, tq_arguments = a\<rparr> in
      if utf8_length (stringify (request_value decoded)) > MAX_BROKER_FRAME_BYTES then Inl Frame_Too_Large else Inr decoded)"
    using args(2)
    by (simp add: decodeWorkspaceToolRequest_def request_value_def [of r] frame_record_def exactKeys_def hasExactKeys_mset
        frame_identity_def member_def operationName_name es)
  then show ?thesis
    using args(3) decode_arguments_again [OF args(1) es]
    by (cases r; cases "decode_arguments (tq_operation r) es") (auto simp: Let_def split: if_splits)
qed

section \<open>Responses\<close>

lemma decode_error_again: "decode_error v = Inr e \<Longrightarrow> decode_error (Some (error_value e)) = Inr e"
  by (cases e) (auto simp: decode_error_def error_value_def frame_record_def field_accepts member_def split: if_splits)

lemma decode_result_again: "decode_result (Some (result_value r)) = Inr r"
  by (cases r) (simp_all add: decode_result_def result_value_def frame_record_def)

lemma named_status: "named status_name [Tool_Completed, Tool_Rejected, Tool_Uncertain, Tool_Cancelled]
    (Some (JStr (status_name s))) = Some s"
  by (cases s) (simp_all add: named_def status_name_def)

lemma named_certainty: "named certainty_name [Certainly_Not_Submitted, Certainly_Acknowledged, Certainly_Completed,
    Certainty_Uncertain] (Some (JStr (certainty_name c))) = Some c"
  by (cases c) (simp_all add: named_def certainty_name_def)

lemma decoded_response:
  assumes "decodeWorkspaceToolResponse v = Inr r"
  obtains w where "decode_error w = Inr (tr_error r)" and "request_id_ok (tr_request_id r)"
    and "valid_lifecycle (tr_status r) (tr_certainty r) (tr_result r \<noteq> None) (tr_error r \<noteq> None)"
    and "utf8_length (stringify (response_value r)) \<le> MAX_BROKER_FRAME_BYTES"
  using assms
  by (fastforce simp: decodeWorkspaceToolResponse_def bind_result_eq_Inr frame_identity_def Let_def
      split: if_splits option.splits json.splits)

lemma decode_response_again:
  assumes "decodeWorkspaceToolResponse v = Inr r" shows "decodeWorkspaceToolResponse (response_value r) = Inr r"
proof -
  obtain w where r: "decode_error w = Inr (tr_error r)" "request_id_ok (tr_request_id r)"
    "valid_lifecycle (tr_status r) (tr_certainty r) (tr_result r \<noteq> None) (tr_error r \<noteq> None)"
    "utf8_length (stringify (response_value r)) \<le> MAX_BROKER_FRAME_BYTES" using decoded_response [OF assms] .
  have eta: "\<lparr>tr_request_id = tr_request_id r, tr_status = tr_status r, tr_certainty = tr_certainty r,
      tr_result = tr_result r, tr_error = tr_error r\<rparr> = r" by (cases r) simp
  have "response_value r = JObj [(''version'', JStr WORKSPACE_TOOL_BROKER_PROTOCOL), (''type'', JStr ''response''),
     (''request_id'', JStr (tr_request_id r)), (''status'', JStr (status_name (tr_status r))),
     (''certainty'', JStr (certainty_name (tr_certainty r))), (''result'', result_value (tr_result r)), (''error'', error_value (tr_error r))]"
    by (simp add: response_value_def)
  then have "decodeWorkspaceToolResponse (response_value r) =
      (if utf8_length (stringify (response_value r)) > MAX_BROKER_FRAME_BYTES then Inl Frame_Too_Large else Inr r)"
    using r(2,3)
    by (simp add: decodeWorkspaceToolResponse_def frame_record_def [of "Some (JObj _)"] exactKeys_def
        hasExactKeys_mset frame_identity_def member_def named_status named_certainty decode_error_again [OF r(1)] decode_result_again Let_def eta)
  then show ?thesis using r(4) by simp
qed

section \<open>Properties\<close>

definition example_frame :: "string \<Rightarrow> json" where
  "example_frame path = JObj [(''version'', JStr WORKSPACE_TOOL_BROKER_PROTOCOL), (''type'', JStr ''request''),
     (''request_id'', JStr ''r-1''), (''operation'', JStr ''filesystem.read''), (''arguments'', JObj [(''path'', JStr path)])]"

definition example_read :: "string \<Rightarrow> tool_request" where
  "example_read path = \<lparr>tq_request_id = ''r-1'', tq_operation = Read_File, tq_arguments = Path_Argument path\<rparr>"

lemma utf8_length_stringify_small: "utf8_length s \<le> 2 * length s"
  by (induction s) (auto simp: utf8_length_def)

lemma example_decoded:
  assumes "relativePath (Some (JStr raw)) = Inr path" and "length (stringify (request_value (example_read path))) \<le> 1024"
  shows "decodeWorkspaceToolRequest (example_frame raw) = Inr (example_read path)"
proof -
  have "\<not> MAX_BROKER_FRAME_BYTES < utf8_length (stringify (request_value (example_read path)))"
    using assms(2) utf8_length_stringify_small [of "stringify (request_value (example_read path))"]
    by (simp add: MAX_BROKER_FRAME_BYTES_def del: stringify.simps)
  then show ?thesis
    using assms(1)
    by (simp add: decodeWorkspaceToolRequest_def example_frame_def frame_record_def exactKeys_def hasExactKeys_mset
        frame_identity_def member_def decode_arguments_def request_id_ok_def token_128_def token_char_def
        operationName_name [of Read_File, unfolded operation_name_def, simplified] Let_def
        example_read_def [symmetric] del: stringify.simps)
qed

lemma example_raw:
  "relativePath (Some (JStr ''src/main.ts'')) = Inr ''src/main.ts''"
  "relativePath (Some (JStr ''.//etc/passwd'')) = Inr ''/etc/passwd''"
  by (simp_all add: relativePath_def boundedString_def utf8_length_def MAX_BROKER_PATH_BYTES_def ch_backslash_def without_dot_def)

lemma example_sizes:
  "length (stringify (request_value (example_read ''src/main.ts''))) \<le> 1024"
  "length (stringify (request_value (example_read ''/etc/passwd''))) \<le> 1024"
  by (simp_all add: example_read_def request_value_def arguments_value_def operation_name_def
      WORKSPACE_TOOL_BROKER_PROTOCOL_def stringify_string_def escape_char_def ch_quote_def ch_backslash_def Let_def)

text \<open>The check of containment comes before the leading dot is removed, so an absolute path can be the result.\<close>

lemma absolute_path_accepted:
  "decodeWorkspaceToolRequest (example_frame ''.//etc/passwd'') = Inr (example_read ''/etc/passwd'')"
  by (rule example_decoded [OF example_raw(2) example_sizes(2)])

text \<open>
  A path of a decoded request names no parent directory, holds neither NUL nor a backslash and has at most
  1024 bytes. (It may still be absolute, when the given path begins with a dot and two slashes.)
\<close>

lemma request_paths_contained:
  assumes "decodeWorkspaceToolRequest v = Inr r" and "path \<in> set (argument_paths (tq_arguments r))"
  shows "''..'' \<notin> set (segments path) \<and> CHR 0x00 \<notin> set path \<and> ch_backslash \<notin> set path \<and>
    utf8_length path \<le> MAX_BROKER_PATH_BYTES"
  using decoded_request [OF assms(1)] decode_arguments_clean [OF _ assms(2)] by (metis clean_def)

lemma request_paths_contained_witness:
  "''..'' \<notin> set (segments ''src/main.ts'') \<and> utf8_length ''src/main.ts'' \<le> MAX_BROKER_PATH_BYTES"
  using request_paths_contained [OF example_decoded [OF example_raw(1) example_sizes(1)]]
  by (auto simp: example_read_def)

text \<open>
  C38: The value of a decoded request decodes to the same request exactly when its path is not empty, is not
  absolute and does not begin with a dot and a slash; the value of a decoded response always decodes to it.
\<close>

theorem frame_roundtrip:
  assumes "decodeWorkspaceToolRequest v = Inr r" and "decodeWorkspaceToolResponse w = Inr answer"
  shows "(decodeWorkspaceToolRequest (request_value r) = Inr r \<longleftrightarrow>
      list_all (\<lambda>path. path \<noteq> [] \<and> take 1 path \<noteq> ''/'' \<and> take 2 path \<noteq> ''./'') (argument_paths (tq_arguments r))) \<and>
    decodeWorkspaceToolResponse (response_value answer) = Inr answer"
  using decode_again [OF assms(1)] decode_response_again [OF assms(2)] by (simp add: settled_path_def [abs_def])

definition example_answer :: tool_response where
  "example_answer = \<lparr>tr_request_id = ''r-1'', tr_status = Tool_Completed, tr_certainty = Certainly_Completed,
     tr_result = Some [], tr_error = None\<rparr>"

lemma example_answer_decoded: "decodeWorkspaceToolResponse (response_value example_answer) = Inr example_answer"
  by (simp add: decodeWorkspaceToolResponse_def response_value_def example_answer_def frame_record_def exactKeys_def
      hasExactKeys_mset frame_identity_def member_def request_id_ok_def token_128_def token_char_def named_def
      status_name_def certainty_name_def decode_result_def result_value_def decode_error_def error_value_def valid_lifecycle_def
      Let_def utf8_length_def WORKSPACE_TOOL_BROKER_PROTOCOL_def stringify_string_def escape_char_def ch_quote_def
      ch_backslash_def MAX_BROKER_FRAME_BYTES_def)

theorem frame_roundtrip_witness:
  "decodeWorkspaceToolRequest (request_value (example_read ''src/main.ts'')) = Inr (example_read ''src/main.ts'') \<and>
   decodeWorkspaceToolRequest (request_value (example_read ''/etc/passwd'')) \<noteq> Inr (example_read ''/etc/passwd'')"
  using frame_roundtrip [OF example_decoded [OF example_raw(1) example_sizes(1)] example_answer_decoded]
    frame_roundtrip [OF absolute_path_accepted example_answer_decoded]
  by (simp add: example_read_def)

end
