(* ===== verification/Broker_Histories.thy ===== *)
theory Broker_Histories
  imports Broker_Progress Broker_Frames
begin

text \<open>Histories of the workspace tool broker: what they keep, how an execution ends, and two concrete ones.\<close>

section \<open>What a history keeps\<close>

lemma broker_run_evolves:
  "broker_run cfg s outs s' \<Longrightarrow> broker_inv cfg s \<Longrightarrow> requests_evolve (bk_store s) (bk_store s')"
proof (induction rule: broker_run.induct)
  case (extend s outs t news u)
  then have "requests_evolve (bk_store t) (bk_store u)" using broker_step_good broker_run_inv by (fastforce simp: good_def)
  then show ?case using extend requests_evolve_trans by blast
qed simp

lemma reachable_inv: "broker_run cfg new_broker outs s \<Longrightarrow> broker_inv cfg s"
  using broker_run_inv new_broker_inv by blast

lemma step_output: "broker_step cfg s news s' \<Longrightarrow> broker_inv cfg s \<Longrightarrow> x \<in> set news \<Longrightarrow> output_sound cfg s s' x"
  using broker_step_good by (fastforce simp: good_def list_all_iff)

lemma spawns_mem: "(sid, rid) \<in> set (spawns outs) \<longleftrightarrow> (\<exists>request. Spawn sid request \<in> set outs \<and> tq_request_id request = rid)"
proof (induction outs)
  case (Cons x outs)
  then show ?case by (cases x) auto
qed simp

definition begun :: "broker_store \<Rightarrow> string \<times> string \<Rightarrow> bool" where
  "begun st k \<longleftrightarrow> (\<exists>r. request_of (fst k) (snd k) st = Some r \<and> br_state r \<noteq> Request_Not_Submitted)"

lemma begun_kept: "requests_evolve st st' \<Longrightarrow> begun st k \<Longrightarrow> begun st' k"
  unfolding begun_def requests_evolve_def request_evolves_def by metis

text \<open>A step launches at most one process, for a request that no process was launched for.\<close>

lemma step_spawns:
  assumes "broker_step cfg s news s'" and inv: "broker_inv cfg s" and k: "k \<in> set (spawns news)"
  shows "spawns news = [k]" "begun (bk_store s') k" "\<not> begun (bk_store s) k"
proof -
  have good: "good cfg s (news, s')" by (rule broker_step_good [OF assms(1,2)])
  obtain sid rid where key: "k = (sid, rid)" by (cases k)
  then obtain request where request: "Spawn sid request \<in> set news" "tq_request_id request = rid" using k spawns_mem by blast
  have sound: "output_sound cfg s s' (Spawn sid request)" using step_output [OF assms(1,2) request(1)] .
  show "begun (bk_store s') k" "\<not> begun (bk_store s) k" using sound key request(2) by (auto simp: launch_ok_def begun_def)
  show "spawns news = [k]" using good k by (cases "spawns news" rule: list.exhaust) (auto simp: good_def)
qed

lemma launched_begun:
  "broker_run cfg s outs s' \<Longrightarrow> broker_inv cfg s \<Longrightarrow> distinct (spawns outs) \<and> (\<forall>k \<in> set (spawns outs). begun (bk_store s') k)"
proof (induction rule: broker_run.induct)
  case (extend s outs t news u)
  have inv: "broker_inv cfg t" using broker_run_inv extend.hyps(1) extend.prems by blast
  have old: "distinct (spawns outs)" "\<And>k. k \<in> set (spawns outs) \<Longrightarrow> begun (bk_store t) k" using extend by auto
  have "requests_evolve (bk_store t) (bk_store u)" using broker_step_good [OF extend.hyps(2) inv] by (simp add: good_def)
  then have kept: "begun (bk_store u) k" if "k \<in> set (spawns outs)" for k using begun_kept old(2) that by blast
  show ?case
  proof (cases "spawns news")
    case Nil
    then show ?thesis using old kept by simp
  next
    case (Cons k ks)
    then have "k \<in> set (spawns news)" by simp
    note new = step_spawns [OF extend.hyps(2) inv this]
    then have "k \<notin> set (spawns outs)" using old(2) by blast
    then show ?thesis using new old kept by auto
  qed
qed simp

section \<open>The queue of mutations\<close>

text \<open>A request that is being carried out has a task beyond the queue; a mutating one is the first of its session.\<close>

lemma submitted_first:
  assumes inv: "broker_inv cfg s" and r: "request_of sid rid (bk_store s) = Some r" "br_state r = Request_Submitted" "br_mutating r"
  obtains l where "live_of sid s = Some l" "hd (lv_mutations l) = rid"
proof -
  obtain t where t: "t \<in> set (bk_tasks s)" "task_key t = (sid, rid)" using inv_openD [OF inv r(1)] r(2) by (auto simp: unsettled_def)
  then have key: "bt_session t = sid" "task_rid t = rid" by (simp_all add: task_key_eq)
  from inv_taskD [OF inv t(1)] obtain l where l: "live_of sid s = Some l" "recorded_as cfg (bt_request t) r" "stage_fits (bt_stage t) r"
    "task_mutating t \<longrightarrow> bt_stage t \<noteq> Queued \<longrightarrow> hd (lv_mutations l) = rid"
    using r(1) by (auto simp: task_ok_def key)
  have "task_mutating t" using l(2) r(3) by (simp add: recorded_as_def task_mutating_def)
  moreover have "bt_stage t \<noteq> Queued" using l(3) r(2) by auto
  ultimately show ?thesis using that l by simp
qed

section \<open>How an execution ends\<close>

definition ends :: "broker_task \<Rightarrow> broker \<Rightarrow> broker_output list \<Rightarrow> broker \<Rightarrow> bool" where
  "ends t s outs s' \<longleftrightarrow> bk_tasks s' = filter (\<lambda>u. task_key u \<noteq> task_key t) (bk_tasks s) \<and>
     (Execution_Failed (bt_session t) (task_rid t) \<in> set outs \<or> (\<exists>response. Responded (bt_session t) (task_rid t) response \<in> set outs))"

lemma finish_tasks [simp]: "bk_tasks (finish t s) = filter (\<lambda>u. task_key u \<noteq> task_key t) (bk_tasks s)"
  by (simp add: finish_def task_key_eq)

lemma respond_ends: "bk_tasks s = bk_tasks s0 \<Longrightarrow> respond t response s = (outs, s') \<Longrightarrow> ends t s0 outs s'"
  and fails_ends: "bk_tasks s = bk_tasks s0 \<Longrightarrow> fails t s = (outs, s') \<Longrightarrow> ends t s0 outs s'"
  by (auto simp: respond_def fails_def ends_def task_rid_def)

lemma filter_staged: "filter (\<lambda>u. task_key u \<noteq> task_key t) (bk_tasks (set_stage t stage s)) =
    filter (\<lambda>u. task_key u \<noteq> task_key t) (bk_tasks s)"
proof -
  have "filter (\<lambda>u. task_key u \<noteq> k) (map (\<lambda>u. if task_key u = k then u\<lparr>bt_stage := stage\<rparr> else u) us) =
      filter (\<lambda>u. task_key u \<noteq> k) us" for k us by (induction us) simp_all
  then show ?thesis by (simp add: set_stage_def update_where_def)
qed

text \<open>A stretch of an execution ends it or leaves it at another stage.\<close>

definition moves :: "broker_task \<Rightarrow> broker \<Rightarrow> broker_stage set \<Rightarrow> stepped \<Rightarrow> bool" where
  "moves t s stages x \<longleftrightarrow> (case x of (outs, s') \<Rightarrow> ends t s outs s' \<or>
     (\<exists>stage s1. stage \<in> stages \<and> bk_tasks s1 = bk_tasks s \<and> s' = set_stage t stage s1))"

lemma moves_respond: "bk_tasks s1 = bk_tasks s \<Longrightarrow> moves t s stages (respond t response s1)"
  and moves_fails: "bk_tasks s1 = bk_tasks s \<Longrightarrow> moves t s stages (fails t s1)"
  using respond_ends fails_ends by (auto simp: moves_def split: prod.split)

lemma moves_to: "bk_tasks s1 = bk_tasks s \<Longrightarrow> stage \<in> stages \<Longrightarrow> moves t s stages (outs, set_stage t stage s1)"
  by (auto simp: moves_def)

lemma moves_concludes: "bk_tasks s1 = bk_tasks s \<Longrightarrow> range Reporting \<subseteq> stages \<Longrightarrow> moves t s stages (concludes t response s1)"
  unfolding concludes_def by (rule moves_to) auto

lemma catches_moves: "bk_tasks s1 = bk_tasks s \<Longrightarrow> moves t s (range Reporting) (catches now error l t s1)"
  by (auto simp: catches_def Let_def intro!: moves_respond moves_fails moves_concludes split: option.split prod.split sum.split)

lemma begins_moves: "bk_tasks s1 = bk_tasks s \<Longrightarrow> moves t s (insert Spawning (range Reporting)) (executeNow_begins now authority l t s1)"
  by (auto simp: executeNow_begins_def Let_def intro!: moves_respond moves_fails moves_concludes moves_to
      split: option.split prod.split sum.split)

lemma task_live: "broker_inv cfg s \<Longrightarrow> t \<in> set (bk_tasks s) \<Longrightarrow> \<exists>l. live_of (bt_session t) s = Some l"
  using inv_taskD by (fastforce simp: task_ok_def)

lemma broker_run_step: "broker_step cfg s outs s' \<Longrightarrow> broker_run cfg s outs s'"
  using broker_run.extend [OF broker_run.start] by fastforce

lemma broker_run_trans: "broker_run cfg t news u \<Longrightarrow> broker_run cfg s outs t \<Longrightarrow> broker_run cfg s (outs @ news) u"
proof (induction rule: broker_run.induct)
  case (extend t outs' v news u)
  then show ?case using broker_run.extend [of cfg s "outs @ outs'" v news u] by simp
qed simp

definition under_way :: "broker_task \<Rightarrow> broker \<Rightarrow> bool" where
  "under_way t s \<longleftrightarrow> t \<in> set (bk_tasks s) \<and>
     (bt_stage t = Queued \<longrightarrow> (\<exists>l. live_of (bt_session t) s = Some l \<and> lv_mutations l \<noteq> [] \<and> hd (lv_mutations l) = task_rid t))"

definition next_stages :: "broker_stage \<Rightarrow> broker_stage set" where
  "next_stages stage = (case stage of Queued \<Rightarrow> insert Spawning (range Reporting) | Reporting response \<Rightarrow> {}
     | Cancelling_Late state code \<Rightarrow> {} | _ \<Rightarrow> range Reporting)"

lemma next_stages: "stage = Queued \<or> next_stages stage = {} \<or> next_stages stage = range Reporting"
  and next_reporting: "stage \<in> range Reporting \<Longrightarrow> next_stages stage = {}"
  by (cases stage; auto simp: next_stages_def)+

lemma step_continues:
  assumes inv: "broker_inv cfg s" and t: "under_way t s"
  shows "\<exists>outs s'. broker_step cfg s outs s' \<and> moves t s
    (next_stages (bt_stage t)) (outs, s')"
proof -
  have mem: "t \<in> set (bk_tasks s)" using t by (simp add: under_way_def)
  obtain l where l: "live_of (bt_session t) s = Some l" using task_live [OF inv mem] by blast
  define answer where "answer = (case bt_stage t of Queued \<Rightarrow> Turn | Reporting response \<Rightarrow> Reported_Activity
    | Cancelling_Late state code \<Rightarrow> Cancel_Settled | _ \<Rightarrow> Answer_Failed Thrown_Other)"
  have "moves t s (next_stages (bt_stage t)) (task_continues cfg [] None answer l t s)"
    using t l by (cases "bt_stage t") (auto simp: next_stages_def answer_def task_continues_def Let_def under_way_def task_rid_def
      intro: moves_respond catches_moves begins_moves)
  moreover have "broker_step cfg s (fst (task_continues cfg [] None answer l t s)) (snd (task_continues cfg [] None answer l t s))"
    by (rule broker_step.task [OF mem l]) simp
  ultimately show ?thesis by (metis prod.collapse)
qed

lemma staged_mem: "t \<in> set (bk_tasks s) \<Longrightarrow> t\<lparr>bt_stage := stage\<rparr> \<in> set (bk_tasks (set_stage t stage s))"
  by (auto simp: set_stage_def update_where_def intro: rev_image_eqI)

lemma ends_chain:
  assumes inv: "broker_inv cfg s" and t: "t \<in> set (bk_tasks s)" and step: "broker_step cfg s outs s'" "moves t s stages (outs, s')"
    and later: "\<And>u s'. broker_inv cfg s' \<Longrightarrow> under_way u s' \<Longrightarrow> bt_stage u \<in> stages \<Longrightarrow> \<exists>outs s''. broker_run cfg s' outs s'' \<and> ends u s' outs s''"
    and stages: "Queued \<notin> stages"
  shows "\<exists>outs s''. broker_run cfg s outs s'' \<and> ends t s outs s''"
proof (cases "ends t s outs s'")
  case True
  then show ?thesis using step(1) broker_run_step by blast
next
  case False
  then obtain stage s1 where s1: "stage \<in> stages" "bk_tasks s1 = bk_tasks s" "s' = set_stage t stage s1"
    using step(2) by (auto simp: moves_def)
  let ?u = "t\<lparr>bt_stage := stage\<rparr>"
  have "broker_inv cfg s'" using broker_step_good [OF step(1) inv] by (simp add: good_def)
  moreover have "under_way ?u s'" using s1 t stages staged_mem [of t s1 stage] by (auto simp: under_way_def)
  ultimately obtain news s'' where rest: "broker_run cfg s' news s''" "ends ?u s' news s''" using later [of s' ?u] s1(1) by auto
  have "broker_run cfg s (outs @ news) s''" by (rule broker_run_trans [OF rest(1) broker_run_step [OF step(1)]])
  moreover have "ends t s (outs @ news) s''" using rest(2) s1 filter_staged [of t stage s1] by (auto simp: ends_def)
  ultimately show ?thesis by blast
qed

lemma ends_by:
  assumes inv: "broker_inv cfg s" and t: "under_way t s" and stages: "Queued \<notin> stages"
    and fits: "next_stages (bt_stage t) = stages"
    and later: "\<And>u s'. broker_inv cfg s' \<Longrightarrow> under_way u s' \<Longrightarrow> bt_stage u \<in> stages \<Longrightarrow> \<exists>outs s''. broker_run cfg s' outs s'' \<and> ends u s' outs s''"
  shows "\<exists>outs s''. broker_run cfg s outs s'' \<and> ends t s outs s''"
proof -
  obtain outs s' where "broker_step cfg s outs s'" "moves t s stages (outs, s')" using step_continues [OF inv t] fits by auto
  moreover have "t \<in> set (bk_tasks s)" using t by (simp add: under_way_def)
  ultimately show ?thesis using ends_chain [OF inv] later stages by blast
qed

lemma execution_ends:
  assumes "broker_inv cfg s" and "under_way t s"
  shows "\<exists>outs s'. broker_run cfg s outs s' \<and> ends t s outs s'"
proof -
  have two: "\<exists>outs s'. broker_run cfg s outs s' \<and> ends t s outs s'"
    if "broker_inv cfg s" "under_way t s" "next_stages (bt_stage t) = {}" for t s
    by (rule ends_by [OF that(1,2) _ that(3)]) auto
  have more: "\<exists>outs s'. broker_run cfg s outs s' \<and> ends t s outs s'"
    if "broker_inv cfg s" "under_way t s" "bt_stage t \<noteq> Queued" for t s
  proof (cases "next_stages (bt_stage t) = {}")
    case False
    then have "next_stages (bt_stage t) = range Reporting" using next_stages that(3) by blast
    then show ?thesis by (rule ends_by [OF that(1,2), rotated]) (use two next_reporting in auto)
  qed (use two that in blast)
  show ?thesis
  proof (cases "bt_stage t = Queued")
    case True
    then have "next_stages (bt_stage t) = insert Spawning (range Reporting)" by (simp add: next_stages_def)
    then show ?thesis by (rule ends_by [OF assms, rotated]) (use more in auto)
  qed (use assms more in blast)
qed

section \<open>What waits in a queue\<close>

text \<open>Only mutating requests wait for their turn, so the first of a queue can always go on.\<close>

definition queued_ok :: "broker_task list \<Rightarrow> bool" where
  "queued_ok ts \<longleftrightarrow> (\<forall>t \<in> set ts. bt_stage t = Queued \<longrightarrow> task_mutating t)"

lemma queued_ok_simps [simp]:
  "queued_ok (ts @ [t]) \<longleftrightarrow> queued_ok ts \<and> (bt_stage t = Queued \<longrightarrow> task_mutating t)" "queued_ok []"
  by (auto simp: queued_ok_def)

lemma moves_queued:
  assumes "queued_ok (filter (\<lambda>u. task_key u \<noteq> task_key t) (bk_tasks s))" and "moves t s stages (outs, s')" and "Queued \<notin> stages"
  shows "queued_ok (bk_tasks s')"
proof -
  have "queued_ok (bk_tasks (set_stage t stage s1))" if "stage \<in> stages" "bk_tasks s1 = bk_tasks s" for stage s1
    unfolding queued_ok_def
  proof (intro ballI impI)
    fix u assume u: "u \<in> set (bk_tasks (set_stage t stage s1))" "bt_stage u = Queued"
    then have "u \<in> set (filter (\<lambda>u. task_key u \<noteq> task_key t) (bk_tasks s))"
      using set_stage_mem [OF u(1)] that assms(3) by auto
    then show "task_mutating u" using assms(1) u(2) by (simp add: queued_ok_def)
  qed
  then show ?thesis using assms(1,2) by (auto simp: moves_def ends_def)
qed

lemma queued_ok_filter: "queued_ok ts \<Longrightarrow> queued_ok (filter P ts)"
  by (simp add: queued_ok_def)

lemma completes_moves: "bk_tasks s1 = bk_tasks s \<Longrightarrow>
    moves t s (range Reporting) (executeNow_completes cfg now authority exit out err l t s1)"
  by (auto simp: executeNow_completes_def Let_def intro!: moves_respond moves_concludes catches_moves
      split: option.split prod.split sum.split)

lemma spawned_moves: "bk_tasks s1 = bk_tasks s \<Longrightarrow> moves t s (- {Queued}) (spawned now process l t s1)"
proof -
  have "moves t s (- {Queued}) x" if "moves t s (range Reporting) x" for x
    using that by (fastforce simp: moves_def)
  then show "bk_tasks s1 = bk_tasks s \<Longrightarrow> moves t s (- {Queued}) (spawned now process l t s1)"
    using catches_moves [where s = s and t = t]
    by (auto simp: spawned_def Let_def intro!: moves_to split: option.split prod.split sum.split)
qed

lemma moves_mono: "moves t s A x \<Longrightarrow> A \<subseteq> B \<Longrightarrow> moves t s B x"
  by (fastforce simp: moves_def)

lemma task_continues_queued:
  assumes "queued_ok (bk_tasks s)" and "task_continues cfg now authority answer l t s = (outs, s')"
  shows "queued_ok (bk_tasks s')"
proof -
  have "moves t s (- {Queued}) (task_continues cfg now authority answer l t s) \<or> task_continues cfg now authority answer l t s = ([], s)"
    by (auto simp: task_continues_def Let_def timed_out_def
        intro!: moves_respond moves_to moves_concludes moves_mono [OF catches_moves] moves_mono [OF begins_moves]
          moves_mono [OF completes_moves] spawned_moves split: broker_stage.splits task_answer.splits if_splits)
  then show ?thesis using assms moves_queued queued_ok_filter by fastforce
qed

lemma execute_queued:
  assumes "queued_ok (bk_tasks s)" and "execute cfg now authority l request s = (outs, s')"
  shows "queued_ok (bk_tasks s')"
proof (cases "isMutatingWorkspaceTool (tq_operation request)")
  case True
  then show ?thesis using assms by (auto simp: execute_def Let_def task_mutating_def split: option.splits prod.splits sum.splits if_splits)
next
  case False
  have "queued_ok (bk_tasks u')" if u: "executeNow_begins now authority k t u = (outs, u')" and ts: "bk_tasks u = bk_tasks s @ [t]"
    for k t u u'
  proof -
    have "moves t u (insert Spawning (range Reporting)) (outs, u')" using begins_moves [of u u t now authority k] u by simp
    moreover have "queued_ok (filter (\<lambda>v. task_key v \<noteq> task_key t) (bk_tasks u))" using assms(1) ts queued_ok_filter by simp
    ultimately show ?thesis using moves_queued by blast
  qed
  then show ?thesis
    using assms False by (auto simp: execute_def Let_def split: option.splits prod.splits sum.splits if_splits)
qed

text \<open>The other operations leave the executions alone.\<close>

lemma tasks_kept:
  "bk_tasks (snd (close_begins now reason sid s)) = bk_tasks s" "bk_tasks (snd (creates_session now sid binding s)) = bk_tasks s"
  "bk_tasks (snd (cancel_begins now sid rid s)) = bk_tasks s" "bk_tasks (snd (cancel_continues now ok pending s)) = bk_tasks s"
  "bk_tasks (snd (closing_cancels now ok rid c s)) = bk_tasks s" "bk_tasks (snd (close_finishes now c s)) = bk_tasks s"
  "bk_tasks (snd (admit_session now ok process account run input sid s)) = bk_tasks s"
  by (auto simp: close_begins_def creates_session_def cancel_begins_def cancel_continues_def closing_cancels_def close_finishes_def
      admit_session_def Let_def split: option.split prod.split sum.split)

lemma close_each_tasks: "bk_tasks (snd (close_each now reason sids s)) = bk_tasks s"
proof (induction sids arbitrary: s)
  case (Cons sid sids)
  then show ?case using tasks_kept(1) [of now reason sid s] by (auto simp: Let_def split: prod.split) (metis snd_conv)
qed simp

lemma prepare_tasks: "bk_tasks (snd (prepare_session cfg now ok sid account run input s)) = bk_tasks s"
proof -
  have "bk_tasks s1 = bk_tasks s" if "close_begins now reason x s = (outs, s1)" for reason x outs s1
    using tasks_kept(1) [of now reason x s] that by simp
  then show ?thesis using tasks_kept(2) by (auto simp: prepare_session_def Let_def split: option.split prod.split)
qed

lemma broker_step_queued: "broker_step cfg s outs s' \<Longrightarrow> queued_ok (bk_tasks s) \<Longrightarrow> queued_ok (bk_tasks s')"
proof (induction rule: broker_step.induct)
  case (asks now authority streamed sid v s outs s')
  then show ?case using execute_queued by (auto simp: client_request_def split: option.splits if_splits sum.splits)
next
  case (task t s l now authority answer outs s')
  then show ?case using task_continues_queued by blast
next
  case (prepared p s now sid outs s')
  then show ?case using tasks_kept(2) [of now sid "pr_binding p" "s\<lparr>bk_preparing := remove1 p (bk_preparing s)\<rparr>"]
    by (simp add: prepare_continues_def)
next
  case (restart s now)
  then show ?case by (simp add: restart_broker_def)
next
  case (closes_matching now matches reason s outs s')
  then show ?case using close_each_tasks unfolding closeMatching_def by (metis snd_conv)
qed (metis tasks_kept prepare_tasks snd_conv)+

lemma broker_run_queued: "broker_run cfg s outs s' \<Longrightarrow> queued_ok (bk_tasks s) \<Longrightarrow> queued_ok (bk_tasks s')"
  by (induction rule: broker_run.induct) (auto dest: broker_step_queued)

text \<open>As long as there is an execution, one can go on.\<close>

lemma one_under_way:
  assumes inv: "broker_inv cfg s" and queued: "queued_ok (bk_tasks s)" and some: "bk_tasks s \<noteq> []"
  shows "\<exists>t. under_way t s"
proof (cases "\<exists>t \<in> set (bk_tasks s). bt_stage t \<noteq> Queued")
  case False
  obtain t where t: "t \<in> set (bk_tasks s)" using some by (cases "bk_tasks s") auto
  obtain l where l: "live_of (bt_session t) s = Some l" using task_live [OF inv t] by blast
  have ok: "live_ok cfg s l" "lv_id l = bt_session t" using inv_liveD [OF inv l] by auto
  have "task_rid t \<in> set (lv_mutations l)" using mutating_first [OF inv t _ l] queued t False by (auto simp: queued_ok_def)
  then obtain m ms where ms: "lv_mutations l = m # ms" by (cases "lv_mutations l") auto
  then have "m \<in> set (map task_rid (filter task_mutating (tasks_of (bt_session t) s)))" using ok by (metis list.set_intros(1) live_ok_def)
  then obtain u where "u \<in> set (bk_tasks s)" "bt_session u = bt_session t" "task_rid u = m" by (auto simp: tasks_of_def)
  then show ?thesis using l ms by (auto simp: under_way_def)
qed (auto simp: under_way_def)

lemma all_end:
  assumes "broker_inv cfg s" and "queued_ok (bk_tasks s)"
  shows "\<exists>outs s'. broker_run cfg s outs s' \<and> bk_tasks s' = [] \<and> (\<forall>t \<in> set (bk_tasks s).
    Execution_Failed (bt_session t) (task_rid t) \<in> set outs \<or> (\<exists>response. Responded (bt_session t) (task_rid t) response \<in> set outs))"
  using assms
proof (induction "length (bk_tasks s)" arbitrary: s rule: less_induct)
  case less
  show ?case
  proof (cases "bk_tasks s = []")
    case True
    then show ?thesis using broker_run.start by fastforce
  next
    case False
    obtain t where t: "under_way t s" using one_under_way [OF less.prems False] by blast
    obtain outs s1 where one: "broker_run cfg s outs s1" "ends t s outs s1" using execution_ends [OF less.prems(1) t] by blast
    have tasks: "bk_tasks s1 = filter (\<lambda>u. task_key u \<noteq> task_key t) (bk_tasks s)" using one(2) by (simp add: ends_def)
    have "length (bk_tasks s1) < length (bk_tasks s)" using t tasks by (auto simp: under_way_def intro: length_filter_less)
    then obtain news s' where rest: "broker_run cfg s1 news s'" "bk_tasks s' = []" "\<forall>u \<in> set (bk_tasks s1).
        Execution_Failed (bt_session u) (task_rid u) \<in> set news \<or> (\<exists>response. Responded (bt_session u) (task_rid u) response \<in> set news)"
      using less.hyps [of s1] broker_run_inv [OF one(1) less.prems(1)] broker_run_queued [OF one(1) less.prems(2)] by blast
    have "broker_run cfg s (outs @ news) s'" by (rule broker_run_trans [OF rest(1) one(1)])
    moreover have "Execution_Failed (bt_session u) (task_rid u) \<in> set (outs @ news) \<or>
        (\<exists>response. Responded (bt_session u) (task_rid u) response \<in> set (outs @ news))" if u: "u \<in> set (bk_tasks s)" for u
    proof (cases "task_key u = task_key t")
      case True
      then have "u = t" using key_unique [OF less.prems(1)] u t by (auto simp: under_way_def)
      then show ?thesis using one(2) by (auto simp: ends_def)
    qed (use rest(3) u tasks in auto)
    ultimately show ?thesis using rest(2) by blast
  qed
qed

end
