(* ===== verification/Broker_Examples.thy ===== *)
theory Broker_Examples
  imports Broker_Histories
begin

text \<open>A concrete history of the workspace tool broker: a session is opened, two writes are asked for, the first is carried out.\<close>

section \<open>A session\<close>

definition example_environment :: "string \<Rightarrow> broker_environment" where
  "example_environment x = \<lparr>bn_backendKind = ''b'', bn_environmentId = x, bn_incarnation = ''i''\<rparr>"

definition example_account :: environment_ref where
  "example_account = \<lparr>er_backendKind = ''b'', er_environmentId = ''a'', er_incarnation = ''i'', er_workerId = ''w'',
     er_owner = Account_Owner ''p'' 1\<rparr>"

definition example_run_authority :: run_authority where
  "example_run_authority = \<lparr>ra_ref = \<lparr>er_backendKind = ''b'', er_environmentId = ''r'', er_incarnation = ''i'', er_workerId = ''w'',
       er_owner = Run_Owner ''run''\<rparr>, ra_physicalLineageId = ''l'', ra_workspaceId = ''ws'', ra_worktreeId = ''wt'',
     ra_workspaceBindingId = ''wb'', ra_workspaceAccess = Access_Read_Write,
     ra_resolvedToolProfile = [''workspace.filesystem'']\<rparr>"

definition example_preparation :: broker_preparation where
  "example_preparation = \<lparr>wp_authorizationId = ''z'', wp_providerAccountId = ''p'', wp_credentialGeneration = 1,
     wp_accountEnvironmentGeneration = 1, wp_accountEnvironment = example_environment ''a'', wp_runId = ''run'',
     wp_actionId = ''act'', wp_occurrenceId = ''occ'', wp_attemptId = ''att'', wp_operationalEpoch = 0,
     wp_operationalAttempt = 1, wp_workspaceId = ''ws'', wp_worktreeId = ''wt'', wp_workspaceBindingId = ''wb'',
     wp_workspaceAccess = Access_Read_Write, wp_resolvedToolProfile = [''workspace.filesystem''], wp_workerId = ''w'',
     wp_workerGeneration = 1\<rparr>"

definition example_config :: broker_config where
  "example_config = \<lparr>bc_maxActiveRequests = None, bc_digest = (\<lambda>s. ''d''), bc_parse = (\<lambda>s. Some (JObj [(''ok'', JBool True),
     (''result'', JObj [(''path'', JStr ''f''), (''bytes'', JNum 1)])]))\<rparr>"

definition example_write :: "string \<Rightarrow> tool_request" where
  "example_write rid = \<lparr>tq_request_id = rid, tq_operation = Write_File, tq_arguments = Write_Arguments ''f'' ''x''\<rparr>"

definition example_session :: broker_session where
  "example_session = \<lparr>bs_session_id = ''s'', bs_broker_generation = 1,
     bs_binding = new_binding (bc_digest example_config) example_preparation example_account example_run_authority,
     bs_state = Session_Admitted, bs_process = None, bs_close_reason = None, bs_created_at = ''1'', bs_admitted_at = Some ''2'',
     bs_closed_at = None, bs_updated_at = ''2''\<rparr>"

definition example_events :: "broker_event list" where
  "example_events = [\<lparr>ev_id = 1, ev_session_id = ''s'', ev_request_id = None, ev_event_type = ''session_prepared'', ev_detail = None,
       ev_observed_at = ''1''\<rparr>,
     \<lparr>ev_id = 2, ev_session_id = ''s'', ev_request_id = None, ev_event_type = ''session_admitted'', ev_detail = None,
       ev_observed_at = ''2''\<rparr>]"

definition example_open :: broker where
  "example_open = \<lparr>bk_store = \<lparr>st_sessions = [example_session], st_requests = [], st_events = example_events, st_next_event = 3\<rparr>,
     bk_live = [new_live example_session example_account example_run_authority], bk_tasks = [], bk_cancels = [], bk_closings = [],
     bk_preparing = []\<rparr>"

lemmas example_input = example_account_def example_run_authority_def example_preparation_def example_config_def example_environment_def

definition example_new_session :: broker_session where
  "example_new_session = example_session\<lparr>bs_state := Session_Prepared, bs_admitted_at := None, bs_updated_at := ''1''\<rparr>"

definition example_before :: broker where
  "example_before = new_broker\<lparr>bk_store := \<lparr>st_sessions = [example_new_session], st_requests = [], st_events = take 1 example_events,
     st_next_event = 2\<rparr>\<rparr>"

lemma example_fits:
  "validatePreparation example_preparation" "assertAccountRef example_preparation example_account"
  "assertRunAuthority example_preparation example_run_authority"
  by code_simp+

lemma example_sessions: "sessions empty_broker_store = []" "st_next_event empty_broker_store = 1"
  by (simp_all add: sessions_def empty_broker_store_def)

lemma example_opens:
  "prepare_session example_config ''1'' True ''s'' example_account example_run_authority example_preparation new_broker =
     ([Session_Prepared_As ''s''], example_before)"
  "admit_session ''2'' True None example_account example_run_authority example_preparation ''s'' example_before =
     ([Session_Admitted_As ''s''], example_open)"
proof -
  have "generation a b empty_broker_store = 1" for a b by (simp add: generation_def empty_broker_store_def)
  then show "prepare_session example_config ''1'' True ''s'' example_account example_run_authority example_preparation new_broker =
     ([Session_Prepared_As ''s''], example_before)"
    using example_fits example_sessions
    by (simp add: prepare_session_def creates_session_def createSession_def new_broker_def example_before_def Let_def
        example_new_session_def example_session_def example_events_def requiredSession_def event_def session_def lookup_row_def)
      (simp add: empty_broker_store_def)
  show "admit_session ''2'' True None example_account example_run_authority example_preparation ''s'' example_before =
     ([Session_Admitted_As ''s''], example_open)"
    using example_fits
    by (simp add: admit_session_def admit_def new_broker_def example_before_def Let_def update_where_def example_open_def coalesce_def
        example_new_session_def example_session_def example_events_def requiredSession_def event_def session_def lookup_row_def)
qed

lemma example_binding: "preparationFromBinding (bs_binding example_new_session) = example_preparation"
  by (simp add: example_new_session_def example_session_def preparationFromBinding_def new_binding_def environment_of_def example_input)

lemma example_opened: "broker_run example_config new_broker [Session_Prepared_As ''s'', Session_Admitted_As ''s''] example_open"
proof -
  have "broker_step example_config new_broker [Session_Prepared_As ''s''] example_before"
    using example_opens(1) by (rule broker_step.prepare)
  moreover have "session ''s'' (bk_store example_before) = Some example_new_session"
    by (simp add: example_before_def session_def lookup_row_def example_new_session_def example_session_def)
  then have "broker_step example_config example_before [Session_Admitted_As ''s''] example_open"
    by (rule broker_step.admits [OF _ example_binding [symmetric] example_opens(2)])
  ultimately show ?thesis using broker_run.extend broker_run_step by (metis append_Cons append_Nil)
qed

lemma example_write_decoded:
  assumes "rid = ''a'' \<or> rid = ''b''" 
  shows "decodeWorkspaceToolRequest (request_value (example_write rid)) = Inr (example_write rid)"
proof -
  have "length (stringify (request_value (example_write rid))) \<le> 1024"
    using assms
    by (auto simp: example_write_def request_value_def arguments_value_def operation_name_def
      WORKSPACE_TOOL_BROKER_PROTOCOL_def stringify_string_def escape_char_def ch_quote_def ch_backslash_def Let_def)
  then have small: "\<not> MAX_BROKER_FRAME_BYTES < utf8_length (stringify (request_value (example_write rid)))"
    using utf8_length_stringify_small [of "stringify (request_value (example_write rid))"]
    by (simp add: MAX_BROKER_FRAME_BYTES_def del: stringify.simps)
  have "request_value (example_write rid) = JObj [(''version'', JStr WORKSPACE_TOOL_BROKER_PROTOCOL), (''type'', JStr ''request''),
     (''request_id'', JStr rid), (''operation'', JStr ''filesystem.write''),
     (''arguments'', JObj [(''path'', JStr ''f''), (''content'', JStr ''x'')])]"
    by (simp add: request_value_def example_write_def operation_name_def arguments_value_def)
  moreover have "relativePath (Some (JStr ''f'')) = Inr ''f''"
    by (simp add: relativePath_def boundedString_def utf8_length_def MAX_BROKER_PATH_BYTES_def ch_backslash_def without_dot_def)
  moreover have "boundedString (Some (JStr ''x'')) ''content'' MAX_BROKER_FILE_BYTES True = Inr ''x''"
    by (simp add: boundedString_def utf8_length_def MAX_BROKER_FILE_BYTES_def)
  moreover have "request_id_ok rid" using assms by (auto simp: request_id_ok_def token_128_def token_char_def)
  ultimately show ?thesis
    using small operationName_name [of Write_File, unfolded operation_name_def, simplified]
    by (simp add: decodeWorkspaceToolRequest_def frame_record_def exactKeys_def hasExactKeys_mset
        frame_identity_def member_def decode_arguments_def Let_def example_write_def del: stringify.simps)
qed

text \<open>Two writes: the first is launched, the second waits for its turn.\<close>

definition example_record :: "string \<Rightarrow> string \<Rightarrow> broker_request" where
  "example_record now rid = \<lparr>br_session_id = ''s'', br_request_id = rid, br_operation = Write_File, br_mutating = True,
     br_request_digest = ''d'', br_state = Request_Not_Submitted, br_process = None, br_error_code = None,
     br_request_bytes = int (utf8_length (stringify (request_value (example_write rid)))), br_result_bytes = None,
     br_started_at = None, br_completed_at = None, br_updated_at = now\<rparr>"

definition example_task :: "string \<Rightarrow> broker_task" where
  "example_task rid = \<lparr>bt_session = ''s'', bt_request = example_write rid, bt_stage = Queued\<rparr>"

definition example_asked :: stepped where
  "example_asked = client_request example_config ''3'' None False ''s'' (request_value (example_write ''a'')) example_open"

definition example_asked_again :: stepped where
  "example_asked_again = client_request example_config ''4'' None False ''s'' (request_value (example_write ''b'')) (snd example_asked)"

definition example_launched :: stepped where
  "example_launched = task_continues example_config ''5'' None Turn
     (the (live_of ''s'' (snd example_asked_again))) (example_task ''a'') (snd example_asked_again)"

lemmas example_unfold = client_request_def execute_def example_open_def live_of_def lookup_row_def new_live_def lv_id_def
  example_session_def request_of_def example_config_def createRequest_def session_def requiredRequest_def event_def request_key_def
  update_live_def update_where_def maxActiveRequests_def MAX_ACTIVE_BROKER_REQUESTS_def Let_def

lemma example_write_simps [simp]:
  "tq_operation (example_write rid) = Write_File" "tq_request_id (example_write rid) = rid" "isMutatingWorkspaceTool Write_File"
  by (simp_all add: example_write_def isMutatingWorkspaceTool_def)

lemma example_asked_value:
  "fst example_asked = [] \<and> bk_tasks (snd example_asked) = [example_task ''a''] \<and>
   st_requests (bk_store (snd example_asked)) = [example_record ''3'' ''a''] \<and>
   st_sessions (bk_store (snd example_asked)) = [example_session] \<and>
   bk_live (snd example_asked) = [(new_live example_session example_account example_run_authority)
     \<lparr>lv_activeCount := 1, lv_mutations := [''a'']\<rparr>]"
  using example_write_decoded [of "''a''"]
  by (simp add: example_asked_def example_unfold example_record_def example_task_def del: stringify.simps)

lemma example_asked_again_value:
  "fst example_asked_again = [] \<and> bk_tasks (snd example_asked_again) = [example_task ''a'', example_task ''b''] \<and>
   st_requests (bk_store (snd example_asked_again)) = [example_record ''3'' ''a'', example_record ''4'' ''b''] \<and>
   st_sessions (bk_store (snd example_asked_again)) = [example_session] \<and>
   bk_live (snd example_asked_again) = [(new_live example_session example_account example_run_authority)
     \<lparr>lv_activeCount := 2, lv_mutations := [''a'', ''b'']\<rparr>]"
  using example_write_decoded [of "''b''"] example_asked_value
  by (simp add: example_asked_again_def client_request_def execute_def live_of_def lookup_row_def new_live_def lv_id_def
      example_session_def request_of_def example_config_def createRequest_def session_def requiredRequest_def event_def request_key_def
      update_live_def update_where_def maxActiveRequests_def MAX_ACTIVE_BROKER_REQUESTS_def Let_def
      example_record_def example_task_def del: stringify.simps)

lemma example_launched_value:
  "fst example_launched = [Spawn ''s'' (example_write ''a'')] \<and>
   bk_tasks (snd example_launched) = [(example_task ''a'')\<lparr>bt_stage := Spawning\<rparr>, example_task ''b''] \<and>
   st_requests (bk_store (snd example_launched)) =
     [(example_record ''3'' ''a'')\<lparr>br_state := Request_Submitted, br_started_at := Some ''5'', br_updated_at := ''5''\<rparr>,
      example_record ''4'' ''b''] \<and>
   bk_live (snd example_launched) = bk_live (snd example_asked_again)"
  using example_asked_again_value
  by (simp add: example_launched_def task_continues_def executeNow_begins_def assertAdmitted_def submitted_def transition_def
      transitioned_def no_values_def coalesce_def update_request_def set_stage_def task_key_def
      live_of_def lookup_row_def new_live_def lv_id_def requiredSemanticTool_def example_run_authority_def example_account_def
      example_session_def request_of_def session_def requiredRequest_def event_def request_key_def new_binding_def environment_of_def
      example_preparation_def example_environment_def
      update_where_def Let_def example_record_def example_task_def del: stringify.simps)

text \<open>The first write goes on as its process is answered.\<close>

definition example_goes_on :: "task_answer \<Rightarrow> broker \<Rightarrow> stepped" where
  "example_goes_on answer s = task_continues example_config ''5'' None answer (the (live_of ''s'' s)) (hd (bk_tasks s)) s"

lemma example_goes_on_step:
  assumes "bk_tasks s \<noteq> []" and "bt_session (hd (bk_tasks s)) = ''s''" and "live_of ''s'' s \<noteq> None"
  shows "broker_step example_config s (fst (example_goes_on answer s)) (snd (example_goes_on answer s))"
  using assms by (intro broker_step.task [where t = "hd (bk_tasks s)"]) (auto simp: example_goes_on_def)

definition example_exit :: process_exit where
  "example_exit = \<lparr>px_exited = True, px_nonzero = False, px_exitCode = 0\<rparr>"

definition example_output :: tool_output where
  "example_output = \<lparr>to_text = ''x'', to_truncated = False\<rparr>"

definition example_result :: "(string \<times> json) list" where
  "example_result = [(''path'', JStr ''f''), (''bytes'', JNum 1)]"

text \<open>What is left of a state with one write at a stage: its tasks, its requests, its session.\<close>

definition example_at :: "broker_stage \<Rightarrow> broker_request \<Rightarrow> (string \<times> tool_response) list \<Rightarrow> broker \<Rightarrow> bool" where
  "example_at stage r kept s \<longleftrightarrow> bk_tasks s = [(example_task ''a'')\<lparr>bt_stage := stage\<rparr>, example_task ''b''] \<and>
     st_requests (bk_store s) = [r, example_record ''4'' ''b''] \<and>
     (\<exists>active. bk_live s = [(new_live example_session example_account example_run_authority)
       \<lparr>lv_active := active, lv_completed := kept, lv_activeCount := 2, lv_mutations := [''a'', ''b'']\<rparr>])"

lemma example_at_step:
  "example_at stage r kept s \<Longrightarrow> broker_step example_config s (fst (example_goes_on answer s)) (snd (example_goes_on answer s))"
  by (intro example_goes_on_step)
    (auto simp: example_at_def example_task_def live_of_def lookup_row_def lv_id_def new_live_def example_session_def)

definition example_submitted :: broker_request where
  "example_submitted = (example_record ''3'' ''a'')\<lparr>br_state := Request_Submitted, br_started_at := Some ''5'', br_updated_at := ''5''\<rparr>"

definition example_bound :: broker_request where
  "example_bound = example_submitted\<lparr>br_process := Some JNull\<rparr>"

lemmas example_values = task_continues_def example_goes_on_def live_of_def lookup_row_def new_live_def lv_id_def set_stage_def
  task_key_def example_session_def request_of_def request_key_def update_where_def Let_def example_record_def example_task_def
  update_live_def update_request_def event_def requiredRequest_def example_submitted_def example_bound_def example_at_def

lemma example_bound_at:
  assumes "example_at Spawning example_submitted [] s"
  shows "example_at Writing example_bound [] (snd (example_goes_on (Spawned JNull) s))"
  using assms by (auto simp: example_values spawned_def bindProcess_def)

lemma example_running_at:
  assumes "example_at Writing example_bound [] s"
  shows "example_at (Collecting example_exit) example_bound [] (snd (example_goes_on (Exited example_exit) (snd (example_goes_on Input_Written s))))"
  using assms by (auto simp: example_values)

lemma example_result_ok: "execution_result example_config example_exit example_output example_output (example_write ''a'') = Inr example_result"
  by (simp add: execution_result_def example_config_def example_exit_def example_output_def decodeToolResult_def resultRecord_def member_def
      resultExactKeys_def hasExactKeys_mset validate_result_def example_write_def path_of_def resultNonNegativeInteger_def MAX_SAFE_INTEGER_def
      example_result_def)

definition example_response :: tool_response where
  "example_response = completed_response ''a'' example_result"

lemma example_answer_fits: "utf8_length (stringify (response_value example_response)) \<le> result_bound Write_File"
proof -
  have "length (stringify (response_value example_response)) \<le> 1024"
    by (simp add: example_response_def completed_response_def response_value_def example_result_def status_name_def certainty_name_def
      result_value_def error_value_def WORKSPACE_TOOL_BROKER_PROTOCOL_def stringify_string_def escape_char_def ch_quote_def
      ch_backslash_def Let_def show_int_def show_nat.simps [of "Suc 0"])
  then show ?thesis using utf8_length_stringify_small [of "stringify (response_value example_response)"]
    by (simp add: result_bound_def MAX_BROKER_METADATA_BYTES_def MAX_BROKER_FRAME_BYTES_def del: stringify.simps)
qed

lemma example_completed_at:
  assumes "example_at (Collecting example_exit) example_bound [] s"
  shows "\<exists>r. br_state r = Request_Completed \<and>
    example_at (Reporting example_response) r [(''a'', example_response)] (snd (example_goes_on (Collected example_output example_output) s))"
  using assms example_result_ok example_answer_fits
  by (auto simp: example_values executeNow_completes_def example_response_def [symmetric] not_less concludes_def remember_def without_def
      complete_request_def transition_def transitioned_def no_values_def coalesce_def)

lemma example_answered:
  assumes "example_at (Reporting example_response) r [(''a'', example_response)] s"
  shows "fst (example_goes_on Reported_Activity s) = [Responded ''s'' ''a'' example_response]"
  using assms by (auto simp: example_values respond_def)

section \<open>The whole history\<close>

lemma example_queued_run: "broker_run example_config new_broker [Session_Prepared_As ''s'', Session_Admitted_As ''s''] (snd example_asked_again)"
proof -
  have "example_asked = ([], snd example_asked)" "example_asked_again = ([], snd example_asked_again)"
    using example_asked_value example_asked_again_value by (simp_all add: prod_eq_iff)
  then have "broker_step example_config example_open [] (snd example_asked)"
    "broker_step example_config (snd example_asked) [] (snd example_asked_again)"
    using broker_step.asks example_asked_def example_asked_again_def by metis+
  then show ?thesis using broker_run.extend [of _ _ _ _ "[]"] example_opened by (metis append_Nil2)
qed

lemma example_launch_step: "broker_step example_config (snd example_asked_again) [Spawn ''s'' (example_write ''a'')] (snd example_launched)"
proof -
  obtain l where l: "live_of ''s'' (snd example_asked_again) = Some l"
    using example_asked_again_value by (simp add: live_of_def lookup_row_def lv_id_def new_live_def example_session_def)
  have "example_launched = ([Spawn ''s'' (example_write ''a'')], snd example_launched)" using example_launched_value by (simp add: prod_eq_iff)
  then show ?thesis
    using example_asked_again_value l
    by (intro broker_step.task [of "example_task ''a''" _ l]) (simp_all add: example_launched_def example_task_def)
qed

lemma example_launched_run:
  "broker_run example_config new_broker [Session_Prepared_As ''s'', Session_Admitted_As ''s'', Spawn ''s'' (example_write ''a'')] (snd example_launched)"
  using broker_run.extend [OF example_queued_run example_launch_step] by simp

lemma example_launched_at: "example_at Spawning example_submitted [] (snd example_launched)"
  using example_launched_value example_asked_again_value
  by (auto simp: example_at_def example_submitted_def new_live_def)

definition example_reporting :: broker where
  "example_reporting = snd (example_goes_on (Collected example_output example_output) (snd (example_goes_on (Exited example_exit)
     (snd (example_goes_on Input_Written (snd (example_goes_on (Spawned JNull) (snd example_launched))))))))"

lemma example_reporting_at:
  "\<exists>r. br_state r = Request_Completed \<and> example_at (Reporting example_response) r [(''a'', example_response)] example_reporting"
  unfolding example_reporting_def
  using example_completed_at [OF example_running_at [OF example_bound_at [OF example_launched_at]]] .

lemma example_writing_at:
  "example_at Writing example_bound [] s \<Longrightarrow> example_at broker_stage.Running example_bound [] (snd (example_goes_on Input_Written s))"
  by (auto simp: example_values)

lemma example_reporting_run: "\<exists>outs. broker_run example_config new_broker outs example_reporting"
proof -
  note at1 = example_bound_at [OF example_launched_at]
  note at2 = example_writing_at [OF at1]
  note at3 = example_running_at [OF at1]
  show ?thesis unfolding example_reporting_def
    using broker_run.extend [OF broker_run.extend [OF broker_run.extend [OF broker_run.extend [OF example_launched_run
      example_at_step [OF example_launched_at]] example_at_step [OF at1]] example_at_step [OF at2]] example_at_step [OF at3]] by blast
qed

lemma example_response_step:
  "broker_step example_config example_reporting [Responded ''s'' ''a'' example_response] (snd (example_goes_on Reported_Activity example_reporting))"
  using example_reporting_at example_at_step [of _ _ _ example_reporting Reported_Activity] example_answered by metis

end
