(* ===== verification/Broker_Properties.thy ===== *)
theory Broker_Properties
  imports Broker_Examples
begin

text \<open>What the workspace tool broker promises along its histories.\<close>

text \<open>
  C32: In every history of the broker no request is launched twice: the process of a recorded request is started at most
  once, whatever is asked again, cancelled, closed, answered late or lost in a restart.
\<close>

theorem launched_once:
  assumes "broker_run cfg new_broker outs s" shows "distinct (spawns outs)"
  using launched_begun [OF assms new_broker_inv] by simp

theorem launched_once_witness:
  "distinct (spawns [Session_Prepared_As ''s'', Session_Admitted_As ''s'', Spawn ''s'' (example_write ''a'')]) \<and>
   spawns [Session_Prepared_As ''s'', Session_Admitted_As ''s'', Spawn ''s'' (example_write ''a'')] = [(''s'', ''a'')]"
  using launched_once [OF example_launched_run] by simp

text \<open>
  C33: A process is launched only for an admitted session that does not close and whose binding names the physical lineage of
  its Run authority, for a request recorded with exactly the content that is launched, submitted just now, and only when the
  resolved tool profile holds the tool and the workspace access allows the operation.
\<close>

theorem launch_authorised:
  assumes "broker_run cfg new_broker outs s" and "broker_step cfg s news s'" and "Spawn sid request \<in> set news"
  shows "\<exists>r row l. request_of sid (tq_request_id request) (bk_store s') = Some r \<and> br_state r = Request_Submitted \<and>
    br_operation r = tq_operation request \<and> br_request_digest r = bc_digest cfg (stringify (request_value request)) \<and>
    session sid (bk_store s') = Some row \<and> bs_state row = Session_Admitted \<and>
    live_of sid s' = Some l \<and> \<not> lv_closing l \<and> bb_physicalLineageId (bs_binding row) = ra_physicalLineageId (lv_run l) \<and>
    requiredSemanticTool (tq_operation request) \<in> set (ra_resolvedToolProfile (lv_run l)) \<and>
    ra_workspaceAccess (lv_run l) \<in> (if isMutatingWorkspaceTool (tq_operation request) then {Access_Read_Write}
      else {Access_Read_Only, Access_Read_Write})"
proof -
  have "launch_ok cfg s' sid request" using step_output [OF assms(2) reachable_inv [OF assms(1)] assms(3)] by simp
  then obtain r row l where *: "request_of sid (tq_request_id request) (bk_store s') = Some r" "br_state r = Request_Submitted"
    "recorded_as cfg request r" "session sid (bk_store s') = Some row" "bs_state row = Session_Admitted" "live_of sid s' = Some l"
    "\<not> lv_closing l" "requiredSemanticTool (tq_operation request) \<in> set (ra_resolvedToolProfile (lv_run l))"
    "ra_workspaceAccess (lv_run l) \<noteq> Access_None"
    "isMutatingWorkspaceTool (tq_operation request) \<longrightarrow> ra_workspaceAccess (lv_run l) = Access_Read_Write"
    "bb_physicalLineageId (bs_binding row) = ra_physicalLineageId (lv_run l)" by (auto simp: launch_ok_def)
  then show ?thesis by (cases "ra_workspaceAccess (lv_run l)") (auto simp: recorded_as_def)
qed

theorem launch_authorised_witness:
  "\<exists>l. live_of ''s'' (snd example_launched) = Some l \<and> ra_workspaceAccess (lv_run l) = Access_Read_Write"
  using launch_authorised [OF example_queued_run example_launch_step, of "''s''" "example_write ''a''"] by auto

text \<open>
  C34: The record of a request is never lost and keeps its operation, whether it mutates, and the digest and size of its content;
  once bound its process stays; and once it is completed, rejected, cancelled or uncertain, its state, its error, its process,
  the size of its result and its time of completion never change again, in whatever goes on.
\<close>

theorem settled_final:
  assumes "broker_run cfg new_broker outs s" and "broker_run cfg s news s'" and "request_of sid rid (bk_store s) = Some r"
  shows "\<exists>r'. request_of sid rid (bk_store s') = Some r' \<and> br_operation r' = br_operation r \<and> br_mutating r' = br_mutating r \<and>
    br_request_digest r' = br_request_digest r \<and> br_request_bytes r' = br_request_bytes r \<and>
    (br_process r = None \<or> br_process r' = br_process r) \<and>
    (br_state r \<in> {Request_Not_Submitted, Request_Submitted} \<or> br_state r' = br_state r \<and> br_error_code r' = br_error_code r \<and>
       br_process r' = br_process r \<and> br_result_bytes r' = br_result_bytes r \<and> br_completed_at r' = br_completed_at r)"
  using broker_run_evolves [OF assms(2) reachable_inv [OF assms(1)]] assms(3)
  by (fastforce simp: requests_evolve_def request_evolves_def write_once_def unsettled_def)

theorem settled_final_witness:
  "\<exists>r'. request_of ''s'' ''a'' (bk_store (snd example_launched)) = Some r' \<and> br_operation r' = Write_File"
  using settled_final [OF example_queued_run broker_run_step [OF example_launch_step], of "''s''" "''a''" "example_record ''3'' ''a''"]
    example_asked_again_value
  by (auto simp: request_of_def lookup_row_def request_key_def example_record_def)

text \<open>
  C35: Mutating requests of a session are carried out one after the other: while one of them is submitted, none of the others is.
\<close>

theorem mutations_serialized:
  assumes "broker_run cfg new_broker outs s" and "request_of sid a (bk_store s) = Some r" and "br_state r = Request_Submitted"
    and "br_mutating r" and "request_of sid b (bk_store s) = Some q" and "br_mutating q" and "a \<noteq> b"
  shows "br_state q \<noteq> Request_Submitted"
proof
  assume q: "br_state q = Request_Submitted"
  note inv = reachable_inv [OF assms(1)]
  obtain l where "live_of sid s = Some l" "hd (lv_mutations l) = a" by (rule submitted_first [OF inv assms(2-4)])
  moreover obtain l' where "live_of sid s = Some l'" "hd (lv_mutations l') = b" by (rule submitted_first [OF inv assms(5) q assms(6)])
  ultimately show False using assms(7) by simp
qed

theorem mutations_serialized_witness: "br_state (example_record ''4'' ''b'') \<noteq> Request_Submitted"
  using mutations_serialized [OF example_launched_run, of "''s''" "''a''" "example_submitted" "''b''" "example_record ''4'' ''b''"]
    example_launched_value
  by (simp add: request_of_def lookup_row_def request_key_def example_record_def example_submitted_def)

text \<open>
  The count of a session is the number of its executions, it never exceeds the configured maximum, and this is at least 1 and at
  most 8, whatever is configured.
\<close>

lemma active_bounded:
  assumes "broker_run cfg new_broker outs s" and "live_of sid s = Some l"
  shows "lv_activeCount l = length (filter (\<lambda>t. bt_session t = sid) (bk_tasks s)) \<and>
    int (lv_activeCount l) \<le> maxActiveRequests cfg \<and> 1 \<le> maxActiveRequests cfg \<and> maxActiveRequests cfg \<le> 8"
  using inv_liveD [OF reachable_inv [OF assms(1)] assms(2)]
  by (auto simp: live_ok_def tasks_of_def maxActiveRequests_def MAX_ACTIVE_BROKER_REQUESTS_def split: option.splits)

lemma active_bounded_witness: "\<exists>l. live_of ''s'' (snd example_launched) = Some l \<and> lv_activeCount l = 2"
proof -
  obtain l where l: "live_of ''s'' (snd example_launched) = Some l" using example_launched_at
    by (auto simp: example_at_def live_of_def lookup_row_def lv_id_def new_live_def example_session_def)
  then show ?thesis using active_bounded [OF example_launched_run l] example_launched_value by (simp add: example_task_def)
qed

text \<open>
  C36: A client is told that its request is completed only when it is recorded as completed, whether it is told at the end of the
  execution, when it asks again or when it was cancelled meanwhile.
\<close>

theorem no_false_completion:
  assumes "broker_run cfg new_broker outs s" and "broker_step cfg s news s'" and "Responded sid rid response \<in> set news"
    and "tr_status response = Tool_Completed"
  shows "\<exists>r. request_of sid rid (bk_store s') = Some r \<and> br_state r = Request_Completed"
  using step_output [OF assms(2) reachable_inv [OF assms(1)] assms(3)] assms(4) by simp

theorem no_false_completion_witness:
  "\<exists>r. request_of ''s'' ''a'' (bk_store (snd (example_goes_on Reported_Activity example_reporting))) = Some r \<and>
     br_state r = Request_Completed"
proof -
  obtain outs where "broker_run example_config new_broker outs example_reporting" using example_reporting_run by blast
  then show ?thesis
    by (rule no_false_completion [OF _ example_response_step, of _ "''s''" "''a''" example_response])
      (simp_all add: example_response_def completed_response_def)
qed

text \<open>
  C37: The broker never gets stuck: from every state it can reach there is a way for it to go on after which no execution is left and
  every one that was under way, also those that waited in the queue of a session, was answered or failed.
\<close>

theorem broker_drains:
  assumes "broker_run cfg new_broker outs s"
  shows "\<exists>news s'. broker_run cfg s news s' \<and> bk_tasks s' = [] \<and> list_all (\<lambda>t.
    Execution_Failed (bt_session t) (tq_request_id (bt_request t)) \<in> set news \<or>
    (\<exists>response. Responded (bt_session t) (tq_request_id (bt_request t)) response \<in> set news)) (bk_tasks s)"
proof -
  have "queued_ok (bk_tasks s)" using broker_run_queued [OF assms] by (simp add: new_broker_def)
  then show ?thesis using all_end [OF reachable_inv [OF assms]] by (simp add: list_all_iff task_rid_def)
qed

theorem broker_drains_witness:
  "\<exists>news s'. broker_run example_config (snd example_launched) news s' \<and>
     (Execution_Failed ''s'' ''b'' \<in> set news \<or> (\<exists>response. Responded ''s'' ''b'' response \<in> set news))"
  using broker_drains [OF example_launched_run] example_launched_value by (fastforce simp: example_task_def)

text \<open>
  A restart of the worker settles every request: one that was launched and mutates becomes uncertain, one that was launched and
  does not or was not launched becomes cancelled, settled ones stay as they are; every session is closed, and nothing is live.
\<close>

lemma restart_settles:
  "bk_live (restart_broker now s) = [] \<and> bk_tasks (restart_broker now s) = [] \<and>
   list_all (\<lambda>row. bs_state row = Session_Closed) (st_sessions (bk_store (restart_broker now s))) \<and>
   map_option (\<lambda>r. (br_state r, br_error_code r)) (request_of sid rid (bk_store (restart_broker now s))) =
     map_option (\<lambda>r. if br_state r = Request_Submitted \<and> br_mutating r then (Request_Uncertain, Some ''broker_request_outcome_uncertain'')
       else if br_state r \<in> {Request_Not_Submitted, Request_Submitted} then (Request_Cancelled, Some ''broker_transport_lost'')
       else (br_state r, br_error_code r)) (request_of sid rid (bk_store s))"
proof -
  have "list_all (\<lambda>row. bs_state row = Session_Closed) (st_sessions (reconcileRestart now (bk_store s)))"
    by (auto simp: reconcileRestart_def update_where_def list_all_iff)
  then show ?thesis
    by (cases "request_of sid rid (bk_store s)")
      (auto simp: restart_broker_def request_of_restart settle_def unsettled_def)
qed

section \<open>Further behaviour\<close>

text \<open>The outcome of a mutation that was launched is never claimed without evidence.\<close>

lemma mutation_outcome_uncertain:
  "claim_of error = Claims_Nothing \<Longrightarrow> fst (classifyExecutionError error True True) = Certainty_Uncertain"
  "claim_of error \<in> {Claims_Ambiguous, Claims_Uncertain} \<Longrightarrow> fst (classifyExecutionError error process True) = Certainty_Uncertain"
  "fst (classifyExecutionError error process False) \<noteq> Certainty_Uncertain"
  by (auto simp: classifyExecutionError_def Let_def split: thrown.split prod.split)

text \<open>
  A request that is asked again while it is carried out is answered as one that was not submitted, although its process
  was launched and may have effects: \<^verbatim>\<open>responseForSettled\<close> has no case for the state \<^verbatim>\<open>submitted\<close>.
\<close>

lemma duplicate_in_flight:
  assumes "request_of (lv_id l) (tq_request_id request) (bk_store s) = Some r" and "br_state r = Request_Submitted"
    and "br_error_code r = None" and "br_request_digest r = bc_digest cfg (stringify (request_value request))"
    and "map_of (lv_completed l) (tq_request_id request) = None"
  shows "\<exists>answer. execute cfg now authority l request s = ([Responded (lv_id l) (tq_request_id request) answer], s) \<and>
    tr_status answer = Tool_Rejected \<and> tr_certainty answer = Certainly_Not_Submitted"
  using assms by (simp add: execute_def responseForSettled_def rejected_response_def error_response_def Let_def)

text \<open>
  A request that settles while its process is being cancelled: \<^verbatim>\<open>cancel\<close> fails, as neither the cancellation nor the
  uncertainty can be recorded, instead of answering with the outcome.
\<close>

lemma cancel_race:
  assumes "request_of sid rid (bk_store s) = Some r" and "br_state r = Request_Completed"
  shows "fst (cancel_continues now ok (sid, rid) s) = [Cancel_Answered sid rid None]"
  using assms by (simp add: cancel_continues_def cancelled_def uncertain_def transition_def Let_def split: if_split)

end
