(* ===== verification/Account_Availability.thy ===== *)
theory Account_Availability
  imports Harness_Identity
begin

text \<open>
  The evidence of which models a provider account can use (\<^verbatim>\<open>harnesses/account-availability.ts\<close>): a JSON file with at
  most 256 records, each with what was observed, when, and until when it counts. The operations run one after the
  other; a read of the file and its replacement are one step. \<open>parse_date\<close> is \<^verbatim>\<open>Date.parse\<close> (\<open>None\<close> is \<^verbatim>\<open>NaN\<close>),
  \<open>iso_text\<close> is \<^verbatim>\<open>toISOString\<close>, \<open>collate\<close> the comparison of \<^verbatim>\<open>localeCompare\<close>, read as "not greater".
\<close>

section \<open>Evidence\<close>

definition ACCOUNT_AVAILABILITY_SCHEMA_VERSION :: int where "ACCOUNT_AVAILABILITY_SCHEMA_VERSION = 1"

definition ACCOUNT_AVAILABILITY_TTL_MS :: int where "ACCOUNT_AVAILABILITY_TTL_MS = 7 * 24 * 60 * 60 * 1000"

definition MAX_EVIDENCE_TTL_MS :: int where "MAX_EVIDENCE_TTL_MS = 30 * 24 * 60 * 60 * 1000"

definition MAX_EVIDENCE_RECORDS :: nat where "MAX_EVIDENCE_RECORDS = 256"

record availability_context =
  ac_accountScope :: string
  ac_authGeneration :: string
  ac_profileId :: string
  ac_profileDigest :: string

datatype account_availability = Verified_Available | Verified_Unavailable | Unknown_Availability

datatype evidence_source = Direct_Success | Direct_Rejection | Preserved_Success | Preserved_Rejection

fun availability_text :: "account_availability \<Rightarrow> string" where
  "availability_text Verified_Available = ''verified_available''"
| "availability_text Verified_Unavailable = ''verified_unavailable''"
| "availability_text Unknown_Availability = ''unknown''"

fun evidence_source_text :: "evidence_source \<Rightarrow> string" where
  "evidence_source_text Direct_Success = ''direct_execution_success''"
| "evidence_source_text Direct_Rejection = ''direct_provider_rejection''"
| "evidence_source_text Preserved_Success = ''preserved_execution_success''"
| "evidence_source_text Preserved_Rejection = ''preserved_provider_rejection''"

text \<open>A decoded record is the object that was read.\<close>

type_synonym evidence = "(string \<times> json) list"

definition evidence_text :: "evidence \<Rightarrow> string \<Rightarrow> string" where
  "evidence_text r k = (case member r k of Some (JStr s) \<Rightarrow> s | _ \<Rightarrow> [])"

datatype evidence_error =
    Evidence_Not_Object | Evidence_Field string | Evidence_Identity | Evidence_State | Evidence_Source
  | Evidence_Lifetime | Document_Not_Object | Document_Schema | Document_Records | File_Unreadable

definition isNonEmptyString :: "json option \<Rightarrow> bool" where
  "isNonEmptyString v = (case v of Some (JStr s) \<Rightarrow> s \<noteq> [] | _ \<Rightarrow> False)"

definition lower_hex :: "char \<Rightarrow> bool" where
  "lower_hex c = (let n = (of_char c :: nat) in (48 \<le> n \<and> n \<le> 57) \<or> (97 \<le> n \<and> n \<le> 102))"

definition sha256_text :: "string \<Rightarrow> bool" where
  "sha256_text s \<longleftrightarrow> length s = 64 \<and> list_all lower_hex s"

definition profile_digest_text :: "string \<Rightarrow> bool" where
  "profile_digest_text s \<longleftrightarrow> take 7 s = ''sha256:'' \<and> sha256_text (drop 7 s)"

definition safe_identifier :: "string \<Rightarrow> bool" where
  "safe_identifier s \<longleftrightarrow> 1 \<le> length s \<and> length s \<le> 128 \<and>
     list_all (\<lambda>c. let n = (of_char c :: nat) in (65 \<le> n \<and> n \<le> 90) \<or> (97 \<le> n \<and> n \<le> 122) \<or> (48 \<le> n \<and> n \<le> 57) \<or>
       c \<in> set ''@._:/-'') s"

definition evidence_strings :: "string list" where
  "evidence_strings = [''accountScope'', ''authGeneration'', ''profileId'', ''profileDigest'', ''provider'', ''model'',
     ''observedAt'', ''expiresAt'', ''source'']"

definition valid_lifetime :: "(string \<Rightarrow> int option) \<Rightarrow> evidence \<Rightarrow> bool" where
  "valid_lifetime parse_date r =
     (case (parse_date (evidence_text r ''observedAt''), parse_date (evidence_text r ''expiresAt'')) of
        (Some observedAt, Some expiresAt) \<Rightarrow> expiresAt > observedAt \<and> expiresAt - observedAt \<le> MAX_EVIDENCE_TTL_MS
      | _ \<Rightarrow> False)"

definition decodeEvidence :: "(string \<Rightarrow> int option) \<Rightarrow> json \<Rightarrow> evidence_error + evidence" where
  "decodeEvidence parse_date v =
     (case v of
        JObj r \<Rightarrow>
          (case List.find (\<lambda>k. \<not> isNonEmptyString (member r k)) evidence_strings of
             Some k \<Rightarrow> Inl (Evidence_Field k)
           | None \<Rightarrow>
               if \<not> sha256_text (evidence_text r ''accountScope'') \<or> \<not> sha256_text (evidence_text r ''authGeneration'') \<or>
                  \<not> profile_digest_text (evidence_text r ''profileDigest'') \<or> \<not> safe_identifier (evidence_text r ''profileId'') \<or>
                  \<not> safe_identifier (evidence_text r ''provider'') \<or> \<not> safe_identifier (evidence_text r ''model'')
               then Inl Evidence_Identity
               else if member r ''state'' \<notin> {Some (JStr (availability_text Verified_Available)), Some (JStr (availability_text Verified_Unavailable))}
               then Inl Evidence_State
               else if evidence_text r ''source'' \<notin> set (map evidence_source_text [Direct_Success, Direct_Rejection, Preserved_Success, Preserved_Rejection])
               then Inl Evidence_Source
               else if \<not> valid_lifetime parse_date r then Inl Evidence_Lifetime
               else Inr r)
      | _ \<Rightarrow> Inl Evidence_Not_Object)"

fun decode_records :: "(string \<Rightarrow> int option) \<Rightarrow> json list \<Rightarrow> evidence_error + evidence list" where
  "decode_records parse_date [] = Inr []"
| "decode_records parse_date (v # vs) =
     bind_result (decodeEvidence parse_date v) (\<lambda>r. bind_result (decode_records parse_date vs) (\<lambda>rs. Inr (r # rs)))"

text \<open>A document is its records: the version is fixed.\<close>

definition decodeDocument :: "(string \<Rightarrow> int option) \<Rightarrow> json \<Rightarrow> evidence_error + evidence list" where
  "decodeDocument parse_date v =
     (case v of
        JObj d \<Rightarrow>
          if member d ''schemaVersion'' \<noteq> Some (JNum ACCOUNT_AVAILABILITY_SCHEMA_VERSION) then Inl Document_Schema
          else (case member d ''records'' of
              Some (JArr vs) \<Rightarrow> if length vs > MAX_EVIDENCE_RECORDS then Inl Document_Records else decode_records parse_date vs
            | _ \<Rightarrow> Inl Document_Records)
      | _ \<Rightarrow> Inl Document_Not_Object)"

definition document_value :: "evidence list \<Rightarrow> json" where
  "document_value records = JObj [(''schemaVersion'', JNum ACCOUNT_AVAILABILITY_SCHEMA_VERSION), (''records'', JArr (map JObj records))]"

definition sameContext :: "evidence \<Rightarrow> availability_context \<Rightarrow> bool" where
  "sameContext r c \<longleftrightarrow> evidence_text r ''accountScope'' = ac_accountScope c \<and> evidence_text r ''authGeneration'' = ac_authGeneration c \<and>
     evidence_text r ''profileId'' = ac_profileId c \<and> evidence_text r ''profileDigest'' = ac_profileDigest c"

definition recordKey :: "evidence \<Rightarrow> string" where
  "recordKey r = join [CHR 0x00] [evidence_text r ''accountScope'', evidence_text r ''authGeneration'', evidence_text r ''profileId'',
     evidence_text r ''profileDigest'', evidence_text r ''provider'', evidence_text r ''model'']"

text \<open>The dates of decoded records can be read.\<close>

definition observed :: "(string \<Rightarrow> int option) \<Rightarrow> evidence \<Rightarrow> int" where
  "observed parse_date r = the (parse_date (evidence_text r ''observedAt''))"

definition expires :: "(string \<Rightarrow> int option) \<Rightarrow> evidence \<Rightarrow> int" where
  "expires parse_date r = the (parse_date (evidence_text r ''expiresAt''))"

definition latestRecords ::
  "(string \<Rightarrow> int option) \<Rightarrow> (string \<Rightarrow> string \<Rightarrow> bool) \<Rightarrow> evidence list \<Rightarrow> evidence list" where
  "latestRecords parse_date collate records =
     sort_by (\<lambda>a b. collate (recordKey a) (recordKey b))
       (take MAX_EVIDENCE_RECORDS (sort_by (\<lambda>a b. observed parse_date b - observed parse_date a \<le> 0) records))"

definition newAccountAvailabilityEvidence ::
  "(int \<Rightarrow> string) \<Rightarrow> availability_context \<Rightarrow> string \<Rightarrow> string \<Rightarrow> account_availability \<Rightarrow> evidence_source \<Rightarrow> int \<Rightarrow> evidence" where
  "newAccountAvailabilityEvidence iso_text c provider model state source observedAt =
     [(''accountScope'', JStr (ac_accountScope c)), (''authGeneration'', JStr (ac_authGeneration c)),
      (''profileId'', JStr (ac_profileId c)), (''profileDigest'', JStr (ac_profileDigest c)),
      (''provider'', JStr provider), (''model'', JStr model), (''state'', JStr (availability_text state)),
      (''source'', JStr (evidence_source_text source)), (''observedAt'', JStr (iso_text observedAt)),
      (''expiresAt'', JStr (iso_text (observedAt + ACCOUNT_AVAILABILITY_TTL_MS)))]"

section \<open>The store\<close>

text \<open>\<open>Json_File\<close> holds the value of the text; \<open>Other_File\<close> is one that cannot be read or is no JSON.\<close>

datatype evidence_file = No_File | Other_File | Json_File json

record evidence_env =
  ee_parse_date :: "string \<Rightarrow> int option"
  ee_collate :: "string \<Rightarrow> string \<Rightarrow> bool"

definition readDocument :: "evidence_env \<Rightarrow> evidence_file \<Rightarrow> evidence_error + evidence list" where
  "readDocument env f =
     (case f of No_File \<Rightarrow> Inr [] | Other_File \<Rightarrow> Inl File_Unreadable | Json_File v \<Rightarrow> decodeDocument (ee_parse_date env) v)"

text \<open>\<open>ok\<close> tells whether the new text could be written and renamed into place; otherwise the file is as it was.\<close>

definition writeDocument :: "bool \<Rightarrow> evidence list \<Rightarrow> evidence_file \<Rightarrow> (evidence_error + unit) \<times> evidence_file" where
  "writeDocument ok records f = (if ok then (Inr (), Json_File (document_value records)) else (Inl File_Unreadable, f))"

definition record_evidence ::
  "evidence_env \<Rightarrow> bool \<Rightarrow> json \<Rightarrow> evidence_file \<Rightarrow> (evidence_error + unit) \<times> evidence_file" where
  "record_evidence env ok v f =
     (case decodeEvidence (ee_parse_date env) v of
        Inl e \<Rightarrow> (Inl e, f)
      | Inr decoded \<Rightarrow>
          (case readDocument env f of
             Inl e \<Rightarrow> (Inl e, f)
           | Inr records \<Rightarrow>
               let key = recordKey decoded; previous = List.find (\<lambda>r. recordKey r = key) records in
               if previous \<noteq> None \<and> observed (ee_parse_date env) (the previous) > observed (ee_parse_date env) decoded then (Inr (), f)
               else writeDocument ok (latestRecords (ee_parse_date env) (ee_collate env)
                 (filter (\<lambda>r. recordKey r \<noteq> key) records @ [decoded])) f))"

text \<open>A JavaScript \<^verbatim>\<open>Map\<close>: a key keeps the place where it was first set.\<close>

fun map_set :: "'k \<Rightarrow> 'v \<Rightarrow> ('k \<times> 'v) list \<Rightarrow> ('k \<times> 'v) list" where
  "map_set k v [] = [(k, v)]"
| "map_set k v (x # xs) = (if fst x = k then (k, v) # xs else x # map_set k v xs)"

definition new_map :: "('k \<times> 'v) list \<Rightarrow> ('k \<times> 'v) list" where
  "new_map xs = foldl (\<lambda>m x. map_set (fst x) (snd x) m) [] xs"

definition import_record :: "(string \<Rightarrow> int option) \<Rightarrow> (string \<times> evidence) list \<Rightarrow> evidence \<Rightarrow> (string \<times> evidence) list" where
  "import_record parse_date m r =
     (case map_of m (recordKey r) of
        Some previous \<Rightarrow> if observed parse_date r \<ge> observed parse_date previous then map_set (recordKey r) r m else m
      | None \<Rightarrow> map_set (recordKey r) r m)"

text \<open>\<open>imported\<close> is the value of the imported file, \<open>None\<close> when it cannot be read.\<close>

definition importFile ::
  "evidence_env \<Rightarrow> bool \<Rightarrow> json option \<Rightarrow> evidence_file \<Rightarrow> (evidence_error + unit) \<times> evidence_file" where
  "importFile env ok imported f =
     (case (case imported of None \<Rightarrow> Inl File_Unreadable | Some v \<Rightarrow> decodeDocument (ee_parse_date env) v) of
        Inl e \<Rightarrow> (Inl e, f)
      | Inr news \<Rightarrow>
          (case readDocument env f of
             Inl e \<Rightarrow> (Inl e, f)
           | Inr records \<Rightarrow>
               let m = foldl (import_record (ee_parse_date env)) (new_map (map (\<lambda>r. (recordKey r, r)) records)) news in
               writeDocument ok (latestRecords (ee_parse_date env) (ee_collate env) (map snd m)) f))"

definition recheck ::
  "evidence_env \<Rightarrow> bool \<Rightarrow> availability_context \<Rightarrow> string \<Rightarrow> string \<Rightarrow> evidence_file \<Rightarrow> (evidence_error + unit) \<times> evidence_file" where
  "recheck env ok c provider model f =
     (case readDocument env f of
        Inl e \<Rightarrow> (Inl e, f)
      | Inr records \<Rightarrow> writeDocument ok (filter (\<lambda>r. \<not> (sameContext r c \<and> evidence_text r ''provider'' = provider \<and>
          evidence_text r ''model'' = model)) records) f)"

definition evidence_state :: "evidence option \<Rightarrow> account_availability" where
  "evidence_state r = (case r of None \<Rightarrow> Unknown_Availability
     | Some e \<Rightarrow> if evidence_text e ''state'' = availability_text Verified_Available then Verified_Available else Verified_Unavailable)"

text \<open>Of a model only its provider and name matter; the answer is the availability of each.\<close>

definition annotate ::
  "evidence_env \<Rightarrow> bool \<Rightarrow> (string \<times> string) list \<Rightarrow> availability_context \<Rightarrow> int \<Rightarrow> evidence_file \<Rightarrow>
   (evidence_error + account_availability list) \<times> evidence_file" where
  "annotate env ok models c now f =
     (case readDocument env f of
        Inl e \<Rightarrow> (Inl e, f)
      | Inr records \<Rightarrow>
          let unexpired = filter (\<lambda>r. expires (ee_parse_date env) r > now) records;
              (written, f') = (if length unexpired \<noteq> length records then writeDocument ok unexpired f else (Inr (), f));
              current_evidence = new_map (map (\<lambda>r. (evidence_text r ''provider'' @ [CHR 0x00] @ evidence_text r ''model'', r))
                (filter (\<lambda>r. sameContext r c) unexpired))
          in case written of
               Inl e \<Rightarrow> (Inl e, f')
             | Inr u \<Rightarrow> (Inr (map (\<lambda>(provider, model). evidence_state (map_of current_evidence (provider @ [CHR 0x00] @ model))) models), f'))"

section \<open>Histories\<close>

datatype evidence_op =
    Record_Evidence json
  | Import_Evidence "json option"
  | Recheck_Evidence availability_context string string
  | Annotate_Models "(string \<times> string) list" availability_context int

fun evidence_step :: "evidence_env \<Rightarrow> evidence_op \<times> bool \<Rightarrow> evidence_file \<Rightarrow> evidence_file" where
  "evidence_step env (Record_Evidence v, ok) f = snd (record_evidence env ok v f)"
| "evidence_step env (Import_Evidence v, ok) f = snd (importFile env ok v f)"
| "evidence_step env (Recheck_Evidence c provider model, ok) f = snd (recheck env ok c provider model f)"
| "evidence_step env (Annotate_Models models c now, ok) f = snd (annotate env ok models c now f)"

definition evidence_run :: "evidence_env \<Rightarrow> (evidence_op \<times> bool) list \<Rightarrow> evidence_file \<Rightarrow> evidence_file" where
  "evidence_run env ops f = fold (evidence_step env) ops f"

end
