(* ===== verification/Availability_Properties.thy ===== *)
theory Availability_Properties
  imports Account_Availability
begin

text \<open>
  What the evidence file of account availability promises: every file it writes can be read, holds at most 256 valid
  records, one for a key, and is what a map from keys to the newest evidence would hold, up to the oldest records
  beyond the bound; and a model is called available exactly on evidence that counts.
\<close>

section \<open>Maps of records\<close>

definition keyed :: "evidence list \<Rightarrow> string \<Rightarrow> evidence option" where
  "keyed rs k = lookup_row recordKey k rs"

lemma keyed_iff: "distinct (map recordKey rs) \<Longrightarrow> keyed rs k = Some r \<longleftrightarrow> r \<in> set rs \<and> recordKey r = k"
  using lookup_row_mem [of recordKey rs r] lookup_row_SomeD [of recordKey k rs r] by (auto simp: keyed_def)

lemma keyed_None: "keyed rs k = None \<longleftrightarrow> k \<notin> recordKey ` set rs"
  by (simp add: keyed_def lookup_row_None_iff)

lemma keyed_eqI:
  assumes "distinct (map recordKey rs)" and "distinct (map recordKey rs')" and "set rs = set rs'" shows "keyed rs = keyed rs'"
proof
  fix k show "keyed rs k = keyed rs' k"
    using keyed_iff [OF assms(1), of k] keyed_iff [OF assms(2), of k] assms(3) by (cases "keyed rs k"; cases "keyed rs' k") auto
qed

text \<open>A map whose keys are those of the records it holds.\<close>

definition record_map :: "(string \<times> evidence) list \<Rightarrow> bool" where
  "record_map m \<longleftrightarrow> distinct (map fst m) \<and> (\<forall>(k, r) \<in> set m. k = recordKey r)"

lemma map_set_fst: "map fst (map_set k v m) = (if k \<in> fst ` set m then map fst m else map fst m @ [k])"
  by (induction m) auto

lemma map_set_lookup: "map_of (map_set k v m) = (map_of m)(k \<mapsto> v)"
  by (induction m) auto

lemma map_set_mem: "x \<in> set (map_set k v m) \<Longrightarrow> x = (k, v) \<or> x \<in> set m"
  by (induction m) (auto split: if_splits)

lemma record_map_set: "record_map m \<Longrightarrow> record_map (map_set (recordKey r) r m)"
  using map_set_mem by (fastforce simp: record_map_def map_set_fst)

lemma record_map_import: "record_map m \<Longrightarrow> record_map (import_record parse_date m r)"
  by (auto simp: import_record_def record_map_set split: option.split)

lemma record_map_new: "record_map (new_map (map (\<lambda>r. (recordKey r, r)) rs))"
proof -
  have "record_map m \<Longrightarrow> record_map (foldl (\<lambda>m x. map_set (fst x) (snd x) m) m (map (\<lambda>r. (recordKey r, r)) rs))" for m
    by (induction rs arbitrary: m) (auto simp: record_map_set)
  moreover have "record_map []" by (simp add: record_map_def)
  ultimately show ?thesis unfolding new_map_def by blast
qed

lemma record_map_values:
  assumes "record_map m"
  shows "distinct (map recordKey (map snd m))" "keyed (map snd m) = map_of m"
proof -
  have eq: "map recordKey (map snd m) = map fst m" using assms by (auto simp: record_map_def)
  then show "distinct (map recordKey (map snd m))" using assms unfolding record_map_def by metis
  show "keyed (map snd m) = map_of m"
  proof
    fix k show "keyed (map snd m) k = map_of m k"
      using assms by (induction m) (auto simp: keyed_def record_map_def)
  qed
qed

lemma new_map_lookup:
  assumes "distinct (map recordKey rs)" shows "map_of (new_map (map (\<lambda>r. (recordKey r, r)) rs)) = keyed rs"
proof -
  have "map_of (foldl (\<lambda>m x. map_set (fst x) (snd x) m) m (map (\<lambda>r. (recordKey r, r)) rs)) k =
      (case keyed (rev rs) k of None \<Rightarrow> map_of m k | Some r \<Rightarrow> Some r)" for m k
    by (induction rs arbitrary: m) (auto simp: map_set_lookup keyed_def lookup_row_append split: option.splits)
  then have "map_of (new_map (map (\<lambda>r. (recordKey r, r)) rs)) = keyed (rev rs)"
    by (auto simp: new_map_def split: option.split)
  moreover have "distinct (map recordKey (rev rs))" using assms by (simp add: rev_map [symmetric])
  ultimately show ?thesis using keyed_eqI [OF _ assms] by simp
qed

section \<open>The newest records\<close>

lemma latest_mset: "mset (latestRecords parse_date collate rs) =
    mset (take MAX_EVIDENCE_RECORDS (sort_by (\<lambda>a b. observed parse_date b - observed parse_date a \<le> 0) rs))"
  by (simp add: latestRecords_def)

lemma latest_subset: "set (latestRecords parse_date collate rs) \<subseteq> set rs"
  using set_take_subset [of MAX_EVIDENCE_RECORDS "sort_by (\<lambda>a b. observed parse_date b - observed parse_date a \<le> 0) rs"]
  by (auto simp: latestRecords_def)

lemma latest_length: "length (latestRecords parse_date collate rs) = min (length rs) MAX_EVIDENCE_RECORDS"
  by (simp add: latestRecords_def min.commute)

lemma latest_distinct:
  assumes "distinct (map recordKey rs)" shows "distinct (map recordKey (latestRecords parse_date collate rs))"
proof -
  let ?sorted = "sort_by (\<lambda>a b. observed parse_date b - observed parse_date a \<le> 0) rs"
  have "mset (map recordKey ?sorted) = mset (map recordKey rs)" by simp
  then have "distinct (map recordKey ?sorted)" using assms mset_eq_imp_distinct_iff by blast
  then have "distinct (map recordKey (take MAX_EVIDENCE_RECORDS ?sorted))" by (simp add: take_map [symmetric])
  moreover have "mset (map recordKey (latestRecords parse_date collate rs)) = mset (map recordKey (take MAX_EVIDENCE_RECORDS ?sorted))"
    using latest_mset [of parse_date collate rs] by simp
  ultimately show ?thesis using mset_eq_imp_distinct_iff by blast
qed

text \<open>A record that is left out is no newer than any that is kept, and then the file is full.\<close>

lemma latest_keeps:
  assumes "r \<in> set rs" and "r \<notin> set (latestRecords parse_date collate rs)"
  shows "length (latestRecords parse_date collate rs) = MAX_EVIDENCE_RECORDS \<and>
    (\<forall>q \<in> set (latestRecords parse_date collate rs). observed parse_date r \<le> observed parse_date q)"
proof -
  let ?le = "\<lambda>a b. observed parse_date b - observed parse_date a \<le> 0"
  let ?sorted = "sort_by ?le rs" and ?n = MAX_EVIDENCE_RECORDS
  have kept: "set (latestRecords parse_date collate rs) = set (take ?n ?sorted)"
    using latest_mset by (metis set_mset_mset)
  have "set ?sorted = set (take ?n ?sorted) \<union> set (drop ?n ?sorted)"
    using set_append [of "take ?n ?sorted" "drop ?n ?sorted"] by (simp only: append_take_drop_id)
  then have r: "r \<in> set (drop ?n ?sorted)" using assms kept by auto
  have "sorted_wrt ?le (take ?n ?sorted @ drop ?n ?sorted)" unfolding append_take_drop_id by (rule sorted_sort_by) auto
  then have "\<forall>q \<in> set (take ?n ?sorted). ?le q r" using r unfolding sorted_wrt_append by blast
  moreover have "?n < length ?sorted" using r by (metis length_drop length_pos_if_in_set zero_less_diff)
  ultimately show ?thesis using kept latest_length [of parse_date collate rs] by auto
qed

section \<open>Reading what was written\<close>

definition valid_evidence :: "evidence_env \<Rightarrow> evidence \<Rightarrow> bool" where
  "valid_evidence env r \<longleftrightarrow> decodeEvidence (ee_parse_date env) (JObj r) = Inr r"

lemma decodeEvidence_result: "decodeEvidence parse_date v = Inr r \<Longrightarrow> v = JObj r"
  by (auto simp: decodeEvidence_def split: json.splits option.splits if_splits)

lemma decoded_valid: "decodeEvidence (ee_parse_date env) v = Inr r \<Longrightarrow> valid_evidence env r"
  using decodeEvidence_result unfolding valid_evidence_def by metis

lemma decode_records_valid: "decode_records (ee_parse_date env) vs = Inr rs \<Longrightarrow> list_all (valid_evidence env) rs \<and> length rs = length vs"
  by (induction vs arbitrary: rs) (auto simp: result_simps decoded_valid)

lemma decode_written: "list_all (valid_evidence env) rs \<Longrightarrow> decode_records (ee_parse_date env) (map JObj rs) = Inr rs"
  by (induction rs) (auto simp: valid_evidence_def)

definition sound_records :: "evidence_env \<Rightarrow> evidence list \<Rightarrow> bool" where
  "sound_records env rs \<longleftrightarrow> list_all (valid_evidence env) rs \<and> length rs \<le> MAX_EVIDENCE_RECORDS \<and> distinct (map recordKey rs)"

definition sound_file :: "evidence_env \<Rightarrow> evidence_file \<Rightarrow> bool" where
  "sound_file env f \<longleftrightarrow> f = No_File \<or> (\<exists>rs. f = Json_File (document_value rs) \<and> sound_records env rs)"

definition held :: "evidence_env \<Rightarrow> evidence_file \<Rightarrow> evidence list" where
  "held env f = (case readDocument env f of Inl e \<Rightarrow> [] | Inr rs \<Rightarrow> rs)"

lemma document_read: "sound_records env rs \<Longrightarrow> readDocument env (Json_File (document_value rs)) = Inr rs"
  using decode_written [of env rs]
  by (simp add: readDocument_def decodeDocument_def document_value_def member_def sound_records_def)

lemma held_document: "sound_records env rs \<Longrightarrow> held env (Json_File (document_value rs)) = rs"
  by (simp add: held_def document_read)

lemma sound_file_held: "sound_file env f \<Longrightarrow> readDocument env f = Inr (held env f) \<and> sound_records env (held env f)"
  by (auto simp: sound_file_def document_read held_document) (auto simp: held_def readDocument_def sound_records_def)

lemma decodeDocument_valid: "decodeDocument (ee_parse_date env) v = Inr rs \<Longrightarrow> list_all (valid_evidence env) rs"
  by (auto simp: decodeDocument_def dest: decode_records_valid split: json.splits option.splits if_splits)

text \<open>A write replaces the file by sound records, or leaves it as it is.\<close>

lemma write_sound:
  "sound_file env f \<Longrightarrow> sound_records env rs \<Longrightarrow> sound_file env (snd (writeDocument ok rs f))"
  by (auto simp: writeDocument_def sound_file_def)

lemma latest_sound:
  assumes "list_all (valid_evidence env) rs" and "distinct (map recordKey rs)"
  shows "sound_records env (latestRecords (ee_parse_date env) collate rs)"
  using assms latest_subset [of "ee_parse_date env" collate rs] latest_length [of "ee_parse_date env" collate rs]
    latest_distinct [OF assms(2)] by (auto simp: sound_records_def list_all_iff)

section \<open>What an operation makes of the records\<close>

lemma valid_replaced:
  assumes "sound_records env rs" and "valid_evidence env r"
  shows "list_all (valid_evidence env) (filter (\<lambda>q. recordKey q \<noteq> recordKey r) rs @ [r])"
    "distinct (map recordKey (filter (\<lambda>q. recordKey q \<noteq> recordKey r) rs @ [r]))"
  using assms by (auto simp: sound_records_def list_all_iff distinct_map_filter)

lemma import_mem: "x \<in> set (import_record parse_date m r) \<Longrightarrow> x = (recordKey r, r) \<or> x \<in> set m"
  using map_set_mem [of x "recordKey r" r m] by (auto simp: import_record_def split: option.splits if_splits)

lemma imported_mem: "x \<in> set (foldl (import_record parse_date) m news) \<Longrightarrow> x \<in> set m \<or> snd x \<in> set news"
proof (induction news arbitrary: m)
  case (Cons r news)
  then show ?case using import_mem [of x parse_date m r] by fastforce
qed simp

lemma new_map_mem: "x \<in> set (foldl (\<lambda>m x. map_set (fst x) (snd x) m) m xs) \<Longrightarrow> x \<in> set m \<or> x \<in> set xs"
proof (induction xs arbitrary: m)
  case (Cons y xs)
  then show ?case using map_set_mem [of x "fst y" "snd y" m] by fastforce
qed simp

lemma imported_map:
  "record_map m \<Longrightarrow> record_map (foldl (import_record parse_date) m news)"
  by (induction news arbitrary: m) (auto simp: record_map_import)

lemma imported_valid:
  assumes "sound_records env rs" and "list_all (valid_evidence env) news"
  shows "list_all (valid_evidence env) (map snd (foldl (import_record parse_date) (new_map (map (\<lambda>r. (recordKey r, r)) rs)) news))"
  using assms by (fastforce simp: list_all_iff sound_records_def new_map_def dest: imported_mem new_map_mem)

lemma sound_filter: "sound_records env rs \<Longrightarrow> sound_records env (filter P rs)"
  using order_trans [OF length_filter_le [of P rs]] by (simp add: sound_records_def list_all_iff distinct_map_filter)

lemma step_sound: "sound_file env f \<Longrightarrow> sound_file env (evidence_step env x f)"
proof -
  assume f: "sound_file env f"
  then have rs: "readDocument env f = Inr (held env f)" "sound_records env (held env f)" using sound_file_held by blast+
  obtain operation ok where x: "x = (operation, ok)" by (cases x)
  show ?thesis
  proof (cases operation)
    case (Record_Evidence v)
    then show ?thesis
      using f rs write_sound latest_sound valid_replaced decoded_valid x
      by (auto simp: record_evidence_def Let_def split: sum.split)
  next
    case (Import_Evidence v)
    then show ?thesis
      using f rs write_sound latest_sound [OF imported_valid [OF rs(2) decodeDocument_valid] record_map_values(1) [OF imported_map [OF record_map_new]]] x
      by (auto simp: importFile_def Let_def split: sum.split option.split)
  next
    case (Recheck_Evidence c provider model)
    then show ?thesis using f rs write_sound sound_filter x by (auto simp: recheck_def)
  next
    case (Annotate_Models models c now)
    then show ?thesis using f rs write_sound [OF f sound_filter [OF rs(2)]] x
      by (auto simp: annotate_def Let_def split: sum.split prod.split) (metis snd_conv)+
  qed
qed

lemma run_sound: "sound_file env (evidence_run env ops No_File)"
proof -
  have "sound_file env f \<Longrightarrow> sound_file env (fold (evidence_step env) ops f)" for f
    by (induction ops arbitrary: f) (auto simp: step_sound)
  then show ?thesis unfolding evidence_run_def by (simp add: sound_file_def)
qed

section \<open>The newest evidence of a key\<close>

type_synonym evidence_map = "string \<Rightarrow> evidence option"

definition newest :: "evidence_env \<Rightarrow> evidence_map \<Rightarrow> evidence \<Rightarrow> evidence_map" where
  "newest env m r = (case m (recordKey r) of
     Some previous \<Rightarrow> if observed (ee_parse_date env) previous > observed (ee_parse_date env) r then m else m(recordKey r \<mapsto> r)
   | None \<Rightarrow> m(recordKey r \<mapsto> r))"

definition restrict_evidence :: "(evidence \<Rightarrow> bool) \<Rightarrow> evidence_map \<Rightarrow> evidence_map" where
  "restrict_evidence P m = (\<lambda>k. case m k of None \<Rightarrow> None | Some r \<Rightarrow> if P r then Some r else None)"

text \<open>What an operation means: evidence is a map from keys to the newest observation.\<close>

fun evidence_meaning :: "evidence_env \<Rightarrow> evidence_op \<Rightarrow> evidence_map \<Rightarrow> evidence_map" where
  "evidence_meaning env (Record_Evidence v) m =
     (case decodeEvidence (ee_parse_date env) v of Inl e \<Rightarrow> m | Inr r \<Rightarrow> newest env m r)"
| "evidence_meaning env (Import_Evidence v) m =
     (case v of None \<Rightarrow> m | Some x \<Rightarrow> (case decodeDocument (ee_parse_date env) x of Inl e \<Rightarrow> m | Inr rs \<Rightarrow> foldl (newest env) m rs))"
| "evidence_meaning env (Recheck_Evidence c provider model) m =
     restrict_evidence (\<lambda>r. \<not> (sameContext r c \<and> evidence_text r ''provider'' = provider \<and> evidence_text r ''model'' = model)) m"
| "evidence_meaning env (Annotate_Models models c now) m = restrict_evidence (\<lambda>r. expires (ee_parse_date env) r > now) m"

definition evidence_of :: "evidence_env \<Rightarrow> evidence_file \<Rightarrow> evidence_map" where
  "evidence_of env f = keyed (held env f)"

text \<open>Up to the records beyond the bound, which are the oldest, a list of records holds a map.\<close>

definition holds_map :: "evidence_env \<Rightarrow> evidence list \<Rightarrow> evidence_map \<Rightarrow> bool" where
  "holds_map env rs m \<longleftrightarrow> (\<forall>k r. keyed rs k = Some r \<longrightarrow> m k = Some r) \<and>
     (\<forall>k r. m k = Some r \<longrightarrow> keyed rs k = Some r \<or> keyed rs k = None \<and> length rs = MAX_EVIDENCE_RECORDS \<and>
        (\<forall>q \<in> set rs. observed (ee_parse_date env) r \<le> observed (ee_parse_date env) q))"

lemma holds_keyed: "holds_map env rs (keyed rs)"
  by (simp add: holds_map_def)

lemma holds_latest:
  assumes d: "distinct (map recordKey rs)" shows "holds_map env (latestRecords (ee_parse_date env) collate rs) (keyed rs)"
proof -
  let ?l = "latestRecords (ee_parse_date env) collate rs"
  have dl: "distinct (map recordKey ?l)" by (rule latest_distinct [OF d])
  have sub: "set ?l \<subseteq> set rs" by (rule latest_subset)
  have left_out: "keyed ?l k = None" if "keyed rs k = Some r" "r \<notin> set ?l" for k r
  proof (rule ccontr)
    assume "keyed ?l k \<noteq> None"
    then obtain q where "q \<in> set ?l" "recordKey q = k" using keyed_iff [OF dl] by auto
    then have "keyed rs k = Some q" using sub keyed_iff [OF d] by auto
    then show False using that \<open>q \<in> set ?l\<close> by simp
  qed
  have "keyed ?l k = Some r \<or> keyed ?l k = None \<and> length ?l = MAX_EVIDENCE_RECORDS \<and>
      (\<forall>q \<in> set ?l. observed (ee_parse_date env) r \<le> observed (ee_parse_date env) q)" if "keyed rs k = Some r" for k r
  proof (cases "r \<in> set ?l")
    case True
    then show ?thesis using that keyed_iff [OF d] keyed_iff [OF dl] by simp
  next
    case False
    then have "r \<in> set rs" using that keyed_iff [OF d] by simp
    then show ?thesis using False that latest_keeps [of r rs "ee_parse_date env" collate] left_out by blast
  qed
  moreover have "keyed rs k = Some r" if "keyed ?l k = Some r" for k r
    using that keyed_iff [OF d, of k r] keyed_iff [OF dl, of k r] sub by blast
  ultimately show ?thesis unfolding holds_map_def by simp
qed

lemma keyed_replaced:
  "keyed (filter (\<lambda>q. recordKey q \<noteq> recordKey r) rs @ [r]) = (keyed rs)(recordKey r \<mapsto> r)"
proof -
  have "lookup_row recordKey k (filter (\<lambda>q. recordKey q \<noteq> recordKey r) rs) = (if k = recordKey r then None else lookup_row recordKey k rs)" for k
    by (induction rs) auto
  then show ?thesis by (auto simp: keyed_def lookup_row_append fun_eq_iff split: option.split)
qed

lemma keyed_filter:
  assumes d: "distinct (map recordKey rs)" shows "keyed (filter P rs) = restrict_evidence P (keyed rs)"
proof
  fix k
  have d': "distinct (map recordKey (filter P rs))" using d by (simp add: distinct_map_filter)
  show "keyed (filter P rs) k = restrict_evidence P (keyed rs) k"
  proof (cases "keyed rs k")
    case None
    then have "keyed (filter P rs) k = None" by (auto simp: keyed_None)
    then show ?thesis using None by (simp add: restrict_evidence_def)
  next
    case (Some r)
    then have r: "r \<in> set rs" "recordKey r = k" using keyed_iff [OF d] by auto
    show ?thesis
    proof (cases "P r")
      case True
      then have "keyed (filter P rs) k = Some r" using r keyed_iff [OF d'] by simp
      then show ?thesis using Some True by (simp add: restrict_evidence_def)
    next
      case False
      have "k \<notin> recordKey ` set (filter P rs)" using r False distinct_keys_unique [OF d] by fastforce
      then have "keyed (filter P rs) k = None" using keyed_None [of "filter P rs" k] by blast
      then show ?thesis using Some False by (simp add: restrict_evidence_def)
    qed
  qed
qed

lemma import_newest: "map_of (import_record (ee_parse_date env) m r) = newest env (map_of m) r"
  by (auto simp: import_record_def newest_def map_set_lookup not_less split: option.split)

lemma imports_newest: "map_of (foldl (import_record (ee_parse_date env)) m news) = foldl (newest env) (map_of m) news"
  by (induction news arbitrary: m) (simp_all add: import_newest)

section \<open>Operations and their meaning\<close>

lemma held_written:
  "sound_records env rs \<Longrightarrow> held env (snd (writeDocument True rs f)) = rs"
  by (simp add: writeDocument_def held_document)

lemma record_refines:
  assumes f: "sound_file env f"
  shows "holds_map env (held env (evidence_step env (Record_Evidence v, True) f)) (evidence_meaning env (Record_Evidence v) (evidence_of env f))"
proof (cases "decodeEvidence (ee_parse_date env) v")
  case (Inl e)
  then show ?thesis by (simp add: record_evidence_def evidence_of_def holds_keyed)
next
  case (Inr r)
  note rs = sound_file_held [OF f]
  have r: "valid_evidence env r" by (rule decoded_valid [OF Inr])
  let ?new = "filter (\<lambda>q. recordKey q \<noteq> recordKey r) (held env f) @ [r]"
  have new: "list_all (valid_evidence env) ?new" "distinct (map recordKey ?new)" using valid_replaced [of env "held env f"] rs r by blast+
  have kept: "List.find (\<lambda>q. recordKey q = recordKey r) (held env f) = evidence_of env f (recordKey r)"
    by (simp add: evidence_of_def keyed_def lookup_row_def)
  show ?thesis
  proof (cases "\<exists>p. evidence_of env f (recordKey r) = Some p \<and> observed (ee_parse_date env) p > observed (ee_parse_date env) r")
    case True
    then show ?thesis using Inr rs kept holds_keyed by (auto simp: record_evidence_def Let_def newest_def evidence_of_def)
  next
    case False
    then have "evidence_meaning env (Record_Evidence v) (evidence_of env f) = keyed ?new"
      using Inr by (auto simp: newest_def keyed_replaced evidence_of_def split: option.split)
    moreover have "evidence_step env (Record_Evidence v, True) f = snd (writeDocument True (latestRecords (ee_parse_date env) (ee_collate env) ?new) f)"
      using False Inr rs kept by (auto simp: record_evidence_def Let_def)
    ultimately show ?thesis using holds_latest [OF new(2)] held_written [OF latest_sound [OF new]] by simp
  qed
qed

lemma import_refines:
  assumes f: "sound_file env f"
  shows "holds_map env (held env (evidence_step env (Import_Evidence v, True) f)) (evidence_meaning env (Import_Evidence v) (evidence_of env f))"
proof (cases v)
  case None
  then show ?thesis by (simp add: importFile_def evidence_of_def holds_keyed)
next
  case (Some x)
  show ?thesis
  proof (cases "decodeDocument (ee_parse_date env) x")
    case (Inl e)
    then show ?thesis using Some by (simp add: importFile_def evidence_of_def holds_keyed)
  next
    case (Inr news)
    note rs = sound_file_held [OF f]
    let ?m = "foldl (import_record (ee_parse_date env)) (new_map (map (\<lambda>r. (recordKey r, r)) (held env f))) news"
    have m: "record_map ?m" by (rule imported_map [OF record_map_new])
    have valid: "list_all (valid_evidence env) (map snd ?m)" using imported_valid [OF _ decodeDocument_valid [OF Inr]] rs by blast
    have "map_of ?m = foldl (newest env) (evidence_of env f) news"
      using rs by (simp add: imports_newest new_map_lookup sound_records_def evidence_of_def)
    then have "keyed (map snd ?m) = evidence_meaning env (Import_Evidence v) (evidence_of env f)"
      using record_map_values(2) [OF m] Some Inr by simp
    then show ?thesis using holds_latest [OF record_map_values(1) [OF m]] held_written [OF latest_sound [OF valid record_map_values(1) [OF m]]] Some Inr rs
      by (simp add: importFile_def Let_def)
  qed
qed

lemma filter_refines:
  assumes "sound_file env f"
  shows "holds_map env (held env (snd (writeDocument True (filter P (held env f)) f))) (restrict_evidence P (evidence_of env f))"
  using sound_file_held [OF assms] held_written [OF sound_filter] holds_keyed [of env "filter P (held env f)"]
  by (simp add: evidence_of_def keyed_filter sound_records_def)

lemma step_refines:
  assumes f: "sound_file env f"
  shows "holds_map env (held env (evidence_step env (operation, True) f)) (evidence_meaning env operation (evidence_of env f))"
proof (cases operation)
  case (Recheck_Evidence c provider model)
  then show ?thesis using filter_refines [OF f] sound_file_held [OF f] by (simp add: recheck_def)
next
  case (Annotate_Models models c now)
  note rs = sound_file_held [OF f]
  let ?P = "\<lambda>r. now < expires (ee_parse_date env) r"
  show ?thesis
  proof (cases "length (filter ?P (held env f)) = length (held env f)")
    case True
    then have "filter ?P (held env f) = held env f" by (metis filter_id_conv length_filter_less less_irrefl)
    then have "restrict_evidence ?P (evidence_of env f) = evidence_of env f"
      using rs keyed_filter [of "held env f" ?P] by (simp add: evidence_of_def sound_records_def)
    then show ?thesis using Annotate_Models True rs holds_keyed by (simp add: annotate_def Let_def evidence_of_def)
  next
    case False
    then show ?thesis using Annotate_Models rs filter_refines [OF f, of ?P]
      by (simp add: annotate_def Let_def writeDocument_def)
  qed
qed (use record_refines import_refines f in blast)+

section \<open>Annotation\<close>

definition counts_for :: "evidence_env \<Rightarrow> availability_context \<Rightarrow> int \<Rightarrow> string \<Rightarrow> string \<Rightarrow> evidence \<Rightarrow> bool" where
  "counts_for env c now provider model r \<longleftrightarrow> sameContext r c \<and> evidence_text r ''provider'' = provider \<and>
     evidence_text r ''model'' = model \<and> expires (ee_parse_date env) r > now"

definition availability_meaning ::
  "evidence_env \<Rightarrow> availability_context \<Rightarrow> int \<Rightarrow> evidence list \<Rightarrow> string \<Rightarrow> string \<Rightarrow> account_availability" where
  "availability_meaning env c now rs provider model =
     (if list_ex (\<lambda>r. counts_for env c now provider model r \<and> evidence_text r ''state'' = ''verified_available'') rs
      then Verified_Available
      else if list_ex (counts_for env c now provider model) rs then Verified_Unavailable else Unknown_Availability)"

definition model_key :: "evidence \<Rightarrow> string" where
  "model_key r = evidence_text r ''provider'' @ [CHR 0x00] @ evidence_text r ''model''"

lemma separated: "a @ x # b = a' @ x # b' \<Longrightarrow> x \<notin> set a \<Longrightarrow> x \<notin> set b \<Longrightarrow> a = a' \<and> b = b'"
proof -
  assume "a @ x # b = a' @ x # b'" "x \<notin> set a" "x \<notin> set b"
  then show ?thesis by (auto simp: append_eq_append_conv2 append_eq_Cons_conv Cons_eq_append_conv)
qed

lemma safe_no_nul: "safe_identifier s \<Longrightarrow> CHR 0x00 \<notin> set s"
  by (auto simp: safe_identifier_def list_all_iff)

lemma valid_no_nul:
  assumes "valid_evidence env r"
  shows "CHR 0x00 \<notin> set (evidence_text r ''provider'')" "CHR 0x00 \<notin> set (evidence_text r ''model'')"
  using assms safe_no_nul by (auto simp: valid_evidence_def decodeEvidence_def split: option.splits if_splits)

lemma model_key_iff:
  "valid_evidence env r \<Longrightarrow> model_key r = provider @ [CHR 0x00] @ model \<longleftrightarrow>
    evidence_text r ''provider'' = provider \<and> evidence_text r ''model'' = model"
  using separated [of "evidence_text r ''provider''" "CHR 0x00" "evidence_text r ''model''" provider model] valid_no_nul [of env r] by (auto simp: model_key_def)

lemma same_context_key: "sameContext r c \<Longrightarrow> sameContext q c \<Longrightarrow> model_key r = model_key q \<Longrightarrow> recordKey r = recordKey q"
  by (simp add: sameContext_def recordKey_def model_key_def)

lemma new_map_last: "map_of (new_map xs) k = map_of (rev xs) k"
proof -
  have "map_of (foldl (\<lambda>m x. map_set (fst x) (snd x) m) m xs) k = (case map_of (rev xs) k of None \<Rightarrow> map_of m k | Some v \<Rightarrow> Some v)" for m
    by (induction xs arbitrary: m) (auto simp: map_set_lookup map_add_def split: option.splits)
  then show ?thesis by (auto simp: new_map_def split: option.split)
qed

lemma annotated_state:
  assumes rs: "sound_records env rs"
  shows "evidence_state (map_of (new_map (map (\<lambda>r. (model_key r, r))
      (filter (\<lambda>r. sameContext r c) (filter (\<lambda>r. expires (ee_parse_date env) r > now) rs)))) (provider @ [CHR 0x00] @ model)) =
    availability_meaning env c now rs provider model"
proof -
  let ?us = "filter (\<lambda>r. sameContext r c) (filter (\<lambda>r. expires (ee_parse_date env) r > now) rs)"
  let ?k = "provider @ [CHR 0x00] @ model"
  have mem: "r \<in> set ?us \<and> model_key r = ?k \<longleftrightarrow> r \<in> set rs \<and> counts_for env c now provider model r" for r
    using rs model_key_iff [of env r provider model] by (auto simp: sound_records_def list_all_iff counts_for_def)
  have unique: "r = q" if "r \<in> set ?us" "q \<in> set ?us" "model_key r = model_key q" for r q
    using rs that same_context_key [of r c q] distinct_keys_unique [of recordKey rs r q] by (auto simp: sound_records_def)
  show ?thesis
  proof (cases "map_of (rev (map (\<lambda>r. (model_key r, r)) ?us)) ?k")
    case None
    then have absent: "?k \<notin> model_key ` set ?us" by (auto simp: map_of_eq_None_iff image_iff)
    have "\<not> counts_for env c now provider model r" if "r \<in> set rs" for r
    proof
      assume "counts_for env c now provider model r"
      then have r: "r \<in> set ?us" "?k = model_key r" using mem [of r] that by simp_all
      have "?k \<in> model_key ` set ?us" using imageI [OF r(1), of model_key] by (simp only: r(2))
      then show False using absent by contradiction
    qed
    then show ?thesis using None by (auto simp: new_map_last availability_meaning_def evidence_state_def list_ex_iff)
  next
    case (Some r)
    then have r: "r \<in> set ?us" "model_key r = ?k" by (auto dest!: map_of_SomeD)
    then have counted: "r \<in> set rs \<and> counts_for env c now provider model r" using mem by blast
    moreover have "q = r" if "q \<in> set rs" "counts_for env c now provider model q" for q using mem [of q] unique r that by auto
    ultimately have "list_ex (\<lambda>q. counts_for env c now provider model q \<and> evidence_text q ''state'' = ''verified_available'') rs \<longleftrightarrow>
        evidence_text r ''state'' = ''verified_available''" "list_ex (counts_for env c now provider model) rs"
      unfolding list_ex_iff by blast+
    then show ?thesis using Some by (simp add: new_map_last availability_meaning_def evidence_state_def)
  qed
qed

text \<open>Evidence the worker makes is accepted, when its context and model are named properly and dates are read back.\<close>

lemma new_evidence_accepted:
  assumes "\<And>n. parse_date (iso_text n) = Some n" and "\<And>n. iso_text n \<noteq> []" and "state \<noteq> Unknown_Availability"
    and "sha256_text (ac_accountScope c)" and "sha256_text (ac_authGeneration c)" and "safe_identifier (ac_profileId c)"
    and "profile_digest_text (ac_profileDigest c)" and "safe_identifier provider" and "safe_identifier model"
  shows "decodeEvidence parse_date (JObj (newAccountAvailabilityEvidence iso_text c provider model state source observedAt)) =
    Inr (newAccountAvailabilityEvidence iso_text c provider model state source observedAt)"
proof -
  have "ac_accountScope c \<noteq> []" "ac_authGeneration c \<noteq> []" "ac_profileId c \<noteq> []" "ac_profileDigest c \<noteq> []" "provider \<noteq> []" "model \<noteq> []"
    using assms(4-9) by (auto simp: sha256_text_def safe_identifier_def profile_digest_text_def)
  then show ?thesis
    using assms by (cases state; cases source)
      (simp_all add: decodeEvidence_def newAccountAvailabilityEvidence_def evidence_strings_def isNonEmptyString_def member_def
        evidence_text_def valid_lifetime_def MAX_EVIDENCE_TTL_MS_def ACCOUNT_AVAILABILITY_TTL_MS_def)
qed

section \<open>Properties\<close>

text \<open>
  Whatever is recorded, imported, rechecked and annotated, and whichever writes fail, the evidence file can be read: it holds at
  most 256 records, each of them valid, and one for a key.
\<close>

lemma evidence_file_readable:
  "\<exists>rs. readDocument env (evidence_run env ops No_File) = Inr rs \<and> list_all (\<lambda>r. decodeEvidence (ee_parse_date env) (JObj r) = Inr r) rs \<and>
     length rs \<le> 256 \<and> distinct (map recordKey rs)"
  using sound_file_held [OF run_sound [of env ops]]
  by (auto simp: sound_records_def MAX_EVIDENCE_RECORDS_def valid_evidence_def [abs_def])

text \<open>
  C39: The evidence file implements a map from keys (account, authentication, profile, provider and model) to the newest evidence: an
  operation whose write succeeds makes of the records of a reachable file what it means for the map they hold, up to records that are
  left out because 256 others are at least as new.
\<close>

theorem evidence_refines:
  "holds_map env (held env (evidence_step env (operation, True) (evidence_run env ops No_File)))
     (evidence_meaning env operation (evidence_of env (evidence_run env ops No_File)))"
  by (rule step_refines [OF run_sound])

text \<open>
  C40: A model is annotated as available exactly when the file holds evidence of it for this very context, provider and model that has
  not expired and says so, as unavailable when such evidence says otherwise, and as unknown when there is none.
\<close>

theorem annotation_exact:
  "fst (annotate env True models c now (evidence_run env ops No_File)) =
     Inr (map (\<lambda>(provider, model). availability_meaning env c now (held env (evidence_run env ops No_File)) provider model) models)"
proof -
  note f = sound_file_held [OF run_sound [of env ops]]
  then show ?thesis
    using annotated_state [of env "held env (evidence_run env ops No_File)" c now, unfolded model_key_def]
    by (simp add: annotate_def Let_def writeDocument_def split: prod.split)
qed

end
