(* ===== verification/Spec2Isabelle.thy ===== *)
theory Spec2Isabelle
  imports Registry_Recovery Registry_Constraints Registry_Bootstrap Tactic_Loops Tactic_Validity Prompt_Fence
    Environment_Properties Control_Properties Cleanup_Histories
    Broker_Properties Availability_Properties
begin

text \<open>
  A verification library of the quest-engineering worker (\<^verbatim>\<open>src/workers/bun/src\<close>) and of the Tactic editor of its
  client (\<^verbatim>\<open>src/client/src\<close>). The server accepts Actions of a Tactic, the worker carries each one out exactly
  once: it starts a native coding harness in an execution environment, follows its turns, lets it submit a structured
  result, ask a human and use the tools of the Run workspace, and cleans the Run up. What makes this hard is what
  survives a crash: every effect outside of the worker is preceded by a durable record, and is never repeated when its
  outcome is unknown. This is what most of the properties are about.

  \<^bold>\<open>The parts and their theories.\<close>

  \<^item> Shared vocabulary: \<^theory_text>\<open>Prelude\<close> (results as sums, tables as lists of records with \<open>lookup_row\<close> and
    \<open>update_where\<close>, the locale \<open>keyed_table\<close> that every store interprets for its rows), \<^theory_text>\<open>Json\<close> (JSON
    values, \<open>stringify\<close>), \<^theory_text>\<open>Canonical_Json\<close> (the text of a value determines it, the canonical text of a value
    with printable keys up to the order of entries).
  \<^item> Messages and identities: \<^theory_text>\<open>Protocol_Types\<close> (\<^verbatim>\<open>protocol/types.ts\<close>, what the worker keeps of an Action),
    \<^theory_text>\<open>Action_Identity\<close> (what the physical configuration of an Action decides), \<^theory_text>\<open>Harness_Identity\<close> and
    \<^theory_text>\<open>Identity_Codecs\<close> (\<^verbatim>\<open>harnesses/native-session.ts\<close>, \<^verbatim>\<open>harnesses/transport-binding.ts\<close>; the locale
    \<open>stored_codec\<close>).
  \<^item> The dispatch registry (\<^verbatim>\<open>dispatch/registry.ts\<close>): \<^theory_text>\<open>Registry_State\<close> (five tables),
    \<^theory_text>\<open>Registry_Lineages\<close>, \<^theory_text>\<open>Registry_Dispatches\<close>, \<^theory_text>\<open>Registry_Attention\<close>, \<^theory_text>\<open>Registry_Transitions\<close> (its
    operations), \<^theory_text>\<open>Registry_Schema\<close> (the constraints and why every statement keeps them),
    \<^theory_text>\<open>Registry_Steps\<close> (one step for a transaction), \<^theory_text>\<open>Registry_Evolution\<close>, \<^theory_text>\<open>Attention_Evolution\<close> (what a
    step can do to a row), \<^theory_text>\<open>Registry_Examples\<close>, \<^theory_text>\<open>Registry_Properties\<close>, \<^theory_text>\<open>Registry_Ownership\<close>,
    \<^theory_text>\<open>Attention_Properties\<close>, \<^theory_text>\<open>Registry_Constraints\<close> (its checks come before the constraints),
    \<^theory_text>\<open>Registry_Recovery\<close> (handing a process over), \<^theory_text>\<open>Registry_Bootstrap\<close>
    (opening the database of a reachable state).
  \<^item> The lifecycle of a turn: \<^theory_text>\<open>Turn_Lifecycle\<close>, \<^theory_text>\<open>Turn_Properties\<close> (\<^verbatim>\<open>harnesses/turn-lifecycle.ts\<close>, the phase
    the registry reports and the conversion of provider exceptions in \<^verbatim>\<open>harnesses/types.ts\<close>).
  \<^item> Structured Step results and the control authority: \<^theory_text>\<open>Step_Results\<close>, \<^theory_text>\<open>Step_Result_Properties\<close>
    (\<^verbatim>\<open>harnesses/control/result-envelope.ts\<close>); \<^theory_text>\<open>Control_Authority\<close>, \<^theory_text>\<open>Control_Operations\<close>
    (\<^verbatim>\<open>harnesses/control/authority.ts\<close>), \<^theory_text>\<open>Control_Steps\<close>, \<^theory_text>\<open>Control_Effects\<close>, \<^theory_text>\<open>Control_History\<close>,
    \<^theory_text>\<open>Control_Responses\<close>, \<^theory_text>\<open>Control_Examples\<close>, \<^theory_text>\<open>Control_Properties\<close>. The authority runs interleaved
    with transactions of the registry.
  \<^item> Execution environments and Run cleanup: \<^theory_text>\<open>Environment_Store\<close>, \<^theory_text>\<open>Environment_Properties\<close>
    (\<^verbatim>\<open>execution-environment/store.ts\<close>, \<^verbatim>\<open>ownership.ts\<close>); \<^theory_text>\<open>Run_Cleanup\<close>, \<^theory_text>\<open>Run_Cleanup_Coordinator\<close>
    (\<^verbatim>\<open>run-cleanup-store.ts\<close>, \<^verbatim>\<open>run-cleanup.ts\<close>, \<^verbatim>\<open>execution-environment/run-cleanup.ts\<close>),
    \<^theory_text>\<open>Run_Cleanup_Properties\<close>, \<^theory_text>\<open>Cleanup_Histories\<close>.
  \<^item> The workspace tool broker: \<^theory_text>\<open>Broker_Protocol\<close>, \<^theory_text>\<open>Broker_Frames\<close> (\<^verbatim>\<open>workspace-tool-broker-protocol.ts\<close>),
    \<^theory_text>\<open>Broker_Store\<close> (\<^verbatim>\<open>workspace-tool-broker-store.ts\<close>), \<^theory_text>\<open>Broker_Results\<close>, \<^theory_text>\<open>Workspace_Broker\<close>
    (\<^verbatim>\<open>workspace-tool-broker.ts\<close>), \<^theory_text>\<open>Broker_Invariant\<close>, \<^theory_text>\<open>Broker_Steps\<close>, \<^theory_text>\<open>Broker_Progress\<close>,
    \<^theory_text>\<open>Broker_Histories\<close>, \<^theory_text>\<open>Broker_Examples\<close>, \<^theory_text>\<open>Broker_Properties\<close>. A process that uses the tools of a
    Run is authorized by an Action and by the environments above.
  \<^item> The evidence of which models an account can use: \<^theory_text>\<open>Account_Availability\<close>,
    \<^theory_text>\<open>Availability_Properties\<close> (\<^verbatim>\<open>harnesses/account-availability.ts\<close>).
  \<^item> The prompt input fence: \<^theory_text>\<open>Prompt_Fence\<close> (\<^verbatim>\<open>session-host/prompt-input-fence.ts\<close>,
    \<^verbatim>\<open>pane-process-identity.ts\<close>).
  \<^item> The Tactic editor (\<^verbatim>\<open>components/war-room/tactic-model.ts\<close>, \<^verbatim>\<open>components/management/management-key.ts\<close>):
    \<^theory_text>\<open>Tactic_Tree\<close>, \<^theory_text>\<open>Tactic_Laws\<close> (the locale of a focus on a path), \<^theory_text>\<open>Tactic_Edits\<close>,
    \<^theory_text>\<open>Tactic_Keys\<close>, \<^theory_text>\<open>Tactic_Draft\<close>, \<^theory_text>\<open>Tactic_Validation\<close>, \<^theory_text>\<open>Tactic_References\<close>,
    \<^theory_text>\<open>Tactic_Loops\<close>, \<^theory_text>\<open>Tactic_Validity\<close>.

  \<^bold>\<open>How the code is read.\<close>

  \<^item> A function that throws returns a sum, \<open>Inl\<close> the error. A method that changes a database takes and returns the
    tables; a transaction that throws leaves them as they were. A SQL constraint that fails is an error.
  \<^item> A table is the list of its rows in the order of insertion; \<^verbatim>\<open>UPDATE ... WHERE\<close> is \<open>update_where\<close>; \<^verbatim>\<open>COALESCE\<close>
    is \<open>coalesce\<close>. A column that holds JSON keeps the value (or the stored text where the code reads it back).
  \<^item> A clock reading, a fresh UUID, SHA-256, \<^verbatim>\<open>JSON.parse\<close>, \<^verbatim>\<open>Date.parse\<close> and the UTF-8 decoder are arguments; one
    reading of the clock serves one operation. What a dependency, a process or a native tool answers is an argument
    of the stretch of code that awaits it.
  \<^item> An asynchronous method is cut at its \<^verbatim>\<open>await\<close>s. What is left to do is a value of the state (a context of the
    control authority, a stage of a cleanup, a task of the broker), and the step relations let the stretches of all
    of them happen in any order, with the restarts of the worker in between. So a property of all histories covers
    every interleaving.
  \<^item> Strings are lists of characters with codes below 256, read as the code points of the text; \<open>utf8_length\<close> counts
    their bytes. Numbers of JSON are integers. Files are a list of names and contents, and \<^verbatim>\<open>path.join\<close> is
    concatenation. Objects of JSON keep the order of their entries.
  \<^item> \<^verbatim>\<open>localeCompare\<close> is the root collation of ASCII: control characters are ignored, so keys that differ in them only
    tie and stay in the order of insertion. The results on canonical texts are for values whose keys are printable ASCII.
    Other characters are ordered by code, which is not their place in the collation; no result rests on it.

  \<^bold>\<open>What is shown.\<close>

  \<^item> Registry: an Action with printable keys that is delivered again is answered with the accepted dispatch; with unused
    ids, acceptances and operations on attention requests never meet a constraint of the schema; no transaction changes
    an accepted Action or leaves the graph of statuses, and each column of a lifecycle is written once, but for the idle
    mark and the acknowledgement, whose changes are spelled out; a lineage changes its owner only by the owner, a
    recovery or an adoption; a human response is delivered at most once, and can be when its lineage is readable and it
    fits the request and the size limit; a database that the worker wrote can be opened again, except after the one oversized
    native session that \<open>Registry_Bootstrap\<close> exhibits.
  \<^item> Turns: the grace of structured completion expires exactly when it should; the reconciliation of an ambiguous
    prompt returns.
  \<^item> Control: a lineage publishes at most one result into a directory, under an authority the registry confirms; a
    response is handed to a native wait once; at most 64 waits are subscribed; the result that is collected is
    the only one and holds an envelope made for its dispatch.
  \<^item> Environments and cleanup: one current environment for an owner, one invocation of a stop, and records that never
    change what they name; a cleanup destroys in order, only what it froze, and one request
    that retries completes when its dependencies succeed and the environment was identified.
  \<^item> Broker: a request is launched at most once and only with authority, a settled record is final, mutations
    of a session do not overlap, no completion is claimed that is not recorded, and no execution is ever stuck.
  \<^item> Availability: the evidence file implements a map from keys to the newest evidence, and a model is annotated by
    exactly the evidence that counts.
  \<^item> Fence and editor: two authorities that pass the fence for one observation agree on every identity, up to
    collisions of the digest, and its result reveals no value; the listing of a Tactic is its preorder, edits lose nothing, a
    draft without issues is exactly one that meets its contract, generated keys are fresh and within their bound.

  \<^bold>\<open>Bounds.\<close> Recursions are structural or have a measure. The search for a free key (\<open>Tactic_Keys\<close>) tries the
  numbers below 10000 that the code tries and fails like the code when all are taken. The search for a free name has no
  limit in the code: it is a partial function, and shown to return. So is the reconciliation of an ambiguous prompt,
  which returns when the clock passes its deadline. No model uses fuel.

  \<^bold>\<open>Locales.\<close> \<open>keyed_table\<close> states what a lookup sees after an update and is interpreted for the rows of the registry,
  the environments, the cleanups and the requests of the broker; \<open>stored_codec\<close> what a reader makes of a written text,
  interpreted for native sessions and transport bindings; the focus of \<open>Tactic_Laws\<close> what is found where it was put,
  interpreted for the nodes of a Tactic.

  \<^bold>\<open>Not modelled.\<close> The code that talks to the world, and has no state of its own to be right about: the harness
  adapters, the terminal host and the herdr client, the sbx and provider execution environments and their credential
  helpers, the private Git object database and the worktrees of a Run, the channel to the server, the executor and the
  worker that wire the parts above together, and the set-up of provider accounts. Of the broker, the framing of the
  streamed account client, whose requests enter the model decoded, and the collection of process output. Of the client,
  everything that draws or fetches: Svelte components, the map and its animation data, the client of the API. The
  Elixir server is another program.
\<close>

end
